(* ===== verification/Prelude.thy ===== *)
theory Prelude
  imports Main "HOL-Library.Sublist"
begin

text \<open>
  Shared vocabulary of the development. A store or service method of the Go code takes the
  world it runs in, may fail, and leaves a new world: \<^typ>\<open>'s \<Rightarrow> ('e + 'a) \<times> 's\<close>. The Go
  idiom \<open>x, err := f(); if err != nil { return nil, err }\<close> is \<open>bindE\<close>; an ignored error
  (\<open>_, _ = f()\<close>) is \<open>attempt\<close>; a loop over a slice is \<open>for_each\<close>, \<open>map_each\<close> or
  \<open>fold_each\<close>; a gorm transaction is \<open>rollback\<close>. The second part holds the rules by which
  invariants and postconditions go through these combinators, and the reachability of step
  relations.
\<close>

named_theorems op_defs "definitions of the combinators of fallible stateful operations"
named_theorems pres_rules "rules that carry an invariant through the combinators"

type_synonym ('s, 'e, 'a) op = "'s \<Rightarrow> ('e + 'a) \<times> 's"

subsection \<open>Combinators\<close>

definition ret :: "'a \<Rightarrow> ('s, 'e, 'a) op" where
  "ret x = (\<lambda>s. (Inr x, s))"

definition throw :: "'e \<Rightarrow> ('s, 'e, 'a) op" where
  "throw e = (\<lambda>s. (Inl e, s))"

definition bindE :: "('s, 'e, 'a) op \<Rightarrow> ('a \<Rightarrow> ('s, 'e, 'b) op) \<Rightarrow> ('s, 'e, 'b) op" where
  "bindE m f = (\<lambda>s. case m s of (Inl e, s') \<Rightarrow> (Inl e, s') | (Inr x, s') \<Rightarrow> f x s')"

definition attempt :: "('s, 'e, 'a) op \<Rightarrow> ('s, 'e, 'e + 'a) op" where
  "attempt m = (\<lambda>s. case m s of (r, s') \<Rightarrow> (Inr r, s'))"

definition gets :: "('s \<Rightarrow> 'a) \<Rightarrow> ('s, 'e, 'a) op" where
  "gets f = (\<lambda>s. (Inr (f s), s))"

definition check :: "bool \<Rightarrow> 'e \<Rightarrow> ('s, 'e, unit) op" where
  "check b e = (if b then ret () else throw e)"

definition lift_sum :: "'e + 'a \<Rightarrow> ('s, 'e, 'a) op" where
  "lift_sum r = (\<lambda>s. (r, s))"

definition rollback :: "('s \<Rightarrow> 's \<Rightarrow> 's) \<Rightarrow> ('s, 'e, 'a) op \<Rightarrow> ('s, 'e, 'a) op" where
  "rollback undo m = (\<lambda>s. case m s of (Inl e, s') \<Rightarrow> (Inl e, undo s s') | (Inr x, s') \<Rightarrow> (Inr x, s'))"

fun for_each :: "'a list \<Rightarrow> ('a \<Rightarrow> ('s, 'e, unit) op) \<Rightarrow> ('s, 'e, unit) op" where
  "for_each [] f = ret ()"
| "for_each (x # xs) f = bindE (f x) (\<lambda>_. for_each xs f)"

fun map_each :: "'a list \<Rightarrow> ('a \<Rightarrow> ('s, 'e, 'b) op) \<Rightarrow> ('s, 'e, 'b list) op" where
  "map_each [] f = ret []"
| "map_each (x # xs) f = bindE (f x) (\<lambda>y. bindE (map_each xs f) (\<lambda>ys. ret (y # ys)))"

fun fold_each :: "'a list \<Rightarrow> 'b \<Rightarrow> ('b \<Rightarrow> 'a \<Rightarrow> ('s, 'e, 'b) op) \<Rightarrow> ('s, 'e, 'b) op" where
  "fold_each [] acc f = ret acc"
| "fold_each (x # xs) acc f = bindE (f acc x) (\<lambda>acc'. fold_each xs acc' f)"

lemmas op_base_defs = ret_def throw_def bindE_def attempt_def gets_def check_def lift_sum_def

declare ret_def [op_defs] throw_def [op_defs] bindE_def [op_defs] attempt_def [op_defs]
  gets_def [op_defs] check_def [op_defs] lift_sum_def [op_defs]

lemma ret_apply [simp]: "ret x s = (Inr x, s)"
  by (simp add: ret_def)

lemma throw_apply [simp]: "throw e s = (Inl e, s)"
  by (simp add: throw_def)

lemma gets_apply [simp]: "gets f s = (Inr (f s), s)"
  by (simp add: gets_def)

lemma lift_sum_apply [simp]: "lift_sum r s = (r, s)"
  by (simp add: lift_sum_def)

lemma check_apply [simp]: "check b e s = (if b then Inr () else Inl e, s)"
  by (simp add: check_def)

lemma bindE_ret [simp]: "bindE (ret x) f = f x"
  by (simp add: bindE_def ret_def)

lemma bindE_throw [simp]: "bindE (throw e) f = throw e"
  by (simp add: bindE_def throw_def)

lemma bindE_apply: "bindE m f s = (case fst (m s) of Inl e \<Rightarrow> (Inl e, snd (m s)) | Inr x \<Rightarrow> f x (snd (m s)))"
  by (cases "m s") (simp add: bindE_def split: sum.splits)

lemma bindE_gets [simp]: "bindE (gets g) f s = f (g s) s"
  by (simp add: bindE_def)

lemma bindE_check [simp]: "bindE (check b e) f s = (if b then f () s else (Inl e, s))"
  by (simp add: bindE_def)

lemma bindE_lift_sum_Inr [simp]: "bindE (lift_sum (Inr x)) f = f x"
  by (simp add: bindE_def lift_sum_def)

lemma bindE_lift_sum_Inl [simp]: "bindE (lift_sum (Inl e)) f = throw e"
  by (simp add: bindE_def lift_sum_def throw_def)

text \<open>A run of \<open>bindE\<close> that succeeds is a run of both parts; one that fails stops in one of them.\<close>

lemma bindE_Inr_elim:
  assumes "bindE m f s = (Inr y, s')"
  obtains x s1 where "m s = (Inr x, s1)" "f x s1 = (Inr y, s')"
  using assms by (auto simp: bindE_def split: prod.splits sum.splits)

lemma bindE_Inl_elim:
  assumes "bindE m f s = (Inl e, s')"
  obtains (first) "m s = (Inl e, s')" | (second) x s1 where "m s = (Inr x, s1)" "f x s1 = (Inl e, s')"
  using assms by (auto simp: bindE_def split: prod.splits sum.splits)

subsection \<open>Invariants through the combinators\<close>

definition preserves :: "('s \<Rightarrow> bool) \<Rightarrow> ('s, 'e, 'a) op \<Rightarrow> bool" where
  "preserves I m \<longleftrightarrow> (\<forall>s. I s \<longrightarrow> I (snd (m s)))"

lemma preservesI: "(\<And>s. I s \<Longrightarrow> I (snd (m s))) \<Longrightarrow> preserves I m"
  by (simp add: preserves_def)

lemma preservesD: "preserves I m \<Longrightarrow> I s \<Longrightarrow> I (snd (m s))"
  by (simp add: preserves_def)

lemma preserves_ret [pres_rules, simp]: "preserves I (ret x)"
  by (simp add: preserves_def)

lemma preserves_throw [pres_rules, simp]: "preserves I (throw e)"
  by (simp add: preserves_def)

lemma preserves_gets [pres_rules, simp]: "preserves I (gets f)"
  by (simp add: preserves_def)

lemma preserves_check [pres_rules, simp]: "preserves I (check b e)"
  by (simp add: preserves_def)

lemma preserves_lift_sum [pres_rules, simp]: "preserves I (lift_sum r)"
  by (simp add: preserves_def)

lemma preserves_bindE [pres_rules]:
  "preserves I m \<Longrightarrow> (\<And>x. preserves I (f x)) \<Longrightarrow> preserves I (bindE m f)"
  by (simp add: preserves_def bindE_apply split: sum.splits)

lemma preserves_attempt [pres_rules]: "preserves I m \<Longrightarrow> preserves I (attempt m)"
  by (simp add: preserves_def attempt_def split: prod.splits) (metis snd_conv)

lemma preserves_if [pres_rules]:
  "(b \<Longrightarrow> preserves I m) \<Longrightarrow> (\<not> b \<Longrightarrow> preserves I n) \<Longrightarrow> preserves I (if b then m else n)"
  by simp

lemma preserves_case_option [pres_rules]:
  "(x = None \<Longrightarrow> preserves I m) \<Longrightarrow> (\<And>y. x = Some y \<Longrightarrow> preserves I (f y)) \<Longrightarrow>
   preserves I (case x of None \<Rightarrow> m | Some y \<Rightarrow> f y)"
  by (cases x) simp_all

lemma preserves_case_sum [pres_rules]:
  "(\<And>e. x = Inl e \<Longrightarrow> preserves I (g e)) \<Longrightarrow> (\<And>y. x = Inr y \<Longrightarrow> preserves I (f y)) \<Longrightarrow>
   preserves I (case x of Inl e \<Rightarrow> g e | Inr y \<Rightarrow> f y)"
  by (cases x) simp_all

lemma preserves_case_prod [pres_rules]:
  "(\<And>a b. x = (a, b) \<Longrightarrow> preserves I (f a b)) \<Longrightarrow> preserves I (case x of (a, b) \<Rightarrow> f a b)"
  by (cases x) simp

lemma preserves_for_each [pres_rules]:
  "(\<And>x. x \<in> set xs \<Longrightarrow> preserves I (f x)) \<Longrightarrow> preserves I (for_each xs f)"
  by (induction xs) (auto intro: preserves_bindE)

lemma preserves_map_each [pres_rules]:
  "(\<And>x. x \<in> set xs \<Longrightarrow> preserves I (f x)) \<Longrightarrow> preserves I (map_each xs f)"
  by (induction xs) (auto intro!: preserves_bindE)

lemma preserves_fold_each [pres_rules]:
  "(\<And>acc x. x \<in> set xs \<Longrightarrow> preserves I (f acc x)) \<Longrightarrow> preserves I (fold_each xs acc f)"
  by (induction xs arbitrary: acc) (auto intro!: preserves_bindE)

lemma preserves_rollback [pres_rules]:
  "preserves I m \<Longrightarrow> (\<And>s s'. I s \<Longrightarrow> I s' \<Longrightarrow> I (undo s s')) \<Longrightarrow> preserves I (rollback undo m)"
  by (simp add: preserves_def rollback_def split: prod.splits sum.splits) (metis snd_conv)

text \<open>\<open>yields I m Q\<close>: from a state with \<open>I\<close>, a result of \<open>m\<close> satisfies \<open>Q\<close>.\<close>

definition yields :: "('s \<Rightarrow> bool) \<Rightarrow> ('s, 'e, 'a) op \<Rightarrow> ('a \<Rightarrow> bool) \<Rightarrow> bool" where
  "yields I m Q \<longleftrightarrow> (\<forall>s x s'. I s \<longrightarrow> m s = (Inr x, s') \<longrightarrow> Q x)"

lemma yieldsI: "(\<And>s x s'. I s \<Longrightarrow> m s = (Inr x, s') \<Longrightarrow> Q x) \<Longrightarrow> yields I m Q"
  by (simp add: yields_def)

lemma yieldsD: "yields I m Q \<Longrightarrow> I s \<Longrightarrow> m s = (Inr x, s') \<Longrightarrow> Q x"
  by (simp add: yields_def)

lemma yields_ret: "Q x \<Longrightarrow> yields I (ret x) Q"
  by (simp add: yields_def)

lemma yields_bindE:
  "preserves I m \<Longrightarrow> yields I m P \<Longrightarrow> (\<And>x. P x \<Longrightarrow> yields I (f x) Q) \<Longrightarrow> yields I (bindE m f) Q"
  unfolding yields_def preserves_def by (metis bindE_Inr_elim snd_conv)

lemma yields_mono: "yields I m P \<Longrightarrow> (\<And>x. P x \<Longrightarrow> Q x) \<Longrightarrow> yields I m Q"
  by (auto simp: yields_def)

text \<open>An invariant through \<open>bindE\<close> where the second part needs to know the result of the first.\<close>

lemma preserves_bindE_yields:
  assumes m: "preserves I m" and y: "yields I m Q" and f: "\<And>x. Q x \<Longrightarrow> preserves I (f x)"
  shows "preserves I (bindE m f)"
proof (rule preservesI)
  fix s assume s: "I s"
  obtain r s' where ms: "m s = (r, s')" by (cases "m s")
  have s': "I s'" using preservesD[OF m s] ms by simp
  show "I (snd (bindE m f s))"
  proof (cases r)
    case (Inl e)
    then show ?thesis using ms s' by (simp add: bindE_def)
  next
    case (Inr x)
    then have "Q x" using yieldsD[OF y s] ms by simp
    from preservesD[OF f[OF this] s'] show ?thesis using ms Inr by (simp add: bindE_def)
  qed
qed

text \<open>
  \<open>triple I m Q R\<close>: from a state with \<open>I\<close>, a success of \<open>m\<close> with \<open>x\<close> ends in a state with
  \<open>Q x\<close>, an error in a state with \<open>R\<close>.
\<close>

definition triple :: "('s \<Rightarrow> bool) \<Rightarrow> ('s, 'e, 'a) op \<Rightarrow> ('a \<Rightarrow> 's \<Rightarrow> bool) \<Rightarrow> ('s \<Rightarrow> bool) \<Rightarrow> bool" where
  "triple I m Q R \<longleftrightarrow>
     (\<forall>s x s'. I s \<longrightarrow> m s = (Inr x, s') \<longrightarrow> Q x s') \<and> (\<forall>s e s'. I s \<longrightarrow> m s = (Inl e, s') \<longrightarrow> R s')"

lemma tripleI:
  "(\<And>s x s'. I s \<Longrightarrow> m s = (Inr x, s') \<Longrightarrow> Q x s') \<Longrightarrow> (\<And>s e s'. I s \<Longrightarrow> m s = (Inl e, s') \<Longrightarrow> R s') \<Longrightarrow> triple I m Q R"
  unfolding triple_def by blast

lemma triple_Inr: "triple I m Q R \<Longrightarrow> I s \<Longrightarrow> m s = (Inr x, s') \<Longrightarrow> Q x s'"
  unfolding triple_def by blast

lemma triple_Inl: "triple I m Q R \<Longrightarrow> I s \<Longrightarrow> m s = (Inl e, s') \<Longrightarrow> R s'"
  unfolding triple_def by blast

lemma triple_ret: "(\<And>s. I s \<Longrightarrow> Q x s) \<Longrightarrow> triple I (ret x) Q R"
  by (simp add: triple_def)

lemma triple_throw: "(\<And>s. I s \<Longrightarrow> R s) \<Longrightarrow> triple I (throw e) Q R"
  by (simp add: triple_def)

lemma triple_lift_sum: "(\<And>s e. I s \<Longrightarrow> r = Inl e \<Longrightarrow> R s) \<Longrightarrow> (\<And>s x. I s \<Longrightarrow> r = Inr x \<Longrightarrow> Q x s) \<Longrightarrow> triple I (lift_sum r) Q R"
  by (cases r) (simp_all add: triple_def)

lemma triple_bindE:
  assumes m: "triple I m P R" and f: "\<And>x. triple (P x) (f x) Q R"
  shows "triple I (bindE m f) Q R"
proof (rule tripleI)
  fix s y s' assume s: "I s" and run: "bindE m f s = (Inr y, s')"
  from run show "Q y s'" by (rule bindE_Inr_elim) (blast intro: triple_Inr[OF f] triple_Inr[OF m s])
next
  fix s e s' assume s: "I s" and run: "bindE m f s = (Inl e, s')"
  from run show "R s'"
    by (rule bindE_Inl_elim) (blast intro: triple_Inl[OF m s], blast intro: triple_Inl[OF f] triple_Inr[OF m s])
qed

lemma triple_if: "(b \<Longrightarrow> triple I m Q R) \<Longrightarrow> (\<not> b \<Longrightarrow> triple I n Q R) \<Longrightarrow> triple I (if b then m else n) Q R"
  by simp

lemma triple_mono:
  "triple I m Q R \<Longrightarrow> (\<And>s. I' s \<Longrightarrow> I s) \<Longrightarrow> (\<And>x s. Q x s \<Longrightarrow> Q' x s) \<Longrightarrow> (\<And>s. R s \<Longrightarrow> R' s) \<Longrightarrow> triple I' m Q' R'"
  unfolding triple_def by blast

lemma triple_vacuous: "(\<And>s. \<not> I s) \<Longrightarrow> triple I m Q R"
  by (simp add: triple_def)

lemma triple_gets: "(\<And>s. I s \<Longrightarrow> Q (f s) s) \<Longrightarrow> triple I (gets f) Q R"
  by (simp add: triple_def)

lemma triple_check: "(\<And>s. I s \<Longrightarrow> b \<Longrightarrow> Q () s) \<Longrightarrow> (\<And>s. I s \<Longrightarrow> \<not> b \<Longrightarrow> R s) \<Longrightarrow> triple I (check b e) Q R"
  by (simp add: triple_def)

lemma triple_attempt:
  assumes "triple I m (\<lambda>x. Q (Inr x)) (\<lambda>s. \<forall>e. Q (Inl e) s)"
  shows "triple I (attempt m) Q R"
proof (rule tripleI)
  fix s x s' assume s: "I s" and run: "attempt m s = (Inr x, s')"
  then have m: "m s = (x, s')" by (simp add: attempt_def split: prod.splits)
  show "Q x s'" using triple_Inr[OF assms s] triple_Inl[OF assms s] m by (cases x) auto
qed (simp add: attempt_def split: prod.splits)

lemma triple_case_option:
  "(x = None \<Longrightarrow> triple I m Q R) \<Longrightarrow> (\<And>y. x = Some y \<Longrightarrow> triple I (f y) Q R) \<Longrightarrow>
   triple I (case x of None \<Rightarrow> m | Some y \<Rightarrow> f y) Q R"
  by (cases x) simp_all

lemma triple_case_sum:
  "(\<And>e. x = Inl e \<Longrightarrow> triple I (g e) Q R) \<Longrightarrow> (\<And>y. x = Inr y \<Longrightarrow> triple I (f y) Q R) \<Longrightarrow>
   triple I (case x of Inl e \<Rightarrow> g e | Inr y \<Rightarrow> f y) Q R"
  by (cases x) simp_all

lemma triple_preserves:
  assumes "triple I m (\<lambda>_. I) I"
  shows "preserves I m"
proof (rule preservesI)
  fix s assume s: "I s"
  obtain r s' where run: "m s = (r, s')" by (cases "m s")
  then show "I (snd (m s))" using triple_Inr[OF assms s] triple_Inl[OF assms s] by (cases r) auto
qed

lemma preserves_triple:
  assumes "preserves I m"
  shows "triple I m (\<lambda>_. I) I"
proof (rule tripleI)
  show "I s'" if "I s" "m s = (Inr x, s')" for s x s' using preservesD[OF assms that(1)] that(2) by simp
  show "I s'" if "I s" "m s = (Inl e, s')" for s e s' using preservesD[OF assms that(1)] that(2) by simp
qed

lemma triple_fold_each:
  assumes step: "\<And>acc x. x \<in> set xs \<Longrightarrow> triple (J acc) (f acc x) J R"
  shows "triple (J acc) (fold_each xs acc f) J R"
  using step
proof (induction xs arbitrary: acc)
  case (Cons x xs)
  show ?case unfolding fold_each.simps
    by (rule triple_bindE[OF Cons.prems Cons.IH]) (use Cons.prems in auto)
qed (simp add: triple_def)

text \<open>A loop with an accumulator whose invariant speaks of the elements already done.\<close>

lemma triple_fold_each_done:
  assumes step: "\<And>pre acc x. x \<in> set xs \<Longrightarrow> triple (J pre acc) (f acc x) (J (pre @ [x])) R"
  shows "triple (J pre acc) (fold_each xs acc f) (J (pre @ xs)) R"
  using step
proof (induction xs arbitrary: pre acc)
  case (Cons x xs)
  have "triple (J (pre @ [x]) acc') (fold_each xs acc' f) (J ((pre @ [x]) @ xs)) R" for acc'
    by (rule Cons.IH) (use Cons.prems in auto)
  then show ?case unfolding fold_each.simps
    by (intro triple_bindE[OF Cons.prems]) simp_all
qed (simp add: triple_def)

lemma triple_for_each:
  assumes step: "\<And>x. x \<in> set xs \<Longrightarrow> triple I (f x) (\<lambda>_. I) R"
  shows "triple I (for_each xs f) (\<lambda>_. I) R"
  using step
proof (induction xs)
  case (Cons x xs)
  show ?case unfolding for_each.simps
    by (rule triple_bindE[OF Cons.prems]) (use Cons in auto)
qed (simp add: triple_def)

subsection \<open>Reachable states of a step relation\<close>

inductive reach :: "('s \<Rightarrow> bool) \<Rightarrow> ('s \<Rightarrow> 's \<Rightarrow> bool) \<Rightarrow> 's \<Rightarrow> bool"
  for init :: "'s \<Rightarrow> bool" and step :: "'s \<Rightarrow> 's \<Rightarrow> bool" where
  reach_init: "init s \<Longrightarrow> reach init step s"
| reach_step: "reach init step s \<Longrightarrow> step s t \<Longrightarrow> reach init step t"

text \<open>A component with an invariant: the contract between a step relation and what is claimed of it.\<close>

locale invariant_machine =
  fixes init :: "'s \<Rightarrow> bool"
    and step :: "'s \<Rightarrow> 's \<Rightarrow> bool"
    and inv :: "'s \<Rightarrow> bool"
  assumes init_inv: "init s \<Longrightarrow> inv s"
    and step_inv: "inv s \<Longrightarrow> step s t \<Longrightarrow> inv t"
begin

lemma reach_inv: "reach init step s \<Longrightarrow> inv s"
  by (induction rule: reach.induct) (auto intro: init_inv step_inv)

lemma run_inv: "step\<^sup>*\<^sup>* s t \<Longrightarrow> inv s \<Longrightarrow> inv t"
  by (induction rule: rtranclp_induct) (auto intro: step_inv)

end

subsection \<open>Lists\<close>

text \<open>The Go helpers \<open>FallbackIfNil\<close>, \<open>FallbackIfEmpty\<close> and \<open>FallbackIfMatch\<close>.\<close>

definition FallbackIfNil :: "'a option \<Rightarrow> 'a \<Rightarrow> 'a" where
  "FallbackIfNil ptr fallback = (case ptr of None \<Rightarrow> fallback | Some x \<Rightarrow> x)"

definition FallbackIfEmpty :: "string \<Rightarrow> string \<Rightarrow> string" where
  "FallbackIfEmpty ptr fallback = (if ptr \<noteq> [] then ptr else fallback)"

definition FallbackIfMatch :: "'a \<Rightarrow> 'a \<Rightarrow> ('a \<Rightarrow> bool) \<Rightarrow> 'a" where
  "FallbackIfMatch ptr fallback fn = (if fn ptr then ptr else fallback)"

lemma FallbackIfNil_simps [simp]:
  "FallbackIfNil None y = y" "FallbackIfNil (Some x) y = x"
  by (simp_all add: FallbackIfNil_def)

lemma filter_map_replace:
  "(\<And>x. x \<in> set xs \<Longrightarrow> P (f x) = P x) \<Longrightarrow> filter P (map f xs) = map f (filter P xs)"
  by (induction xs) auto

end
