(* ===== verification/GoStrings.thy ===== *)
theory GoStrings
  imports Prelude "HOL-Library.Sublist"
begin

text \<open>
  The functions of Go's packages \<open>strings\<close>, \<open>unicode/utf8\<close>, \<open>strconv\<close> and \<open>fmt\<close> that the program
  calls. A Go string is a sequence of bytes, which is what \<^typ>\<open>string\<close> is (a character is eight
  bits); a rune is the \<^typ>\<open>nat\<close> of its code point. \<open>ToLower\<close> and \<open>EqualFold\<close> are exact on ASCII
  strings; on other strings they consult Unicode tables, which are a parameter here (the first
  argument).
\<close>

subsection \<open>Prefixes, suffixes, substrings\<close>

definition HasPrefix :: "string \<Rightarrow> string \<Rightarrow> bool" where
  "HasPrefix s p \<longleftrightarrow> take (length p) s = p"

definition HasSuffix :: "string \<Rightarrow> string \<Rightarrow> bool" where
  "HasSuffix s p \<longleftrightarrow> length p \<le> length s \<and> drop (length s - length p) s = p"

definition TrimPrefix :: "string \<Rightarrow> string \<Rightarrow> string" where
  "TrimPrefix s p = (if HasPrefix s p then drop (length p) s else s)"

definition TrimSuffix :: "string \<Rightarrow> string \<Rightarrow> string" where
  "TrimSuffix s p = (if HasSuffix s p then take (length s - length p) s else s)"

fun Contains :: "string \<Rightarrow> string \<Rightarrow> bool" where
  "Contains [] sub = (sub = [])"
| "Contains (c # s) sub = (HasPrefix (c # s) sub \<or> Contains s sub)"

lemma HasPrefix_iff: "HasPrefix s p \<longleftrightarrow> (\<exists>t. s = p @ t)"
  by (metis HasPrefix_def append_eq_conv_conj append_take_drop_id)

lemma HasSuffix_iff: "HasSuffix s p \<longleftrightarrow> (\<exists>t. s = t @ p)"
proof
  assume "HasSuffix s p"
  then have "s = take (length s - length p) s @ p"
    unfolding HasSuffix_def by (metis append_take_drop_id)
  then show "\<exists>t. s = t @ p" ..
qed (auto simp: HasSuffix_def)

lemma HasPrefix_append [simp]: "HasPrefix (p @ t) p"
  by (simp add: HasPrefix_def)

lemma HasPrefix_Nil [simp]: "HasPrefix s []"
  by (simp add: HasPrefix_def)

lemma HasPrefix_single: "HasPrefix s [c] \<longleftrightarrow> s \<noteq> [] \<and> hd s = c"
  by (cases s) (auto simp: HasPrefix_def)

lemma TrimPrefix_single: "TrimPrefix s [c] = (if s \<noteq> [] \<and> hd s = c then tl s else s)"
  by (cases s) (auto simp: TrimPrefix_def HasPrefix_single)

lemma TrimSuffix_append [simp]: "TrimSuffix (t @ p) p = t"
  by (simp add: TrimSuffix_def HasSuffix_def)

lemma Contains_Nil [simp]: "Contains s []"
  by (cases s) simp_all

lemma Contains_iff_sublist: "Contains s sub \<longleftrightarrow> (\<exists>a b. s = a @ sub @ b)"
proof (induction s)
  case Nil
  then show ?case by auto
next
  case (Cons c s)
  show ?case
  proof
    assume "Contains (c # s) sub"
    then consider "HasPrefix (c # s) sub" | "Contains s sub" by auto
    then show "\<exists>a b. c # s = a @ sub @ b"
    proof cases
      case 1
      then show ?thesis unfolding HasPrefix_iff by (metis append_Nil)
    next
      case 2
      then obtain a b where "s = a @ sub @ b" using Cons.IH by blast
      then show ?thesis by (metis append_Cons)
    qed
  next
    assume "\<exists>a b. c # s = a @ sub @ b"
    then obtain a b where ab: "c # s = a @ sub @ b" by blast
    show "Contains (c # s) sub"
    proof (cases a)
      case Nil
      with ab have "HasPrefix (c # s) sub" unfolding HasPrefix_iff by auto
      then show ?thesis by simp
    next
      case (Cons d a')
      with ab have "s = a' @ sub @ b" by simp
      then show ?thesis using \<open>Contains s sub \<longleftrightarrow> _\<close> by auto
    qed
  qed
qed

subsection \<open>Splitting, joining, replacing\<close>

text \<open>\<open>strings.Split\<close> with a separator of one byte; \<open>strings.Join\<close>; \<open>strings.ReplaceAll\<close> of one byte.\<close>

fun Split :: "char \<Rightarrow> string \<Rightarrow> string list" where
  "Split c [] = [[]]"
| "Split c (x # s) = (if x = c then [] # Split c s else (x # hd (Split c s)) # tl (Split c s))"

fun Join :: "string list \<Rightarrow> string \<Rightarrow> string" where
  "Join [] sep = []"
| "Join [x] sep = x"
| "Join (x # y # xs) sep = x @ sep @ Join (y # xs) sep"

definition ReplaceAll :: "string \<Rightarrow> char \<Rightarrow> string \<Rightarrow> string" where
  "ReplaceAll s old new = concat (map (\<lambda>x. if x = old then new else [x]) s)"

lemma Join_append: "xs \<noteq> [] \<Longrightarrow> ys \<noteq> [] \<Longrightarrow> Join (xs @ ys) sep = Join xs sep @ sep @ Join ys sep"
proof (induction xs)
  case (Cons x xs)
  then show ?case by (cases xs; cases ys) auto
qed simp

lemma Split_not_Nil [simp]: "Split c s \<noteq> []"
  by (cases s) auto

text \<open>The same equations with one recursive call, for evaluation.\<close>

lemma Split_code [code]:
  "Split c [] = [[]]"
  "Split c (x # s) = (case Split c s of [] \<Rightarrow> [] | y # ys \<Rightarrow> if x = c then [] # y # ys else (x # y) # ys)"
  using Split_not_Nil[of c s] by (auto split: list.split)

lemma Split_no_sep: "x \<in> set (Split c s) \<Longrightarrow> c \<notin> set x"
proof (induction s arbitrary: x)
  case Nil
  then show ?case by simp
next
  case (Cons d s)
  have hd: "hd (Split c s) \<in> set (Split c s)" by (rule hd_in_set) simp
  have tl: "set (tl (Split c s)) \<subseteq> set (Split c s)"
    by (cases "Split c s") auto
  show ?case
  proof (cases "d = c")
    case True
    with Cons show ?thesis by auto
  next
    case False
    with Cons hd tl show ?thesis by auto
  qed
qed

lemma Split_id: "c \<notin> set s \<Longrightarrow> Split c s = [s]"
  by (induction s) auto

lemma Split_append_sep: "c \<notin> set s \<Longrightarrow> Split c (s @ c # t) = s # Split c t"
  by (induction s) auto

lemma Join_Cons: "xs \<noteq> [] \<Longrightarrow> Join (x # xs) sep = x @ sep @ Join xs sep"
  by (cases xs) auto

lemma Split_Join:
  "xs \<noteq> [] \<Longrightarrow> (\<And>x. x \<in> set xs \<Longrightarrow> c \<notin> set x) \<Longrightarrow> Split c (Join xs [c]) = xs"
proof (induction xs)
  case Nil
  then show ?case by simp
next
  case (Cons x xs)
  show ?case
  proof (cases "xs = []")
    case True
    with Cons.prems show ?thesis by (simp add: Split_id)
  next
    case False
    with Cons show ?thesis by (simp add: Join_Cons Split_append_sep)
  qed
qed

lemma Split_append: "Split c (s @ c # t) = Split c s @ Split c t"
proof (induction s)
  case Nil
  then show ?case by simp
next
  case (Cons d s)
  then show ?case by (cases "Split c s") auto
qed

lemma Join_Split: "Join (Split c s) [c] = s"
proof (induction s)
  case Nil
  then show ?case by simp
next
  case (Cons d s)
  obtain x xs where sp: "Split c s = x # xs" by (cases "Split c s") auto
  show ?case
  proof (cases "d = c")
    case True
    then show ?thesis using Cons by (simp add: Join_Cons)
  next
    case False
    then show ?thesis using Cons sp by (cases xs) auto
  qed
qed

lemma ReplaceAll_Nil [simp]: "ReplaceAll [] old new = []"
  by (simp add: ReplaceAll_def)

lemma ReplaceAll_removes: "old \<notin> set new \<Longrightarrow> old \<notin> set (ReplaceAll s old new)"
  by (auto simp: ReplaceAll_def)

lemma ReplaceAll_id: "old \<notin> set s \<Longrightarrow> ReplaceAll s old new = s"
  by (induction s) (auto simp: ReplaceAll_def)

subsection \<open>Trimming\<close>

text \<open>
  \<open>strings.TrimLeft\<close>, \<open>TrimRight\<close> and \<open>Trim\<close> with a cutset of one byte, and \<open>TrimSpace\<close>, which
  removes the characters with Unicode's White Space property: six ASCII bytes and the UTF-8
  encodings of U+0085, U+00A0, U+1680, U+2000 to U+200A, U+2028, U+2029, U+202F, U+205F, U+3000.
\<close>

definition TrimLeft1 :: "string \<Rightarrow> char \<Rightarrow> string" where
  "TrimLeft1 s c = dropWhile (\<lambda>x. x = c) s"

definition TrimRight1 :: "string \<Rightarrow> char \<Rightarrow> string" where
  "TrimRight1 s c = rev (dropWhile (\<lambda>x. x = c) (rev s))"

definition Trim1 :: "string \<Rightarrow> char \<Rightarrow> string" where
  "Trim1 s c = TrimRight1 (TrimLeft1 s c) c"

definition space_encodings :: "string list" where
  "space_encodings =
    [[CHR 0x09], [CHR 0x0A], [CHR 0x0B], [CHR 0x0C], [CHR 0x0D], [CHR 0x20],
     [CHR 0xC2, CHR 0x85], [CHR 0xC2, CHR 0xA0], [CHR 0xE1, CHR 0x9A, CHR 0x80],
     [CHR 0xE2, CHR 0x80, CHR 0x80], [CHR 0xE2, CHR 0x80, CHR 0x81], [CHR 0xE2, CHR 0x80, CHR 0x82],
     [CHR 0xE2, CHR 0x80, CHR 0x83], [CHR 0xE2, CHR 0x80, CHR 0x84], [CHR 0xE2, CHR 0x80, CHR 0x85],
     [CHR 0xE2, CHR 0x80, CHR 0x86], [CHR 0xE2, CHR 0x80, CHR 0x87], [CHR 0xE2, CHR 0x80, CHR 0x88],
     [CHR 0xE2, CHR 0x80, CHR 0x89], [CHR 0xE2, CHR 0x80, CHR 0x8A], [CHR 0xE2, CHR 0x80, CHR 0xA8],
     [CHR 0xE2, CHR 0x80, CHR 0xA9], [CHR 0xE2, CHR 0x80, CHR 0xAF], [CHR 0xE2, CHR 0x81, CHR 0x9F],
     [CHR 0xE3, CHR 0x80, CHR 0x80]]"

fun strip_first :: "string list \<Rightarrow> string \<Rightarrow> string option" where
  "strip_first [] s = None"
| "strip_first (p # ps) s = (if HasPrefix s p \<and> p \<noteq> [] then Some (drop (length p) s) else strip_first ps s)"

lemma strip_first_length: "strip_first ps s = Some t \<Longrightarrow> length t < length s"
  by (induction ps) (auto simp: HasPrefix_iff split: if_splits)

function trim_front :: "string list \<Rightarrow> string \<Rightarrow> string" where
  "trim_front ps s = (case strip_first ps s of None \<Rightarrow> s | Some t \<Rightarrow> trim_front ps t)"
  by pat_completeness auto
termination
  by (relation "measure (\<lambda>(ps, s). length s)") (auto dest: strip_first_length)

declare trim_front.simps [simp del]

definition TrimSpace :: "string \<Rightarrow> string" where
  "TrimSpace s = rev (trim_front (map rev space_encodings) (rev (trim_front space_encodings s)))"

lemma trim_front_Nil [simp]: "trim_front ps [] = []"
proof -
  have "strip_first ps [] = None" by (induction ps) (auto simp: HasPrefix_def)
  then show ?thesis by (simp add: trim_front.simps)
qed

lemma TrimSpace_Nil [simp]: "TrimSpace [] = []"
  by (simp add: TrimSpace_def)

lemma strip_first_suffix: "strip_first ps s = Some t \<Longrightarrow> suffix t s"
  by (induction ps) (auto split: if_splits simp: suffix_drop)

lemma trim_front_suffix: "suffix (trim_front ps s) s"
proof (induction ps s rule: trim_front.induct)
  case (1 ps s)
  then show ?case
    by (cases "strip_first ps s") (auto simp: trim_front.simps[of ps s] dest: strip_first_suffix suffix_order.trans)
qed

lemma trim_front_fixed: "strip_first ps (trim_front ps s) = None"
proof (induction ps s rule: trim_front.induct)
  case (1 ps s)
  then show ?case
    by (cases "strip_first ps s") (auto simp: trim_front.simps[of ps s])
qed

lemma TrimSpace_length: "length (TrimSpace s) \<le> length s"
proof -
  have "length (trim_front (map rev space_encodings) (rev (trim_front space_encodings s)))
      \<le> length (trim_front space_encodings s)"
    using trim_front_suffix[of "map rev space_encodings" "rev (trim_front space_encodings s)"]
    by (auto dest: suffix_length_le)
  also have "\<dots> \<le> length s"
    using trim_front_suffix by (rule suffix_length_le)
  finally show ?thesis by (simp add: TrimSpace_def)
qed


subsection \<open>Case\<close>

definition byte :: "char \<Rightarrow> nat" where
  "byte c = of_char c"

text \<open>A text given by its bytes, for the literals of the code that are not ASCII.\<close>

definition utf8 :: "nat list \<Rightarrow> string" where
  "utf8 bs = map char_of bs"

definition is_ascii :: "string \<Rightarrow> bool" where
  "is_ascii s \<longleftrightarrow> (\<forall>c \<in> set s. byte c < 128)"

definition ascii_lower :: "char \<Rightarrow> char" where
  "ascii_lower c = (if 65 \<le> byte c \<and> byte c \<le> 90 then char_of (byte c + 32) else c)"

definition ToLower :: "(string \<Rightarrow> string) \<Rightarrow> string \<Rightarrow> string" where
  "ToLower uni s = (if is_ascii s then map ascii_lower s else uni s)"

definition EqualFold :: "(string \<Rightarrow> string \<Rightarrow> bool) \<Rightarrow> string \<Rightarrow> string \<Rightarrow> bool" where
  "EqualFold uni s t =
     (if is_ascii s \<and> is_ascii t then map ascii_lower s = map ascii_lower t else uni s t)"

lemma byte_less [simp]: "byte c < 256"
  by (simp add: byte_def)

lemma byte_char_of: "n < 256 \<Longrightarrow> byte (char_of n) = n"
  by (simp add: byte_def)

lemma char_of_byte [simp]: "char_of (byte c) = c"
  by (simp add: byte_def)

lemma byte_ascii_lower: "byte (ascii_lower c) = (if 65 \<le> byte c \<and> byte c \<le> 90 then byte c + 32 else byte c)"
  by (simp add: ascii_lower_def byte_char_of)

lemma ascii_lower_idem [simp]: "ascii_lower (ascii_lower c) = ascii_lower c"
  by (simp add: ascii_lower_def byte_char_of)

lemma is_ascii_lower: "is_ascii s \<Longrightarrow> is_ascii (map ascii_lower s)"
  by (auto simp: is_ascii_def byte_ascii_lower)

lemma ToLower_idem: "is_ascii s \<Longrightarrow> ToLower uni (ToLower uni s) = ToLower uni s"
  by (simp add: ToLower_def is_ascii_lower)

lemma EqualFold_refl: "is_ascii s \<Longrightarrow> EqualFold uni s s"
  by (simp add: EqualFold_def)

subsection \<open>Decimal numbers\<close>

fun dec_digits :: "nat \<Rightarrow> string" where
  "dec_digits n = (if n < 10 then [char_of (48 + n)] else dec_digits (n div 10) @ [char_of (48 + n mod 10)])"

declare dec_digits.simps [simp del]

definition is_digit :: "char \<Rightarrow> bool" where
  "is_digit c \<longleftrightarrow> 48 \<le> byte c \<and> byte c \<le> 57"

definition digits_value :: "string \<Rightarrow> nat" where
  "digits_value s = foldl (\<lambda>acc c. acc * 10 + (byte c - 48)) 0 s"

text \<open>The verbs \<open>%d\<close> and \<open>%0wd\<close> of \<open>fmt.Sprintf\<close>.\<close>

definition fmt_d :: "int \<Rightarrow> string" where
  "fmt_d n = (if 0 \<le> n then dec_digits (nat n) else CHR ''-'' # dec_digits (nat (- n)))"

definition pad0 :: "nat \<Rightarrow> string \<Rightarrow> string" where
  "pad0 w s = replicate (w - length s) CHR ''0'' @ s"

definition fmt_0d :: "nat \<Rightarrow> int \<Rightarrow> string" where
  "fmt_0d w n = (if 0 \<le> n then pad0 w (dec_digits (nat n)) else CHR ''-'' # pad0 (w - 1) (dec_digits (nat (- n))))"

text \<open>\<open>strconv.Atoi\<close> on a 64-bit platform; \<open>None\<close> is its error.\<close>

definition parse_digits :: "string \<Rightarrow> nat option" where
  "parse_digits s = (if s \<noteq> [] \<and> (\<forall>c \<in> set s. is_digit c) then Some (digits_value s) else None)"

definition Atoi :: "string \<Rightarrow> int option" where
  "Atoi s =
     (case s of
        [] \<Rightarrow> None
      | c # r \<Rightarrow>
         (if c = CHR ''-'' then
            (case parse_digits r of None \<Rightarrow> None | Some n \<Rightarrow> if n \<le> 2 ^ 63 then Some (- int n) else None)
          else
            (case parse_digits (if c = CHR ''+'' then r else s) of
               None \<Rightarrow> None | Some n \<Rightarrow> if n < 2 ^ 63 then Some (int n) else None)))"

lemma is_digit_char_of: "(n::nat) < 10 \<Longrightarrow> is_digit (char_of (48 + n))"
  by (simp add: is_digit_def byte_char_of)

lemma dec_digits_digits: "c \<in> set (dec_digits n) \<Longrightarrow> is_digit c"
proof (induction n rule: dec_digits.induct)
  case (1 n)
  then show ?case
    by (auto simp: dec_digits.simps[of n] is_digit_char_of split: if_splits)
qed

lemma dec_digits_not_Nil [simp]: "dec_digits n \<noteq> []"
  by (simp add: dec_digits.simps[of n])

lemma digits_value_append: "digits_value (s @ [c]) = digits_value s * 10 + (byte c - 48)"
  by (simp add: digits_value_def)

lemma digits_value_dec [simp]: "digits_value (dec_digits n) = n"
proof (induction n rule: dec_digits.induct)
  case (1 n)
  show ?case
  proof (cases "n < 10")
    case True
    then show ?thesis by (simp add: dec_digits.simps[of n] digits_value_def byte_char_of)
  next
    case False
    with 1 show ?thesis by (simp add: dec_digits.simps[of n] digits_value_append byte_char_of)
  qed
qed

lemma digits_value_pad: "digits_value (replicate k CHR ''0'' @ s) = digits_value s"
proof (induction k)
  case (Suc k)
  then show ?case by (simp add: digits_value_def byte_def)
qed simp

lemma pad0_digits: "c \<in> set (pad0 w (dec_digits n)) \<Longrightarrow> is_digit c"
  by (auto simp: pad0_def dec_digits_digits) (simp add: is_digit_def byte_def)

lemma pad0_not_Nil [simp]: "pad0 w (dec_digits n) \<noteq> []"
  by (simp add: pad0_def)

lemma parse_digits_pad: "parse_digits (pad0 w (dec_digits n)) = Some n"
  by (auto simp: parse_digits_def pad0_digits) (simp add: pad0_def digits_value_pad)

lemma is_digit_not_sign: "is_digit c \<Longrightarrow> c \<noteq> CHR ''-'' \<and> c \<noteq> CHR ''+'' \<and> c \<noteq> CHR ''/'' \<and> c \<noteq> CHR ''.''"
  by (auto simp: is_digit_def byte_def)

lemma Atoi_fmt_0d: "0 \<le> n \<Longrightarrow> n < 2 ^ 63 \<Longrightarrow> Atoi (fmt_0d w n) = Some n"
proof -
  assume n: "0 \<le> n" "n < 2 ^ 63"
  obtain c r where cr: "pad0 w (dec_digits (nat n)) = c # r"
    by (cases "pad0 w (dec_digits (nat n))") auto
  have "is_digit c" using cr pad0_digits[of c w "nat n"] by simp
  then have "c \<noteq> CHR ''-''" "c \<noteq> CHR ''+''" using is_digit_not_sign by auto
  with n cr parse_digits_pad[of w "nat n"] show ?thesis
    by (simp add: Atoi_def fmt_0d_def)
qed

lemma dec_digits_inj: "dec_digits m = dec_digits n \<Longrightarrow> m = n"
  using digits_value_dec by metis

lemma fmt_0d_inj: "0 \<le> m \<Longrightarrow> 0 \<le> n \<Longrightarrow> fmt_0d w m = fmt_0d w n \<Longrightarrow> m = n"
proof -
  assume mn: "0 \<le> m" "0 \<le> n" and eq: "fmt_0d w m = fmt_0d w n"
  then have "pad0 w (dec_digits (nat m)) = pad0 w (dec_digits (nat n))"
    by (simp only: fmt_0d_def if_True)
  then have "Some (nat m) = Some (nat n)"
    by (metis parse_digits_pad)
  with mn show "m = n" by simp
qed

subsection \<open>UTF-8\<close>

text \<open>
  \<open>utf8.DecodeRune\<close>: the first rune of a non-empty string and its width. An invalid encoding
  is the replacement character U+FFFD of width 1. \<open>runes\<close> is the conversion \<open>[]rune(s)\<close>,
  \<open>string_of_runes\<close> the conversion \<open>string(rs)\<close>.
\<close>

definition cont :: "nat \<Rightarrow> bool" where
  "cont b \<longleftrightarrow> 128 \<le> b \<and> b < 192"

definition seq2 :: "nat \<Rightarrow> nat \<Rightarrow> nat" where
  "seq2 b0 b1 = (b0 - 192) * 64 + (b1 - 128)"

definition seq3 :: "nat \<Rightarrow> nat \<Rightarrow> nat \<Rightarrow> nat" where
  "seq3 b0 b1 b2 = (b0 - 224) * 4096 + (b1 - 128) * 64 + (b2 - 128)"

definition seq4 :: "nat \<Rightarrow> nat \<Rightarrow> nat \<Rightarrow> nat \<Rightarrow> nat" where
  "seq4 b0 b1 b2 b3 = (b0 - 240) * 262144 + (b1 - 128) * 4096 + (b2 - 128) * 64 + (b3 - 128)"

fun decode_rune :: "nat list \<Rightarrow> nat \<times> nat" where
  "decode_rune [] = (65533, 0)"
| "decode_rune (b0 # bs) =
    (if b0 < 128 then (b0, 1)
     else if 194 \<le> b0 \<and> b0 < 224 then
       (case bs of b1 # _ \<Rightarrow> if cont b1 then (seq2 b0 b1, 2) else (65533, 1)
                 | [] \<Rightarrow> (65533, 1))
     else if 224 \<le> b0 \<and> b0 < 240 then
       (case bs of b1 # b2 # _ \<Rightarrow>
          if (if b0 = 224 then 160 \<le> b1 \<and> b1 < 192 else if b0 = 237 then 128 \<le> b1 \<and> b1 < 160 else cont b1)
             \<and> cont b2
          then (seq3 b0 b1 b2, 3) else (65533, 1)
                 | _ \<Rightarrow> (65533, 1))
     else if 240 \<le> b0 \<and> b0 < 245 then
       (case bs of b1 # b2 # b3 # _ \<Rightarrow>
          if (if b0 = 240 then 144 \<le> b1 \<and> b1 < 192 else if b0 = 244 then 128 \<le> b1 \<and> b1 < 144 else cont b1)
             \<and> cont b2 \<and> cont b3
          then (seq4 b0 b1 b2 b3, 4) else (65533, 1)
                 | _ \<Rightarrow> (65533, 1))
     else (65533, 1))"

definition scalar :: "nat \<Rightarrow> bool" where
  "scalar r \<longleftrightarrow> r < 55296 \<or> (57344 \<le> r \<and> r < 1114112)"

definition encode_rune :: "nat \<Rightarrow> nat list" where
  "encode_rune r =
    (if r < 128 then [r]
     else if r < 2048 then [192 + r div 64, 128 + r mod 64]
     else if \<not> scalar r then [239, 191, 189]
     else if r < 65536 then [224 + r div 4096, 128 + r div 64 mod 64, 128 + r mod 64]
     else [240 + r div 262144, 128 + r div 4096 mod 64, 128 + r div 64 mod 64, 128 + r mod 64])"

lemma decode_rune_width: "bs \<noteq> [] \<Longrightarrow> 0 < snd (decode_rune bs)"
  by (cases bs) (auto split: list.splits)

function rune_list :: "nat list \<Rightarrow> nat list" where
  "rune_list bs = (if bs = [] then [] else fst (decode_rune bs) # rune_list (drop (snd (decode_rune bs)) bs))"
  by pat_completeness auto
termination
  by (relation "measure length") (auto intro!: diff_less decode_rune_width)

declare rune_list.simps [simp del] decode_rune.simps [simp del]

definition runes :: "string \<Rightarrow> nat list" where
  "runes s = rune_list (map byte s)"

definition string_of_runes :: "nat list \<Rightarrow> string" where
  "string_of_runes rs = map char_of (concat (map encode_rune rs))"

lemma rune_list_Nil [simp]: "rune_list [] = []"
  by (simp add: rune_list.simps)

lemma encode_rune_byte: "b \<in> set (encode_rune r) \<Longrightarrow> b < 256"
  by (auto simp: encode_rune_def scalar_def split: if_splits)

lemma scalar3:
  assumes "224 \<le> b0" "b0 < 240" "128 \<le> b1" "b1 < 192" "128 \<le> b2" "b2 < 192"
    and "b0 = 237 \<Longrightarrow> b1 < 160"
  shows "scalar (seq3 b0 b1 b2)"
proof (cases "b0 < 237")
  case True
  then show ?thesis using assms unfolding scalar_def seq3_def by linarith
next
  case False
  then show ?thesis using assms unfolding scalar_def seq3_def by (cases "b0 = 237") linarith+
qed

lemma scalar4:
  assumes "240 \<le> b0" "b0 < 245" "128 \<le> b1" "b1 < 192" "128 \<le> b2" "b2 < 192" "128 \<le> b3" "b3 < 192"
    and "b0 = 240 \<Longrightarrow> 144 \<le> b1" and "b0 = 244 \<Longrightarrow> b1 < 144"
  shows "scalar (seq4 b0 b1 b2 b3)"
proof -
  have "57344 \<le> (b0 - 240) * 262144 + (b1 - 128) * 4096 + (b2 - 128) * 64 + (b3 - 128)"
    using assms by (cases "b0 = 240") linarith+
  moreover have "(b0 - 240) * 262144 + (b1 - 128) * 4096 + (b2 - 128) * 64 + (b3 - 128) < 1114112"
    using assms by (cases "b0 = 244") linarith+
  ultimately show ?thesis unfolding scalar_def seq4_def by blast
qed

lemma scalar_replacement [simp]: "scalar 65533"
  by (simp add: scalar_def)

lemma decode_scalar: "scalar (fst (decode_rune bs))"
proof (cases bs)
  case Nil
  then show ?thesis by (simp add: decode_rune.simps)
next
  case (Cons b0 t)
  consider "b0 < 128" | "194 \<le> b0" "b0 < 224" | "224 \<le> b0" "b0 < 240" | "240 \<le> b0" "b0 < 245"
    | "128 \<le> b0" "b0 < 194" | "245 \<le> b0" by linarith
  then show ?thesis
  proof cases
    case 2
    have "scalar (seq2 b0 b1)" if "b1 < 192" for b1
      using 2 that unfolding scalar_def seq2_def by linarith
    with 2 Cons show ?thesis by (auto simp: decode_rune.simps cont_def split: list.split)
  next
    case 3
    then show ?thesis using Cons
      by (auto simp: decode_rune.simps cont_def intro!: scalar3 split: list.split)
  next
    case 4
    then show ?thesis using Cons
      by (auto simp: decode_rune.simps cont_def intro!: scalar4 split: list.split)
  qed (use Cons in \<open>simp_all add: decode_rune.simps scalar_def\<close>)
qed

text \<open>Decoding what was encoded gives the rune back, whatever follows it.\<close>

lemma decode_encode1: "r < 128 \<Longrightarrow> decode_rune (encode_rune r @ rest) = (r, length (encode_rune r))"
  by (simp add: encode_rune_def decode_rune.simps)

lemma decode_encode2:
  "128 \<le> r \<Longrightarrow> r < 2048 \<Longrightarrow> decode_rune (encode_rune r @ rest) = (r, length (encode_rune r))"
proof -
  assume r: "128 \<le> r" "r < 2048"
  then have "2 \<le> r div 64" "r div 64 < 32" by linarith+
  moreover have "r div 64 * 64 + r mod 64 = r" by simp
  ultimately show ?thesis using r
    by (simp add: encode_rune_def decode_rune.simps cont_def seq2_def)
qed

lemma base64_digits:
  fixes r :: nat
  shows "r = r div 64 * 64 + r mod 64"
    and "r = r div 4096 * 4096 + r div 64 mod 64 * 64 + r mod 64"
    and "r = r div 262144 * 262144 + r div 4096 mod 64 * 4096 + r div 64 mod 64 * 64 + r mod 64"
proof -
  have 1: "r = r div 64 * 64 + r mod 64" by simp
  have 2: "r div 64 = r div 4096 * 64 + r div 64 mod 64"
    using div_mult_mod_eq[of "r div 64" 64] by (simp add: div_mult2_eq[symmetric])
  have 3: "r div 4096 = r div 262144 * 64 + r div 4096 mod 64"
    using div_mult_mod_eq[of "r div 4096" 64] by (simp add: div_mult2_eq[symmetric])
  show "r = r div 64 * 64 + r mod 64" by (fact 1)
  show "r = r div 4096 * 4096 + r div 64 mod 64 * 64 + r mod 64" using 1 2 by linarith
  show "r = r div 262144 * 262144 + r div 4096 mod 64 * 4096 + r div 64 mod 64 * 64 + r mod 64"
    using 1 2 3 by linarith
qed

lemma decode_encode3:
  assumes r: "2048 \<le> r" "r < 65536" "scalar r"
  shows "decode_rune (encode_rune r @ rest) = (r, length (encode_rune r))"
proof -
  define a b c where abc: "a = r div 4096" "b = r div 64 mod 64" "c = r mod 64"
  have bc: "b < 64" "c < 64" by (simp_all add: abc)
  have r_eq: "r = a * 4096 + b * 64 + c" unfolding abc by (rule base64_digits(2))
  have a: "a < 16" using r r_eq by linarith
  have b0: "a = 0 \<Longrightarrow> 32 \<le> b" using r r_eq bc by linarith
  have b13: "a = 13 \<Longrightarrow> b < 32"
    using r r_eq bc unfolding scalar_def by linarith
  have enc: "encode_rune r = [224 + a, 128 + b, 128 + c]"
    using r by (simp add: encode_rune_def abc)
  show ?thesis unfolding enc using a b0 b13 bc r_eq
    by (auto simp: decode_rune.simps cont_def seq3_def)
qed

lemma decode_encode4:
  assumes r: "65536 \<le> r" "scalar r"
  shows "decode_rune (encode_rune r @ rest) = (r, length (encode_rune r))"
proof -
  define a b c d where abc: "a = r div 262144" "b = r div 4096 mod 64" "c = r div 64 mod 64" "d = r mod 64"
  have bc: "b < 64" "c < 64" "d < 64" by (simp_all add: abc)
  have r_eq: "r = a * 262144 + b * 4096 + c * 64 + d" unfolding abc by (rule base64_digits(3))
  have lt: "r < 1114112" using r by (auto simp: scalar_def)
  have a: "a < 5" using lt r_eq by linarith
  have a0: "a = 0 \<Longrightarrow> 16 \<le> b" using r r_eq bc by linarith
  have a4: "a = 4 \<Longrightarrow> b < 16" using lt r_eq bc by linarith
  have enc: "encode_rune r = [240 + a, 128 + b, 128 + c, 128 + d]"
    using r by (simp add: encode_rune_def abc)
  show ?thesis unfolding enc using a a0 a4 bc r_eq
    by (auto simp: decode_rune.simps cont_def seq4_def)
qed

lemma decode_encode: "scalar r \<Longrightarrow> decode_rune (encode_rune r @ rest) = (r, length (encode_rune r))"
proof -
  assume "scalar r"
  consider "r < 128" | "128 \<le> r" "r < 2048" | "2048 \<le> r" "r < 65536" | "65536 \<le> r" by linarith
  then show ?thesis
    using \<open>scalar r\<close> by cases (simp_all only: decode_encode1 decode_encode2 decode_encode3 decode_encode4)
qed

lemma encode_rune_not_Nil [simp]: "encode_rune r \<noteq> []"
  by (simp add: encode_rune_def)

lemma rune_list_encode: "\<forall>r \<in> set rs. scalar r \<Longrightarrow> rune_list (concat (map encode_rune rs)) = rs"
proof (induction rs)
  case (Cons r rs)
  then have "decode_rune (encode_rune r @ concat (map encode_rune rs)) = (r, length (encode_rune r))"
    by (simp add: decode_encode)
  with Cons show ?case by (simp add: rune_list.simps[of "encode_rune r @ _"])
qed simp

lemma rune_list_scalar: "r \<in> set (rune_list bs) \<Longrightarrow> scalar r"
proof (induction bs rule: rune_list.induct)
  case (1 bs)
  then show ?case
    by (auto simp: rune_list.simps[of bs] decode_scalar split: if_splits)
qed

lemma map_byte_char_of: "\<forall>b \<in> set bs. b < 256 \<Longrightarrow> map byte (map char_of bs) = bs"
  by (induction bs) (auto simp: byte_char_of)

lemma runes_string_of_runes: "\<forall>r \<in> set rs. scalar r \<Longrightarrow> runes (string_of_runes rs) = rs"
proof -
  assume "\<forall>r \<in> set rs. scalar r"
  moreover have "\<forall>b \<in> set (concat (map encode_rune rs)). b < 256"
    by (auto dest: encode_rune_byte)
  ultimately show ?thesis
    by (simp only: runes_def string_of_runes_def map_byte_char_of rune_list_encode)
qed

lemma runes_scalar: "\<forall>r \<in> set (runes s). scalar r"
  by (auto simp: runes_def dest: rune_list_scalar)

lemma rune_list_ascii: "\<forall>b \<in> set bs. b < 128 \<Longrightarrow> rune_list bs = bs"
proof (induction bs)
  case (Cons b bs)
  then have "decode_rune (b # bs) = (b, 1)" by (simp add: decode_rune.simps)
  with Cons show ?case by (simp add: rune_list.simps[of "b # bs"])
qed simp

lemma runes_ascii: "is_ascii s \<Longrightarrow> runes s = map byte s"
  unfolding runes_def by (rule rune_list_ascii) (auto simp: is_ascii_def)

text \<open>Only an ASCII byte decodes to an ASCII rune, so a string all of whose runes are ASCII is its runes.\<close>

lemma decode_small:
  assumes "fst (decode_rune (b0 # bs)) < 128"
  shows "decode_rune (b0 # bs) = (b0, 1) \<and> b0 < 128"
proof (rule ccontr)
  assume no: "\<not> (decode_rune (b0 # bs) = (b0, 1) \<and> b0 < 128)"
  then have b0: "128 \<le> b0" by (cases "b0 < 128") (simp_all add: decode_rune.simps)
  have "128 \<le> seq2 b0 b1" if "194 \<le> b0" for b1
    using that unfolding seq2_def by linarith
  moreover have "128 \<le> seq3 b0 b1 b2" if "224 \<le> b0" "if b0 = 224 then 160 \<le> b1 \<and> b1 < 192 else if b0 = 237 then 128 \<le> b1 \<and> b1 < 160 else cont b1" for b1 b2
    proof (cases "b0 = 224")
    case True
    then have "160 \<le> b1" using that by simp
    then show ?thesis unfolding seq3_def by linarith
  next
    case False
    then show ?thesis using that(1) unfolding seq3_def by linarith
  qed
  moreover have "128 \<le> seq4 b0 b1 b2 b3" if "240 \<le> b0" "if b0 = 240 then 144 \<le> b1 \<and> b1 < 192 else if b0 = 244 then 128 \<le> b1 \<and> b1 < 144 else cont b1" for b1 b2 b3
    proof (cases "b0 = 240")
    case True
    then have "144 \<le> b1" using that by simp
    then show ?thesis unfolding seq4_def by linarith
  next
    case False
    then show ?thesis using that(1) unfolding seq4_def by linarith
  qed
  ultimately have "128 \<le> fst (decode_rune (b0 # bs))"
    using b0 by (auto simp: decode_rune.simps split: list.split)
  with assms show False by simp
qed

lemma rune_list_small: "\<forall>r \<in> set (rune_list bs). r < 128 \<Longrightarrow> rune_list bs = bs"
proof (induction bs)
  case (Cons b bs)
  have first: "fst (decode_rune (b # bs)) < 128" using Cons.prems by (simp add: rune_list.simps[of "b # bs"])
  then have d: "decode_rune (b # bs) = (b, 1)" using decode_small by blast
  then have "rune_list (b # bs) = b # rune_list bs" by (simp add: rune_list.simps[of "b # bs"])
  with Cons show ?case by simp
qed simp

lemma runes_small: "\<forall>r \<in> set (runes s). r < 128 \<Longrightarrow> runes s = map byte s \<and> is_ascii s"
  using rune_list_small[of "map byte s"] by (auto simp: runes_def is_ascii_def)

end
