(* ===== verification/GoPath.thy ===== *)
theory GoPath
  imports GoStrings
begin

text \<open>
  Go's package \<open>path/filepath\<close> on Unix, for the functions the program calls: \<open>Clean\<close>, \<open>Join\<close>,
  \<open>IsAbs\<close>, \<open>Abs\<close>, \<open>Rel\<close>, \<open>Base\<close> and \<open>Ext\<close>. A path is a byte string; its components are the
  parts between slashes. \<open>FromSlash\<close> and \<open>ToSlash\<close> are the identity on Unix. The lemmas give
  the normal form that \<open>Clean\<close> computes and what \<open>Join\<close> and \<open>Rel\<close> do on it.
\<close>

subsection \<open>Definitions\<close>

abbreviation slash :: char where
  "slash \<equiv> CHR ''/''"

definition IsAbs :: "string \<Rightarrow> bool" where
  "IsAbs p = HasPrefix p ''/''"

fun clean_stack :: "bool \<Rightarrow> string list \<Rightarrow> string list \<Rightarrow> string list" where
  "clean_stack rooted st [] = rev st"
| "clean_stack rooted st (c # cs) =
     (if c = [] \<or> c = ''.'' then clean_stack rooted st cs
      else if c = ''..'' then
        (case st of
           [] \<Rightarrow> clean_stack rooted (if rooted then [] else [''..'']) cs
         | t # ts \<Rightarrow> if t = ''..'' then clean_stack rooted (''..'' # st) cs else clean_stack rooted ts cs)
      else clean_stack rooted (c # st) cs)"

definition path_of :: "bool \<Rightarrow> string list \<Rightarrow> string" where
  "path_of rooted cs = (if rooted then ''/'' @ Join cs ''/'' else if cs = [] then ''.'' else Join cs ''/'')"

definition Clean :: "string \<Rightarrow> string" where
  "Clean p = path_of (IsAbs p) (clean_stack (IsAbs p) [] (Split slash p))"

definition JoinPath :: "string list \<Rightarrow> string" where
  "JoinPath elems = (let es = dropWhile (\<lambda>e. e = []) elems in if es = [] then [] else Clean (Join es ''/''))"

text \<open>\<open>Abs\<close> takes the working directory (the error of \<open>os.Getwd\<close> is \<open>None\<close>).\<close>

definition Abs :: "string option \<Rightarrow> string \<Rightarrow> string option" where
  "Abs cwd p = (if IsAbs p then Some (Clean p) else map_option (\<lambda>wd. JoinPath [wd, p]) cwd)"

definition pcomps :: "string \<Rightarrow> string list" where
  "pcomps p = filter (\<lambda>c. c \<noteq> []) (Split slash p)"

fun drop_common :: "string list \<Rightarrow> string list \<Rightarrow> string list \<times> string list" where
  "drop_common (b # bs) (t # ts) = (if b = t then drop_common bs ts else (b # bs, t # ts))"
| "drop_common bs ts = (bs, ts)"

definition Rel :: "string \<Rightarrow> string \<Rightarrow> string option" where
  "Rel basepath targpath =
     (let base = Clean basepath; targ = Clean targpath in
      if targ = base then Some ''.''
      else let base' = (if base = ''.'' then [] else base) in
        if IsAbs base' \<noteq> IsAbs targ then None
        else (case drop_common (pcomps base') (pcomps targ) of (rb, rt) \<Rightarrow>
          if rb = [] then Some (Join rt ''/'')
          else if hd rb = ''..'' then None
          else Some (Join (replicate (length rb) ''..'' @ rt) ''/'')))"

definition Base :: "string \<Rightarrow> string" where
  "Base p =
     (if p = [] then ''.''
      else let q = TrimRight1 p slash in
        if q = [] then ''/'' else last (Split slash q))"

definition Ext :: "string \<Rightarrow> string" where
  "Ext p =
     (let b = last (Split slash p); parts = Split CHR ''.'' b in
      if length parts \<le> 1 then [] else CHR ''.'' # last parts)"

subsection \<open>The normal form computed by Clean\<close>

definition normal :: "string \<Rightarrow> bool" where
  "normal c \<longleftrightarrow> c \<noteq> [] \<and> c \<noteq> ''.'' \<and> c \<noteq> ''..'' \<and> slash \<notin> set c"

lemma normalD: "normal c \<Longrightarrow> c \<noteq> []" "normal c \<Longrightarrow> c \<noteq> ''.''" "normal c \<Longrightarrow> c \<noteq> ''..''"
  "normal c \<Longrightarrow> slash \<notin> set c"
  by (simp_all add: normal_def)

lemma clean_stack_append:
  "clean_stack r st (xs @ ys) = clean_stack r (rev (clean_stack r st xs)) ys"
  by (induction r st xs rule: clean_stack.induct) (auto split: list.splits)

lemma clean_stack_normal: "\<forall>c \<in> set cs. normal c \<Longrightarrow> clean_stack r st cs = rev st @ cs"
  by (induction cs arbitrary: st) (simp_all add: normalD)

lemma clean_stack_rooted:
  "\<forall>c \<in> set cs. slash \<notin> set c \<Longrightarrow> \<forall>c \<in> set st. normal c \<Longrightarrow> \<forall>c \<in> set (clean_stack True st cs). normal c"
proof (induction cs arbitrary: st)
  case (Cons c cs)
  have c: "slash \<notin> set c" and cs: "\<forall>c \<in> set cs. slash \<notin> set c" using Cons.prems by auto
  note prem = Cons.prems(2)
  note IH = Cons.IH[OF cs]
  consider "c = [] \<or> c = ''.''" | "c = ''..''" | "normal c" using c by (auto simp: normal_def)
  then show ?case
  proof cases
    case 1
    with IH[OF Cons.prems(2)] show ?thesis by simp
  next
    case 2
    show ?thesis
    proof (cases st)
      case Nil
      with 2 IH[of "[]"] show ?thesis by simp
    next
      case (Cons t ts)
      then have t: "normal t" and ts: "\<forall>c \<in> set ts. normal c" using prem by simp_all
      from t have "t \<noteq> ''..''" by (simp add: normal_def)
      with 2 Cons IH[OF ts] show ?thesis by simp
    qed
  next
    case 3
    then have "\<forall>c \<in> set (c # st). normal c" using Cons.prems(2) by simp
    from IH[OF this] 3 show ?thesis by (simp add: normalD)
  qed
qed simp

definition updown :: "string list \<Rightarrow> bool" where
  "updown cs \<longleftrightarrow> (\<exists>n ks. cs = replicate n ''..'' @ ks \<and> (\<forall>c \<in> set ks. normal c))"

lemma updownI: "\<forall>c \<in> set ks. normal c \<Longrightarrow> updown (replicate n ''..'' @ ks)"
  by (auto simp: updown_def)

lemma updown_Nil [simp]: "updown []"
  using updownI[of "[]" 0] by simp

lemma updown_snoc_normal: "updown cs \<Longrightarrow> normal c \<Longrightarrow> updown (cs @ [c])"
proof -
  assume "updown cs" and c: "normal c"
  then obtain n ks where "cs = replicate n ''..'' @ ks" "\<forall>c \<in> set ks. normal c"
    by (auto simp: updown_def)
  with c updownI[of "ks @ [c]" n] show ?thesis by simp
qed

lemma updown_snoc_up: "updown (cs @ [t]) \<Longrightarrow> t = ''..'' \<Longrightarrow> updown (cs @ [t, ''..''])"
proof -
  assume u: "updown (cs @ [t])" and t: "t = ''..''"
  then obtain n ks where eq: "cs @ [t] = replicate n ''..'' @ ks" and ks: "\<forall>c \<in> set ks. normal c"
    by (auto simp: updown_def)
  have "ks = []"
  proof (rule ccontr)
    assume "ks \<noteq> []"
    then have "last (cs @ [t]) = last ks" using eq by simp
    with ks \<open>ks \<noteq> []\<close> t show False by (auto simp: normal_def dest: last_in_set)
  qed
  then have "cs @ [t, ''..''] = replicate (Suc n) ''..'' @ []"
    using eq t by (simp add: replicate_append_same[symmetric] del: replicate_append_same)
  then show ?thesis using updownI[of "[]" "Suc n"] by simp
qed

lemma updown_butlast: "updown (cs @ [t]) \<Longrightarrow> t \<noteq> ''..'' \<Longrightarrow> updown cs"
proof -
  assume u: "updown (cs @ [t])" and t: "t \<noteq> ''..''"
  then obtain n ks where eq: "cs @ [t] = replicate n ''..'' @ ks" and ks: "\<forall>c \<in> set ks. normal c"
    by (auto simp: updown_def)
  show ?thesis
  proof (cases ks rule: rev_cases)
    case Nil
    then have "t \<in> set (replicate n ''..'')" using eq by (metis append_Nil2 in_set_conv_decomp)
    with t show ?thesis by (simp split: if_splits)
  next
    case (snoc ks' k)
    then have "cs = replicate n ''..'' @ ks'" using eq by simp
    with ks snoc show ?thesis using updownI[of ks' n] by simp
  qed
qed

lemma clean_stack_unrooted:
  "\<forall>c \<in> set cs. slash \<notin> set c \<Longrightarrow> updown (rev st) \<Longrightarrow> updown (clean_stack False st cs)"
proof (induction cs arbitrary: st)
  case (Cons c cs)
  have c: "slash \<notin> set c" and cs: "\<forall>c \<in> set cs. slash \<notin> set c" using Cons.prems by auto
  note IH = Cons.IH[OF cs]
  consider "c = [] \<or> c = ''.''" | "c = ''..''" | "normal c" using c by (auto simp: normal_def)
  then show ?case
  proof cases
    case 1
    with IH[OF Cons.prems(2)] show ?thesis by auto
  next
    case 2
    show ?thesis
    proof (cases st)
      case Nil
      have "updown [''..'']" using updownI[of "[]" 1] by simp
      with 2 Nil IH[of "[''..'']"] show ?thesis by simp
    next
      case (Cons t ts)
      show ?thesis
      proof (cases "t = ''..''")
        case True
        with updown_snoc_up[of "rev ts" t] Cons.prems(2) Cons
        have "updown (rev (''..'' # st))" by simp
        with 2 Cons True IH[of "''..'' # st"] show ?thesis by simp
      next
        case False
        then have "updown (rev ts)" using updown_butlast[of "rev ts" t] Cons.prems(2) Cons by simp
        with 2 Cons False IH[of ts] show ?thesis by simp
      qed
    qed
  next
    case 3
    then have "updown (rev (c # st))" using updown_snoc_normal[OF Cons.prems(2)] by simp
    from IH[OF this] 3 show ?thesis by (simp add: normalD)
  qed
qed simp

lemma clean_stack_updown_id: "updown cs \<Longrightarrow> clean_stack False [] cs = cs"
proof -
  assume "updown cs"
  then obtain n ks where cs: "cs = replicate n ''..'' @ ks" and ks: "\<forall>c \<in> set ks. normal c"
    by (auto simp: updown_def)
  have ups: "clean_stack False (replicate m ''..'') (replicate n ''..'') = replicate (m + n) ''..''" for m n
  proof (induction n arbitrary: m)
    case (Suc n)
    then show ?case using Suc.IH[of "Suc m"] by (cases m) auto
  qed simp
  show ?thesis
    unfolding cs clean_stack_append using ups[of 0 n] ks by (simp add: clean_stack_normal)
qed

subsection \<open>Components of cleaned paths\<close>

definition ccomps :: "string \<Rightarrow> string list" where
  "ccomps p = clean_stack (IsAbs p) [] (Split slash p)"

lemma Clean_ccomps: "Clean p = path_of (IsAbs p) (ccomps p)"
  by (simp add: Clean_def ccomps_def)

lemma Split_slash_free: "\<forall>c \<in> set (Split slash p). slash \<notin> set c"
  using Split_no_sep by blast

lemma ccomps_abs: "IsAbs p \<Longrightarrow> \<forall>c \<in> set (ccomps p). normal c"
  unfolding ccomps_def using clean_stack_rooted[OF Split_slash_free, of "[]" p] by simp

lemma ccomps_rel: "\<not> IsAbs p \<Longrightarrow> updown (ccomps p)"
  unfolding ccomps_def using clean_stack_unrooted[OF Split_slash_free, of "[]" p] by simp

definition canonical :: "bool \<Rightarrow> string list \<Rightarrow> bool" where
  "canonical r cs \<longleftrightarrow> (if r then \<forall>c \<in> set cs. normal c else updown cs)"

lemma canonical_ccomps: "canonical (IsAbs p) (ccomps p)"
  by (simp add: canonical_def ccomps_abs ccomps_rel)

lemma normal_canonical: "\<forall>c \<in> set cs. normal c \<Longrightarrow> canonical r cs"
  using updownI[of cs 0] by (simp add: canonical_def)

lemma updown_slash_free: "updown cs \<Longrightarrow> c \<in> set cs \<Longrightarrow> slash \<notin> set c \<and> c \<noteq> []"
proof -
  assume "updown cs" and c: "c \<in> set cs"
  then obtain n ks where "cs = replicate n ''..'' @ ks" "\<forall>c \<in> set ks. normal c"
    by (auto simp: updown_def)
  with c have "c = ''..'' \<or> normal c" by (auto split: if_splits)
  then show ?thesis by (elim disjE) (simp_all add: normalD)
qed

lemma canonical_slash_free: "canonical r cs \<Longrightarrow> c \<in> set cs \<Longrightarrow> slash \<notin> set c \<and> c \<noteq> []"
  by (cases r) (auto simp: canonical_def normalD updown_slash_free)

lemma Split_Join_canonical: "canonical r cs \<Longrightarrow> cs \<noteq> [] \<Longrightarrow> Split slash (Join cs ''/'') = cs"
  by (rule Split_Join) (auto dest: canonical_slash_free)

lemma IsAbs_slash [simp]: "IsAbs (slash # p)"
  by (simp add: IsAbs_def HasPrefix_def)

lemma Join_not_abs: "canonical r cs \<Longrightarrow> cs \<noteq> [] \<Longrightarrow> \<not> IsAbs (Join cs ''/'')"
proof -
  assume c: "canonical r cs" and n: "cs \<noteq> []"
  obtain x xs where cs: "cs = x # xs" using n by (cases cs) auto
  have "slash \<notin> set x" "x \<noteq> []" using canonical_slash_free[OF c, of x] cs by auto
  then obtain a as where "x = a # as" "a \<noteq> slash" by (cases x) auto
  then show ?thesis using cs by (cases xs) (auto simp: IsAbs_def HasPrefix_def)
qed

lemma IsAbs_path_of: "canonical r cs \<Longrightarrow> IsAbs (path_of r cs) = r"
proof (cases r)
  case False
  assume "canonical r cs"
  then show ?thesis
    using False Join_not_abs[of r cs] by (cases "cs = []") (auto simp: path_of_def IsAbs_def HasPrefix_def)
qed (simp add: path_of_def)

lemma clean_stack_canonical: "canonical r cs \<Longrightarrow> clean_stack r [] cs = cs"
  by (cases r) (simp_all add: canonical_def clean_stack_normal clean_stack_updown_id)

lemma Split_path_of:
  "canonical r cs \<Longrightarrow> Split slash (path_of r cs) =
     (if cs = [] then (if r then [[], []] else [''.'']) else if r then [] # cs else cs)"
  using Split_Join_canonical[of r cs] by (auto simp: path_of_def Split_id)

lemma ccomps_path_of: "canonical r cs \<Longrightarrow> ccomps (path_of r cs) = cs"
  using clean_stack_canonical[of r cs] by (cases r) (simp_all add: ccomps_def IsAbs_path_of Split_path_of)

lemma pcomps_path_of: "canonical True cs \<Longrightarrow> pcomps (path_of True cs) = cs"
proof -
  assume c: "canonical True cs"
  have "filter (\<lambda>c. c \<noteq> []) cs = cs"
    using canonical_slash_free[OF c] by (simp add: filter_id_conv)
  with c show ?thesis by (simp add: pcomps_def Split_path_of)
qed

lemma Clean_path_of: "canonical r cs \<Longrightarrow> Clean (path_of r cs) = path_of r cs"
  by (simp add: Clean_ccomps IsAbs_path_of ccomps_path_of)

lemma Clean_idem: "Clean (Clean p) = Clean p"
  by (metis Clean_ccomps Clean_path_of canonical_ccomps)

lemma path_of_inj: "canonical r cs \<Longrightarrow> canonical r ds \<Longrightarrow> path_of r cs = path_of r ds \<Longrightarrow> cs = ds"
  by (metis ccomps_path_of)

lemma Clean_not_Nil [simp]: "Clean p \<noteq> []"
proof -
  have "Join cs ''/'' \<noteq> []" if "canonical r cs" "cs \<noteq> []" for r cs
  proof -
    from that(2) obtain x xs where cs: "cs = x # xs" by (cases cs) auto
    with canonical_slash_free[OF that(1), of x] show ?thesis by (cases xs) auto
  qed
  then show ?thesis using canonical_ccomps[of p] by (auto simp: Clean_ccomps path_of_def)
qed

subsection \<open>Joining and relating absolute paths\<close>

lemma IsAbs_append: "p \<noteq> [] \<Longrightarrow> IsAbs (p @ q) = IsAbs p"
  by (cases p) (auto simp: IsAbs_def HasPrefix_def)

lemma JoinPath_two: "p \<noteq> [] \<Longrightarrow> JoinPath [p, q] = Clean (p @ slash # q)"
  by (simp add: JoinPath_def)

lemma ccomps_join: "IsAbs p \<Longrightarrow> p \<noteq> [] \<Longrightarrow> ccomps (p @ slash # q) = clean_stack True (rev (ccomps p)) (Split slash q)"
  by (simp add: ccomps_def IsAbs_append Split_append clean_stack_append)

lemma JoinPath_canonical:
  assumes rc: "canonical True rc" and kc: "\<forall>c \<in> set kc. normal c"
  shows "JoinPath [path_of True rc, path_of False kc] = path_of True (rc @ kc)"
proof -
  let ?r = "path_of True rc" and ?k = "path_of False kc"
  have r: "?r \<noteq> []" "IsAbs ?r" by (simp_all add: path_of_def)
  have k: "canonical False kc" using kc by (rule normal_canonical)
  have "ccomps (?r @ slash # ?k) = clean_stack True (rev rc) (Split slash ?k)"
    using r rc by (simp add: ccomps_join ccomps_path_of)
  also have "\<dots> = rc @ kc"
    using k kc by (simp add: Split_path_of clean_stack_normal)
  finally have cc: "ccomps (?r @ slash # ?k) = rc @ kc" .
  have "JoinPath [?r, ?k] = Clean (?r @ slash # ?k)" using r(1) by (rule JoinPath_two)
  also have "\<dots> = path_of True (rc @ kc)" using cc r by (simp add: Clean_ccomps IsAbs_append)
  finally show ?thesis .
qed

lemma drop_common_append: "drop_common bs (bs @ ts) = ([], ts)"
  by (induction bs) auto

lemma Rel_below:
  assumes rc: "canonical True rc" and kc: "\<forall>c \<in> set kc. normal c"
  shows "Rel (path_of True rc) (path_of True (rc @ kc)) = Some (path_of False kc)"
proof -
  have rk: "canonical True (rc @ kc)" using rc kc by (auto simp: canonical_def)
  have abs: "IsAbs (path_of True rc)" "IsAbs (path_of True (rc @ kc))"
    using rc rk by (simp_all add: IsAbs_path_of)
  have nd: "path_of True rc \<noteq> ''.''" by (simp add: path_of_def)
  show ?thesis
  proof (cases kc)
    case Nil
    then show ?thesis using rc by (simp add: Rel_def Clean_path_of path_of_def[of False])
  next
    case Cons
    then have "path_of True (rc @ kc) \<noteq> path_of True rc"
      using path_of_inj[OF rk rc] by auto
    then show ?thesis using Cons rc rk abs nd
      by (simp add: Rel_def Clean_path_of pcomps_path_of drop_common_append path_of_def[of False])
  qed
qed

text \<open>\<open>below root p\<close>: the path \<open>p\<close> is the root itself or lies under it, component by component.\<close>

definition below :: "string \<Rightarrow> string \<Rightarrow> bool" where
  "below root p \<longleftrightarrow> IsAbs p \<and> Clean p = p \<and> (\<exists>ks. (\<forall>c \<in> set ks. normal c) \<and> pcomps p = pcomps root @ ks)"

lemma below_path_of:
  assumes rc: "canonical True rc" and kc: "\<forall>c \<in> set kc. normal c"
  shows "below (path_of True rc) (path_of True (rc @ kc))"
proof -
  have rk: "canonical True (rc @ kc)" using rc kc by (auto simp: canonical_def)
  show ?thesis unfolding below_def
    using rc rk kc by (auto simp: IsAbs_path_of Clean_path_of pcomps_path_of)
qed

lemma Abs_canonical:
  assumes cwd: "\<And>w. cwd = Some w \<Longrightarrow> IsAbs w" and p: "Abs cwd q = Some p"
  obtains rc where "canonical True rc" "p = path_of True rc"
proof (cases "IsAbs q")
  case True
  then show ?thesis using that[of "ccomps q"] p canonical_ccomps[of q]
    by (simp add: Abs_def Clean_ccomps)
next
  case False
  then obtain w where w: "cwd = Some w" "p = JoinPath [w, q]" using p by (auto simp: Abs_def)
  from cwd[OF w(1)] have "w \<noteq> []" "IsAbs w" by (auto simp: IsAbs_def HasPrefix_def)
  then have "p = Clean (w @ slash # q)" "IsAbs (w @ slash # q)"
    using w(2) by (simp_all add: JoinPath_two IsAbs_append)
  then show ?thesis using that[of "ccomps (w @ slash # q)"] canonical_ccomps[of "w @ slash # q"]
    by (simp add: Clean_ccomps)
qed

text \<open>A cleaned relative path that neither is \<open>..\<close> nor starts with \<open>../\<close> has ordinary components only.\<close>

lemma Clean_rel_cases:
  assumes "\<not> IsAbs (Clean k)"
  obtains kc where "updown kc" "Clean k = path_of False kc"
proof -
  have "\<not> IsAbs k" using assms canonical_ccomps[of k] by (metis Clean_ccomps IsAbs_path_of)
  then show ?thesis using that[of "ccomps k"] by (simp add: Clean_ccomps ccomps_rel)
qed

lemma updown_no_escape:
  assumes kc: "updown kc" and no: "path_of False kc \<noteq> ''..''" "\<not> HasPrefix (path_of False kc) ''../''"
  shows "\<forall>c \<in> set kc. normal c"
proof -
  obtain n ks where eq: "kc = replicate n ''..'' @ ks" and ks: "\<forall>c \<in> set ks. normal c"
    using kc by (auto simp: updown_def)
  have "n = 0"
  proof (rule ccontr)
    assume "n \<noteq> 0"
    then obtain m where "n = Suc m" by (cases n) auto
    then obtain rest where kc': "kc = ''..'' # rest" using eq by simp
    then show False using no by (cases rest) (auto simp: path_of_def HasPrefix_def)
  qed
  with eq ks show ?thesis by simp
qed

end
