(* ===== verification/Codes.thy ===== *)
theory Codes
  imports GoStrings
begin

text \<open>
  The status codes of \<open>backend/internal/pkg/code\<close>: the constants with the annotations that codegen reads, the registrations that it writes, and
  the struct that is registered. The registry is the one of the package \<open>errors\<close> of gotoolbox, a parameter here.
\<close>

subsection \<open>Constants\<close>

datatype code =
    ErrSuccess
  | ErrUnknown
  | ErrBind
  | ErrValidation
  | ErrTokenInvalid
  | ErrPageNotFound
  | ErrOperationBatchExecute
  | ErrDatabase
  | ErrEncrypt
  | ErrSignatureInvalid
  | ErrExpired
  | ErrInvalidAuthHeader
  | ErrMissingHeader
  | ErrPasswordIncorrect
  | ErrPermissionDenied
  | ErrEncodingFailed
  | ErrDecodingFailed
  | ErrInvalidJSON
  | ErrEncodingJSON
  | ErrDecodingJSON
  | ErrInvalidYaml
  | ErrEncodingYaml
  | ErrDecodingYaml
  | ErrHTTPError
  | ErrHTTPResponseDataParseError
  | ErrHTTPClientGenerateError
  | ErrProviderUnauthorized
  | ErrProviderUnsupported
  | ErrProviderUnavailable
  | ErrProviderResponseParseError
  | ErrGRPCClientGenerateError
  | ErrGRPCClientCertificateError
  | ErrGRPCClientDialError
  | ErrGRPCClientInvokeServiceError
  | ErrGRPCResponseDataParseError
  | ErrUserNotFound

text \<open>A constant with its annotations: the HTTP status and the texts in Chinese (in UTF-8) and English.\<close>

type_synonym annotated = "code \<times> int \<times> string \<times> string"

definition basic_codes :: "annotated list" where
  "basic_codes =
    [(ErrSuccess, 200, utf8 [232,175,183,230,177,130,230,136,144,229,138,159], ''Success.''),
     (ErrUnknown, 500, utf8 [230,156,141,229,138,161,229,153,168,229,135,186,233,148,153], ''Internal server error.''),
     (ErrBind, 400, utf8 [232,167,163,230,158,144,231,187,147,230,158,132,228,189,147,229,135,186,233,148,153], ''Error occurred while binding the request body to the struct.''),
     (ErrValidation, 400, utf8 [229,143,130,230,149,176,230,160,161,233,170,140,229,164,177,232,180,165], ''Validation failed.''),
     (ErrTokenInvalid, 401, utf8 [228,187,164,231,137,140,230,151,160,230,149,136], ''Token invalid.''),
     (ErrPageNotFound, 404, utf8 [232,175,183,230,177,130,232,183,175,231,148,177,228,184,141,229,173,152,229,156,168], ''Page not found.''),
     (ErrOperationBatchExecute, 200, utf8 [230,137,185,233,135,143,230,137,167,232,161,140,230,147,141,228,189,156], ''Operation batch execute.'')]"

definition database_codes :: "annotated list" where
  "database_codes =
    [(ErrDatabase, 500, utf8 [230,149,176,230,141,174,229,186,147,229,135,186,233,148,153], ''Database error.'')]"

definition auth_codes :: "annotated list" where
  "auth_codes =
    [(ErrEncrypt, 401, utf8 [231,148,168,230,136,183,229,175,134,231,160,129,229,138,160,229,175,134,229,164,177,232,180,165], ''Error occurred while encrypting the user password.''),
     (ErrSignatureInvalid, 401, utf8 [231,173,190,229,144,141,230,151,160,230,149,136], ''Signature is invalid.''),
     (ErrExpired, 401, utf8 [228,187,164,231,137,140], ''Token expired.''),
     (ErrInvalidAuthHeader, 401, utf8 [230,151,160,230,149,136,231,154,132,232,175,183,230,177,130,230,142,136,230,157,131,229,164,180,233,131,168], ''Invalid authorization header.''),
     (ErrMissingHeader, 401, utf8 [232,175,183,230,177,130,230,142,136,230,157,131,229,164,180,233,131,168,228,184,186,231,169,186], ''The `Authorization` header was empty.''),
     (ErrPasswordIncorrect, 401, utf8 [229,175,134,231,160,129,233,170,140,232,175,129,229,164,177,232,180,165], ''Password was incorrect.''),
     (ErrPermissionDenied, 403, utf8 [232,175,183,230,177,130,230,151,160,230,157,131,233,153,144,230,137,167,232,161,140], ''Permission denied.'')]"

definition coding_codes :: "annotated list" where
  "coding_codes =
    [(ErrEncodingFailed, 500, utf8 [230,149,176,230,141,174,231,188,150,231,160,129,229,135,186,233,148,153], ''Encoding failed due to an error with the data.''),
     (ErrDecodingFailed, 500, utf8 [230,149,176,230,141,174,232,167,163,231,160,129,229,135,186,233,148,153], ''Decoding failed due to an error with the data.''),
     (ErrInvalidJSON, 500, utf8 [230,149,176,230,141,174,233,157,158,230,156,137,230,149,136,74,83,79,78,231,187,147,230,158,132], ''Data is not valid JSON.''),
     (ErrEncodingJSON, 500, utf8 [74,83,79,78,230,149,176,230,141,174,231,188,150,231,160,129,229,164,177,232,180,165], ''JSON data could not be encoded.''),
     (ErrDecodingJSON, 500, utf8 [74,83,79,78,230,149,176,230,141,174,232,167,163,231,160,129,229,164,177,232,180,165], ''JSON data could not be decoded.''),
     (ErrInvalidYaml, 500, utf8 [230,149,176,230,141,174,233,157,158,230,156,137,230,149,136,89,65,77,76,231,187,147,230,158,132], ''Data is not valid Yaml.''),
     (ErrEncodingYaml, 500, utf8 [89,65,77,76,230,149,176,230,141,174,231,188,150,231,160,129,229,164,177,232,180,165], ''Yaml data could not be encoded.''),
     (ErrDecodingYaml, 500, utf8 [89,65,77,76,230,149,176,230,141,174,231,188,150,231,160,129,229,164,177,232,180,165], ''Yaml data could not be decoded.'')]"

definition http_client_codes :: "annotated list" where
  "http_client_codes =
    [(ErrHTTPError, 500, utf8 [72,84,84,80,232,175,183,230,177,130,229,164,177,232,180,165], ''HTTP request error.''),
     (ErrHTTPResponseDataParseError, 500, utf8 [232,167,163,230,158,144,72,84,84,80,230,156,141,229,138,161,232,191,148,229,155,158,230,149,176,230,141,174,229,164,177,232,180,165], ''Decode data from http response error.''),
     (ErrHTTPClientGenerateError, 500, utf8 [231,148,159,230,136,144,72,84,84,80,229,174,162,230,136,183,231,171,175,229,164,177,232,180,165], ''Generate HTTP client error.''),
     (ErrProviderUnauthorized, 401, utf8 [230,168,161,229,158,139,230,156,141,229,138,161,232,174,164,232,175,129,229,164,177,232,180,165], ''Provider authentication failed.''),
     (ErrProviderUnsupported, 400, utf8 [230,168,161,229,158,139,230,156,141,229,138,161,229,141,143,232,174,174,228,184,141,230,148,175,230,140,129], ''Provider protocol is unsupported.''),
     (ErrProviderUnavailable, 500, utf8 [230,168,161,229,158,139,230,156,141,229,138,161,228,184,141,229,143,175,231,148,168], ''Provider service is unavailable.''),
     (ErrProviderResponseParseError, 500, utf8 [230,168,161,229,158,139,230,156,141,229,138,161,229,147,141,229,186,148,232,167,163,230,158,144,229,164,177,232,180,165], ''Provider response parse failed.'')]"

definition grpc_client_codes :: "annotated list" where
  "grpc_client_codes =
    [(ErrGRPCClientGenerateError, 500, utf8 [231,148,159,230,136,144,103,82,80,67,229,174,162,230,136,183,231,171,175,229,164,177,232,180,165], ''Generate gRPC client error.''),
     (ErrGRPCClientCertificateError, 500, utf8 [103,82,80,67,229,174,162,230,136,183,231,171,175,232,175,129,228,185,166,233,148,153,232,175,175], ''Validate gRPC client certificate error.''),
     (ErrGRPCClientDialError, 500, utf8 [103,82,80,67,229,174,162,230,136,183,231,171,175,232,191,158,230,142,165,229,164,177,232,180,165], ''Dial to gRPC server error.''),
     (ErrGRPCClientInvokeServiceError, 500, utf8 [103,82,80,67,229,174,162,230,136,183,231,171,175,232,174,191,233,151,174,230,156,141,229,138,161,230,142,165,229,143,163,229,164,177,232,180,165], ''Invoke gRPC server service function error.''),
     (ErrGRPCResponseDataParseError, 500, utf8 [232,167,163,230,158,144,103,82,80,67,230,156,141,229,138,161,232,191,148,229,155,158,230,149,176,230,141,174,229,164,177,232,180,165], ''Decode data from gRPC service error.'')]"

text \<open>The constant of \<open>examleserver.go\<close> has no annotations, and codegen writes a status and texts of its own.\<close>

definition server_codes :: "annotated list" where
  "server_codes = [(ErrUserNotFound, 500, utf8 [233,148,153,232,175,175,228,191,161,230,129,175,230,156,170,232,174,190,231,189,174], ''Unset error message'')]"

fun numbered :: "int \<Rightarrow> annotated list \<Rightarrow> (code \<times> int) list" where
  "numbered n [] = []"
| "numbered n (a # as) = (fst a, n) # numbered (n + 1) as"

definition code_values :: "(code \<times> int) list" where
  "code_values =
    numbered 100001 basic_codes @
    numbered 100101 database_codes @
    numbered 100201 auth_codes @
    numbered 100301 coding_codes @
    numbered 100501 http_client_codes @
    numbered 100701 grpc_client_codes @
    numbered 110001 server_codes"

definition code_number :: "code \<Rightarrow> int" where
  "code_number c = (case map_of code_values c of Some n \<Rightarrow> n | None \<Rightarrow> 0)"

subsection \<open>Registration\<close>

record err_code =
  ec_code :: int
  ec_http :: int
  ec_message :: "(string \<times> string) list option"

definition ErrCode_Code :: "err_code \<Rightarrow> int" where
  "ErrCode_Code e = ec_code e"

definition ErrCode_String :: "err_code \<Rightarrow> string" where
  "ErrCode_String e = (case ec_message e of None \<Rightarrow> [] | Some m \<Rightarrow> (case map_of m ''EN'' of None \<Rightarrow> [] | Some s \<Rightarrow> s))"

definition ErrCode_HTTPStatus :: "err_code \<Rightarrow> int" where
  "ErrCode_HTTPStatus e = (if ec_http e = 0 then 500 else ec_http e)"

text \<open>\<open>must\<close> is \<open>errors.MustRegister\<close>; a panic is its text.\<close>

definition register :: "(err_code \<Rightarrow> 'r \<Rightarrow> string + 'r) \<Rightarrow> int \<Rightarrow> int \<Rightarrow> (string \<times> string) list \<Rightarrow> 'r \<Rightarrow> string + 'r" where
  "register must n http message r =
     (if http \<notin> set [200, 400, 401, 403, 404, 500] then Inl ''http code not in `200, 400, 401, 403, 404, 500`''
      else must \<lparr>ec_code = n, ec_http = http, ec_message = Some message\<rparr> r)"

definition generated_codes :: "(code \<times> int \<times> (string \<times> string) list) list" where
  "generated_codes =
    [(ErrSuccess, 200, [(''CN'', utf8 [232,175,183,230,177,130,230,136,144,229,138,159]), (''EN'', ''Success.'')]),
     (ErrUnknown, 500, [(''CN'', utf8 [230,156,141,229,138,161,229,153,168,229,135,186,233,148,153]), (''EN'', ''Internal server error.'')]),
     (ErrBind, 400, [(''CN'', utf8 [232,167,163,230,158,144,231,187,147,230,158,132,228,189,147,229,135,186,233,148,153]), (''EN'', ''Error occurred while binding the request body to the struct.'')]),
     (ErrValidation, 400, [(''CN'', utf8 [229,143,130,230,149,176,230,160,161,233,170,140,229,164,177,232,180,165]), (''EN'', ''Validation failed.'')]),
     (ErrTokenInvalid, 401, [(''CN'', utf8 [228,187,164,231,137,140,230,151,160,230,149,136]), (''EN'', ''Token invalid.'')]),
     (ErrPageNotFound, 404, [(''CN'', utf8 [232,175,183,230,177,130,232,183,175,231,148,177,228,184,141,229,173,152,229,156,168]), (''EN'', ''Page not found.'')]),
     (ErrOperationBatchExecute, 200, [(''CN'', utf8 [230,137,185,233,135,143,230,137,167,232,161,140,230,147,141,228,189,156]), (''EN'', ''Operation batch execute.'')]),
     (ErrDatabase, 500, [(''CN'', utf8 [230,149,176,230,141,174,229,186,147,229,135,186,233,148,153]), (''EN'', ''Database error.'')]),
     (ErrEncrypt, 401, [(''CN'', utf8 [231,148,168,230,136,183,229,175,134,231,160,129,229,138,160,229,175,134,229,164,177,232,180,165]), (''EN'', ''Error occurred while encrypting the user password.'')]),
     (ErrSignatureInvalid, 401, [(''CN'', utf8 [231,173,190,229,144,141,230,151,160,230,149,136]), (''EN'', ''Signature is invalid.'')]),
     (ErrExpired, 401, [(''CN'', utf8 [228,187,164,231,137,140]), (''EN'', ''Token expired.'')]),
     (ErrInvalidAuthHeader, 401, [(''CN'', utf8 [230,151,160,230,149,136,231,154,132,232,175,183,230,177,130,230,142,136,230,157,131,229,164,180,233,131,168]), (''EN'', ''Invalid authorization header.'')]),
     (ErrMissingHeader, 401, [(''CN'', utf8 [232,175,183,230,177,130,230,142,136,230,157,131,229,164,180,233,131,168,228,184,186,231,169,186]), (''EN'', ''The `Authorization` header was empty.'')]),
     (ErrPasswordIncorrect, 401, [(''CN'', utf8 [229,175,134,231,160,129,233,170,140,232,175,129,229,164,177,232,180,165]), (''EN'', ''Password was incorrect.'')]),
     (ErrPermissionDenied, 403, [(''CN'', utf8 [232,175,183,230,177,130,230,151,160,230,157,131,233,153,144,230,137,167,232,161,140]), (''EN'', ''Permission denied.'')]),
     (ErrEncodingFailed, 500, [(''CN'', utf8 [230,149,176,230,141,174,231,188,150,231,160,129,229,135,186,233,148,153]), (''EN'', ''Encoding failed due to an error with the data.'')]),
     (ErrDecodingFailed, 500, [(''CN'', utf8 [230,149,176,230,141,174,232,167,163,231,160,129,229,135,186,233,148,153]), (''EN'', ''Decoding failed due to an error with the data.'')]),
     (ErrInvalidJSON, 500, [(''CN'', utf8 [230,149,176,230,141,174,233,157,158,230,156,137,230,149,136,74,83,79,78,231,187,147,230,158,132]), (''EN'', ''Data is not valid JSON.'')]),
     (ErrEncodingJSON, 500, [(''CN'', utf8 [74,83,79,78,230,149,176,230,141,174,231,188,150,231,160,129,229,164,177,232,180,165]), (''EN'', ''JSON data could not be encoded.'')]),
     (ErrDecodingJSON, 500, [(''CN'', utf8 [74,83,79,78,230,149,176,230,141,174,232,167,163,231,160,129,229,164,177,232,180,165]), (''EN'', ''JSON data could not be decoded.'')]),
     (ErrInvalidYaml, 500, [(''CN'', utf8 [230,149,176,230,141,174,233,157,158,230,156,137,230,149,136,89,65,77,76,231,187,147,230,158,132]), (''EN'', ''Data is not valid Yaml.'')]),
     (ErrEncodingYaml, 500, [(''CN'', utf8 [89,65,77,76,230,149,176,230,141,174,231,188,150,231,160,129,229,164,177,232,180,165]), (''EN'', ''Yaml data could not be encoded.'')]),
     (ErrDecodingYaml, 500, [(''CN'', utf8 [89,65,77,76,230,149,176,230,141,174,231,188,150,231,160,129,229,164,177,232,180,165]), (''EN'', ''Yaml data could not be decoded.'')]),
     (ErrHTTPError, 500, [(''CN'', utf8 [72,84,84,80,232,175,183,230,177,130,229,164,177,232,180,165]), (''EN'', ''HTTP request error.'')]),
     (ErrHTTPResponseDataParseError, 500, [(''CN'', utf8 [232,167,163,230,158,144,72,84,84,80,230,156,141,229,138,161,232,191,148,229,155,158,230,149,176,230,141,174,229,164,177,232,180,165]), (''EN'', ''Decode data from http response error.'')]),
     (ErrHTTPClientGenerateError, 500, [(''CN'', utf8 [231,148,159,230,136,144,72,84,84,80,229,174,162,230,136,183,231,171,175,229,164,177,232,180,165]), (''EN'', ''Generate HTTP client error.'')]),
     (ErrProviderUnauthorized, 401, [(''CN'', utf8 [230,168,161,229,158,139,230,156,141,229,138,161,232,174,164,232,175,129,229,164,177,232,180,165]), (''EN'', ''Provider authentication failed.'')]),
     (ErrProviderUnsupported, 400, [(''CN'', utf8 [230,168,161,229,158,139,230,156,141,229,138,161,229,141,143,232,174,174,228,184,141,230,148,175,230,140,129]), (''EN'', ''Provider protocol is unsupported.'')]),
     (ErrProviderUnavailable, 500, [(''CN'', utf8 [230,168,161,229,158,139,230,156,141,229,138,161,228,184,141,229,143,175,231,148,168]), (''EN'', ''Provider service is unavailable.'')]),
     (ErrProviderResponseParseError, 500, [(''CN'', utf8 [230,168,161,229,158,139,230,156,141,229,138,161,229,147,141,229,186,148,232,167,163,230,158,144,229,164,177,232,180,165]), (''EN'', ''Provider response parse failed.'')]),
     (ErrGRPCClientGenerateError, 500, [(''CN'', utf8 [231,148,159,230,136,144,103,82,80,67,229,174,162,230,136,183,231,171,175,229,164,177,232,180,165]), (''EN'', ''Generate gRPC client error.'')]),
     (ErrGRPCClientCertificateError, 500, [(''CN'', utf8 [103,82,80,67,229,174,162,230,136,183,231,171,175,232,175,129,228,185,166,233,148,153,232,175,175]), (''EN'', ''Validate gRPC client certificate error.'')]),
     (ErrGRPCClientDialError, 500, [(''CN'', utf8 [103,82,80,67,229,174,162,230,136,183,231,171,175,232,191,158,230,142,165,229,164,177,232,180,165]), (''EN'', ''Dial to gRPC server error.'')]),
     (ErrGRPCClientInvokeServiceError, 500, [(''CN'', utf8 [103,82,80,67,229,174,162,230,136,183,231,171,175,232,174,191,233,151,174,230,156,141,229,138,161,230,142,165,229,143,163,229,164,177,232,180,165]), (''EN'', ''Invoke gRPC server service function error.'')]),
     (ErrGRPCResponseDataParseError, 500, [(''CN'', utf8 [232,167,163,230,158,144,103,82,80,67,230,156,141,229,138,161,232,191,148,229,155,158,230,149,176,230,141,174,229,164,177,232,180,165]), (''EN'', ''Decode data from gRPC service error.'')]),
     (ErrUserNotFound, 500, [(''CN'', utf8 [233,148,153,232,175,175,228,191,161,230,129,175,230,156,170,232,174,190,231,189,174]), (''EN'', ''Unset error message'')])]"

fun register_all :: "(err_code \<Rightarrow> 'r \<Rightarrow> string + 'r) \<Rightarrow> (code \<times> int \<times> (string \<times> string) list) list \<Rightarrow> 'r \<Rightarrow> string + 'r" where
  "register_all must [] r = Inr r"
| "register_all must ((c, http, message) # cs) r = (case register must (code_number c) http message r of
     Inl panic \<Rightarrow> Inl panic
   | Inr r' \<Rightarrow> register_all must cs r')"

definition init_codes :: "(err_code \<Rightarrow> 'r \<Rightarrow> string + 'r) \<Rightarrow> 'r \<Rightarrow> string + 'r" where
  "init_codes must r = register_all must generated_codes r"

subsection \<open>What is registered\<close>

text \<open>The generated file is up to date: it registers exactly the constants, in their order, with the statuses and texts of their annotations.\<close>

lemma generated_up_to_date:
  "generated_codes = map (\<lambda>(c, http, cn, en). (c, http, [(''CN'', cn), (''EN'', en)]))
     (basic_codes @ database_codes @ auth_codes @ coding_codes @ http_client_codes @ grpc_client_codes @ server_codes)"
  by (simp only: generated_codes_def basic_codes_def database_codes_def auth_codes_def coding_codes_def http_client_codes_def grpc_client_codes_def server_codes_def append.simps list.map prod.case)

lemma code_values_eq: "code_values =
    [(ErrSuccess, 100001),
     (ErrUnknown, 100002),
     (ErrBind, 100003),
     (ErrValidation, 100004),
     (ErrTokenInvalid, 100005),
     (ErrPageNotFound, 100006),
     (ErrOperationBatchExecute, 100007),
     (ErrDatabase, 100101),
     (ErrEncrypt, 100201),
     (ErrSignatureInvalid, 100202),
     (ErrExpired, 100203),
     (ErrInvalidAuthHeader, 100204),
     (ErrMissingHeader, 100205),
     (ErrPasswordIncorrect, 100206),
     (ErrPermissionDenied, 100207),
     (ErrEncodingFailed, 100301),
     (ErrDecodingFailed, 100302),
     (ErrInvalidJSON, 100303),
     (ErrEncodingJSON, 100304),
     (ErrDecodingJSON, 100305),
     (ErrInvalidYaml, 100306),
     (ErrEncodingYaml, 100307),
     (ErrDecodingYaml, 100308),
     (ErrHTTPError, 100501),
     (ErrHTTPResponseDataParseError, 100502),
     (ErrHTTPClientGenerateError, 100503),
     (ErrProviderUnauthorized, 100504),
     (ErrProviderUnsupported, 100505),
     (ErrProviderUnavailable, 100506),
     (ErrProviderResponseParseError, 100507),
     (ErrGRPCClientGenerateError, 100701),
     (ErrGRPCClientCertificateError, 100702),
     (ErrGRPCClientDialError, 100703),
     (ErrGRPCClientInvokeServiceError, 100704),
     (ErrGRPCResponseDataParseError, 100705),
     (ErrUserNotFound, 110001)]"
  by (simp add: code_values_def basic_codes_def database_codes_def auth_codes_def coding_codes_def http_client_codes_def grpc_client_codes_def server_codes_def)

lemma code_values_exact: "map fst code_values = map fst generated_codes" "distinct (map fst code_values)" "distinct (map snd code_values)"
  unfolding code_values_eq generated_codes_def by simp_all

lemma map_of_fst: "distinct (map fst ps) \<Longrightarrow> map (\<lambda>c. case map_of ps c of Some n \<Rightarrow> n | None \<Rightarrow> d) (map fst ps) = map snd ps"
  by (auto simp: map_of_is_SomeI)

lemma code_numbers: "map code_number (map fst generated_codes) = map snd code_values"
  using map_of_fst[OF code_values_exact(2), of 0] unfolding code_values_exact(1)[symmetric] code_number_def .

lemma generated_statuses: "list_all (\<lambda>(c, http, _). http \<in> set [200, 400, 401, 403, 404, 500]) generated_codes"
  by (simp add: generated_codes_def)

lemma register_all_succeeds:
  assumes must: "\<And>e r. ec_code e \<notin> known r \<Longrightarrow> \<exists>r'. must e r = Inr r' \<and> known r' = insert (ec_code e) (known r)"
    and "distinct (map (code_number \<circ> fst) cs)" and "list_all (\<lambda>(c, http, _). http \<in> set [200, 400, 401, 403, 404, 500]) cs"
    and "code_number ` fst ` set cs \<inter> known r = {}"
  shows "\<exists>r'. register_all must cs r = Inr r' \<and> known r' = known r \<union> code_number ` fst ` set cs"
  using assms(2-4)
proof (induction cs arbitrary: r)
  case (Cons x cs)
  obtain c http message where x: "x = (c, http, message)" by (cases x)
  obtain r1 where r1: "register must (code_number c) http message r = Inr r1" "known r1 = insert (code_number c) (known r)"
    using must[of "\<lparr>ec_code = code_number c, ec_http = http, ec_message = Some message\<rparr>" r] Cons.prems x by (auto simp: register_def)
  have "\<exists>r'. register_all must cs r1 = Inr r' \<and> known r' = known r1 \<union> code_number ` fst ` set cs"
    by (rule Cons.IH) (use Cons.prems x r1 in auto)
  then show ?case using r1 by (auto simp: x)
qed simp

text \<open>With a registry that refuses only a code it has, the start of the program registers every constant and does not panic.\<close>

lemma init_codes_succeeds:
  assumes must: "\<And>e r. ec_code e \<notin> known r \<Longrightarrow> \<exists>r'. must e r = Inr r' \<and> known r' = insert (ec_code e) (known r)" and "known r = {}"
  shows "\<exists>r'. init_codes must r = Inr r' \<and> known r' = code_number ` fst ` set generated_codes"
proof -
  have "distinct (map (code_number \<circ> fst) generated_codes)" using code_values_exact(3) code_numbers by (simp add: comp_def)
  from register_all_succeeds[OF must this generated_statuses, of r] show ?thesis using assms(2) by (simp add: init_codes_def)
qed

end
