(* ===== verification/Machinery.thy ===== *)
theory Machinery
  imports Complex_Main GoPath Codes "HOL-Library.Char_ord" "HOL-Library.List_Lexorder" "HOL-Library.Product_Lexorder" "HOL-Library.Multiset"
begin

text \<open>
  \<open>backend/apis/imachinery\<close> and the Go basics under it: 64-bit integers, JSON-like values
  (\<open>any\<close>), error values and codes, time stamps, \<open>ObjectMeta\<close> and its gorm hooks, and the list
  request \<open>BasicQueryParam\<close> with the SQL query that \<open>ToQuery\<close> builds from it.
\<close>

subsection \<open>Machine integers\<close>

text \<open>
  \<open>int\<close> and \<open>int64\<close> are 64-bit two's complement. They are HOL integers here; \<open>wrap64\<close> is
  written wherever the code's arithmetic can overflow. Go's division truncates towards zero.
\<close>

definition wrap64 :: "int \<Rightarrow> int" where
  "wrap64 x = (x + 2 ^ 63) mod 2 ^ 64 - 2 ^ 63"

definition int64_range :: "int \<Rightarrow> bool" where
  "int64_range x \<longleftrightarrow> - (2 ^ 63) \<le> x \<and> x < 2 ^ 63"

definition go_div :: "int \<Rightarrow> int \<Rightarrow> int" where
  "go_div a b = sgn a * sgn b * (\<bar>a\<bar> div \<bar>b\<bar>)"

lemma wrap64_id: "int64_range x \<Longrightarrow> wrap64 x = x"
  by (simp add: wrap64_def int64_range_def)

lemma wrap64_range: "int64_range (wrap64 x)"
proof -
  have "0 \<le> (x + 2 ^ 63) mod 2 ^ 64" "(x + 2 ^ 63) mod 2 ^ 64 < 2 ^ 64"
    by (rule pos_mod_sign, simp) (rule pos_mod_bound, simp)
  then show ?thesis by (simp add: wrap64_def int64_range_def)
qed

lemma wrap64_over: "2 ^ 63 \<le> x \<Longrightarrow> x < 2 ^ 64 \<Longrightarrow> wrap64 x = x - 2 ^ 64"
proof -
  assume x: "2 ^ 63 \<le> x" "x < 2 ^ 64"
  have "(x + 2 ^ 63) mod 2 ^ 64 = (x + 2 ^ 63 - 2 ^ 64) mod 2 ^ 64" by (rule minus_mod_self2 [symmetric])
  also have "\<dots> = x + 2 ^ 63 - 2 ^ 64" using x by (intro mod_pos_pos_trivial) simp_all
  finally show ?thesis by (simp add: wrap64_def)
qed

lemma go_div_pos: "0 \<le> a \<Longrightarrow> 0 < b \<Longrightarrow> go_div a b = a div b"
  by (cases "a = 0") (simp_all add: go_div_def)

lemma go_div_neg: "a < 0 \<Longrightarrow> 0 < b \<Longrightarrow> go_div a b \<le> 0"
  by (simp add: go_div_def pos_imp_zdiv_nonneg_iff)

subsection \<open>Values, errors, time\<close>

text \<open>
  A value of Go type \<open>any\<close> as the program stores it: what \<open>encoding/json\<close> reads and writes.
  A \<open>map[string]any\<close> is a partial function; a map variable that may be nil is an option.
\<close>

datatype any =
    ANil
  | ABool bool
  | ANum rat
  | AStr string
  | AArr "any list"
  | AObj "string \<Rightarrow> any option"

type_synonym gomap = "string \<Rightarrow> any option"

text \<open>Indexing a Go map gives the zero value (nil) where the key is absent or the map is nil.\<close>

definition map_at :: "gomap \<Rightarrow> string \<Rightarrow> any" where
  "map_at m k = (case m k of None \<Rightarrow> ANil | Some v \<Rightarrow> v)"

definition nilmap_at :: "gomap option \<Rightarrow> string \<Rightarrow> any" where
  "nilmap_at m k = (case m of None \<Rightarrow> ANil | Some f \<Rightarrow> map_at f k)"

text \<open>The type assertion \<open>v, _ := x.(string)\<close>, with the zero value where it fails.\<close>

fun as_string :: "any \<Rightarrow> string" where
  "as_string (AStr s) = s"
| "as_string _ = []"

text \<open>
  Errors: a row that gorm's \<open>First\<close> does not find, any other failure of the database or the
  file system, \<open>errors.NewStatusF(code, ...)\<close> and \<open>errors.Errorf(...)\<close> with the format string
  and the arguments. \<open>errors.WithStack\<close> keeps the error it wraps. A panic, such as a write to a nil map,
  ends a request like an error.
\<close>

datatype err =
    RecordNotFound
  | StoreFailure
  | IOFailure
  | NotExist
  | Status code string "string list"
  | Errorf string "string list"
  | Panic string

text \<open>Nanoseconds since the Unix epoch; \<open>time.Time{}\<close> is the first of January of year 1.\<close>

type_synonym time = int

definition zero_time :: time where
  "zero_time = - 62135596800 * 1000000000"

definition UnixMilli :: "time \<Rightarrow> int" where
  "UnixMilli t = t div 1000000"

definition Unix :: "int \<Rightarrow> time" where
  "Unix sec = sec * 1000000000"

subsection \<open>ObjectMeta\<close>

text \<open>
  The metadata embedded in every persisted struct. \<open>ExtendShadow\<close> is the JSON text of \<open>Extend\<close>
  and is not a field of the model, as the other shadow columns.
\<close>

record object_meta =
  obj_ID :: string
  obj_Name :: string
  obj_Extend :: "gomap option"
  obj_CreatedAt :: time
  obj_UpdatedAt :: time
  obj_Description :: string
  obj_ResourceVersion :: int

definition new_meta :: object_meta where
  "new_meta = \<lparr>obj_ID = [], obj_Name = [], obj_Extend = None, obj_CreatedAt = zero_time,
     obj_UpdatedAt = zero_time, obj_Description = [], obj_ResourceVersion = 0\<rparr>"

definition BeforeCreate :: "string \<Rightarrow> time \<Rightarrow> 'r object_meta_scheme \<Rightarrow> 'r object_meta_scheme" where
  "BeforeCreate fresh now obj =
     obj\<lparr>obj_ID := (if obj_ID obj = [] then fresh else obj_ID obj),
         obj_CreatedAt := now, obj_UpdatedAt := now, obj_ResourceVersion := 1\<rparr>"

definition BeforeUpdate :: "time \<Rightarrow> 'r object_meta_scheme \<Rightarrow> 'r object_meta_scheme" where
  "BeforeUpdate now obj =
     obj\<lparr>obj_UpdatedAt := now, obj_ResourceVersion := wrap64 (obj_ResourceVersion obj + 1)\<rparr>"

lemma BeforeUpdate_ID [simp]: "obj_ID (BeforeUpdate now obj) = obj_ID obj"
  by (simp add: BeforeUpdate_def)

lemma BeforeUpdate_Name [simp]: "obj_Name (BeforeUpdate now obj) = obj_Name obj"
  by (simp add: BeforeUpdate_def)

lemma BeforeUpdate_more [simp]: "object_meta.more (BeforeUpdate now obj) = object_meta.more obj"
  by (simp add: BeforeUpdate_def)

lemma BeforeCreate_more [simp]: "object_meta.more (BeforeCreate fresh now obj) = object_meta.more obj"
  by (simp add: BeforeCreate_def)

lemma BeforeCreate_Name [simp]: "obj_Name (BeforeCreate fresh now obj) = obj_Name obj"
  by (simp add: BeforeCreate_def)

lemma BeforeCreate_ID: "obj_ID obj = [] \<Longrightarrow> obj_ID (BeforeCreate fresh now obj) = fresh"
  by (simp add: BeforeCreate_def)

subsection \<open>List requests\<close>

record basic_query =
  bq_PageNum :: int
  bq_PageSize :: int
  bq_Keyword :: string
  bq_SearchFields :: "string list"
  bq_SortField :: string
  bq_SortOrder :: string
  bq_CreatedAfter :: int
  bq_CreatedBefore :: int

definition new_query :: basic_query where
  "new_query = \<lparr>bq_PageNum = 0, bq_PageSize = 0, bq_Keyword = [], bq_SearchFields = [],
     bq_SortField = [], bq_SortOrder = [], bq_CreatedAfter = 0, bq_CreatedBefore = 0\<rparr>"

text \<open>
  What \<open>ToQuery\<close> hands to gorm: the text of the keyword condition with the fields it names and
  its argument, the filter of the resource, the bounds on \<open>created_at\<close>, the text of the
  \<open>ORDER BY\<close> clause, and offset and limit.
\<close>

record 'r query =
  q_like :: "(string \<times> string list \<times> string) option"
  q_filter :: "'r \<Rightarrow> bool"
  q_after :: "time option"
  q_before :: "time option"
  q_order :: string
  q_page :: "(int \<times> int) option"

definition ident_start :: "char \<Rightarrow> bool" where
  "ident_start c \<longleftrightarrow> (97 \<le> byte c \<and> byte c \<le> 122) \<or> (65 \<le> byte c \<and> byte c \<le> 90) \<or> c = CHR ''_''"

definition ident_char :: "char \<Rightarrow> bool" where
  "ident_char c \<longleftrightarrow> ident_start c \<or> is_digit c"

definition isValidFieldName :: "string \<Rightarrow> bool" where
  "isValidFieldName f = (case f of [] \<Rightarrow> False | c # cs \<Rightarrow> ident_start c \<and> (\<forall>d \<in> set cs. ident_char d))"

definition like_text :: "string list \<Rightarrow> string" where
  "like_text flds = Join (map (\<lambda>f. f @ '' LIKE ?'') flds) '' OR ''"

definition ToQuery :: "(string \<Rightarrow> string) \<Rightarrow> basic_query \<Rightarrow> ('r \<Rightarrow> bool) \<Rightarrow> 'r query" where
  "ToQuery uni params resourceFilter =
     (let flds = (if bq_SearchFields params = [] then [''name'', ''description''] else bq_SearchFields params);
          size = (if 1000 < bq_PageSize params then 1000 else bq_PageSize params)
      in \<lparr>q_like = (if bq_Keyword params \<noteq> [] then Some (like_text flds, flds, ''%'' @ bq_Keyword params @ ''%'') else None),
          q_filter = resourceFilter,
          q_after = (if bq_CreatedAfter params \<noteq> 0 then Some (Unix (bq_CreatedAfter params)) else None),
          q_before = (if bq_CreatedBefore params \<noteq> 0 then Some (Unix (bq_CreatedBefore params)) else None),
          q_order = (if bq_SortField params \<noteq> [] \<and> isValidFieldName (bq_SortField params)
                     then bq_SortField params @
                          (if ToLower uni (bq_SortOrder params) = ''desc'' then '' DESC'' else '' ASC'')
                     else ''created_at DESC''),
          q_page = (if 0 < bq_PageNum params \<and> 0 < bq_PageSize params
                    then Some (wrap64 ((bq_PageNum params - 1) * size), size) else None)\<rparr>)"

subsection \<open>Evaluating a query on the rows of a table\<close>

text \<open>
  Column values with the order that \<open>ORDER BY\<close> uses (byte order on text), SQL's \<open>LIKE\<close>, and the
  evaluation of a query on a table given by its columns. Identifiers are folded to lower case, as
  PostgreSQL does. A field that is not a column, and a \<open>LIKE\<close> on a column that is not text, make
  the statement fail. An \<open>ORDER BY\<close> text built by \<open>ToQuery\<close> is a column and a direction.
\<close>

datatype sqlval = SInt int | SText string | SBool bool

fun sql_key :: "sqlval \<Rightarrow> nat \<times> int \<times> string" where
  "sql_key (SBool b) = (0, if b then 1 else 0, [])"
| "sql_key (SInt i) = (1, i, [])"
| "sql_key (SText s) = (2, 0, s)"

lemma sql_key_inj: "sql_key x = sql_key y \<Longrightarrow> x = y"
  by (cases x; cases y) (auto split: if_splits)

instantiation sqlval :: linorder
begin

definition less_eq_sqlval :: "sqlval \<Rightarrow> sqlval \<Rightarrow> bool" where
  "less_eq_sqlval x y \<longleftrightarrow> sql_key x \<le> sql_key y"

definition less_sqlval :: "sqlval \<Rightarrow> sqlval \<Rightarrow> bool" where
  "less_sqlval x y \<longleftrightarrow> sql_key x < sql_key y"

instance
  by standard (auto simp: less_eq_sqlval_def less_sqlval_def dest: sql_key_inj order.antisym)

end

fun like_match :: "nat list \<Rightarrow> nat list \<Rightarrow> bool" where
  "like_match [] s = (s = [])"
| "like_match (p # ps) [] = (p = 37 \<and> like_match ps [])"
| "like_match (p # ps) (c # s) =
     (if p = 37 then like_match ps (c # s) \<or> like_match (p # ps) s
      else (p = 95 \<or> p = c) \<and> like_match ps s)"

definition sql_like :: "string \<Rightarrow> string \<Rightarrow> bool" where
  "sql_like pat s = like_match (runes pat) (runes s)"

datatype 'r column =
    CText "'r \<Rightarrow> string"
  | CInt "'r \<Rightarrow> int"
  | CBool "'r \<Rightarrow> bool"

type_synonym 'r columns = "(string \<times> 'r column) list"

fun column_value :: "'r column \<Rightarrow> 'r \<Rightarrow> sqlval" where
  "column_value (CText g) r = SText (g r)"
| "column_value (CInt g) r = SInt (g r)"
| "column_value (CBool g) r = SBool (g r)"

definition find_column :: "'r columns \<Rightarrow> string \<Rightarrow> 'r column option" where
  "find_column cols f = map_of cols (map ascii_lower f)"

definition text_column :: "'r columns \<Rightarrow> string \<Rightarrow> bool" where
  "text_column cols f = (case find_column cols f of Some (CText _) \<Rightarrow> True | _ \<Rightarrow> False)"

definition text_value :: "'r columns \<Rightarrow> string \<Rightarrow> 'r \<Rightarrow> string" where
  "text_value cols f r = (case find_column cols f of Some (CText g) \<Rightarrow> g r | _ \<Rightarrow> [])"

text \<open>The columns of \<open>ObjectMeta\<close>, which every table has.\<close>

definition meta_columns :: "'r object_meta_scheme columns" where
  "meta_columns = [(''id'', CText obj_ID), (''name'', CText obj_Name), (''created_at'', CInt obj_CreatedAt),
     (''updated_at'', CInt obj_UpdatedAt), (''description'', CText obj_Description),
     (''resource_version'', CInt obj_ResourceVersion)]"

definition order_column :: "string \<Rightarrow> string \<times> bool" where
  "order_column t = (if HasSuffix t '' DESC'' then (TrimSuffix t '' DESC'', True) else (TrimSuffix t '' ASC'', False))"

definition desc_sort :: "('r \<Rightarrow> 'k::linorder) \<Rightarrow> 'r list \<Rightarrow> 'r list" where
  "desc_sort k rs = rev (sort_key k (rev rs))"

definition page_of :: "(int \<times> int) option \<Rightarrow> 'r list \<Rightarrow> 'r list" where
  "page_of p rs = (case p of None \<Rightarrow> rs | Some (off, lmt) \<Rightarrow> take (nat lmt) (drop (nat off) rs))"

text \<open>The rows of the page, and all the hits.\<close>

definition query_hits :: "'r columns \<Rightarrow> ('r \<Rightarrow> time) \<Rightarrow> 'r query \<Rightarrow> 'r list \<Rightarrow> 'r list" where
  "query_hits cols created q rows = filter (\<lambda>r.
      (case q_like q of None \<Rightarrow> True | Some (_, fs, pat) \<Rightarrow> \<exists>f \<in> set fs. sql_like pat (text_value cols f r))
      \<and> q_filter q r
      \<and> (case q_after q of None \<Rightarrow> True | Some t \<Rightarrow> t \<le> created r)
      \<and> (case q_before q of None \<Rightarrow> True | Some t \<Rightarrow> created r \<le> t)) rows"

definition run_query ::
  "'r columns \<Rightarrow> ('r \<Rightarrow> time) \<Rightarrow> 'r query \<Rightarrow> 'r list \<Rightarrow> ('r list \<times> 'r list) option" where
  "run_query cols created q rows =
     (let flds = (case q_like q of None \<Rightarrow> [] | Some (_, fs, _) \<Rightarrow> fs);
          ord = order_column (q_order q);
          hits = query_hits cols created q rows
      in case find_column cols (fst ord) of None \<Rightarrow> None | Some oc \<Rightarrow>
         if \<forall>f \<in> set flds. text_column cols f
         then Some (page_of (q_page q) (if snd ord then desc_sort (column_value oc) hits
                                        else sort_key (column_value oc) hits), hits)
         else None)"

lemma set_desc_sort [simp]: "set (desc_sort k rs) = set rs"
  by (simp add: desc_sort_def)

lemma mset_desc_sort [simp]: "mset (desc_sort k rs) = mset rs"
  by (simp add: desc_sort_def)

lemma page_of_subset: "set (page_of p rs) \<subseteq> set rs"
  by (auto simp: page_of_def split: option.splits prod.splits dest: in_set_takeD in_set_dropD)

text \<open>Every row of a page passes the filter of the query; a page holds at most its size.\<close>

lemma run_query_sound:
  assumes "run_query cols created q rs = Some (items, hits)"
  shows "set items \<subseteq> {r \<in> set rs. q_filter q r}" and "q_page q = Some (off, lmt) \<Longrightarrow> length items \<le> nat lmt"
proof -
  obtain oc where "find_column cols (fst (order_column (q_order q))) = Some oc"
    using assms by (cases "find_column cols (fst (order_column (q_order q)))") (simp_all add: run_query_def Let_def)
  moreover have "x = y" if "(if b then Some x else None) = Some y" for b and x y :: "'a list \<times> 'a list"
    using that by (cases b) simp_all
  ultimately have "(page_of (q_page q) (if snd (order_column (q_order q)) then desc_sort (column_value oc) (query_hits cols created q rs)
      else sort_key (column_value oc) (query_hits cols created q rs)), query_hits cols created q rs) = (items, hits)"
    using assms unfolding run_query_def Let_def by (simp only: option.case)
  then have hits: "hits = query_hits cols created q rs"
    and eq: "items = page_of (q_page q) (if snd (order_column (q_order q)) then desc_sort (column_value oc) hits
      else sort_key (column_value oc) hits)" by blast+
  define ord where "ord = (if snd (order_column (q_order q)) then desc_sort (column_value oc) hits else sort_key (column_value oc) hits)"
  have items: "items = page_of (q_page q) ord" unfolding ord_def by (rule eq)
  have sub: "set items \<subseteq> set hits" using page_of_subset[of "q_page q" ord] by (simp add: items ord_def split: if_splits)
  have "set hits \<subseteq> {r \<in> set rs. q_filter q r}" by (auto simp: hits query_hits_def)
  then show "set items \<subseteq> {r \<in> set rs. q_filter q r}" using sub by blast
  show "length items \<le> nat lmt" if "q_page q = Some (off, lmt)"
    by (simp add: items that page_of_def)
qed

end
