(* ===== verification/World.thy ===== *)
theory World
  imports Machinery
begin

text \<open>
  The persisted entities of \<open>backend/apis/iapiserver/meta_platform.go\<close>, \<open>meta_asset.go\<close>, \<open>meta_identity.go\<close>,
  \<open>meta_token.go\<close> and \<open>meta_sso.go\<close> as the services see them (the columns with JSON text are in theory Shadows), the
  world the services run in, and the statements by which the stores of
  \<open>backend/internal/apiserver/store/postgresql\<close> read and write it.

  The world holds one list of rows per table, the files and directories, the clock, the number
  of UUIDs drawn, and a schedule of faults: every database statement and every file operation
  takes the next entry of the schedule and fails where it is True (an exhausted schedule means no
  more faults). A theorem about every world is therefore a theorem about every pattern of
  database and disk failures. Inside a transaction a failed statement aborts the transaction, as
  PostgreSQL does: every later statement and the commit fail, and the tables are restored.

  Each struct that embeds \<open>ObjectMeta\<close> is a record that extends \<^typ>\<open>object_meta\<close>. The text
  columns that shadow map and slice fields as JSON are not fields here: the field itself is kept,
  which is what \<open>BeforeCreate\<close>, \<open>BeforeUpdate\<close> and \<open>AfterFind\<close> make of it.
\<close>

subsection \<open>Parameters\<close>

text \<open>
  What is not under \<open>src/\<close> or depends on the machine: UUIDs, Unicode tables, working directory,
  environment variables, SHA-256 and SHA-512, the secret that a TOTP library generates for an account, content sniffing, image decoding, MIME tables, date formats, days added in the local time zone,
  the text of an error, the number that gorm's \<open>Count\<close> returns after a \<open>Find\<close> with offset and
  limit (from all the hits and the page), whether gorm's \<open>Updates\<close> with a map touches
  \<open>updated_at\<close>, the decoding of an image and the PNG encoding of rows of colours, the run of ffmpeg
  on a file or a missing one (no binary, a failure with its output, or the bytes it writes), the JSON text of a
  list of strings, and the answer of a
  model provider to a request for its models (no response, or a status with the identifiers
  decoded from the body).
\<close>

datatype http_result =
    HttpError
  | HttpStatus int "string list option"

text \<open>A decoded image: the corner and the size of its bounds, and the colour at a point.\<close>

record picture =
  px_MinX :: int
  px_MinY :: int
  px_Dx :: int
  px_Dy :: int
  px_At :: "int \<Rightarrow> int \<Rightarrow> nat"

record env =
  e_uuid :: "nat \<Rightarrow> string"
  e_lower :: "string \<Rightarrow> string"
  e_fold :: "string \<Rightarrow> string \<Rightarrow> bool"
  e_cwd :: "string option"
  e_getenv :: "string \<Rightarrow> string"
  e_sha256 :: "string \<Rightarrow> string"
  e_sha512 :: "string \<Rightarrow> string"
  e_totp :: "string \<Rightarrow> string option"
  e_detect :: "string \<Rightarrow> string"
  e_dimensions :: "string \<Rightarrow> (int \<times> int) option"
  e_ext_by_type :: "string \<Rightarrow> string list"
  e_month :: "time \<Rightarrow> string"
  e_add_days :: "time \<Rightarrow> int \<Rightarrow> time"
  e_rfc3339 :: "time \<Rightarrow> string"
  e_error :: "err \<Rightarrow> string"
  e_count :: "nat \<Rightarrow> (int \<times> int) option \<Rightarrow> int"
  e_touch :: bool
  e_decode :: "string \<Rightarrow> picture option"
  e_png :: "nat list list \<Rightarrow> string"
  e_ffmpeg :: "string option \<Rightarrow> (string + string) option"
  e_json_strings :: "string list \<Rightarrow> string"
  e_http :: "string \<Rightarrow> string option \<Rightarrow> http_result"

subsection \<open>Entities\<close>

record provider = object_meta +
  pv_Type :: string
  pv_Enabled :: bool
  pv_BaseURL :: string
  pv_AuthType :: string
  pv_CredentialRef :: string
  pv_PresetKey :: string
  pv_Config :: "gomap option"

record provider_model = object_meta +
  pm_ProviderID :: string
  pm_Model :: string
  pm_EndpointType :: string
  pm_GroupName :: string
  pm_Capabilities :: "string list"
  pm_ModelTypes :: "string list"
  pm_Enabled :: bool
  pm_DefaultParams :: "gomap option"
  pm_Pricing :: "gomap option"

record llm_config = object_meta +
  lc_Purpose :: string
  lc_ProviderID :: string
  lc_ModelID :: string
  lc_Model :: string
  lc_Enabled :: bool

record storage_backend = object_meta +
  sb_Type :: string
  sb_Root :: string
  sb_Config :: "gomap option"
  sb_Enabled :: bool
  sb_Readonly :: bool
  sb_Quota :: int

record asset = object_meta +
  as_MediaType :: string
  as_MimeType :: string
  as_StorageBackendID :: string
  as_ObjectKey :: string
  as_Size :: int
  as_Checksum :: string
  as_Width :: int
  as_Height :: int
  as_Duration :: int
  as_Format :: string
  as_SourceType :: string
  as_SourceRef :: string
  as_DeletedAt :: int
  as_Metadata :: "gomap option"

record thumbnail = object_meta +
  th_AssetID :: string
  th_StorageBackendID :: string
  th_ObjectKey :: string
  th_Width :: int
  th_Height :: int
  th_MimeType :: string
  th_Size :: int
  th_Status :: string

record tag = object_meta +
  tg_Source :: string

record asset_tag = object_meta +
  at_AssetID :: string
  at_TagID :: string
  at_Source :: string

record asset_group = object_meta +
  ag_Type :: string
  ag_DynamicRule :: "gomap option"

record group_member = object_meta +
  gm_GroupID :: string
  gm_AssetID :: string
  gm_Role :: string

record asset_relation = object_meta +
  ar_SourceAssetID :: string
  ar_TargetAssetID :: string
  ar_TaskID :: string
  ar_RelationType :: string
  ar_Params :: "gomap option"

record task = object_meta +
  tk_Type :: string
  tk_Status :: string
  tk_Priority :: int
  tk_Queue :: string
  tk_Input :: "gomap option"
  tk_Output :: "gomap option"
  tk_Progress :: int
  tk_Error :: string
  tk_Attempts :: int
  tk_MaxAttempts :: int
  tk_LockOwner :: string
  tk_LockedUntil :: time
  tk_IdempotencyKey :: string

record feature_flag = object_meta +
  ff_Key :: string
  ff_Enabled :: bool

record permission = object_meta +
  pe_Key :: string

record project = object_meta +
  pj_SortOrder :: int

record canvas = object_meta +
  cv_Title :: string
  cv_Icon :: string
  cv_Kind :: string
  cv_Owner :: string
  cv_Color :: string
  cv_Pinned :: bool
  cv_ProjectID :: string
  cv_DeletedAt :: int
  cv_BoardX :: rat
  cv_BoardY :: rat
  cv_Nodes :: any
  cv_Connections :: any
  cv_Viewport :: any
  cv_Logs :: any
  cv_Settings :: any

record asset_category = object_meta +
  ac_LibraryID :: string
  ac_Type :: string
  ac_Dir :: string
  ac_SortOrder :: int

record asset_item = object_meta +
  ai_LibraryID :: string
  ai_CategoryID :: string
  ai_URL :: string
  ai_Kind :: string
  ai_Size :: int
  ai_Format :: string
  ai_SortOrder :: int

record prompt_library = object_meta +
  lb_System :: bool
  lb_Active :: bool
  lb_Readonly :: bool

record prompt_category = object_meta +
  pc_LibraryID :: string

record prompt_item = object_meta +
  pi_LibraryID :: string
  pi_CategoryID :: string
  pi_Positive :: string
  pi_Negative :: string
  pi_Scene :: string

record user = object_meta +
  us_Password :: string
  us_Mail :: string
  us_Phone :: string
  us_Type :: string
  us_Source :: string
  us_Default :: bool

record user_otp = object_meta +
  uo_Secret :: string
  uo_UserID :: string

record one_time_token = object_meta +
  ot_Type :: string
  ot_TTLSeconds :: int
  ot_Payload :: string
  ot_PayloadHash :: string
  ot_ExpiresAt :: time
  ot_Used :: bool

text \<open>\<open>AssetLibrary\<close> and \<open>Setting\<close> have the metadata and no other columns.\<close>

type_synonym asset_library = object_meta

type_synonym setting = object_meta

text \<open>Identity providers and service providers of single sign-on.\<close>

record oauth2_idp =
  oi_AuthorizeURI :: string
  oi_TokenURI :: string
  oi_UserInfoURI :: string
  oi_UserNameField :: string
  oi_ClientID :: string
  oi_ClientSecret :: string
  oi_Scopes :: "string list"

record identity_provider = object_meta +
  ip_Enable :: bool
  ip_Protocol :: string
  ip_Endpoint :: string
  ip_SAML :: "string option"
  ip_Oauth2 :: "oauth2_idp option"

record saml_sp =
  ss_Key :: string
  ss_Metadata :: string

record oauth2_sp =
  os_RedirectURIs :: "string list"
  os_Type :: string
  os_ClientID :: string
  os_ClientSecret :: string

record service_provider = object_meta +
  sp_Enable :: bool
  sp_Protocol :: string
  sp_Endpoint :: string
  sp_Type :: string
  sp_SAML :: "saml_sp option"
  sp_Oauth2 :: "oauth2_sp option"

subsection \<open>The world\<close>

record world =
  w_now :: time
  w_uuids :: nat
  w_faults :: "bool list"
  w_tx :: "bool option"
  w_files :: "(string \<times> string) list"
  w_dirs :: "(string \<times> time) list"
  w_providers :: "provider list"
  w_models :: "provider_model list"
  w_llm_configs :: "llm_config list"
  w_backends :: "storage_backend list"
  w_assets :: "asset list"
  w_thumbnails :: "thumbnail list"
  w_tags :: "tag list"
  w_asset_tags :: "asset_tag list"
  w_groups :: "asset_group list"
  w_members :: "group_member list"
  w_relations :: "asset_relation list"
  w_tasks :: "task list"
  w_flags :: "feature_flag list"
  w_permissions :: "permission list"
  w_projects :: "project list"
  w_canvases :: "canvas list"
  w_libraries :: "asset_library list"
  w_categories :: "asset_category list"
  w_items :: "asset_item list"
  w_prompt_libraries :: "prompt_library list"
  w_prompt_categories :: "prompt_category list"
  w_prompt_items :: "prompt_item list"
  w_users :: "user list"
  w_otps :: "user_otp list"
  w_otts :: "one_time_token list"
  w_settings :: "setting list"
  w_idps :: "identity_provider list"
  w_sps :: "service_provider list"

type_synonym 'a m = "(world, err, 'a) op"

type_synonym 'r tbl = "(world \<Rightarrow> 'r list) \<times> (('r list \<Rightarrow> 'r list) \<Rightarrow> world \<Rightarrow> world)"

abbreviation rows :: "'r tbl \<Rightarrow> world \<Rightarrow> 'r list" where
  "rows t w \<equiv> fst t w"

abbreviation upd_rows :: "'r tbl \<Rightarrow> ('r list \<Rightarrow> 'r list) \<Rightarrow> world \<Rightarrow> world" where
  "upd_rows t \<equiv> snd t"

text \<open>A list request with no conditions of its own gives the rows that pass the filter, newest first.\<close>

lemma run_plain_query:
  "run_query (meta_columns @ cols) obj_CreatedAt (ToQuery uni new_query P) rs =
     Some (desc_sort (column_value (CInt obj_CreatedAt)) (filter P rs), filter P rs)"
proof -
  have q: "ToQuery uni new_query P =
      \<lparr>q_like = None, q_filter = P, q_after = None, q_before = None, q_order = ''created_at DESC'', q_page = None\<rparr>"
    by (simp add: ToQuery_def new_query_def Let_def)
  have "order_column ''created_at DESC'' = (''created_at'', True)" by code_simp
  moreover have "map ascii_lower ''created_at'' = ''created_at''" by code_simp
  ultimately show ?thesis
    unfolding q run_query_def
    by (simp add: query_hits_def find_column_def meta_columns_def page_of_def Let_def)
qed

subsection \<open>Statements and transactions\<close>

definition stmt :: "'a m \<Rightarrow> 'a m" where
  "stmt body = (\<lambda>w.
     if w_tx w = Some False then (Inl StoreFailure, w)
     else (case w_faults w of
         [] \<Rightarrow> body w
       | f # fs \<Rightarrow>
           if f then (Inl StoreFailure, w\<lparr>w_faults := fs, w_tx := map_option (\<lambda>_. False) (w_tx w)\<rparr>)
           else body (w\<lparr>w_faults := fs\<rparr>)))"

definition undo_tables :: "world \<Rightarrow> world \<Rightarrow> world" where
  "undo_tables before after = before\<lparr>w_faults := w_faults after, w_uuids := w_uuids after\<rparr>"

definition transaction :: "'a m \<Rightarrow> 'a m" where
  "transaction body = rollback undo_tables
     (\<lambda>w. bindE body (\<lambda>x. stmt (\<lambda>w'. (Inr x, w'\<lparr>w_tx := None\<rparr>))) (w\<lparr>w_tx := Some True\<rparr>))"

subsection \<open>Rows\<close>

text \<open>\<open>First\<close> orders by primary key and takes one row; \<open>Order(...).First\<close> orders by the key given, then by primary key.\<close>

fun min_by :: "('r \<Rightarrow> 'k::linorder) \<Rightarrow> 'r list \<Rightarrow> 'r option" where
  "min_by k [] = None"
| "min_by k (r # rs) = (case min_by k rs of None \<Rightarrow> Some r | Some r' \<Rightarrow> if k r' < k r then Some r' else Some r)"

definition save_row :: "'r object_meta_scheme \<Rightarrow> 'r object_meta_scheme list \<Rightarrow> 'r object_meta_scheme list" where
  "save_row r rs =
     (if obj_ID r \<in> set (map obj_ID rs)
      then map (\<lambda>x. if obj_ID x = obj_ID r then r else x) rs else rs @ [r])"

definition db_find :: "'r tbl \<Rightarrow> ('r \<Rightarrow> bool) \<Rightarrow> 'r list m" where
  "db_find t P = stmt (gets (\<lambda>w. filter P (rows t w)))"

definition db_first_by :: "('r \<Rightarrow> 'k::linorder) \<Rightarrow> 'r tbl \<Rightarrow> ('r \<Rightarrow> bool) \<Rightarrow> 'r m" where
  "db_first_by k t P = stmt (\<lambda>w. case min_by k (filter P (rows t w)) of
       None \<Rightarrow> (Inl RecordNotFound, w) | Some r \<Rightarrow> (Inr r, w))"

definition db_first :: "'r object_meta_scheme tbl \<Rightarrow> ('r object_meta_scheme \<Rightarrow> bool) \<Rightarrow> 'r object_meta_scheme m" where
  "db_first t P = db_first_by obj_ID t P"

definition db_count :: "'r tbl \<Rightarrow> ('r \<Rightarrow> bool) \<Rightarrow> int m" where
  "db_count t P = stmt (gets (\<lambda>w. int (length (filter P (rows t w)))))"

text \<open>\<open>Find(&items).Count(&total)\<close>: the query may depend on other tables through a subquery.\<close>

definition db_page :: "env \<Rightarrow> 'r object_meta_scheme columns \<Rightarrow> 'r object_meta_scheme tbl \<Rightarrow>
    (world \<Rightarrow> 'r object_meta_scheme query) \<Rightarrow> ('r object_meta_scheme list \<times> int) m" where
  "db_page E cols t q =
     bindE (stmt (\<lambda>w. case run_query (meta_columns @ cols) obj_CreatedAt (q w) (rows t w) of
              None \<Rightarrow> (Inl StoreFailure, w) | Some r \<Rightarrow> (Inr r, w)))
       (\<lambda>(items, hits). stmt (gets (\<lambda>w. (items, e_count E (length hits) (q_page (q w))))))"

definition db_create :: "env \<Rightarrow> ('r object_meta_scheme \<Rightarrow> 'r object_meta_scheme) \<Rightarrow> 'r object_meta_scheme tbl \<Rightarrow>
    'r object_meta_scheme \<Rightarrow> 'r object_meta_scheme m" where
  "db_create E dflt t r = stmt (\<lambda>w.
     let r' = dflt (BeforeCreate (e_uuid E (w_uuids w)) (w_now w) r);
         w' = (if obj_ID r = [] then w\<lparr>w_uuids := Suc (w_uuids w)\<rparr> else w)
     in if obj_ID r' \<in> set (map obj_ID (rows t w)) then (Inl StoreFailure, w')
        else (Inr r', upd_rows t (\<lambda>rs. rs @ [r']) w'))"

definition db_save :: "'r object_meta_scheme tbl \<Rightarrow> 'r object_meta_scheme \<Rightarrow> 'r object_meta_scheme m" where
  "db_save t r = stmt (\<lambda>w. let r' = BeforeUpdate (w_now w) r in (Inr r', upd_rows t (save_row r') w))"

definition db_delete :: "'r tbl \<Rightarrow> ('r \<Rightarrow> bool) \<Rightarrow> int m" where
  "db_delete t P = stmt (\<lambda>w. (Inr (int (length (filter P (rows t w)))), upd_rows t (filter (\<lambda>r. \<not> P r)) w))"

text \<open>\<open>Model(r).Select("*").Updates(r)\<close>: the row with this identifier, if there is one, becomes \<open>r\<close>.\<close>

definition db_replace :: "'r object_meta_scheme tbl \<Rightarrow> 'r object_meta_scheme \<Rightarrow> 'r object_meta_scheme m" where
  "db_replace t r = stmt (\<lambda>w. let r' = BeforeUpdate (w_now w) r
     in (Inr r', upd_rows t (map (\<lambda>x. if obj_ID x = obj_ID r then r' else x)) w))"

text \<open>\<open>Create\<close> of a slice: one statement for all of its rows.\<close>

fun create_rows :: "env \<Rightarrow> 'r object_meta_scheme tbl \<Rightarrow> 'r object_meta_scheme list \<Rightarrow> 'r object_meta_scheme list m" where
  "create_rows E t [] = ret []"
| "create_rows E t (r # rs) = (\<lambda>w.
     let r' = BeforeCreate (e_uuid E (w_uuids w)) (w_now w) r;
         w' = (if obj_ID r = [] then w\<lparr>w_uuids := Suc (w_uuids w)\<rparr> else w)
     in if obj_ID r' \<in> set (map obj_ID (rows t w)) then (Inl StoreFailure, w')
        else bindE (create_rows E t rs) (\<lambda>rs'. ret (r' # rs')) (upd_rows t (\<lambda>x. x @ [r']) w'))"

definition db_create_all :: "env \<Rightarrow> 'r object_meta_scheme tbl \<Rightarrow> 'r object_meta_scheme list \<Rightarrow> 'r object_meta_scheme list m" where
  "db_create_all E t rs = stmt (rollback (\<lambda>before after. before\<lparr>w_uuids := w_uuids after\<rparr>) (create_rows E t rs))"

text \<open>\<open>Model(&T{}).Where(P).Updates(columns)\<close>: the columns are \<open>f\<close>, the result is \<open>RowsAffected\<close>.\<close>

definition touch :: "env \<Rightarrow> time \<Rightarrow> 'r object_meta_scheme \<Rightarrow> 'r object_meta_scheme" where
  "touch E now r = (if e_touch E then r\<lparr>obj_UpdatedAt := now\<rparr> else r)"

definition db_update :: "env \<Rightarrow> 'r object_meta_scheme tbl \<Rightarrow> ('r object_meta_scheme \<Rightarrow> bool) \<Rightarrow>
    ('r object_meta_scheme \<Rightarrow> 'r object_meta_scheme) \<Rightarrow> int m" where
  "db_update E t P f = stmt (\<lambda>w. (Inr (int (length (filter P (rows t w)))),
     upd_rows t (map (\<lambda>r. if P r then touch E (w_now w) (f r) else r)) w))"

subsection \<open>Invariants through statements\<close>

text \<open>An invariant is \<open>plain\<close> when it ignores the fault schedule, the transaction flag and the UUID counter.\<close>

definition plain :: "(world \<Rightarrow> bool) \<Rightarrow> bool" where
  "plain I \<longleftrightarrow> (\<forall>w fs tx u. I w \<longrightarrow> I (w\<lparr>w_faults := fs, w_tx := tx, w_uuids := u\<rparr>))"

lemma plainI: "(\<And>w fs tx u. I w \<Longrightarrow> I (w\<lparr>w_faults := fs, w_tx := tx, w_uuids := u\<rparr>)) \<Longrightarrow> plain I"
  by (simp add: plain_def)

lemma plain_all: "plain I \<Longrightarrow> I w \<Longrightarrow> I (w\<lparr>w_faults := fs, w_tx := tx, w_uuids := u\<rparr>)"
  by (simp add: plain_def)

lemma plain_upd:
  assumes "plain I" and "I w"
  shows "I (w\<lparr>w_faults := fs\<rparr>)" and "I (w\<lparr>w_tx := tx\<rparr>)" and "I (w\<lparr>w_uuids := u\<rparr>)"
    and "I (w\<lparr>w_faults := fs, w_tx := tx\<rparr>)" and "I (w\<lparr>w_faults := fs, w_uuids := u\<rparr>)"
proof -
  have all: "I (w\<lparr>w_faults := a, w_tx := b, w_uuids := c\<rparr>)" for a b c
    using assms by (simp add: plain_def)
  from all[where a = fs and b = "w_tx w" and c = "w_uuids w"] show "I (w\<lparr>w_faults := fs\<rparr>)" by simp
  from all[where a = "w_faults w" and b = tx and c = "w_uuids w"] show "I (w\<lparr>w_tx := tx\<rparr>)" by simp
  from all[where a = "w_faults w" and b = "w_tx w" and c = u] show "I (w\<lparr>w_uuids := u\<rparr>)" by simp
  from all[where a = fs and b = tx and c = "w_uuids w"] show "I (w\<lparr>w_faults := fs, w_tx := tx\<rparr>)" by simp
  from all[where a = fs and b = "w_tx w" and c = u] show "I (w\<lparr>w_faults := fs, w_uuids := u\<rparr>)" by simp
qed

lemma stmt_preserves [pres_rules]:
  assumes I: "plain I" and body: "preserves I body"
  shows "preserves I (stmt body)"
proof (rule preservesI)
  fix w assume w: "I w"
  show "I (snd (stmt body w))"
    using w plain_upd[OF I w] preservesD[OF body]
    by (auto simp: stmt_def split: list.split)
qed

lemma transaction_preserves [pres_rules]:
  assumes I: "plain I" and body: "preserves I body"
  shows "preserves I (transaction body)"
proof (rule preservesI)
  fix w assume w: "I w"
  let ?m = "bindE body (\<lambda>x. stmt (\<lambda>w'. (Inr x, w'\<lparr>w_tx := None\<rparr>)))"
  have commit: "preserves I (\<lambda>w'. (Inr x, w'\<lparr>w_tx := None\<rparr>))" for x :: 'a
    by (rule preservesI) (simp add: plain_upd(2)[OF I])
  have "preserves I ?m"
    by (rule preserves_bindE[OF body]) (rule stmt_preserves[OF I commit])
  from preservesD[OF this plain_upd(2)[OF I w]] have "I (snd (?m (w\<lparr>w_tx := Some True\<rparr>)))" .
  moreover have "I (undo_tables w w')" for w'
    using plain_upd(5)[OF I w] by (simp add: undo_tables_def)
  ultimately show "I (snd (transaction body w))"
    unfolding transaction_def rollback_def by (auto split: prod.splits sum.splits)
qed

text \<open>How a statement ends: it fails and only the schedule and the transaction flag change, or its body runs.\<close>

lemma stmt_cases:
  obtains (fault) fs where "stmt body w = (Inl StoreFailure, w\<lparr>w_faults := fs, w_tx := map_option (\<lambda>_. False) (w_tx w)\<rparr>)"
    | (run) fs where "stmt body w = body (w\<lparr>w_faults := fs\<rparr>)" "w_tx w \<noteq> Some False"
proof (cases "w_tx w = Some False")
  case True
  then show ?thesis using fault[where fs = "w_faults w"] by (simp add: stmt_def)
next
  case False
  show ?thesis
  proof (cases "w_faults w")
    case Nil
    then have eq: "w\<lparr>w_faults := []\<rparr> = w" by simp
    have "stmt body w = body w" using Nil False by (simp add: stmt_def)
    then show ?thesis using False by (intro run[of "[]"]) (simp_all only: eq not_False_eq_True)
  next
    case (Cons f fs)
    then show ?thesis
      using False run[of fs] fault[where fs = fs]
      by (cases f) (simp_all add: stmt_def)
  qed
qed

lemma stmt_dead: "w_tx w = Some False \<Longrightarrow> stmt body w = (Inl StoreFailure, w)"
  by (simp add: stmt_def)

text \<open>A statement that succeeds ran its body; a transaction fails without a trace in the tables, or commits.\<close>

lemma stmt_Inr:
  assumes "stmt body w = (Inr x, w')"
  obtains fs where "body (w\<lparr>w_faults := fs\<rparr>) = (Inr x, w')"
  using assms by (cases rule: stmt_cases[of body w]) auto

lemma transaction_cases:
  obtains (failed) e fs u where "transaction body w = (Inl e, w\<lparr>w_faults := fs, w_uuids := u\<rparr>)"
  | (committed) x w1 fs where "body (w\<lparr>w_tx := Some True\<rparr>) = (Inr x, w1)"
      "transaction body w = (Inr x, w1\<lparr>w_faults := fs, w_tx := None\<rparr>)"
proof -
  let ?full = "bindE body (\<lambda>x. stmt (\<lambda>w'. (Inr x, w'\<lparr>w_tx := None\<rparr>)))"
  obtain r w2 where full: "?full (w\<lparr>w_tx := Some True\<rparr>) = (r, w2)" by (cases "?full (w\<lparr>w_tx := Some True\<rparr>)")
  show ?thesis
  proof (cases r)
    case (Inl e)
    then show ?thesis using full failed[where e = e and fs = "w_faults w2" and u = "w_uuids w2"]
      by (simp add: transaction_def rollback_def undo_tables_def)
  next
    case (Inr x)
    from full[unfolded Inr] obtain y w1 where b: "body (w\<lparr>w_tx := Some True\<rparr>) = (Inr y, w1)"
      and c: "stmt (\<lambda>w'. (Inr y, w'\<lparr>w_tx := None\<rparr>)) w1 = (Inr x, w2)" by (rule bindE_Inr_elim)
    from c obtain fs where "y = x" "w2 = w1\<lparr>w_faults := fs, w_tx := None\<rparr>" by (rule stmt_Inr) auto
    with b full Inr show ?thesis using committed[of x w1 fs]
      by (simp add: transaction_def rollback_def)
  qed
qed

lemma transaction_open_triple:
  assumes I: "plain I" and Q: "\<And>x. plain (Q x)" and body: "triple (\<lambda>w. I w \<and> w_tx w = Some True) body Q (\<lambda>_. True)"
  shows "triple I (transaction body) Q I"
proof (rule tripleI)
  fix w x w' assume w: "I w" and run: "transaction body w = (Inr x, w')"
  show "Q x w'"
  proof (cases rule: transaction_cases[of body w])
    case (committed y w1 fs)
    have "I (w\<lparr>w_tx := Some True\<rparr>) \<and> w_tx (w\<lparr>w_tx := Some True\<rparr>) = Some True" using plain_upd(2)[OF I w] by simp
    from triple_Inr[OF body this committed(1)] have "Q y w1" .
    then show ?thesis using committed(2) run plain_upd(4)[OF Q] by simp
  qed (use run in simp)
next
  fix w e w' assume w: "I w" and run: "transaction body w = (Inl e, w')"
  show "I w'"
    by (cases rule: transaction_cases[of body w]) (use run plain_upd(5)[OF I w] in auto)
qed

lemma transaction_triple:
  assumes "plain I" and "\<And>x. plain (Q x)" and body: "triple I body Q (\<lambda>_. True)"
  shows "triple I (transaction body) Q I"
  by (rule transaction_open_triple[OF assms(1,2)]) (rule triple_mono[OF body], blast+)

text \<open>With no faults left and no transaction open a statement is its body.\<close>

definition healthy :: "world \<Rightarrow> bool" where
  "healthy w \<longleftrightarrow> w_faults w = [] \<and> w_tx w = None"

lemma stmt_no_faults [simp]: "w_faults w = [] \<Longrightarrow> w_tx w \<noteq> Some False \<Longrightarrow> stmt body w = body w"
  by (simp add: stmt_def)

lemma stmt_healthy: "healthy w \<Longrightarrow> stmt body w = body w"
  by (simp add: healthy_def)

subsection \<open>Tables\<close>

lemma min_by_mem: "min_by k rs = Some r \<Longrightarrow> r \<in> set rs"
  by (induction rs arbitrary: r) (auto split: option.splits if_splits)

lemma min_by_None [simp]: "min_by k rs = None \<longleftrightarrow> rs = []"
  by (cases rs) (auto split: option.splits)

lemma min_by_le: "min_by k rs = Some r \<Longrightarrow> x \<in> set rs \<Longrightarrow> k r \<le> k x"
proof (induction rs arbitrary: r)
  case (Cons a rs)
  then show ?case by (cases "min_by k rs") (auto split: if_splits)
qed simp

text \<open>
  The contract between a table (a pair of a selector and an updater of the world) and the
  statements: reading what was written, and independence from clock, counters and flags. The
  lemmas say what the statements do to the rows and which row invariants they keep.
\<close>

locale table_lens =
  fixes t :: "'r object_meta_scheme tbl"
  assumes get_upd [simp]: "rows t (upd_rows t f w) = f (rows t w)"
    and faults_upd [simp]: "w_faults (upd_rows t f w) = w_faults w"
    and tx_upd [simp]: "w_tx (upd_rows t f w) = w_tx w"
    and uuids_upd [simp]: "w_uuids (upd_rows t f w) = w_uuids w"
    and now_upd [simp]: "w_now (upd_rows t f w) = w_now w"
    and get_faults [simp]: "rows t (w\<lparr>w_faults := fs\<rparr>) = rows t w"
    and get_tx [simp]: "rows t (w\<lparr>w_tx := tx\<rparr>) = rows t w"
    and get_uuids [simp]: "rows t (w\<lparr>w_uuids := u\<rparr>) = rows t w"
    and upd_upd [simp]: "upd_rows t f (upd_rows t g w) = upd_rows t (\<lambda>rs. f (g rs)) w"
    and upd_faults: "upd_rows t f (w\<lparr>w_faults := fs\<rparr>) = (upd_rows t f w)\<lparr>w_faults := fs\<rparr>"
    and upd_uuids: "upd_rows t f (w\<lparr>w_uuids := u\<rparr>) = (upd_rows t f w)\<lparr>w_uuids := u\<rparr>"
    and upd_same: "upd_rows t (\<lambda>rs. rs) w = w"
begin

lemma get_plain: "plain (\<lambda>w. J (rows t w))"
  by (rule plainI) simp

lemma healthy_upd [simp]: "healthy (upd_rows t f w) = healthy w"
  by (simp add: healthy_def)

lemma find_healthy: "healthy w \<Longrightarrow> db_find t P w = (Inr (filter P (rows t w)), w)"
  by (simp add: db_find_def healthy_def)

lemma save_healthy: "healthy w \<Longrightarrow>
    db_save t r w = (Inr (BeforeUpdate (w_now w) r), upd_rows t (save_row (BeforeUpdate (w_now w) r)) w)"
  by (simp add: db_save_def healthy_def Let_def)

text \<open>Successful statements, whatever the schedule of faults.\<close>

lemma find_result:
  assumes "db_find t P w = (Inr rs, w')"
  obtains fs where "rs = filter P (rows t w)" "w' = w\<lparr>w_faults := fs\<rparr>"
  using assms unfolding db_find_def
  by (cases rule: stmt_cases[of "gets (\<lambda>w. filter P (rows t w))" w]) auto

lemma save_result:
  assumes "db_save t r w = (Inr r', w')"
  obtains fs where "r' = BeforeUpdate (w_now w) r" "w' = (upd_rows t (save_row r') w)\<lparr>w_faults := fs\<rparr>"
  using assms unfolding db_save_def
  by (cases rule: stmt_cases[of "\<lambda>w. let r' = BeforeUpdate (w_now w) r in (Inr r', upd_rows t (save_row r') w)" w])
    (auto simp: Let_def upd_faults)

lemma create_result:
  assumes "db_create E dflt t r w = (Inr r', w')"
  obtains fs where "r' = dflt (BeforeCreate (e_uuid E (w_uuids w)) (w_now w) r)"
    "obj_ID r' \<notin> set (map obj_ID (rows t w))"
    "w' = (upd_rows t (\<lambda>rs. rs @ [r']) (w\<lparr>w_uuids := (if obj_ID r = [] then Suc (w_uuids w) else w_uuids w)\<rparr>))\<lparr>w_faults := fs\<rparr>"
    "w_tx w \<noteq> Some False"
proof (cases rule: stmt_cases[of "\<lambda>w.
     let r' = dflt (BeforeCreate (e_uuid E (w_uuids w)) (w_now w) r);
         w' = (if obj_ID r = [] then w\<lparr>w_uuids := Suc (w_uuids w)\<rparr> else w)
     in if obj_ID r' \<in> set (map obj_ID (rows t w)) then (Inl StoreFailure, w')
        else (Inr r', upd_rows t (\<lambda>rs. rs @ [r']) w')" w])
  case (fault fs)
  then show ?thesis using assms by (simp add: db_create_def)
next
  case (run fs)
  have swap: "(w\<lparr>w_faults := fs\<rparr>)\<lparr>w_uuids := u\<rparr> = (w\<lparr>w_uuids := u\<rparr>)\<lparr>w_faults := fs\<rparr>" for u by simp
  show ?thesis using assms run that[of fs]
    by (cases "obj_ID r = []") (auto simp: db_create_def Let_def upd_faults swap simp del: world.update_convs split: if_splits)
qed

lemma replace_result:
  assumes "db_replace t r w = (Inr r', w')"
  obtains fs where "r' = BeforeUpdate (w_now w) r"
    "w' = (upd_rows t (map (\<lambda>x. if obj_ID x = obj_ID r then r' else x)) w)\<lparr>w_faults := fs\<rparr>" "w_tx w \<noteq> Some False"
  using assms unfolding db_replace_def
  by (cases rule: stmt_cases[of "\<lambda>w. let r' = BeforeUpdate (w_now w) r
     in (Inr r', upd_rows t (map (\<lambda>x. if obj_ID x = obj_ID r then r' else x)) w)" w])
    (auto simp: Let_def upd_faults)

lemma delete_result:
  assumes "db_delete t P w = (Inr n, w')"
  obtains fs where "n = int (length (filter P (rows t w)))" "w' = (upd_rows t (filter (\<lambda>r. \<not> P r)) w)\<lparr>w_faults := fs\<rparr>"
  using assms unfolding db_delete_def
  by (cases rule: stmt_cases[of "\<lambda>w. (Inr (int (length (filter P (rows t w)))), upd_rows t (filter (\<lambda>r. \<not> P r)) w)" w])
    (auto simp: upd_faults)

lemma delete_failed:
  assumes "db_delete t P w = (Inl e, w')"
  obtains fs tx where "w' = w\<lparr>w_faults := fs, w_tx := tx\<rparr>"
  using assms unfolding db_delete_def
  by (cases rule: stmt_cases[of "\<lambda>w. (Inr (int (length (filter P (rows t w)))), upd_rows t (filter (\<lambda>r. \<not> P r)) w)" w]) auto

text \<open>A read of the first row: the row and what is known of it, no row, or a fault.\<close>

lemma first_cases:
  obtains (fault) fs where "db_first_by k t P w = (Inl StoreFailure, w\<lparr>w_faults := fs, w_tx := map_option (\<lambda>_. False) (w_tx w)\<rparr>)"
  | (absent) fs where "db_first_by k t P w = (Inl RecordNotFound, w\<lparr>w_faults := fs\<rparr>)" "\<forall>r \<in> set (rows t w). \<not> P r"
  | (found) fs r where "db_first_by k t P w = (Inr r, w\<lparr>w_faults := fs\<rparr>)" "r \<in> set (rows t w)" "P r"
      "\<forall>x \<in> set (rows t w). P x \<longrightarrow> k r \<le> k x"
proof (cases rule: stmt_cases[of "\<lambda>w. case min_by k (filter P (rows t w)) of
       None \<Rightarrow> (Inl RecordNotFound, w) | Some r \<Rightarrow> (Inr r, w)" w])
  case (fault fs)
  then show ?thesis using that(1) by (simp add: db_first_by_def)
next
  case (run fs)
  show ?thesis
  proof (cases "min_by k (filter P (rows t w))")
    case None
    then have "\<forall>r \<in> set (rows t w). \<not> P r" by (simp add: filter_empty_conv)
    then show ?thesis using run None that(2)[of fs] by (simp add: db_first_by_def)
  next
    case (Some r)
    then have "r \<in> set (rows t w)" "P r" "\<forall>x \<in> set (rows t w). P x \<longrightarrow> k r \<le> k x"
      using min_by_mem[OF Some] min_by_le[OF Some] by auto
    then show ?thesis using run Some that(3)[where fs = fs and r = r] by (simp add: db_first_by_def)
  qed
qed

lemma count_cases:
  obtains (fault) fs where "db_count t P w = (Inl StoreFailure, w\<lparr>w_faults := fs, w_tx := map_option (\<lambda>_. False) (w_tx w)\<rparr>)"
  | (counted) fs where "db_count t P w = (Inr (int (length (filter P (rows t w)))), w\<lparr>w_faults := fs\<rparr>)"
proof (cases rule: stmt_cases[of "gets (\<lambda>w. int (length (filter P (rows t w))))" w])
  case (fault fs)
  then show ?thesis using that(1) by (simp add: db_count_def)
next
  case (run fs)
  then show ?thesis using that(2)[of fs] by (simp add: db_count_def)
qed

lemma delete_triple:
  assumes I: "plain I" and Q: "plain Q" and step: "\<And>w. I w \<Longrightarrow> Q (upd_rows t (filter (\<lambda>r. \<not> P r)) w)"
  shows "triple I (db_delete t P) (\<lambda>_. Q) I"
proof (rule tripleI)
  fix w n w' assume w: "I w" and run: "db_delete t P w = (Inr n, w')"
  from run show "Q w'" by (rule delete_result) (simp add: plain_upd(1)[OF Q step[OF w]])
next
  fix w e w' assume w: "I w" and run: "db_delete t P w = (Inl e, w')"
  from run show "I w'" by (rule delete_failed) (simp add: plain_upd(4)[OF I w])
qed

lemma delete_unit_triple:
  assumes I: "plain I" and Q: "plain Q" and step: "\<And>w. I w \<Longrightarrow> Q (upd_rows t (filter (\<lambda>r. \<not> P r)) w)"
    and err: "\<And>w. I w \<Longrightarrow> R w"
  shows "triple I (bindE (db_delete t P) (\<lambda>_. ret ())) (\<lambda>_. Q) R"
proof (rule triple_bindE)
  show "triple I (db_delete t P) (\<lambda>_. Q) R"
    by (rule triple_mono[OF delete_triple[OF I Q step]]) (assumption | rule err)+
  show "triple Q (ret ()) (\<lambda>_. Q) R" by (rule triple_ret)
qed

lemma update_result:
  assumes "db_update E t P f w = (Inr n, w')"
  obtains fs where "n = int (length (filter P (rows t w)))" "w_tx w \<noteq> Some False"
    "w' = (upd_rows t (map (\<lambda>r. if P r then touch E (w_now w) (f r) else r)) w)\<lparr>w_faults := fs\<rparr>"
  using assms unfolding db_update_def
  by (cases rule: stmt_cases[of "\<lambda>w. (Inr (int (length (filter P (rows t w)))),
     upd_rows t (map (\<lambda>r. if P r then touch E (w_now w) (f r) else r)) w)" w]) (auto simp: upd_faults cong: if_cong)

lemma update_triple:
  assumes I: "plain I" and Q: "\<And>n. plain (Q n)"
    and step: "\<And>w. I w \<Longrightarrow> Q (int (length (filter P (rows t w)))) (upd_rows t (map (\<lambda>r. if P r then touch E (w_now w) (f r) else r)) w)"
    and err: "\<And>w. I w \<Longrightarrow> R w"
  shows "triple I (db_update E t P f) Q R"
proof (rule tripleI)
  fix w n w' assume w: "I w" and run: "db_update E t P f w = (Inr n, w')"
  from run[unfolded db_update_def] show "Q n w'"
    by (rule stmt_Inr) (use step[OF plain_upd(1)[OF I w]] in auto)
next
  fix w e w' assume w: "I w" and run: "db_update E t P f w = (Inl e, w')"
  show "R w'"
    by (cases rule: stmt_cases[of "\<lambda>w. (Inr (int (length (filter P (rows t w)))),
        upd_rows t (map (\<lambda>r. if P r then touch E (w_now w) (f r) else r)) w)" w])
      (use run err plain_upd(4)[OF I w] in \<open>auto simp: db_update_def\<close>)
qed

lemma delete_count_triple:
  assumes I: "plain I" and Q: "\<And>n. plain (Q n)"
    and step: "\<And>w. I w \<Longrightarrow> Q (int (length (filter P (rows t w)))) (upd_rows t (filter (\<lambda>r. \<not> P r)) w)"
    and err: "\<And>w. I w \<Longrightarrow> R w"
  shows "triple I (db_delete t P) Q R"
proof (rule tripleI)
  fix w n w' assume w: "I w" and run: "db_delete t P w = (Inr n, w')"
  from run show "Q n w'" by (rule delete_result) (simp add: plain_upd(1)[OF Q step[OF w]])
next
  fix w e w' assume w: "I w" and run: "db_delete t P w = (Inl e, w')"
  from run show "R w'" by (rule delete_failed) (simp add: err plain_upd(4)[OF I w])
qed

lemma save_failed:
  assumes "db_save t r w = (Inl e, w')"
  obtains fs tx u where "w' = w\<lparr>w_faults := fs, w_tx := tx, w_uuids := u\<rparr>"
proof (cases rule: stmt_cases[of "\<lambda>w. let r' = BeforeUpdate (w_now w) r in (Inr r', upd_rows t (save_row r') w)" w])
  case (fault fs)
  then have "w' = w\<lparr>w_faults := fs, w_tx := map_option (\<lambda>_. False) (w_tx w), w_uuids := w_uuids w\<rparr>"
    using assms by (auto simp: db_save_def intro: world.equality)
  then show ?thesis by (rule that)
next
  case (run fs)
  then show ?thesis using assms by (simp add: db_save_def Let_def)
qed

lemma create_failed:
  assumes "db_create E dflt t r w = (Inl e, w')"
  obtains fs tx u where "w' = w\<lparr>w_faults := fs, w_tx := tx, w_uuids := u\<rparr>"
proof (cases rule: stmt_cases[of "\<lambda>w.
     let r' = dflt (BeforeCreate (e_uuid E (w_uuids w)) (w_now w) r);
         w' = (if obj_ID r = [] then w\<lparr>w_uuids := Suc (w_uuids w)\<rparr> else w)
     in if obj_ID r' \<in> set (map obj_ID (rows t w)) then (Inl StoreFailure, w')
        else (Inr r', upd_rows t (\<lambda>rs. rs @ [r']) w')" w])
  case (fault fs)
  then have "w' = w\<lparr>w_faults := fs, w_tx := map_option (\<lambda>_. False) (w_tx w), w_uuids := w_uuids w\<rparr>"
    using assms by (auto simp: db_create_def intro: world.equality)
  then show ?thesis by (rule that)
next
  case (run fs)
  then have "w' = w\<lparr>w_faults := fs, w_tx := w_tx w, w_uuids := (if obj_ID r = [] then Suc (w_uuids w) else w_uuids w)\<rparr>"
    using assms by (auto simp: db_create_def Let_def intro: world.equality split: if_splits)
  then show ?thesis by (rule that)
qed

lemma save_triple:
  assumes I: "plain I" and Q: "\<And>x. plain (Q x)"
    and step: "\<And>w. I w \<Longrightarrow> Q (BeforeUpdate (w_now w) r) (upd_rows t (save_row (BeforeUpdate (w_now w) r)) w)"
    and err: "\<And>w. I w \<Longrightarrow> R w"
  shows "triple I (db_save t r) Q R"
proof (rule tripleI)
  fix w x w' assume w: "I w" and run: "db_save t r w = (Inr x, w')"
  from run show "Q x w'" by (rule save_result) (simp add: plain_upd(1)[OF Q step[OF w]])
next
  fix w e w' assume w: "I w" and run: "db_save t r w = (Inl e, w')"
  from run show "R w'" by (rule save_failed) (simp add: err plain_all[OF I w])
qed

lemma create_triple:
  assumes I: "plain I" and Q: "\<And>x. plain (Q x)"
    and step: "\<And>w x. I w \<Longrightarrow> x = dflt (BeforeCreate (e_uuid E (w_uuids w)) (w_now w) r) \<Longrightarrow>
      obj_ID x \<notin> set (map obj_ID (rows t w)) \<Longrightarrow>
      Q x (upd_rows t (\<lambda>rs. rs @ [x]) (w\<lparr>w_uuids := (if obj_ID r = [] then Suc (w_uuids w) else w_uuids w)\<rparr>))"
    and err: "\<And>w. I w \<Longrightarrow> R w"
  shows "triple I (db_create E dflt t r) Q R"
proof (rule tripleI)
  fix w x w' assume w: "I w" and run: "db_create E dflt t r w = (Inr x, w')"
  from run show "Q x w'" by (rule create_result) (simp add: plain_upd(1)[OF Q step[OF w]])
next
  fix w e w' assume w: "I w" and run: "db_create E dflt t r w = (Inl e, w')"
  from run show "R w'" by (rule create_failed) (simp add: err plain_all[OF I w])
qed

lemma first_triple:
  assumes I: "plain I" and found: "\<And>w x. I w \<Longrightarrow> x \<in> set (rows t w) \<Longrightarrow> P x \<Longrightarrow> Q x w"
    and Q: "\<And>x. plain (Q x)" and err: "\<And>w. I w \<Longrightarrow> R w"
  shows "triple I (db_first_by k t P) Q R"
proof (rule tripleI)
  fix w x w' assume w: "I w" and run: "db_first_by k t P w = (Inr x, w')"
  show "Q x w'"
    by (cases rule: first_cases[of k P w]) (use run plain_upd(1)[OF Q found[OF w]] in auto)
next
  fix w e w' assume w: "I w" and run: "db_first_by k t P w = (Inl e, w')"
  show "R w'"
    by (cases rule: first_cases[of k P w]) (use run err plain_upd(1,4)[OF I w] in auto)
qed

text \<open>A read whose error is looked at: what each outcome says of the table.\<close>

lemma first_attempt_triple:
  assumes I: "plain I"
  shows "triple I (attempt (db_first_by k t P)) (\<lambda>r w. I w \<and> (case r of
      Inr x \<Rightarrow> x \<in> set (rows t w) \<and> P x
    | Inl e \<Rightarrow> e = RecordNotFound \<longrightarrow> (\<forall>x \<in> set (rows t w). \<not> P x))) R"
proof (rule tripleI)
  fix w r w' assume w: "I w" and run: "attempt (db_first_by k t P) w = (Inr r, w')"
  show "I w' \<and> (case r of Inr x \<Rightarrow> x \<in> set (rows t w') \<and> P x
    | Inl e \<Rightarrow> e = RecordNotFound \<longrightarrow> (\<forall>x \<in> set (rows t w'). \<not> P x))"
    by (cases rule: first_cases[of k P w]) (use run plain_upd(1,4)[OF I w] in \<open>auto simp: attempt_def\<close>)
qed (simp add: attempt_def split: prod.splits)

text \<open>A page without limits and offset lists all the hits, newest first.\<close>

lemma page_result:
  assumes "db_page E cols t q w = (Inr (items, num), w')"
  obtains fs fs1 hits where "w' = w\<lparr>w_faults := fs\<rparr>"
    "run_query (meta_columns @ cols) obj_CreatedAt (q (w\<lparr>w_faults := fs1\<rparr>)) (rows t w) = Some (items, hits)"
proof -
  from assms obtain x w1 where
    one: "stmt (\<lambda>w. case run_query (meta_columns @ cols) obj_CreatedAt (q w) (rows t w) of
              None \<Rightarrow> (Inl StoreFailure, w) | Some r \<Rightarrow> (Inr r, w)) w = (Inr x, w1)"
    and two: "(case x of (items, hits) \<Rightarrow> stmt (gets (\<lambda>w. (items, e_count E (length hits) (q_page (q w)))))) w1 = (Inr (items, num), w')"
    unfolding db_page_def by (rule bindE_Inr_elim)
  from one obtain fs where "run_query (meta_columns @ cols) obj_CreatedAt (q (w\<lparr>w_faults := fs\<rparr>)) (rows t w) = Some x" "w1 = w\<lparr>w_faults := fs\<rparr>"
    by (rule stmt_Inr) (auto split: option.splits)
  moreover obtain its hits where x: "x = (its, hits)" by (cases x)
  moreover from two obtain fs' where "w' = w1\<lparr>w_faults := fs'\<rparr>" "its = items"
    unfolding x prod.case by (rule stmt_Inr) auto
  ultimately show ?thesis using that by auto
qed

lemma map_each_save:
  assumes "map_each xs (\<lambda>x. db_save t (g x)) w = (Inr rs, w')"
  shows "rs = map (\<lambda>x. BeforeUpdate (w_now w) (g x)) xs \<and>
         (\<exists>fs. w' = (upd_rows t (fold save_row rs) w)\<lparr>w_faults := fs\<rparr>)"
  using assms
proof (induction xs arbitrary: w rs)
  case Nil
  then show ?case by (auto simp: upd_same intro: exI[of _ "w_faults w"])
next
  case (Cons x xs)
  from Cons.prems obtain r w1 where save: "db_save t (g x) w = (Inr r, w1)"
    and rest: "bindE (map_each xs (\<lambda>x. db_save t (g x))) (\<lambda>ys. ret (r # ys)) w1 = (Inr rs, w')"
    by (auto elim: bindE_Inr_elim)
  from rest obtain rs1 where more: "map_each xs (\<lambda>x. db_save t (g x)) w1 = (Inr rs1, w')"
    and rs: "rs = r # rs1"
    by (auto elim!: bindE_Inr_elim)
  obtain fs where r: "r = BeforeUpdate (w_now w) (g x)"
    and w1: "w1 = (upd_rows t (save_row r) w)\<lparr>w_faults := fs\<rparr>"
    using save by (rule save_result)
  have now1: "w_now w1 = w_now w" using w1 by simp
  from Cons.IH[OF more] obtain fs' where rs1: "rs1 = map (\<lambda>x. BeforeUpdate (w_now w) (g x)) xs"
    and w': "w' = (upd_rows t (fold save_row rs1) w1)\<lparr>w_faults := fs'\<rparr>" unfolding now1 by blast
  have "w' = (upd_rows t (fold save_row rs) w)\<lparr>w_faults := fs'\<rparr>"
    unfolding w' w1 rs by (simp add: upd_faults comp_def)
  moreover have "rs = map (\<lambda>x. BeforeUpdate (w_now w) (g x)) (x # xs)"
    by (simp add: r rs rs1)
  ultimately show ?case by blast
qed

lemma find_preserves: "plain I \<Longrightarrow> preserves I (db_find t P)"
  unfolding db_find_def by (rule stmt_preserves) simp_all

lemma first_preserves: "plain I \<Longrightarrow> preserves I (db_first_by k t P)"
  unfolding db_first_by_def by (rule stmt_preserves) (auto intro!: preservesI split: option.split)

lemma count_preserves: "plain I \<Longrightarrow> preserves I (db_count t P)"
  unfolding db_count_def by (rule stmt_preserves) simp_all

lemma page_preserves: "plain I \<Longrightarrow> preserves I (db_page E cols t q)"
  unfolding db_page_def
  by (rule preserves_bindE) (auto intro!: stmt_preserves split: option.split, auto intro!: preservesI split: option.split)

lemma first_yields: "(\<And>w r. I w \<Longrightarrow> r \<in> set (rows t w) \<Longrightarrow> P r \<Longrightarrow> Q r) \<Longrightarrow> yields I (db_first_by k t P) Q"
proof (rule yieldsI)
  fix w r w'
  assume Q: "\<And>w r. I w \<Longrightarrow> r \<in> set (rows t w) \<Longrightarrow> P r \<Longrightarrow> Q r"
    and w: "I w" and run: "db_first_by k t P w = (Inr r, w')"
  from run have "min_by k (filter P (rows t w)) = Some r"
    unfolding db_first_by_def
    by (cases rule: stmt_cases[of "\<lambda>w. case min_by k (filter P (rows t w)) of
         None \<Rightarrow> (Inl RecordNotFound, w) | Some r \<Rightarrow> (Inr r, w)" w])
      (auto split: option.splits)
  then show "Q r" using Q[OF w] min_by_mem by fastforce
qed

lemma delete_preserves:
  "plain I \<Longrightarrow> (\<And>w. I w \<Longrightarrow> I (upd_rows t (filter (\<lambda>r. \<not> P r)) w)) \<Longrightarrow> preserves I (db_delete t P)"
  unfolding db_delete_def by (rule stmt_preserves) (auto intro!: preservesI)

lemma save_preserves:
  "plain I \<Longrightarrow> (\<And>w. I w \<Longrightarrow> I (upd_rows t (save_row (BeforeUpdate (w_now w) r)) w)) \<Longrightarrow> preserves I (db_save t r)"
  unfolding db_save_def by (rule stmt_preserves) (auto intro!: preservesI simp: Let_def)

lemma update_preserves:
  "plain I \<Longrightarrow>
   (\<And>w. I w \<Longrightarrow> I (upd_rows t (map (\<lambda>r. if P r then touch E (w_now w) (f r) else r)) w)) \<Longrightarrow>
   preserves I (db_update E t P f)"
  unfolding db_update_def by (rule stmt_preserves) (auto intro!: preservesI)

lemma create_preserves:
  assumes I: "plain I"
    and app: "\<And>w. I w \<Longrightarrow> obj_ID (dflt (BeforeCreate (e_uuid E (w_uuids w)) (w_now w) r)) \<notin> set (map obj_ID (rows t w)) \<Longrightarrow>
      I (upd_rows t (\<lambda>rs. rs @ [dflt (BeforeCreate (e_uuid E (w_uuids w)) (w_now w) r)])
         (w\<lparr>w_uuids := (if obj_ID r = [] then Suc (w_uuids w) else w_uuids w)\<rparr>))"
  shows "preserves I (db_create E dflt t r)"
  unfolding db_create_def
proof (rule stmt_preserves[OF I], rule preservesI)
  fix w assume w: "I w"
  have eq: "(if obj_ID r = [] then w\<lparr>w_uuids := Suc (w_uuids w)\<rparr> else w)
      = w\<lparr>w_uuids := (if obj_ID r = [] then Suc (w_uuids w) else w_uuids w)\<rparr>"
    by simp
  show "I (snd (let r' = dflt (BeforeCreate (e_uuid E (w_uuids w)) (w_now w) r);
         w' = (if obj_ID r = [] then w\<lparr>w_uuids := Suc (w_uuids w)\<rparr> else w)
     in if obj_ID r' \<in> set (map obj_ID (rows t w)) then (Inl StoreFailure, w')
        else (Inr r', upd_rows t (\<lambda>rs. rs @ [r']) w')))"
    unfolding eq Let_def using app[OF w] plain_upd(3)[OF I w] by auto
qed

end

text \<open>Primary keys: the identifiers in a table are distinct, whatever the statements do.\<close>

definition keys_distinct :: "'r object_meta_scheme list \<Rightarrow> bool" where
  "keys_distinct rs = distinct (map obj_ID rs)"

lemma save_row_keys: "keys_distinct rs \<Longrightarrow> keys_distinct (save_row r rs)"
proof (cases "obj_ID r \<in> set (map obj_ID rs)")
  case True
  have eq: "map obj_ID (map (\<lambda>x. if obj_ID x = obj_ID r then r else x) rs) = map obj_ID rs"
    by (induction rs) auto
  assume "keys_distinct rs"
  then show ?thesis
    by (simp only: keys_distinct_def save_row_def True if_True eq)
next
  case False
  assume "keys_distinct rs"
  with False show ?thesis by (simp add: keys_distinct_def save_row_def)
qed

lemma save_row_set: "x \<in> set (save_row r rs) \<Longrightarrow> x = r \<or> x \<in> set rs"
  by (auto simp: save_row_def split: if_splits)

lemma save_row_mem [simp]: "r \<in> set (save_row r rs)"
  by (auto simp: save_row_def)

lemma save_row_other: "x \<in> set rs \<Longrightarrow> obj_ID x \<noteq> obj_ID r \<Longrightarrow> x \<in> set (save_row r rs)"
  by (auto simp: save_row_def)

lemma save_row_keep: "obj_ID x \<noteq> obj_ID r \<Longrightarrow> x \<in> set (save_row r rs) \<longleftrightarrow> x \<in> set rs"
  by (auto simp: save_row_def)

lemma save_row_IDs: "obj_ID r \<in> set (map obj_ID rs) \<Longrightarrow> map obj_ID (save_row r rs) = map obj_ID rs"
  by (simp add: save_row_def)

lemma save_row_same_key: "keys_distinct rs \<Longrightarrow> x \<in> set (save_row r rs) \<Longrightarrow> obj_ID x = obj_ID r \<Longrightarrow> x = r"
  by (auto simp: save_row_def split: if_splits) (metis image_eqI)

lemma keys_distinct_unique:
  "keys_distinct rs \<Longrightarrow> x \<in> set rs \<Longrightarrow> y \<in> set rs \<Longrightarrow> obj_ID x = obj_ID y \<Longrightarrow> x = y"
  unfolding keys_distinct_def by (metis distinct_map inj_onD)

text \<open>Saving rewritten rows one after the other rewrites them in place.\<close>

lemma fold_save_rows:
  assumes id: "\<And>x. obj_ID (h x) = obj_ID x" and k: "keys_distinct rs"
    and xs: "set xs \<subseteq> set rs" "distinct (map obj_ID xs)"
  shows "fold save_row (map h xs) rs = map (\<lambda>x. if x \<in> set xs then h x else x) rs"
  using xs
proof (induction xs rule: rev_induct)
  case Nil
  then show ?case by simp
next
  case (snoc t ts)
  let ?f = "\<lambda>x. if x \<in> set ts then h x else x"
  have IH: "fold save_row (map h ts) rs = map ?f rs" using snoc by simp
  have t: "t \<in> set rs" "obj_ID t \<notin> obj_ID ` set ts" using snoc.prems by auto
  have ids: "map obj_ID (map ?f rs) = map obj_ID rs" using id by simp
  have "obj_ID (h t) \<in> set (map obj_ID (map ?f rs))"
    unfolding ids using t(1) id by auto
  then have "save_row (h t) (map ?f rs) = map (\<lambda>x. if obj_ID x = obj_ID t then h t else x) (map ?f rs)"
    unfolding save_row_def id by (simp only: if_True)
  also have "\<dots> = map (\<lambda>x. if x \<in> set (ts @ [t]) then h x else x) rs"
  proof (simp only: map_map, rule map_cong)
    fix x assume x: "x \<in> set rs"
    have same: "obj_ID x = obj_ID t \<longleftrightarrow> x = t" using keys_distinct_unique[OF k x t(1)] by auto
    have "t \<notin> set ts" using t(2) by auto
    then show "((\<lambda>x. if obj_ID x = obj_ID t then h t else x) \<circ> ?f) x = (if x \<in> set (ts @ [t]) then h x else x)"
      using same id by auto
  qed simp
  finally show ?case using IH by simp
qed

lemma keys_distinct_filter: "keys_distinct rs \<Longrightarrow> keys_distinct (filter P rs)"
  by (simp add: keys_distinct_def distinct_map_filter)

lemma keys_distinct_map:
  "(\<And>r. obj_ID (f r) = obj_ID r) \<Longrightarrow> keys_distinct rs \<Longrightarrow> keys_distinct (map f rs)"
  by (simp add: keys_distinct_def comp_def)

lemma touch_ID [simp]: "obj_ID (touch E now r) = obj_ID r"
  by (simp add: touch_def)

text \<open>The tables of the schema.\<close>

definition providers_tbl :: "provider tbl" where
  "providers_tbl = (w_providers, w_providers_update)"

definition models_tbl :: "provider_model tbl" where
  "models_tbl = (w_models, w_models_update)"

definition llm_configs_tbl :: "llm_config tbl" where
  "llm_configs_tbl = (w_llm_configs, w_llm_configs_update)"

definition backends_tbl :: "storage_backend tbl" where
  "backends_tbl = (w_backends, w_backends_update)"

definition assets_tbl :: "asset tbl" where
  "assets_tbl = (w_assets, w_assets_update)"

definition thumbnails_tbl :: "thumbnail tbl" where
  "thumbnails_tbl = (w_thumbnails, w_thumbnails_update)"

definition tags_tbl :: "tag tbl" where
  "tags_tbl = (w_tags, w_tags_update)"

definition asset_tags_tbl :: "asset_tag tbl" where
  "asset_tags_tbl = (w_asset_tags, w_asset_tags_update)"

definition groups_tbl :: "asset_group tbl" where
  "groups_tbl = (w_groups, w_groups_update)"

definition members_tbl :: "group_member tbl" where
  "members_tbl = (w_members, w_members_update)"

definition relations_tbl :: "asset_relation tbl" where
  "relations_tbl = (w_relations, w_relations_update)"

definition tasks_tbl :: "task tbl" where
  "tasks_tbl = (w_tasks, w_tasks_update)"

definition flags_tbl :: "feature_flag tbl" where
  "flags_tbl = (w_flags, w_flags_update)"

definition permissions_tbl :: "permission tbl" where
  "permissions_tbl = (w_permissions, w_permissions_update)"

definition projects_tbl :: "project tbl" where
  "projects_tbl = (w_projects, w_projects_update)"

definition canvases_tbl :: "canvas tbl" where
  "canvases_tbl = (w_canvases, w_canvases_update)"

definition libraries_tbl :: "asset_library tbl" where
  "libraries_tbl = (w_libraries, w_libraries_update)"

definition categories_tbl :: "asset_category tbl" where
  "categories_tbl = (w_categories, w_categories_update)"

definition items_tbl :: "asset_item tbl" where
  "items_tbl = (w_items, w_items_update)"

definition prompt_libraries_tbl :: "prompt_library tbl" where
  "prompt_libraries_tbl = (w_prompt_libraries, w_prompt_libraries_update)"

definition prompt_categories_tbl :: "prompt_category tbl" where
  "prompt_categories_tbl = (w_prompt_categories, w_prompt_categories_update)"

definition prompt_items_tbl :: "prompt_item tbl" where
  "prompt_items_tbl = (w_prompt_items, w_prompt_items_update)"

definition users_tbl :: "user tbl" where
  "users_tbl = (w_users, w_users_update)"

definition otps_tbl :: "user_otp tbl" where
  "otps_tbl = (w_otps, w_otps_update)"

definition otts_tbl :: "one_time_token tbl" where
  "otts_tbl = (w_otts, w_otts_update)"

definition settings_tbl :: "setting tbl" where
  "settings_tbl = (w_settings, w_settings_update)"

definition idps_tbl :: "identity_provider tbl" where
  "idps_tbl = (w_idps, w_idps_update)"

definition sps_tbl :: "service_provider tbl" where
  "sps_tbl = (w_sps, w_sps_update)"

lemma tbl_selectors [simp]:
  "fst providers_tbl = w_providers" "snd providers_tbl = w_providers_update"
  "fst models_tbl = w_models" "snd models_tbl = w_models_update"
  "fst llm_configs_tbl = w_llm_configs" "snd llm_configs_tbl = w_llm_configs_update"
  "fst backends_tbl = w_backends" "snd backends_tbl = w_backends_update"
  "fst assets_tbl = w_assets" "snd assets_tbl = w_assets_update"
  "fst thumbnails_tbl = w_thumbnails" "snd thumbnails_tbl = w_thumbnails_update"
  "fst tags_tbl = w_tags" "snd tags_tbl = w_tags_update"
  "fst asset_tags_tbl = w_asset_tags" "snd asset_tags_tbl = w_asset_tags_update"
  "fst groups_tbl = w_groups" "snd groups_tbl = w_groups_update"
  "fst members_tbl = w_members" "snd members_tbl = w_members_update"
  "fst relations_tbl = w_relations" "snd relations_tbl = w_relations_update"
  "fst tasks_tbl = w_tasks" "snd tasks_tbl = w_tasks_update"
  "fst flags_tbl = w_flags" "snd flags_tbl = w_flags_update"
  "fst permissions_tbl = w_permissions" "snd permissions_tbl = w_permissions_update"
  "fst projects_tbl = w_projects" "snd projects_tbl = w_projects_update"
  "fst canvases_tbl = w_canvases" "snd canvases_tbl = w_canvases_update"
  "fst libraries_tbl = w_libraries" "snd libraries_tbl = w_libraries_update"
  "fst categories_tbl = w_categories" "snd categories_tbl = w_categories_update"
  "fst items_tbl = w_items" "snd items_tbl = w_items_update"
  "fst prompt_libraries_tbl = w_prompt_libraries" "snd prompt_libraries_tbl = w_prompt_libraries_update"
  "fst prompt_categories_tbl = w_prompt_categories" "snd prompt_categories_tbl = w_prompt_categories_update"
  "fst prompt_items_tbl = w_prompt_items" "snd prompt_items_tbl = w_prompt_items_update"
  "fst users_tbl = w_users" "snd users_tbl = w_users_update"
  "fst otps_tbl = w_otps" "snd otps_tbl = w_otps_update"
  "fst otts_tbl = w_otts" "snd otts_tbl = w_otts_update"
  "fst settings_tbl = w_settings" "snd settings_tbl = w_settings_update"
  "fst idps_tbl = w_idps" "snd idps_tbl = w_idps_update"
  "fst sps_tbl = w_sps" "snd sps_tbl = w_sps_update"
  by (simp_all add: providers_tbl_def models_tbl_def llm_configs_tbl_def backends_tbl_def assets_tbl_def thumbnails_tbl_def tags_tbl_def asset_tags_tbl_def
    groups_tbl_def members_tbl_def relations_tbl_def tasks_tbl_def flags_tbl_def permissions_tbl_def projects_tbl_def canvases_tbl_def
    libraries_tbl_def categories_tbl_def items_tbl_def prompt_libraries_tbl_def prompt_categories_tbl_def prompt_items_tbl_def users_tbl_def otps_tbl_def otts_tbl_def settings_tbl_def idps_tbl_def sps_tbl_def)

interpretation providers_t: table_lens providers_tbl by unfold_locales simp_all
interpretation models_t: table_lens models_tbl by unfold_locales simp_all
interpretation llm_configs_t: table_lens llm_configs_tbl by unfold_locales simp_all
interpretation backends_t: table_lens backends_tbl by unfold_locales simp_all
interpretation assets_t: table_lens assets_tbl by unfold_locales simp_all
interpretation thumbnails_t: table_lens thumbnails_tbl by unfold_locales simp_all
interpretation tags_t: table_lens tags_tbl by unfold_locales simp_all
interpretation asset_tags_t: table_lens asset_tags_tbl by unfold_locales simp_all
interpretation groups_t: table_lens groups_tbl by unfold_locales simp_all
interpretation members_t: table_lens members_tbl by unfold_locales simp_all
interpretation relations_t: table_lens relations_tbl by unfold_locales simp_all
interpretation tasks_t: table_lens tasks_tbl by unfold_locales simp_all
interpretation flags_t: table_lens flags_tbl by unfold_locales simp_all
interpretation permissions_t: table_lens permissions_tbl by unfold_locales simp_all
interpretation projects_t: table_lens projects_tbl by unfold_locales simp_all
interpretation canvases_t: table_lens canvases_tbl by unfold_locales simp_all
interpretation libraries_t: table_lens libraries_tbl by unfold_locales simp_all
interpretation categories_t: table_lens categories_tbl by unfold_locales simp_all
interpretation items_t: table_lens items_tbl by unfold_locales simp_all
interpretation prompt_libraries_t: table_lens prompt_libraries_tbl by unfold_locales simp_all
interpretation prompt_categories_t: table_lens prompt_categories_tbl by unfold_locales simp_all
interpretation prompt_items_t: table_lens prompt_items_tbl by unfold_locales simp_all
interpretation users_t: table_lens users_tbl by unfold_locales simp_all
interpretation otps_t: table_lens otps_tbl by unfold_locales simp_all
interpretation otts_t: table_lens otts_tbl by unfold_locales simp_all
interpretation settings_t: table_lens settings_tbl by unfold_locales simp_all
interpretation idps_t: table_lens idps_tbl by unfold_locales simp_all
interpretation sps_t: table_lens sps_tbl by unfold_locales simp_all

subsection \<open>A concrete machine\<close>

text \<open>
  An environment and an empty database without faults, at which theorems are instantiated: UUIDs
  are numbered, ASCII letters are folded, gorm counts the hits and does not touch timestamps.
\<close>

definition sample_env :: env where
  "sample_env = \<lparr>e_uuid = (\<lambda>n. ''uuid-'' @ fmt_d (int n)), e_lower = map ascii_lower,
     e_fold = (\<lambda>a b. map ascii_lower a = map ascii_lower b), e_cwd = Some ''/srv'',
     e_getenv = (\<lambda>_. []), e_sha256 = (\<lambda>x. replicate (64 - length x) CHR ''0'' @ x),
     e_sha512 = (\<lambda>x. x), e_totp = (\<lambda>_. Some ''secret''),
     e_detect = (\<lambda>_. ''application/octet-stream''), e_dimensions = (\<lambda>_. None),
     e_ext_by_type = (\<lambda>_. []), e_month = (\<lambda>_. ''2026/01''), e_add_days = (\<lambda>t d. t + d * 86400000000000), e_rfc3339 = (\<lambda>_. []),
     e_error = (\<lambda>_. ''failed''), e_count = (\<lambda>n _. int n), e_touch = False,
     e_decode = (\<lambda>_. None), e_png = (\<lambda>rs. map char_of (concat rs)), e_ffmpeg = (\<lambda>_. None), e_json_strings = (\<lambda>_. []), e_http = (\<lambda>_ _. HttpError)\<rparr>"

definition empty_world :: world where
  "empty_world = \<lparr>w_now = 1000000000, w_uuids = 0, w_faults = [], w_tx = None, w_files = [], w_dirs = [],
     w_providers = [], w_models = [], w_llm_configs = [], w_backends = [], w_assets = [],
     w_thumbnails = [], w_tags = [], w_asset_tags = [], w_groups = [], w_members = [],
     w_relations = [], w_tasks = [], w_flags = [], w_permissions = [], w_projects = [], w_canvases = [],
     w_libraries = [], w_categories = [], w_items = [], w_prompt_libraries = [], w_prompt_categories = [], w_prompt_items = [], w_users = [], w_otps = [], w_otts = [], w_settings = [], w_idps = [], w_sps = []\<rparr>"

lemma empty_world_healthy [simp]: "healthy empty_world"
  by (simp add: healthy_def empty_world_def)

end
