(* ===== verification/TaskQueue.thy ===== *)
theory TaskQueue
  imports World
begin

text \<open>
  The task queue: the \<open>taskStore\<close> of \<open>store/postgresql/platform.go\<close>, the task methods of the
  platform service, the requests that enqueue tasks, and the state changes by which
  \<open>worker/processor.go\<close> finishes a claimed task. The step relation at the end interleaves
  requests and any number of workers, each of which holds the rows it claimed.
\<close>

subsection \<open>Constants\<close>

definition TaskStatusPending :: string where [simp]: "TaskStatusPending = ''pending''"
definition TaskStatusRunning :: string where [simp]: "TaskStatusRunning = ''running''"
definition TaskStatusSucceeded :: string where [simp]: "TaskStatusSucceeded = ''succeeded''"
definition TaskStatusFailed :: string where [simp]: "TaskStatusFailed = ''failed''"
definition TaskStatusCanceled :: string where [simp]: "TaskStatusCanceled = ''canceled''"

definition TaskTypeAssetProbe :: string where [simp]: "TaskTypeAssetProbe = ''asset.probe''"
definition TaskTypeAssetThumbnail :: string where [simp]: "TaskTypeAssetThumbnail = ''asset.thumbnail''"
definition TaskTypeLLMInvoke :: string where [simp]: "TaskTypeLLMInvoke = ''llm.invoke''"
definition TaskTypeAssetTagging :: string where [simp]: "TaskTypeAssetTagging = ''asset.tagging''"
definition TaskTypeQueryParse :: string where [simp]: "TaskTypeQueryParse = ''query.parse''"
definition TaskTypeCanvasRun :: string where [simp]: "TaskTypeCanvasRun = ''canvas.run''"
definition TaskTypeCanvasNodeRun :: string where [simp]: "TaskTypeCanvasNodeRun = ''canvas.node.run''"
definition TaskTypeCanvasOutputRegister :: string where [simp]: "TaskTypeCanvasOutputRegister = ''canvas.output.register''"

definition new_task :: task where
  "new_task = object_meta.extend new_meta (task.fields [] [] 0 [] None None 0 [] 0 0 [] zero_time [])"

subsection \<open>The store\<close>

record task_list_request = basic_query +
  tl_Type :: string
  tl_Status :: string
  tl_Queue :: string

definition task_columns :: "task columns" where
  "task_columns = [(''type'', CText tk_Type), (''status'', CText tk_Status), (''priority'', CInt tk_Priority),
     (''queue'', CText tk_Queue), (''progress'', CInt tk_Progress), (''error'', CText tk_Error),
     (''attempts'', CInt tk_Attempts), (''max_attempts'', CInt tk_MaxAttempts), (''lock_owner'', CText tk_LockOwner),
     (''locked_until'', CInt tk_LockedUntil), (''idempotency_key'', CText tk_IdempotencyKey)]"

definition taskStore_List :: "env \<Rightarrow> task_list_request \<Rightarrow> (task list \<times> int) m" where
  "taskStore_List E req =
     db_page E task_columns tasks_tbl
       (\<lambda>_. ToQuery (e_lower E) (basic_query.truncate req) (\<lambda>t.
          (tl_Type req \<noteq> [] \<longrightarrow> tk_Type t = tl_Type req) \<and>
          (tl_Status req \<noteq> [] \<longrightarrow> tk_Status t = tl_Status req) \<and>
          (tl_Queue req \<noteq> [] \<longrightarrow> tk_Queue t = tl_Queue req)))"

definition taskStore_Get :: "string \<Rightarrow> task m" where
  "taskStore_Get tid = db_first tasks_tbl (\<lambda>t. obj_ID t = tid)"

text \<open>The defaults that \<open>Add\<close> fills in, in its order; the column defaults of the schema repeat them.\<close>

definition task_defaults :: "task \<Rightarrow> task" where
  "task_defaults data =
     (let d1 = (if tk_Status data = [] then data\<lparr>tk_Status := TaskStatusPending\<rparr> else data);
          d2 = (if tk_Queue d1 = [] then d1\<lparr>tk_Queue := ''default''\<rparr> else d1);
          d3 = (if tk_MaxAttempts d2 = 0 then d2\<lparr>tk_MaxAttempts := 3\<rparr> else d2)
      in if obj_Name d3 = [] then d3\<lparr>obj_Name := ReplaceAll (tk_Type d3) CHR ''.'' ''-''\<rparr> else d3)"

definition taskStore_Add :: "env \<Rightarrow> task \<Rightarrow> task m" where
  "taskStore_Add E data = db_create E id tasks_tbl (task_defaults data)"

definition taskStore_Update :: "task \<Rightarrow> task m" where
  "taskStore_Update data = db_save tasks_tbl data"

definition cancel_task :: "task \<Rightarrow> task" where
  "cancel_task t = t\<lparr>tk_Status := TaskStatusCanceled, tk_LockOwner := [], tk_LockedUntil := zero_time\<rparr>"

definition taskStore_Cancel :: "string \<Rightarrow> task m" where
  "taskStore_Cancel tid =
     bindE (taskStore_Get tid) (\<lambda>t.
     if tk_Status t = TaskStatusSucceeded \<or> tk_Status t = TaskStatusFailed then ret t
     else taskStore_Update (cancel_task t))"

definition claimable :: "string \<Rightarrow> time \<Rightarrow> task \<Rightarrow> bool" where
  "claimable queue now t \<longleftrightarrow>
     tk_Queue t = queue \<and> tk_Attempts t < tk_MaxAttempts t \<and>
     (tk_Status t = TaskStatusPending \<or> (tk_Status t = TaskStatusRunning \<and> tk_LockedUntil t < now))"

definition claim_order :: "task \<Rightarrow> int \<times> time" where
  "claim_order t = (- tk_Priority t, obj_CreatedAt t)"

definition claim_select :: "string \<Rightarrow> time \<Rightarrow> int \<Rightarrow> task list \<Rightarrow> task list" where
  "claim_select queue now n ts = take (nat n) (sort_key claim_order (filter (claimable queue now) ts))"

definition lease_task :: "string \<Rightarrow> time \<Rightarrow> time \<Rightarrow> task \<Rightarrow> task" where
  "lease_task worker now lease t =
     t\<lparr>tk_Status := TaskStatusRunning, tk_LockOwner := worker, tk_LockedUntil := now + lease,
       tk_Attempts := wrap64 (tk_Attempts t + 1)\<rparr>"

definition taskStore_Claim :: "string \<Rightarrow> string \<Rightarrow> int \<Rightarrow> time \<Rightarrow> task list m" where
  "taskStore_Claim queue worker n lease =
     (let queue' = (if queue = [] then ''default'' else queue);
          n' = (if n \<le> 0 then 1 else n)
      in bindE (gets w_now) (\<lambda>now.
         transaction
           (bindE (stmt (gets (\<lambda>w. claim_select queue' now n' (w_tasks w)))) (\<lambda>tasks.
            map_each tasks (\<lambda>t. db_save tasks_tbl (lease_task worker now lease t))))))"

subsection \<open>The service\<close>

record task_create_request =
  tr_Name :: string
  tr_Type :: string
  tr_Priority :: int
  tr_Queue :: string
  tr_Input :: "gomap option"
  tr_MaxAttempts :: int
  tr_IdempotencyKey :: string

definition TaskList :: "env \<Rightarrow> task_list_request \<Rightarrow> (task list \<times> int) m" where
  "TaskList E req = taskStore_List E req"

definition task_of_request :: "task_create_request \<Rightarrow> task" where
  "task_of_request req =
     new_task\<lparr>tk_Type := tr_Type req, tk_Priority := tr_Priority req, tk_Queue := tr_Queue req,
       tk_Input := tr_Input req, tk_MaxAttempts := tr_MaxAttempts req,
       tk_IdempotencyKey := tr_IdempotencyKey req,
       obj_Name := (if tr_Name req = [] then ReplaceAll (tr_Type req) CHR ''.'' ''-'' else tr_Name req)\<rparr>"

definition TaskCreate :: "env \<Rightarrow> task_create_request \<Rightarrow> task m" where
  "TaskCreate E req = taskStore_Add E (task_of_request req)"

definition TaskGet :: "string \<Rightarrow> task m" where
  "TaskGet tid = taskStore_Get tid"

definition TaskCancel :: "string \<Rightarrow> task m" where
  "TaskCancel tid = taskStore_Cancel tid"

definition TaskClaim :: "string \<Rightarrow> string \<Rightarrow> int \<Rightarrow> time \<Rightarrow> task list m" where
  "TaskClaim queue worker n lease = taskStore_Claim queue worker n lease"

definition TaskUpdate :: "task \<Rightarrow> task m" where
  "TaskUpdate t = taskStore_Update t"

definition enqueueTask :: "env \<Rightarrow> string \<Rightarrow> gomap option \<Rightarrow> task m" where
  "enqueueTask E taskType input =
     taskStore_Add E (new_task\<lparr>tk_Type := taskType, tk_Status := TaskStatusPending, tk_Queue := ''default'',
       tk_Input := input, tk_MaxAttempts := 3, obj_Name := ReplaceAll taskType CHR ''.'' ''-''\<rparr>)"

definition canvasNodeTaskType :: "gomap option \<Rightarrow> string" where
  "canvasNodeTaskType node =
     (let nodeType = as_string (nilmap_at node ''type'') in
      if nodeType = ''llm'' \<or> nodeType = ''smart-prompt'' then ''canvas.node.llm''
      else if nodeType = ''generator'' then ''canvas.node.image_generate''
      else if nodeType = ''video'' then ''canvas.node.video_generate''
      else if nodeType = ''comfy'' then ''canvas.node.comfy''
      else if nodeType = ''rh'' then ''canvas.node.runninghub''
      else if nodeType = ''msgen'' then ''canvas.node.modelscope''
      else if nodeType = ''ltxDirector'' then ''canvas.node.ltx_director''
      else TaskTypeCanvasNodeRun)"

text \<open>A nil map stored in an \<open>any\<close> is JSON null once it is in the row.\<close>

definition any_of_map :: "gomap option \<Rightarrow> any" where
  "any_of_map x = (case x of None \<Rightarrow> ANil | Some f \<Rightarrow> AObj f)"

definition CanvasNodeRun :: "env \<Rightarrow> string \<Rightarrow> string \<Rightarrow> gomap option \<Rightarrow> gomap option \<Rightarrow> task m" where
  "CanvasNodeRun E canvasID nodeID node settings =
     TaskCreate E \<lparr>tr_Name = ''canvas-node-run'', tr_Type = canvasNodeTaskType node, tr_Priority = 0,
       tr_Queue = ''default'',
       tr_Input = Some [''canvas_id'' \<mapsto> AStr canvasID, ''node_id'' \<mapsto> AStr nodeID,
                        ''node'' \<mapsto> any_of_map node, ''settings'' \<mapsto> any_of_map settings],
       tr_MaxAttempts = 3, tr_IdempotencyKey = []\<rparr>"

definition RunCanvas :: "env \<Rightarrow> string \<Rightarrow> task m" where
  "RunCanvas E canvasID =
     TaskCreate E \<lparr>tr_Name = ''canvas-run'', tr_Type = TaskTypeCanvasRun, tr_Priority = 0,
       tr_Queue = ''default'', tr_Input = Some [''canvas_id'' \<mapsto> AStr canvasID],
       tr_MaxAttempts = 0, tr_IdempotencyKey = []\<rparr>"

subsection \<open>How a worker ends a task\<close>

text \<open>The two endings in \<open>Processor.runOnce\<close>: after an error of \<open>process\<close>, and after success.\<close>

definition fail_task :: "env \<Rightarrow> err \<Rightarrow> task \<Rightarrow> task" where
  "fail_task E e t =
     (if tk_Attempts t < tk_MaxAttempts t then t\<lparr>tk_Status := TaskStatusPending, tk_Progress := 0\<rparr>
      else t\<lparr>tk_Status := TaskStatusFailed, tk_Progress := 100\<rparr>)
     \<lparr>tk_Error := e_error E e, tk_LockOwner := [], tk_LockedUntil := zero_time\<rparr>"

definition succeed_task :: "task \<Rightarrow> task" where
  "succeed_task t =
     t\<lparr>tk_Status := TaskStatusSucceeded, tk_Progress := 100, tk_Error := [], tk_LockOwner := [],
       tk_LockedUntil := zero_time,
       tk_Output := (if tk_Output t = None then Some [''ok'' \<mapsto> ABool True] else tk_Output t)\<rparr>"

subsection \<open>The effect of Claim\<close>

text \<open>What \<open>Claim\<close> does to the rows it selects, and to the table.\<close>

lemma claim_select_subset: "t \<in> set (claim_select q now n ts) \<Longrightarrow> t \<in> set ts \<and> claimable q now t"
  by (auto simp: claim_select_def dest!: in_set_takeD)

lemma claim_select_distinct: "keys_distinct ts \<Longrightarrow> distinct (map obj_ID (claim_select q now n ts))"
proof -
  assume "keys_distinct ts"
  then have "distinct (map obj_ID (filter (claimable q now) ts))"
    by (simp add: keys_distinct_def distinct_map_filter)
  then have "distinct (map obj_ID (sort_key claim_order (filter (claimable q now) ts)))"
    by (simp add: distinct_map)
  then show ?thesis by (simp add: claim_select_def take_map[symmetric])
qed

definition claimed :: "string \<Rightarrow> time \<Rightarrow> time \<Rightarrow> task \<Rightarrow> task" where
  "claimed worker now lease t = BeforeUpdate now (lease_task worker now lease t)"

lemma claimed_ID [simp]: "obj_ID (claimed worker now lease t) = obj_ID t"
  by (simp add: claimed_def lease_task_def)

definition claim_queue :: "string \<Rightarrow> string" where
  "claim_queue q = (if q = [] then ''default'' else q)"

definition claim_limit :: "int \<Rightarrow> int" where
  "claim_limit n = (if n \<le> 0 then 1 else n)"

definition picked_tasks :: "string \<Rightarrow> int \<Rightarrow> world \<Rightarrow> task list" where
  "picked_tasks q n w = claim_select (claim_queue q) (w_now w) (claim_limit n) (w_tasks w)"

definition after_claim :: "string \<Rightarrow> string \<Rightarrow> int \<Rightarrow> time \<Rightarrow> world \<Rightarrow> task list" where
  "after_claim q wk n lease w =
     map (\<lambda>t. if t \<in> set (picked_tasks q n w) then claimed wk (w_now w) lease t else t) (w_tasks w)"

lemma Claim_cases:
  assumes k: "keys_distinct (w_tasks w)"
  obtains (failed) e fs u where "taskStore_Claim q wk n lease w = (Inl e, w\<lparr>w_faults := fs, w_uuids := u\<rparr>)"
  | (claimed) fs where "taskStore_Claim q wk n lease w =
      (Inr (map (claimed wk (w_now w) lease) (picked_tasks q n w)),
       w\<lparr>w_tasks := after_claim q wk n lease w, w_faults := fs, w_tx := None\<rparr>)"
proof -
  let ?now = "w_now w"
  let ?sel = "stmt (gets (\<lambda>w. claim_select (claim_queue q) ?now (claim_limit n) (w_tasks w)))"
  let ?body = "bindE ?sel (\<lambda>tasks. map_each tasks (\<lambda>t. db_save tasks_tbl (lease_task wk ?now lease t)))"
  have claim: "taskStore_Claim q wk n lease w = transaction ?body w"
    by (simp add: taskStore_Claim_def claim_queue_def claim_limit_def Let_def)
  show ?thesis
  proof (cases rule: transaction_cases[of ?body w])
    case (failed e fs u)
    then show ?thesis using that(1) claim by simp
  next
    case (committed x w1 fs)
    from committed(1) obtain picked w3 where sel: "?sel (w\<lparr>w_tx := Some True\<rparr>) = (Inr picked, w3)"
      and saves: "map_each picked (\<lambda>t. db_save tasks_tbl (lease_task wk ?now lease t)) w3 = (Inr x, w1)"
      by (rule bindE_Inr_elim)
    from sel obtain fs3 where p: "picked = picked_tasks q n w" and w3: "w3 = w\<lparr>w_tx := Some True, w_faults := fs3\<rparr>"
      by (rule stmt_Inr) (auto simp: picked_tasks_def)
    from tasks_t.map_each_save[OF saves] w3 obtain fs1
      where x: "x = map (claimed wk ?now lease) picked"
        and w1: "w1 = (w_tasks_update (fold save_row x) w3)\<lparr>w_faults := fs1\<rparr>"
      by (auto simp: claimed_def)
    have "fold save_row x (w_tasks w) = after_claim q wk n lease w"
      unfolding x after_claim_def p
      by (rule fold_save_rows[OF claimed_ID k])
        (auto simp: picked_tasks_def dest: claim_select_subset intro: claim_select_distinct k)
    then have "w1\<lparr>w_faults := fs, w_tx := None\<rparr> = w\<lparr>w_tasks := after_claim q wk n lease w, w_faults := fs, w_tx := None\<rparr>"
      unfolding w1 w3 by simp
    with committed(2) x p show ?thesis using that(2)[of fs] claim by simp
  qed
qed

subsection \<open>Interleavings of requests and workers\<close>

text \<open>
  The state: the world, and the tasks that workers hold between \<open>Claim\<close> and the final \<open>Update\<close>
  (worker and the row as claimed). A worker ends a task with whatever output \<open>process\<close> set, with
  success or an error; the \<open>Update\<close> is fire and forget, as in the code. It can also die and drop
  what it holds. Time passes between the steps.
\<close>

record queue_state =
  qs_world :: world
  qs_hand :: "(string \<times> task) list"

inductive queue_step :: "env \<Rightarrow> queue_state \<Rightarrow> queue_state \<Rightarrow> bool" for E :: env where
  tick: "0 \<le> d \<Longrightarrow> queue_step E s (s\<lparr>qs_world := (qs_world s)\<lparr>w_now := w_now (qs_world s) + d\<rparr>\<rparr>)"
| create: "int64_range (tr_MaxAttempts req) \<Longrightarrow>
    queue_step E s (s\<lparr>qs_world := snd (TaskCreate E req (qs_world s))\<rparr>)"
| enqueue: "queue_step E s (s\<lparr>qs_world := snd (enqueueTask E ty input (qs_world s))\<rparr>)"
| cancel: "queue_step E s (s\<lparr>qs_world := snd (TaskCancel tid (qs_world s))\<rparr>)"
| claim_ok: "TaskClaim q wk n lease (qs_world s) = (Inr ts, w') \<Longrightarrow>
    queue_step E s (s\<lparr>qs_world := w', qs_hand := qs_hand s @ map (Pair wk) ts\<rparr>)"
| claim_err: "TaskClaim q wk n lease (qs_world s) = (Inl e, w') \<Longrightarrow>
    queue_step E s (s\<lparr>qs_world := w'\<rparr>)"
| done_ok: "(wk, t) \<in> set (qs_hand s) \<Longrightarrow>
    queue_step E s (s\<lparr>qs_world := snd (taskStore_Update (succeed_task (t\<lparr>tk_Output := out\<rparr>)) (qs_world s)),
                    qs_hand := remove1 (wk, t) (qs_hand s)\<rparr>)"
| done_err: "(wk, t) \<in> set (qs_hand s) \<Longrightarrow>
    queue_step E s (s\<lparr>qs_world := snd (taskStore_Update (fail_task E e (t\<lparr>tk_Output := out\<rparr>)) (qs_world s)),
                    qs_hand := remove1 (wk, t) (qs_hand s)\<rparr>)"
| crash: "queue_step E s (s\<lparr>qs_hand := remove1 h (qs_hand s)\<rparr>)"

inductive_cases queue_step_cases: "queue_step E s s'"

definition queue_init :: "queue_state \<Rightarrow> bool" where
  "queue_init s \<longleftrightarrow> w_tasks (qs_world s) = [] \<and> qs_hand s = []"

text \<open>What holds of every stored row and of every row a worker holds.\<close>

definition task_statuses :: "string set" where
  "task_statuses = {TaskStatusPending, TaskStatusRunning, TaskStatusSucceeded, TaskStatusFailed, TaskStatusCanceled}"

definition task_ok :: "task \<Rightarrow> bool" where
  "task_ok t \<longleftrightarrow>
     tk_Status t \<in> task_statuses \<and> tk_Queue t \<noteq> [] \<and>
     0 \<le> tk_Attempts t \<and> (tk_Attempts t = 0 \<or> tk_Attempts t \<le> tk_MaxAttempts t) \<and> int64_range (tk_MaxAttempts t) \<and>
     (tk_Status t \<noteq> TaskStatusRunning \<longrightarrow> tk_LockOwner t = [] \<and> tk_LockedUntil t = zero_time) \<and>
     (tk_Status t \<in> {TaskStatusRunning, TaskStatusSucceeded} \<longrightarrow> 1 \<le> tk_Attempts t) \<and>
     (tk_Status t = TaskStatusFailed \<longrightarrow> tk_Attempts t = tk_MaxAttempts t)"

definition held_ok :: "string \<times> task \<Rightarrow> bool" where
  "held_ok h \<longleftrightarrow> task_ok (snd h) \<and> tk_Status (snd h) = TaskStatusRunning \<and> tk_LockOwner (snd h) = fst h"

definition tasks_inv :: "world \<Rightarrow> bool" where
  "tasks_inv w \<longleftrightarrow> keys_distinct (w_tasks w) \<and> (\<forall>t \<in> set (w_tasks w). task_ok t)"

definition queue_inv :: "queue_state \<Rightarrow> bool" where
  "queue_inv s \<longleftrightarrow> tasks_inv (qs_world s) \<and> (\<forall>h \<in> set (qs_hand s). held_ok h)"

lemma tasks_inv_plain: "plain tasks_inv"
  by (rule plainI) (simp add: tasks_inv_def)

lemma task_ok_meta [simp]: "task_ok (BeforeUpdate now t) = task_ok t" "task_ok (BeforeCreate fresh now t) = task_ok t"
  by (simp_all add: task_ok_def BeforeUpdate_def BeforeCreate_def)

lemma claimed_fields:
  "tk_Status (claimed wk now lease t) = TaskStatusRunning"
  "tk_Queue (claimed wk now lease t) = tk_Queue t"
  "tk_MaxAttempts (claimed wk now lease t) = tk_MaxAttempts t"
  "tk_LockOwner (claimed wk now lease t) = wk"
  "tk_LockedUntil (claimed wk now lease t) = now + lease"
  "tk_Attempts (claimed wk now lease t) = wrap64 (tk_Attempts t + 1)"
  by (simp_all add: claimed_def lease_task_def BeforeUpdate_def)

lemma claimed_attempts:
  assumes "task_ok t" "claimable q now t"
  shows "tk_Attempts (claimed wk now lease t) = tk_Attempts t + 1"
  unfolding claimed_fields using assms
  by (intro wrap64_id) (auto simp: int64_range_def task_ok_def claimable_def)

lemma task_ok_claimed:
  assumes t: "task_ok t" and c: "claimable q now t"
  shows "task_ok (claimed wk now lease t)"
  using claimed_attempts[OF assms, of wk lease] t c
  unfolding task_ok_def claimable_def task_statuses_def claimed_fields by simp

lemma task_ok_fail: "task_ok t \<Longrightarrow> tk_Status t = TaskStatusRunning \<Longrightarrow> task_ok (fail_task E e (t\<lparr>tk_Output := out\<rparr>))"
  by (auto simp: fail_task_def task_ok_def task_statuses_def)

lemma task_ok_succeed: "task_ok t \<Longrightarrow> tk_Status t = TaskStatusRunning \<Longrightarrow> task_ok (succeed_task (t\<lparr>tk_Output := out\<rparr>))"
  by (auto simp: succeed_task_def task_ok_def task_statuses_def)

lemma task_ok_cancel: "task_ok t \<Longrightarrow> task_ok (cancel_task t)"
  by (auto simp: cancel_task_def task_ok_def task_statuses_def)

lemma task_defaults_fields:
  "tk_Attempts (task_defaults t) = tk_Attempts t"
  "tk_LockOwner (task_defaults t) = tk_LockOwner t"
  "tk_LockedUntil (task_defaults t) = tk_LockedUntil t"
  "tk_Status (task_defaults t) = (if tk_Status t = [] then TaskStatusPending else tk_Status t)"
  "tk_Queue (task_defaults t) = (if tk_Queue t = [] then ''default'' else tk_Queue t)"
  "tk_MaxAttempts (task_defaults t) = (if tk_MaxAttempts t = 0 then 3 else tk_MaxAttempts t)"
  by (simp_all add: task_defaults_def Let_def)

lemma task_ok_defaults:
  assumes "tk_Attempts t = 0" "int64_range (tk_MaxAttempts t)" "tk_Status t \<in> {[], TaskStatusPending}"
    "tk_LockOwner t = []" "tk_LockedUntil t = zero_time"
  shows "task_ok (task_defaults t)"
proof -
  have "tk_Status (task_defaults t) = TaskStatusPending" using assms(3) by (auto simp: task_defaults_fields)
  moreover have "int64_range (tk_MaxAttempts (task_defaults t))"
    using assms(2) by (simp add: task_defaults_fields int64_range_def)
  moreover have "tk_Queue (task_defaults t) \<noteq> []" by (simp add: task_defaults_fields)
  ultimately show ?thesis using assms by (simp add: task_ok_def task_statuses_def task_defaults_fields)
qed

lemma Update_tasks_inv: "task_ok t \<Longrightarrow> preserves tasks_inv (taskStore_Update t)"
  unfolding taskStore_Update_def
  by (rule tasks_t.save_preserves[OF tasks_inv_plain])
    (auto simp: tasks_inv_def save_row_keys dest!: save_row_set)

lemma Add_tasks_inv:
  assumes "task_ok (task_defaults t)"
  shows "preserves tasks_inv (taskStore_Add E t)"
  unfolding taskStore_Add_def
  by (rule tasks_t.create_preserves[OF tasks_inv_plain])
    (use assms in \<open>auto simp: tasks_inv_def keys_distinct_def\<close>)

lemma Cancel_tasks_inv: "preserves tasks_inv (taskStore_Cancel tid)"
  unfolding taskStore_Cancel_def taskStore_Get_def db_first_def
proof (rule preserves_bindE_yields[OF tasks_t.first_preserves[OF tasks_inv_plain] tasks_t.first_yields])
  show "tasks_inv w \<Longrightarrow> r \<in> set (rows tasks_tbl w) \<Longrightarrow> obj_ID r = tid \<Longrightarrow> task_ok r" for w r
    by (simp add: tasks_inv_def)
  show "preserves tasks_inv (if tk_Status t = TaskStatusSucceeded \<or> tk_Status t = TaskStatusFailed then ret t
     else taskStore_Update (cancel_task t))" if "task_ok t" for t
    using that by (simp add: Update_tasks_inv task_ok_cancel)
qed

lemma picked_in: "t \<in> set (picked_tasks q n w) \<Longrightarrow> t \<in> set (w_tasks w) \<and> claimable (claim_queue q) (w_now w) t"
  by (auto simp: picked_tasks_def dest: claim_select_subset)

lemma after_claim_inv: "tasks_inv w \<Longrightarrow> tasks_inv (w\<lparr>w_tasks := after_claim q wk n lease w, w_faults := fs, w_tx := tx\<rparr>)"
proof -
  assume w: "tasks_inv w"
  then have "keys_distinct (after_claim q wk n lease w)"
    unfolding after_claim_def by (intro keys_distinct_map) (simp_all add: tasks_inv_def)
  moreover have "\<forall>t \<in> set (after_claim q wk n lease w). task_ok t"
    using w by (auto simp: after_claim_def tasks_inv_def dest: picked_in intro: task_ok_claimed)
  ultimately show ?thesis by (simp add: tasks_inv_def)
qed

lemma Claim_held_ok:
  assumes w: "tasks_inv w" and run: "taskStore_Claim q wk n lease w = (Inr ts, w')" and t: "t \<in> set ts"
  shows "held_ok (wk, t)"
proof -
  have k: "keys_distinct (w_tasks w)" using w by (simp add: tasks_inv_def)
  from Claim_cases[OF k, of q wk n lease] run have "ts = map (claimed wk (w_now w) lease) (picked_tasks q n w)"
    by (cases rule: Claim_cases[OF k, of q wk n lease]) auto
  with t obtain u where u: "u \<in> set (picked_tasks q n w)" "t = claimed wk (w_now w) lease u" by auto
  from picked_in[OF u(1)] w have "task_ok u" "claimable (claim_queue q) (w_now w) u" by (auto simp: tasks_inv_def)
  then have "task_ok t" unfolding u(2) by (rule task_ok_claimed)
  then show ?thesis unfolding held_ok_def u(2) by (simp add: claimed_def lease_task_def BeforeUpdate_def)
qed

lemma Claim_tasks_inv: "preserves tasks_inv (taskStore_Claim q wk n lease)"
proof (rule preservesI)
  fix w assume w: "tasks_inv w"
  then have k: "keys_distinct (w_tasks w)" by (simp add: tasks_inv_def)
  show "tasks_inv (snd (taskStore_Claim q wk n lease w))"
    by (cases rule: Claim_cases[OF k, of q wk n lease])
      (simp_all add: after_claim_inv w plain_upd(5)[OF tasks_inv_plain w])
qed

lemma Create_tasks_inv: "int64_range (tr_MaxAttempts req) \<Longrightarrow> preserves tasks_inv (TaskCreate E req)"
  unfolding TaskCreate_def
  by (rule Add_tasks_inv, rule task_ok_defaults)
    (simp_all add: task_of_request_def new_task_def task.defs object_meta.defs)

lemma enqueue_tasks_inv: "preserves tasks_inv (enqueueTask E ty input)"
  unfolding enqueueTask_def
  by (rule Add_tasks_inv, rule task_ok_defaults)
    (simp_all add: new_task_def task.defs object_meta.defs int64_range_def)

lemma queue_step_inv:
  assumes s: "queue_inv s" and step: "queue_step E s s'"
  shows "queue_inv s'"
proof -
  have w: "tasks_inv (qs_world s)" and h: "\<forall>h \<in> set (qs_hand s). held_ok h"
    using s by (simp_all add: queue_inv_def)
  have drop: "\<forall>h \<in> set (remove1 x (qs_hand s)). held_ok h" for x
    using h by (meson notin_set_remove1)
  note keep = preservesD[where I = tasks_inv and s = "qs_world s", OF _ w]
  from step show ?thesis
  proof cases
    case (tick d)
    then show ?thesis using w h by (simp add: queue_inv_def tasks_inv_def)
  next
    case (create req)
    then show ?thesis using keep[OF Create_tasks_inv] h by (simp add: queue_inv_def)
  next
    case (enqueue ty input)
    then show ?thesis using keep[OF enqueue_tasks_inv] h by (simp add: queue_inv_def)
  next
    case (cancel tid)
    then show ?thesis using keep[OF Cancel_tasks_inv] h by (simp add: queue_inv_def TaskCancel_def)
  next
    case (claim_ok q wk n lease ts w')
    then have "tasks_inv w'" "\<forall>t \<in> set ts. held_ok (wk, t)"
      using keep[OF Claim_tasks_inv, of q wk n lease] Claim_held_ok[OF w]
      by (auto simp: TaskClaim_def)
    then show ?thesis using claim_ok(1) h by (auto simp: queue_inv_def)
  next
    case (claim_err q wk n lease e w')
    then show ?thesis using keep[OF Claim_tasks_inv, of q wk n lease] h by (simp add: queue_inv_def TaskClaim_def)
  next
    case (done_ok wk t out)
    then have "task_ok t" "tk_Status t = TaskStatusRunning" using h by (auto simp: held_ok_def)
    from keep[OF Update_tasks_inv[OF task_ok_succeed[OF this]]] show ?thesis
      using done_ok(1) drop by (simp add: queue_inv_def)
  next
    case (done_err wk t e out)
    then have "task_ok t" "tk_Status t = TaskStatusRunning" using h by (auto simp: held_ok_def)
    from keep[OF Update_tasks_inv[OF task_ok_fail[OF this]]] show ?thesis
      using done_err(1) drop by (simp add: queue_inv_def)
  next
    case (crash x)
    then show ?thesis using w drop by (simp add: queue_inv_def)
  qed
qed

interpretation queue: invariant_machine queue_init "queue_step E" queue_inv for E
  by unfold_locales (simp add: queue_init_def queue_inv_def tasks_inv_def keys_distinct_def, rule queue_step_inv)

subsection \<open>Properties of Claim\<close>

lemma sort_key_take_le:
  assumes "x \<in> set (take n (sort_key k xs))" "y \<in> set xs" "y \<notin> set (take n (sort_key k xs))"
  shows "k x \<le> k y"
proof -
  let ?s = "sort_key k xs"
  have "y \<in> set (drop n ?s)" using assms(2,3)
    by (metis UnE append_take_drop_id set_append set_sort)
  moreover have "sorted (map k (take n ?s) @ map k (drop n ?s))"
    by (simp flip: map_append)
  ultimately show ?thesis using assms(1) by (auto simp: sorted_append)
qed

lemma claim_select_best:
  "t \<in> set (claim_select q now n ts) \<Longrightarrow> u \<in> set ts \<Longrightarrow> claimable q now u \<Longrightarrow>
   u \<notin> set (claim_select q now n ts) \<Longrightarrow> claim_order t \<le> claim_order u"
  unfolding claim_select_def by (rule sort_key_take_le) auto

lemma claim_select_length:
  "length (claim_select q now n ts) = min (nat n) (length (filter (claimable q now) ts))"
  by (simp add: claim_select_def min_def)

lemma after_claim_keep:
  assumes k: "keys_distinct (w_tasks w)" and t: "t \<in> set (w_tasks w)" "t \<notin> set (picked_tasks q n w)"
  shows "t \<in> set (after_claim q wk n lease w)"
  using t by (force simp: after_claim_def)

text \<open>What a successful \<open>Claim\<close> owes its caller, without its code.\<close>

definition claim_contract :: "string \<Rightarrow> string \<Rightarrow> int \<Rightarrow> time \<Rightarrow> world \<Rightarrow> task list \<Rightarrow> world \<Rightarrow> bool" where
  "claim_contract q wk n lease w ts w' \<longleftrightarrow>
     int (length ts) = min (claim_limit n) (int (length (filter (claimable (claim_queue q) (w_now w)) (w_tasks w)))) \<and>
     distinct (map obj_ID ts) \<and>
     (\<forall>t \<in> set ts. t \<in> set (w_tasks w') \<and>
        (\<exists>u \<in> set (w_tasks w). claimable (claim_queue q) (w_now w) u \<and> t = claimed wk (w_now w) lease u)) \<and>
     (\<forall>u \<in> set (w_tasks w). obj_ID u \<notin> obj_ID ` set ts \<longrightarrow> u \<in> set (w_tasks w') \<and>
        (claimable (claim_queue q) (w_now w) u \<longrightarrow>
           (\<forall>t \<in> set ts. tk_Priority u < tk_Priority t \<or>
              tk_Priority u = tk_Priority t \<and> obj_CreatedAt t \<le> obj_CreatedAt u))) \<and>
     map obj_ID (w_tasks w') = map obj_ID (w_tasks w)"

lemma claim_contract_holds:
  assumes k: "keys_distinct (w_tasks w)"
  shows "claim_contract q wk n lease w (map (claimed wk (w_now w) lease) (picked_tasks q n w))
    (w\<lparr>w_tasks := after_claim q wk n lease w, w_faults := fs, w_tx := tx\<rparr>)"
proof -
  let ?ps = "picked_tasks q n w"
  have len: "int (length ?ps) = min (claim_limit n) (int (length (filter (claimable (claim_queue q) (w_now w)) (w_tasks w))))"
    by (auto simp: picked_tasks_def claim_select_length claim_limit_def of_nat_min)
  have dist: "distinct (map obj_ID ?ps)"
    unfolding picked_tasks_def by (rule claim_select_distinct[OF k])
  have stored: "claimed wk (w_now w) lease u \<in> set (after_claim q wk n lease w)" if "u \<in> set ?ps" for u
    using that picked_in[OF that] by (force simp: after_claim_def)
  have order: "tk_Priority u < tk_Priority t \<or> tk_Priority u = tk_Priority t \<and> obj_CreatedAt t \<le> obj_CreatedAt u"
    if "t \<in> set ?ps" "u \<in> set (w_tasks w)" "claimable (claim_queue q) (w_now w) u" "u \<notin> set ?ps" for t u
    using claim_select_best[OF that(1)[unfolded picked_tasks_def] that(2,3)] that(4)
    by (auto simp: picked_tasks_def claim_order_def)
  have ids: "map obj_ID (after_claim q wk n lease w) = map obj_ID (w_tasks w)"
    by (simp add: after_claim_def)
  have prio: "tk_Priority (claimed wk now lease t) = tk_Priority t" "obj_CreatedAt (claimed wk now lease t) = obj_CreatedAt t" for now t
    by (simp_all add: claimed_def lease_task_def BeforeUpdate_def)
  have source: "\<exists>u \<in> set (w_tasks w). claimable (claim_queue q) (w_now w) u \<and>
      claimed wk (w_now w) lease x = claimed wk (w_now w) lease u" if "x \<in> set ?ps" for x
    using picked_in[OF that] by blast
  show ?thesis
    unfolding claim_contract_def
  proof (intro conjI ballI impI)
    fix u assume u: "u \<in> set (w_tasks w)" and no: "obj_ID u \<notin> obj_ID ` set (map (claimed wk (w_now w) lease) ?ps)"
    then have notin: "u \<notin> set ?ps" by (force simp: image_iff)
    show "u \<in> set (w_tasks (w\<lparr>w_tasks := after_claim q wk n lease w, w_faults := fs, w_tx := tx\<rparr>))"
      using after_claim_keep[OF k u notin] by simp
    fix t assume cl: "claimable (claim_queue q) (w_now w) u" and t: "t \<in> set (map (claimed wk (w_now w) lease) ?ps)"
    then obtain t0 where "t0 \<in> set ?ps" "t = claimed wk (w_now w) lease t0" by auto
    with order[OF _ u cl notin] show "tk_Priority u < tk_Priority t \<or>
              tk_Priority u = tk_Priority t \<and> obj_CreatedAt t \<le> obj_CreatedAt u" by (simp add: prio)
  qed (use len dist stored ids source in \<open>auto simp: comp_def\<close>)
qed

lemma Claim_contract:
  assumes "keys_distinct (w_tasks w)"
  shows "case taskStore_Claim q wk n lease w of
      (Inl e, w') \<Rightarrow> w_tasks w' = w_tasks w
    | (Inr ts, w') \<Rightarrow> claim_contract q wk n lease w ts w' \<and> w_now w' = w_now w"
  by (cases rule: Claim_cases[OF assms, of q wk n lease])
    (simp_all add: claim_contract_holds[OF assms])

lemma Claim_Inr:
  assumes "keys_distinct (w_tasks w)" "taskStore_Claim q wk n lease w = (Inr ts, w')"
  shows "claim_contract q wk n lease w ts w'" "keys_distinct (w_tasks w')" "w_now w' = w_now w"
proof -
  show c: "claim_contract q wk n lease w ts w'" and "w_now w' = w_now w"
    using Claim_contract[OF assms(1), of q wk n lease] assms(2) by simp_all
  show "keys_distinct (w_tasks w')" using c assms(1) by (simp add: claim_contract_def keys_distinct_def)
qed

text \<open>Two queued tasks, the second more urgent.\<close>

definition sample_task :: "string \<Rightarrow> int \<Rightarrow> task" where
  "sample_task tid prio = task_defaults (new_task\<lparr>obj_ID := tid, tk_Type := ''asset.probe'', tk_Priority := prio\<rparr>)"

definition sample_queue :: world where
  "sample_queue = empty_world\<lparr>w_tasks := [sample_task ''a'' 1, sample_task ''b'' 2]\<rparr>"

lemma sample_task_fields [simp]:
  "obj_ID (sample_task i p) = i" "tk_Priority (sample_task i p) = p" "obj_CreatedAt (sample_task i p) = zero_time"
  "tk_Queue (sample_task i p) = ''default''" "tk_Status (sample_task i p) = ''pending''"
  "tk_Attempts (sample_task i p) = 0" "tk_MaxAttempts (sample_task i p) = 3"
  "tk_LockOwner (sample_task i p) = []" "tk_LockedUntil (sample_task i p) = zero_time"
  by (simp_all add: sample_task_def task_defaults_def new_task_def new_meta_def object_meta.defs task.defs Let_def)

lemma sample_task_ok [simp]: "task_ok (sample_task i p)"
  by (simp add: task_ok_def task_statuses_def int64_range_def)

lemma sample_queue_inv: "keys_distinct (w_tasks sample_queue)" "tasks_inv sample_queue"
  by (simp_all add: sample_queue_def keys_distinct_def tasks_inv_def)

lemma sample_claimable [simp]: "claimable ''default'' now (sample_task i p)"
  by (simp add: claimable_def)

lemma sample_queue_claim:
  "taskStore_Claim [] wk 1 lease sample_queue =
    (let t = claimed wk 1000000000 lease (sample_task ''b'' 2)
     in (Inr [t], sample_queue\<lparr>w_tasks := [sample_task ''a'' 1, t]\<rparr>))"
proof -
  have pick: "claim_select ''default'' now 1 [sample_task ''a'' 1, sample_task ''b'' 2] = [sample_task ''b'' 2]" for now
    by (simp add: claim_select_def claim_order_def)
  show ?thesis
    by (simp add: taskStore_Claim_def transaction_def rollback_def bindE_def sample_queue_def empty_world_def
        pick db_save_def claimed_def save_row_def stmt_def lease_task_def Let_def)
qed

lemma sample_queue_claim_more:
  "taskStore_Claim [] ''v'' 1 60 (sample_queue\<lparr>w_tasks := [sample_task ''a'' 1, claimed ''w'' 1000000000 60 (sample_task ''b'' 2)],
      w_now := w_now sample_queue + 60\<rparr>)
   = (Inr [claimed ''v'' 1000000060 60 (sample_task ''a'' 1)],
      sample_queue\<lparr>w_tasks := [claimed ''v'' 1000000060 60 (sample_task ''a'' 1), claimed ''w'' 1000000000 60 (sample_task ''b'' 2)],
      w_now := w_now sample_queue + 60\<rparr>)"
proof -
  have "\<not> claimable ''default'' 1000000060 (claimed ''w'' 1000000000 60 (sample_task ''b'' 2))"
    by (simp add: claimable_def claimed_fields)
  then have pick: "claim_select ''default'' 1000000060 1 [sample_task ''a'' 1, claimed ''w'' 1000000000 60 (sample_task ''b'' 2)]
      = [sample_task ''a'' 1]"
    by (simp add: claim_select_def)
  have lease: "BeforeUpdate now (lease_task wk now lease t) = claimed wk now lease t" for wk now lease t
    by (simp add: claimed_def)
  show ?thesis
    by (simp add: taskStore_Claim_def transaction_def rollback_def bindE_def sample_queue_def empty_world_def
        pick db_save_def lease save_row_def stmt_def Let_def)
qed

text \<open>
  C1. \<open>Claim\<close> is atomic and picks the best. Whatever database statement fails, either it fails and
  no row of the task table has changed, or it returns tasks such that: at most \<open>limit\<close> (one if
  the limit is not positive) and all of them if there are no more candidates; each is a row that
  was claimable, now running, leased to this worker until now plus the lease and counted as one
  more attempt, and is stored as returned; every other row is unchanged; and no claimable row
  left behind has a higher priority, or the same priority and an earlier creation, than one taken.
\<close>

theorem Claim_atomic_best:
  assumes "keys_distinct (w_tasks w)"
  shows "case taskStore_Claim q wk n lease w of
      (Inl e, w') \<Rightarrow> w_tasks w' = w_tasks w
    | (Inr ts, w') \<Rightarrow> claim_contract q wk n lease w ts w'"
  using Claim_contract[OF assms, of q wk n lease] by (auto split: prod.splits sum.splits)

lemma Claim_atomic_best_witness:
  "\<exists>t w'. taskStore_Claim [] ''w'' 1 60 sample_queue = (Inr [t], w') \<and> obj_ID t = ''b'' \<and>
     claim_contract [] ''w'' 1 60 sample_queue [t] w'"
  using Claim_atomic_best[OF sample_queue_inv(1), of "[]" "''w''" 1 60]
  by (simp add: sample_queue_claim Let_def)




text \<open>Rows that no claim takes any more.\<close>

definition settled :: "task \<Rightarrow> bool" where
  "settled t \<longleftrightarrow> tk_Status t \<notin> {TaskStatusPending, TaskStatusRunning} \<or> tk_MaxAttempts t \<le> tk_Attempts t"

definition unheld :: "queue_state \<Rightarrow> string \<Rightarrow> bool" where
  "unheld s tid \<longleftrightarrow> (\<forall>h \<in> set (qs_hand s). obj_ID (snd h) \<noteq> tid)"

definition rests :: "task \<Rightarrow> world \<Rightarrow> bool" where
  "rests t w \<longleftrightarrow> keys_distinct (w_tasks w) \<and>
     (\<exists>r \<in> set (w_tasks w). obj_ID r = obj_ID t \<and> settled r \<and>
        (r = t \<or> tk_Status r = TaskStatusCanceled \<and> tk_Status t \<notin> {TaskStatusSucceeded, TaskStatusFailed}))"

lemma settled_not_claimable: "settled t \<Longrightarrow> \<not> claimable q now t"
  by (auto simp: settled_def claimable_def)

lemma rests_plain: "plain (rests t)"
  by (rule plainI) (simp add: rests_def)

lemma rests_Add: "preserves (rests t) (taskStore_Add E r)"
  unfolding taskStore_Add_def
  by (rule tasks_t.create_preserves[OF rests_plain]) (auto simp: rests_def keys_distinct_def)

lemma rests_save_other: "rests t w \<Longrightarrow> obj_ID r \<noteq> obj_ID t \<Longrightarrow> rests t (w_tasks_update (save_row r) w)"
  unfolding rests_def by (auto simp: save_row_keys intro!: bexI[OF _ save_row_other])

lemma rests_save_canceled:
  "rests t w \<Longrightarrow> obj_ID r = obj_ID t \<Longrightarrow> tk_Status r = TaskStatusCanceled \<Longrightarrow>
   tk_Status t \<notin> {TaskStatusSucceeded, TaskStatusFailed} \<Longrightarrow> rests t (w_tasks_update (save_row r) w)"
  unfolding rests_def by (auto simp: save_row_keys settled_def intro!: bexI[OF _ save_row_mem])

lemma rests_Update_other: "obj_ID r \<noteq> obj_ID t \<Longrightarrow> preserves (rests t) (taskStore_Update r)"
  unfolding taskStore_Update_def
  by (rule tasks_t.save_preserves[OF rests_plain]) (simp add: rests_save_other)

lemma rests_Cancel: "preserves (rests t) (taskStore_Cancel tid)"
  unfolding taskStore_Cancel_def taskStore_Get_def db_first_def
proof (rule preserves_bindE_yields[OF tasks_t.first_preserves[OF rests_plain] tasks_t.first_yields])
  let ?Q = "\<lambda>x. obj_ID x = obj_ID t \<longrightarrow> x = t \<or>
      tk_Status x = TaskStatusCanceled \<and> tk_Status t \<notin> {TaskStatusSucceeded, TaskStatusFailed}"
  show "?Q x" if "rests t w" "x \<in> set (rows tasks_tbl w)" "obj_ID x = tid" for w x
    using that keys_distinct_unique[of "w_tasks w" x] unfolding rests_def by (metis tbl_selectors(23))
  show "preserves (rests t) (if tk_Status x = TaskStatusSucceeded \<or> tk_Status x = TaskStatusFailed then ret x
     else taskStore_Update (cancel_task x))" if Q: "?Q x" for x
  proof (cases "tk_Status x = TaskStatusSucceeded \<or> tk_Status x = TaskStatusFailed")
    case False
    have "preserves (rests t) (taskStore_Update (cancel_task x))"
    proof (cases "obj_ID x = obj_ID t")
      case True
      then have "tk_Status t \<notin> {TaskStatusSucceeded, TaskStatusFailed}" using Q False by auto
      then show ?thesis using True unfolding taskStore_Update_def
        by (intro tasks_t.save_preserves[OF rests_plain])
          (simp, rule rests_save_canceled, simp_all add: cancel_task_def BeforeUpdate_def)
    qed (simp add: rests_Update_other cancel_task_def)
    with False show ?thesis by simp
  qed simp
qed

lemma rests_Claim:
  assumes rest: "rests t w" and run: "taskStore_Claim q wk n lease w = (res, w')"
  shows "rests t w' \<and> (\<forall>ts. res = Inr ts \<longrightarrow> obj_ID t \<notin> obj_ID ` set ts)"
proof -
  from rest have k: "keys_distinct (w_tasks w)" by (simp add: rests_def)
  show ?thesis
  proof (cases res)
    case (Inl e)
    then have "w_tasks w' = w_tasks w" using Claim_contract[OF k, of q wk n lease] run by simp
    then show ?thesis using rest Inl by (simp add: rests_def)
  next
    case (Inr ts)
    from rest obtain r where r: "r \<in> set (w_tasks w)" "obj_ID r = obj_ID t" "settled r"
      and final: "r = t \<or> tk_Status r = TaskStatusCanceled \<and> tk_Status t \<notin> {TaskStatusSucceeded, TaskStatusFailed}"
      unfolding rests_def by blast
    note c = Claim_Inr[OF k run[unfolded Inr]]
    have "obj_ID r \<notin> obj_ID ` set ts"
    proof
      assume "obj_ID r \<in> obj_ID ` set ts"
      then obtain u where "u \<in> set (w_tasks w)" "claimable (claim_queue q) (w_now w) u" "obj_ID u = obj_ID r"
        using c(1) unfolding claim_contract_def by fastforce
      with keys_distinct_unique[OF k] r(1) settled_not_claimable[OF r(3)] show False by blast
    qed
    moreover then have "r \<in> set (w_tasks w')" using c(1) r(1) unfolding claim_contract_def by blast
    ultimately show ?thesis using r(2,3) final c(2) Inr unfolding rests_def by auto
  qed
qed

lemma settled_step:
  assumes rest: "rests t (qs_world s)" and free: "unheld s (obj_ID t)" and step: "queue_step E s s'"
  shows "rests t (qs_world s') \<and> unheld s' (obj_ID t)"
proof -
  note keep = preservesD[where I = "rests t" and s = "qs_world s", OF _ rest]
  have drop: "unheld (s\<lparr>qs_world := w, qs_hand := remove1 x (qs_hand s)\<rparr>) (obj_ID t)" for x w
    using free by (auto simp: unheld_def dest: notin_set_remove1)
  from step show ?thesis
  proof cases
    case (tick d)
    then show ?thesis using rest free by (simp add: rests_def unheld_def)
  next
    case (create req)
    then show ?thesis using keep[OF rests_Add] free by (simp add: unheld_def TaskCreate_def)
  next
    case (enqueue ty input)
    then show ?thesis using keep[OF rests_Add] free by (simp add: unheld_def enqueueTask_def)
  next
    case (cancel tid)
    then show ?thesis using keep[OF rests_Cancel] free by (simp add: unheld_def TaskCancel_def)
  next
    case (claim_ok q wk n lease ts w')
    then show ?thesis using rests_Claim[OF rest claim_ok(2)[unfolded TaskClaim_def]] free
      by (auto simp: unheld_def image_iff)
  next
    case (claim_err q wk n lease e w')
    then show ?thesis using rests_Claim[OF rest claim_err(2)[unfolded TaskClaim_def]] free
      by (auto simp: unheld_def)
  next
    case (done_ok wk u out)
    then have "obj_ID (succeed_task (u\<lparr>tk_Output := out\<rparr>)) \<noteq> obj_ID t"
      using free by (auto simp: unheld_def succeed_task_def)
    then show ?thesis using keep[OF rests_Update_other] drop done_ok(1) by simp
  next
    case (done_err wk u e out)
    then have "obj_ID (fail_task E e (u\<lparr>tk_Output := out\<rparr>)) \<noteq> obj_ID t"
      using free by (auto simp: unheld_def fail_task_def)
    then show ?thesis using keep[OF rests_Update_other] drop done_err(1) by simp
  next
    case (crash x)
    then show ?thesis using rest drop[where w = "qs_world s" and x = x] by simp
  qed
qed

lemma settled_run:
  assumes "(queue_step E)\<^sup>*\<^sup>* s s'" and "rests t (qs_world s)" "unheld s (obj_ID t)"
  shows "rests t (qs_world s') \<and> unheld s' (obj_ID t)"
  using assms by (induction rule: rtranclp_induct) (auto dest: settled_step)

lemma rests_stored: "tasks_inv w \<Longrightarrow> t \<in> set (w_tasks w) \<Longrightarrow> settled t \<Longrightarrow> rests t w"
  by (auto simp: rests_def tasks_inv_def)

text \<open>A task created, taken by a worker, and then dropped or cancelled.\<close>

definition sample_request :: task_create_request where
  "sample_request = \<lparr>tr_Name = [], tr_Type = ''asset.probe'', tr_Priority = 0, tr_Queue = [],
     tr_Input = None, tr_MaxAttempts = 1, tr_IdempotencyKey = []\<rparr>"

definition sample_row :: task where
  "sample_row = BeforeCreate ''uuid-0'' 1000000000 (task_defaults (task_of_request sample_request))"

definition sample_created :: world where
  "sample_created = empty_world\<lparr>w_uuids := 1, w_tasks := [sample_row]\<rparr>"

definition sample_claimed :: world where
  "sample_claimed = sample_created\<lparr>w_tasks := [claimed ''w'' 1000000000 60 sample_row]\<rparr>"

definition sample_canceled :: world where
  "sample_canceled = sample_created\<lparr>w_tasks := [BeforeUpdate 1000000000 (cancel_task (claimed ''w'' 1000000000 60 sample_row))]\<rparr>"

lemma sample_row_fields [simp]:
  "obj_ID sample_row = ''uuid-0''" "tk_Queue sample_row = ''default''" "tk_Status sample_row = ''pending''"
  "tk_Attempts sample_row = 0" "tk_MaxAttempts sample_row = 1"
  by (simp_all add: sample_row_def BeforeCreate_def task_of_request_def sample_request_def task_defaults_def
      new_task_def new_meta_def object_meta.defs task.defs Let_def)

lemma sample_create: "TaskCreate sample_env sample_request empty_world = (Inr sample_row, sample_created)"
proof -
  have "obj_ID (task_defaults (task_of_request sample_request)) = []"
    by (simp add: task_of_request_def sample_request_def task_defaults_def
      new_task_def new_meta_def object_meta.defs task.defs Let_def)
  moreover have "dec_digits 0 = ''0''" by code_simp
  then have "e_uuid sample_env 0 = ''uuid-0''" by (simp add: sample_env_def fmt_d_def)
  ultimately show ?thesis
    by (simp add: TaskCreate_def taskStore_Add_def db_create_def Let_def sample_created_def sample_row_def empty_world_def)
qed

lemma sample_claim:
  "TaskClaim [] ''w'' 1 60 sample_created = (Inr [claimed ''w'' 1000000000 60 sample_row], sample_claimed)"
  by (simp add: TaskClaim_def taskStore_Claim_def transaction_def rollback_def bindE_def sample_created_def
      sample_claimed_def empty_world_def claim_select_def claimable_def db_save_def claimed_def save_row_def
      stmt_def lease_task_def Let_def)

lemma sample_cancel: "snd (TaskCancel ''uuid-0'' sample_claimed) = sample_canceled"
  by (simp add: TaskCancel_def taskStore_Cancel_def taskStore_Get_def db_first_def db_first_by_def bindE_def
      sample_created_def sample_claimed_def sample_canceled_def empty_world_def db_save_def save_row_def
      taskStore_Update_def claimed_fields cancel_task_def stmt_def Let_def)

lemma sample_reach:
  "reach queue_init (queue_step sample_env) \<lparr>qs_world = sample_created, qs_hand = []\<rparr>" (is "reach _ _ ?s1")
  "reach queue_init (queue_step sample_env)
     \<lparr>qs_world = sample_claimed, qs_hand = [(''w'', claimed ''w'' 1000000000 60 sample_row)]\<rparr>" (is "reach _ _ ?s2")
  "reach queue_init (queue_step sample_env) \<lparr>qs_world = sample_claimed, qs_hand = []\<rparr>" (is "reach _ _ ?s3")
  "reach queue_init (queue_step sample_env)
     \<lparr>qs_world = sample_canceled, qs_hand = [(''w'', claimed ''w'' 1000000000 60 sample_row)]\<rparr>" (is "reach _ _ ?s4")
  "reach queue_init (queue_step sample_env) \<lparr>qs_world = sample_canceled, qs_hand = []\<rparr>" (is "reach _ _ ?s5")
proof -
  let ?s0 = "\<lparr>qs_world = empty_world, qs_hand = []\<rparr>"
  let ?h = "(''w'', claimed ''w'' 1000000000 60 sample_row)"
  have range: "int64_range (tr_MaxAttempts sample_request)"
    by (simp add: sample_request_def int64_range_def)
  have "reach queue_init (queue_step sample_env) ?s0"
    by (rule reach_init) (simp add: queue_init_def empty_world_def)
  moreover have "queue_step sample_env ?s0 ?s1"
    using create[OF range, of sample_env ?s0] by (simp add: sample_create)
  ultimately show 1: "reach queue_init (queue_step sample_env) ?s1" by (rule reach_step)
  have "queue_step sample_env ?s1 ?s2"
    using claim_ok[where s = ?s1 and E = sample_env, unfolded queue_state.simps, OF sample_claim] by simp
  with 1 show 2: "reach queue_init (queue_step sample_env) ?s2" by (rule reach_step)
  have "queue_step sample_env ?s2 ?s3" using crash[where s = ?s2 and h = ?h and E = sample_env] by simp
  with 2 show "reach queue_init (queue_step sample_env) ?s3" by (rule reach_step)
  have "queue_step sample_env ?s2 ?s4"
    using cancel[where s = ?s2 and tid = "''uuid-0''" and E = sample_env] by (simp add: sample_cancel)
  with 2 show 4: "reach queue_init (queue_step sample_env) ?s4" by (rule reach_step)
  have "queue_step sample_env ?s4 ?s5" using crash[where s = ?s4 and h = ?h and E = sample_env] by simp
  with 4 show "reach queue_init (queue_step sample_env) ?s5" by (rule reach_step)
qed

lemma sample_tick:
  "(queue_step sample_env)\<^sup>*\<^sup>* s (s\<lparr>qs_world := (qs_world s)\<lparr>w_now := w_now (qs_world s) + 1000\<rparr>\<rparr>)"
  by (rule r_into_rtranclp, rule tick) simp




text \<open>
  A worker that dies on the last attempt leaves its task running for ever: once a running task
  has used all its attempts and no worker holds it, no claim takes it again, lease or not; it
  stays as it is until someone cancels it.
\<close>

theorem exhausted_task_stuck:
  assumes "reach queue_init (queue_step E) s" and "t \<in> set (w_tasks (qs_world s))"
    and "tk_Status t = TaskStatusRunning" and "tk_Attempts t = tk_MaxAttempts t"
    and "unheld s (obj_ID t)" and "(queue_step E)\<^sup>*\<^sup>* s s'"
  shows "t \<in> set (w_tasks (qs_world s')) \<or>
    (\<exists>r \<in> set (w_tasks (qs_world s')). obj_ID r = obj_ID t \<and> tk_Status r = TaskStatusCanceled)"
proof -
  have "tasks_inv (qs_world s)" using queue.reach_inv[OF assms(1)] by (simp add: queue_inv_def)
  then have "rests t (qs_world s)" using assms(2,4) by (intro rests_stored) (auto simp: settled_def)
  from settled_run[OF assms(6) this assms(5)] show ?thesis by (auto simp: rests_def)
qed

lemma exhausted_task_stuck_witness:
  "claimed ''w'' 1000000000 60 sample_row \<in> set (w_tasks sample_claimed) \<or>
     (\<exists>r \<in> set (w_tasks sample_claimed). obj_ID r = ''uuid-0'' \<and> tk_Status r = ''canceled'')"
  using exhausted_task_stuck[OF sample_reach(3), of "claimed ''w'' 1000000000 60 sample_row", OF _ _ _ _ sample_tick]
  by (simp add: sample_claimed_def sample_created_def unheld_def claimed_fields wrap64_id int64_range_def)

text \<open>
  A cancellation can be lost: there is a run in which a task is canceled while a worker holds
  it, and the worker's final \<open>Update\<close>, which saves the row as it was claimed, makes the canceled
  task succeeded.
\<close>

theorem cancel_can_be_lost:
  "\<exists>s s' t t'. reach queue_init (queue_step sample_env) s \<and> queue_step sample_env s s' \<and>
     w_tasks (qs_world s) = [t] \<and> tk_Status t = TaskStatusCanceled \<and>
     w_tasks (qs_world s') = [t'] \<and> obj_ID t' = obj_ID t \<and> tk_Status t' = TaskStatusSucceeded"
proof -
  let ?t = "claimed ''w'' 1000000000 60 sample_row"
  let ?s = "\<lparr>qs_world = sample_canceled, qs_hand = [(''w'', ?t)]\<rparr>"
  let ?w' = "snd (taskStore_Update (succeed_task (?t\<lparr>tk_Output := None\<rparr>)) sample_canceled)"
  let ?c = "BeforeUpdate 1000000000 (cancel_task ?t)"
  let ?r = "BeforeUpdate 1000000000 (succeed_task (?t\<lparr>tk_Output := None\<rparr>))"
  have "queue_step sample_env ?s \<lparr>qs_world = ?w', qs_hand = []\<rparr>"
    using done_ok[where s = ?s and wk = "''w''" and t = ?t and out = None and E = sample_env] by simp
  moreover have "w_tasks ?w' = [?r]"
    by (simp add: sample_canceled_def sample_created_def empty_world_def taskStore_Update_def db_save_def
        save_row_def cancel_task_def succeed_task_def Let_def)
  moreover have "w_tasks (qs_world ?s) = [?c]" by (simp add: sample_canceled_def)
  moreover have "tk_Status ?c = TaskStatusCanceled" "obj_ID ?r = obj_ID ?c" "tk_Status ?r = TaskStatusSucceeded"
    by (simp_all add: cancel_task_def succeed_task_def BeforeUpdate_def)
  ultimately show ?thesis
    using sample_reach(4)
    by (intro exI[of _ ?s] exI[of _ "\<lparr>qs_world = ?w', qs_hand = []\<rparr>"] exI[of _ ?c] exI[of _ ?r])
      (simp only: queue_state.simps)
qed

end
