(* ===== verification/StoragePath.thy ===== *)
theory StoragePath
  imports World GoPath
begin

text \<open>
  Where objects live on disk: \<open>normalizeLocalRoot\<close>, \<open>localObjectPath\<close> and \<open>chunkUploadDir\<close> of
  \<open>service/v1/platform/service.go\<close> and the worker's own \<open>localObjectPath\<close> of
  \<open>worker/processor.go\<close>. Each maps a name chosen by a client or stored in a row to a path, and
  must keep it below a rootdir directory: the locale \<open>jail\<close> is that contract, and what follows from it.
\<close>

subsection \<open>Definitions\<close>

definition StorageBackendTypeLocal :: string where [simp]: "StorageBackendTypeLocal = ''local''"

definition normalizeLocalRoot :: "env \<Rightarrow> string \<Rightarrow> err + string" where
  "normalizeLocalRoot E rootdir =
     (let root1 = (if rootdir = [] then e_getenv E ''OMNIMAM_STORAGE_ROOT'' else rootdir);
          root2 = (if root1 = [] then JoinPath [''data'', ''assets''] else root1)
      in case Abs (e_cwd E) root2 of None \<Rightarrow> Inl IOFailure | Some p \<Rightarrow> Inr (Clean p))"

definition localObjectPath :: "env \<Rightarrow> storage_backend \<Rightarrow> string \<Rightarrow> err + string" where
  "localObjectPath E backend objectKey =
     (if sb_Type backend \<noteq> StorageBackendTypeLocal
      then Inl (Errorf ''storage backend %s is not local'' [obj_ID backend])
      else case normalizeLocalRoot E (sb_Root backend) of Inl e \<Rightarrow> Inl e | Inr rootdir \<Rightarrow>
        (let cleanKey = Clean objectKey in
         if IsAbs cleanKey \<or> HasPrefix cleanKey ''../'' \<or> cleanKey = ''..''
         then Inl (Errorf ''invalid object key'' [])
         else (let path = JoinPath [rootdir, cleanKey] in
           case Rel rootdir path of None \<Rightarrow> Inl IOFailure | Some rel \<Rightarrow>
             if HasPrefix rel ''../'' \<or> rel = ''..''
             then Inl (Errorf ''object key escapes storage root'' [])
             else Inr path)))"

definition worker_localObjectPath :: "env \<Rightarrow> storage_backend \<Rightarrow> string \<Rightarrow> err + string" where
  "worker_localObjectPath E backend objectKey =
     (if sb_Type backend \<noteq> StorageBackendTypeLocal
      then Inl (Errorf ''storage backend %s is not local'' [obj_ID backend])
      else (let root0 = sb_Root backend;
                root1 = (if root0 = [] then e_getenv E ''OMNIMAM_STORAGE_ROOT'' else root0);
                root2 = (if root1 = [] then JoinPath [''data'', ''assets''] else root1)
            in case Abs (e_cwd E) root2 of None \<Rightarrow> Inl IOFailure | Some rootdir \<Rightarrow>
        (let cleanKey = Clean objectKey in
         if IsAbs cleanKey \<or> cleanKey = ''..'' \<or> HasPrefix cleanKey ''../''
         then Inl (Errorf ''invalid object key'' [])
         else (let path = JoinPath [rootdir, cleanKey] in
           case Rel rootdir path of None \<Rightarrow> Inl IOFailure | Some rel \<Rightarrow>
             if rel = ''..'' \<or> HasPrefix rel ''../''
             then Inl (Errorf ''object key escapes storage root'' [])
             else Inr path))))"

definition hex_rune :: "nat \<Rightarrow> bool" where
  "hex_rune r \<longleftrightarrow> (48 \<le> r \<and> r \<le> 57) \<or> (97 \<le> r \<and> r \<le> 102) \<or> (65 \<le> r \<and> r \<le> 70)"

definition validateChecksum :: "string \<Rightarrow> err + unit" where
  "validateChecksum checksum =
     (if length checksum \<noteq> 64 then Inl (Status ErrValidation ''checksum must be a sha256 hex string'' [])
      else if \<exists>r \<in> set (runes checksum). \<not> hex_rune r
      then Inl (Status ErrValidation ''checksum must be a sha256 hex string'' [])
      else Inr ())"

definition chunkUploadDir :: "env \<Rightarrow> string \<Rightarrow> string \<Rightarrow> err + string" where
  "chunkUploadDir E tmp checksum =
     (case validateChecksum checksum of Inl e \<Rightarrow> Inl e | Inr _ \<Rightarrow>
        (case Abs (e_cwd E) tmp of None \<Rightarrow> Inl IOFailure | Some rootdir \<Rightarrow>
          (let target = JoinPath [rootdir, ToLower (e_lower E) checksum] in
           if \<not> HasPrefix target (rootdir @ ''/'') \<and> target \<noteq> rootdir
           then Inl (Status ErrValidation ''invalid chunk upload path'' [])
           else Inr target)))"

subsection \<open>Roots\<close>

text \<open>The working directory, where there is one, is absolute (\<open>os.Getwd\<close> returns a rooted path).\<close>

definition rooted_cwd :: "env \<Rightarrow> bool" where
  "rooted_cwd E \<longleftrightarrow> (\<forall>wd. e_cwd E = Some wd \<longrightarrow> IsAbs wd)"

lemma Abs_root:
  assumes "rooted_cwd E" "Abs (e_cwd E) q = Some p"
  obtains rc where "canonical True rc" "p = path_of True rc" "Clean p = p"
proof -
  obtain rc where "canonical True rc" "p = path_of True rc"
    by (rule Abs_canonical[of "e_cwd E" q p]) (use assms in \<open>auto simp: rooted_cwd_def\<close>)
  then show ?thesis using that Clean_path_of by blast
qed

lemma normalizeLocalRoot_Abs:
  assumes "rooted_cwd E" "normalizeLocalRoot E rootdir = Inr p"
  obtains rc where "canonical True rc" "p = path_of True rc"
proof -
  from assms(2) obtain q a where a: "Abs (e_cwd E) q = Some a" "p = Clean a"
    by (auto simp: normalizeLocalRoot_def Let_def split: option.splits)
  from Abs_root[OF assms(1) a(1)] show ?thesis using that a(2) by metis
qed

lemma pcomps_root [simp]: "canonical True rc \<Longrightarrow> pcomps (path_of True rc) = rc"
  by (rule pcomps_path_of)

text \<open>A key leaves the root when it is absolute or its normal form climbs.\<close>

definition escapes :: "string \<Rightarrow> bool" where
  "escapes key \<longleftrightarrow> IsAbs key \<or> (ccomps key \<noteq> [] \<and> hd (ccomps key) = ''..'')"

lemma Clean_IsAbs: "IsAbs (Clean k) = IsAbs k"
  using canonical_ccomps[of k] by (metis Clean_ccomps IsAbs_path_of)

lemma HasPrefix_dotdot:
  "updown cs \<Longrightarrow> HasPrefix (path_of False cs) ''../'' \<or> path_of False cs = ''..'' \<longleftrightarrow> cs \<noteq> [] \<and> hd cs = ''..''"
proof -
  assume u: "updown cs"
  show ?thesis
  proof (cases "cs \<noteq> [] \<and> hd cs = ''..''")
    case True
    then obtain ds where "cs = ''..'' # ds" by (cases cs) auto
    then show ?thesis by (cases ds) (auto simp: path_of_def HasPrefix_def)
  next
    case False
    obtain n ks where cs: "cs = replicate n ''..'' @ ks" and ks: "\<forall>c \<in> set ks. normal c"
      using u by (auto simp: updown_def)
    with False have n0: "n = 0" by (cases n) auto
    have "\<not> (HasPrefix (path_of False cs) ''../'' \<or> path_of False cs = ''..'')"
    proof
      assume h: "HasPrefix (path_of False cs) ''../'' \<or> path_of False cs = ''..''"
      have "ks \<noteq> []" using h cs n0 by (auto simp: path_of_def HasPrefix_def)
      then have split: "Split slash (path_of False cs) = cs"
        using Split_Join_canonical[of False cs] cs n0 u by (simp add: path_of_def canonical_def)
      from h have "hd (Split slash (path_of False cs)) = ''..''"
        by (auto simp: HasPrefix_iff)
      with split \<open>ks \<noteq> []\<close> cs n0 False show False by simp
    qed
    with False show ?thesis by blast
  qed
qed

lemma escapes_Clean: "IsAbs (Clean k) \<or> HasPrefix (Clean k) ''../'' \<or> Clean k = ''..'' \<longleftrightarrow> escapes k"
proof (cases "IsAbs k")
  case False
  then show ?thesis
    using HasPrefix_dotdot[OF ccomps_rel[OF False]] by (simp add: escapes_def Clean_IsAbs) (simp add: Clean_ccomps)
qed (simp add: escapes_def Clean_IsAbs)

lemma kept_key:
  assumes "\<not> escapes k"
  shows "Clean k = path_of False (ccomps k)" "\<forall>c \<in> set (ccomps k). normal c"
proof -
  have "\<not> IsAbs k" using assms by (simp add: escapes_def)
  then show "Clean k = path_of False (ccomps k)" by (simp add: Clean_ccomps)
  from ccomps_rel[OF \<open>\<not> IsAbs k\<close>] obtain n ks where eq: "ccomps k = replicate n ''..'' @ ks" and ks: "\<forall>c \<in> set ks. normal c"
    by (auto simp: updown_def)
  have "n = 0" using assms eq \<open>\<not> IsAbs k\<close> by (cases n) (auto simp: escapes_def)
  with eq ks show "\<forall>c \<in> set (ccomps k). normal c" by simp
qed

text \<open>The tail that both versions of \<open>localObjectPath\<close> share: the check with \<open>Rel\<close> never fires.\<close>

lemma place_key:
  assumes rc: "canonical True rc" and k: "\<not> escapes k"
  shows "JoinPath [path_of True rc, Clean k] = path_of True (rc @ ccomps k)"
    and "Rel (path_of True rc) (JoinPath [path_of True rc, Clean k]) = Some (path_of False (ccomps k))"
    and "\<not> HasPrefix (path_of False (ccomps k)) ''../''" "path_of False (ccomps k) \<noteq> ''..''"
proof -
  note kk = kept_key[OF k]
  show join: "JoinPath [path_of True rc, Clean k] = path_of True (rc @ ccomps k)"
    unfolding kk(1) by (rule JoinPath_canonical[OF rc kk(2)])
  show "Rel (path_of True rc) (JoinPath [path_of True rc, Clean k]) = Some (path_of False (ccomps k))"
    unfolding join by (rule Rel_below[OF rc kk(2)])
  show "\<not> HasPrefix (path_of False (ccomps k)) ''../''" "path_of False (ccomps k) \<noteq> ''..''"
    using k escapes_Clean[of k] kk(1) by auto
qed

subsection \<open>The contract of a jail\<close>

text \<open>
  A resolver takes an owner (a storage backend, a configured directory) and a name, and gives a
  path; \<open>is_root\<close> says which directory the owner confines it to.
\<close>

locale jail =
  fixes resolve :: "'k \<Rightarrow> string \<Rightarrow> err + string"
    and ok :: "'k \<Rightarrow> bool"
    and is_root :: "'k \<Rightarrow> string \<Rightarrow> bool"
  assumes placed: "ok b \<Longrightarrow> resolve b k = Inr p \<Longrightarrow>
    \<exists>rc kc. canonical True rc \<and> (\<forall>c \<in> set kc. normal c) \<and> is_root b (path_of True rc) \<and> p = path_of True (rc @ kc)"
    and root_unique: "is_root b d \<Longrightarrow> is_root b d' \<Longrightarrow> d = d'"
begin

lemma confined: "ok b \<Longrightarrow> resolve b k = Inr p \<Longrightarrow> is_root b d \<Longrightarrow> below d p"
  using placed[of b k p] root_unique[of b d] below_path_of by metis

lemma has_root: "ok b \<Longrightarrow> resolve b k = Inr p \<Longrightarrow> \<exists>d. is_root b d"
  using placed by blast

lemma components_normal: "ok b \<Longrightarrow> resolve b k = Inr p \<Longrightarrow> c \<in> set (pcomps p) \<Longrightarrow> normal c"
proof -
  assume "ok b" and p: "resolve b k = Inr p" and c: "c \<in> set (pcomps p)"
  from placed[OF \<open>ok b\<close> p] obtain rc kc where "canonical True (rc @ kc)" "p = path_of True (rc @ kc)"
    by (auto simp: canonical_def)
  with c show "normal c" by (auto simp: canonical_def)
qed

lemma under_prefix: "ok b \<Longrightarrow> resolve b k = Inr p \<Longrightarrow> is_root b d \<Longrightarrow> d \<noteq> ''/'' \<Longrightarrow> p = d \<or> HasPrefix p (d @ ''/'')"
proof -
  assume "ok b" and p: "resolve b k = Inr p" and d: "is_root b d" "d \<noteq> ''/''"
  from placed[OF \<open>ok b\<close> p] obtain rc kc where k: "p = path_of True (rc @ kc)" "is_root b (path_of True rc)" by blast
  from root_unique[OF k(2) d(1)] have "d = path_of True rc" by simp
  with d(2) k(1) have d': "d = ''/'' @ Join rc ''/''" "rc \<noteq> []" by (auto simp: path_of_def)
  with k(1) show ?thesis by (cases "kc = []") (auto simp: path_of_def HasPrefix_iff Join_append)
qed

end

lemma localObjectPath_placed:
  assumes E: "rooted_cwd E" and r: "normalizeLocalRoot E (sb_Root b) = Inr d"
  obtains rc where "canonical True rc" "d = path_of True rc"
    "localObjectPath E b k =
       (if sb_Type b \<noteq> StorageBackendTypeLocal then Inl (Errorf ''storage backend %s is not local'' [obj_ID b])
        else if escapes k then Inl (Errorf ''invalid object key'' [])
        else Inr (path_of True (rc @ ccomps k)))"
proof -
  obtain rc where rc: "canonical True rc" "d = path_of True rc" by (rule normalizeLocalRoot_Abs[OF E r])
  have "localObjectPath E b k =
       (if sb_Type b \<noteq> StorageBackendTypeLocal then Inl (Errorf ''storage backend %s is not local'' [obj_ID b])
        else if escapes k then Inl (Errorf ''invalid object key'' [])
        else Inr (path_of True (rc @ ccomps k)))"
  proof (cases "escapes k")
    case True
    then show ?thesis using escapes_Clean[of k] r by (simp add: localObjectPath_def Let_def)
  next
    case False
    note pk = place_key[OF rc(1) False]
    have "\<not> (IsAbs (Clean k) \<or> HasPrefix (Clean k) ''../'' \<or> Clean k = ''..'')" using False escapes_Clean by blast
    then show ?thesis using r rc(2) False pk by (simp add: localObjectPath_def Let_def)
  qed
  with rc show ?thesis using that by blast
qed

interpretation object_jail: jail "\<lambda>(E, b). localObjectPath E b" "\<lambda>(E, b). rooted_cwd E"
  "\<lambda>(E, b) d. normalizeLocalRoot E (sb_Root b) = Inr d"
proof (unfold_locales, clarsimp)
  fix E b k p
  assume E: "rooted_cwd E" and p: "localObjectPath E b k = Inr p"
  then obtain d where d: "normalizeLocalRoot E (sb_Root b) = Inr d"
    by (auto simp: localObjectPath_def split: if_splits sum.splits)
  obtain rc where rc: "canonical True rc" "d = path_of True rc" "localObjectPath E b k =
       (if sb_Type b \<noteq> StorageBackendTypeLocal then Inl (Errorf ''storage backend %s is not local'' [obj_ID b])
        else if escapes k then Inl (Errorf ''invalid object key'' [])
        else Inr (path_of True (rc @ ccomps k)))"
    by (rule localObjectPath_placed[OF E d, of k])
  with p kept_key(2)[of k] d
  show "\<exists>rc. canonical True rc \<and> (\<exists>kc. (\<forall>c \<in> set kc. normal c) \<and>
      normalizeLocalRoot E (sb_Root b) = Inr (path_of True rc) \<and> p = path_of True (rc @ kc))"
    by (intro exI[of _ rc]) (auto split: if_splits)
qed auto

text \<open>
  Object paths: for a local backend \<open>localObjectPath\<close> refuses exactly the keys that are
  absolute or climb above their start, and maps every other key to the root followed by the
  key's cleaned components; the final check with \<open>Rel\<close> never refuses anything.
\<close>

theorem localObjectPath_functional:
  assumes "rooted_cwd E" and "normalizeLocalRoot E (sb_Root b) = Inr d"
  shows "localObjectPath E b k =
    (if sb_Type b \<noteq> StorageBackendTypeLocal then Inl (Errorf ''storage backend %s is not local'' [obj_ID b])
     else if escapes k then Inl (Errorf ''invalid object key'' [])
     else Inr (path_of True (pcomps d @ ccomps k)))"
  by (rule localObjectPath_placed[OF assms, of k]) simp

text \<open>
  C34. No object key leaves the storage root: every path that \<open>localObjectPath\<close> returns is
  absolute, clean, has no dot components, and lies below the root of its backend component by component.
\<close>

theorem localObjectPath_confined:
  assumes "rooted_cwd E" and "localObjectPath E b k = Inr p"
  shows "\<exists>d. normalizeLocalRoot E (sb_Root b) = Inr d \<and> below d p \<and> (\<forall>c \<in> set (pcomps p). normal c) \<and>
    (d = ''/'' \<or> p = d \<or> HasPrefix p (d @ ''/''))"
proof -
  obtain d where d: "normalizeLocalRoot E (sb_Root b) = Inr d"
    using object_jail.has_root[of "(E, b)" k p] assms by auto
  moreover have "below d p" using object_jail.confined[of "(E, b)" k p d] assms d by simp
  moreover have "\<forall>c \<in> set (pcomps p). normal c" using object_jail.components_normal[of "(E, b)" k p] assms by simp
  moreover have "d = ''/'' \<or> p = d \<or> HasPrefix p (d @ ''/'')"
    using object_jail.under_prefix[of "(E, b)" k p d] assms d by (cases "d = ''/''") simp_all
  ultimately show ?thesis by blast
qed

lemma Abs_Clean: "Abs cwd q = Some p \<Longrightarrow> q \<noteq> [] \<Longrightarrow> Clean p = p"
  by (cases cwd) (auto simp: Abs_def JoinPath_def Let_def Clean_idem split: if_splits)

lemma worker_path_aux: "worker_localObjectPath E b k = localObjectPath E b k"
proof -
  define q where "q = (let r1 = if sb_Root b = [] then e_getenv E ''OMNIMAM_STORAGE_ROOT'' else sb_Root b
      in if r1 = [] then JoinPath [''data'', ''assets''] else r1)"
  have q: "q \<noteq> []" by (auto simp: q_def Let_def JoinPath_def)
  have norm: "normalizeLocalRoot E (sb_Root b) = (case Abs (e_cwd E) q of None \<Rightarrow> Inl IOFailure | Some p \<Rightarrow> Inr (Clean p))"
    by (simp add: normalizeLocalRoot_def q_def Let_def)
  show ?thesis
  proof (cases "Abs (e_cwd E) q")
    case None
    then show ?thesis
      unfolding localObjectPath_def norm worker_localObjectPath_def Let_def
      by (simp only: q_def[unfolded Let_def, symmetric] option.case sum.case)
  next
    case (Some p)
    then have "Clean p = p" using Abs_Clean q by blast
    then show ?thesis using Some
      unfolding localObjectPath_def norm worker_localObjectPath_def Let_def
      by (simp only: q_def[unfolded Let_def, symmetric] option.case sum.case disj_ac)
  qed
qed

text \<open>
  The service and the worker agree on every object path, errors included, although each has
  its own \<open>localObjectPath\<close>.
\<close>

theorem worker_localObjectPath_eq: "worker_localObjectPath E b k = localObjectPath E b k"
  by (rule worker_path_aux)

subsection \<open>Directories of chunked uploads\<close>

definition checksum_ok :: "string \<Rightarrow> bool" where
  "checksum_ok c \<longleftrightarrow> length c = 64 \<and> (\<forall>x \<in> set c. hex_rune (byte x))"

lemma validateChecksum_ok: "validateChecksum c = Inr () \<longleftrightarrow> checksum_ok c"
proof
  assume "validateChecksum c = Inr ()"
  then have len: "length c = 64" and hex: "\<forall>r \<in> set (runes c). hex_rune r"
    by (auto simp: validateChecksum_def split: if_splits)
  then have "\<forall>r \<in> set (runes c). r < 128" by (auto simp: hex_rune_def)
  then have "runes c = map byte c" using runes_small by blast
  with len hex show "checksum_ok c" by (simp add: checksum_ok_def)
next
  assume ok: "checksum_ok c"
  then have "is_ascii c" by (auto simp: checksum_ok_def is_ascii_def hex_rune_def)
  with ok show "validateChecksum c = Inr ()" by (simp add: validateChecksum_def checksum_ok_def runes_ascii)
qed

lemma validateChecksum_bad:
  "\<not> checksum_ok c \<Longrightarrow> validateChecksum c = Inl (Status ErrValidation ''checksum must be a sha256 hex string'' [])"
  using validateChecksum_ok[of c] by (auto simp: validateChecksum_def)

lemma checksum_lower:
  assumes "checksum_ok c"
  shows "ToLower uni c = map ascii_lower c" "normal (map ascii_lower c)"
proof -
  have "is_ascii c" using assms by (auto simp: checksum_ok_def is_ascii_def hex_rune_def)
  then show "ToLower uni c = map ascii_lower c" by (simp add: ToLower_def)
  have len: "length (map ascii_lower c) = 64" using assms by (simp add: checksum_ok_def)
  then have "map ascii_lower c \<noteq> []" "map ascii_lower c \<noteq> ''.''" "map ascii_lower c \<noteq> ''..''" by auto
  moreover have "slash \<notin> set (map ascii_lower c)"
  proof
    assume "slash \<in> set (map ascii_lower c)"
    then obtain x where x: "x \<in> set c" "slash = ascii_lower x" by auto
    have "byte (ascii_lower x) = 47" unfolding x(2)[symmetric] by (simp add: byte_def)
    moreover have "hex_rune (byte x)" using assms x(1) by (simp add: checksum_ok_def)
    ultimately show False by (auto simp: byte_ascii_lower hex_rune_def split: if_splits)
  qed
  ultimately show "normal (map ascii_lower c)" by (simp add: normal_def)
qed

lemma Join_snoc: "xs \<noteq> [] \<Longrightarrow> Join (xs @ [y]) sep = Join xs sep @ sep @ y"
  by (simp add: Join_append)

lemma chunkUploadDir_placed:
  assumes E: "rooted_cwd E" and d: "Abs (e_cwd E) tmp = Some d" and c: "checksum_ok c"
  obtains rc where "canonical True rc" "d = path_of True rc"
    "chunkUploadDir E tmp c = (if d = ''/'' then Inl (Status ErrValidation ''invalid chunk upload path'' [])
       else Inr (path_of True (rc @ [map ascii_lower c])))"
proof -
  obtain rc where rc: "canonical True rc" "d = path_of True rc" by (rule Abs_root[OF E d])
  note low = checksum_lower[OF c]
  have one: "path_of False [map ascii_lower c] = map ascii_lower c" by (simp add: path_of_def)
  have join: "JoinPath [d, map ascii_lower c] = path_of True (rc @ [map ascii_lower c])"
    using JoinPath_canonical[OF rc(1), of "[map ascii_lower c]"] low(2) rc(2) one by simp
  have v: "validateChecksum c = Inr ()" using c validateChecksum_ok by simp
  have "chunkUploadDir E tmp c = (if d = ''/'' then Inl (Status ErrValidation ''invalid chunk upload path'' [])
       else Inr (path_of True (rc @ [map ascii_lower c])))"
  proof (cases "d = ''/''")
    case True
    then have "rc = []" using rc path_of_inj[OF rc(1), of "[]"] by (simp add: path_of_def canonical_def)
    have nz: "map ascii_lower c \<noteq> []" using low(2) by (rule normalD)
    have ns: "\<not> HasPrefix (map ascii_lower c) ''/''" using low(2) by (auto simp: HasPrefix_single normal_def hd_in_set)
        (metis hd_in_set image_eqI list.map_disc_iff list.map_sel(1))
    from ns have "\<not> HasPrefix (slash # map ascii_lower c) ''//''"
      by (auto simp: HasPrefix_def take_Suc split: if_splits)
    then show ?thesis using True join \<open>rc = []\<close> v low(1) d nz
      by (simp add: chunkUploadDir_def Let_def path_of_def)
  next
    case False
    then have "rc \<noteq> []" using rc(2) by (auto simp: path_of_def)
    then have "path_of True (rc @ [map ascii_lower c]) = (d @ ''/'') @ map ascii_lower c"
      using rc(2) by (simp add: path_of_def Join_snoc)
    then have "HasPrefix (path_of True (rc @ [map ascii_lower c])) (d @ ''/'')"
      unfolding HasPrefix_iff by blast
    then show ?thesis using False join v low(1) d by (simp add: chunkUploadDir_def Let_def)
  qed
  with rc show ?thesis using that by blast
qed

interpretation chunk_jail: jail "\<lambda>(E, tmp). chunkUploadDir E tmp" "\<lambda>(E, tmp). rooted_cwd E"
  "\<lambda>(E, tmp) d. Abs (e_cwd E) tmp = Some d"
proof (unfold_locales, clarsimp)
  fix E tmp c p
  assume E: "rooted_cwd E" and p: "chunkUploadDir E tmp c = Inr p"
  from p have c: "checksum_ok c" by (auto simp: chunkUploadDir_def simp flip: validateChecksum_ok split: sum.splits)
  from p obtain d where d: "Abs (e_cwd E) tmp = Some d"
    by (auto simp: chunkUploadDir_def split: sum.splits option.splits)
  obtain rc where rc: "canonical True rc" "d = path_of True rc"
    "chunkUploadDir E tmp c = (if d = ''/'' then Inl (Status ErrValidation ''invalid chunk upload path'' [])
       else Inr (path_of True (rc @ [map ascii_lower c])))"
    by (rule chunkUploadDir_placed[OF E d c])
  with p d checksum_lower(2)[OF c]
  show "\<exists>rc. canonical True rc \<and> (\<exists>kc. (\<forall>c \<in> set kc. normal c) \<and>
      Abs (e_cwd E) tmp = Some (path_of True rc) \<and> p = path_of True (rc @ kc))"
    by (intro exI[of _ rc] conjI exI[of _ "[map ascii_lower c]"]) (auto split: if_splits)
qed auto

lemma chunkUploadDir_functional_aux:
  assumes "rooted_cwd E" and "Abs (e_cwd E) tmp = Some d" and "d \<noteq> ''/''"
  shows "chunkUploadDir E tmp c =
    (if checksum_ok c then Inr (d @ ''/'' @ map ascii_lower c)
     else Inl (Status ErrValidation ''checksum must be a sha256 hex string'' []))"
proof (cases "checksum_ok c")
  case True
  obtain rc where rc: "canonical True rc" "d = path_of True rc"
    "chunkUploadDir E tmp c = (if d = ''/'' then Inl (Status ErrValidation ''invalid chunk upload path'' [])
       else Inr (path_of True (rc @ [map ascii_lower c])))"
    by (rule chunkUploadDir_placed[OF assms(1,2) True])
  then have "rc \<noteq> []" using assms(3) by (auto simp: path_of_def)
  with rc assms(3) True show ?thesis by (simp add: path_of_def Join_snoc)
next
  case False
  then show ?thesis by (simp add: chunkUploadDir_def validateChecksum_bad)
qed

text \<open>
  Chunk directories: below a configured directory other than the file system's root,
  \<open>chunkUploadDir\<close> accepts exactly the strings of 64 hexadecimal digits and gives the directory
  followed by the digits in lower case, so two checksums share a directory when, and only when,
  they are equal up to case.
\<close>

theorem chunkUploadDir_functional:
  assumes "rooted_cwd E" and "Abs (e_cwd E) tmp = Some d" and "d \<noteq> ''/''"
  shows "chunkUploadDir E tmp c =
    (if checksum_ok c then Inr (d @ ''/'' @ map ascii_lower c)
     else Inl (Status ErrValidation ''checksum must be a sha256 hex string'' []))"
  using chunkUploadDir_functional_aux[OF assms] .

text \<open>
  No checksum leaves the upload directory: every directory that \<open>chunkUploadDir\<close> returns lies
  strictly below the configured one, whose removal by a cancellation is therefore contained.
\<close>

theorem chunkUploadDir_confined:
  assumes "rooted_cwd E" and "chunkUploadDir E tmp c = Inr p"
  shows "\<exists>d. Abs (e_cwd E) tmp = Some d \<and> below d p \<and> p \<noteq> d"
proof -
  obtain d where d: "Abs (e_cwd E) tmp = Some d"
    using chunk_jail.has_root[of "(E, tmp)" c p] assms by auto
  moreover have "below d p" using chunk_jail.confined[of "(E, tmp)" c p d] assms d by simp
  moreover have "p \<noteq> d"
  proof (cases "d = ''/''")
    case True
    have c: "checksum_ok c" using assms(2) by (auto simp: chunkUploadDir_def simp flip: validateChecksum_ok split: sum.splits)
    show ?thesis by (rule chunkUploadDir_placed[OF assms(1) d c]) (use True assms(2) in simp)
  next
    case False
    then show ?thesis using chunkUploadDir_functional_aux[OF assms(1) d False, of c] assms(2) by (auto split: if_splits)
  qed
  ultimately show ?thesis by blast
qed

text \<open>Instances.\<close>

definition sample_backend :: storage_backend where
  "sample_backend = object_meta.extend new_meta (storage_backend.fields ''local'' ''/data'' None True False 0)"

lemma sample_rooted: "rooted_cwd sample_env"
  by (simp add: rooted_cwd_def sample_env_def IsAbs_def HasPrefix_def)

lemma sample_root: "normalizeLocalRoot sample_env (sb_Root sample_backend) = Inr ''/data''"
  by code_simp

lemma sample_object: "localObjectPath sample_env sample_backend ''a/../b//c.png'' = Inr ''/data/b/c.png''"
  by code_simp

lemma sample_tmp: "Abs (e_cwd sample_env) ''tmp'' = Some ''/srv/tmp''"
  by code_simp

lemma localObjectPath_functional_witness:
  "localObjectPath sample_env sample_backend ''../x'' = Inl (Errorf ''invalid object key'' [])"
proof -
  have "escapes ''../x''" by code_simp
  then show ?thesis
    using localObjectPath_functional[OF sample_rooted sample_root, of "''../x''"]
    by (simp add: sample_backend_def storage_backend.defs object_meta.defs)
qed

lemma localObjectPath_confined_witness:
  "\<exists>d. normalizeLocalRoot sample_env (sb_Root sample_backend) = Inr d \<and> below d ''/data/b/c.png''"
  using localObjectPath_confined[OF sample_rooted sample_object] by blast

lemma chunkUploadDir_functional_witness:
  "chunkUploadDir sample_env ''tmp'' (replicate 64 CHR ''A'') = Inr (''/srv/tmp/'' @ replicate 64 CHR ''a'')"
proof -
  have "checksum_ok (replicate 64 CHR ''A'')" by (simp add: checksum_ok_def hex_rune_def byte_def)
  moreover have "ascii_lower CHR ''A'' = CHR ''a''" by code_simp
  ultimately show ?thesis
    using chunkUploadDir_functional[OF sample_rooted sample_tmp, of "replicate 64 CHR ''A''"] by simp
qed

lemma chunkUploadDir_confined_witness:
  "\<exists>d p. chunkUploadDir sample_env ''tmp'' (replicate 64 CHR ''0'') = Inr p \<and> below d p"
proof -
  have "checksum_ok (replicate 64 CHR ''0'')" by (simp add: checksum_ok_def hex_rune_def byte_def)
  then have "\<exists>p. chunkUploadDir sample_env ''tmp'' (replicate 64 CHR ''0'') = Inr p"
    using chunkUploadDir_functional_aux[OF sample_rooted sample_tmp, of "replicate 64 CHR ''0''"] by simp
  then show ?thesis using chunkUploadDir_confined[OF sample_rooted] by blast
qed

end
