(* ===== verification/Stores.thy ===== *)
theory Stores
  imports World
begin

text \<open>
  The stores of \<open>store/postgresql/platform.go\<close> other than the task store (which is in
  \<open>TaskQueue\<close>), with the helpers of \<open>helper.go\<close>: providers, provider models, system LLM
  configurations, storage backends, assets, thumbnails, tags, asset groups, relations, feature
  flags and permissions. Columns with a gorm \<open>default\<close> tag take the default when the value to
  insert is the zero value, because gorm leaves such a column out of the statement.
\<close>

subsection \<open>Requests\<close>

record provider_list_request = basic_query +
  pl_Type :: string
  pl_Enabled :: "bool option"

record model_list_request = basic_query +
  ml_ProviderID :: string
  ml_Enabled :: "bool option"
  ml_Capability :: string

record backend_list_request = basic_query +
  bl_Type :: string
  bl_Enabled :: "bool option"

record asset_list_request = basic_query +
  al_MediaType :: string
  al_MimeType :: string
  al_StorageBackendID :: string
  al_SourceType :: string
  al_Format :: string
  al_Status :: string
  al_Deleted :: "bool option"
  al_MinSize :: int
  al_MaxSize :: int
  al_Width :: int
  al_Height :: int
  al_MinWidth :: int
  al_MaxWidth :: int
  al_MinHeight :: int
  al_MaxHeight :: int
  al_MinDuration :: int
  al_MaxDuration :: int
  al_Tags :: "string list"

definition new_asset_query :: asset_list_request where
  "new_asset_query = basic_query.extend new_query
     (asset_list_request.fields [] [] [] [] [] [] None 0 0 0 0 0 0 0 0 0 0 [])"

subsection \<open>Helpers\<close>

text \<open>\<open>CheckExists\<close> ignores the error of its count; \<open>GetByName\<close> counts, then loads the first row by name.\<close>

definition CheckExists :: "'r tbl \<Rightarrow> ('r \<Rightarrow> bool) \<Rightarrow> bool m" where
  "CheckExists t P =
     bindE (attempt (db_count t P)) (\<lambda>r. ret (case r of Inl _ \<Rightarrow> False | Inr cnt \<Rightarrow> 0 < cnt))"

definition GetByName :: "'r object_meta_scheme tbl \<Rightarrow> string \<Rightarrow> (bool \<times> 'r object_meta_scheme option) m" where
  "GetByName t nm =
     bindE (attempt (db_count t (\<lambda>r. obj_Name r = nm))) (\<lambda>r. case r of
       Inl _ \<Rightarrow> ret (False, None)
     | Inr cnt \<Rightarrow>
         bindE (attempt (db_first t (\<lambda>r. obj_Name r = nm))) (\<lambda>f.
         ret (0 < cnt, case f of Inl _ \<Rightarrow> None | Inr x \<Rightarrow> Some x)))"

subsection \<open>Providers\<close>

definition provider_columns :: "provider columns" where
  "provider_columns = [(''type'', CText pv_Type), (''enabled'', CBool pv_Enabled), (''base_url'', CText pv_BaseURL),
     (''auth_type'', CText pv_AuthType), (''credential_ref'', CText pv_CredentialRef), (''preset_key'', CText pv_PresetKey)]"

definition providerStore_List :: "env \<Rightarrow> provider_list_request \<Rightarrow> (provider list \<times> int) m" where
  "providerStore_List E req = db_page E provider_columns providers_tbl
     (\<lambda>_. ToQuery (e_lower E) (basic_query.truncate req) (\<lambda>p.
        (pl_Type req \<noteq> [] \<longrightarrow> pv_Type p = pl_Type req) \<and>
        (case pl_Enabled req of None \<Rightarrow> True | Some b \<Rightarrow> pv_Enabled p = b)))"

definition providerStore_Get :: "string \<Rightarrow> provider m" where
  "providerStore_Get pid = db_first providers_tbl (\<lambda>p. obj_ID p = pid)"

definition quoted_v :: string where
  "quoted_v = [CHR 0x27] @ ''%v'' @ [CHR 0x27]"

definition providerStore_Add :: "env \<Rightarrow> provider \<Rightarrow> provider m" where
  "providerStore_Add E data = transaction
     (bindE (CheckExists providers_tbl (\<lambda>p. obj_Name p = obj_Name data)) (\<lambda>found.
      if found then throw (Errorf (''exists  name with '' @ quoted_v) [obj_Name data])
      else db_create E id providers_tbl data))"

definition providerStore_Update :: "provider \<Rightarrow> provider m" where
  "providerStore_Update data = transaction
     (bindE (GetByName providers_tbl (obj_Name data)) (\<lambda>(found, row).
      if found \<and> (case row of None \<Rightarrow> [] | Some r \<Rightarrow> obj_ID r) \<noteq> obj_ID data
      then throw (Errorf (''exists provider name '' @ quoted_v @ '' with id '' @ quoted_v) [obj_Name data, obj_ID data])
      else db_replace providers_tbl data))"

definition providerStore_Delete :: "string \<Rightarrow> unit m" where
  "providerStore_Delete pid = bindE (db_delete providers_tbl (\<lambda>p. obj_ID p = pid)) (\<lambda>_. ret ())"

subsection \<open>Provider models\<close>

definition model_columns :: "provider_model columns" where
  "model_columns = [(''provider_id'', CText pm_ProviderID), (''model'', CText pm_Model),
     (''endpoint_type'', CText pm_EndpointType), (''group_name'', CText pm_GroupName), (''enabled'', CBool pm_Enabled)]"

definition model_dflt :: "provider_model \<Rightarrow> provider_model" where
  "model_dflt r = r\<lparr>pm_Enabled := True\<rparr>"

definition providerModelStore_List :: "env \<Rightarrow> model_list_request \<Rightarrow> (provider_model list \<times> int) m" where
  "providerModelStore_List E req = db_page E model_columns models_tbl
     (\<lambda>_. ToQuery (e_lower E) (basic_query.truncate req) (\<lambda>p.
        (ml_ProviderID req \<noteq> [] \<longrightarrow> pm_ProviderID p = ml_ProviderID req) \<and>
        (case ml_Enabled req of None \<Rightarrow> True | Some b \<Rightarrow> pm_Enabled p = b) \<and>
        (ml_Capability req \<noteq> [] \<longrightarrow>
           sql_like (''%'' @ ml_Capability req @ ''%'') (e_json_strings E (pm_Capabilities p)))))"

definition providerModelStore_Get :: "string \<Rightarrow> provider_model m" where
  "providerModelStore_Get mid = db_first models_tbl (\<lambda>p. obj_ID p = mid)"

definition providerModelStore_Add :: "env \<Rightarrow> provider_model \<Rightarrow> provider_model m" where
  "providerModelStore_Add E data = db_create E model_dflt models_tbl data"

definition providerModelStore_Update :: "provider_model \<Rightarrow> provider_model m" where
  "providerModelStore_Update data = db_save models_tbl data"

definition providerModelStore_Delete :: "string \<Rightarrow> string \<Rightarrow> unit m" where
  "providerModelStore_Delete pid mid =
     bindE (db_delete models_tbl (\<lambda>p. pm_ProviderID p = pid \<and> obj_ID p = mid)) (\<lambda>_. ret ())"

definition providerModelStore_DeleteByProviderID :: "string \<Rightarrow> unit m" where
  "providerModelStore_DeleteByProviderID pid =
     bindE (db_delete models_tbl (\<lambda>p. pm_ProviderID p = pid)) (\<lambda>_. ret ())"

subsection \<open>System LLM configurations\<close>

definition llm_config_dflt :: "llm_config \<Rightarrow> llm_config" where
  "llm_config_dflt r = r\<lparr>lc_Enabled := True\<rparr>"

definition systemLLMConfigStore_List :: "llm_config list m" where
  "systemLLMConfigStore_List = bindE (db_find llm_configs_tbl (\<lambda>_. True)) (\<lambda>rs. ret (sort_key lc_Purpose rs))"

definition systemLLMConfigStore_Upsert :: "env \<Rightarrow> llm_config \<Rightarrow> llm_config m" where
  "systemLLMConfigStore_Upsert E data =
     bindE (attempt (db_first llm_configs_tbl (\<lambda>c. lc_Purpose c = lc_Purpose data))) (\<lambda>found.
     case found of
       Inr existing \<Rightarrow> db_save llm_configs_tbl (existing\<lparr>obj_Name := obj_Name data, lc_ProviderID := lc_ProviderID data,
          lc_ModelID := lc_ModelID data, lc_Model := lc_Model data, lc_Enabled := lc_Enabled data\<rparr>)
     | Inl e \<Rightarrow> if e \<noteq> RecordNotFound then throw e
                else db_create E llm_config_dflt llm_configs_tbl data)"

definition systemLLMConfigStore_DeleteByProviderID :: "string \<Rightarrow> unit m" where
  "systemLLMConfigStore_DeleteByProviderID pid =
     bindE (db_delete llm_configs_tbl (\<lambda>c. lc_ProviderID c = pid)) (\<lambda>_. ret ())"

definition systemLLMConfigStore_DeleteByProviderModelID :: "string \<Rightarrow> string \<Rightarrow> unit m" where
  "systemLLMConfigStore_DeleteByProviderModelID pid mid =
     bindE (db_delete llm_configs_tbl (\<lambda>c. lc_ProviderID c = pid \<and> lc_ModelID c = mid)) (\<lambda>_. ret ())"

subsection \<open>Storage backends\<close>

definition backend_columns :: "storage_backend columns" where
  "backend_columns = [(''type'', CText sb_Type), (''root'', CText sb_Root), (''enabled'', CBool sb_Enabled),
     (''readonly'', CBool sb_Readonly), (''quota'', CInt sb_Quota)]"

definition backend_dflt :: "storage_backend \<Rightarrow> storage_backend" where
  "backend_dflt r = r\<lparr>sb_Enabled := True\<rparr>"

definition storageBackendStore_List :: "env \<Rightarrow> backend_list_request \<Rightarrow> (storage_backend list \<times> int) m" where
  "storageBackendStore_List E req = db_page E backend_columns backends_tbl
     (\<lambda>_. ToQuery (e_lower E) (basic_query.truncate req) (\<lambda>p.
        (bl_Type req \<noteq> [] \<longrightarrow> sb_Type p = bl_Type req) \<and>
        (case bl_Enabled req of None \<Rightarrow> True | Some b \<Rightarrow> sb_Enabled p = b)))"

definition storageBackendStore_Get :: "string \<Rightarrow> storage_backend m" where
  "storageBackendStore_Get bid = db_first backends_tbl (\<lambda>b. obj_ID b = bid)"

definition storageBackendStore_Add :: "env \<Rightarrow> storage_backend \<Rightarrow> storage_backend m" where
  "storageBackendStore_Add E data = db_create E backend_dflt backends_tbl data"

definition storageBackendStore_Update :: "storage_backend \<Rightarrow> storage_backend m" where
  "storageBackendStore_Update data = db_save backends_tbl data"

definition storageBackendStore_GetDefaultLocal :: "storage_backend m" where
  "storageBackendStore_GetDefaultLocal =
     db_first_by (\<lambda>b. (obj_CreatedAt b, obj_ID b)) backends_tbl
       (\<lambda>b. sb_Type b = ''local'' \<and> sb_Enabled b \<and> \<not> sb_Readonly b)"

subsection \<open>Assets\<close>

definition asset_columns :: "asset columns" where
  "asset_columns = [(''media_type'', CText as_MediaType), (''mime_type'', CText as_MimeType),
     (''storage_backend_id'', CText as_StorageBackendID), (''object_key'', CText as_ObjectKey), (''size'', CInt as_Size),
     (''checksum'', CText as_Checksum), (''width'', CInt as_Width), (''height'', CInt as_Height),
     (''duration'', CInt as_Duration), (''format'', CText as_Format), (''source_type'', CText as_SourceType),
     (''source_ref'', CText as_SourceRef), (''deleted_at'', CInt as_DeletedAt)]"

definition tagged_assets :: "string list \<Rightarrow> world \<Rightarrow> string set" where
  "tagged_assets names w =
     set (concat (map (\<lambda>l. if \<exists>t \<in> set (w_tags w). obj_ID t = at_TagID l \<and> obj_Name t \<in> set names
                           then [at_AssetID l] else []) (w_asset_tags w)))"

definition asset_filter :: "asset_list_request \<Rightarrow> world \<Rightarrow> asset \<Rightarrow> bool" where
  "asset_filter req w a \<longleftrightarrow>
     (if al_Status req = ''deleted'' \<or> al_Deleted req = Some True then 0 < as_DeletedAt a else as_DeletedAt a = 0) \<and>
     (al_MediaType req \<noteq> [] \<longrightarrow> as_MediaType a = al_MediaType req) \<and>
     (al_MimeType req \<noteq> [] \<longrightarrow> as_MimeType a = al_MimeType req) \<and>
     (al_StorageBackendID req \<noteq> [] \<longrightarrow> as_StorageBackendID a = al_StorageBackendID req) \<and>
     (al_SourceType req \<noteq> [] \<longrightarrow> as_SourceType a = al_SourceType req) \<and>
     (al_Format req \<noteq> [] \<longrightarrow> as_Format a = al_Format req) \<and>
     (0 < al_MinSize req \<longrightarrow> al_MinSize req \<le> as_Size a) \<and> (0 < al_MaxSize req \<longrightarrow> as_Size a \<le> al_MaxSize req) \<and>
     (0 < al_Width req \<longrightarrow> as_Width a = al_Width req) \<and> (0 < al_Height req \<longrightarrow> as_Height a = al_Height req) \<and>
     (0 < al_MinWidth req \<longrightarrow> al_MinWidth req \<le> as_Width a) \<and> (0 < al_MaxWidth req \<longrightarrow> as_Width a \<le> al_MaxWidth req) \<and>
     (0 < al_MinHeight req \<longrightarrow> al_MinHeight req \<le> as_Height a) \<and> (0 < al_MaxHeight req \<longrightarrow> as_Height a \<le> al_MaxHeight req) \<and>
     (0 < al_MinDuration req \<longrightarrow> al_MinDuration req \<le> as_Duration a) \<and>
     (0 < al_MaxDuration req \<longrightarrow> as_Duration a \<le> al_MaxDuration req) \<and>
     (al_Tags req \<noteq> [] \<longrightarrow> obj_ID a \<in> tagged_assets (al_Tags req) w)"

definition platformAssetStore_List :: "env \<Rightarrow> asset_list_request \<Rightarrow> (asset list \<times> int) m" where
  "platformAssetStore_List E req = db_page E asset_columns assets_tbl
     (\<lambda>w. ToQuery (e_lower E) (basic_query.truncate req) (asset_filter req w))"

definition platformAssetStore_Get :: "string \<Rightarrow> asset m" where
  "platformAssetStore_Get aid = db_first assets_tbl (\<lambda>a. obj_ID a = aid)"

definition platformAssetStore_Add :: "env \<Rightarrow> asset \<Rightarrow> asset m" where
  "platformAssetStore_Add E data = db_create E id assets_tbl data"

definition platformAssetStore_Update :: "asset \<Rightarrow> asset m" where
  "platformAssetStore_Update data = db_save assets_tbl data"

definition platformAssetStore_Delete :: "env \<Rightarrow> string \<Rightarrow> unit m" where
  "platformAssetStore_Delete E aid =
     bindE (gets w_now) (\<lambda>now.
     bindE (db_update E assets_tbl (\<lambda>a. obj_ID a = aid \<and> as_DeletedAt a = 0) (\<lambda>a. a\<lparr>as_DeletedAt := UnixMilli now\<rparr>)) (\<lambda>affected.
     check (affected \<noteq> 0) (Errorf ''asset not found with id %v'' [aid])))"

subsection \<open>Thumbnails\<close>

definition thumbnail_dflt :: "thumbnail \<Rightarrow> thumbnail" where
  "thumbnail_dflt r = (if th_Status r = [] then r\<lparr>th_Status := ''pending''\<rparr> else r)"

definition assetThumbnailStore_GetByAsset :: "string \<Rightarrow> thumbnail m" where
  "assetThumbnailStore_GetByAsset aid = db_first thumbnails_tbl (\<lambda>t. th_AssetID t = aid)"

definition assetThumbnailStore_ListByAssetIDs :: "string list \<Rightarrow> thumbnail list m" where
  "assetThumbnailStore_ListByAssetIDs ids =
     (if ids = [] then ret [] else db_find thumbnails_tbl (\<lambda>t. th_AssetID t \<in> set ids))"

definition assetThumbnailStore_Add :: "env \<Rightarrow> thumbnail \<Rightarrow> thumbnail m" where
  "assetThumbnailStore_Add E data = db_create E thumbnail_dflt thumbnails_tbl data"

definition assetThumbnailStore_Update :: "thumbnail \<Rightarrow> thumbnail m" where
  "assetThumbnailStore_Update data = db_save thumbnails_tbl data"

definition assetThumbnailStore_DeleteByAsset :: "string \<Rightarrow> unit m" where
  "assetThumbnailStore_DeleteByAsset aid = bindE (db_delete thumbnails_tbl (\<lambda>t. th_AssetID t = aid)) (\<lambda>_. ret ())"

subsection \<open>Tags\<close>

text \<open>The join of \<open>asset_tags\<close> with \<open>tags\<close>, in the order of the links; \<open>Scan\<close> leaves \<open>Extend\<close> empty.\<close>

definition joined_tags :: "world \<Rightarrow> (asset_tag \<times> tag) list" where
  "joined_tags w = concat (map (\<lambda>l. map (Pair l) (filter (\<lambda>t. obj_ID t = at_TagID l) (w_tags w))) (w_asset_tags w))"

definition tagStore_ListByAssetIDs :: "string list \<Rightarrow> (string \<Rightarrow> tag list) m" where
  "tagStore_ListByAssetIDs ids =
     (if ids = [] then ret (\<lambda>_. [])
      else bindE (stmt (gets (\<lambda>w. filter (\<lambda>(l, t). at_AssetID l \<in> set ids) (joined_tags w)))) (\<lambda>found.
           ret (\<lambda>aid. map (\<lambda>(l, t). t\<lparr>obj_Extend := None\<rparr>) (filter (\<lambda>(l, t). at_AssetID l = aid) found))))"

definition tagStore_GetByName :: "string \<Rightarrow> string \<Rightarrow> tag m" where
  "tagStore_GetByName nm src = db_first tags_tbl (\<lambda>t. obj_Name t = nm \<and> tg_Source t = src)"

definition tag_dflt :: "tag \<Rightarrow> tag" where
  "tag_dflt r = (if tg_Source r = [] then r\<lparr>tg_Source := ''user''\<rparr> else r)"

definition tagStore_FirstOrCreate :: "env \<Rightarrow> tag \<Rightarrow> tag m" where
  "tagStore_FirstOrCreate E data =
     bindE (attempt (db_first tags_tbl (\<lambda>t. obj_Name t = obj_Name data \<and> tg_Source t = tg_Source data))) (\<lambda>found.
     case found of Inr item \<Rightarrow> ret item
     | Inl e \<Rightarrow> if e \<noteq> RecordNotFound then throw e else db_create E tag_dflt tags_tbl data)"

definition new_asset_tag :: asset_tag where
  "new_asset_tag = object_meta.extend new_meta (asset_tag.fields [] [] [])"

definition asset_tag_dflt :: "asset_tag \<Rightarrow> asset_tag" where
  "asset_tag_dflt r = (if at_Source r = [] then r\<lparr>at_Source := ''user''\<rparr> else r)"

definition assetTagStore_Replace :: "env \<Rightarrow> string \<Rightarrow> tag list \<Rightarrow> string \<Rightarrow> unit m" where
  "assetTagStore_Replace E aid tags src = transaction
     (bindE (db_delete asset_tags_tbl (\<lambda>l. at_AssetID l = aid \<and> at_Source l = src)) (\<lambda>_.
      for_each tags (\<lambda>t. bindE (db_create E asset_tag_dflt asset_tags_tbl
        (new_asset_tag\<lparr>obj_Name := ''asset-tag'', at_AssetID := aid, at_TagID := obj_ID t, at_Source := src\<rparr>)) (\<lambda>_. ret ()))))"

definition assetTagStore_ListTagNames :: "string \<Rightarrow> string list m" where
  "assetTagStore_ListTagNames aid =
     stmt (gets (\<lambda>w. map (\<lambda>(l, t). obj_Name t) (filter (\<lambda>(l, t). at_AssetID l = aid) (joined_tags w))))"

definition assetTagStore_DeleteByAsset :: "string \<Rightarrow> unit m" where
  "assetTagStore_DeleteByAsset aid = bindE (db_delete asset_tags_tbl (\<lambda>l. at_AssetID l = aid)) (\<lambda>_. ret ())"

subsection \<open>Groups and relations\<close>

definition group_dflt :: "asset_group \<Rightarrow> asset_group" where
  "group_dflt r = (if ag_Type r = [] then r\<lparr>ag_Type := ''collection''\<rparr> else r)"

definition assetGroupStore_Add :: "env \<Rightarrow> asset_group \<Rightarrow> asset_group m" where
  "assetGroupStore_Add E data = db_create E group_dflt groups_tbl data"

function batches :: "nat \<Rightarrow> 'a list \<Rightarrow> 'a list list" where
  "batches n xs = (if xs = [] \<or> n = 0 then [] else take n xs # batches n (drop n xs))"
  by pat_completeness auto
termination
  by (relation "measure (\<lambda>(n, xs). length xs)") auto

declare batches.simps [simp del]

definition assetGroupMemberStore_BatchAdd :: "env \<Rightarrow> group_member list \<Rightarrow> group_member list m" where
  "assetGroupMemberStore_BatchAdd E members =
     (if members = [] then ret members
      else if length members \<le> 100 then db_create_all E members_tbl members
      else transaction (bindE (map_each (batches 100 members) (db_create_all E members_tbl)) (\<lambda>bs. ret (concat bs))))"

definition assetGroupMemberStore_DeleteByAsset :: "string \<Rightarrow> unit m" where
  "assetGroupMemberStore_DeleteByAsset aid = bindE (db_delete members_tbl (\<lambda>g. gm_AssetID g = aid)) (\<lambda>_. ret ())"

definition assetRelationStore_Add :: "env \<Rightarrow> asset_relation \<Rightarrow> asset_relation m" where
  "assetRelationStore_Add E data = db_create E id relations_tbl data"

definition assetRelationStore_DeleteByAsset :: "string \<Rightarrow> unit m" where
  "assetRelationStore_DeleteByAsset aid =
     bindE (db_delete relations_tbl (\<lambda>r. ar_SourceAssetID r = aid \<or> ar_TargetAssetID r = aid)) (\<lambda>_. ret ())"

subsection \<open>Feature flags and permissions\<close>

definition flag_dflt :: "feature_flag \<Rightarrow> feature_flag" where
  "flag_dflt r = r\<lparr>ff_Enabled := True\<rparr>"

definition featureFlagStore_List :: "feature_flag list m" where
  "featureFlagStore_List = bindE (db_find flags_tbl (\<lambda>_. True)) (\<lambda>rs. ret (sort_key ff_Key rs))"

definition featureFlagStore_Upsert :: "env \<Rightarrow> feature_flag \<Rightarrow> feature_flag m" where
  "featureFlagStore_Upsert E data =
     bindE (attempt (db_first flags_tbl (\<lambda>c. ff_Key c = ff_Key data))) (\<lambda>found.
     case found of
       Inr existing \<Rightarrow> db_save flags_tbl (existing\<lparr>obj_Name := obj_Name data, ff_Enabled := ff_Enabled data\<rparr>)
     | Inl e \<Rightarrow> if e \<noteq> RecordNotFound then throw e
                else db_create E flag_dflt flags_tbl data)"

definition permissionStore_List :: "permission list m" where
  "permissionStore_List = db_find permissions_tbl (\<lambda>_. True)"

subsection \<open>The helpers under faults\<close>

context table_lens
begin

lemma CheckExists_cases:
  obtains (fault) fs where "CheckExists t P w = (Inr False, w\<lparr>w_faults := fs, w_tx := map_option (\<lambda>_. False) (w_tx w)\<rparr>)"
  | (checked) fs where "CheckExists t P w = (Inr (\<exists>r \<in> set (rows t w). P r), w\<lparr>w_faults := fs\<rparr>)"
proof (cases rule: count_cases[of P w])
  case (fault fs)
  then show ?thesis using that(1)[of fs] by (simp add: CheckExists_def bindE_def attempt_def)
next
  case (counted fs)
  have "0 < length (filter P (rows t w)) \<longleftrightarrow> (\<exists>r \<in> set (rows t w). P r)"
    by (auto simp: filter_empty_conv simp flip: neq_Nil_conv length_greater_0_conv)
  then show ?thesis using counted that(2)[of fs] by (simp add: CheckExists_def bindE_def attempt_def)
qed

lemma GetByName_cases:
  obtains (fault) fs b where "GetByName t nm w = (Inr (b, None), w\<lparr>w_faults := fs, w_tx := map_option (\<lambda>_. False) (w_tx w)\<rparr>)"
  | (absent) fs where "GetByName t nm w = (Inr (False, None), w\<lparr>w_faults := fs\<rparr>)" "\<forall>r \<in> set (rows t w). obj_Name r \<noteq> nm"
  | (found) fs r where "GetByName t nm w = (Inr (True, Some r), w\<lparr>w_faults := fs\<rparr>)" "r \<in> set (rows t w)" "obj_Name r = nm"
proof (cases rule: count_cases[of "\<lambda>r. obj_Name r = nm" w])
  case (fault fs)
  then show ?thesis using that(1)[where fs = fs and b = False] by (simp add: GetByName_def bindE_def attempt_def)
next
  case (counted fs)
  let ?w = "w\<lparr>w_faults := fs\<rparr>"
  show ?thesis
  proof (cases rule: first_cases[of obj_ID "\<lambda>r. obj_Name r = nm" ?w])
    case (fault fs')
    then show ?thesis using counted that(1)[where fs = fs']
      by (simp add: GetByName_def bindE_def attempt_def db_first_def)
  next
    case (absent fs')
    then have "filter (\<lambda>r. obj_Name r = nm) (rows t w) = []" by (simp add: filter_empty_conv)
    then show ?thesis using counted absent that(2)[of fs']
      by (simp add: GetByName_def bindE_def attempt_def db_first_def)
  next
    case (found fs' r)
    then have "filter (\<lambda>r. obj_Name r = nm) (rows t w) \<noteq> []" by (auto simp: filter_empty_conv)
    then show ?thesis using counted found that(3)[where fs = fs' and r = r]
      by (simp add: GetByName_def bindE_def attempt_def db_first_def)
  qed
qed

text \<open>
  A row that is created only when no row passes a test: in the transaction a failed test cannot be committed, so
  the row is new indeed.
\<close>

lemma unique_create_preserves:
  assumes I: "plain I"
    and step: "\<And>w x. I w \<Longrightarrow> \<forall>r \<in> set (rows t w). \<not> P r \<Longrightarrow> obj_ID x \<notin> set (map obj_ID (rows t w)) \<Longrightarrow>
      x = dflt (BeforeCreate (e_uuid E (w_uuids w)) (w_now w) data) \<Longrightarrow> I (upd_rows t (\<lambda>rs. rs @ [x]) w)"
  shows "preserves I (transaction (bindE (CheckExists t P) (\<lambda>found. if found then throw e else db_create E dflt t data)))"
proof (rule triple_preserves, rule transaction_open_triple[OF I I], rule triple_bindE)
  let ?J = "\<lambda>found w. w_tx w \<noteq> Some False \<longrightarrow> I w \<and> (\<not> found \<longrightarrow> (\<forall>r \<in> set (rows t w). \<not> P r))"
  show "triple (\<lambda>w. I w \<and> w_tx w = Some True) (CheckExists t P) ?J (\<lambda>_. True)"
  proof (rule tripleI)
    fix w found w' assume "I w \<and> w_tx w = Some True" and run: "CheckExists t P w = (Inr found, w')"
    then show "?J found w'"
      by (cases rule: CheckExists_cases[of P w]) (use plain_upd(1,4)[OF I, of w] in auto)
  qed simp
  show "triple (?J found) (if found then throw e else db_create E dflt t data) (\<lambda>_. I) (\<lambda>_. True)" for found
  proof (rule tripleI)
    fix w x w' assume J: "?J found w" and run: "(if found then throw e else db_create E dflt t data) w = (Inr x, w')"
    then have nf: "\<not> found" and create: "db_create E dflt t data w = (Inr x, w')" by (auto split: if_splits)
    from create show "I w'"
      by (rule create_result) (use J nf step in \<open>auto simp: upd_uuids plain_upd[OF I]\<close>)
  qed simp
qed

end

lemma distinct_map_replace:
  assumes d: "distinct (map f xs)" and ids: "distinct (map obj_ID xs)"
    and new: "\<And>x. x \<in> set xs \<Longrightarrow> obj_ID x \<noteq> i \<Longrightarrow> f x \<noteq> f r"
  shows "distinct (map f (map (\<lambda>x. if obj_ID x = i then r else x) xs))"
  using assms
proof (induction xs)
  case (Cons x xs)
  have IH: "distinct (map f (map (\<lambda>x. if obj_ID x = i then r else x) xs))" using Cons by simp
  show ?case
  proof (cases "obj_ID x = i")
    case True
    have "obj_ID y \<noteq> i" if "y \<in> set xs" for y
      using Cons.prems(2) True that by (metis distinct.simps(2) image_eqI list.set_map list.simps(9))
    then have same: "map (\<lambda>x. if obj_ID x = i then r else x) xs = xs" by (intro map_idI) auto
    have "f r \<notin> f ` set xs" using Cons.prems(3) \<open>\<And>y. y \<in> set xs \<Longrightarrow> obj_ID y \<noteq> i\<close>
      by (metis imageE list.set_intros(2))
    then show ?thesis using True IH unfolding list.map same by simp
  next
    case False
    have "f (if obj_ID y = i then r else y) \<noteq> f x" if "y \<in> set xs" for y
      using Cons.prems(1) Cons.prems(3)[of x] False that by (cases "obj_ID y = i") (auto simp: image_iff)
    then have "f x \<notin> set (map f (map (\<lambda>x. if obj_ID x = i then r else x) xs))" by force
    then show ?thesis using False IH by simp
  qed
qed simp

subsection \<open>Creations of several rows\<close>

lemma concat_batches: "0 < n \<Longrightarrow> concat (batches n xs) = xs"
  by (induction n xs rule: batches.induct) (subst batches.simps, simp)

abbreviation created_as :: "time \<Rightarrow> 'r object_meta_scheme list \<Rightarrow> 'r object_meta_scheme list \<Rightarrow> bool" where
  "created_as now \<equiv> list_all2 (\<lambda>r x. \<exists>u. x = BeforeCreate u now r)"

context table_lens
begin

lemma create_rows_result:
  assumes "create_rows E t rs w = (Inr xs, w')"
  shows "(\<exists>u. w' = (upd_rows t (\<lambda>ys. ys @ xs) w)\<lparr>w_uuids := u\<rparr>) \<and> created_as (w_now w) rs xs \<and>
    (keys_distinct (rows t w) \<longrightarrow> keys_distinct (rows t w @ xs))"
  using assms
proof (induction rs arbitrary: w xs)
  case Nil
  then show ?case by (auto simp: upd_same intro: exI[of _ "w_uuids w"])
next
  case (Cons r rs)
  define x where "x = BeforeCreate (e_uuid E (w_uuids w)) (w_now w) r"
  define u where "u = (if obj_ID r = [] then Suc (w_uuids w) else w_uuids w)"
  define w1 where "w1 = upd_rows t (\<lambda>ys. ys @ [x]) (w\<lparr>w_uuids := u\<rparr>)"
  have eq: "(if obj_ID r = [] then w\<lparr>w_uuids := Suc (w_uuids w)\<rparr> else w) = w\<lparr>w_uuids := u\<rparr>" by (simp add: u_def)
  from Cons.prems have new: "obj_ID x \<notin> set (map obj_ID (rows t w))"
    and rest: "bindE (create_rows E t rs) (\<lambda>rs'. ret (x # rs')) w1 = (Inr xs, w')"
    unfolding create_rows.simps Let_def eq x_def[symmetric] w1_def by (auto split: if_splits)
  from rest obtain ys where run: "create_rows E t rs w1 = (Inr ys, w')" and xs: "xs = x # ys"
    by (auto elim!: bindE_Inr_elim)
  have w1: "rows t w1 = rows t w @ [x]" "w_now w1 = w_now w" by (simp_all add: w1_def)
  from Cons.IH[OF run] obtain v where w': "w' = (upd_rows t (\<lambda>zs. zs @ ys) w1)\<lparr>w_uuids := v\<rparr>"
    and ys: "created_as (w_now w) rs ys" and keys: "keys_distinct (rows t w @ [x]) \<longrightarrow> keys_distinct (rows t w @ xs)"
    by (auto simp: w1 xs)
  have "w' = (upd_rows t (\<lambda>zs. zs @ xs) w)\<lparr>w_uuids := v\<rparr>" unfolding w' w1_def xs by (simp add: upd_uuids)
  moreover have "created_as (w_now w) (r # rs) xs" using ys by (auto simp: xs x_def)
  moreover have "keys_distinct (rows t w) \<longrightarrow> keys_distinct (rows t w @ [x])" using new by (auto simp: keys_distinct_def)
  ultimately show ?case using keys by blast
qed

lemma create_all_result:
  assumes "db_create_all E t rs w = (Inr xs, w')"
  shows "(\<exists>fs u. w' = (upd_rows t (\<lambda>ys. ys @ xs) w)\<lparr>w_faults := fs, w_uuids := u\<rparr>) \<and> created_as (w_now w) rs xs \<and>
    (keys_distinct (rows t w) \<longrightarrow> keys_distinct (rows t w @ xs))"
proof -
  from assms[unfolded db_create_all_def] obtain fs
    where "create_rows E t rs (w\<lparr>w_faults := fs\<rparr>) = (Inr xs, w')"
    by (rule stmt_Inr) (auto simp: rollback_def split: prod.splits sum.splits)
  from create_rows_result[OF this] show ?thesis by (auto simp: upd_faults)
qed

lemma create_each_result:
  assumes "map_each bs (db_create_all E t) w = (Inr xss, w')"
  shows "(\<exists>fs u. w' = (upd_rows t (\<lambda>ys. ys @ concat xss) w)\<lparr>w_faults := fs, w_uuids := u\<rparr>) \<and>
    created_as (w_now w) (concat bs) (concat xss) \<and> (keys_distinct (rows t w) \<longrightarrow> keys_distinct (rows t w @ concat xss))"
  using assms
proof (induction bs arbitrary: w xss)
  case Nil
  then show ?case by (auto simp: upd_same intro!: exI[of _ "w_faults w"] exI[of _ "w_uuids w"])
next
  case (Cons b bs)
  from Cons.prems obtain xs yss w1 where one: "db_create_all E t b w = (Inr xs, w1)"
    and run: "map_each bs (db_create_all E t) w1 = (Inr yss, w')" and xss: "xss = xs # yss"
    by (auto elim!: bindE_Inr_elim)
  from create_all_result[OF one] obtain fs u where w1: "w1 = (upd_rows t (\<lambda>ys. ys @ xs) w)\<lparr>w_faults := fs, w_uuids := u\<rparr>"
    and c1: "created_as (w_now w) b xs" and k1: "keys_distinct (rows t w) \<longrightarrow> keys_distinct (rows t w @ xs)" by blast
  from Cons.IH[OF run] obtain gs v where w': "w' = (upd_rows t (\<lambda>ys. ys @ concat yss) w1)\<lparr>w_faults := gs, w_uuids := v\<rparr>"
    and c2: "created_as (w_now w) (concat bs) (concat yss)"
    and k2: "keys_distinct (rows t w @ xs) \<longrightarrow> keys_distinct ((rows t w @ xs) @ concat yss)" by (auto simp: w1)
  have "w' = (upd_rows t (\<lambda>ys. ys @ concat xss) w)\<lparr>w_faults := gs, w_uuids := v\<rparr>"
    unfolding w' w1 xss by (simp add: upd_faults upd_uuids)
  then show ?case using c1 c2 k1 k2 by (auto simp: xss list_all2_appendI)
qed

end

end
