(* ===== verification/Providers.thy ===== *)
theory Providers
  imports Stores
begin

text \<open>
  Model providers: the provider, provider model and system LLM configuration methods of
  \<open>service/v1/platform/service.go\<close>, the built-in presets with their model rules, and the client of
  the OpenAI-compatible model list (whose HTTP answer is the parameter \<open>e_http\<close>).
\<close>

subsection \<open>Presets\<close>

record provider_api_setting =
  st_Key :: string
  st_Label :: string
  st_Description :: string
  st_Kind :: string
  st_Default :: any

record model_type_rule =
  ru_Contains :: "string list"
  ru_ModelTypes :: "string list"
  ru_GroupName :: string
  ru_EndpointType :: string

record provider_preset =
  pr_Key :: string
  pr_Name :: string
  pr_Type :: string
  pr_BaseURL :: string
  pr_AuthType :: string
  pr_Icon :: string
  pr_APISettingsSchema :: "provider_api_setting list"
  pr_ModelTypeRules :: "model_type_rule list"

definition commonSettings :: "provider_api_setting list" where
  "commonSettings =
    [\<lparr>st_Key = ''array_message_content'', st_Label = (utf8 [230,148,175,230,140,129,230,149,176,231,187,132,230,160,188,229,188,143,231,154,132] @ '' message content''), st_Description = [], st_Kind = ''boolean'', st_Default = ABool True\<rparr>,
     \<lparr>st_Key = ''developer_message'', st_Label = (utf8 [230,148,175,230,140,129] @ '' Developer Message''), st_Description = [], st_Kind = ''boolean'', st_Default = ABool False\<rparr>,
     \<lparr>st_Key = ''stream_options'', st_Label = (utf8 [230,148,175,230,140,129] @ '' stream_options''), st_Description = [], st_Kind = ''boolean'', st_Default = ABool True\<rparr>,
     \<lparr>st_Key = ''service_tier'', st_Label = (utf8 [230,148,175,230,140,129] @ '' service_tier''), st_Description = [], st_Kind = ''boolean'', st_Default = ABool False\<rparr>,
     \<lparr>st_Key = ''enable_thinking'', st_Label = (utf8 [230,148,175,230,140,129] @ '' enable_thinking''), st_Description = [], st_Kind = ''boolean'', st_Default = ABool False\<rparr>,
     \<lparr>st_Key = ''verbosity'', st_Label = (utf8 [230,148,175,230,140,129] @ '' verbosity''), st_Description = [], st_Kind = ''boolean'', st_Default = ABool False\<rparr>]"

definition providerPresets :: "provider_preset list" where
  "providerPresets =
    [\<lparr>pr_Key = ''deepseek'', pr_Name = ''DeepSeek'', pr_Type = [], pr_BaseURL = ''https://api.deepseek.com'',
       pr_AuthType = ''api_key'', pr_Icon = ''d'', pr_APISettingsSchema = commonSettings,
       pr_ModelTypeRules = [\<lparr>ru_Contains = [''reasoner'', ''r1''], ru_ModelTypes = [''reasoning''], ru_GroupName = ''deepseek'', ru_EndpointType = ''chat''\<rparr>]\<rparr>,
     \<lparr>pr_Key = ''qwen'', pr_Name = (utf8 [233,128,154,228,185,137,229,141,131,233,151,174]), pr_Type = ''openai-compatible'', pr_BaseURL = ''https://dashscope.aliyuncs.com/compatible-mode'',
       pr_AuthType = ''api_key'', pr_Icon = ''q'', pr_APISettingsSchema = commonSettings,
       pr_ModelTypeRules = [\<lparr>ru_Contains = [''vl'', ''vision''], ru_ModelTypes = [''vision''], ru_GroupName = ''qwen'', ru_EndpointType = ''chat''\<rparr>,
         \<lparr>ru_Contains = [''qwq'', ''reason'', ''thinking''], ru_ModelTypes = [''reasoning''], ru_GroupName = ''qwen'', ru_EndpointType = ''chat''\<rparr>,
         \<lparr>ru_Contains = [''embedding'', ''embed''], ru_ModelTypes = [''embedding''], ru_GroupName = ''qwen'', ru_EndpointType = ''embeddings''\<rparr>]\<rparr>,
     \<lparr>pr_Key = ''openrouter'', pr_Name = ''OpenRouter'', pr_Type = ''openai-compatible'', pr_BaseURL = ''https://openrouter.ai/api'',
       pr_AuthType = ''api_key'', pr_Icon = ''o'', pr_APISettingsSchema = commonSettings,
       pr_ModelTypeRules = [\<lparr>ru_Contains = [''vision'', ''vl''], ru_ModelTypes = [''vision''], ru_GroupName = ''openrouter'', ru_EndpointType = ''chat''\<rparr>,
         \<lparr>ru_Contains = [''web'', ''search''], ru_ModelTypes = [''web''], ru_GroupName = ''openrouter'', ru_EndpointType = ''chat''\<rparr>,
         \<lparr>ru_Contains = [''tool''], ru_ModelTypes = [''tool''], ru_GroupName = ''openrouter'', ru_EndpointType = ''chat''\<rparr>]\<rparr>,
     \<lparr>pr_Key = ''siliconflow'', pr_Name = (utf8 [231,161,133,229,159,186,230,181,129,229,138,168]), pr_Type = ''openai-compatible'', pr_BaseURL = ''https://api.siliconflow.cn'',
       pr_AuthType = ''api_key'', pr_Icon = ''s'', pr_APISettingsSchema = commonSettings,
       pr_ModelTypeRules = [\<lparr>ru_Contains = [''vl'', ''vision''], ru_ModelTypes = [''vision''], ru_GroupName = ''siliconflow'', ru_EndpointType = ''chat''\<rparr>,
         \<lparr>ru_Contains = [''rerank''], ru_ModelTypes = [''rerank''], ru_GroupName = ''siliconflow'', ru_EndpointType = ''rerank''\<rparr>,
         \<lparr>ru_Contains = [''embedding'', ''embed''], ru_ModelTypes = [''embedding''], ru_GroupName = ''siliconflow'', ru_EndpointType = ''embeddings''\<rparr>]\<rparr>]"

definition providerPresetByKey :: "string \<Rightarrow> provider_preset option" where
  "providerPresetByKey key = find (\<lambda>p. pr_Key p = key) providerPresets"

definition providerPresetConfigDefaults :: "provider_preset \<Rightarrow> gomap" where
  "providerPresetConfigDefaults preset =
     foldl (\<lambda>config s. config(st_Key s \<mapsto> st_Default s)) Map.empty (pr_APISettingsSchema preset)"

definition applyProviderPresetDefaults :: "provider \<Rightarrow> provider" where
  "applyProviderPresetDefaults p =
     (if pv_PresetKey p = [] then p
      else case providerPresetByKey (pv_PresetKey p) of None \<Rightarrow> p | Some preset \<Rightarrow>
        p\<lparr>obj_Name := (if obj_Name p = [] then pr_Name preset else obj_Name p),
          pv_Type := (if pv_Type p = [] then pr_Type preset else pv_Type p),
          pv_BaseURL := (if pv_BaseURL p = [] then pr_BaseURL preset else pv_BaseURL p),
          pv_AuthType := (if pv_AuthType p = [] then pr_AuthType preset else pv_AuthType p),
          pv_Config := (if pv_Config p = None then Some (providerPresetConfigDefaults preset) else pv_Config p)\<rparr>)"

definition ruleMatchesModel :: "(string \<Rightarrow> string) \<Rightarrow> model_type_rule \<Rightarrow> string \<Rightarrow> bool" where
  "ruleMatchesModel uni rule lowerModel \<longleftrightarrow> (\<exists>token \<in> set (ru_Contains rule). Contains lowerModel (ToLower uni token))"

text \<open>The loop body of \<open>applyPresetModelDefaults\<close>: the model and whether it counts as changed.\<close>

definition add_model_type :: "provider_model \<times> bool \<Rightarrow> string \<Rightarrow> provider_model \<times> bool" where
  "add_model_type st ty = (case st of (m, changed) \<Rightarrow>
     if ty \<in> set (pm_ModelTypes m) then (m, changed)
     else (m\<lparr>pm_ModelTypes := pm_ModelTypes m @ [ty]\<rparr>, True))"

definition apply_rule :: "(string \<Rightarrow> string) \<Rightarrow> string \<Rightarrow> string \<Rightarrow> provider_model \<times> bool \<Rightarrow> model_type_rule \<Rightarrow> provider_model \<times> bool" where
  "apply_rule uni pname lowerModel st rule =
     (if \<not> ruleMatchesModel uni rule lowerModel then st
      else let s1 = (if ru_EndpointType rule \<noteq> [] \<and> pm_EndpointType (fst st) = ''chat''
                     then ((fst st)\<lparr>pm_EndpointType := ru_EndpointType rule\<rparr>, True) else st);
               s2 = (if ru_GroupName rule \<noteq> [] \<and> pm_GroupName (fst s1) = pname
                     then ((fst s1)\<lparr>pm_GroupName := ru_GroupName rule\<rparr>, True) else s1)
           in foldl add_model_type s2 (ru_ModelTypes rule))"

definition applyPresetModelDefaults :: "(string \<Rightarrow> string) \<Rightarrow> provider \<Rightarrow> provider_model \<Rightarrow> provider_model \<times> bool" where
  "applyPresetModelDefaults uni p m =
     (let s1 = (if pm_EndpointType m = [] then (m\<lparr>pm_EndpointType := ''chat''\<rparr>, True) else (m, False));
          s2 = (if pm_GroupName (fst s1) = [] then ((fst s1)\<lparr>pm_GroupName := obj_Name p\<rparr>, True) else s1)
      in case providerPresetByKey (pv_PresetKey p) of None \<Rightarrow> s2 | Some preset \<Rightarrow>
           foldl (apply_rule uni (obj_Name p) (ToLower uni (pm_Model (fst s2)))) s2 (pr_ModelTypeRules preset))"

subsection \<open>The client of the model list\<close>

definition openAICompatibleEndpoint :: "string \<Rightarrow> string \<Rightarrow> string" where
  "openAICompatibleEndpoint baseURL path =
     (let base0 = TrimRight1 (TrimSpace baseURL) CHR ''/'';
          base1 = (if base0 = [] then ''https://api.openai.com'' else base0);
          path1 = ''/'' @ TrimLeft1 path CHR ''/''
      in if HasSuffix base1 ''/v1'' then base1 @ path1 else base1 @ ''/v1'' @ path1)"

definition firstProviderAPIKey :: "string \<Rightarrow> string" where
  "firstProviderAPIKey credentialRef =
     (case find (\<lambda>item. TrimSpace item \<noteq> []) (Split CHR '','' (TrimSpace credentialRef)) of
        None \<Rightarrow> [] | Some item \<Rightarrow> TrimSpace item)"

definition fetchOpenAICompatibleModels :: "env \<Rightarrow> provider \<Rightarrow> err + string list" where
  "fetchOpenAICompatibleModels E p =
     (if pv_Type p \<noteq> ''openai-compatible''
      then Inl (Status ErrProviderUnsupported ''provider type %s is unsupported'' [pv_Type p])
      else let endpoint = openAICompatibleEndpoint (pv_BaseURL p) ''/models'';
               apiKey = firstProviderAPIKey (pv_CredentialRef p)
           in case e_http E endpoint (if apiKey = [] then None else Some (''Bearer '' @ apiKey)) of
                HttpError \<Rightarrow> Inl (Status ErrProviderUnavailable [] [])
              | HttpStatus st body \<Rightarrow>
                  if st = 401 \<or> st = 403 then Inl (Status ErrProviderUnauthorized ''provider authentication failed'' [])
                  else if st < 200 \<or> 300 \<le> st
                  then Inl (Status ErrProviderUnavailable ''provider request failed with status %d'' [fmt_d st])
                  else case body of
                      None \<Rightarrow> Inl (Status ErrProviderResponseParseError [] [])
                    | Some ids \<Rightarrow>
                       let models = map TrimSpace (filter (\<lambda>x. TrimSpace x \<noteq> []) ids) in
                       if models = [] then Inl (Status ErrProviderResponseParseError ''provider returned no models'' [])
                       else Inr (sort models))"

definition appendCapability :: "string list \<Rightarrow> string \<Rightarrow> string list" where
  "appendCapability capabilities capability =
     (if capability \<in> set capabilities then capabilities else capabilities @ [capability])"

definition stringSliceEqual :: "string list \<Rightarrow> string list \<Rightarrow> bool" where
  "stringSliceEqual left right \<longleftrightarrow> length left = length right \<and> sort left = sort right"

subsection \<open>Providers\<close>

record provider_create_request =
  pc_Name :: string
  pc_Type :: string
  pc_Enabled :: "bool option"
  pc_BaseURL :: string
  pc_AuthType :: string
  pc_CredentialRef :: string
  pc_PresetKey :: string
  pc_Config :: "gomap option"

record provider_update_request =
  pu_ID :: string
  pu_Name :: "string option"
  pu_Type :: "string option"
  pu_Enabled :: "bool option"
  pu_BaseURL :: "string option"
  pu_AuthType :: "string option"
  pu_CredentialRef :: "string option"

definition new_provider :: provider where
  "new_provider = object_meta.extend new_meta (provider.fields [] False [] [] [] [] None)"

definition ProviderList :: "env \<Rightarrow> provider_list_request \<Rightarrow> (provider list \<times> int) m" where
  "ProviderList E req = providerStore_List E req"

definition ProviderCreate :: "env \<Rightarrow> provider_create_request \<Rightarrow> provider m" where
  "ProviderCreate E req =
     (let p0 = applyProviderPresetDefaults (new_provider\<lparr>pv_Type := pc_Type req, pv_Enabled := False,
            pv_BaseURL := pc_BaseURL req, pv_AuthType := pc_AuthType req, pv_CredentialRef := pc_CredentialRef req,
            pv_PresetKey := pc_PresetKey req, pv_Config := pc_Config req, obj_Name := pc_Name req\<rparr>);
          p1 = (if pv_AuthType p0 = [] \<and> pv_CredentialRef p0 \<noteq> [] then p0\<lparr>pv_AuthType := ''api_key''\<rparr> else p0)
      in providerStore_Add E p1)"

definition ProviderUpdate :: "provider_update_request \<Rightarrow> provider m" where
  "ProviderUpdate req =
     bindE (providerStore_Get (pu_ID req)) (\<lambda>p.
     providerStore_Update (p\<lparr>obj_Name := FallbackIfNil (pu_Name req) (obj_Name p),
       pv_Type := FallbackIfNil (pu_Type req) (pv_Type p),
       pv_Enabled := FallbackIfNil (pu_Enabled req) (pv_Enabled p),
       pv_BaseURL := FallbackIfNil (pu_BaseURL req) (pv_BaseURL p),
       pv_AuthType := FallbackIfNil (pu_AuthType req) (pv_AuthType p),
       pv_CredentialRef := FallbackIfNil (pu_CredentialRef req) (pv_CredentialRef p)\<rparr>))"

definition ProviderDelete :: "string \<Rightarrow> provider m" where
  "ProviderDelete pid =
     bindE (providerStore_Get pid) (\<lambda>p.
     bindE (systemLLMConfigStore_DeleteByProviderID pid) (\<lambda>_.
     bindE (providerModelStore_DeleteByProviderID pid) (\<lambda>_.
     bindE (providerStore_Delete pid) (\<lambda>_. ret p))))"

definition ProviderPresetList :: "provider_preset list m" where
  "ProviderPresetList = ret providerPresets"

definition new_provider_list :: provider_list_request where
  "new_provider_list = basic_query.extend new_query (provider_list_request.fields [] None)"

definition ProviderPresetInstall :: "env \<Rightarrow> string \<Rightarrow> provider m" where
  "ProviderPresetInstall E presetKey =
     (case providerPresetByKey presetKey of
        None \<Rightarrow> throw (Status ErrValidation ''provider preset %s not found'' [presetKey])
      | Some preset \<Rightarrow>
          bindE (providerStore_List E new_provider_list) (\<lambda>(existing, _).
          case find (\<lambda>p. pv_PresetKey p = pr_Key preset) existing of
            Some p \<Rightarrow> providerStore_Update (p\<lparr>obj_Name := pr_Name preset, pv_Type := pr_Type preset,
                pv_BaseURL := pr_BaseURL preset, pv_AuthType := pr_AuthType preset,
                pv_Config := (if pv_Config p = None then Some (providerPresetConfigDefaults preset) else pv_Config p)\<rparr>)
          | None \<Rightarrow> providerStore_Add E (new_provider\<lparr>pv_Type := pr_Type preset, pv_Enabled := False,
                pv_BaseURL := pr_BaseURL preset, pv_AuthType := pr_AuthType preset, pv_PresetKey := pr_Key preset,
                pv_Config := Some (providerPresetConfigDefaults preset), obj_Name := pr_Name preset\<rparr>)))"

definition providerWithOverrides :: "string \<Rightarrow> string \<Rightarrow> string \<Rightarrow> string \<Rightarrow> provider m" where
  "providerWithOverrides pid baseURL authType credentialRef =
     bindE (providerStore_Get pid) (\<lambda>p.
     ret (p\<lparr>pv_BaseURL := FallbackIfEmpty (TrimSpace baseURL) (pv_BaseURL p),
            pv_AuthType := FallbackIfEmpty (TrimSpace authType) (pv_AuthType p),
            pv_CredentialRef := FallbackIfMatch credentialRef (pv_CredentialRef p)
              (\<lambda>c. TrimSpace c \<noteq> [] \<and> c \<noteq> ''configured'')\<rparr>))"

text \<open>The answer of \<open>ProviderTest\<close>: ok, message, latency in milliseconds.\<close>

definition ProviderTest :: "env \<Rightarrow> string \<Rightarrow> string \<Rightarrow> string \<Rightarrow> string \<Rightarrow> (bool \<times> string \<times> int) m" where
  "ProviderTest E pid baseURL authType credentialRef =
     bindE (providerWithOverrides pid baseURL authType credentialRef) (\<lambda>p.
     bindE (gets w_now) (\<lambda>started.
     bindE (lift_sum (fetchOpenAICompatibleModels E p)) (\<lambda>_.
     bindE (gets w_now) (\<lambda>now. ret (True, ''provider connection ok'', (now - started) div 1000000)))))"

subsection \<open>Provider models\<close>

record model_create_request =
  mc_ProviderID :: string
  mc_Name :: string
  mc_Model :: string
  mc_EndpointType :: string
  mc_GroupName :: string
  mc_Capabilities :: "string list"
  mc_ModelTypes :: "string list"
  mc_Enabled :: "bool option"
  mc_DefaultParams :: "gomap option"
  mc_Pricing :: "gomap option"

record model_update_request =
  mu_ID :: string
  mu_Name :: "string option"
  mu_Model :: "string option"
  mu_EndpointType :: "string option"
  mu_GroupName :: "string option"
  mu_Capabilities :: "string list option"
  mu_ModelTypes :: "string list option"
  mu_Enabled :: "bool option"
  mu_DefaultParams :: "gomap option option"
  mu_Pricing :: "gomap option option"

definition new_model :: provider_model where
  "new_model = object_meta.extend new_meta (provider_model.fields [] [] [] [] [] [] False None None)"

definition model_list_of :: "string \<Rightarrow> model_list_request" where
  "model_list_of pid = basic_query.extend new_query (model_list_request.fields pid None [])"

definition ProviderModelList :: "env \<Rightarrow> model_list_request \<Rightarrow> (provider_model list \<times> int) m" where
  "ProviderModelList E req = providerModelStore_List E req"

text \<open>The first objection to a name and a model in the order of the list, if there is one.\<close>

definition model_clash :: "env \<Rightarrow> string \<Rightarrow> string \<Rightarrow> string \<Rightarrow> provider_model \<Rightarrow> err option" where
  "model_clash E nm mdl exceptID item =
     (if obj_ID item = exceptID then None
      else if EqualFold (e_fold E) (TrimSpace (obj_Name item)) nm
      then Some (Status ErrValidation ''provider model name %q already exists'' [nm])
      else if EqualFold (e_fold E) (TrimSpace (pm_Model item)) mdl
      then Some (Status ErrValidation ''provider model %q already exists'' [mdl])
      else None)"

fun first_clash :: "env \<Rightarrow> string \<Rightarrow> string \<Rightarrow> string \<Rightarrow> provider_model list \<Rightarrow> err option" where
  "first_clash E nm mdl exceptID [] = None"
| "first_clash E nm mdl exceptID (item # items) =
     (case model_clash E nm mdl exceptID item of Some e \<Rightarrow> Some e | None \<Rightarrow> first_clash E nm mdl exceptID items)"

definition ensureProviderModelUnique :: "env \<Rightarrow> string \<Rightarrow> string \<Rightarrow> string \<Rightarrow> string \<Rightarrow> unit m" where
  "ensureProviderModelUnique E pid nm mdl exceptID =
     (let nm' = TrimSpace nm; mdl' = TrimSpace mdl in
      if nm' = [] then throw (Status ErrValidation ''provider model name is required'' [])
      else if mdl' = [] then throw (Status ErrValidation ''provider model is required'' [])
      else bindE (providerModelStore_List E (model_list_of pid)) (\<lambda>(models, _).
           case first_clash E nm' mdl' exceptID models of None \<Rightarrow> ret () | Some e \<Rightarrow> throw e))"

definition ProviderModelCreate :: "env \<Rightarrow> model_create_request \<Rightarrow> provider_model m" where
  "ProviderModelCreate E req =
     bindE (ensureProviderModelUnique E (mc_ProviderID req) (mc_Name req) (mc_Model req) []) (\<lambda>_.
     providerModelStore_Add E (new_model\<lparr>pm_ProviderID := mc_ProviderID req, pm_Model := mc_Model req,
       pm_EndpointType := mc_EndpointType req, pm_GroupName := mc_GroupName req,
       pm_Capabilities := mc_Capabilities req, pm_ModelTypes := mc_ModelTypes req,
       pm_Enabled := FallbackIfNil (mc_Enabled req) True, pm_DefaultParams := mc_DefaultParams req,
       pm_Pricing := mc_Pricing req, obj_Name := mc_Name req\<rparr>))"

definition ProviderModelUpdate :: "env \<Rightarrow> model_update_request \<Rightarrow> provider_model m" where
  "ProviderModelUpdate E req =
     bindE (providerModelStore_Get (mu_ID req)) (\<lambda>m.
     let nextName = FallbackIfNil (mu_Name req) (obj_Name m);
         nextModel = FallbackIfNil (mu_Model req) (pm_Model m)
     in bindE (ensureProviderModelUnique E (pm_ProviderID m) nextName nextModel (obj_ID m)) (\<lambda>_.
        providerModelStore_Update (m\<lparr>obj_Name := nextName, pm_Model := nextModel,
          pm_EndpointType := FallbackIfNil (mu_EndpointType req) (pm_EndpointType m),
          pm_GroupName := FallbackIfNil (mu_GroupName req) (pm_GroupName m),
          pm_Capabilities := FallbackIfNil (mu_Capabilities req) (pm_Capabilities m),
          pm_ModelTypes := FallbackIfNil (mu_ModelTypes req) (pm_ModelTypes m),
          pm_Enabled := FallbackIfNil (mu_Enabled req) (pm_Enabled m),
          pm_DefaultParams := FallbackIfNil (mu_DefaultParams req) (pm_DefaultParams m),
          pm_Pricing := FallbackIfNil (mu_Pricing req) (pm_Pricing m)\<rparr>)))"

definition ProviderModelDelete :: "string \<Rightarrow> string \<Rightarrow> provider_model m" where
  "ProviderModelDelete pid mid =
     bindE (providerModelStore_Get mid) (\<lambda>m.
     if pm_ProviderID m \<noteq> pid
     then throw (Status ErrValidation ''provider model %s does not belong to provider %s'' [mid, pid])
     else bindE (systemLLMConfigStore_DeleteByProviderModelID pid mid) (\<lambda>_.
          bindE (providerModelStore_Delete pid mid) (\<lambda>_. ret m)))"

text \<open>The state of the loop of \<open>ProviderModelSync\<close>: the map from remote name to row, and the three counters.\<close>

record sync_state =
  sy_existing :: "string \<Rightarrow> provider_model option"
  sy_created :: int
  sy_updated :: int
  sy_skipped :: int

definition sync_model :: "env \<Rightarrow> provider \<Rightarrow> sync_state \<Rightarrow> string \<Rightarrow> (world, err, sync_state) op" where
  "sync_model E p st remote =
     (if remote = [] then ret st
      else case sy_existing st remote of
        Some existing \<Rightarrow>
          (let nextCaps = appendCapability (pm_Capabilities existing) ''llm.chat'';
               applied = applyPresetModelDefaults (e_lower E) p existing
           in if obj_Name (fst applied) = remote \<and> set (pm_Capabilities (fst applied)) = set nextCaps \<and> \<not> snd applied
              then ret (st\<lparr>sy_skipped := sy_skipped st + 1\<rparr>)
              else bindE (providerModelStore_Update ((fst applied)\<lparr>obj_Name := remote, pm_Capabilities := nextCaps\<rparr>)) (\<lambda>saved.
                   ret (st\<lparr>sy_existing := (sy_existing st)(remote \<mapsto> saved), sy_updated := sy_updated st + 1\<rparr>)))
      | None \<Rightarrow>
          (let m = new_model\<lparr>pm_ProviderID := obj_ID p, pm_Model := remote, pm_Capabilities := [''llm.chat''],
                 pm_Enabled := True, pm_DefaultParams := Some Map.empty, obj_Name := remote\<rparr>
           in bindE (providerModelStore_Add E (fst (applyPresetModelDefaults (e_lower E) p m))) (\<lambda>_.
              ret (st\<lparr>sy_created := sy_created st + 1\<rparr>))))"

definition ProviderModelSync :: "env \<Rightarrow> string \<Rightarrow> (provider_model list \<times> int \<times> int \<times> int) m" where
  "ProviderModelSync E pid =
     bindE (providerStore_Get pid) (\<lambda>p.
     bindE (lift_sum (fetchOpenAICompatibleModels E p)) (\<lambda>remoteModels.
     bindE (ProviderModelList E (model_list_of (obj_ID p))) (\<lambda>(existing, _).
     bindE (fold_each remoteModels
              \<lparr>sy_existing = foldl (\<lambda>f item. f(pm_Model item \<mapsto> item)) Map.empty existing,
                sy_created = 0, sy_updated = 0, sy_skipped = 0\<rparr> (sync_model E p)) (\<lambda>st.
     bindE (ProviderModelList E (model_list_of (obj_ID p))) (\<lambda>(models, _).
     ret (models, sy_created st, sy_updated st, sy_skipped st))))))"

subsection \<open>System LLM configurations\<close>

record llm_config_spec =
  ls_Purpose :: string
  ls_ProviderID :: string
  ls_ModelID :: string
  ls_Model :: string
  ls_Enabled :: "bool option"

definition new_llm_config :: llm_config where
  "new_llm_config = object_meta.extend new_meta (llm_config.fields [] [] [] [] False)"

definition SystemLLMConfigList :: "llm_config list m" where
  "SystemLLMConfigList = systemLLMConfigStore_List"

definition SystemLLMConfigUpsert :: "env \<Rightarrow> llm_config_spec list \<Rightarrow> llm_config list m" where
  "SystemLLMConfigUpsert E specs =
     bindE (for_each specs (\<lambda>spec. bindE (systemLLMConfigStore_Upsert E
        (new_llm_config\<lparr>lc_Purpose := ls_Purpose spec, lc_ProviderID := ls_ProviderID spec,
          lc_ModelID := ls_ModelID spec, lc_Model := ls_Model spec,
          lc_Enabled := FallbackIfNil (ls_Enabled spec) True, obj_Name := ls_Purpose spec\<rparr>)) (\<lambda>_. ret ()))) (\<lambda>_.
     SystemLLMConfigList)"

end
