(* ===== verification/ProviderLaws.thy ===== *)
theory ProviderLaws
  imports Providers
begin

text \<open>
  Properties of \<open>Providers\<close>: unique provider names and identifiers under every schedule of faults,
  deletions that never leave a dangling reference, and what the preset rules do to a model.
\<close>

subsection \<open>Unique names\<close>

definition provider_inv :: "world \<Rightarrow> bool" where
  "provider_inv w \<longleftrightarrow> keys_distinct (w_providers w) \<and> distinct (map obj_Name (w_providers w))"

lemma provider_inv_plain: "plain provider_inv"
  by (rule plainI) (simp add: provider_inv_def)

lemma provider_inv_faults [simp]: "provider_inv (w\<lparr>w_faults := fs\<rparr>) = provider_inv w"
  "provider_inv (w\<lparr>w_tx := tx\<rparr>) = provider_inv w"
  by (simp_all add: provider_inv_def)

lemma Add_provider_inv: "preserves provider_inv (providerStore_Add E p)"
  unfolding providerStore_Add_def
  by (rule providers_t.unique_create_preserves[OF provider_inv_plain]) (auto simp: provider_inv_def keys_distinct_def)

lemma Update_provider_inv: "preserves provider_inv (providerStore_Update p)"
proof (rule preservesI)
  fix w assume w: "provider_inv w"
  let ?w = "w\<lparr>w_tx := Some True\<rparr>"
  let ?body = "bindE (GetByName providers_tbl (obj_Name p)) (\<lambda>(found, row).
      if found \<and> (case row of None \<Rightarrow> [] | Some r \<Rightarrow> obj_ID r) \<noteq> obj_ID p
      then throw (Errorf (''exists provider name '' @ quoted_v @ '' with id '' @ quoted_v) [obj_Name p, obj_ID p])
      else db_replace providers_tbl p)"
  show "provider_inv (snd (providerStore_Update p w))"
    unfolding providerStore_Update_def
  proof (cases rule: transaction_cases[of ?body w])
    case (failed e fs u)
    then show "provider_inv (snd (transaction ?body w))"
      using plain_upd(5)[OF provider_inv_plain w] by simp
  next
    case (committed x w1 fs)
    from committed(1) obtain found row w2 where c: "GetByName providers_tbl (obj_Name p) ?w = (Inr (found, row), w2)"
      and ok: "\<not> (found \<and> (case row of None \<Rightarrow> [] | Some r \<Rightarrow> obj_ID r) \<noteq> obj_ID p)"
      and repl: "db_replace providers_tbl p w2 = (Inr x, w1)"
      by (auto elim!: bindE_Inr_elim split: if_splits prod.splits)
    from repl obtain fs1 where x: "x = BeforeUpdate (w_now w2) p" and live: "w_tx w2 \<noteq> Some False"
      and w1: "w_providers w1 = map (\<lambda>y. if obj_ID y = obj_ID p then x else y) (w_providers w2)"
      by (rule providers_t.replace_result) auto
    have inj: "obj_Name y = obj_Name r \<Longrightarrow> y \<in> set (w_providers w) \<Longrightarrow> r \<in> set (w_providers w) \<Longrightarrow> y = r" for y r
      using w by (metis distinct_map inj_on_def provider_inv_def)
    have others: "w_providers w2 = w_providers w \<and> (\<forall>y \<in> set (w_providers w). obj_ID y \<noteq> obj_ID p \<longrightarrow> obj_Name y \<noteq> obj_Name p)"
    proof (cases rule: providers_t.GetByName_cases[of "obj_Name p" ?w])
      case (fault fs b)
      then show ?thesis using c live by auto
    next
      case (absent fs)
      then show ?thesis using c by auto
    next
      case (found fs r)
      then have "found = True" "row = Some r" "w_providers w2 = w_providers w" using c by auto
      then have same: "obj_ID r = obj_ID p" using ok by simp
      have r: "r \<in> set (w_providers w)" using found(2) by simp
      have "obj_Name y \<noteq> obj_Name p" if y: "y \<in> set (w_providers w)" "obj_ID y \<noteq> obj_ID p" for y
        using inj[OF _ y(1) r] y(2) found(3) same by metis
      then show ?thesis using \<open>w_providers w2 = w_providers w\<close> by blast
    qed
    have ids: "distinct (map obj_ID (w_providers w))" and names: "distinct (map obj_Name (w_providers w))"
      using w by (simp_all add: provider_inv_def keys_distinct_def)
    have "distinct (map obj_Name (w_providers w1))"
      unfolding w1 using others x by (intro distinct_map_replace) (auto simp: ids names)
    moreover have "map obj_ID (w_providers w1) = map obj_ID (w_providers w)"
      unfolding w1 using others by (simp add: x)
    ultimately have "provider_inv w1" using ids by (simp add: provider_inv_def keys_distinct_def)
    then show "provider_inv (snd (transaction ?body w))" using committed(2) by simp
  qed
qed

lemma Delete_provider_inv: "preserves provider_inv (providerStore_Delete pid)"
  unfolding providerStore_Delete_def
  by (intro preserves_bindE providers_t.delete_preserves[OF provider_inv_plain])
    (auto simp: provider_inv_def keys_distinct_filter distinct_map_filter)

lemma Get_provider_inv: "preserves provider_inv (providerStore_Get pid)"
  unfolding providerStore_Get_def db_first_def by (rule providers_t.first_preserves[OF provider_inv_plain])

lemma DeleteConfigs_provider_inv:
  "preserves provider_inv (systemLLMConfigStore_DeleteByProviderID pid)"
  "preserves provider_inv (providerModelStore_DeleteByProviderID pid)"
  unfolding systemLLMConfigStore_DeleteByProviderID_def providerModelStore_DeleteByProviderID_def
  by (intro preserves_bindE llm_configs_t.delete_preserves[OF provider_inv_plain], simp_all add: provider_inv_def,
      intro preserves_bindE models_t.delete_preserves[OF provider_inv_plain], simp_all add: provider_inv_def)

text \<open>
  C9. Provider names and identifiers stay unique: no request that creates, updates, installs or
  deletes a provider breaks their uniqueness, whatever database statements fail. The helpers
  \<open>CheckExists\<close> and \<open>GetByName\<close> ignore the errors of their queries; that is safe because the
  transaction they run in is aborted.
\<close>

theorem provider_names_unique:
  "preserves provider_inv (ProviderCreate E creq) \<and> preserves provider_inv (ProviderUpdate ureq) \<and>
   preserves provider_inv (ProviderPresetInstall E key) \<and> preserves provider_inv (ProviderDelete pid)"
proof (intro conjI)
  show "preserves provider_inv (ProviderCreate E creq)"
    unfolding ProviderCreate_def Let_def by (rule Add_provider_inv)
  show "preserves provider_inv (ProviderUpdate ureq)"
    unfolding ProviderUpdate_def by (intro preserves_bindE Get_provider_inv Update_provider_inv)
  show "preserves provider_inv (ProviderPresetInstall E key)"
    unfolding ProviderPresetInstall_def providerStore_List_def
    by (auto intro!: preserves_bindE providers_t.page_preserves[OF provider_inv_plain] Add_provider_inv Update_provider_inv
        split: option.split)
  show "preserves provider_inv (ProviderDelete pid)"
    unfolding ProviderDelete_def
    by (intro preserves_bindE Get_provider_inv DeleteConfigs_provider_inv Delete_provider_inv preserves_ret)
qed

subsection \<open>No dangling references\<close>

definition refs_ok :: "world \<Rightarrow> bool" where
  "refs_ok w \<longleftrightarrow>
     (\<forall>m \<in> set (w_models w). \<exists>p \<in> set (w_providers w). obj_ID p = pm_ProviderID m) \<and>
     (\<forall>c \<in> set (w_llm_configs w). \<exists>p \<in> set (w_providers w). obj_ID p = lc_ProviderID c) \<and>
     (\<forall>c \<in> set (w_llm_configs w). lc_ModelID c \<noteq> [] \<longrightarrow>
        (\<exists>m \<in> set (w_models w). obj_ID m = lc_ModelID c \<and> pm_ProviderID m = lc_ProviderID c))"

definition no_configs :: "string \<Rightarrow> world \<Rightarrow> bool" where
  "no_configs pid w \<longleftrightarrow> refs_ok w \<and> (\<forall>c \<in> set (w_llm_configs w). lc_ProviderID c \<noteq> pid)"

definition no_models :: "string \<Rightarrow> world \<Rightarrow> bool" where
  "no_models pid w \<longleftrightarrow> no_configs pid w \<and> (\<forall>m \<in> set (w_models w). pm_ProviderID m \<noteq> pid)"

definition no_config_of :: "string \<Rightarrow> string \<Rightarrow> world \<Rightarrow> bool" where
  "no_config_of pid mid w \<longleftrightarrow> refs_ok w \<and> (\<forall>c \<in> set (w_llm_configs w). \<not> (lc_ProviderID c = pid \<and> lc_ModelID c = mid))"

lemma refs_plain: "plain refs_ok" "plain (no_configs pid)" "plain (no_models pid)" "plain (no_config_of pid mid)"
  by (rule plainI; simp add: refs_ok_def no_configs_def no_models_def no_config_of_def)+

definition gone :: "string \<Rightarrow> world \<Rightarrow> bool" where
  "gone pid w \<longleftrightarrow> no_models pid w \<and> (\<forall>p \<in> set (w_providers w). obj_ID p \<noteq> pid)"

lemma ProviderDelete_triple:
  "triple refs_ok (ProviderDelete pid) (\<lambda>_. gone pid) refs_ok"
proof -
  have get: "triple refs_ok (providerStore_Get pid) (\<lambda>_. refs_ok) refs_ok"
    unfolding providerStore_Get_def db_first_def by (rule preserves_triple[OF providers_t.first_preserves[OF refs_plain(1)]])
  have configs: "triple refs_ok (systemLLMConfigStore_DeleteByProviderID pid) (\<lambda>_. no_configs pid) refs_ok"
    unfolding systemLLMConfigStore_DeleteByProviderID_def
    by (rule llm_configs_t.delete_unit_triple[OF refs_plain(1,2)]) (simp_all add: refs_ok_def no_configs_def)
  have drop: "no_models pid (w_models_update (filter (\<lambda>m. pm_ProviderID m \<noteq> pid)) w)" if "no_configs pid w" for w
    using that unfolding no_models_def no_configs_def refs_ok_def by (simp, metis)
  have models: "triple (no_configs pid) (providerModelStore_DeleteByProviderID pid) (\<lambda>_. no_models pid) refs_ok"
    unfolding providerModelStore_DeleteByProviderID_def
    by (rule models_t.delete_unit_triple[OF refs_plain(2,3)]) (simp_all add: drop, simp add: no_configs_def)
  have plain: "plain (gone pid)" by (rule plainI) (simp add: gone_def no_models_def no_configs_def refs_ok_def)
  have drop': "gone pid (w_providers_update (filter (\<lambda>p. obj_ID p \<noteq> pid)) w)" if "no_models pid w" for w
    using that unfolding gone_def no_models_def no_configs_def refs_ok_def by (simp, metis)
  have prov: "triple (no_models pid) (providerStore_Delete pid) (\<lambda>_. gone pid) refs_ok"
    unfolding providerStore_Delete_def
    by (rule providers_t.delete_unit_triple[OF refs_plain(3) plain]) (simp_all add: drop', simp add: no_models_def no_configs_def)
  show ?thesis
    unfolding ProviderDelete_def
    by (intro triple_bindE[OF get] triple_bindE[OF configs] triple_bindE[OF models] triple_bindE[OF prov] triple_ret)
qed

lemma ProviderModelDelete_triple: "triple refs_ok (ProviderModelDelete pid mid) (\<lambda>_. refs_ok) refs_ok"
proof -
  have get: "triple refs_ok (providerModelStore_Get mid) (\<lambda>_. refs_ok) refs_ok"
    unfolding providerModelStore_Get_def db_first_def by (rule preserves_triple[OF models_t.first_preserves[OF refs_plain(1)]])
  have configs: "triple refs_ok (systemLLMConfigStore_DeleteByProviderModelID pid mid) (\<lambda>_. no_config_of pid mid) refs_ok"
    unfolding systemLLMConfigStore_DeleteByProviderModelID_def
    by (rule llm_configs_t.delete_unit_triple[OF refs_plain(1,4)]) (simp_all add: refs_ok_def no_config_of_def)
  have drop: "refs_ok (w_models_update (filter (\<lambda>m. pm_ProviderID m = pid \<longrightarrow> obj_ID m \<noteq> mid)) w)" if "no_config_of pid mid w" for w
    using that unfolding no_config_of_def refs_ok_def by (simp, metis)
  have models: "triple (no_config_of pid mid) (providerModelStore_Delete pid mid) (\<lambda>_. refs_ok) refs_ok"
    unfolding providerModelStore_Delete_def
    by (rule models_t.delete_unit_triple[OF refs_plain(4,1)]) (simp_all add: drop, simp add: no_config_of_def)
  show ?thesis
    unfolding ProviderModelDelete_def
    by (intro triple_bindE[OF get] triple_if triple_throw triple_bindE[OF configs] triple_bindE[OF models] triple_ret)
qed

text \<open>
  C10. Deletions never leave a dangling reference, even when they fail half way: if every model and
  configuration names an existing provider (and every configuration with a model an existing
  model of it), then that still holds after \<open>ProviderDelete\<close> and \<open>ProviderModelDelete\<close>, whichever
  statements fail; and after a successful \<open>ProviderDelete\<close> neither the provider nor any model or
  configuration of it is left.
\<close>

theorem deletion_keeps_references:
  assumes "refs_ok w"
  shows "refs_ok (snd (ProviderDelete pid w)) \<and> refs_ok (snd (ProviderModelDelete pid' mid w)) \<and>
    (case ProviderDelete pid w of (Inl _, _) \<Rightarrow> True | (Inr p, w') \<Rightarrow>
       pid \<notin> obj_ID ` set (w_providers w') \<and> pid \<notin> pm_ProviderID ` set (w_models w') \<and>
       pid \<notin> lc_ProviderID ` set (w_llm_configs w'))"
proof -
  have "triple refs_ok (ProviderDelete pid) (\<lambda>_. refs_ok) refs_ok"
    by (rule triple_mono[OF ProviderDelete_triple]) (simp_all add: gone_def no_models_def no_configs_def)
  from preservesD[OF triple_preserves[OF this] assms] have "refs_ok (snd (ProviderDelete pid w))" .
  moreover have "refs_ok (snd (ProviderModelDelete pid' mid w))"
    using preservesD[OF triple_preserves[OF ProviderModelDelete_triple] assms] .
  moreover have "gone pid w'" if "ProviderDelete pid w = (Inr p, w')" for p w'
    using triple_Inr[OF ProviderDelete_triple assms that] .
  moreover have "pid \<notin> obj_ID ` set (w_providers w') \<and> pid \<notin> pm_ProviderID ` set (w_models w') \<and>
       pid \<notin> lc_ProviderID ` set (w_llm_configs w')" if "gone pid w'" for w'
    using that by (auto simp: gone_def no_models_def no_configs_def)
  ultimately show ?thesis by (simp split: prod.splits sum.splits)
qed

subsection \<open>Preset rules\<close>

text \<open>Nothing is left to do for a rule: its effects on the fields are already there.\<close>

definition rule_done :: "string \<Rightarrow> model_type_rule \<Rightarrow> provider_model \<Rightarrow> bool" where
  "rule_done pname rule m \<longleftrightarrow>
     (ru_EndpointType rule \<noteq> [] \<and> pm_EndpointType m = ''chat'' \<longrightarrow> ru_EndpointType rule = ''chat'') \<and>
     (ru_GroupName rule \<noteq> [] \<and> pm_GroupName m = pname \<longrightarrow> ru_GroupName rule = pname) \<and>
     set (ru_ModelTypes rule) \<subseteq> set (pm_ModelTypes m)"

lemma foldl_types_fields:
  "pm_EndpointType (fst (foldl add_model_type st ts)) = pm_EndpointType (fst st) \<and>
   pm_GroupName (fst (foldl add_model_type st ts)) = pm_GroupName (fst st) \<and>
   pm_Model (fst (foldl add_model_type st ts)) = pm_Model (fst st) \<and>
   set (pm_ModelTypes (fst (foldl add_model_type st ts))) = set (pm_ModelTypes (fst st)) \<union> set ts"
  by (induction ts arbitrary: st) (auto simp: add_model_type_def split: prod.splits)

lemma foldl_types_done: "set ts \<subseteq> set (pm_ModelTypes (fst st)) \<Longrightarrow> foldl add_model_type st ts = st"
  by (induction ts arbitrary: st) (auto simp: add_model_type_def split: prod.splits)

lemma apply_rule_effect:
  assumes "ruleMatchesModel uni rule low"
  shows "rule_done pname rule (fst (apply_rule uni pname low st rule))"
  using assms foldl_types_fields by (auto simp: apply_rule_def rule_done_def Let_def)

lemma apply_rule_keeps: "rule_done pname r (fst st) \<Longrightarrow> rule_done pname r (fst (apply_rule uni pname low st rule))"
  using foldl_types_fields by (auto simp: apply_rule_def rule_done_def Let_def)

lemma apply_rule_done:
  "rule_done pname rule (fst st) \<Longrightarrow> fst (apply_rule uni pname low st rule) = fst st"
  by (auto simp: apply_rule_def rule_done_def Let_def foldl_types_done)

lemma rules_keep: "rule_done pname r (fst st) \<Longrightarrow> rule_done pname r (fst (foldl (apply_rule uni pname low) st rules))"
  by (induction rules arbitrary: st) (simp_all add: apply_rule_keeps)

lemma rules_effect:
  "r \<in> set rules \<Longrightarrow> ruleMatchesModel uni r low \<Longrightarrow> rule_done pname r (fst (foldl (apply_rule uni pname low) st rules))"
proof (induction rules arbitrary: st)
  case (Cons rule rules)
  show ?case
  proof (cases "r = rule")
    case True
    then show ?thesis using rules_keep[OF apply_rule_effect[OF Cons.prems(2)]] by simp
  next
    case False
    then show ?thesis using Cons by simp
  qed
qed simp

lemma apply_rule_skip: "\<not> ruleMatchesModel uni rule low \<Longrightarrow> apply_rule uni pname low st rule = st"
  by (simp add: apply_rule_def)

lemma rules_done:
  "\<forall>r \<in> set rules. ruleMatchesModel uni r low \<longrightarrow> rule_done pname r (fst st) \<Longrightarrow>
   fst (foldl (apply_rule uni pname low) st rules) = fst st"
proof (induction rules arbitrary: st)
  case (Cons rule rules)
  have "fst (apply_rule uni pname low st rule) = fst st"
    using Cons.prems by (cases "ruleMatchesModel uni rule low") (simp_all add: apply_rule_done apply_rule_skip)
  then show ?case using Cons by simp
qed simp

lemma foldl_types_changed: "snd st \<Longrightarrow> snd (foldl add_model_type st ts)"
  by (induction ts arbitrary: st) (auto simp: add_model_type_def split: prod.splits)

lemma apply_rule_changed:
  "snd st \<Longrightarrow> snd (apply_rule uni pname low st rule)"
  "ruleMatchesModel uni rule low \<Longrightarrow> ru_EndpointType rule \<noteq> [] \<Longrightarrow> pm_EndpointType (fst st) = ''chat'' \<Longrightarrow>
   snd (apply_rule uni pname low st rule)"
  by (simp_all add: apply_rule_def Let_def foldl_types_changed)

lemma rules_changed: "snd st \<Longrightarrow> snd (foldl (apply_rule uni pname low) st rules)"
  by (induction rules arbitrary: st) (simp_all add: apply_rule_changed)

lemma rules_flag:
  "\<forall>r \<in> set rules. ruleMatchesModel uni r low \<longrightarrow> rule_done pname r (fst st) \<Longrightarrow> rule \<in> set rules \<Longrightarrow>
   ruleMatchesModel uni rule low \<Longrightarrow> ru_EndpointType rule \<noteq> [] \<Longrightarrow> pm_EndpointType (fst st) = ''chat'' \<Longrightarrow>
   snd (foldl (apply_rule uni pname low) st rules)"
proof (induction rules arbitrary: st)
  case (Cons r rules)
  show ?case
  proof (cases "r = rule")
    case True
    then show ?thesis using Cons.prems rules_changed[OF apply_rule_changed(2)] by simp
  next
    case False
    have "fst (apply_rule uni pname low st r) = fst st"
      using Cons.prems(1) by (cases "ruleMatchesModel uni r low") (simp_all add: apply_rule_done apply_rule_skip)
    then show ?thesis using Cons False by simp
  qed
qed simp

lemma apply_rule_fields:
  "pm_Model (fst (apply_rule uni pname low st rule)) = pm_Model (fst st)"
  "pm_EndpointType (fst st) \<noteq> [] \<Longrightarrow> pm_EndpointType (fst (apply_rule uni pname low st rule)) \<noteq> []"
  "pm_GroupName (fst st) \<noteq> [] \<Longrightarrow> pm_GroupName (fst (apply_rule uni pname low st rule)) \<noteq> []"
  using foldl_types_fields by (auto simp: apply_rule_def Let_def)

lemma rules_fields:
  "pm_Model (fst (foldl (apply_rule uni pname low) st rules)) = pm_Model (fst st)"
  "pm_EndpointType (fst st) \<noteq> [] \<Longrightarrow> pm_EndpointType (fst (foldl (apply_rule uni pname low) st rules)) \<noteq> []"
  "pm_GroupName (fst st) \<noteq> [] \<Longrightarrow> pm_GroupName (fst (foldl (apply_rule uni pname low) st rules)) \<noteq> []"
  by (induction rules arbitrary: st) (simp_all add: apply_rule_fields)

text \<open>What one application leaves: no empty field, the same model, and nothing left to do for any rule.\<close>

lemma preset_applied:
  assumes "obj_Name p \<noteq> []" and "x = fst (applyPresetModelDefaults uni p m)"
  shows "pm_EndpointType x \<noteq> []" "pm_GroupName x \<noteq> []" "pm_Model x = pm_Model m"
    "providerPresetByKey (pv_PresetKey p) = Some preset \<Longrightarrow> r \<in> set (pr_ModelTypeRules preset) \<Longrightarrow>
     ruleMatchesModel uni r (ToLower uni (pm_Model m)) \<Longrightarrow> rule_done (obj_Name p) r x"
proof -
  let ?s1 = "if pm_EndpointType m = [] then (m\<lparr>pm_EndpointType := ''chat''\<rparr>, True) else (m, False)"
  let ?s2 = "if pm_GroupName (fst ?s1) = [] then ((fst ?s1)\<lparr>pm_GroupName := obj_Name p\<rparr>, True) else ?s1"
  have s2: "pm_EndpointType (fst ?s2) \<noteq> []" "pm_GroupName (fst ?s2) \<noteq> []" "pm_Model (fst ?s2) = pm_Model m"
    using assms(1) by auto
  have x: "x = (case providerPresetByKey (pv_PresetKey p) of None \<Rightarrow> fst ?s2 | Some preset \<Rightarrow>
      fst (foldl (apply_rule uni (obj_Name p) (ToLower uni (pm_Model m))) ?s2 (pr_ModelTypeRules preset)))"
    unfolding assms(2) applyPresetModelDefaults_def Let_def s2(3) by (simp only: option.case_distrib[of fst])
  show "pm_EndpointType x \<noteq> []" "pm_GroupName x \<noteq> []" "pm_Model x = pm_Model m"
    unfolding x using rules_fields s2 by (simp_all only: not_False_eq_True split: option.split) blast+
  show "rule_done (obj_Name p) r x" if "providerPresetByKey (pv_PresetKey p) = Some preset"
    "r \<in> set (pr_ModelTypeRules preset)" "ruleMatchesModel uni r (ToLower uni (pm_Model m))"
    unfolding x using rules_effect[OF that(2,3)] that(1) by (simp only: option.case)
qed

lemma apply_again:
  assumes "pm_EndpointType x \<noteq> []" "pm_GroupName x \<noteq> []" "providerPresetByKey (pv_PresetKey p) = Some preset"
  shows "applyPresetModelDefaults uni p x =
    foldl (apply_rule uni (obj_Name p) (ToLower uni (pm_Model x))) (x, False) (pr_ModelTypeRules preset)"
  using assms by (simp add: applyPresetModelDefaults_def Let_def)

text \<open>
  Preset defaults are stable: applying \<open>applyPresetModelDefaults\<close> to a model that it already
  filled in leaves the model as it is, for every provider with a name and every model.
\<close>

theorem preset_defaults_idempotent:
  assumes "obj_Name p \<noteq> []"
  shows "fst (applyPresetModelDefaults uni p (fst (applyPresetModelDefaults uni p m))) = fst (applyPresetModelDefaults uni p m)"
proof -
  define x where "x = fst (applyPresetModelDefaults uni p m)"
  note a = preset_applied[OF assms x_def]
  show ?thesis unfolding x_def[symmetric]
  proof (cases "providerPresetByKey (pv_PresetKey p)")
    case None
    then show "fst (applyPresetModelDefaults uni p x) = x" using a by (simp add: applyPresetModelDefaults_def Let_def)
  next
    case (Some preset)
    show "fst (applyPresetModelDefaults uni p x) = x"
      unfolding apply_again[OF a(1,2) Some] a(3) using rules_done a(4)[OF Some] by fastforce
  qed
qed

text \<open>
  A synchronisation never settles for some models: a model that matches a rule whose endpoint
  type is \<open>chat\<close> and has the endpoint type \<open>chat\<close> itself is reported as changed by
  \<open>applyPresetModelDefaults\<close> every time, although nothing changes, so \<open>ProviderModelSync\<close> saves it
  again and never counts it as skipped.
\<close>

theorem preset_defaults_always_changed:
  assumes "obj_Name p \<noteq> []" and "providerPresetByKey (pv_PresetKey p) = Some preset"
    and "rule \<in> set (pr_ModelTypeRules preset)" and "ru_EndpointType rule = ''chat''"
    and "ruleMatchesModel uni rule (ToLower uni (pm_Model m))"
    and "pm_EndpointType (fst (applyPresetModelDefaults uni p m)) = ''chat''"
  shows "snd (applyPresetModelDefaults uni p (fst (applyPresetModelDefaults uni p m)))"
proof -
  define x where "x = fst (applyPresetModelDefaults uni p m)"
  note a = preset_applied[OF assms(1) x_def]
  show ?thesis
    unfolding x_def[symmetric] apply_again[OF a(1,2) assms(2)] a(3)
    by (rule rules_flag[OF _ assms(3,5)]) (use a(4)[OF assms(2)] assms(4,6) in \<open>auto simp: x_def\<close>)
qed

end
