(* ===== verification/ModelLaws.thy ===== *)
theory ModelLaws
  imports ProviderLaws
begin

text \<open>
  Properties of provider models and system LLM configurations: one configuration per purpose,
  unique names and models, and what a synchronisation with the provider's model list leaves.
\<close>

subsection \<open>One configuration per purpose\<close>

definition configs_inv :: "world \<Rightarrow> bool" where
  "configs_inv w \<longleftrightarrow> keys_distinct (w_llm_configs w) \<and> distinct (map lc_Purpose (w_llm_configs w))"

definition config_for :: "llm_config_spec \<Rightarrow> llm_config \<Rightarrow> bool" where
  "config_for spec c \<longleftrightarrow> lc_Purpose c = ls_Purpose spec \<and> lc_ProviderID c = ls_ProviderID spec \<and>
     lc_ModelID c = ls_ModelID spec \<and> lc_Model c = ls_Model spec"

definition configured :: "llm_config_spec set \<Rightarrow> world \<Rightarrow> bool" where
  "configured D w \<longleftrightarrow> configs_inv w \<and> (\<forall>s \<in> D. \<exists>c \<in> set (w_llm_configs w). config_for s c)"

lemma configured_plain: "plain configs_inv" "plain (configured D)"
  by (rule plainI; simp add: configured_def configs_inv_def)+

lemma configured_save:
  assumes w: "configured D w" and e: "e \<in> set (w_llm_configs w)" and p: "lc_Purpose e = ls_Purpose spec"
    and D: "\<forall>s \<in> D. ls_Purpose s \<noteq> ls_Purpose spec"
    and r: "obj_ID r = obj_ID e" "config_for spec r"
  shows "configured (insert spec D) (w_llm_configs_update (save_row r) w)"
proof -
  let ?cs = "w_llm_configs w"
  have k: "keys_distinct ?cs" and d: "distinct (map lc_Purpose ?cs)"
    using w by (simp_all add: configured_def configs_inv_def)
  have same: "x = e" if "x \<in> set ?cs" "obj_ID x = obj_ID e" for x using keys_distinct_unique[OF k that(1) e that(2)] .
  have "obj_ID r \<in> set (map obj_ID ?cs)" using r(1) e by auto
  then have sv: "save_row r ?cs = map (\<lambda>x. if obj_ID x = obj_ID e then r else x) ?cs"
    using r(1) by (simp only: save_row_def if_True)
  have "lc_Purpose r = lc_Purpose e" using r(2) p by (simp add: config_for_def)
  then have "map lc_Purpose (save_row r ?cs) = map lc_Purpose ?cs"
    unfolding sv using same by (auto simp: comp_def)
  moreover have "\<exists>c \<in> set (save_row r ?cs). config_for s c" if s: "s \<in> D" for s
  proof -
    from w s obtain c where c: "c \<in> set ?cs" "config_for s c" by (auto simp: configured_def)
    then have "obj_ID c \<noteq> obj_ID r" using same[OF c(1)] D s p r(1) by (auto simp: config_for_def)
    then show ?thesis using save_row_other[OF c(1)] c(2) by blast
  qed
  moreover have "\<exists>c \<in> set (save_row r ?cs). config_for spec c" using r(2) save_row_mem by blast
  ultimately show ?thesis
    using save_row_keys[OF k, of r] d by (auto simp: configured_def configs_inv_def)
qed

lemma Upsert_triple:
  assumes D: "\<forall>s \<in> D. ls_Purpose s \<noteq> ls_Purpose spec"
    and data: "config_for spec data" 
  shows "triple (configured D) (systemLLMConfigStore_Upsert E data) (\<lambda>_. configured (insert spec D)) configs_inv"
  unfolding systemLLMConfigStore_Upsert_def db_first_def
proof (rule triple_bindE[OF llm_configs_t.first_attempt_triple[OF configured_plain(2)]], rule triple_case_sum)
  let ?P = "\<lambda>c. lc_Purpose c = lc_Purpose data"
  have inv: "configs_inv w" if "configured X w" for X w using that by (simp add: configured_def)
  have pur: "lc_Purpose data = ls_Purpose spec" using data by (simp add: config_for_def)
  fix r :: "err + llm_config" and e assume r: "r = Inr e"
  let ?new = "e\<lparr>obj_Name := obj_Name data, lc_ProviderID := lc_ProviderID data,
          lc_ModelID := lc_ModelID data, lc_Model := lc_Model data, lc_Enabled := lc_Enabled data\<rparr>"
  show "triple (\<lambda>w. configured D w \<and> (case r of Inr x \<Rightarrow> x \<in> set (fst llm_configs_tbl w) \<and> ?P x
      | Inl e \<Rightarrow> e = RecordNotFound \<longrightarrow> (\<forall>x \<in> set (fst llm_configs_tbl w). \<not> ?P x)))
     (db_save llm_configs_tbl ?new) (\<lambda>_. configured (insert spec D)) configs_inv"
  proof (rule llm_configs_t.save_triple, goal_cases)
    case 1
    then show ?case unfolding r using configured_plain(2)[of D] by (simp add: plain_def)
  next
    case (3 w)
    then show ?case unfolding r using data pur
      by (auto intro!: configured_save[where e = e] D simp: config_for_def BeforeUpdate_def)
  qed (use configured_plain inv in auto)
next
  have inv: "configs_inv w" if "configured X w" for X w using that by (simp add: configured_def)
  let ?P = "\<lambda>c. lc_Purpose c = lc_Purpose data"
  fix r :: "err + llm_config" and e assume r: "r = Inl e"
  let ?I = "\<lambda>w. configured D w \<and> (case r of Inr x \<Rightarrow> x \<in> set (fst llm_configs_tbl w) \<and> ?P x
      | Inl e \<Rightarrow> e = RecordNotFound \<longrightarrow> (\<forall>x \<in> set (fst llm_configs_tbl w). \<not> ?P x))"
  show "triple ?I (if e \<noteq> RecordNotFound then throw e else db_create E llm_config_dflt llm_configs_tbl data)
     (\<lambda>_. configured (insert spec D)) configs_inv"
  proof (rule triple_if, rule triple_throw)
    show "configs_inv w" if "?I w" for w using that inv by blast
    assume "\<not> e \<noteq> RecordNotFound"
    then have e: "e = RecordNotFound" by simp
    show "triple ?I (db_create E llm_config_dflt llm_configs_tbl data) (\<lambda>_. configured (insert spec D)) configs_inv"
    proof (rule llm_configs_t.create_triple, goal_cases)
      case 1
      then show ?case unfolding r e using configured_plain(2)[of D] by (simp add: plain_def)
    next
      case (3 w x)
      then have "config_for spec x" using data by (simp add: config_for_def llm_config_dflt_def BeforeCreate_def)
      moreover have "lc_Purpose x = lc_Purpose data" using 3 by (simp add: llm_config_dflt_def BeforeCreate_def)
      ultimately show ?case using 3 unfolding r e configured_def configs_inv_def
        by (auto simp: keys_distinct_def)
    qed (use configured_plain inv in auto)
  qed
qed

lemma upserts_triple:
  assumes "distinct (map ls_Purpose specs)" and "\<forall>s \<in> D. ls_Purpose s \<notin> ls_Purpose ` set specs"
  shows "triple (configured D) (for_each specs (\<lambda>spec. bindE (systemLLMConfigStore_Upsert E
        (new_llm_config\<lparr>lc_Purpose := ls_Purpose spec, lc_ProviderID := ls_ProviderID spec,
          lc_ModelID := ls_ModelID spec, lc_Model := ls_Model spec,
          lc_Enabled := FallbackIfNil (ls_Enabled spec) True, obj_Name := ls_Purpose spec\<rparr>)) (\<lambda>_. ret ())))
     (\<lambda>_. configured (D \<union> set specs)) configs_inv"
  using assms
proof (induction specs arbitrary: D)
  case Nil
  then show ?case by (simp add: triple_def)
next
  case (Cons spec specs)
  have IH: "triple (configured (insert spec D)) (for_each specs (\<lambda>spec. bindE (systemLLMConfigStore_Upsert E
        (new_llm_config\<lparr>lc_Purpose := ls_Purpose spec, lc_ProviderID := ls_ProviderID spec,
          lc_ModelID := ls_ModelID spec, lc_Model := ls_Model spec,
          lc_Enabled := FallbackIfNil (ls_Enabled spec) True, obj_Name := ls_Purpose spec\<rparr>)) (\<lambda>_. ret ())))
     (\<lambda>_. configured (insert spec D \<union> set specs)) configs_inv"
    by (rule Cons.IH) (use Cons.prems in auto)
  have eq: "D \<union> set (spec # specs) = insert spec D \<union> set specs" by simp
  show ?case unfolding for_each.simps eq
    by (rule triple_bindE[OF triple_bindE[OF Upsert_triple triple_ret] IH])
      (use Cons.prems in \<open>auto simp: config_for_def\<close>)
qed

text \<open>
  Updating the system LLM configurations keeps one row per purpose, whatever statements fail; when it
  succeeds, the answer lists every configuration by purpose, and the ones asked for (each purpose
  once) have the provider and model of the request.
\<close>

theorem llm_config_upsert:
  assumes "configs_inv w" and "distinct (map ls_Purpose specs)"
  shows "configs_inv (snd (SystemLLMConfigUpsert E specs w)) \<and>
    (case SystemLLMConfigUpsert E specs w of (Inl _, _) \<Rightarrow> True | (Inr cs, w') \<Rightarrow>
       set cs = set (w_llm_configs w') \<and> sorted (map lc_Purpose cs) \<and> distinct (map lc_Purpose cs) \<and>
       (\<forall>s \<in> set specs. \<exists>c \<in> set cs. lc_Purpose c = ls_Purpose s \<and> lc_ProviderID c = ls_ProviderID s \<and>
          lc_ModelID c = ls_ModelID s \<and> lc_Model c = ls_Model s))"
proof -
  let ?Q = "\<lambda>cs w. configured (set specs) w \<and> set cs = set (w_llm_configs w) \<and> sorted (map lc_Purpose cs) \<and> distinct (map lc_Purpose cs)"
  have "triple (configured (set specs)) SystemLLMConfigList ?Q configs_inv"
    unfolding SystemLLMConfigList_def systemLLMConfigStore_List_def
  proof (rule triple_bindE)
    show "triple (configured (set specs)) (db_find llm_configs_tbl (\<lambda>_. True))
       (\<lambda>rs w. configured (set specs) w \<and> rs = w_llm_configs w) configs_inv"
    proof (rule tripleI)
      fix w rs w' assume w: "configured (set specs) w" and run: "db_find llm_configs_tbl (\<lambda>_. True) w = (Inr rs, w')"
      from run show "configured (set specs) w' \<and> rs = w_llm_configs w'"
        by (rule llm_configs_t.find_result) (simp add: plain_upd(1)[OF configured_plain(2) w])
    next
      fix w e w' assume w: "configured (set specs) w" and run: "db_find llm_configs_tbl (\<lambda>_. True) w = (Inl e, w')"
      have "preserves (configured (set specs)) (db_find llm_configs_tbl (\<lambda>_. True))"
        by (rule llm_configs_t.find_preserves[OF configured_plain(2)])
      from preservesD[OF this w] show "configs_inv w'" using run by (simp add: configured_def)
    qed
    show "triple (\<lambda>w. configured (set specs) w \<and> rs = w_llm_configs w) (ret (sort_key lc_Purpose rs)) ?Q configs_inv" for rs
      by (rule triple_ret) (auto simp: configured_def configs_inv_def distinct_map)
  qed
  then have up: "triple (configured {}) (SystemLLMConfigUpsert E specs) ?Q configs_inv"
    unfolding SystemLLMConfigUpsert_def by (intro triple_bindE[OF upserts_triple[where D = "{}", simplified] _]) (simp_all add: assms(2))
  have w: "configured {} w" using assms(1) by (simp add: configured_def)
  obtain r w' where run: "SystemLLMConfigUpsert E specs w = (r, w')" by (cases "SystemLLMConfigUpsert E specs w")
  show ?thesis
  proof (cases r)
    case (Inl e)
    then show ?thesis using triple_Inl[OF up w] run by simp
  next
    case (Inr cs)
    then have q: "?Q cs w'" using triple_Inr[OF up w] run by blast
    then have "\<exists>c \<in> set cs. config_for s c" if "s \<in> set specs" for s using that by (auto simp: configured_def)
    then show ?thesis using q run Inr by (auto simp: configured_def config_for_def)
  qed
qed

subsection \<open>Unique models\<close>

definition plain_models :: "string \<Rightarrow> provider_model \<Rightarrow> bool" where
  "plain_models pid m \<longleftrightarrow> pid = [] \<or> pm_ProviderID m = pid"

text \<open>The list that the services ask for: the models of one provider, newest first.\<close>

lemma model_list_result:
  assumes "providerModelStore_List E (model_list_of pid) w = (Inr (items, num), w')"
  obtains fs where "w' = w\<lparr>w_faults := fs\<rparr>"
    "items = desc_sort (column_value (CInt obj_CreatedAt)) (filter (plain_models pid) (w_models w))"
proof -
  have q: "(\<lambda>_. ToQuery (e_lower E) (basic_query.truncate (model_list_of pid)) (\<lambda>p.
        (ml_ProviderID (model_list_of pid) \<noteq> [] \<longrightarrow> pm_ProviderID p = ml_ProviderID (model_list_of pid)) \<and>
        (case ml_Enabled (model_list_of pid) of None \<Rightarrow> True | Some b \<Rightarrow> pm_Enabled p = b) \<and>
        (ml_Capability (model_list_of pid) \<noteq> [] \<longrightarrow>
           sql_like (''%'' @ ml_Capability (model_list_of pid) @ ''%'') (e_json_strings E (pm_Capabilities p)))))
    = (\<lambda>_::world. ToQuery (e_lower E) new_query (plain_models pid))"
    by (auto simp: model_list_of_def plain_models_def basic_query.defs model_list_request.defs fun_eq_iff new_query_def ToQuery_def Let_def)
  from assms show ?thesis
    unfolding providerModelStore_List_def q
    by (rule models_t.page_result) (auto simp: run_plain_query intro: that)
qed

lemma model_list_preserves: "plain I \<Longrightarrow> preserves I (providerModelStore_List E req)"
  unfolding providerModelStore_List_def by (rule models_t.page_preserves)

lemma first_clash_None: "first_clash E nm mdl x items = None \<longleftrightarrow> (\<forall>i \<in> set items. model_clash E nm mdl x i = None)"
  by (induction items) (auto split: option.splits)

lemma unique_result:
  assumes "ensureProviderModelUnique E pid nm mdl x w = (Inr u, w')"
  obtains fs where "w' = w\<lparr>w_faults := fs\<rparr>" "TrimSpace nm \<noteq> []" "TrimSpace mdl \<noteq> []"
    "\<forall>m \<in> set (w_models w). plain_models pid m \<longrightarrow> model_clash E (TrimSpace nm) (TrimSpace mdl) x m = None"
proof -
  from assms have ne: "TrimSpace nm \<noteq> []" "TrimSpace mdl \<noteq> []"
    by (auto simp: ensureProviderModelUnique_def Let_def split: if_splits)
  with assms obtain items num w1 where l: "providerModelStore_List E (model_list_of pid) w = (Inr (items, num), w1)"
    and c: "(case first_clash E (TrimSpace nm) (TrimSpace mdl) x items of None \<Rightarrow> ret () | Some e \<Rightarrow> throw e) w1 = (Inr u, w')"
    by (auto simp: ensureProviderModelUnique_def Let_def elim!: bindE_Inr_elim split: prod.splits)
  from c have none: "first_clash E (TrimSpace nm) (TrimSpace mdl) x items = None" and w1: "w1 = w'"
    by (auto split: option.splits)
  from l show ?thesis
    by (rule model_list_result) (use that ne none w1 in \<open>auto simp: first_clash_None\<close>)
qed

text \<open>
  A model that \<open>ProviderModelCreate\<close> adds is new to its provider: it has a name and a model, and
  no other model of the provider has the same name or the same model, blanks around them and case
  apart. It is appended as the request gives it, except that it is always enabled (the column's default).
\<close>

theorem model_create_unique:
  assumes "ProviderModelCreate E req w = (Inr m, w')"
  shows "TrimSpace (mc_Name req) \<noteq> [] \<and> TrimSpace (mc_Model req) \<noteq> [] \<and>
    w_models w' = w_models w @ [m] \<and> obj_ID m \<notin> obj_ID ` set (w_models w) \<and>
    pm_ProviderID m = mc_ProviderID req \<and> obj_Name m = mc_Name req \<and> pm_Model m = mc_Model req \<and> pm_Enabled m \<and>
    (\<forall>x \<in> set (w_models w). pm_ProviderID x = mc_ProviderID req \<and> obj_ID x \<noteq> [] \<longrightarrow>
       \<not> EqualFold (e_fold E) (TrimSpace (obj_Name x)) (TrimSpace (mc_Name req)) \<and>
       \<not> EqualFold (e_fold E) (TrimSpace (pm_Model x)) (TrimSpace (mc_Model req)))"
proof -
  let ?new = "new_model\<lparr>pm_ProviderID := mc_ProviderID req, pm_Model := mc_Model req,
       pm_EndpointType := mc_EndpointType req, pm_GroupName := mc_GroupName req,
       pm_Capabilities := mc_Capabilities req, pm_ModelTypes := mc_ModelTypes req,
       pm_Enabled := FallbackIfNil (mc_Enabled req) True, pm_DefaultParams := mc_DefaultParams req,
       pm_Pricing := mc_Pricing req, obj_Name := mc_Name req\<rparr>"
  from assms obtain u w1 where un: "ensureProviderModelUnique E (mc_ProviderID req) (mc_Name req) (mc_Model req) [] w = (Inr u, w1)"
    and add: "db_create E model_dflt models_tbl ?new w1 = (Inr m, w')"
    unfolding ProviderModelCreate_def providerModelStore_Add_def by (rule bindE_Inr_elim)
  from un obtain fs where w1: "w_models w1 = w_models w"
    and ne: "TrimSpace (mc_Name req) \<noteq> []" "TrimSpace (mc_Model req) \<noteq> []"
    and clash: "\<forall>x \<in> set (w_models w). plain_models (mc_ProviderID req) x \<longrightarrow>
        model_clash E (TrimSpace (mc_Name req)) (TrimSpace (mc_Model req)) [] x = None"
    by (rule unique_result) auto
  from add obtain v where m: "m = model_dflt (BeforeCreate v (w_now w1) ?new)"
    and fresh: "obj_ID m \<notin> set (map obj_ID (w_models w1))" and w': "w_models w' = w_models w1 @ [m]"
    by (rule models_t.create_result) auto
  have "pm_ProviderID m = mc_ProviderID req \<and> obj_Name m = mc_Name req \<and> pm_Model m = mc_Model req \<and> pm_Enabled m"
    unfolding m by (simp add: model_dflt_def BeforeCreate_def)
  moreover have "\<not> EqualFold (e_fold E) (TrimSpace (obj_Name x)) (TrimSpace (mc_Name req)) \<and>
       \<not> EqualFold (e_fold E) (TrimSpace (pm_Model x)) (TrimSpace (mc_Model req))"
    if "x \<in> set (w_models w)" "pm_ProviderID x = mc_ProviderID req" "obj_ID x \<noteq> []" for x
    using clash that by (auto simp: plain_models_def model_clash_def split: if_splits)
  ultimately show ?thesis using ne fresh w' w1 by auto
qed

subsection \<open>Synchronisation\<close>

definition same_core :: "provider_model \<Rightarrow> provider_model \<Rightarrow> bool" where
  "same_core a b \<longleftrightarrow> obj_ID a = obj_ID b \<and> obj_Name a = obj_Name b \<and> pm_ProviderID a = pm_ProviderID b \<and>
     pm_Model a = pm_Model b \<and> pm_Capabilities a = pm_Capabilities b"

lemma foldl_types_core: "same_core (fst (foldl add_model_type st ts)) (fst st)"
  by (induction ts arbitrary: st) (auto simp: same_core_def add_model_type_def split: prod.splits)

lemma apply_rule_core: "same_core (fst (apply_rule uni pname low st rule)) (fst st)"
  using foldl_types_core[of _ "ru_ModelTypes rule"] by (auto simp: apply_rule_def same_core_def Let_def)

lemma rules_core: "same_core (fst (foldl (apply_rule uni pname low) st rules)) (fst st)"
proof (induction rules arbitrary: st)
  case (Cons r rules)
  then show ?case using apply_rule_core[of uni pname low st r] unfolding foldl.simps same_core_def by metis
qed (simp add: same_core_def)

lemma preset_core: "same_core (fst (applyPresetModelDefaults uni p m)) m"
  using rules_core
  by (auto simp: applyPresetModelDefaults_def Let_def same_core_def split: option.split)

lemma appendCapability_set: "set (appendCapability cs c) = insert c (set cs)"
  by (auto simp: appendCapability_def)

definition synced :: "string \<Rightarrow> string \<Rightarrow> provider_model \<Rightarrow> bool" where
  "synced pid r m \<longleftrightarrow> plain_models pid m \<and> pm_Model m = r \<and> obj_Name m = r \<and> ''llm.chat'' \<in> set (pm_Capabilities m)"

text \<open>What holds of the loop after the models in the first argument.\<close>

definition sync_inv :: "string \<Rightarrow> string list \<Rightarrow> sync_state \<Rightarrow> world \<Rightarrow> bool" where
  "sync_inv pid pre st w \<longleftrightarrow> keys_distinct (w_models w) \<and>
     (\<forall>k m. sy_existing st k = Some m \<longrightarrow> m \<in> set (w_models w) \<and> pm_Model m = k \<and> plain_models pid m) \<and>
     sy_created st + sy_updated st + sy_skipped st = int (length pre) \<and>
     (\<forall>r \<in> set pre. \<exists>m \<in> set (w_models w). synced pid r m)"

lemma sync_inv_plain: "plain (sync_inv pid pre st)"
  by (rule plainI) (simp add: sync_inv_def)

lemma sync_skip:
  assumes "sync_inv pid pre st w" and "sy_existing st r = Some m" and "synced pid r m"
  shows "sync_inv pid (pre @ [r]) (st\<lparr>sy_skipped := sy_skipped st + 1\<rparr>) w"
  using assms by (auto simp: sync_inv_def)

lemma sync_save:
  assumes inv: "sync_inv pid pre st w" and m: "sy_existing st r = Some m"
    and x: "obj_ID x = obj_ID m" "synced pid r x"
  shows "sync_inv pid (pre @ [r]) (st\<lparr>sy_existing := (sy_existing st)(r \<mapsto> x), sy_updated := sy_updated st + 1\<rparr>)
     (w_models_update (save_row x) w)"
proof -
  let ?ms = "w_models w"
  have k: "keys_distinct ?ms" and mem: "m \<in> set ?ms" "pm_Model m = r"
    using inv m by (auto simp: sync_inv_def)
  have same: "y = m" if "y \<in> set ?ms" "obj_ID y = obj_ID x" for y
    using keys_distinct_unique[OF k that(1) mem(1)] that(2) x(1) by simp
  have "y \<in> set (save_row x ?ms)" if y: "y \<in> set ?ms" "pm_Model y \<noteq> r" for y
    using save_row_other[OF y(1)] same[OF y(1)] mem(2) y(2) by blast
  moreover have "pm_Model x = r" "plain_models pid x" using x(2) by (simp_all add: synced_def)
  moreover have "\<exists>y \<in> set (save_row x ?ms). synced pid s y" if s: "s \<in> set pre" for s
  proof (cases "s = r")
    case True
    then show ?thesis using x(2) save_row_mem by blast
  next
    case False
    from inv s obtain y where y: "y \<in> set ?ms" "synced pid s y" by (auto simp: sync_inv_def)
    then have "pm_Model y \<noteq> r" using False by (auto simp: synced_def)
    then show ?thesis using save_row_other[OF y(1)] same[OF y(1)] mem(2) y(2) by blast
  qed
  moreover have "\<exists>y \<in> set (save_row x ?ms). synced pid r y" using x(2) save_row_mem by blast
  ultimately show ?thesis using inv save_row_keys[OF k, of x] by (auto simp: sync_inv_def)
qed

lemma sync_create:
  assumes inv: "sync_inv pid pre st w" and x: "obj_ID x \<notin> set (map obj_ID (w_models w))" "synced pid r x"
  shows "sync_inv pid (pre @ [r]) (st\<lparr>sy_created := sy_created st + 1\<rparr>) (w_models_update (\<lambda>rs. rs @ [x]) (w\<lparr>w_uuids := u\<rparr>))"
  using assms by (auto simp: sync_inv_def keys_distinct_def)

lemma sync_model_triple:
  assumes r: "r \<noteq> []" and p: "obj_ID p = pid"
  shows "triple (sync_inv pid pre st) (sync_model E p st r) (sync_inv pid (pre @ [r])) (\<lambda>_. True)"
proof (cases "sy_existing st r")
  case None
  define new where "new = fst (applyPresetModelDefaults (e_lower E) p (new_model\<lparr>pm_ProviderID := obj_ID p, pm_Model := r,
     pm_Capabilities := [''llm.chat''], pm_Enabled := True, pm_DefaultParams := Some Map.empty, obj_Name := r\<rparr>))"
  have core: "obj_Name new = r" "pm_ProviderID new = pid" "pm_Model new = r" "pm_Capabilities new = [''llm.chat'']"
    using preset_core[of "e_lower E" p] p unfolding new_def same_core_def by simp_all
  let ?Q = "\<lambda>_::provider_model. sync_inv pid (pre @ [r]) (st\<lparr>sy_created := sy_created st + 1\<rparr>)"
  have add: "triple (sync_inv pid pre st) (providerModelStore_Add E new) ?Q (\<lambda>_. True)"
    unfolding providerModelStore_Add_def
  proof (rule models_t.create_triple, goal_cases)
    case (3 w x)
    have "synced pid r x"
      unfolding 3 using core by (simp add: synced_def plain_models_def model_dflt_def BeforeCreate_def)
    then show ?case using sync_create[OF 3(1)] 3(3) by simp
  qed (auto simp: sync_inv_plain)
  show ?thesis
    using r None unfolding sync_model_def
    by (simp add: Let_def flip: new_def) (rule triple_bindE[OF add triple_ret])
next
  case (Some m)
  define a where "a = applyPresetModelDefaults (e_lower E) p m"
  define caps where "caps = appendCapability (pm_Capabilities m) ''llm.chat''"
  let ?new = "(fst a)\<lparr>obj_Name := r, pm_Capabilities := caps\<rparr>"
  have core: "same_core (fst a) m" using preset_core by (simp add: a_def)
  have caps: "''llm.chat'' \<in> set caps" using appendCapability_set by (simp add: caps_def)
  let ?Q = "\<lambda>x w. sync_inv pid (pre @ [r]) (st\<lparr>sy_existing := (sy_existing st)(r \<mapsto> x), sy_updated := sy_updated st + 1\<rparr>) w"
  have known: "plain_models pid m" "pm_Model m = r" if "sync_inv pid pre st w" for w
    using that Some by (auto simp: sync_inv_def)
  have save: "triple (sync_inv pid pre st) (providerModelStore_Update ?new) ?Q (\<lambda>_. True)"
    unfolding providerModelStore_Update_def
  proof (rule models_t.save_triple, goal_cases)
    case (3 w)
    have "synced pid r (BeforeUpdate (w_now w) ?new)"
      using core caps known[OF 3] by (simp add: synced_def plain_models_def same_core_def BeforeUpdate_def)
    then show ?case using sync_save[OF 3 Some] core by (simp add: same_core_def)
  qed (auto simp: sync_inv_plain)
  have skip: "triple (sync_inv pid pre st) (ret (st\<lparr>sy_skipped := sy_skipped st + 1\<rparr>)) (sync_inv pid (pre @ [r])) (\<lambda>_. True)"
    if "obj_Name (fst a) = r" "set (pm_Capabilities (fst a)) = set caps"
  proof (rule triple_ret)
    fix w assume w: "sync_inv pid pre st w"
    have "synced pid r m" using known[OF w] core caps that by (simp add: synced_def same_core_def)
    then show "sync_inv pid (pre @ [r]) (st\<lparr>sy_skipped := sy_skipped st + 1\<rparr>) w" by (rule sync_skip[OF w Some])
  qed
  show ?thesis
    using r Some unfolding sync_model_def
    by (simp add: Let_def flip: a_def caps_def) (intro conjI impI triple_bindE[OF save triple_ret] skip; simp)
qed

lemma foldl_existing:
  "foldl (\<lambda>f item. f(pm_Model item \<mapsto> item)) f0 items k = Some m \<Longrightarrow> (m \<in> set items \<and> pm_Model m = k) \<or> f0 k = Some m"
proof (induction items arbitrary: f0)
  case (Cons i items)
  from Cons.IH[of "f0(pm_Model i \<mapsto> i)"] Cons.prems show ?case by (auto split: if_splits)
qed simp

lemma sort_Nil: "sort xs = [] \<longleftrightarrow> xs = []"
  by (metis length_0_conv length_sort)

lemma fetch_result:
  assumes "fetchOpenAICompatibleModels E p = Inr ids"
  shows "sorted ids \<and> ids \<noteq> [] \<and> (\<forall>r \<in> set ids. r \<noteq> [])"
  using assms
  by (auto simp: fetchOpenAICompatibleModels_def Let_def sort_Nil split: if_splits http_result.splits option.splits)


subsection \<open>Instances\<close>

definition sample_provider :: provider where
  "sample_provider = new_provider\<lparr>obj_ID := ''p1'', obj_Name := ''Qwen'', pv_Type := ''openai-compatible''\<rparr>"

definition sample_model :: provider_model where
  "sample_model = new_model\<lparr>obj_ID := ''m1'', obj_Name := ''old name'', pm_ProviderID := ''p1'', pm_Model := ''qwen-vl-max''\<rparr>"

definition sample_config :: llm_config where
  "sample_config = new_llm_config\<lparr>obj_ID := ''c1'', lc_Purpose := ''tagging'', lc_ProviderID := ''p1'', lc_ModelID := ''m1''\<rparr>"

definition provider_world :: world where
  "provider_world = empty_world\<lparr>w_providers := [sample_provider], w_models := [sample_model], w_llm_configs := [sample_config]\<rparr>"

definition online_env :: env where
  "online_env = sample_env\<lparr>e_http := (\<lambda>_ _. HttpStatus 200 (Some ['' qwen-vl-max'', []]))\<rparr>"

lemmas provider_world_defs = provider_world_def empty_world_def sample_provider_def sample_model_def sample_config_def
  new_provider_def new_model_def new_llm_config_def new_meta_def object_meta.defs provider.defs provider_model.defs llm_config.defs

lemma provider_world_fields: "w_providers provider_world = [sample_provider]" "w_models provider_world = [sample_model]"
  "w_faults provider_world = []" "w_tx provider_world = None" "w_llm_configs provider_world = [sample_config]"
  "obj_ID sample_provider = ''p1''" "pv_PresetKey sample_provider = []" "pm_ProviderID sample_model = ''p1''"
  "pm_Model sample_model = ''qwen-vl-max''" "obj_Name sample_model = ''old name''" "obj_ID sample_model = ''m1''"
  by (simp_all add: provider_world_defs)

lemma preset_none: "providerPresetByKey [] = None"
  by (simp add: providerPresetByKey_def providerPresets_def)

lemma truncate_model_list: "basic_query.truncate (model_list_of pid) = new_query" "ml_ProviderID (model_list_of pid) = pid"
  "ml_Enabled (model_list_of pid) = None" "ml_Capability (model_list_of pid) = []"
  by (simp_all add: model_list_of_def basic_query.defs model_list_request.defs new_query_def)

lemma sample_fetch: "fetchOpenAICompatibleModels online_env sample_provider = Inr [''qwen-vl-max'']"
  by code_simp

lemma sample_sync:
  "\<exists>models w'. ProviderModelSync online_env ''p1'' provider_world = (Inr (models, 0, 1, 0), w')"
  using preset_core[of "e_lower online_env" sample_provider sample_model] unfolding same_core_def
  by (simp add: ProviderModelSync_def bindE_apply providerStore_Get_def db_first_def db_first_by_def ProviderModelList_def providerModelStore_List_def
    truncate_model_list db_page_def run_plain_query sync_model_def sample_fetch
    providerModelStore_Update_def db_save_def Let_def provider_world_fields desc_sort_def)

lemma sample_model_create:
  "case ProviderModelCreate sample_env (model_create_request.make ''p1'' ''Turbo'' ''qwen-turbo'' [] [] [] [] (Some False) None None) provider_world of
     (Inr m, w') \<Rightarrow> obj_ID m = ''uuid-0'' | _ \<Rightarrow> False"
  by code_simp

lemma sample_upsert:
  "case SystemLLMConfigUpsert sample_env [llm_config_spec.make ''chat'' ''p1'' ''m1'' ''x'' None] provider_world of
     (Inr cs, w') \<Rightarrow> map lc_Purpose cs = [''chat'', ''tagging''] | _ \<Rightarrow> False"
  by code_simp

lemma sample_distinct: "keys_distinct (w_models provider_world)" "configs_inv provider_world" "refs_ok provider_world"
  by (simp_all add: provider_world_defs keys_distinct_def configs_inv_def refs_ok_def)

lemma llm_config_upsert_witness:
  "\<exists>cs w'. SystemLLMConfigUpsert sample_env [llm_config_spec.make ''chat'' ''p1'' ''m1'' ''x'' None] provider_world = (Inr cs, w') \<and>
     configs_inv w' \<and> sorted (map lc_Purpose cs) \<and> (\<exists>c \<in> set cs. lc_Purpose c = ''chat'' \<and> lc_Model c = ''x'')"
proof -
  obtain cs w' where run: "SystemLLMConfigUpsert sample_env [llm_config_spec.make ''chat'' ''p1'' ''m1'' ''x'' None] provider_world = (Inr cs, w')"
    using sample_upsert by (auto split: prod.splits sum.splits)
  show ?thesis
    using llm_config_upsert[OF sample_distinct(2), of "[llm_config_spec.make ''chat'' ''p1'' ''m1'' ''x'' None]" sample_env] run
    by (auto simp: llm_config_spec.defs)
qed

lemma model_create_unique_witness:
  "\<exists>m w'. ProviderModelCreate sample_env (model_create_request.make ''p1'' ''Turbo'' ''qwen-turbo'' [] [] [] [] (Some False) None None) provider_world = (Inr m, w') \<and>
     w_models w' = [sample_model, m] \<and> pm_Enabled m \<and> \<not> EqualFold (e_fold sample_env) (TrimSpace ''old name'') (TrimSpace ''Turbo'')"
proof -
  let ?req = "model_create_request.make ''p1'' ''Turbo'' ''qwen-turbo'' [] [] [] [] (Some False) None None"
  obtain m w' where run: "ProviderModelCreate sample_env ?req provider_world = (Inr m, w')"
    using sample_model_create by (auto split: prod.splits sum.splits)
  show ?thesis
    using model_create_unique[OF run] run by (auto simp: provider_world_fields model_create_request.defs)
qed


lemma deletion_keeps_references_witness:
  "refs_ok (snd (ProviderDelete ''p1'' provider_world)) \<and> refs_ok (snd (ProviderModelDelete ''p1'' ''m1'' provider_world))"
  using deletion_keeps_references[OF sample_distinct(3), of "''p1''" "''p1''" "''m1''"] by blast

lemma preset_defaults_idempotent_witness:
  "fst (applyPresetModelDefaults id sample_provider (fst (applyPresetModelDefaults id sample_provider sample_model)))
     = fst (applyPresetModelDefaults id sample_provider sample_model)"
  by (rule preset_defaults_idempotent) (simp add: provider_world_defs)

text \<open>A vision model of the preset \<open>qwen\<close>, which the first rule matches.\<close>

definition qwen_provider :: provider where
  "qwen_provider = sample_provider\<lparr>pv_PresetKey := ''qwen''\<rparr>"

definition qwen_rules :: "model_type_rule list" where
  "qwen_rules = [\<lparr>ru_Contains = [''vl'', ''vision''], ru_ModelTypes = [''vision''], ru_GroupName = ''qwen'', ru_EndpointType = ''chat''\<rparr>,
     \<lparr>ru_Contains = [''qwq'', ''reason'', ''thinking''], ru_ModelTypes = [''reasoning''], ru_GroupName = ''qwen'', ru_EndpointType = ''chat''\<rparr>,
     \<lparr>ru_Contains = [''embedding'', ''embed''], ru_ModelTypes = [''embedding''], ru_GroupName = ''qwen'', ru_EndpointType = ''embeddings''\<rparr>]"

lemma preset_defaults_always_changed_witness:
  "snd (applyPresetModelDefaults (map ascii_lower) qwen_provider
     (fst (applyPresetModelDefaults (map ascii_lower) qwen_provider sample_model)))"
proof -
  obtain preset where p: "providerPresetByKey ''qwen'' = Some preset" and r: "pr_ModelTypeRules preset = qwen_rules"
    by (simp add: providerPresetByKey_def providerPresets_def qwen_rules_def)
  have m: "map (\<lambda>r. ruleMatchesModel (map ascii_lower) r (ToLower (map ascii_lower) ''qwen-vl-max'')) qwen_rules = [True, False, False]"
    by code_simp
  have fields: "pv_PresetKey qwen_provider = ''qwen''" "obj_Name qwen_provider = ''Qwen''" "pm_Model sample_model = ''qwen-vl-max''"
      "pm_EndpointType sample_model = []" "pm_GroupName sample_model = []"
    by (simp_all add: qwen_provider_def sample_provider_def sample_model_def new_model_def new_meta_def object_meta.defs provider_model.defs)
  have e: "pm_EndpointType (fst (applyPresetModelDefaults (map ascii_lower) qwen_provider sample_model)) = ''chat''"
    using m
    by (simp add: applyPresetModelDefaults_def fields p r qwen_rules_def apply_rule_skip) (simp add: apply_rule_def add_model_type_def Let_def)
  show ?thesis
    by (rule preset_defaults_always_changed[of qwen_provider preset "hd qwen_rules", OF _ _ _ _ _ e])
      (use m p r in \<open>simp_all add: fields qwen_rules_def\<close>)
qed

end
