(* ===== verification/Naming.thy ===== *)
theory Naming
  imports Stores GoPath
begin

text \<open>
  The pure functions of \<open>service/v1/platform/service.go\<close>, \<open>worker/processor.go\<close> and
  \<open>apis/iapiserver/request_platform.go\<close> that classify, name and parse: media types from MIME type
  and file name, the first status of a thumbnail, safe object names, names in a zip archive, lists
  in query parameters, and the fallback parser of natural-language queries.
\<close>

subsection \<open>Media types\<close>

definition file_ext :: "(string \<Rightarrow> string) \<Rightarrow> string \<Rightarrow> string" where
  "file_ext uni filename = TrimPrefix (ToLower uni (Ext filename)) ''.''"

definition media_of :: "string \<Rightarrow> string \<Rightarrow> string" where
  "media_of mimeType ext =
     (if HasPrefix mimeType ''image/'' then ''image''
      else if HasPrefix mimeType ''video/'' then ''video''
      else if ext = ''mp4'' \<or> ext = ''webm'' \<or> ext = ''mov'' \<or> ext = ''mkv'' \<or> ext = ''avi'' then ''video''
      else if HasPrefix mimeType ''audio/'' then ''audio''
      else if ext = ''mp3'' \<or> ext = ''wav'' \<or> ext = ''flac'' \<or> ext = ''m4a'' \<or> ext = ''ogg'' then ''audio''
      else if mimeType = ''application/pdf'' \<or> ext = ''pdf'' then ''pdf''
      else if ext = ''json'' then ''json''
      else if ext = ''md'' \<or> ext = ''markdown'' then ''markdown''
      else if HasPrefix mimeType ''text/'' then ''text''
      else ''other'')"

definition mediaTypeFromFile :: "(string \<Rightarrow> string) \<Rightarrow> string \<Rightarrow> string \<Rightarrow> string \<times> string" where
  "mediaTypeFromFile uni mimeType filename =
     (let ext = file_ext uni filename in (media_of mimeType ext, ext))"

text \<open>\<open>mime.ExtensionsByType\<close> is \<open>e_ext_by_type\<close>, empty where it fails or knows no extension.\<close>

definition worker_mediaTypeFromFile :: "env \<Rightarrow> string \<Rightarrow> string \<Rightarrow> string \<times> string" where
  "worker_mediaTypeFromFile E mimeType filename =
     (let ext0 = file_ext (e_lower E) filename;
          parsedExts = e_ext_by_type E mimeType;
          ext = (if ext0 = [] \<and> parsedExts \<noteq> [] then TrimPrefix (hd parsedExts) ''.'' else ext0)
      in (media_of mimeType ext, ext))"

definition thumbnailInitialStatus :: "string \<Rightarrow> string" where
  "thumbnailInitialStatus mediaType =
     (if mediaType = ''image'' \<or> mediaType = ''video'' \<or> mediaType = ''pdf'' then ''pending'' else ''unsupported'')"

subsection \<open>Names\<close>

definition safeObjectName :: "string \<Rightarrow> string \<Rightarrow> string" where
  "safeObjectName name fallback =
     (let name1 = TrimSpace name;
          name2 = (if name1 = [] then fallback else name1);
          name3 = ReplaceAll name2 (CHR 0x00) []
      in if length (runes name3) \<le> 60 then name3 else string_of_runes (take 60 (runes name3)))"

text \<open>The map \<open>used\<close> counts the uses of a name; a name that is absent has the count 0.\<close>

definition zip_base :: "string \<Rightarrow> string" where
  "zip_base name = (let n = Trim1 (ReplaceAll name (CHR 0x5C) ''/'') (CHR ''/'') in if n = [] then ''asset'' else n)"

definition uniqueZipName :: "(string \<Rightarrow> int) \<Rightarrow> string \<Rightarrow> string \<times> (string \<Rightarrow> int)" where
  "uniqueZipName used name =
     (let n = zip_base name;
          used' = used(n := used n + 1);
          ext = Ext n;
          base = TrimSuffix n ext
      in (if used' n = 1 then n else base @ ''-'' @ fmt_d (used' n) @ ext, used'))"

subsection \<open>Lists in query parameters\<close>

text \<open>
  \<open>FieldsFunc\<close> cuts at the separators. Decoding always resumes at their first bytes, which are
  ASCII or begin a sequence of three bytes, so cutting at their encodings is cutting at the runes.
\<close>

definition list_seps :: "string list" where
  "list_seps = [[CHR 0x2C], utf8 [239,188,140], [CHR 0x3B], utf8 [239,188,155], [CHR 0x0A], [CHR 0x09]]"

function fields_at :: "string list \<Rightarrow> string \<Rightarrow> string \<Rightarrow> string list" where
  "fields_at seps acc [] = (if acc = [] then [] else [acc])"
| "fields_at seps acc (c # s) =
     (case strip_first seps (c # s) of
        Some t \<Rightarrow> (if acc = [] then fields_at seps [] t else acc # fields_at seps [] t)
      | None \<Rightarrow> fields_at seps (acc @ [c]) s)"
  by pat_completeness auto
termination
  by (relation "measure (\<lambda>(seps, acc, s). length s)") (auto dest: strip_first_length)

definition splitListValues :: "string list \<Rightarrow> string list" where
  "splitListValues values = concat (map (\<lambda>v. filter (\<lambda>p. p \<noteq> []) (map TrimSpace (fields_at list_seps [] v))) values)"

definition asset_PostBind :: "(string \<Rightarrow> string) \<Rightarrow> asset_list_request \<Rightarrow> asset_list_request" where
  "asset_PostBind uni r = r\<lparr>al_Tags := splitListValues (al_Tags r),
     bq_SearchFields := splitListValues (bq_SearchFields r), al_Status := ToLower uni (TrimSpace (al_Status r))\<rparr>"

subsection \<open>Natural-language queries\<close>

text \<open>
  The size pattern on the runes of the text, leftmost first: two to five digits, blanks, one of
  \<open>x\<close>, U+00D7 and \<open>*\<close>, blanks, two to five digits. No blank and no digit can stand for the
  sign, so the first number is a whole run of digits from the position it starts at and blanks are
  taken whole; the second number takes up to five digits.
\<close>

definition rune_digit :: "nat \<Rightarrow> bool" where
  "rune_digit r \<longleftrightarrow> 48 \<le> r \<and> r \<le> 57"

definition rune_blank :: "nat \<Rightarrow> bool" where
  "rune_blank r \<longleftrightarrow> r \<in> {9, 10, 12, 13, 32}"

definition number_of :: "nat list \<Rightarrow> int" where
  "number_of ds = int (foldl (\<lambda>v d. v * 10 + (d - 48)) 0 ds)"

definition size_here :: "nat list \<Rightarrow> (int \<times> int) option" where
  "size_here rs =
     (let ds = takeWhile rune_digit rs in
      case dropWhile rune_blank (dropWhile rune_digit rs) of
        [] \<Rightarrow> None
      | c # rest \<Rightarrow>
          let es = takeWhile rune_digit (dropWhile rune_blank rest) in
          if 2 \<le> length ds \<and> length ds \<le> 5 \<and> c \<in> {120, 215, 42} \<and> 2 \<le> length es
          then Some (number_of ds, number_of (take 5 es)) else None)"

fun find_size :: "nat list \<Rightarrow> (int \<times> int) option" where
  "find_size [] = None"
| "find_size (r # rs) = (case size_here (r # rs) of Some m \<Rightarrow> Some m | None \<Rightarrow> find_size rs)"

text \<open>The height pattern: one of five numbers followed by \<open>p\<close> or \<open>P\<close>, leftmost first.\<close>

definition heights :: "(string \<times> int) list" where
  "heights = [(''480'', 480), (''720'', 720), (''1080'', 1080), (''1440'', 1440), (''2160'', 2160)]"

fun find_height :: "string \<Rightarrow> int option" where
  "find_height [] = None"
| "find_height (c # s) =
     (case find (\<lambda>(t, _). HasPrefix (c # s) (t @ ''p'') \<or> HasPrefix (c # s) (t @ ''P'')) heights of
        Some (_, h) \<Rightarrow> Some h | None \<Rightarrow> find_height s)"

definition query_media :: "string \<Rightarrow> string \<Rightarrow> string" where
  "query_media text low =
     (let m0 = (if Contains text (utf8 [229,155,190,231,137,135]) \<or> Contains low ''image'' then ''image''
                else if Contains text (utf8 [232,167,134,233,162,145]) \<or> Contains low ''video'' then ''video''
                else if Contains text (utf8 [233,159,179,233,162,145]) \<or> Contains low ''audio'' then ''audio''
                else if Contains low ''pdf'' then ''pdf''
                else if Contains low ''json'' then ''json''
                else if Contains low ''markdown'' \<or> Contains low ''.md'' then ''markdown''
                else []);
          m1 = (if Contains low ''prompt'' \<or> Contains text (utf8 [230,143,144,231,164,186,232,175,141]) then ''prompt'' else m0)
      in if Contains low ''template'' \<or> Contains text (utf8 [230,168,161,230,157,191]) \<or> Contains low ''ideogram4''
         then ''prompt_template'' else m1)"

definition parseNaturalAssetQuery :: "(string \<Rightarrow> string) \<Rightarrow> string \<Rightarrow> asset_list_request" where
  "parseNaturalAssetQuery uni text =
     (let low = ToLower uni text;
          media = query_media text low;
          q1 = new_asset_query\<lparr>al_MediaType := media\<rparr>;
          q2 = (if Contains low ''deleted'' \<or> Contains text (utf8 [229,183,178,229,136,160,233,153,164]) \<or>
                   Contains text (utf8 [229,155,158,230,148,182,231,171,153]) then q1\<lparr>al_Status := ''deleted''\<rparr> else q1);
          q3 = (case find_size (runes text) of None \<Rightarrow> q2 | Some (wd, ht) \<Rightarrow> q2\<lparr>al_Width := wd, al_Height := ht\<rparr>);
          q4 = (case find_height text of None \<Rightarrow> q3
                | Some h \<Rightarrow> if media = ''video'' then q3\<lparr>al_Height := h\<rparr> else q3)
      in q4\<lparr>bq_Keyword := TrimSpace text\<rparr>)"

end
