(* ===== verification/NamingLaws.thy ===== *)
theory NamingLaws
  imports Naming
begin

text \<open>
  Properties of \<open>Naming\<close>: what a safe object name keeps of the name it is given, how zip names
  repeat, the round trip of list parameters, and what the query parser finds in a text.
\<close>

subsection \<open>Safe object names\<close>

lemma byte_0: "byte c = 0 \<longleftrightarrow> c = CHR 0x00"
proof
  assume "byte c = 0"
  then have "char_of (0::nat) = c" using char_of_byte[of c] by simp
  then show "c = CHR 0x00" by (simp add: char_of_def)
qed (simp add: byte_def)

lemma encode_rune_0: "0 \<in> set (encode_rune r) \<Longrightarrow> r = 0"
  by (auto simp: encode_rune_def split: if_splits)

lemma rune_list_0: "0 \<in> set (rune_list bs) \<Longrightarrow> 0 \<in> set bs"
proof (induction bs rule: rune_list.induct)
  case (1 bs)
  show ?case
  proof (cases bs)
    case Nil
    then show ?thesis using 1 by simp
  next
    case (Cons b bs')
    then have "rune_list bs = fst (decode_rune bs) # rune_list (drop (snd (decode_rune bs)) bs)"
      by (subst rune_list.simps) simp
    with 1(2) consider "fst (decode_rune bs) = 0" | "0 \<in> set (rune_list (drop (snd (decode_rune bs)) bs))" by auto
    then show ?thesis
    proof cases
      case 1
      then show ?thesis using decode_small[of b bs'] Cons by auto
    next
      case 2
      then have "0 \<in> set (drop (snd (decode_rune bs)) bs)" using 1(1) Cons by simp
      then show ?thesis by (rule in_set_dropD)
    qed
  qed
qed

lemma ReplaceAll_Nil_filter: "ReplaceAll s c [] = filter (\<lambda>x. x \<noteq> c) s"
  by (induction s) (simp_all add: ReplaceAll_def)

lemma runes_0: "CHR 0x00 \<notin> set s \<Longrightarrow> 0 \<notin> set (runes s)"
  unfolding runes_def using rune_list_0[of "map byte s"] by (auto simp: byte_0)

lemma string_of_runes_0: "0 \<notin> set rs \<Longrightarrow> CHR 0x00 \<notin> set (string_of_runes rs)"
proof
  assume rs: "0 \<notin> set rs" and "CHR 0x00 \<in> set (string_of_runes rs)"
  then obtain r b where r: "r \<in> set rs" "b \<in> set (encode_rune r)" "CHR 0x00 = char_of b"
    by (auto simp: string_of_runes_def)
  have "b < 256" using encode_rune_byte r(2) by blast
  then have "b = byte (CHR 0x00)" using byte_char_of r(3) by simp
  then have "b = 0" by (simp add: byte_def)
  then have "r = 0" using r(2) encode_rune_0 by simp
  then show False using r(1) rs by simp
qed

text \<open>
  A safe object name is the first sixty runes of the name without blanks around it and without
  NUL bytes, and of the fallback where nothing is left of the name; it contains no NUL byte.
\<close>

theorem safeObjectName_functional:
  "runes (safeObjectName name fallback)
     = take 60 (runes (filter (\<lambda>c. c \<noteq> CHR 0x00) (if TrimSpace name = [] then fallback else TrimSpace name))) \<and>
   CHR 0x00 \<notin> set (safeObjectName name fallback)"
proof -
  let ?n = "ReplaceAll (if TrimSpace name = [] then fallback else TrimSpace name) (CHR 0x00) []"
  have no: "CHR 0x00 \<notin> set ?n" by (rule ReplaceAll_removes) simp
  have "\<forall>r \<in> set (take 60 (runes ?n)). scalar r" using runes_scalar by (meson in_set_takeD)
  then have cut: "runes (string_of_runes (take 60 (runes ?n))) = take 60 (runes ?n)" by (rule runes_string_of_runes)
  have "CHR 0x00 \<notin> set (string_of_runes (take 60 (runes ?n)))"
    by (rule string_of_runes_0) (use runes_0[OF no] in \<open>auto dest: in_set_takeD\<close>)
  then show ?thesis
    using no cut unfolding safeObjectName_def Let_def ReplaceAll_Nil_filter by auto
qed

subsection \<open>Names in a zip archive\<close>

fun zip_names :: "(string \<Rightarrow> int) \<Rightarrow> string list \<Rightarrow> string list" where
  "zip_names used [] = []"
| "zip_names used (n # ns) = (case uniqueZipName used n of (z, used') \<Rightarrow> z # zip_names used' ns)"

lemma Ext_suffix: "\<exists>t. p = t @ Ext p"
proof -
  let ?b = "last (Split slash p)" and ?parts = "Split CHR ''.'' (last (Split slash p))"
  have p: "\<exists>t. p = t @ ?b"
  proof -
    have "p = Join (butlast (Split slash p) @ [?b]) ''/''"
      using Join_Split[of slash p] by simp
    then have "p = (if butlast (Split slash p) = [] then [] else Join (butlast (Split slash p)) ''/'' @ ''/'') @ ?b"
      using Join_append[of "butlast (Split slash p)" "[?b]" "''/''"] by (cases "butlast (Split slash p) = []") simp_all
    then show ?thesis by blast
  qed
  have b: "?b = Join (butlast ?parts @ [last ?parts]) ''.''"
    using Join_Split[of "CHR ''.''" ?b] by simp
  show ?thesis
  proof (cases "length ?parts \<le> 1")
    case True
    then show ?thesis by (simp add: Ext_def Let_def)
  next
    case False
    then have "butlast ?parts \<noteq> []" by (simp flip: length_greater_0_conv)
    then have "?b = Join (butlast ?parts) ''.'' @ ''.'' @ last ?parts"
      using b Join_append[of "butlast ?parts" "[last ?parts]" "''.''"] by simp
    then have "?b = Join (butlast ?parts) ''.'' @ Ext p" using False by (simp add: Ext_def Let_def)
    moreover obtain t where "p = t @ ?b" using p by blast
    ultimately have "p = (t @ Join (butlast ?parts) ''.'') @ Ext p" by (metis append.assoc)
    then show ?thesis ..
  qed
qed

lemma zip_split: "TrimSuffix n (Ext n) @ Ext n = n"
  using Ext_suffix[of n] by (metis TrimSuffix_append)

definition zip_nth :: "string \<Rightarrow> int \<Rightarrow> string" where
  "zip_nth n k = (if k = 1 then n else TrimSuffix n (Ext n) @ ''-'' @ fmt_d k @ Ext n)"

lemma zip_nth_inj: "1 \<le> k \<Longrightarrow> 1 \<le> m \<Longrightarrow> zip_nth n k = zip_nth n m \<Longrightarrow> k = m"
proof -
  assume k: "1 \<le> k" and m: "1 \<le> m" and eq: "zip_nth n k = zip_nth n m"
  have one: "False" if "zip_nth n 1 = zip_nth n j" "1 < j" for j
  proof -
    have "length n = length (TrimSuffix n (Ext n)) + length (Ext n)"
      using arg_cong[OF zip_split[of n], of length] by simp
    then show False using arg_cong[OF that(1), of length] that(2) by (simp add: zip_nth_def)
  qed
  show "k = m"
  proof (cases "k = 1 \<or> m = 1")
    case True
    then show ?thesis using one[of m] one[of k] k m eq by fastforce
  next
    case False
    then have "fmt_d k = fmt_d m" using eq by (simp add: zip_nth_def)
    then have "dec_digits (nat k) = dec_digits (nat m)" using k m by (simp add: fmt_d_def)
    then show ?thesis using dec_digits_inj k m by fastforce
  qed
qed

lemma zip_names_replicate:
  "zip_names used (replicate k name) = map (\<lambda>i. zip_nth (zip_base name) (used (zip_base name) + int i)) [1..<Suc k]"
proof (induction k arbitrary: used)
  case (Suc k)
  let ?n = "zip_base name"
  have "uniqueZipName used name = (zip_nth ?n (used ?n + 1), used(?n := used ?n + 1))"
    by (simp add: uniqueZipName_def zip_nth_def Let_def)
  moreover have "zip_names (used(?n := used ?n + 1)) (replicate k name) = map (\<lambda>i. zip_nth ?n (used ?n + int (Suc i))) [1..<Suc k]"
    by (rule trans[OF Suc.IH]) (simp add: add.assoc del: upt_Suc)
  ultimately have "zip_names used (replicate (Suc k) name)
      = zip_nth ?n (used ?n + 1) # map (\<lambda>i. zip_nth ?n (used ?n + int (Suc i))) [1..<Suc k]"
    by (simp del: upt_Suc)
  also have "\<dots> = map (\<lambda>i. zip_nth ?n (used ?n + int i)) (1 # map Suc [1..<Suc k])" by simp
  also have "1 # map Suc [1..<Suc k] = [1..<Suc (Suc k)]" by (simp only: map_Suc_upt upt_conv_Cons)
  finally show ?case .
qed simp

text \<open>
  Files of the same name get different names in the archive, however many there are; but the
  suffixes are not checked against other names, so three files can collide.
\<close>

theorem zip_names_repeat:
  "distinct (zip_names (\<lambda>_. 0) (replicate k name)) \<and>
   zip_names (\<lambda>_. 0) [''a.png'', ''a.png'', ''a-2.png''] = [''a.png'', ''a-2.png'', ''a-2.png'']"
proof
  have "inj_on (\<lambda>i. zip_nth (zip_base name) (int i)) (set [1..<Suc k])"
  proof (rule inj_onI)
    fix x y assume "x \<in> set [1..<Suc k]" "y \<in> set [1..<Suc k]"
      and eq: "zip_nth (zip_base name) (int x) = zip_nth (zip_base name) (int y)"
    then have "1 \<le> int x" "1 \<le> int y" by auto
    from zip_nth_inj[OF this eq] show "x = y" by simp
  qed
  then show "distinct (zip_names (\<lambda>_. 0) (replicate k name))"
    by (simp add: zip_names_replicate distinct_map del: upt_Suc)
  show "zip_names (\<lambda>_. 0) [''a.png'', ''a.png'', ''a-2.png''] = [''a.png'', ''a-2.png'', ''a-2.png'']"
    by code_simp
qed

subsection \<open>Lists in query parameters\<close>

lemma strip_first_None: "strip_first ps s = None \<longleftrightarrow> (\<forall>p \<in> set ps. p \<noteq> [] \<longrightarrow> \<not> HasPrefix s p)"
  by (induction ps) auto

lemma strip_first_prefix: "strip_first ps (s @ t) = None \<Longrightarrow> strip_first ps s = None"
  by (auto simp: strip_first_None HasPrefix_iff)

lemma trim_front_id: "strip_first ps s = None \<Longrightarrow> trim_front ps s = s"
  by (simp add: trim_front.simps)

lemma TrimSpace_part: "\<exists>a b. s = a @ TrimSpace s @ b"
proof -
  let ?t = "trim_front space_encodings s"
  obtain a where a: "s = a @ ?t" using trim_front_suffix by (auto simp: suffix_def)
  obtain b where "rev ?t = b @ trim_front (map rev space_encodings) (rev ?t)"
    using trim_front_suffix by (auto simp: suffix_def)
  then have "?t = TrimSpace s @ rev b" unfolding TrimSpace_def by (metis rev_append rev_rev_ident)
  then show ?thesis using a by metis
qed

lemma TrimSpace_idem [simp]: "TrimSpace (TrimSpace s) = TrimSpace s"
proof -
  let ?t = "trim_front space_encodings s"
  let ?u = "trim_front (map rev space_encodings) (rev ?t)"
  obtain b where b: "rev ?t = b @ ?u" using trim_front_suffix by (auto simp: suffix_def)
  then have "?t = rev ?u @ rev b" by (metis rev_append rev_rev_ident)
  then have "strip_first space_encodings (rev ?u) = None"
    using trim_front_fixed[of space_encodings s] strip_first_prefix by metis
  then have "trim_front space_encodings (rev ?u) = rev ?u" by (rule trim_front_id)
  moreover have "trim_front (map rev space_encodings) ?u = ?u"
    by (rule trim_front_id[OF trim_front_fixed])
  ultimately show ?thesis by (simp add: TrimSpace_def)
qed

definition sep_free :: "string \<Rightarrow> bool" where
  "sep_free q \<longleftrightarrow> (\<forall>i < length q. strip_first list_seps (drop i q) = None)"

lemma sep_free_part: "sep_free (a @ q @ b) \<Longrightarrow> sep_free q"
  unfolding sep_free_def
proof (intro allI impI)
  fix i assume all: "\<forall>i < length (a @ q @ b). strip_first list_seps (drop i (a @ q @ b)) = None" and i: "i < length q"
  have "length a + i < length (a @ q @ b)" using i by simp
  then have "strip_first list_seps (drop (length a + i) (a @ q @ b)) = None" using all by blast
  moreover have "drop (length a + i) (a @ q @ b) = drop i q @ b" using i by simp
  ultimately have "strip_first list_seps (drop i q @ b) = None" by simp
  then show "strip_first list_seps (drop i q) = None" by (rule strip_first_prefix)
qed

lemma fields_sep_free:
  "\<forall>i < length acc. strip_first seps (drop i acc @ s) = None \<Longrightarrow> q \<in> set (fields_at seps acc s) \<Longrightarrow>
   \<forall>i < length q. strip_first seps (drop i q) = None"
proof (induction seps acc s rule: fields_at.induct)
  case (1 seps acc)
  then show ?case by (auto split: if_splits)
next
  case (2 seps acc c s)
  show ?case
  proof (cases "strip_first seps (c # s)")
    case None
    have "\<forall>i < length (acc @ [c]). strip_first seps (drop i (acc @ [c]) @ s) = None"
      using 2(4) None by (auto simp: less_Suc_eq)
    then show ?thesis using 2(1)[OF None] 2(5) None by simp
  next
    case (Some t)
    have "q = acc \<or> q \<in> set (fields_at seps [] t)" using 2(5) Some by (auto split: if_splits)
    then show ?thesis
    proof
      assume "q = acc"
      then show ?thesis using 2(4) by (auto intro: strip_first_prefix)
    next
      assume "q \<in> set (fields_at seps [] t)"
      then show ?thesis using 2(2,3) Some by (cases "acc = []") auto
    qed
  qed
qed

lemma comma_first: "p \<in> set list_seps \<Longrightarrow> CHR '','' \<notin> set (tl p)"
  by (auto simp: list_seps_def utf8_def char_of_def)

lemma seps_not_empty: "[] \<notin> set list_seps"
  by (simp add: list_seps_def utf8_def)

lemma strip_first_before_comma:
  assumes "strip_first list_seps x = None" and "x \<noteq> []"
  shows "strip_first list_seps (x @ CHR '','' # r) = None"
  unfolding strip_first_None
proof (intro ballI impI notI)
  fix p assume p: "p \<in> set list_seps" "p \<noteq> []" and pre: "HasPrefix (x @ CHR '','' # r) p"
  have no: "\<not> HasPrefix x p" using assms(1) p by (simp add: strip_first_None)
  from pre obtain t where t: "x @ CHR '','' # r = p @ t" by (auto simp: HasPrefix_iff)
  then consider u where "x = p @ u" | u where "p = x @ u" "CHR '','' # r = u @ t"
    by (auto simp: append_eq_append_conv2)
  then show False
  proof cases
    case 1
    then show False using no by (simp add: HasPrefix_iff)
  next
    case 2
    then have "u \<noteq> []" using no by (auto simp: HasPrefix_iff)
    then have "CHR '','' \<in> set u" using 2(2) by (cases u) auto
    then have "CHR '','' \<in> set (tl p)" using 2(1) assms(2) by (cases x) auto
    then show False using comma_first[OF p(1)] by simp
  qed
qed

lemma fields_piece:
  "sep_free x \<Longrightarrow> fields_at list_seps acc (x @ CHR '','' # r) =
     (if acc @ x = [] then fields_at list_seps [] r else (acc @ x) # fields_at list_seps [] r)"
proof (induction x arbitrary: acc)
  case Nil
  have "strip_first list_seps (CHR '','' # r) = Some r" by (simp add: list_seps_def HasPrefix_def)
  then show ?case by simp
next
  case (Cons c x)
  have "sep_free x" using Cons.prems sep_free_part[of "[c]" x "[]"] by simp
  moreover have "strip_first list_seps (c # x @ CHR '','' # r) = None"
    using strip_first_before_comma[of "c # x" r] Cons.prems by (force simp: sep_free_def)
  ultimately show ?case using Cons.IH[of "acc @ [c]"] by simp
qed

lemma fields_last: "sep_free x \<Longrightarrow> fields_at list_seps acc x = (if acc @ x = [] then [] else [acc @ x])"
proof (induction x arbitrary: acc)
  case (Cons c x)
  have "sep_free x" using Cons.prems sep_free_part[of "[c]" x "[]"] by simp
  moreover have "strip_first list_seps (c # x) = None" using Cons.prems by (force simp: sep_free_def)
  ultimately show ?case using Cons.IH[of "acc @ [c]"] by simp
qed simp

definition clean_value :: "string \<Rightarrow> bool" where
  "clean_value p \<longleftrightarrow> p \<noteq> [] \<and> TrimSpace p = p \<and> sep_free p"

lemma split_clean: "p \<in> set (splitListValues vs) \<Longrightarrow> clean_value p"
proof -
  assume "p \<in> set (splitListValues vs)"
  then obtain v q where q: "q \<in> set (fields_at list_seps [] v)" "p = TrimSpace q" "p \<noteq> []"
    by (auto simp: splitListValues_def)
  have "sep_free q" unfolding sep_free_def by (rule fields_sep_free[OF _ q(1)]) simp
  moreover obtain a b where "q = a @ p @ b" using TrimSpace_part[of q] q(2) by auto
  ultimately have "sep_free p" using sep_free_part by metis
  then show ?thesis using q by (simp add: clean_value_def)
qed

lemma fields_Join: "\<forall>x \<in> set xs. clean_value x \<Longrightarrow> fields_at list_seps [] (Join xs '','') = xs"
proof (induction xs)
  case (Cons x xs)
  then show ?case
    by (cases xs) (simp_all add: fields_last fields_piece clean_value_def)
qed simp

lemma split_id: "\<forall>x \<in> set xs. clean_value x \<Longrightarrow> splitListValues xs = xs"
proof (induction xs)
  case (Cons x xs)
  then have "fields_at list_seps [] x = [x]" by (simp add: fields_last clean_value_def)
  then show ?case using Cons by (simp add: splitListValues_def clean_value_def)
qed (simp add: splitListValues_def)

lemma split_Join: "\<forall>x \<in> set xs. clean_value x \<Longrightarrow> splitListValues [Join xs '',''] = xs"
proof -
  assume xs: "\<forall>x \<in> set xs. clean_value x"
  then have "filter (\<lambda>p. p \<noteq> []) (map TrimSpace xs) = xs"
    by (induction xs) (simp_all add: clean_value_def)
  then show ?thesis using fields_Join[OF xs] by (simp add: splitListValues_def)
qed

text \<open>
  Splitting a list parameter is stable: the values are not empty, have no blanks around them and no
  separators; splitting them again, one by one or joined by commas, gives the same values.
\<close>

theorem splitListValues_roundtrip:
  "splitListValues (splitListValues vs) = splitListValues vs \<and>
   splitListValues [Join (splitListValues vs) '',''] = splitListValues vs \<and>
   list_all (\<lambda>p. p \<noteq> [] \<and> TrimSpace p = p \<and> CHR '','' \<notin> set p \<and> CHR '';'' \<notin> set p) (splitListValues vs)"
proof (intro conjI)
  have clean: "\<forall>x \<in> set (splitListValues vs). clean_value x" using split_clean by blast
  show "splitListValues (splitListValues vs) = splitListValues vs" by (rule split_id[OF clean])
  show "splitListValues [Join (splitListValues vs) '',''] = splitListValues vs" by (rule split_Join[OF clean])
  have "c \<notin> set p" if p: "clean_value p" and c: "[c] \<in> set list_seps" for c p
  proof
    assume "c \<in> set p"
    then obtain i where i: "i < length p" "p ! i = c" by (auto simp: in_set_conv_nth)
    then have "HasPrefix (drop i p) [c]" by (simp add: HasPrefix_single hd_drop_conv_nth)
    moreover have "strip_first list_seps (drop i p) = None" using p i by (simp add: clean_value_def sep_free_def)
    ultimately show False using c by (auto simp: strip_first_None)
  qed
  moreover have comma: "[CHR '',''] \<in> set list_seps" "[CHR '';''] \<in> set list_seps" by (simp_all add: list_seps_def)
  ultimately have "CHR '','' \<notin> set p \<and> CHR '';'' \<notin> set p" if "clean_value p" for p using that by blast
  then show "list_all (\<lambda>p. p \<noteq> [] \<and> TrimSpace p = p \<and> CHR '','' \<notin> set p \<and> CHR '';'' \<notin> set p) (splitListValues vs)"
    unfolding list_all_iff using clean by (metis clean_value_def)
qed

subsection \<open>Sizes in a query\<close>

lemma number_of_bytes: "number_of (map byte s) = int (digits_value s)"
  by (simp add: number_of_def digits_value_def foldl_map)

lemma dec_digits_length: "n < 10 ^ Suc k \<Longrightarrow> length (dec_digits n) \<le> Suc k"
proof (induction k arbitrary: n)
  case 0
  then show ?case by (simp add: dec_digits.simps[of n])
next
  case (Suc k)
  then have "n div 10 < 10 ^ Suc k" by (simp add: less_mult_imp_div_less)
  then show ?case using Suc.IH[of "n div 10"] by (simp add: dec_digits.simps[of n])
qed

lemma dec_digits_two: "10 \<le> n \<Longrightarrow> 2 \<le> length (dec_digits n)"
  using dec_digits_not_Nil[of "n div 10"] by (cases "dec_digits (n div 10)") (simp_all add: dec_digits.simps[of n])

lemma rune_digit_byte: "rune_digit (byte c) = is_digit c"
  by (simp add: rune_digit_def is_digit_def)

lemma find_size_skip: "\<forall>r \<in> set ps. \<not> rune_digit r \<Longrightarrow> find_size (ps @ rs) = find_size rs"
proof (induction ps)
  case (Cons p ps)
  then have "size_here (p # ps @ rs) = None" by (simp add: size_here_def split: list.split)
  then show ?case using Cons by simp
qed simp

lemma find_size_here:
  assumes a: "10 \<le> a" "a < 100000" and b: "10 \<le> b" "b < 100000"
  shows "find_size (map byte (dec_digits a @ ''x'' @ dec_digits b)) = Some (int a, int b)"
proof -
  let ?a = "map byte (dec_digits a)" and ?b = "map byte (dec_digits b)"
  have da: "\<forall>r \<in> set ?a. rune_digit r" and db: "\<forall>r \<in> set ?b. rune_digit r"
    using dec_digits_digits by (auto simp: rune_digit_byte)
  have len: "2 \<le> length ?a" "length ?a \<le> 5" "2 \<le> length ?b" "length ?b \<le> 5"
    using dec_digits_two dec_digits_length[of _ 4] a b by simp_all
  have x: "byte (CHR ''x'') = 120" by (simp add: byte_def)
  have ta: "takeWhile rune_digit (?a @ 120 # ?b) = ?a" "dropWhile rune_digit (?a @ 120 # ?b) = 120 # ?b"
    using da by (simp_all add: takeWhile_append dropWhile_append rune_digit_def)
  have tw: "takeWhile rune_digit ?b = ?b" using db by (simp only: takeWhile_eq_all_conv)
  have dw: "dropWhile rune_blank ?b = ?b"
    using db by (cases ?b) (auto simp: rune_blank_def rune_digit_def)
  have "dropWhile rune_blank (120 # ?b) = 120 # ?b" by (simp add: rune_blank_def)
  then have "size_here (?a @ 120 # ?b) = Some (int a, int b)"
    using len number_of_bytes[of "dec_digits a"] number_of_bytes[of "dec_digits b"]
    by (simp add: size_here_def Let_def ta tw dw)
  moreover obtain r rs where "?a @ 120 # ?b = r # rs" by (cases "?a @ 120 # ?b") auto
  ultimately show ?thesis using x by simp
qed

text \<open>
  A size in a query is found: for a text that ends in two numbers of two to five digits with an \<open>x\<close>
  between them, and has no other digit, the query asks for that width, and for that height unless
  the text is about videos and names a resolution; the keyword is the text without blanks around it.
\<close>

theorem parse_size:
  assumes "is_ascii p" and "\<forall>c \<in> set p. \<not> is_digit c"
    and "10 \<le> a" "a < 100000" and "10 \<le> b" "b < 100000"
    and q: "q = parseNaturalAssetQuery uni (p @ fmt_d a @ ''x'' @ fmt_d b)"
  shows "al_Width q = a \<and> (al_MediaType q = ''video'' \<or> al_Height q = b) \<and>
    bq_Keyword q = TrimSpace (p @ fmt_d a @ ''x'' @ fmt_d b)"
proof -
  let ?text = "p @ fmt_d a @ ''x'' @ fmt_d b"
  have t: "?text = p @ dec_digits (nat a) @ ''x'' @ dec_digits (nat b)" using assms by (simp add: fmt_d_def)
  have "is_ascii (dec_digits n)" for n
    using dec_digits_digits by (force simp: is_ascii_def is_digit_def)
  then have "is_ascii ?text" unfolding t using assms(1) by (auto simp: is_ascii_def byte_def)
  then have "find_size (runes ?text) = find_size (map byte (dec_digits (nat a) @ ''x'' @ dec_digits (nat b)))"
    unfolding t using assms(2) by (simp add: runes_ascii find_size_skip rune_digit_byte)
  also have "\<dots> = Some (a, b)" using find_size_here[of "nat a" "nat b"] assms by simp
  finally show ?thesis
    unfolding q parseNaturalAssetQuery_def Let_def by (auto split: option.split)
qed

lemma parse_size_witness:
  "al_Width (parseNaturalAssetQuery (map ascii_lower) ''image 1920x1080'') = 1920"
proof -
  have "''image 1920x1080'' = ''image '' @ fmt_d 1920 @ ''x'' @ fmt_d 1080" by code_simp
  moreover have "is_ascii ''image ''" "\<forall>c \<in> set ''image ''. \<not> is_digit c"
    by (simp_all add: is_ascii_def byte_def is_digit_def)
  ultimately show ?thesis
    using parse_size[of "''image ''" 1920 1080 "parseNaturalAssetQuery (map ascii_lower) ''image 1920x1080''" "map ascii_lower"]
    by simp
qed

end
