(* ===== verification/Files.thy ===== *)
theory Files
  imports World GoPath "HOL-Library.AList"
begin

text \<open>
  The calls of packages \<open>os\<close> and \<open>io\<close> that the services make, on the files and directories of the
  world. A file is its path and its bytes, a directory its path and modification time; the root
  always exists. Every call takes the next entry of the fault schedule and fails where it is True.
  A write is the whole copy of one source: one that fails has written nothing.
\<close>

subsection \<open>Paths\<close>

definition Dir :: "string \<Rightarrow> string" where
  "Dir p = Clean (rev (dropWhile (\<lambda>c. c \<noteq> slash) (rev p)))"

definition prefixes_of :: "string \<Rightarrow> string list" where
  "prefixes_of p = map (\<lambda>i. path_of (IsAbs p) (take i (pcomps p))) [1..<Suc (length (pcomps p))]"

definition inside :: "string \<Rightarrow> string \<Rightarrow> bool" where
  "inside d p \<longleftrightarrow> p = d \<or> HasPrefix p (d @ ''/'')"

definition is_dir :: "world \<Rightarrow> string \<Rightarrow> bool" where
  "is_dir w p \<longleftrightarrow> p = ''/'' \<or> p \<in> fst ` set (w_dirs w)"

definition file_at :: "world \<Rightarrow> string \<Rightarrow> string option" where
  "file_at w p = map_of (w_files w) p"

subsection \<open>Calls\<close>

definition io :: "'a m \<Rightarrow> 'a m" where
  "io body = (\<lambda>w. case w_faults w of
       [] \<Rightarrow> body w
     | f # fs \<Rightarrow> if f then (Inl IOFailure, w\<lparr>w_faults := fs\<rparr>) else body (w\<lparr>w_faults := fs\<rparr>))"

definition touch_dir :: "string \<Rightarrow> world \<Rightarrow> world" where
  "touch_dir d w = w\<lparr>w_dirs := map (\<lambda>(p, t). if p = d then (p, w_now w) else (p, t)) (w_dirs w)\<rparr>"

definition put_file :: "string \<Rightarrow> string \<Rightarrow> world \<Rightarrow> world" where
  "put_file p c w = w\<lparr>w_files := AList.update p c (w_files w)\<rparr>"

definition drop_file :: "string \<Rightarrow> world \<Rightarrow> world" where
  "drop_file p w = w\<lparr>w_files := filter (\<lambda>(q, _). q \<noteq> p) (w_files w)\<rparr>"

definition make_dir :: "string \<Rightarrow> world \<Rightarrow> world" where
  "make_dir p w = (if is_dir w p then w else touch_dir (Dir p) (w\<lparr>w_dirs := w_dirs w @ [(p, w_now w)]\<rparr>))"

definition os_MkdirAll :: "string \<Rightarrow> unit m" where
  "os_MkdirAll p = io (\<lambda>w.
     if \<exists>q \<in> set (prefixes_of p). file_at w q \<noteq> None then (Inl IOFailure, w)
     else (Inr (), fold make_dir (prefixes_of p) w))"

definition os_Create :: "string \<Rightarrow> unit m" where
  "os_Create p = io (\<lambda>w.
     if is_dir w p then (Inl IOFailure, w)
     else if \<not> is_dir w (Dir p) then (Inl NotExist, w)
     else (Inr (), (if file_at w p = None then touch_dir (Dir p) else id) (put_file p [] w)))"

definition os_Append :: "string \<Rightarrow> string \<Rightarrow> unit m" where
  "os_Append p bytes = io (\<lambda>w. (Inr (), put_file p (case file_at w p of None \<Rightarrow> bytes | Some c \<Rightarrow> c @ bytes) w))"

definition os_Read :: "string \<Rightarrow> string m" where
  "os_Read p = io (\<lambda>w.
     if is_dir w p then (Inl IOFailure, w)
     else case file_at w p of None \<Rightarrow> (Inl NotExist, w) | Some c \<Rightarrow> (Inr c, w))"

definition os_Open :: "string \<Rightarrow> unit m" where
  "os_Open p = io (\<lambda>w. if is_dir w p \<or> file_at w p \<noteq> None then (Inr (), w) else (Inl NotExist, w))"

text \<open>\<open>io.Copy\<close> of an open file to the end of another; the result is the bytes copied.\<close>

definition os_Copy :: "string \<Rightarrow> string \<Rightarrow> string m" where
  "os_Copy p q = io (\<lambda>w.
     if is_dir w p then (Inl IOFailure, w)
     else case file_at w p of None \<Rightarrow> (Inl IOFailure, w)
       | Some c \<Rightarrow> (Inr c, put_file q (case file_at w q of None \<Rightarrow> c | Some d \<Rightarrow> d @ c) w))"

text \<open>The kernel resolves a relative path against the working directory.\<close>

definition resolved :: "env \<Rightarrow> string \<Rightarrow> string" where
  "resolved E p = (case Abs (e_cwd E) p of None \<Rightarrow> p | Some q \<Rightarrow> q)"

definition os_Rename :: "string \<Rightarrow> string \<Rightarrow> unit m" where
  "os_Rename a b = io (\<lambda>w.
     if is_dir w b then (Inl IOFailure, w)
     else case file_at w a of None \<Rightarrow> (Inl NotExist, w)
       | Some c \<Rightarrow> (Inr (), touch_dir (Dir a) (touch_dir (Dir b) (put_file b c (drop_file a w)))))"

definition os_Remove :: "string \<Rightarrow> unit m" where
  "os_Remove p = io (\<lambda>w.
     if file_at w p = None then (Inl NotExist, w) else (Inr (), touch_dir (Dir p) (drop_file p w)))"

definition os_RemoveAll :: "string \<Rightarrow> unit m" where
  "os_RemoveAll d = io (\<lambda>w. (Inr (),
     (if is_dir w d \<or> file_at w d \<noteq> None then touch_dir (Dir d) else id)
       (w\<lparr>w_files := filter (\<lambda>(q, _). \<not> inside d q) (w_files w),
          w_dirs := filter (\<lambda>(q, _). \<not> inside d q) (w_dirs w)\<rparr>)))"

definition os_Stat :: "string \<Rightarrow> int m" where
  "os_Stat p = io (\<lambda>w. case file_at w p of
       Some c \<Rightarrow> (Inr (int (length c)), w)
     | None \<Rightarrow> if is_dir w p then (Inr 0, w) else (Inl NotExist, w))"

definition os_Chtimes :: "string \<Rightarrow> unit m" where
  "os_Chtimes d = io (\<lambda>w. if is_dir w d then (Inr (), touch_dir d w)
     else if file_at w d \<noteq> None then (Inr (), w) else (Inl NotExist, w))"

text \<open>An entry of a directory: its name and, for a directory, its modification time.\<close>

definition os_ReadDir :: "string \<Rightarrow> (string \<times> time option) list m" where
  "os_ReadDir d = io (\<lambda>w.
     if \<not> is_dir w d then (Inl NotExist, w)
     else (Inr (sort_key fst
       (map (\<lambda>(p, t). (Base p, Some t)) (filter (\<lambda>(p, t). p \<noteq> ''/'' \<and> Dir p = d) (w_dirs w)) @
        map (\<lambda>(p, c). (Base p, None)) (filter (\<lambda>(p, c). Dir p = d) (w_files w)))), w))"

subsection \<open>Facts\<close>

lemma io_no_faults [simp]: "w_faults w = [] \<Longrightarrow> io body w = body w"
  by (simp add: io_def)

lemma io_cases:
  obtains (fault) fs where "io body w = (Inl IOFailure, w\<lparr>w_faults := fs\<rparr>)"
    | (run) fs where "io body w = body (w\<lparr>w_faults := fs\<rparr>)"
proof (cases "w_faults w")
  case Nil
  then have eq: "w\<lparr>w_faults := []\<rparr> = w" by simp
  have "io body w = body w" using Nil by (simp add: io_def)
  then show ?thesis by (intro run[of "[]"]) (simp only: eq)
next
  case (Cons f fs)
  then show ?thesis using run[of fs] fault[of fs] by (cases f) (simp_all add: io_def)
qed

lemma io_Inr:
  assumes "io body w = (Inr x, w')"
  obtains fs where "body (w\<lparr>w_faults := fs\<rparr>) = (Inr x, w')"
  using assms by (cases rule: io_cases[of body w]) auto

lemma io_preserves [pres_rules]:
  assumes I: "plain I" and body: "preserves I body"
  shows "preserves I (io body)"
proof (rule preservesI)
  fix w assume w: "I w"
  show "I (snd (io body w))"
    using w plain_upd[OF I w] preservesD[OF body] by (cases rule: io_cases[of body w]) auto
qed

lemma file_at_put [simp]: "file_at (put_file p c w) q = (if q = p then Some c else file_at w q)"
  by (simp add: file_at_def put_file_def update_conv')

lemma file_at_touch [simp]: "file_at (touch_dir d w) q = file_at w q"
  by (simp add: file_at_def touch_dir_def)

lemma file_at_drop [simp]: "file_at (drop_file p w) q = (if q = p then None else file_at w q)"
proof -
  have "map_of (filter (\<lambda>(r, _). r \<noteq> p) fs) q = (if q = p then None else map_of fs q)" for fs :: "(string \<times> string) list"
    by (induction fs) auto
  then show ?thesis by (simp add: file_at_def drop_file_def)
qed

lemma file_at_filter [simp]:
  "file_at (w\<lparr>w_files := filter (\<lambda>(q, _). P q) (w_files w)\<rparr>) q = (if P q then file_at w q else None)"
proof -
  have "map_of (filter (\<lambda>(r, _). P r) fs) q = (if P q then map_of fs q else None)" for fs :: "(string \<times> string) list"
    by (induction fs) auto
  then show ?thesis by (simp add: file_at_def)
qed

lemma file_at_dirs [simp]: "file_at (w\<lparr>w_dirs := ds\<rparr>) q = file_at w q"
  by (simp add: file_at_def)

lemma file_at_faults [simp]: "file_at (w\<lparr>w_faults := fs\<rparr>) = file_at w"
  "file_at (w\<lparr>w_tx := tx\<rparr>) = file_at w" "file_at (w\<lparr>w_uuids := u\<rparr>) = file_at w" "file_at (w\<lparr>w_now := t\<rparr>) = file_at w"
  by (simp_all add: file_at_def fun_eq_iff)

lemma file_at_tables [simp]:
  "file_at (w_assets_update g1 w) = file_at w" "file_at (w_thumbnails_update g2 w) = file_at w"
  "file_at (w_tags_update g3 w) = file_at w" "file_at (w_asset_tags_update g4 w) = file_at w"
  "file_at (w_tasks_update g5 w) = file_at w" "file_at (w_backends_update g6 w) = file_at w"
  by (simp_all add: file_at_def fun_eq_iff)

lemma is_dir_put [simp]: "is_dir (put_file p c w) q = is_dir w q"
  by (simp add: is_dir_def put_file_def)

lemma is_dir_drop [simp]: "is_dir (drop_file p w) q = is_dir w q"
  by (simp add: is_dir_def drop_file_def)

lemma is_dir_touch [simp]: "is_dir (touch_dir d w) q = is_dir w q"
proof -
  have "fst ` set (map (\<lambda>(p, t). if p = d then (p, w_now w) else (p, t)) (w_dirs w)) = fst ` set (w_dirs w)"
    by (force simp: image_iff split: prod.splits if_splits)
  then show ?thesis by (simp add: is_dir_def touch_dir_def)
qed

lemma is_dir_faults [simp]: "is_dir (w\<lparr>w_faults := fs\<rparr>) q = is_dir w q"
  by (simp add: is_dir_def)

lemma is_dir_make [simp]: "is_dir (make_dir p w) q \<longleftrightarrow> q = p \<or> is_dir w q"
proof -
  have "is_dir (w\<lparr>w_dirs := w_dirs w @ [(p, t)]\<rparr>) q \<longleftrightarrow> q = p \<or> is_dir w q" for t
    unfolding is_dir_def by auto
  then show ?thesis by (auto simp: make_dir_def)
qed

lemma file_at_make [simp]: "file_at (make_dir p w) q = file_at w q"
  by (simp add: make_dir_def)

lemma is_dir_fold_make [simp]: "is_dir (fold make_dir ps w) q \<longleftrightarrow> q \<in> set ps \<or> is_dir w q"
  by (induction ps arbitrary: w) auto

lemma file_at_fold_make [simp]: "file_at (fold make_dir ps w) q = file_at w q"
  by (induction ps arbitrary: w) auto

lemma touch_dir_faults [simp]: "w_faults (touch_dir d w) = w_faults w" "w_faults (put_file p c w) = w_faults w"
  "w_faults (drop_file p w) = w_faults w"
  by (simp_all add: touch_dir_def put_file_def drop_file_def)

lemma make_dir_faults [simp]: "w_faults (make_dir p w) = w_faults w"
  by (simp add: make_dir_def)

lemma fold_make_faults [simp]: "w_faults (fold make_dir ps w) = w_faults w"
  by (induction ps arbitrary: w) auto

end
