(* ===== verification/Assets.thy ===== *)
theory Assets
  imports TaskQueue StoragePath Files Naming
begin

text \<open>
  The asset side of \<open>service/v1/platform/service.go\<close>: storage backends, uploads, listing, search,
  updates, soft deletion, the paths of contents and thumbnails, groups, the zip download of a
  canvas, and \<open>Me\<close>. A reader (an upload, an open file) is the bytes it yields; every read and
  write of it is a point where the disk may fail. A zip archive is its list of complete entries.
\<close>

subsection \<open>Requests and answers\<close>

record backend_create_request =
  bc_Name :: string
  bc_Type :: string
  bc_Root :: string
  bc_Config :: "gomap option"
  bc_Enabled :: "bool option"
  bc_Readonly :: "bool option"
  bc_Quota :: int

record backend_update_request =
  bu_ID :: string
  bu_Name :: "string option"
  bu_Type :: "string option"
  bu_Root :: "string option"
  bu_Config :: "gomap option option"
  bu_Enabled :: "bool option"
  bu_Readonly :: "bool option"
  bu_Quota :: "int option"

record asset_update_request =
  au_ID :: string
  au_Name :: "string option"
  au_SourceType :: "string option"
  au_SourceRef :: "string option"
  au_Metadata :: "gomap option option"
  au_TagNames :: "string list option"
  au_TagSource :: string
  au_Description :: "string option"

record asset_record =
  rc_Asset :: asset
  rc_Thumbnail :: "thumbnail option"
  rc_Tags :: "tag list"

record upload_response =
  ur_Asset :: asset_record
  ur_Tasks :: "task list"

record me_response =
  me_User :: "string \<times> string"
  me_Roles :: "string list"
  me_Permissions :: "string list"
  me_FeatureFlags :: "string \<Rightarrow> bool option"

definition new_backend :: storage_backend where
  "new_backend = object_meta.extend new_meta (storage_backend.fields [] [] None False False 0)"

definition new_asset :: asset where
  "new_asset = object_meta.extend new_meta (asset.fields [] [] [] [] 0 [] 0 0 0 [] [] [] 0 None)"

definition new_thumbnail :: thumbnail where
  "new_thumbnail = object_meta.extend new_meta (thumbnail.fields [] [] [] 0 0 [] 0 [])"

definition new_tag :: tag where
  "new_tag = object_meta.extend new_meta (tag.fields [])"

definition new_group :: asset_group where
  "new_group = object_meta.extend new_meta (asset_group.fields [] None)"

definition new_member :: group_member where
  "new_member = object_meta.extend new_meta (group_member.fields [] [] [])"

subsection \<open>Storage backends\<close>

definition StorageBackendList :: "env \<Rightarrow> backend_list_request \<Rightarrow> (storage_backend list \<times> int) m" where
  "StorageBackendList E req = storageBackendStore_List E req"

definition with_local_root :: "env \<Rightarrow> storage_backend \<Rightarrow> storage_backend m" where
  "with_local_root E b =
     (if sb_Type b = StorageBackendTypeLocal
      then bindE (lift_sum (normalizeLocalRoot E (sb_Root b))) (\<lambda>r. ret (b\<lparr>sb_Root := r\<rparr>))
      else ret b)"

definition StorageBackendCreate :: "env \<Rightarrow> backend_create_request \<Rightarrow> storage_backend m" where
  "StorageBackendCreate E req =
     bindE (with_local_root E (new_backend\<lparr>sb_Type := bc_Type req, sb_Root := bc_Root req, sb_Config := bc_Config req,
        sb_Enabled := FallbackIfNil (bc_Enabled req) True, sb_Readonly := FallbackIfNil (bc_Readonly req) False,
        sb_Quota := bc_Quota req, obj_Name := bc_Name req\<rparr>)) (\<lambda>b.
     storageBackendStore_Add E b)"

definition StorageBackendUpdate :: "env \<Rightarrow> backend_update_request \<Rightarrow> storage_backend m" where
  "StorageBackendUpdate E req =
     bindE (storageBackendStore_Get (bu_ID req)) (\<lambda>b.
     bindE (with_local_root E (b\<lparr>obj_Name := FallbackIfNil (bu_Name req) (obj_Name b),
        sb_Type := FallbackIfNil (bu_Type req) (sb_Type b), sb_Root := FallbackIfNil (bu_Root req) (sb_Root b),
        sb_Config := FallbackIfNil (bu_Config req) (sb_Config b), sb_Enabled := FallbackIfNil (bu_Enabled req) (sb_Enabled b),
        sb_Readonly := FallbackIfNil (bu_Readonly req) (sb_Readonly b), sb_Quota := FallbackIfNil (bu_Quota req) (sb_Quota b)\<rparr>)) (\<lambda>b'.
     storageBackendStore_Update b'))"

text \<open>Any error of the query, not only a missing row, makes it create another backend.\<close>

definition ensureDefaultLocalBackend :: "env \<Rightarrow> storage_backend m" where
  "ensureDefaultLocalBackend E =
     bindE (attempt storageBackendStore_GetDefaultLocal) (\<lambda>r. case r of
       Inr b \<Rightarrow> ret b
     | Inl _ \<Rightarrow> bindE (lift_sum (normalizeLocalRoot E [])) (\<lambda>d.
         storageBackendStore_Add E (new_backend\<lparr>sb_Type := StorageBackendTypeLocal, sb_Root := d, sb_Enabled := True,
           obj_Name := ''default-local''\<rparr>)))"

subsection \<open>Records\<close>

definition thumbnail_map :: "thumbnail list \<Rightarrow> string \<Rightarrow> thumbnail option" where
  "thumbnail_map ts = foldl (\<lambda>f t. f(th_AssetID t \<mapsto> t)) Map.empty ts"

definition assetRecords :: "asset list \<Rightarrow> asset_record list m" where
  "assetRecords assets =
     bindE (assetThumbnailStore_ListByAssetIDs (map obj_ID assets)) (\<lambda>thumbnails.
     bindE (tagStore_ListByAssetIDs (map obj_ID assets)) (\<lambda>tagMap.
     ret (map (\<lambda>a. \<lparr>rc_Asset = a, rc_Thumbnail = thumbnail_map thumbnails (obj_ID a), rc_Tags = tagMap (obj_ID a)\<rparr>) assets)))"

definition record_of :: "asset \<Rightarrow> asset_record m" where
  "record_of a =
     bindE (assetRecords [a]) (\<lambda>records. case records of [] \<Rightarrow> throw (Errorf ''asset record not found'' []) | r # _ \<Rightarrow> ret r)"

definition replaceAssetTags :: "env \<Rightarrow> string \<Rightarrow> string list \<Rightarrow> string \<Rightarrow> unit m" where
  "replaceAssetTags E assetID tagNames src =
     bindE (map_each (filter (\<lambda>n. n \<noteq> []) (map TrimSpace tagNames))
              (\<lambda>n. tagStore_FirstOrCreate E (new_tag\<lparr>tg_Source := src, obj_Name := n\<rparr>))) (\<lambda>tags.
     assetTagStore_Replace E assetID tags src)"

subsection \<open>Uploads\<close>

definition imageDimensions :: "env \<Rightarrow> string \<Rightarrow> (int \<times> int) m" where
  "imageDimensions E path =
     bindE (attempt (os_Read path)) (\<lambda>r. ret (case r of Inl _ \<Rightarrow> (0, 0)
        | Inr bytes \<Rightarrow> (case e_dimensions E bytes of None \<Rightarrow> (0, 0) | Some d \<Rightarrow> d)))"

definition fresh_uuid :: "env \<Rightarrow> string m" where
  "fresh_uuid E = (\<lambda>w. (Inr (e_uuid E (w_uuids w)), w\<lparr>w_uuids := Suc (w_uuids w)\<rparr>))"

text \<open>
  The copy of a reader into the new file: the file is created empty, the first 512 bytes are read
  and written, then the rest; the answer is the head, by which the MIME type is detected.
\<close>

definition store_content :: "string \<Rightarrow> string \<Rightarrow> string m" where
  "store_content path bytes =
     bindE (os_MkdirAll (Dir path)) (\<lambda>_.
     bindE (os_Create path) (\<lambda>_.
     bindE (io (ret (take 512 bytes))) (\<lambda>head.
     bindE (if head \<noteq> [] then os_Append path head else ret ()) (\<lambda>_.
     bindE (os_Append path (drop 512 bytes)) (\<lambda>_. ret head)))))"

definition object_key :: "env \<Rightarrow> time \<Rightarrow> string \<Rightarrow> string \<Rightarrow> string" where
  "object_key E now assetID filename = JoinPath [''assets'', e_month E now, assetID, filename]"

definition asset_row :: "env \<Rightarrow> storage_backend \<Rightarrow> string \<Rightarrow> string \<Rightarrow> string \<Rightarrow> string \<Rightarrow> string \<Rightarrow> int \<times> int \<Rightarrow> string \<Rightarrow> asset" where
  "asset_row E b assetID key filename bytes mime dims src =
     (let mf = mediaTypeFromFile (e_lower E) mime filename in
      new_asset\<lparr>as_MediaType := fst mf, as_MimeType := mime, as_StorageBackendID := obj_ID b, as_ObjectKey := key,
        as_Size := int (length bytes), as_Checksum := e_sha256 E bytes, as_Width := fst dims, as_Height := snd dims,
        as_Format := snd mf, as_SourceType := (if src = [] then ''user_upload'' else src),
        as_Metadata := Some [''filename'' \<mapsto> AStr filename], obj_ID := assetID, obj_Name := safeObjectName filename ''asset''\<rparr>)"

definition thumbnail_row :: "storage_backend \<Rightarrow> asset \<Rightarrow> thumbnail" where
  "thumbnail_row b created =
     new_thumbnail\<lparr>th_AssetID := obj_ID created, th_StorageBackendID := obj_ID b,
       th_Status := thumbnailInitialStatus (as_MediaType created),
       obj_Name := safeObjectName (obj_ID created @ ''-thumbnail'') ''thumbnail''\<rparr>"

text \<open>The rows of an upload, once its content is stored.\<close>

definition register_asset :: "env \<Rightarrow> storage_backend \<Rightarrow> asset \<Rightarrow> string list \<Rightarrow> upload_response m" where
  "register_asset E b a tagNames =
     bindE (platformAssetStore_Add E a) (\<lambda>created.
     bindE (assetThumbnailStore_Add E (thumbnail_row b created)) (\<lambda>thumb.
     bindE (if tagNames \<noteq> [] then replaceAssetTags E (obj_ID created) tagNames ''user'' else ret ()) (\<lambda>_.
     bindE (enqueueTask E TaskTypeAssetProbe (Some [''asset_id'' \<mapsto> AStr (obj_ID created)])) (\<lambda>probeTask.
     bindE (enqueueTask E TaskTypeAssetThumbnail
        (Some [''asset_id'' \<mapsto> AStr (obj_ID created), ''thumbnail_id'' \<mapsto> AStr (obj_ID thumb)])) (\<lambda>thumbTask.
     bindE (record_of created) (\<lambda>rec.
     ret \<lparr>ur_Asset = rec, ur_Tasks = [probeTask, thumbTask]\<rparr>))))))"

definition createAssetFromReader :: "env \<Rightarrow> string \<Rightarrow> string \<Rightarrow> string list \<Rightarrow> string \<Rightarrow> upload_response m" where
  "createAssetFromReader E bytes filename tagNames sourceType =
     bindE (ensureDefaultLocalBackend E) (\<lambda>b.
     bindE (fresh_uuid E) (\<lambda>assetID.
     bindE (gets w_now) (\<lambda>now.
     let name = Base filename; key = object_key E now assetID name in
     bindE (lift_sum (localObjectPath E b key)) (\<lambda>absPath.
     bindE (store_content absPath bytes) (\<lambda>head.
     bindE (imageDimensions E absPath) (\<lambda>dims.
     register_asset E b (asset_row E b assetID key name bytes (e_detect E head) dims sourceType) tagNames))))))"

definition AssetUpload :: "env \<Rightarrow> string \<Rightarrow> string \<Rightarrow> string list \<Rightarrow> string \<Rightarrow> upload_response m" where
  "AssetUpload E filename bytes tagNames sourceType =
     bindE (io (ret ())) (\<lambda>_. createAssetFromReader E bytes (Base filename) tagNames sourceType)"

subsection \<open>Reading, updating and deleting assets\<close>

definition AssetList :: "env \<Rightarrow> asset_list_request \<Rightarrow> (asset_record list \<times> int) m" where
  "AssetList E req =
     bindE (platformAssetStore_List E req) (\<lambda>(items, num).
     bindE (assetRecords items) (\<lambda>records. ret (records, num)))"

definition AssetSearch :: "env \<Rightarrow> asset_list_request \<Rightarrow> (asset_record list \<times> int) m" where
  "AssetSearch E query = AssetList E query"

text \<open>A request as the JSON object that the input of a task stores; the slices of a parsed query are nil.\<close>

definition query_any :: "asset_list_request \<Rightarrow> any" where
  "query_any q = AObj [
     ''page_num'' \<mapsto> ANum (of_int (bq_PageNum q)), ''page_size'' \<mapsto> ANum (of_int (bq_PageSize q)), ''keyword'' \<mapsto> AStr (bq_Keyword q),
     ''search_fields'' \<mapsto> ANil, ''sort_field'' \<mapsto> AStr (bq_SortField q), ''sort_order'' \<mapsto> AStr (bq_SortOrder q),
     ''created_after'' \<mapsto> ANum (of_int (bq_CreatedAfter q)), ''created_before'' \<mapsto> ANum (of_int (bq_CreatedBefore q)),
     ''specific_filter'' \<mapsto> AStr [], ''media_type'' \<mapsto> AStr (al_MediaType q), ''mime_type'' \<mapsto> AStr (al_MimeType q),
     ''storage_backend_id'' \<mapsto> AStr (al_StorageBackendID q), ''source_type'' \<mapsto> AStr (al_SourceType q),
     ''format'' \<mapsto> AStr (al_Format q), ''status'' \<mapsto> AStr (al_Status q),
     ''deleted'' \<mapsto> (case al_Deleted q of None \<Rightarrow> ANil | Some b \<Rightarrow> ABool b),
     ''min_size'' \<mapsto> ANum (of_int (al_MinSize q)), ''max_size'' \<mapsto> ANum (of_int (al_MaxSize q)),
     ''width'' \<mapsto> ANum (of_int (al_Width q)), ''height'' \<mapsto> ANum (of_int (al_Height q)),
     ''min_width'' \<mapsto> ANum (of_int (al_MinWidth q)), ''max_width'' \<mapsto> ANum (of_int (al_MaxWidth q)),
     ''min_height'' \<mapsto> ANum (of_int (al_MinHeight q)), ''max_height'' \<mapsto> ANum (of_int (al_MaxHeight q)),
     ''min_duration'' \<mapsto> ANum (of_int (al_MinDuration q)), ''max_duration'' \<mapsto> ANum (of_int (al_MaxDuration q)),
     ''tags'' \<mapsto> ANil]"

definition AssetSearchParse :: "env \<Rightarrow> string \<Rightarrow> (asset_list_request \<times> string) m" where
  "AssetSearchParse E text =
     (let query = parseNaturalAssetQuery (e_lower E) text in
      bindE (enqueueTask E TaskTypeQueryParse (Some [''text'' \<mapsto> AStr text, ''fallback_query'' \<mapsto> query_any query])) (\<lambda>t.
      ret (query, obj_ID t)))"

definition AssetGet :: "string \<Rightarrow> asset_record m" where
  "AssetGet aid = bindE (platformAssetStore_Get aid) record_of"

definition AssetUpdate :: "env \<Rightarrow> asset_update_request \<Rightarrow> asset_record m" where
  "AssetUpdate E req =
     bindE (platformAssetStore_Get (au_ID req)) (\<lambda>a.
     bindE (platformAssetStore_Update (a\<lparr>obj_Name := FallbackIfNil (au_Name req) (obj_Name a),
        as_SourceType := FallbackIfNil (au_SourceType req) (as_SourceType a),
        as_SourceRef := FallbackIfNil (au_SourceRef req) (as_SourceRef a),
        as_Metadata := FallbackIfNil (au_Metadata req) (as_Metadata a),
        obj_Description := FallbackIfNil (au_Description req) (obj_Description a)\<rparr>)) (\<lambda>updated.
     bindE (case au_TagNames req of None \<Rightarrow> ret ()
            | Some names \<Rightarrow> replaceAssetTags E (obj_ID updated) names (if au_TagSource req = [] then ''user'' else au_TagSource req)) (\<lambda>_.
     record_of updated)))"

definition AssetDelete :: "env \<Rightarrow> string \<Rightarrow> asset_record m" where
  "AssetDelete E aid = bindE (platformAssetStore_Delete E aid) (\<lambda>_. AssetGet aid)"

text \<open>The existing file of an object, with the message for a missing one.\<close>

definition existing_object :: "env \<Rightarrow> string \<Rightarrow> string \<Rightarrow> string \<Rightarrow> string m" where
  "existing_object E backendID key msg =
     bindE (storageBackendStore_Get backendID) (\<lambda>b.
     bindE (lift_sum (localObjectPath E b key)) (\<lambda>path.
     bindE (attempt (os_Stat path)) (\<lambda>r. case r of
       Inl e \<Rightarrow> if e = NotExist then throw (Status ErrPageNotFound msg []) else throw e
     | Inr _ \<Rightarrow> ret path)))"

definition AssetContentPath :: "env \<Rightarrow> string \<Rightarrow> (string \<times> string) m" where
  "AssetContentPath E aid =
     bindE (platformAssetStore_Get aid) (\<lambda>a.
     bindE (existing_object E (as_StorageBackendID a) (as_ObjectKey a) ''asset content not found'') (\<lambda>path.
     ret (path, as_MimeType a)))"

definition AssetThumbnailPath :: "env \<Rightarrow> string \<Rightarrow> (string \<times> string) m" where
  "AssetThumbnailPath E aid =
     bindE (assetThumbnailStore_GetByAsset aid) (\<lambda>t.
     if th_Status t \<noteq> ''ready'' \<or> th_ObjectKey t = [] then throw (Status ErrValidation ''thumbnail is not ready'' [])
     else bindE (existing_object E (th_StorageBackendID t) (th_ObjectKey t) ''thumbnail content not found'') (\<lambda>path.
          ret (path, th_MimeType t)))"

definition AssetGroupCreate :: "env \<Rightarrow> string \<Rightarrow> string \<Rightarrow> string \<Rightarrow> gomap option \<Rightarrow> string list \<Rightarrow> (asset_group \<times> group_member list) m" where
  "AssetGroupCreate E name ty descr rule assetIDs =
     bindE (assetGroupStore_Add E (new_group\<lparr>ag_Type := (if ty = [] then ''collection'' else ty), ag_DynamicRule := rule,
        obj_Name := name, obj_Description := descr\<rparr>)) (\<lambda>created.
     bindE (assetGroupMemberStore_BatchAdd E
        (map (\<lambda>aid. new_member\<lparr>gm_GroupID := obj_ID created, gm_AssetID := aid, obj_Name := ''group-member''\<rparr>) assetIDs)) (\<lambda>members.
     ret (created, members)))"

subsection \<open>Canvas downloads\<close>

definition CanvasAssetRegisterOutput :: "env \<Rightarrow> string \<Rightarrow> string \<Rightarrow> string \<Rightarrow> gomap option \<Rightarrow> (asset_record \<times> task) m" where
  "CanvasAssetRegisterOutput E canvasID nodeID assetID metadata =
     bindE (AssetGet assetID) (\<lambda>rec.
     bindE (enqueueTask E TaskTypeCanvasOutputRegister (Some [''canvas_id'' \<mapsto> AStr canvasID, ''node_id'' \<mapsto> AStr nodeID,
        ''asset_id'' \<mapsto> AStr assetID, ''metadata'' \<mapsto> any_of_map metadata])) (\<lambda>t. ret (rec, t)))"

type_synonym zip_entry = "string \<times> string"

definition addFileToZip :: "string \<Rightarrow> string \<Rightarrow> zip_entry m" where
  "addFileToZip path name = bindE (os_Read path) (\<lambda>bytes. io (ret (name, bytes)))"

text \<open>One item: the next entry and the names used so far.\<close>

definition zip_item :: "env \<Rightarrow> nat \<Rightarrow> (string \<Rightarrow> int) \<Rightarrow> string \<times> string \<Rightarrow> (zip_entry \<times> (string \<Rightarrow> int)) m" where
  "zip_item E index used item =
     bindE (platformAssetStore_Get (fst item)) (\<lambda>a.
     if 0 < as_DeletedAt a then throw (Status ErrValidation ''asset %s has been deleted'' [fst item])
     else bindE (AssetContentPath E (obj_ID a)) (\<lambda>(path, _).
       let dflt = ''asset-'' @ fmt_0d 2 (int index + 1);
           n0 = (if snd item = [] then obj_Name a else snd item);
           n1 = (if n0 = [] then dflt else n0);
           (name, used') = uniqueZipName used (safeObjectName n1 dflt)
       in bindE (addFileToZip path name) (\<lambda>entry. ret (entry, used'))))"

fun zip_items :: "env \<Rightarrow> nat \<Rightarrow> (string \<Rightarrow> int) \<Rightarrow> zip_entry list \<Rightarrow> (string \<times> string) list \<Rightarrow> (err option \<times> zip_entry list) m" where
  "zip_items E index used acc [] = ret (None, acc)"
| "zip_items E index used acc (item # items) =
     bindE (attempt (zip_item E index used item)) (\<lambda>r. case r of
       Inl e \<Rightarrow> ret (Some e, acc)
     | Inr (entry, used') \<Rightarrow> zip_items E (Suc index) used' (acc @ [entry]) items)"

definition CanvasAssetDownloadZip :: "env \<Rightarrow> string list \<Rightarrow> (string \<times> string) list \<Rightarrow> (err option \<times> zip_entry list) m" where
  "CanvasAssetDownloadZip E assetIDs items0 =
     (let items = items0 @ map (\<lambda>aid. (aid, [])) assetIDs in
      if items = [] then ret (Some (Status ErrValidation ''asset_ids or items is required'' []), [])
      else zip_items E 0 (\<lambda>_. 0) [] items)"

subsection \<open>The current user\<close>

definition defaultFeatureFlags :: "string \<Rightarrow> bool option" where
  "defaultFeatureFlags = [''provider.deepseek'' \<mapsto> True, ''asset.upload'' \<mapsto> True, ''asset.smart_tagging'' \<mapsto> True,
     ''asset.thumbnail'' \<mapsto> True, ''asset.search.parse'' \<mapsto> True, ''canvas.classic'' \<mapsto> True, ''canvas.smart'' \<mapsto> True,
     ''canvas.execute'' \<mapsto> True, ''task.async'' \<mapsto> True, ''storage.local'' \<mapsto> True]"

definition defaultPermissions :: "string list" where
  "defaultPermissions = [''asset.create'', ''asset.read'', ''asset.update'', ''asset.delete'', ''asset.search'',
     ''asset.group.create'', ''provider.manage'', ''storage.manage'', ''task.create'', ''task.read'', ''task.cancel'',
     ''canvas.read'', ''canvas.write'', ''canvas.execute'', ''feature.manage'']"

definition appendUnique :: "string list \<Rightarrow> string \<Rightarrow> string list" where
  "appendUnique items item = (if item \<in> set items then items else items @ [item])"

definition Me :: "me_response m" where
  "Me =
     bindE featureFlagStore_List (\<lambda>flags.
     bindE permissionStore_List (\<lambda>permissions.
     ret \<lparr>me_User = (''system-admin'', ''System Admin''), me_Roles = [''admin''],
       me_Permissions = foldl (\<lambda>keys p. if pe_Key p \<noteq> [] then appendUnique keys (pe_Key p) else keys) defaultPermissions permissions,
       me_FeatureFlags = foldl (\<lambda>f flag. if ff_Key flag \<noteq> [] then f(ff_Key flag \<mapsto> ff_Enabled flag) else f) defaultFeatureFlags flags\<rparr>))"

end
