(* ===== verification/AssetLaws.thy ===== *)
theory AssetLaws
  imports Assets
begin

text \<open>
  What the asset operations keep and promise: an upload writes one file, below the root of a
  backend, and on success the asset can be read back; deletion marks one row once; a listing shows
  only what the request asks for.
\<close>

subsection \<open>Files under the calls\<close>

definition only_at :: "string \<Rightarrow> (string \<Rightarrow> string option) \<Rightarrow> world \<Rightarrow> bool" where
  "only_at path f w \<longleftrightarrow> (\<forall>q. q \<noteq> path \<longrightarrow> file_at w q = f q)"

text \<open>
  The world an upload leaves: only the file of the object has changed, and the backend is one of
  the rows; \<open>stored\<close> says in addition what the file holds.
\<close>

definition asset_keys :: "bool \<Rightarrow> world \<Rightarrow> bool" where
  "asset_keys k w \<longleftrightarrow> (k \<longrightarrow> keys_distinct (w_assets w) \<and> keys_distinct (w_backends w))"

definition upload_at :: "bool \<Rightarrow> env \<Rightarrow> (string \<Rightarrow> string option) \<Rightarrow> storage_backend \<Rightarrow> string \<Rightarrow> string \<Rightarrow> world \<Rightarrow> bool" where
  "upload_at k E f b key path w \<longleftrightarrow> asset_keys k w \<and>
     b \<in> set (w_backends w) \<and> localObjectPath E b key = Inr path \<and> only_at path f w"

definition upload_confined_to :: "env \<Rightarrow> (string \<Rightarrow> string option) \<Rightarrow> world \<Rightarrow> bool" where
  "upload_confined_to E f w \<longleftrightarrow>
     (\<forall>q. file_at w q \<noteq> f q \<longrightarrow> (\<exists>b \<in> set (w_backends w). \<exists>key. localObjectPath E b key = Inr q))"

lemma upload_at_confined: "upload_at k E f b key path w \<Longrightarrow> upload_confined_to E f w"
  unfolding upload_at_def only_at_def upload_confined_to_def by metis

lemma upload_plain: "plain (upload_at k E f b key path)" "plain (upload_confined_to E f)"
  "plain (\<lambda>w. asset_keys k w \<and> file_at w = f)" "plain (\<lambda>w. file_at w p = c)"
  by (rule plainI; simp add: upload_at_def only_at_def upload_confined_to_def asset_keys_def)+

lemma GetDefaultLocal_triple:
  assumes I: "plain I"
  shows "triple I (attempt storageBackendStore_GetDefaultLocal) (\<lambda>r w. I w \<and> (case r of
     Inr b \<Rightarrow> b \<in> set (w_backends w) \<and> sb_Type b = ''local'' \<and> sb_Enabled b \<and> \<not> sb_Readonly b | Inl _ \<Rightarrow> True)) R"
  unfolding storageBackendStore_GetDefaultLocal_def
  by (rule triple_mono[OF backends_t.first_attempt_triple[OF I]]) (auto split: sum.splits)

definition default_backend :: "storage_backend \<Rightarrow> world \<Rightarrow> bool" where
  "default_backend b w \<longleftrightarrow> b \<in> set (w_backends w) \<and> sb_Type b = ''local'' \<and> sb_Enabled b \<and> \<not> sb_Readonly b"

lemma default_backend_plain: "plain I \<Longrightarrow> plain (\<lambda>w. I w \<and> default_backend b w)"
  by (simp add: plain_def default_backend_def)

text \<open>An invariant that does not speak of the backends goes through; the answer is a writable local backend.\<close>

lemma ensure_triple:
  assumes I: "plain I" and upd: "\<And>w x u. I w \<Longrightarrow> obj_ID x \<notin> set (map obj_ID (w_backends w)) \<Longrightarrow>
      I (w_backends_update (\<lambda>rs. rs @ [x]) (w\<lparr>w_uuids := u\<rparr>))"
  shows "triple I (ensureDefaultLocalBackend E) (\<lambda>b w. I w \<and> default_backend b w) I"
  unfolding ensureDefaultLocalBackend_def
proof (rule triple_bindE[OF GetDefaultLocal_triple[OF I]], rule triple_case_sum)
  fix r :: "err + storage_backend" and b assume r: "r = Inr b"
  show "triple (\<lambda>w. I w \<and> (case r of Inr b \<Rightarrow> b \<in> set (w_backends w) \<and> sb_Type b = ''local'' \<and> sb_Enabled b \<and> \<not> sb_Readonly b | Inl _ \<Rightarrow> True))
     (ret b) (\<lambda>b w. I w \<and> default_backend b w) I"
    unfolding r by (rule triple_ret) (simp add: default_backend_def)
next
  fix r :: "err + storage_backend" and e assume r: "r = Inl e"
  let ?new = "\<lambda>d. new_backend\<lparr>sb_Type := StorageBackendTypeLocal, sb_Root := d, sb_Enabled := True, obj_Name := ''default-local''\<rparr>"
  have add: "triple I (storageBackendStore_Add E (?new d)) (\<lambda>b w. I w \<and> default_backend b w) I" for d
    unfolding storageBackendStore_Add_def
  proof (rule backends_t.create_triple[OF I])
    show "plain (\<lambda>w. I w \<and> default_backend x w)" for x by (rule default_backend_plain[OF I])
    show "I w \<Longrightarrow> I w" for w .
    fix w :: world and x :: storage_backend
    assume w: "I w" and x: "x = backend_dflt (BeforeCreate (e_uuid E (w_uuids w)) (w_now w) (?new d))"
      and new: "obj_ID x \<notin> set (map obj_ID (fst backends_tbl w))"
    have "sb_Type x = ''local'' \<and> sb_Enabled x \<and> \<not> sb_Readonly x"
      unfolding x by (simp add: backend_dflt_def BeforeCreate_def new_backend_def new_meta_def object_meta.defs storage_backend.defs)
    then show "I (snd backends_tbl (\<lambda>rs. rs @ [x]) (w\<lparr>w_uuids := (if obj_ID (?new d) = [] then Suc (w_uuids w) else w_uuids w)\<rparr>)) \<and>
       default_backend x (snd backends_tbl (\<lambda>rs. rs @ [x]) (w\<lparr>w_uuids := (if obj_ID (?new d) = [] then Suc (w_uuids w) else w_uuids w)\<rparr>))"
      using upd[OF w, of x] new by (simp add: default_backend_def)
  qed
  have "triple I (bindE (lift_sum (normalizeLocalRoot E [])) (\<lambda>d. storageBackendStore_Add E (?new d)))
       (\<lambda>b w. I w \<and> default_backend b w) I"
    by (rule triple_bindE[OF triple_lift_sum[where Q = "\<lambda>_. I"] add]) assumption+
  then show "triple (\<lambda>w. I w \<and> (case r of Inr b \<Rightarrow> b \<in> set (w_backends w) \<and> sb_Type b = ''local'' \<and> sb_Enabled b \<and> \<not> sb_Readonly b | Inl _ \<Rightarrow> True))
     (bindE (lift_sum (normalizeLocalRoot E [])) (\<lambda>d. storageBackendStore_Add E (?new d)))
     (\<lambda>b w. I w \<and> default_backend b w) I"
    unfolding r by (rule triple_mono) simp_all
qed

text \<open>The calls of \<open>store_content\<close>: nothing but the file itself changes, and in the end it holds the bytes.\<close>

lemma MkdirAll_preserves:
  assumes "plain I" and "\<And>w ps. I w \<Longrightarrow> I (fold make_dir ps w)"
  shows "preserves I (os_MkdirAll p)"
  unfolding os_MkdirAll_def by (rule io_preserves[OF assms(1)]) (auto intro!: preservesI assms(2))

lemma upload_dirs:
  "upload_at k E f b key path (fold make_dir ps w) \<longleftrightarrow> upload_at k E f b key path w"
proof -
  have "w_backends (make_dir p w) = w_backends w \<and> w_assets (make_dir p w) = w_assets w" for p w
    by (simp add: make_dir_def touch_dir_def)
  then have "w_backends (fold make_dir ps w) = w_backends w \<and> w_assets (fold make_dir ps w) = w_assets w"
    by (induction ps arbitrary: w) simp_all
  then show ?thesis by (simp add: upload_at_def only_at_def asset_keys_def)
qed

lemma upload_put: "upload_at k E f b key path w \<Longrightarrow> upload_at k E f b key path (put_file path c w)"
  by (simp add: upload_at_def only_at_def put_file_def asset_keys_def) (simp add: file_at_def update_conv')

lemma upload_touch: "upload_at k E f b key path (touch_dir d w) \<longleftrightarrow> upload_at k E f b key path w"
  by (simp add: upload_at_def only_at_def asset_keys_def) (simp add: touch_dir_def)

lemma io_triple:
  assumes I: "plain I" and body: "triple I body Q R" and err: "\<And>w. I w \<Longrightarrow> R w"
  shows "triple I (io body) Q R"
proof (rule tripleI)
  fix w x w' assume w: "I w" and run: "io body w = (Inr x, w')"
  show "Q x w'"
    by (cases rule: io_cases[of body w]) (use run triple_Inr[OF body plain_upd(1)[OF I w]] in auto)
next
  fix w e w' assume w: "I w" and run: "io body w = (Inl e, w')"
  show "R w'"
  proof (cases rule: io_cases[of body w])
    case (fault fs)
    then show ?thesis using run err[OF plain_upd(1)[OF I w]] by simp
  next
    case (run fs)
    then show ?thesis using triple_Inl[OF body plain_upd(1)[OF I w]] \<open>io body w = (Inl e, w')\<close> by metis
  qed
qed

lemma store_content_triple:
  "triple (upload_at k E f b key path) (store_content path bytes)
     (\<lambda>head w. head = take 512 bytes \<and> upload_at k E f b key path w \<and> file_at w path = Some bytes)
     (upload_at k E f b key path)"
proof -
  let ?I = "upload_at k E f b key path"
  let ?C = "\<lambda>c w. ?I w \<and> file_at w path = Some c"
  have pC: "plain (?C c)" for c using upload_plain(1)[of k E f b key path] upload_plain(4)[of path "Some c"] by (simp add: plain_def)
  have mk: "triple ?I (os_MkdirAll p) (\<lambda>_. ?I) ?I" for p
    by (rule preserves_triple[OF MkdirAll_preserves[OF upload_plain(1)]]) (simp add: upload_dirs)
  have create: "triple ?I (os_Create path) (\<lambda>_. ?C []) ?I"
    unfolding os_Create_def
    by (rule io_triple[OF upload_plain(1)]) (auto simp: triple_def upload_touch upload_put split: if_splits)
  have read: "triple (?C []) (io (ret (take 512 bytes))) (\<lambda>head w. head = take 512 bytes \<and> ?C [] w) ?I"
    by (rule io_triple[OF pC]) (auto simp: triple_def)
  have app: "triple (?C c) (os_Append path c') (\<lambda>_. ?C (c @ c')) ?I" for c c'
    unfolding os_Append_def by (rule io_triple[OF pC]) (auto simp: triple_def upload_put)
  have first: "triple (?C []) (if take 512 bytes \<noteq> [] then os_Append path (take 512 bytes) else ret ()) (\<lambda>_. ?C (take 512 bytes)) ?I"
  proof (cases "bytes = []")
    case True
    then show ?thesis by (simp add: triple_def)
  next
    case False
    then have "take 512 bytes \<noteq> []" by simp
    then show ?thesis using app[of "[]" "take 512 bytes"] by (simp only: if_True append_Nil not_False_eq_True)
  qed
  have rest: "triple (?C (take 512 bytes)) (bindE (os_Append path (drop 512 bytes)) (\<lambda>_. ret (take 512 bytes)))
      (\<lambda>head w. head = take 512 bytes \<and> ?C bytes w) ?I"
    by (rule triple_bindE[OF app[of "take 512 bytes" "drop 512 bytes", unfolded append_take_drop_id]], rule triple_ret) simp
  have tail: "triple (\<lambda>w. head = take 512 bytes \<and> ?C [] w)
     (bindE (if head \<noteq> [] then os_Append path head else ret ()) (\<lambda>_. bindE (os_Append path (drop 512 bytes)) (\<lambda>_. ret head)))
     (\<lambda>head w. head = take 512 bytes \<and> ?C bytes w) ?I" for head
  proof (cases "head = take 512 bytes")
    case True
    show ?thesis unfolding True by (rule triple_mono[OF triple_bindE[OF first rest]]; blast)
  qed (simp add: triple_def)
  show ?thesis
    unfolding store_content_def by (rule triple_bindE[OF mk], rule triple_bindE[OF create], rule triple_bindE[OF read tail])
qed


subsection \<open>The rows of an upload\<close>

text \<open>An invariant that does not speak of tags goes through the tag operations.\<close>

definition tag_free :: "(world \<Rightarrow> bool) \<Rightarrow> bool" where
  "tag_free I \<longleftrightarrow> plain I \<and> (\<forall>w f. I w \<longrightarrow> I (w_tags_update f w)) \<and> (\<forall>w f. I w \<longrightarrow> I (w_asset_tags_update f w))"

lemma replaceAssetTags_preserves:
  assumes "tag_free I"
  shows "preserves I (replaceAssetTags E aid names src)"
proof -
  have p: "plain I" and t: "\<And>w f. I w \<Longrightarrow> I (w_tags_update f w)" and l: "\<And>w f. I w \<Longrightarrow> I (w_asset_tags_update f w)"
    using assms by (auto simp: tag_free_def)
  have first: "preserves I (tagStore_FirstOrCreate E tg)" for tg
    unfolding tagStore_FirstOrCreate_def db_first_def
    by (intro preserves_bindE preserves_attempt tags_t.first_preserves[OF p] preserves_case_sum preserves_ret preserves_if
        preserves_throw tags_t.create_preserves[OF p]) (simp add: t plain_upd(3)[OF p])
  have repl: "preserves I (assetTagStore_Replace E aid tags src)" for tags
    unfolding assetTagStore_Replace_def
    by (intro transaction_preserves[OF p] preserves_bindE asset_tags_t.delete_preserves[OF p] preserves_for_each preserves_ret
        asset_tags_t.create_preserves[OF p]) (simp_all add: l plain_upd(3)[OF p])
  show ?thesis unfolding replaceAssetTags_def by (intro preserves_bindE preserves_map_each first repl)
qed

lemma find_result_triple:
  assumes "plain I"
  shows "triple I (stmt (gets g)) (\<lambda>_. I) I"
  by (rule preserves_triple, rule stmt_preserves[OF assms]) simp

lemma record_of_triple:
  assumes I: "plain I"
  shows "triple I (record_of a) (\<lambda>r w. rc_Asset r = a \<and> I w) I"
proof -
  have th: "triple I (assetThumbnailStore_ListByAssetIDs ids) (\<lambda>_. I) I" for ids
    unfolding assetThumbnailStore_ListByAssetIDs_def db_find_def by (intro triple_if triple_ret find_result_triple[OF I])
  have tg: "triple I (tagStore_ListByAssetIDs ids) (\<lambda>_. I) I" for ids
    unfolding tagStore_ListByAssetIDs_def by (intro triple_if triple_ret triple_bindE[OF find_result_triple[OF I]])
  have recs: "triple I (assetRecords [a]) (\<lambda>rs w. (\<exists>r. rs = [r] \<and> rc_Asset r = a) \<and> I w) I"
    unfolding assetRecords_def by (intro triple_bindE[OF th] triple_bindE[OF tg] triple_ret) auto
  show ?thesis
    unfolding record_of_def
    by (rule triple_bindE[OF recs]) (auto simp: triple_def split: list.splits)
qed

lemma enqueue_triple:
  assumes I: "plain I" and upd: "\<And>w (x :: task) u. I w \<Longrightarrow> I (w_tasks_update (\<lambda>rs. rs @ [x]) (w\<lparr>w_uuids := u\<rparr>))"
  shows "triple I (enqueueTask E ty input)
    (\<lambda>t w. I w \<and> t \<in> set (w_tasks w) \<and> tk_Type t = ty \<and> tk_Status t = ''pending'' \<and> tk_Input t = input) I"
  unfolding enqueueTask_def taskStore_Add_def
proof (rule tasks_t.create_triple[OF I])
  show "plain (\<lambda>w. I w \<and> x \<in> set (w_tasks w) \<and> tk_Type x = ty \<and> tk_Status x = ''pending'' \<and> tk_Input x = input)" for x
    using I by (simp add: plain_def)
  fix w :: world and x :: task
  let ?d = "task_defaults (new_task\<lparr>tk_Type := ty, tk_Status := TaskStatusPending, tk_Queue := ''default'',
       tk_Input := input, tk_MaxAttempts := 3, obj_Name := ReplaceAll ty CHR ''.'' ''-''\<rparr>)"
  assume w: "I w" and x: "x = id (BeforeCreate (e_uuid E (w_uuids w)) (w_now w) ?d)"
  have "tk_Type x = ty \<and> tk_Status x = ''pending'' \<and> tk_Input x = input"
    unfolding x by (simp add: task_defaults_def BeforeCreate_def Let_def)
  then show "I (snd tasks_tbl (\<lambda>rs. rs @ [x]) (w\<lparr>w_uuids := (if obj_ID ?d = [] then Suc (w_uuids w) else w_uuids w)\<rparr>)) \<and>
     x \<in> set (w_tasks (snd tasks_tbl (\<lambda>rs. rs @ [x]) (w\<lparr>w_uuids := (if obj_ID ?d = [] then Suc (w_uuids w) else w_uuids w)\<rparr>))) \<and>
     tk_Type x = ty \<and> tk_Status x = ''pending'' \<and> tk_Input x = input"
    using upd[OF w] by simp
qed

text \<open>What a step of an upload knows: the content is stored, the asset is in its table, and so on.\<close>

record upload_ctx =
  uc_keys :: bool
  uc_env :: env
  uc_files :: "string \<Rightarrow> string option"
  uc_backend :: storage_backend
  uc_key :: string
  uc_path :: string
  uc_bytes :: string

definition up_stored :: "upload_ctx \<Rightarrow> world \<Rightarrow> bool" where
  "up_stored c w \<longleftrightarrow> upload_at (uc_keys c) (uc_env c) (uc_files c) (uc_backend c) (uc_key c) (uc_path c) w \<and>
     file_at w (uc_path c) = Some (uc_bytes c)"

definition up_asset :: "upload_ctx \<Rightarrow> asset \<Rightarrow> asset \<Rightarrow> world \<Rightarrow> bool" where
  "up_asset c a x w \<longleftrightarrow> up_stored c w \<and> x \<in> set (w_assets w) \<and> object_meta.more x = object_meta.more a \<and> obj_Name x = obj_Name a"

definition up_thumb :: "upload_ctx \<Rightarrow> asset \<Rightarrow> asset \<Rightarrow> thumbnail \<Rightarrow> world \<Rightarrow> bool" where
  "up_thumb c a x t w \<longleftrightarrow> up_asset c a x w \<and> t \<in> set (w_thumbnails w) \<and> th_AssetID t = obj_ID x \<and>
     th_Status t = thumbnailInitialStatus (as_MediaType a)"

definition task_for :: "string \<Rightarrow> asset \<Rightarrow> task \<Rightarrow> world \<Rightarrow> bool" where
  "task_for ty x t w \<longleftrightarrow> t \<in> set (w_tasks w) \<and> tk_Type t = ty \<and> tk_Status t = ''pending'' \<and>
     nilmap_at (tk_Input t) ''asset_id'' = AStr (obj_ID x)"

definition up_done :: "upload_ctx \<Rightarrow> asset \<Rightarrow> upload_response \<Rightarrow> world \<Rightarrow> bool" where
  "up_done c a resp w \<longleftrightarrow> (\<exists>t p q. up_thumb c a (rc_Asset (ur_Asset resp)) t w \<and> ur_Tasks resp = [p, q] \<and>
     task_for ''asset.probe'' (rc_Asset (ur_Asset resp)) p w \<and> task_for ''asset.thumbnail'' (rc_Asset (ur_Asset resp)) q w)"

lemmas up_defs = up_stored_def up_asset_def up_thumb_def task_for_def upload_at_def only_at_def asset_keys_def

lemma up_plain: "plain (up_stored c)" "plain (up_asset c a x)" "plain (up_thumb c a x t)"
  "plain (\<lambda>w. up_thumb c a x t w \<and> task_for ty x p w)"
  "plain (\<lambda>w. (up_thumb c a x t w \<and> task_for ty x p w) \<and> task_for ty' x q w)"
  by (rule plainI; simp add: up_defs)+

lemma media_of_more: "object_meta.more x = object_meta.more (a :: asset) \<Longrightarrow> as_MediaType x = as_MediaType a"
  by (cases x; cases a) simp

lemma register_triple:
  "triple (up_stored c) (register_asset (uc_env c) b a names) (up_done c a) (up_stored c)"
proof -
  let ?E = "uc_env c"
  have asset: "triple (up_stored c) (platformAssetStore_Add ?E a) (up_asset c a) (up_stored c)"
    unfolding platformAssetStore_Add_def
    by (rule assets_t.create_triple[OF up_plain(1,2)])
      (auto simp: up_defs keys_distinct_def BeforeCreate_def)
  have thumb: "triple (up_asset c a x) (assetThumbnailStore_Add ?E (thumbnail_row b x)) (up_thumb c a x) (up_stored c)" for x
    unfolding assetThumbnailStore_Add_def
  proof (rule thumbnails_t.create_triple[OF up_plain(2,3)])
    fix w :: world and t :: thumbnail
    let ?u = "if obj_ID (thumbnail_row b x) = [] then Suc (w_uuids w) else w_uuids w"
    assume w: "up_asset c a x w" and t: "t = thumbnail_dflt (BeforeCreate (e_uuid ?E (w_uuids w)) (w_now w) (thumbnail_row b x))"
    have m: "as_MediaType x = as_MediaType a" by (rule media_of_more) (use w in \<open>simp add: up_asset_def\<close>)
    have "th_AssetID t = obj_ID x \<and> th_Status t = thumbnailInitialStatus (as_MediaType a)"
      unfolding t m[symmetric] by (simp add: thumbnail_dflt_def BeforeCreate_def thumbnail_row_def thumbnailInitialStatus_def)
    then show "up_thumb c a x t (snd thumbnails_tbl (\<lambda>rs. rs @ [t]) (w\<lparr>w_uuids := ?u\<rparr>))"
      using w by (simp add: up_defs)
  qed (simp add: up_asset_def)
  have tags: "triple (up_thumb c a x t) (if names \<noteq> [] then replaceAssetTags ?E (obj_ID x) names ''user'' else ret ())
      (\<lambda>_. up_thumb c a x t) (up_stored c)" for x t
  proof -
    have "tag_free (up_thumb c a x t)" using up_plain(3) by (simp add: tag_free_def up_defs)
    from preserves_triple[OF replaceAssetTags_preserves[OF this]]
    have "triple (up_thumb c a x t) (replaceAssetTags ?E (obj_ID x) names ''user'') (\<lambda>_. up_thumb c a x t) (up_stored c)"
      by (rule triple_mono) (simp_all add: up_thumb_def up_asset_def)
    then show ?thesis by (simp add: triple_def)
  qed
  have one: "triple (up_thumb c a x t) (enqueueTask ?E TaskTypeAssetProbe (Some [''asset_id'' \<mapsto> AStr (obj_ID x)]))
      (\<lambda>p w. up_thumb c a x t w \<and> task_for ''asset.probe'' x p w) (up_stored c)" for x t
    by (rule triple_mono[OF enqueue_triple[OF up_plain(3)]])
      (auto simp: up_defs nilmap_at_def map_at_def)
  have two: "triple (\<lambda>w. up_thumb c a x t w \<and> task_for ''asset.probe'' x p w)
      (enqueueTask ?E TaskTypeAssetThumbnail (Some [''asset_id'' \<mapsto> AStr (obj_ID x), ''thumbnail_id'' \<mapsto> AStr (obj_ID t)]))
      (\<lambda>q w. (up_thumb c a x t w \<and> task_for ''asset.probe'' x p w) \<and> task_for ''asset.thumbnail'' x q w) (up_stored c)" for x t p
    by (rule triple_mono[OF enqueue_triple[OF up_plain(4)]])
      (auto simp: up_defs nilmap_at_def map_at_def)
  have rec: "triple (\<lambda>w. (up_thumb c a x t w \<and> task_for ''asset.probe'' x p w) \<and> task_for ''asset.thumbnail'' x q w)
      (bindE (record_of x) (\<lambda>rec. ret \<lparr>ur_Asset = rec, ur_Tasks = [p, q]\<rparr>)) (up_done c a) (up_stored c)" for x t p q
  proof (rule triple_bindE)
    show "triple (\<lambda>w. (up_thumb c a x t w \<and> task_for ''asset.probe'' x p w) \<and> task_for ''asset.thumbnail'' x q w) (record_of x)
       (\<lambda>r w. rc_Asset r = x \<and> (up_thumb c a x t w \<and> task_for ''asset.probe'' x p w) \<and> task_for ''asset.thumbnail'' x q w) (up_stored c)"
      by (rule triple_mono[OF record_of_triple[OF up_plain(5)]]) (auto simp: up_thumb_def up_asset_def)
  qed (auto intro!: triple_ret simp: up_done_def)
  show ?thesis
    unfolding register_asset_def
    by (rule triple_bindE[OF asset], rule triple_bindE[OF thumb], rule triple_bindE[OF tags], rule triple_bindE[OF one],
        rule triple_bindE[OF two rec])
qed

lemma imageDimensions_triple: "plain I \<Longrightarrow> triple I (imageDimensions E path) (\<lambda>_. I) R"
proof -
  assume I: "plain I"
  have "preserves I (os_Read path)"
    unfolding os_Read_def by (rule io_preserves[OF I]) (auto intro!: preservesI split: option.split)
  from preserves_triple[OF this]
  have "triple I (attempt (os_Read path)) (\<lambda>_. I) R"
    by (intro triple_attempt, elim triple_mono) simp_all
  then show ?thesis unfolding imageDimensions_def by (rule triple_bindE) (rule triple_ret)
qed

definition upload_end :: "bool \<Rightarrow> env \<Rightarrow> string \<Rightarrow> string \<Rightarrow> string \<Rightarrow> (string \<Rightarrow> string option) \<Rightarrow> upload_response \<Rightarrow> world \<Rightarrow> bool" where
  "upload_end k E bytes name src f resp w \<longleftrightarrow> (\<exists>b key path aid dims.
     up_done \<lparr>uc_keys = k, uc_env = E, uc_files = f, uc_backend = b, uc_key = key, uc_path = path, uc_bytes = bytes\<rparr>
       (asset_row E b aid key name bytes (e_detect E (take 512 bytes)) dims src) resp w)"

lemma upload_triple:
  "triple (\<lambda>w. asset_keys k w \<and> file_at w = f) (createAssetFromReader E bytes filename names src)
     (upload_end k E bytes (Base filename) src f) (upload_confined_to E f)"
proof -
  let ?I = "\<lambda>w. asset_keys k w \<and> file_at w = f"
  have conf: "upload_confined_to E f w" if "file_at w = f" for w using that by (simp add: upload_confined_to_def)
  have ens: "triple ?I (ensureDefaultLocalBackend E) (\<lambda>b w. ?I w \<and> default_backend b w) (upload_confined_to E f)"
    by (rule triple_mono[OF ensure_triple[OF upload_plain(3)]])
      (auto simp: asset_keys_def keys_distinct_def upload_confined_to_def)
  have uuid: "triple (\<lambda>w. ?I w \<and> default_backend b w) (fresh_uuid E) (\<lambda>_ w. ?I w \<and> default_backend b w) (upload_confined_to E f)" for b
    by (simp add: triple_def fresh_uuid_def default_backend_def asset_keys_def)
  have now: "triple (\<lambda>w. ?I w \<and> default_backend b w) (gets w_now) (\<lambda>_ w. ?I w \<and> default_backend b w) (upload_confined_to E f)" for b
    by (rule triple_gets)
  have path: "triple (\<lambda>w. ?I w \<and> default_backend b w) (lift_sum (localObjectPath E b key)) (\<lambda>path. upload_at k E f b key path) (upload_confined_to E f)" for b key
    by (rule triple_lift_sum) (auto simp: upload_at_def only_at_def default_backend_def conf)
  have rest: "triple (upload_at k E f b key path)
     (bindE (store_content path bytes) (\<lambda>head. bindE (imageDimensions E path) (\<lambda>dims.
       register_asset E b (asset_row E b aid key (Base filename) bytes (e_detect E head) dims src) names)))
     (upload_end k E bytes (Base filename) src f) (upload_confined_to E f)" for b key path aid
  proof -
    define c where "c = \<lparr>uc_keys = k, uc_env = E, uc_files = f, uc_backend = b, uc_key = key, uc_path = path, uc_bytes = bytes\<rparr>"
    have st: "up_stored c w \<longleftrightarrow> upload_at k E f b key path w \<and> file_at w path = Some bytes" for w
      by (simp add: c_def up_stored_def)
    have store: "triple (upload_at k E f b key path) (store_content path bytes)
        (\<lambda>head w. head = take 512 bytes \<and> up_stored c w) (upload_confined_to E f)"
      by (rule triple_mono[OF store_content_triple]) (auto simp: st intro: upload_at_confined)
    have dims: "triple (\<lambda>w. head = take 512 bytes \<and> up_stored c w) (imageDimensions E path)
        (\<lambda>_ w. head = take 512 bytes \<and> up_stored c w) (upload_confined_to E f)" for head
      by (rule imageDimensions_triple) (use up_plain(1)[of c] in \<open>simp add: plain_def\<close>)
    have reg: "triple (\<lambda>w. head = take 512 bytes \<and> up_stored c w)
        (register_asset E b (asset_row E b aid key (Base filename) bytes (e_detect E head) dims src) names)
        (upload_end k E bytes (Base filename) src f) (upload_confined_to E f)" for head dims
    proof (cases "head = take 512 bytes")
      case True
      have "triple (up_stored c) (register_asset E b (asset_row E b aid key (Base filename) bytes (e_detect E head) dims src) names)
         (upload_end k E bytes (Base filename) src f) (upload_confined_to E f)"
      proof (rule triple_mono[OF register_triple[of c b _ names, unfolded c_def upload_ctx.simps, folded c_def]])
        fix x s assume "up_done c (asset_row E b aid key (Base filename) bytes (e_detect E head) dims src) x s"
        then show "upload_end k E bytes (Base filename) src f x s"
          unfolding upload_end_def c_def True by blast
      qed (auto simp: st intro: upload_at_confined)
      then show ?thesis by (rule triple_mono) simp_all
    qed (simp add: triple_def)
    show ?thesis by (rule triple_bindE[OF store triple_bindE[OF dims reg]])
  qed
  show ?thesis
    unfolding createAssetFromReader_def Let_def
    by (rule triple_bindE[OF ens], rule triple_bindE[OF uuid], rule triple_bindE[OF now], rule triple_bindE[OF path rest])
qed

lemma upload_end_confined: "upload_end k E bytes name src f resp w \<Longrightarrow> upload_confined_to E f w"
  by (auto simp: upload_end_def up_done_def up_thumb_def up_asset_def up_stored_def intro: upload_at_confined)

text \<open>
  Whatever the names in an upload and whatever fails on the way, the only files that an upload
  creates or changes lie below the root directory of a storage backend.
\<close>

theorem upload_confined:
  assumes "rooted_cwd E" and run: "AssetUpload E filename bytes names src w = (r, w')"
    and "file_at w' q \<noteq> file_at w q"
  shows "\<exists>b \<in> set (w_backends w'). \<exists>d. normalizeLocalRoot E (sb_Root b) = Inr d \<and> below d q"
proof -
  let ?I = "\<lambda>x. asset_keys False x \<and> file_at x = file_at w"
  have "triple ?I (AssetUpload E filename bytes names src) (\<lambda>_. upload_confined_to E (file_at w)) (upload_confined_to E (file_at w))"
    unfolding AssetUpload_def
  proof (rule triple_bindE)
    show "triple ?I (io (ret ())) (\<lambda>_. ?I) (upload_confined_to E (file_at w))"
      by (rule io_triple[OF upload_plain(3)]) (auto simp: triple_def upload_confined_to_def)
    show "triple ?I (createAssetFromReader E bytes (Base filename) names src)
        (\<lambda>_. upload_confined_to E (file_at w)) (upload_confined_to E (file_at w))"
      by (rule triple_mono[OF upload_triple]) (auto intro: upload_end_confined)
  qed
  then have "upload_confined_to E (file_at w) w'"
    using run triple_Inr[of ?I _ _ _ w] triple_Inl[of ?I _ _ _ w] by (cases r) (force simp: asset_keys_def)+
  then obtain b key where b: "b \<in> set (w_backends w')" "localObjectPath E b key = Inr q"
    using assms(3) by (auto simp: upload_confined_to_def)
  obtain d where d: "normalizeLocalRoot E (sb_Root b) = Inr d"
    using object_jail.has_root[of "(E, b)" key q] assms(1) b by auto
  then have "below d q" using object_jail.confined[of "(E, b)" key q d] assms(1) b by simp
  then show ?thesis using b d by blast
qed

lemma first_unique:
  "keys_distinct rs \<Longrightarrow> r \<in> set rs \<Longrightarrow> min_by obj_ID (filter (\<lambda>x. obj_ID x = obj_ID r) rs) = Some r"
proof -
  assume k: "keys_distinct rs" and r: "r \<in> set rs"
  then obtain y where y: "min_by obj_ID (filter (\<lambda>x. obj_ID x = obj_ID r) rs) = Some y"
    by (cases "min_by obj_ID (filter (\<lambda>x. obj_ID x = obj_ID r) rs)") (auto simp: filter_empty_conv)
  then have "y \<in> set rs" "obj_ID y = obj_ID r" using min_by_mem by fastforce+
  then show ?thesis using keys_distinct_unique[OF k _ r] y by simp
qed

text \<open>A fault-free read of the content of an asset whose object exists.\<close>

lemma content_path_healthy:
  assumes "healthy w" and "keys_distinct (w_assets w)" "keys_distinct (w_backends w)"
    and "a \<in> set (w_assets w)" "b \<in> set (w_backends w)" "as_StorageBackendID a = obj_ID b"
    and "localObjectPath E b (as_ObjectKey a) = Inr p" "file_at w p = Some c"
  shows "AssetContentPath E (obj_ID a) w = (Inr (p, as_MimeType a), w)"
  using assms
  by (simp add: AssetContentPath_def existing_object_def platformAssetStore_Get_def storageBackendStore_Get_def
    db_first_def db_first_by_def first_unique bindE_apply stmt_healthy attempt_def os_Stat_def healthy_def)


text \<open>Instances: an upload of five bytes to a world with one backend.\<close>

definition upload_world :: world where
  "upload_world = empty_world\<lparr>w_backends := [sample_backend\<lparr>obj_ID := ''b1''\<rparr>]\<rparr>"

lemma sample_upload:
  "case AssetUpload sample_env ''../a.txt'' ''hello'' [''x''] [] upload_world of
     (Inr resp, w) \<Rightarrow> file_at w ''/data/assets/2026/01/uuid-0/a.txt'' = Some ''hello'' | _ \<Rightarrow> False"
  by code_simp

lemma sample_reader:
  "case createAssetFromReader sample_env ''hello'' ''a.txt'' [''x''] [] upload_world of
     (Inr resp, w) \<Rightarrow> w_faults w = [] \<and> w_tx w = None \<and> length (w_asset_tags w) = 1 | _ \<Rightarrow> False"
  by code_simp

lemma upload_world_keys: "keys_distinct (w_assets upload_world)" "keys_distinct (w_backends upload_world)"
  by (simp_all add: upload_world_def empty_world_def keys_distinct_def)

lemma upload_world_file: "file_at upload_world q = None"
  by (simp add: upload_world_def file_at_def empty_world_def)

lemma upload_confined_witness:
  "\<exists>w' b d. file_at w' ''/data/assets/2026/01/uuid-0/a.txt'' = Some ''hello'' \<and> b \<in> set (w_backends w') \<and>
     normalizeLocalRoot sample_env (sb_Root b) = Inr d \<and> below d ''/data/assets/2026/01/uuid-0/a.txt''"
proof -
  obtain r w' where run: "AssetUpload sample_env ''../a.txt'' ''hello'' [''x''] [] upload_world = (r, w')"
    and f: "file_at w' ''/data/assets/2026/01/uuid-0/a.txt'' = Some ''hello''"
    using sample_upload by (auto split: prod.splits sum.splits)
  have "file_at w' ''/data/assets/2026/01/uuid-0/a.txt'' \<noteq> file_at upload_world ''/data/assets/2026/01/uuid-0/a.txt''"
    using f by (simp add: upload_world_file)
  from upload_confined[OF sample_rooted run this] show ?thesis using f by blast
qed


subsection \<open>Deleting and listing\<close>

lemma record_of_healthy: "healthy w \<Longrightarrow> \<exists>rec. record_of a w = (Inr rec, w) \<and> rc_Asset rec = a"
  by (simp add: record_of_def assetRecords_def assetThumbnailStore_ListByAssetIDs_def tagStore_ListByAssetIDs_def
    db_find_def bindE_apply stmt_healthy)

lemma delete_healthy:
  assumes "healthy w"
  shows "platformAssetStore_Delete E aid w =
    (if \<exists>x \<in> set (w_assets w). obj_ID x = aid \<and> as_DeletedAt x = 0 then Inr () else Inl (Errorf ''asset not found with id %v'' [aid]),
     w\<lparr>w_assets := map (\<lambda>x. if obj_ID x = aid \<and> as_DeletedAt x = 0
        then touch E (w_now w) (x\<lparr>as_DeletedAt := UnixMilli (w_now w)\<rparr>) else x) (w_assets w)\<rparr>)"
  using assms
  by (simp add: platformAssetStore_Delete_def db_update_def bindE_apply stmt_healthy filter_empty_conv)

text \<open>
  Deleting an asset marks exactly its row as deleted, with the current time in milliseconds, and answers
  with the marked row; files stay, and a second deletion fails with the message that there is no such asset.
\<close>

theorem asset_delete_once:
  fixes a :: asset
  assumes "healthy w" and "keys_distinct (w_assets w)" and "a \<in> set (w_assets w)" and "as_DeletedAt a = 0"
    and "1000000 \<le> w_now w" and "gone = touch E (w_now w) (a\<lparr>as_DeletedAt := UnixMilli (w_now w)\<rparr>)"
  shows "\<exists>rec w'. AssetDelete E (obj_ID a) w = (Inr rec, w') \<and> rc_Asset rec = gone \<and>
    w_assets w' = map (\<lambda>x. if obj_ID x = obj_ID a then gone else x) (w_assets w) \<and>
    w' = w\<lparr>w_assets := w_assets w'\<rparr> \<and>
    AssetDelete E (obj_ID a) w' = (Inl (Errorf ''asset not found with id %v'' [obj_ID a]), w')"
proof -
  let ?w' = "w\<lparr>w_assets := map (\<lambda>x. if obj_ID x = obj_ID a then gone else x) (w_assets w)\<rparr>"
  have same: "x = a" if "x \<in> set (w_assets w)" "obj_ID x = obj_ID a" for x
    using keys_distinct_unique assms(2,3) that by blast
  have "0 < UnixMilli (w_now w)" using assms(5) by (simp add: UnixMilli_def)
  then have gone: "obj_ID gone = obj_ID a" "as_DeletedAt gone \<noteq> 0" by (simp_all add: assms(6) touch_def)
  have h: "healthy ?w'" using assms(1) by (simp add: healthy_def)
  have "map (\<lambda>x. if obj_ID x = obj_ID a \<and> as_DeletedAt x = 0
      then touch E (w_now w) (x\<lparr>as_DeletedAt := UnixMilli (w_now w)\<rparr>) else x) (w_assets w) = w_assets ?w'"
    using same assms(4,6) by auto
  then have del: "platformAssetStore_Delete E (obj_ID a) w = (Inr (), ?w')"
    using delete_healthy[OF assms(1), of E "obj_ID a"] assms(3,4) by auto
  have mem: "gone \<in> set (w_assets ?w')" using assms(3) by auto
  have "keys_distinct (w_assets ?w')"
    using assms(2) gone(1) unfolding keys_distinct_def by (simp add: comp_def if_distrib cong: if_cong)
  then have get: "platformAssetStore_Get (obj_ID a) ?w' = (Inr gone, ?w')"
    using first_unique[OF _ mem] gone h by (simp add: platformAssetStore_Get_def db_first_def db_first_by_def stmt_healthy)
  obtain rec where rec: "record_of gone ?w' = (Inr rec, ?w')" "rc_Asset rec = gone" using record_of_healthy[OF h] by blast
  have "platformAssetStore_Delete E (obj_ID a) ?w' = (Inl (Errorf ''asset not found with id %v'' [obj_ID a]), ?w')"
    using gone by (subst delete_healthy[OF h]) (auto cong: map_cong)
  then show ?thesis using del get rec by (simp add: AssetDelete_def AssetGet_def bindE_apply)
qed

lemma asset_filter_deleted:
  "asset_filter req w a \<Longrightarrow> al_Status req \<noteq> ''deleted'' \<Longrightarrow> al_Deleted req \<noteq> Some True \<Longrightarrow> as_DeletedAt a = 0"
  unfolding asset_filter_def by simp

lemma thumbnail_map_Some:
  "thumbnail_map ts aid = Some t \<Longrightarrow> t \<in> set ts \<and> th_AssetID t = aid"
proof (induction ts rule: rev_induct)
  case (snoc x ts)
  then show ?case by (auto simp: thumbnail_map_def split: if_splits)
qed (simp add: thumbnail_map_def)

text \<open>The records of some assets, when the two reads succeed.\<close>

lemma assetRecords_result:
  assumes "assetRecords items w = (Inr recs, w')"
  shows "map rc_Asset recs = items \<and> (\<forall>r \<in> set recs.
    (\<forall>t. rc_Thumbnail r = Some t \<longrightarrow> t \<in> set (w_thumbnails w) \<and> th_AssetID t = obj_ID (rc_Asset r)) \<and>
    map obj_Name (rc_Tags r) = map (\<lambda>(l, t). obj_Name t) (filter (\<lambda>(l, t). at_AssetID l = obj_ID (rc_Asset r)) (joined_tags w)))"
proof -
  from assms obtain ths w1 f where th: "assetThumbnailStore_ListByAssetIDs (map obj_ID items) w = (Inr ths, w1)"
    and tg: "tagStore_ListByAssetIDs (map obj_ID items) w1 = (Inr f, w')"
    and recs: "recs = map (\<lambda>a. \<lparr>rc_Asset = a, rc_Thumbnail = thumbnail_map ths (obj_ID a), rc_Tags = f (obj_ID a)\<rparr>) items"
    unfolding assetRecords_def by (elim bindE_Inr_elim) auto
  have 1: "set ths \<subseteq> set (w_thumbnails w) \<and> (\<exists>fs. w1 = w\<lparr>w_faults := fs\<rparr>)"
  proof (cases "items = []")
    case True
    then show ?thesis using th by (auto simp: assetThumbnailStore_ListByAssetIDs_def intro: exI[of _ "w_faults w"])
  next
    case False
    then have "db_find thumbnails_tbl (\<lambda>t. th_AssetID t \<in> set (map obj_ID items)) w = (Inr ths, w1)"
      using th by (simp add: assetThumbnailStore_ListByAssetIDs_def)
    then show ?thesis by (rule thumbnails_t.find_result) auto
  qed
  have 2: "map obj_Name (f aid) = map (\<lambda>(l, t). obj_Name t) (filter (\<lambda>(l, t). at_AssetID l = aid) (joined_tags w))"
    if aid: "aid \<in> obj_ID ` set items" for aid
  proof -
    have j: "joined_tags (w\<lparr>w_faults := fs\<rparr>) = joined_tags w" for fs by (simp add: joined_tags_def)
    have "items \<noteq> []" using aid by auto
    then obtain found where st: "stmt (gets (\<lambda>w. filter (\<lambda>(l, t). at_AssetID l \<in> set (map obj_ID items)) (joined_tags w))) w1 = (Inr found, w')"
      and f: "f = (\<lambda>aid. map (\<lambda>(l, t). t\<lparr>obj_Extend := None\<rparr>) (filter (\<lambda>(l, t). at_AssetID l = aid) found))"
      using tg unfolding tagStore_ListByAssetIDs_def by (auto elim: bindE_Inr_elim)
    from st have "found = filter (\<lambda>(l, t). at_AssetID l \<in> set (map obj_ID items)) (joined_tags w)"
      by (rule stmt_Inr) (use 1 j in auto)
    then have "filter (\<lambda>(l, t). at_AssetID l = aid) found = filter (\<lambda>(l, t). at_AssetID l = aid) (joined_tags w)"
      using aid by (auto intro!: filter_cong)
    then show ?thesis by (simp add: f case_prod_unfold)
  qed
  have "map rc_Asset recs = items" by (simp add: recs comp_def)
  then show ?thesis using 1 2 thumbnail_map_Some[of ths] by (auto simp: recs dest: subsetD)
qed

text \<open>
  Every record of a listing is a row of the asset table that passes the filter of the request (so deleted
  assets appear only when they are asked for), with a thumbnail of its own and the tags linked to it; a page
  holds at most the requested number of records, and never more than a thousand.
\<close>

theorem asset_list_sound:
  assumes "AssetList E req w = (Inr (recs, num), w')" and "r \<in> set recs"
  shows "rc_Asset r \<in> set (w_assets w) \<and> asset_filter req w (rc_Asset r) \<and>
    (al_Status req \<noteq> ''deleted'' \<and> al_Deleted req \<noteq> Some True \<longrightarrow> as_DeletedAt (rc_Asset r) = 0) \<and>
    (\<forall>t. rc_Thumbnail r = Some t \<longrightarrow> t \<in> set (w_thumbnails w) \<and> th_AssetID t = obj_ID (rc_Asset r)) \<and>
    map obj_Name (rc_Tags r) = map (\<lambda>(l, t). obj_Name t) (filter (\<lambda>(l, t). at_AssetID l = obj_ID (rc_Asset r)) (joined_tags w)) \<and>
    (0 < bq_PageNum req \<and> 0 < bq_PageSize req \<longrightarrow> int (length recs) \<le> min 1000 (bq_PageSize req))"
proof -
  from assms(1) obtain items w1 where page: "platformAssetStore_List E req w = (Inr (items, num), w1)"
    and recs: "assetRecords items w1 = (Inr recs, w')"
    unfolding AssetList_def by (elim bindE_Inr_elim) (auto elim: bindE_Inr_elim)
  from page obtain fs fs1 hits where w1: "w1 = w\<lparr>w_faults := fs\<rparr>" and
    q: "run_query (meta_columns @ asset_columns) obj_CreatedAt
      (ToQuery (e_lower E) (basic_query.truncate req) (asset_filter req (w\<lparr>w_faults := fs1\<rparr>))) (w_assets w) = Some (items, hits)"
    unfolding platformAssetStore_List_def by (rule assets_t.page_result) auto
  have filt: "asset_filter req (w\<lparr>w_faults := fs1\<rparr>) = asset_filter req w"
    by (rule ext) (simp add: asset_filter_def tagged_assets_def)
  have items: "set items \<subseteq> {a \<in> set (w_assets w). asset_filter req w a}"
    using run_query_sound(1)[OF q] by (auto simp: filt ToQuery_def Let_def)
  have len: "int (length items) \<le> min 1000 (bq_PageSize req)" if "0 < bq_PageNum req" "0 < bq_PageSize req"
  proof -
    let ?size = "if 1000 < bq_PageSize req then 1000 else bq_PageSize req"
    have "q_page (ToQuery (e_lower E) (basic_query.truncate req) (asset_filter req (w\<lparr>w_faults := fs1\<rparr>))) =
        Some (wrap64 ((bq_PageNum req - 1) * ?size), ?size)"
      using that by (simp add: ToQuery_def Let_def basic_query.defs if_distrib cong: if_cong)
    from run_query_sound(2)[OF q this] that show ?thesis by (cases "1000 < bq_PageSize req") (simp_all add: le_nat_iff, linarith?)
  qed
  have r: "rc_Asset r \<in> set items" "map rc_Asset recs = items"
    using assetRecords_result[OF recs] assms(2) by (metis image_eqI list.set_map)+
  then have "length recs = length items" by (metis length_map)
  moreover have "joined_tags w1 = joined_tags w" "w_thumbnails w1 = w_thumbnails w" by (simp_all add: w1 joined_tags_def)
  moreover have "asset_filter req w (rc_Asset r)" using r items by auto
  ultimately show ?thesis
    using assetRecords_result[OF recs] assms(2) r(1) items len asset_filter_deleted[of req w "rc_Asset r"] by auto
qed

definition listed_asset :: asset where
  "listed_asset = new_asset\<lparr>obj_ID := ''a1'', obj_Name := ''cat'', as_MediaType := ''image''\<rparr>"

definition listed_world :: world where
  "listed_world = empty_world\<lparr>w_assets := [listed_asset, listed_asset\<lparr>obj_ID := ''a2'', as_DeletedAt := 7\<rparr>]\<rparr>"

lemma asset_delete_once_witness:
  "\<exists>rec w'. AssetDelete sample_env ''a1'' listed_world = (Inr rec, w') \<and> as_DeletedAt (rc_Asset rec) = 1000 \<and>
     AssetDelete sample_env ''a1'' w' = (Inl (Errorf ''asset not found with id %v'' [''a1'']), w')"
proof -
  have id: "obj_ID listed_asset = ''a1''" by (simp add: listed_asset_def)
  have "keys_distinct (w_assets listed_world)" "healthy listed_world" "listed_asset \<in> set (w_assets listed_world)"
    "as_DeletedAt listed_asset = 0" "w_now listed_world = 1000000000"
    by (simp_all add: listed_world_def listed_asset_def keys_distinct_def healthy_def empty_world_def new_asset_def
      object_meta.defs asset.defs)
  then show ?thesis
    using asset_delete_once[of listed_world listed_asset "touch sample_env (w_now listed_world) (listed_asset\<lparr>as_DeletedAt := UnixMilli (w_now listed_world)\<rparr>)" sample_env]
    by (auto simp: id touch_def sample_env_def UnixMilli_def)
qed

definition cat_request :: asset_list_request where
  "cat_request = new_asset_query\<lparr>bq_Keyword := ''cat'', bq_PageNum := 1, bq_PageSize := 5, al_MediaType := ''image''\<rparr>"

lemma sample_list:
  "case AssetList sample_env cat_request listed_world of
     (Inr (recs, n), w) \<Rightarrow> map (obj_ID \<circ> rc_Asset) recs = [''a1''] \<and> n = 1 | _ \<Rightarrow> False"
  by code_simp

lemma asset_list_sound_witness:
  "\<exists>r recs n w'. AssetList sample_env cat_request listed_world = (Inr ([r] @ recs, n), w') \<and>
     asset_filter cat_request listed_world (rc_Asset r) \<and> as_DeletedAt (rc_Asset r) = 0"
proof -
  obtain r recs n w' where run: "AssetList sample_env cat_request listed_world = (Inr (r # recs, n), w')"
    using sample_list by (auto split: prod.splits sum.splits)
  have "al_Status cat_request = []" "al_Deleted cat_request = None"
    by (simp_all add: cat_request_def new_asset_query_def basic_query.defs asset_list_request.defs)
  with asset_list_sound[OF run, of r] run show ?thesis by auto
qed

end
