(* ===== verification/AssetLinks.thy ===== *)
theory AssetLinks
  imports AssetLaws
begin

text \<open>
  The zip download of a canvas, which copies stored contents, and the replacement of the links
  between an asset and its tags, which is atomic.
\<close>

subsection \<open>The zip download of a canvas\<close>

text \<open>The bytes of the content of an asset, and the part of the world that they depend on.\<close>

definition asset_bytes :: "env \<Rightarrow> world \<Rightarrow> string \<Rightarrow> string \<Rightarrow> bool" where
  "asset_bytes E w aid bytes \<longleftrightarrow> (\<exists>a \<in> set (w_assets w). obj_ID a = aid \<and> as_DeletedAt a \<le> 0 \<and>
     (\<exists>b \<in> set (w_backends w). \<exists>p. obj_ID b = as_StorageBackendID a \<and> localObjectPath E b (as_ObjectKey a) = Inr p \<and>
        file_at w p = Some bytes))"

definition same_content :: "world \<Rightarrow> world \<Rightarrow> bool" where
  "same_content w x \<longleftrightarrow> w_assets x = w_assets w \<and> w_backends x = w_backends w \<and> file_at x = file_at w"

lemma same_content_plain: "plain (same_content w)" "plain (\<lambda>x. same_content w x \<and> c)"
  by (rule plainI; simp add: same_content_def)+

lemma existing_object_triple:
  "triple (same_content w) (existing_object E bid key msg)
     (\<lambda>p x. same_content w x \<and> (\<exists>b \<in> set (w_backends w). obj_ID b = bid \<and> localObjectPath E b key = Inr p)) (\<lambda>_. True)"
proof -
  let ?I = "same_content w"
  let ?B = "\<lambda>b. b \<in> set (w_backends w) \<and> obj_ID b = bid"
  let ?P = "\<lambda>p. \<exists>b \<in> set (w_backends w). obj_ID b = bid \<and> localObjectPath E b key = Inr p"
  have get: "triple ?I (storageBackendStore_Get bid) (\<lambda>b x. ?I x \<and> ?B b) (\<lambda>_. True)"
    unfolding storageBackendStore_Get_def db_first_def
    by (rule backends_t.first_triple[OF same_content_plain(1) _ same_content_plain(2)]) (auto simp: same_content_def)
  have path: "triple (\<lambda>x. ?I x \<and> ?B b) (lift_sum (localObjectPath E b key)) (\<lambda>p x. ?I x \<and> ?P p) (\<lambda>_. True)" for b
    by (rule triple_lift_sum) auto
  have stat: "triple (\<lambda>x. ?I x \<and> ?P p) (attempt (os_Stat p)) (\<lambda>_ x. ?I x \<and> ?P p) (\<lambda>_. True)" for p
  proof (rule triple_attempt)
    have "preserves (\<lambda>x. ?I x \<and> ?P p) (os_Stat p)"
      unfolding os_Stat_def by (rule io_preserves[OF same_content_plain(2)]) (auto intro!: preservesI split: option.split)
    from preserves_triple[OF this]
    show "triple (\<lambda>x. ?I x \<and> ?P p) (os_Stat p) (\<lambda>_ x. ?I x \<and> ?P p) (\<lambda>x. \<forall>e::err. ?I x \<and> ?P p)" by simp
  qed
  show ?thesis
    unfolding existing_object_def
    by (rule triple_bindE[OF get triple_bindE[OF path triple_bindE[OF stat]]])
      (intro triple_case_sum triple_if triple_throw triple_ret; simp)
qed

lemma zip_item_triple:
  assumes "keys_distinct (w_assets w)"
  shows "triple (same_content w) (zip_item E i used item)
     (\<lambda>(entry, _) x. same_content w x \<and> asset_bytes E w (fst item) (snd entry)) (\<lambda>_. True)"
proof -
  let ?I = "same_content w"
  let ?A = "\<lambda>a. a \<in> set (w_assets w) \<and> obj_ID a = fst item"
  let ?R = "\<lambda>a p. \<exists>b \<in> set (w_backends w). obj_ID b = as_StorageBackendID a \<and> localObjectPath E b (as_ObjectKey a) = Inr p"
  have get: "triple ?I (platformAssetStore_Get aid) (\<lambda>a x. ?I x \<and> a \<in> set (w_assets w) \<and> obj_ID a = aid) (\<lambda>_. True)" for aid
    unfolding platformAssetStore_Get_def db_first_def
    by (rule assets_t.first_triple[OF same_content_plain(1) _ same_content_plain(2)]) (auto simp: same_content_def)
  have content: "triple ?I (AssetContentPath E aid)
      (\<lambda>(p, _) x. ?I x \<and> (\<exists>a. a \<in> set (w_assets w) \<and> obj_ID a = aid \<and> ?R a p)) (\<lambda>_. True)" for aid
  proof -
    have "triple (\<lambda>x. ?I x \<and> a \<in> set (w_assets w) \<and> obj_ID a = aid)
        (bindE (existing_object E (as_StorageBackendID a) (as_ObjectKey a) msg) (\<lambda>path. ret (path, as_MimeType a)))
        (\<lambda>(p, _) x. ?I x \<and> (\<exists>a. a \<in> set (w_assets w) \<and> obj_ID a = aid \<and> ?R a p)) (\<lambda>_. True)" for a msg
    proof (cases "a \<in> set (w_assets w) \<and> obj_ID a = aid")
      case True
      then have "triple ?I (bindE (existing_object E (as_StorageBackendID a) (as_ObjectKey a) msg) (\<lambda>path. ret (path, as_MimeType a)))
        (\<lambda>(p, _) x. ?I x \<and> (\<exists>a. a \<in> set (w_assets w) \<and> obj_ID a = aid \<and> ?R a p)) (\<lambda>_. True)"
        by (intro triple_bindE[OF existing_object_triple] triple_ret) auto
      then show ?thesis using True by (simp add: triple_def)
    qed (auto simp: triple_def)
    then show ?thesis unfolding AssetContentPath_def by (rule triple_bindE[OF get])
  qed
  have add: "triple ?I (addFileToZip p name) (\<lambda>e x. ?I x \<and> file_at w p = Some (snd e)) (\<lambda>_. True)" for p name
    unfolding addFileToZip_def os_Read_def
    by (rule triple_bindE[where P = "\<lambda>c x. ?I x \<and> file_at w p = Some c"]; rule io_triple[OF same_content_plain(1)] io_triple[OF same_content_plain(2)])
      (auto simp: triple_def same_content_def split: option.splits if_splits)
  have item: "triple (\<lambda>x. ?I x \<and> ?A a) (if 0 < as_DeletedAt a then throw (err0 a)
      else bindE (AssetContentPath E (obj_ID a)) (\<lambda>(p, _). let (name, used') = nm p a in bindE (addFileToZip p name) (\<lambda>entry. ret (entry, used'))))
     (\<lambda>(entry, _) x. ?I x \<and> asset_bytes E w (fst item) (snd entry)) (\<lambda>_. True)" for a err0 and nm :: "_ \<Rightarrow> _ \<Rightarrow> _ \<times> (string \<Rightarrow> int)"
  proof (cases "?A a \<and> \<not> 0 < as_DeletedAt a")
    case True
    have only: "x = a" if "x \<in> set (w_assets w)" "obj_ID x = fst item" for x
      using keys_distinct_unique[OF assms] True that by metis
    have "triple (\<lambda>x. ?I x \<and> (\<exists>a. a \<in> set (w_assets w) \<and> obj_ID a = fst item \<and> ?R a p))
        (let (name, used') = nm p a in bindE (addFileToZip p name) (\<lambda>entry. ret (entry, used')))
        (\<lambda>(entry, _) x. ?I x \<and> asset_bytes E w (fst item) (snd entry)) (\<lambda>_. True)" for p
    proof (cases "?R a p")
      case R: True
      have "asset_bytes E w (fst item) c" if "file_at w p = Some c" for c
        using True R that by (auto simp: asset_bytes_def not_less)
      then have "triple ?I (bindE (addFileToZip p name) (\<lambda>entry. ret (entry, used')))
          (\<lambda>(entry, _) x. ?I x \<and> asset_bytes E w (fst item) (snd entry)) (\<lambda>_. True)" for name and used' :: "string \<Rightarrow> int"
        by (intro triple_bindE[OF add] triple_ret) auto
      then show ?thesis by (cases "nm p a") (auto simp: triple_def)
    next
      case False
      then show ?thesis using only by (auto simp: triple_def)
    qed
    then have "triple ?I (bindE (AssetContentPath E (obj_ID a)) (\<lambda>(p, _). let (name, used') = nm p a in bindE (addFileToZip p name) (\<lambda>entry. ret (entry, used'))))
        (\<lambda>(entry, _) x. ?I x \<and> asset_bytes E w (fst item) (snd entry)) (\<lambda>_. True)"
      using True by (intro triple_bindE[OF content]) (auto split: prod.splits)
    then show ?thesis using True by (auto simp: triple_def)
  qed (auto simp: triple_def)
  show ?thesis
    unfolding zip_item_def Let_def by (rule triple_bindE[OF get item[unfolded Let_def]])
qed

lemma zip_items_result:
  assumes "keys_distinct (w_assets w)"
  shows "same_content w x \<Longrightarrow> zip_items E i used acc items x = (Inr (None, entries), x') \<Longrightarrow>
    \<exists>new. entries = acc @ new \<and> list_all2 (\<lambda>item entry. asset_bytes E w (fst item) (snd entry)) items new"
proof (induction items arbitrary: i used acc x)
  case Nil
  then show ?case by simp
next
  case (Cons item items)
  from Cons.prems(2) obtain entry used' x1 where one: "zip_item E i used item x = (Inr (entry, used'), x1)"
    and rest: "zip_items E (Suc i) used' (acc @ [entry]) items x1 = (Inr (None, entries), x')"
    by (auto simp: bindE_apply attempt_def split: prod.splits sum.splits)
  from triple_Inr[OF zip_item_triple[OF assms] Cons.prems(1) one]
  have "same_content w x1" "asset_bytes E w (fst item) (snd entry)" by simp_all
  with Cons.IH[OF _ rest] show ?case by auto
qed


definition zip_world :: world where
  "zip_world = upload_world\<lparr>w_assets := [new_asset\<lparr>obj_ID := ''a1'', obj_Name := ''cat.png'', as_StorageBackendID := ''b1'', as_ObjectKey := ''k/cat''\<rparr>],
     w_files := [(''/data/k/cat'', ''meow'')]\<rparr>"

lemma sample_zip:
  "case CanvasAssetDownloadZip sample_env [''a1''] [(''a1'', ''x'')] zip_world of
     (Inr (None, entries), w) \<Rightarrow> entries = [(''x'', ''meow''), (''cat.png'', ''meow'')] | _ \<Rightarrow> False"
  by code_simp



subsection \<open>Replacing the tags of an asset\<close>

text \<open>The links of an asset from one source, in table order.\<close>

definition links_of :: "string \<Rightarrow> string \<Rightarrow> world \<Rightarrow> asset_tag list" where
  "links_of aid src w = filter (\<lambda>l. at_AssetID l = aid \<and> at_Source l = src) (w_asset_tags w)"

definition other_links :: "string \<Rightarrow> string \<Rightarrow> world \<Rightarrow> asset_tag list" where
  "other_links aid src w = filter (\<lambda>l. \<not> (at_AssetID l = aid \<and> at_Source l = src)) (w_asset_tags w)"

definition linked :: "string \<Rightarrow> string \<Rightarrow> string list \<Rightarrow> asset_tag list \<Rightarrow> world \<Rightarrow> bool" where
  "linked aid src ids ls w \<longleftrightarrow> map at_TagID (links_of aid src w) = ids \<and> other_links aid src w = ls"

lemma links_plain: "plain (linked aid src ids ls)" "plain (\<lambda>w. w_asset_tags w = rs)"
  by (rule plainI; simp add: linked_def links_of_def other_links_def)+

lemma link_triple:
  assumes "src \<noteq> []"
  shows "triple (linked aid src ids ls)
    (bindE (db_create E asset_tag_dflt asset_tags_tbl
      (new_asset_tag\<lparr>obj_Name := ''asset-tag'', at_AssetID := aid, at_TagID := tid, at_Source := src\<rparr>)) (\<lambda>_. ret ()))
    (\<lambda>_. linked aid src (ids @ [tid]) ls) (\<lambda>_. True)"
proof (rule triple_bindE[OF asset_tags_t.create_triple[OF links_plain(1)]])
  show "plain (linked aid src (ids @ [tid]) ls)" by (rule links_plain(1))
qed (use assms in \<open>auto intro!: triple_ret simp: linked_def links_of_def other_links_def asset_tag_dflt_def BeforeCreate_def\<close>)

lemma links_triple:
  assumes "src \<noteq> []"
  shows "triple (linked aid src ids ls)
    (for_each tags (\<lambda>t. bindE (db_create E asset_tag_dflt asset_tags_tbl
      (new_asset_tag\<lparr>obj_Name := ''asset-tag'', at_AssetID := aid, at_TagID := obj_ID t, at_Source := src\<rparr>)) (\<lambda>_. ret ())))
    (\<lambda>_. linked aid src (ids @ map obj_ID tags) ls) (\<lambda>_. True)"
proof (induction tags arbitrary: ids)
  case Nil
  show ?case unfolding for_each.simps by (rule triple_ret) simp
next
  case (Cons t tags)
  show ?case
    by (simp only: for_each.simps, rule triple_bindE[OF link_triple[OF assms]])
      (rule triple_mono[OF Cons.IH[of "ids @ [obj_ID t]"]]; simp)
qed

lemma replace_triple:
  assumes "src \<noteq> []"
  shows "triple (\<lambda>w. w_asset_tags w = rs) (assetTagStore_Replace E aid tags src)
    (\<lambda>_. linked aid src (map obj_ID tags) (filter (\<lambda>l. \<not> (at_AssetID l = aid \<and> at_Source l = src)) rs)) (\<lambda>w. w_asset_tags w = rs)"
proof -
  let ?o = "filter (\<lambda>l. \<not> (at_AssetID l = aid \<and> at_Source l = src)) rs"
  let ?body = "bindE (db_delete asset_tags_tbl (\<lambda>l. at_AssetID l = aid \<and> at_Source l = src)) (\<lambda>_.
      for_each tags (\<lambda>t. bindE (db_create E asset_tag_dflt asset_tags_tbl
        (new_asset_tag\<lparr>obj_Name := ''asset-tag'', at_AssetID := aid, at_TagID := obj_ID t, at_Source := src\<rparr>)) (\<lambda>_. ret ())))"
  have del: "triple (\<lambda>w. w_asset_tags w = rs) (db_delete asset_tags_tbl (\<lambda>l. at_AssetID l = aid \<and> at_Source l = src))
     (\<lambda>_. linked aid src [] ?o) (\<lambda>_. True)"
  proof (rule triple_mono[OF asset_tags_t.delete_triple[OF links_plain(2) links_plain(1)]])
    show "linked aid src [] ?o (upd_rows asset_tags_tbl (filter (\<lambda>r. \<not> (at_AssetID r = aid \<and> at_Source r = src))) w)"
      if "w_asset_tags w = rs" for w
      using that by (auto simp: linked_def links_of_def other_links_def filter_empty_conv)
  qed simp_all
  have body: "triple (\<lambda>w. w_asset_tags w = rs) ?body (\<lambda>_. linked aid src (map obj_ID tags) ?o) (\<lambda>_. True)"
    by (rule triple_bindE[OF del triple_mono[OF links_triple[OF assms, of aid "[]" ?o tags E]]]) simp_all
  show ?thesis
  proof (rule tripleI)
    fix w w' :: world and x assume w: "w_asset_tags w = rs" and run: "assetTagStore_Replace E aid tags src w = (Inr x, w')"
    show "linked aid src (map obj_ID tags) ?o w'"
      by (cases rule: transaction_cases[of ?body w])
        (use run triple_Inr[OF body, of "w\<lparr>w_tx := Some True\<rparr>"] w in
          \<open>auto simp: assetTagStore_Replace_def linked_def links_of_def other_links_def\<close>)
  next
    fix w w' :: world and e assume w: "w_asset_tags w = rs" and run: "assetTagStore_Replace E aid tags src w = (Inl e, w')"
    show "w_asset_tags w' = rs"
      by (cases rule: transaction_cases[of ?body w]) (use run w in \<open>auto simp: assetTagStore_Replace_def\<close>)
  qed
qed

text \<open>The tags of the names: each is in its table, and the rows of the links are untouched.\<close>

definition tagged :: "asset_tag list \<Rightarrow> string \<Rightarrow> string list \<Rightarrow> tag list \<Rightarrow> world \<Rightarrow> bool" where
  "tagged rs src names tags w \<longleftrightarrow> w_asset_tags w = rs \<and>
     list_all2 (\<lambda>n t. t \<in> set (w_tags w) \<and> obj_Name t = n \<and> tg_Source t = src) names tags"

lemma tagged_plain: "plain (tagged rs src names tags)"
  by (rule plainI) (simp add: tagged_def)

lemma tagged_add: "tagged rs src names tags w \<Longrightarrow> t \<in> set (w_tags w) \<Longrightarrow> obj_Name t = n \<Longrightarrow> tg_Source t = src \<Longrightarrow>
    tagged rs src (names @ [n]) (tags @ [t]) w"
  by (simp add: tagged_def list_all2_appendI)

lemma first_or_create_triple:
  assumes "src \<noteq> []"
  shows "triple (tagged rs src names tags) (tagStore_FirstOrCreate E (new_tag\<lparr>tg_Source := src, obj_Name := n\<rparr>))
    (\<lambda>t. tagged rs src (names @ [n]) (tags @ [t])) (\<lambda>w. w_asset_tags w = rs)"
proof -
  let ?d = "new_tag\<lparr>tg_Source := src, obj_Name := n\<rparr>"
  have create: "triple (tagged rs src names tags) (db_create E tag_dflt tags_tbl ?d)
      (\<lambda>t. tagged rs src (names @ [n]) (tags @ [t])) (\<lambda>w. w_asset_tags w = rs)"
  proof (rule tags_t.create_triple[OF tagged_plain tagged_plain])
    fix w :: world and x :: tag
    let ?u = "if obj_ID ?d = [] then Suc (w_uuids w) else w_uuids w"
    assume w: "tagged rs src names tags w" and x: "x = tag_dflt (BeforeCreate (e_uuid E (w_uuids w)) (w_now w) ?d)"
    have xs: "obj_Name x = n" "tg_Source x = src" using assms by (simp_all add: x tag_dflt_def BeforeCreate_def)
    have "tagged rs src names tags (upd_rows tags_tbl (\<lambda>rs. rs @ [x]) (w\<lparr>w_uuids := ?u\<rparr>))"
      using w unfolding tagged_def by (auto elim: list.rel_mono_strong)
    then show "tagged rs src (names @ [n]) (tags @ [x]) (upd_rows tags_tbl (\<lambda>rs. rs @ [x]) (w\<lparr>w_uuids := ?u\<rparr>))"
      by (rule tagged_add) (simp_all add: xs)
  qed (simp add: tagged_def)
  show ?thesis
    unfolding tagStore_FirstOrCreate_def db_first_def
    by (rule triple_bindE[OF tags_t.first_attempt_triple[OF tagged_plain]])
      (intro triple_case_sum triple_if triple_throw triple_ret triple_mono[OF create]; auto simp: tagged_def list_all2_appendI)
qed

lemma tags_triple:
  assumes "src \<noteq> []"
  shows "triple (tagged rs src names tags) (map_each ns (\<lambda>n. tagStore_FirstOrCreate E (new_tag\<lparr>tg_Source := src, obj_Name := n\<rparr>)))
    (\<lambda>ts. tagged rs src (names @ ns) (tags @ ts)) (\<lambda>w. w_asset_tags w = rs)"
proof (induction ns arbitrary: names tags)
  case Nil
  show ?case unfolding map_each.simps by (rule triple_ret) simp
next
  case (Cons n ns)
  have "triple (tagged rs src (names @ [n]) (tags @ [t]))
      (bindE (map_each ns (\<lambda>n. tagStore_FirstOrCreate E (new_tag\<lparr>tg_Source := src, obj_Name := n\<rparr>))) (\<lambda>ts. ret (t # ts)))
      (\<lambda>ts. tagged rs src (names @ n # ns) (tags @ ts)) (\<lambda>w. w_asset_tags w = rs)" for t
    by (rule triple_bindE[OF Cons.IH triple_ret]) simp
  then show ?case unfolding map_each.simps by (rule triple_bindE[OF first_or_create_triple[OF assms]])
qed

lemma replace_keeps_tags:
  "preserves (\<lambda>w. w_tags w = ts) (assetTagStore_Replace E aid tags src)"
proof -
  have p: "plain (\<lambda>w. w_tags w = ts)" by (rule plainI) simp
  show ?thesis
    unfolding assetTagStore_Replace_def
    by (intro transaction_preserves[OF p] preserves_bindE asset_tags_t.delete_preserves[OF p] preserves_for_each preserves_ret
        asset_tags_t.create_preserves[OF p]) simp_all
qed

text \<open>
  C37. Replacing the tags of an asset is atomic. On success the links of the asset from this source are those to
  the tags named, one for each name that is not blank, in the order given; links of other assets or other sources
  are as before. On any failure no link has changed.
\<close>

theorem replace_tags_atomic:
  assumes "replaceAssetTags E aid names src w = (r, w')" and "src \<noteq> []"
  shows "case r of
      Inl _ \<Rightarrow> w_asset_tags w' = w_asset_tags w
    | Inr _ \<Rightarrow> other_links aid src w' = other_links aid src w \<and>
        list_all2 (\<lambda>n l. \<exists>t \<in> set (w_tags w'). obj_Name t = n \<and> tg_Source t = src \<and> obj_ID t = at_TagID l)
          (filter (\<lambda>n. n \<noteq> []) (map TrimSpace names)) (links_of aid src w')"
proof -
  let ?ns = "filter (\<lambda>n. n \<noteq> []) (map TrimSpace names)"
  define make where "make = map_each ?ns (\<lambda>n. tagStore_FirstOrCreate E (new_tag\<lparr>tg_Source := src, obj_Name := n\<rparr>))"
  have run: "bindE make (\<lambda>tags. assetTagStore_Replace E aid tags src) w = (r, w')"
    using assms(1) by (simp add: replaceAssetTags_def make_def)
  have start: "tagged (w_asset_tags w) src [] [] w" by (simp add: tagged_def)
  have mk: "triple (tagged (w_asset_tags w) src [] []) make (\<lambda>ts. tagged (w_asset_tags w) src ?ns ts) (\<lambda>x. w_asset_tags x = w_asset_tags w)"
    using tags_triple[OF assms(2), of "w_asset_tags w" "[]" "[]" ?ns E] by (simp only: append_Nil make_def)
  show ?thesis
  proof (cases r)
    case (Inl e)
    from run[unfolded Inl] have "w_asset_tags w' = w_asset_tags w"
    proof (cases rule: bindE_Inl_elim)
      case first
      then show ?thesis by (rule triple_Inl[OF mk start])
    next
      case (second tags w1)
      then show ?thesis using triple_Inr[OF mk start second(1)] triple_Inl[OF replace_triple[OF assms(2)] _ second(2)] by (simp add: tagged_def)
    qed
    then show ?thesis by (simp add: Inl)
  next
    case (Inr x)
    from run[unfolded Inr] obtain tags w1 where one: "make w = (Inr tags, w1)"
      and two: "assetTagStore_Replace E aid tags src w1 = (Inr x, w')" by (rule bindE_Inr_elim)
    have t: "tagged (w_asset_tags w) src ?ns tags w1" by (rule triple_Inr[OF mk start one])
    then have links: "linked aid src (map obj_ID tags) (other_links aid src w) w'"
      using triple_Inr[OF replace_triple[OF assms(2)] _ two] by (simp add: tagged_def other_links_def)
    have "w_tags w' = w_tags w1" using preservesD[OF replace_keeps_tags, where s = w1] two by (metis snd_conv)
    then have "list_all2 (\<lambda>n t. t \<in> set (w_tags w') \<and> obj_Name t = n \<and> tg_Source t = src) ?ns tags"
      using t by (simp add: tagged_def)
    moreover have "list_all2 (\<lambda>t l. obj_ID t = at_TagID l) tags (links_of aid src w')"
      using links by (auto simp: linked_def list_all2_conv_all_nth dest: map_eq_imp_length_eq) (metis length_map nth_map)
    ultimately have "list_all2 (\<lambda>n l. \<exists>t \<in> set (w_tags w'). obj_Name t = n \<and> tg_Source t = src \<and> obj_ID t = at_TagID l) ?ns (links_of aid src w')"
      by (rule list_all2_trans[rotated]) blast
    then show ?thesis using links by (simp add: Inr linked_def)
  qed
qed

lemma sample_tags:
  "case replaceAssetTags sample_env ''a1'' ['' cat'', [], ''dog''] ''user'' empty_world of
     (Inr _, w) \<Rightarrow> length (w_asset_tags w) = 2 | _ \<Rightarrow> False"
  by code_simp

lemma replace_tags_atomic_witness:
  "\<exists>w' l m. replaceAssetTags sample_env ''a1'' ['' cat'', [], ''dog''] ''user'' empty_world = (Inr (), w') \<and>
     length (w_asset_tags w') = 2 \<and> links_of ''a1'' ''user'' w' = [l, m] \<and> other_links ''a1'' ''user'' w' = []"
proof -
  obtain w' where run: "replaceAssetTags sample_env ''a1'' ['' cat'', [], ''dog''] ''user'' empty_world = (Inr (), w')"
    and two: "length (w_asset_tags w') = 2"
    using sample_tags by (auto split: prod.splits sum.splits)
  have "other_links ''a1'' ''user'' w' = []"
    using replace_tags_atomic[OF run] by (simp add: other_links_def empty_world_def)
  moreover from this have "links_of ''a1'' ''user'' w' = w_asset_tags w'"
    unfolding links_of_def other_links_def by (simp add: filter_empty_conv filter_id_conv)
  moreover from two obtain l m where "w_asset_tags w' = [l, m]" by (auto simp: numeral_2_eq_2 length_Suc_conv)
  ultimately show ?thesis using run two by auto
qed

end
