(* ===== verification/ChunkUpload.thy ===== *)
theory ChunkUpload
  imports AssetLaws
begin

text \<open>
  Chunked uploads of \<open>service/v1/platform/service.go\<close>: the parts of a file are stored under a directory
  named after its checksum, listed when the upload is resumed, merged and checked at the end, and removed
  by a cancellation or by the cleanup of stale directories. The package variables of the service are
  a configuration that the operations take.
\<close>

subsection \<open>Requests, answers and configuration\<close>

record chunk_config =
  cc_Dir :: string
  cc_Hours :: int

record chunk_request =
  cu_Filename :: string
  cu_Size :: int
  cu_Checksum :: string
  cu_ChunkSize :: int
  cu_TotalChunks :: int
  cu_TagNames :: "string list"
  cu_SourceType :: string

type_synonym chunk_complete_request = chunk_request

record chunk_init_response =
  ci_Checksum :: string
  ci_UploadedChunks :: "int list"
  ci_ChunkSize :: int
  ci_TotalChunks :: int
  ci_ExpiresHours :: int

record chunk_part_response =
  cp_Checksum :: string
  cp_Index :: int
  cp_Size :: int

record chunk_cancel_response =
  cx_Checksum :: string
  cx_Deleted :: bool

definition SetChunkUploadTempDir :: "string \<Rightarrow> chunk_config \<Rightarrow> chunk_config" where
  "SetChunkUploadTempDir dir c = (if TrimSpace dir \<noteq> [] then c\<lparr>cc_Dir := dir\<rparr> else c)"

definition hour :: time where
  "hour = 3600 * 1000000000"

text \<open>What starting the cleanup leaves in the configuration, and the age by which it will go.\<close>

definition StartChunkUploadCleanup :: "time \<Rightarrow> chunk_config \<Rightarrow> chunk_config \<times> time" where
  "StartChunkUploadCleanup ttl c =
     (let ttl' = (if ttl \<le> 0 then 24 * hour else ttl) in (c\<lparr>cc_Hours := go_div ttl' hour\<rparr>, ttl'))"

subsection \<open>Operations\<close>

definition validateChunkUploadSpec :: "string \<Rightarrow> int \<Rightarrow> int \<Rightarrow> int \<Rightarrow> err + unit" where
  "validateChunkUploadSpec checksum chunkSize totalChunks fsize =
     (case validateChecksum checksum of Inl e \<Rightarrow> Inl e | Inr _ \<Rightarrow>
      if chunkSize \<le> 0 then Inl (Status ErrValidation ''chunk_size must be greater than zero'' [])
      else if totalChunks \<le> 0 then Inl (Status ErrValidation ''total_chunks must be greater than zero'' [])
      else if fsize \<le> 0 then Inl (Status ErrValidation ''size must be greater than zero'' [])
      else if go_div (wrap64 (wrap64 (fsize + chunkSize) - 1)) chunkSize \<noteq> totalChunks
      then Inl (Status ErrValidation ''total_chunks does not match size and chunk_size'' [])
      else Inr ())"

definition chunkPartName :: "int \<Rightarrow> string" where
  "chunkPartName index = fmt_0d 6 index @ ''.part''"

fun part_index :: "string \<times> time option \<Rightarrow> int option" where
  "part_index (name, Some _) = None"
| "part_index (name, None) =
     (if HasSuffix name ''.part'' then Atoi (TrimSuffix name ''.part'') else None)"

definition uploadedChunkIndexes :: "string \<Rightarrow> int list m" where
  "uploadedChunkIndexes dir =
     bindE (attempt (os_ReadDir dir)) (\<lambda>r. case r of
       Inl e \<Rightarrow> if e = NotExist then ret [] else throw e
     | Inr entries \<Rightarrow> ret (sort (List.map_filter part_index entries)))"

definition touchChunkUploadDir :: "string \<Rightarrow> unit m" where
  "touchChunkUploadDir dir = os_Chtimes dir"

definition AssetChunkUploadInit :: "env \<Rightarrow> chunk_config \<Rightarrow> chunk_request \<Rightarrow> chunk_init_response m" where
  "AssetChunkUploadInit E c req =
     bindE (lift_sum (validateChunkUploadSpec (cu_Checksum req) (cu_ChunkSize req) (cu_TotalChunks req) (cu_Size req))) (\<lambda>_.
     bindE (lift_sum (chunkUploadDir E (cc_Dir c) (cu_Checksum req))) (\<lambda>dir.
     bindE (os_MkdirAll dir) (\<lambda>_.
     bindE (touchChunkUploadDir dir) (\<lambda>_.
     bindE (uploadedChunkIndexes dir) (\<lambda>uploaded.
     ret \<lparr>ci_Checksum = cu_Checksum req, ci_UploadedChunks = uploaded, ci_ChunkSize = cu_ChunkSize req,
          ci_TotalChunks = cu_TotalChunks req, ci_ExpiresHours = cc_Hours c\<rparr>)))))"

text \<open>A step that removes a file when it fails, and keeps its error.\<close>

definition or_remove :: "string \<Rightarrow> 'a m \<Rightarrow> 'a m" where
  "or_remove p m = bindE (attempt m) (\<lambda>r. case r of
     Inr x \<Rightarrow> ret x | Inl e \<Rightarrow> bindE (attempt (os_Remove p)) (\<lambda>_. throw e))"

definition store_part :: "string \<Rightarrow> string \<Rightarrow> string \<Rightarrow> unit m" where
  "store_part tmpPath partPath body =
     bindE (os_Create tmpPath) (\<lambda>_.
     bindE (or_remove tmpPath (os_Append tmpPath body)) (\<lambda>_.
     bindE (or_remove tmpPath (io (ret ()))) (\<lambda>_.
     or_remove tmpPath (os_Rename tmpPath partPath))))"

definition AssetChunkUploadPart :: "env \<Rightarrow> chunk_config \<Rightarrow> string \<Rightarrow> int \<Rightarrow> string \<Rightarrow> chunk_part_response m" where
  "AssetChunkUploadPart E c checksum index body =
     bindE (lift_sum (validateChecksum checksum)) (\<lambda>_.
     if index < 0 then throw (Status ErrValidation ''chunk index must be greater than or equal to zero'' [])
     else bindE (lift_sum (chunkUploadDir E (cc_Dir c) checksum)) (\<lambda>dir.
     bindE (os_MkdirAll dir) (\<lambda>_.
     bindE (store_part (JoinPath [dir, fmt_0d 6 index @ ''.part.tmp'']) (JoinPath [dir, chunkPartName index]) body) (\<lambda>_.
     bindE (touchChunkUploadDir dir) (\<lambda>_.
     ret \<lparr>cp_Checksum = checksum, cp_Index = index, cp_Size = int (length body)\<rparr>)))))"

text \<open>The parts from number \<open>i\<close> on, \<open>n\<close> of them, appended to the merged file; the result is what was written.\<close>

fun merge_parts :: "string \<Rightarrow> string \<Rightarrow> int \<Rightarrow> nat \<Rightarrow> string m" where
  "merge_parts dir mergedPath i 0 = ret []"
| "merge_parts dir mergedPath i (Suc n) =
     bindE (attempt (os_Open (JoinPath [dir, chunkPartName i]))) (\<lambda>r. case r of
       Inl _ \<Rightarrow> bindE (attempt (os_Remove mergedPath)) (\<lambda>_. throw (Status ErrValidation ''missing chunk %d'' [fmt_d i]))
     | Inr _ \<Rightarrow>
         bindE (or_remove mergedPath (os_Copy (JoinPath [dir, chunkPartName i]) mergedPath)) (\<lambda>written.
         bindE (or_remove mergedPath (io (ret ()))) (\<lambda>_.
         bindE (merge_parts dir mergedPath (i + 1) n) (\<lambda>rest. ret (written @ rest)))))"

definition AssetChunkUploadComplete :: "env \<Rightarrow> chunk_config \<Rightarrow> chunk_complete_request \<Rightarrow> upload_response m" where
  "AssetChunkUploadComplete E c req =
     bindE (lift_sum (validateChunkUploadSpec (cu_Checksum req) (cu_ChunkSize req) (cu_TotalChunks req) (cu_Size req))) (\<lambda>_.
     bindE (lift_sum (chunkUploadDir E (cc_Dir c) (cu_Checksum req))) (\<lambda>dir.
     let mergedPath = JoinPath [dir, ''merged''] in
     bindE (os_Create mergedPath) (\<lambda>_.
     bindE (merge_parts dir mergedPath 0 (nat (cu_TotalChunks req))) (\<lambda>bytes.
     bindE (or_remove mergedPath (io (ret ()))) (\<lambda>_.
     if int (length bytes) \<noteq> cu_Size req \<or> e_sha256 E bytes \<noteq> ToLower (e_lower E) (cu_Checksum req)
     then bindE (attempt (os_Remove mergedPath)) (\<lambda>_.
          throw (Status ErrValidation ''merged file checksum or size mismatch'' []))
     else bindE (os_Read mergedPath) (\<lambda>src.
          bindE (createAssetFromReader E src (cu_Filename req) (cu_TagNames req) (cu_SourceType req)) (\<lambda>resp.
          bindE (attempt (os_RemoveAll dir)) (\<lambda>_. ret resp))))))))"

definition AssetChunkUploadCancel :: "env \<Rightarrow> chunk_config \<Rightarrow> string \<Rightarrow> chunk_cancel_response m" where
  "AssetChunkUploadCancel E c checksum =
     bindE (lift_sum (validateChecksum checksum)) (\<lambda>_.
     bindE (lift_sum (chunkUploadDir E (cc_Dir c) checksum)) (\<lambda>dir.
     bindE (attempt (os_Stat dir)) (\<lambda>r. case r of
       Inr _ \<Rightarrow> bindE (os_RemoveAll dir) (\<lambda>_. ret \<lparr>cx_Checksum = checksum, cx_Deleted = True\<rparr>)
     | Inl e \<Rightarrow> if e \<noteq> NotExist then throw e else ret \<lparr>cx_Checksum = checksum, cx_Deleted = False\<rparr>)))"

definition cleanup_entry :: "env \<Rightarrow> chunk_config \<Rightarrow> time \<Rightarrow> string \<times> time option \<Rightarrow> unit m" where
  "cleanup_entry E c cutoff entry = (case snd entry of
     None \<Rightarrow> ret ()
   | Some modified \<Rightarrow> bindE (attempt (io (ret ()))) (\<lambda>info. case info of
       Inl _ \<Rightarrow> ret ()
     | Inr _ \<Rightarrow> if modified < cutoff
         then bindE (attempt (os_RemoveAll (resolved E (JoinPath [cc_Dir c, fst entry])))) (\<lambda>_. ret ())
         else ret ()))"

definition cleanupChunkUploadDirs :: "env \<Rightarrow> chunk_config \<Rightarrow> time \<Rightarrow> unit m" where
  "cleanupChunkUploadDirs E c ttl =
     bindE (attempt (os_ReadDir (resolved E (cc_Dir c)))) (\<lambda>r. case r of
       Inl _ \<Rightarrow> ret ()
     | Inr entries \<Rightarrow> bindE (gets w_now) (\<lambda>now. for_each entries (cleanup_entry E c (now - ttl))))"

end
