(* ===== verification/ChunkLaws.thy ===== *)
theory ChunkLaws
  imports ChunkUpload
begin

text \<open>
  What chunked uploads promise: which shapes are accepted, that a stored part is found again, that no asset
  comes out of a merge unless its parts make up the declared content, and that cancellation and cleanup
  remove no more than they should.
\<close>

subsection \<open>Names in a directory\<close>

text \<open>A directory other than the root, in normal form; a file in it.\<close>

definition good_dir :: "string \<Rightarrow> bool" where
  "good_dir d \<longleftrightarrow> (\<exists>ds. canonical True ds \<and> ds \<noteq> [] \<and> d = path_of True ds)"

lemma join_normal:
  assumes "good_dir d" "normal n"
  shows "JoinPath [d, n] = d @ slash # n"
proof -
  obtain ds where ds: "canonical True ds" "ds \<noteq> []" "d = path_of True ds" using assms(1) by (auto simp: good_dir_def)
  have "path_of False [n] = n" using assms(2) by (auto simp: path_of_def normal_def)
  then have "JoinPath [d, n] = path_of True (ds @ [n])"
    using JoinPath_canonical[OF ds(1), of "[n]"] assms(2) ds(3) by simp
  then show ?thesis using ds by (simp add: path_of_def Join_snoc)
qed

lemma slash_free_last:
  assumes "slash \<notin> set n"
  shows "dropWhile (\<lambda>c. c \<noteq> slash) (rev (d @ slash # n)) = slash # rev d"
proof -
  have "dropWhile (\<lambda>c. c \<noteq> slash) (rev n @ ([slash] @ rev d)) = dropWhile (\<lambda>c. c \<noteq> slash) ([slash] @ rev d)"
    by (rule dropWhile_append2) (use assms in auto)
  then show ?thesis by simp
qed

lemma Clean_trailing: "good_dir d \<Longrightarrow> Clean (d @ [slash]) = d"
proof -
  assume "good_dir d"
  then obtain ds where ds: "canonical True ds" "ds \<noteq> []" "d = path_of True ds" by (auto simp: good_dir_def)
  have d: "d \<noteq> []" "IsAbs d" using ds by (simp_all add: path_of_def)
  have "ccomps (d @ slash # []) = clean_stack True (rev (ccomps d)) (Split slash [])" by (rule ccomps_join) (use d in auto)
  also have "\<dots> = ds" using ds by (simp add: ccomps_path_of)
  finally show ?thesis using d ds by (simp add: Clean_ccomps IsAbs_append)
qed

lemma Dir_join: "good_dir d \<Longrightarrow> normal n \<Longrightarrow> Dir (d @ slash # n) = d"
proof -
  assume d: "good_dir d" and n: "normal n"
  then have "rev (dropWhile (\<lambda>c. c \<noteq> slash) (rev (d @ slash # n))) = d @ [slash]"
    by (subst slash_free_last) (simp_all add: normal_def)
  then show ?thesis by (simp only: Dir_def Clean_trailing[OF d])
qed

lemma Base_join: "normal n \<Longrightarrow> Base (d @ slash # n) = n"
proof -
  assume n: "normal n"
  then have "n \<noteq> []" "slash \<notin> set n" by (auto simp: normal_def)
  then have "last n \<noteq> slash" "n \<noteq> []" using last_in_set by metis+
  then have "TrimRight1 (d @ slash # n) slash = d @ slash # n"
    by (cases n rule: rev_cases) (simp_all add: TrimRight1_def)
  moreover have "Split slash (d @ slash # n) = Split slash d @ [n]"
    using n Split_append[of slash d n] by (simp add: normal_def Split_id)
  ultimately show ?thesis by (simp add: Base_def)
qed

lemma inside_join: "inside d (d @ slash # n)"
  by (simp add: inside_def HasPrefix_iff)

lemma chunkUploadDir_good:
  assumes "rooted_cwd E" "chunkUploadDir E tmp c = Inr d"
  shows "good_dir d"
proof -
  from assms(2) have c: "checksum_ok c" by (auto simp: chunkUploadDir_def simp flip: validateChecksum_ok split: sum.splits)
  from assms(2) obtain p where p: "Abs (e_cwd E) tmp = Some p"
    by (auto simp: chunkUploadDir_def split: sum.splits option.splits)
  obtain rc where rc: "canonical True rc" "p = path_of True rc"
    "chunkUploadDir E tmp c = (if p = ''/'' then Inl (Status ErrValidation ''invalid chunk upload path'' [])
       else Inr (path_of True (rc @ [map ascii_lower c])))"
    by (rule chunkUploadDir_placed[OF assms(1) p c])
  then have "d = path_of True (rc @ [map ascii_lower c])" using assms(2) by (auto split: if_splits)
  moreover have "canonical True (rc @ [map ascii_lower c])" using rc(1) checksum_lower(2)[OF c] by (auto simp: canonical_def)
  ultimately show ?thesis by (auto simp: good_dir_def)
qed

lemma digits_normal:
  assumes "\<forall>c \<in> set s. is_digit c" "s \<noteq> []" "slash \<notin> set t"
  shows "normal (s @ t)"
proof -
  obtain c r where s: "s = c # r" using assms(2) by (cases s) auto
  have d: "\<not> is_digit slash" "\<not> is_digit CHR ''.''" by (simp_all add: is_digit_def byte_def)
  then have "c \<noteq> CHR ''.''" "slash \<notin> set s" using assms(1) s by auto
  then show ?thesis using assms(3) s by (auto simp: normal_def)
qed

lemma part_names: "0 \<le> i \<Longrightarrow> normal (chunkPartName i)" "0 \<le> i \<Longrightarrow> normal (fmt_0d 6 i @ ''.part.tmp'')" "normal ''merged''"
proof -
  assume i: "0 \<le> i"
  have "\<forall>c \<in> set (fmt_0d 6 i). is_digit c" "fmt_0d 6 i \<noteq> []" using i pad0_digits by (auto simp: fmt_0d_def)
  then show "normal (chunkPartName i)" "normal (fmt_0d 6 i @ ''.part.tmp'')"
    unfolding chunkPartName_def by (auto intro!: digits_normal)
next
  show "normal ''merged''" by (simp add: normal_def)
qed

lemma part_name_inj: "0 \<le> i \<Longrightarrow> 0 \<le> j \<Longrightarrow> chunkPartName i = chunkPartName j \<Longrightarrow> i = j"
  unfolding chunkPartName_def by (auto dest: fmt_0d_inj)

lemma part_name_other: "0 \<le> i \<Longrightarrow> chunkPartName i \<noteq> ''merged''" "0 \<le> i \<Longrightarrow> chunkPartName i \<noteq> fmt_0d 6 j @ ''.part.tmp''"
proof -
  have "last (chunkPartName i) = CHR ''t''" "last (fmt_0d 6 j @ ''.part.tmp'') = CHR ''p''" "last ''merged'' = CHR ''d''"
    by (simp_all add: chunkPartName_def)
  then show "chunkPartName i \<noteq> ''merged''" "chunkPartName i \<noteq> fmt_0d 6 j @ ''.part.tmp''" by (auto simp del: append_is_Nil_conv)
qed

lemma part_index_part: "0 \<le> i \<Longrightarrow> i < 2 ^ 63 \<Longrightarrow> part_index (chunkPartName i, None) = Some i"
proof -
  assume i: "0 \<le> i" "i < 2 ^ 63"
  have "HasSuffix (chunkPartName i) ''.part''" unfolding chunkPartName_def HasSuffix_iff by blast
  moreover have "TrimSuffix (chunkPartName i) ''.part'' = fmt_0d 6 i" unfolding chunkPartName_def by (rule TrimSuffix_append)
  ultimately show ?thesis using Atoi_fmt_0d[OF i] by simp
qed

lemma spec_ok: "validateChunkUploadSpec c chunk n fsize = Inr () \<longleftrightarrow> checksum_ok c \<and> 0 < chunk \<and> 0 < n \<and> 0 < fsize \<and>
    go_div (wrap64 (wrap64 (fsize + chunk) - 1)) chunk = n"
  by (cases "checksum_ok c") (auto simp: validateChunkUploadSpec_def validateChecksum_bad validateChecksum_ok[THEN iffD2])

lemma ceil_div:
  assumes "0 < (c :: int)" "0 < s"
  shows "(s + c - 1) div c = n \<longleftrightarrow> (n - 1) * c < s \<and> s \<le> n * c"
proof
  assume n: "(s + c - 1) div c = n"
  have "n * c + (s + c - 1) mod c = s + c - 1" using n by auto
  moreover have "0 \<le> (s + c - 1) mod c" "(s + c - 1) mod c < c" using assms by simp_all
  ultimately show "(n - 1) * c < s \<and> s \<le> n * c" by (auto simp: algebra_simps)
next
  assume h: "(n - 1) * c < s \<and> s \<le> n * c"
  then have "s + c - 1 = n * c + (s + c - 1 - n * c)" "0 \<le> s + c - 1 - n * c" "s + c - 1 - n * c < c"
    by (simp_all add: algebra_simps)
  then show "(s + c - 1) div c = n" using assms by (metis add.commute add_0 div_mult_self1 div_pos_pos_trivial mult.commute less_irrefl)
qed

lemma rounded_size:
  assumes "0 < a" "0 < b" "a < 2 ^ 63" "b < 2 ^ 63"
  shows "wrap64 (wrap64 (a + b) - 1) = (if a + b \<le> 2 ^ 63 then a + b - 1 else a + b - 1 - 2 ^ 64)"
proof -
  consider "a + b < 2 ^ 63" | "a + b = 2 ^ 63" | "2 ^ 63 < a + b" by linarith
  then show ?thesis
  proof cases
    case 1
    then show ?thesis using assms by (simp add: wrap64_id int64_range_def)
  next
    case 2
    then show ?thesis by (simp add: wrap64_def)
  next
    case 3
    then have "wrap64 (a + b) = a + b - 2 ^ 64" using assms by (intro wrap64_over) simp_all
    then show ?thesis using 3 assms by (simp add: wrap64_id int64_range_def)
  qed
qed


subsection \<open>The calls on the files of one directory\<close>

text \<open>Storing a part: on success its file holds the bytes and no other file has changed but the temporary one.\<close>

lemma file_is_plain: "plain (\<lambda>w. file_at w = f)" "plain (\<lambda>w. (\<forall>q. q \<noteq> p \<longrightarrow> file_at w q = f q) \<and> P (file_at w p))"
  by (rule plainI; simp)+

lemma or_remove_triple: "triple I m Q (\<lambda>_. True) \<Longrightarrow> triple I (or_remove p m) Q (\<lambda>_. True)"
  unfolding or_remove_def
  by (rule triple_bindE[OF triple_attempt[where Q = "\<lambda>r. case r of Inl _ \<Rightarrow> \<lambda>_. True | Inr x \<Rightarrow> Q x"]])
    (auto simp: triple_def bindE_apply split: sum.split)

lemma store_part_triple:
  assumes "a \<noteq> b"
  shows "triple (\<lambda>w. file_at w = f) (store_part a b body)
    (\<lambda>_ w. file_at w b = Some body \<and> (\<forall>q. q \<noteq> a \<and> q \<noteq> b \<longrightarrow> file_at w q = f q)) (\<lambda>_. True)"
proof -
  let ?T = "\<lambda>c w. (\<forall>q. q \<noteq> a \<longrightarrow> file_at w q = f q) \<and> file_at w a = Some c"
  have p: "plain (?T c)" for c using file_is_plain(2)[of a f "\<lambda>x. x = Some c"] .
  have create: "triple (\<lambda>w. file_at w = f) (os_Create a) (\<lambda>_. ?T []) (\<lambda>_. True)"
    unfolding os_Create_def by (rule io_triple[OF file_is_plain(1)]) (auto simp: triple_def split: if_splits)
  have app: "triple (?T []) (or_remove a (os_Append a body)) (\<lambda>_. ?T body) (\<lambda>_. True)"
    unfolding os_Append_def by (intro or_remove_triple io_triple[OF p]) (auto simp: triple_def)
  have close: "triple (?T body) (or_remove a (io (ret ()))) (\<lambda>_. ?T body) (\<lambda>_. True)"
    by (intro or_remove_triple io_triple[OF p]) (auto simp: triple_def)
  have ren: "triple (?T body) (or_remove a (os_Rename a b))
     (\<lambda>_ w. file_at w b = Some body \<and> (\<forall>q. q \<noteq> a \<and> q \<noteq> b \<longrightarrow> file_at w q = f q)) (\<lambda>_. True)"
    unfolding os_Rename_def by (intro or_remove_triple io_triple[OF p]) (auto simp: triple_def split: if_splits)
  show ?thesis unfolding store_part_def
    by (rule triple_bindE[OF create], rule triple_bindE[OF app], rule triple_bindE[OF close ren])
qed

lemma is_dir_calls:
  "preserves (\<lambda>w. is_dir w d) (os_Create p)" "preserves (\<lambda>w. is_dir w d) (os_Append p c)"
  "preserves (\<lambda>w. is_dir w d) (os_Remove p)" "preserves (\<lambda>w. is_dir w d) (os_Rename p q)"
  "preserves (\<lambda>w. is_dir w d) (os_Chtimes p)" "preserves (\<lambda>w. is_dir w d) (io (ret x))"
proof -
  have p: "plain (\<lambda>w. is_dir w d)" by (rule plainI) (simp add: is_dir_def)
  show "preserves (\<lambda>w. is_dir w d) (os_Create p)" "preserves (\<lambda>w. is_dir w d) (os_Append p c)"
    "preserves (\<lambda>w. is_dir w d) (os_Remove p)" "preserves (\<lambda>w. is_dir w d) (os_Rename p q)"
    "preserves (\<lambda>w. is_dir w d) (os_Chtimes p)" "preserves (\<lambda>w. is_dir w d) (io (ret x))"
    unfolding os_Create_def os_Append_def os_Remove_def os_Rename_def os_Chtimes_def
    by (rule io_preserves[OF p]; auto intro!: preservesI split: option.split)+
qed

lemma MkdirAll_makes:
  assumes "good_dir d" "os_MkdirAll d w = (Inr x, w')"
  shows "is_dir w' d"
proof -
  obtain ds where ds: "canonical True ds" "ds \<noteq> []" "d = path_of True ds" using assms(1) by (auto simp: good_dir_def)
  then have "Suc 0 \<le> length ds" by (cases ds) auto
  with ds have "d \<in> set (prefixes_of d)"
    by (auto simp: prefixes_of_def IsAbs_path_of image_iff intro!: bexI[of _ "length ds"])
  with assms(2) show ?thesis unfolding os_MkdirAll_def by (elim io_Inr) (auto split: if_splits)
qed

text \<open>A healthy listing of the parts finds every part file.\<close>

lemma listing_healthy:
  assumes d: "good_dir d" and dir: "is_dir w d" and h: "healthy w"
  shows "\<exists>js. uploadedChunkIndexes d w = (Inr js, w) \<and> sorted js \<and>
    (\<forall>j. 0 \<le> j \<and> j < 2 ^ 63 \<and> file_at w (d @ slash # chunkPartName j) \<noteq> None \<longrightarrow> j \<in> set js)"
proof -
  define entries where "entries = sort_key fst
       (map (\<lambda>(p, t). (Base p, Some t)) (filter (\<lambda>(p, t). p \<noteq> ''/'' \<and> Dir p = d) (w_dirs w)) @
        map (\<lambda>(p, c). (Base p, None :: time option)) (filter (\<lambda>(p, c). Dir p = d) (w_files w)))"
  have run: "uploadedChunkIndexes d w = (Inr (sort (List.map_filter part_index entries)), w)"
    using h dir by (simp add: uploadedChunkIndexes_def os_ReadDir_def healthy_def attempt_def bindE_apply entries_def)
  have "j \<in> set (List.map_filter part_index entries)"
    if j: "0 \<le> j" "j < 2 ^ 63" and f: "file_at w (d @ slash # chunkPartName j) \<noteq> None" for j
  proof -
    from f obtain c where "(d @ slash # chunkPartName j, c) \<in> set (w_files w)"
      by (auto simp: file_at_def dest: map_of_SomeD)
    then have "(Base (d @ slash # chunkPartName j), None) \<in> set entries"
      using Dir_join[OF d part_names(1)[OF j(1)]] by (force simp: entries_def)
    then show ?thesis
      using Base_join[OF part_names(1)[OF j(1)]] part_index_part[OF j] by (force simp: List.map_filter_def)
  qed
  then show ?thesis using run by simp
qed

text \<open>
  A part that was stored is there when the upload is resumed: its file holds the bytes, the other parts are as
  before, nothing outside the directory of the checksum has changed, and the listing of the directory is
  sorted and contains the number of every part that has a file.
\<close>

theorem chunk_part_listed:
  assumes "rooted_cwd E" and "chunkUploadDir E (cc_Dir c) checksum = Inr d"
    and run: "AssetChunkUploadPart E c checksum i body w = (Inr resp, w')" and "healthy w'"
  shows "file_at w' (d @ slash # chunkPartName i) = Some body \<and> cp_Size resp = int (length body) \<and>
    (\<forall>j. 0 \<le> j \<and> j \<noteq> i \<longrightarrow> file_at w' (d @ slash # chunkPartName j) = file_at w (d @ slash # chunkPartName j)) \<and>
    (\<forall>q. \<not> inside d q \<longrightarrow> file_at w' q = file_at w q) \<and>
    (\<exists>js. uploadedChunkIndexes d w' = (Inr js, w') \<and> sorted js \<and>
       (\<forall>j. 0 \<le> j \<and> j < 2 ^ 63 \<and> file_at w' (d @ slash # chunkPartName j) \<noteq> None \<longrightarrow> j \<in> set js))"
proof -
  have d: "good_dir d" by (rule chunkUploadDir_good[OF assms(1,2)])
  from run obtain x w1 y w2 z where i: "0 \<le> i" and mk: "os_MkdirAll d w = (Inr x, w1)"
    and st: "store_part (JoinPath [d, fmt_0d 6 i @ ''.part.tmp'']) (JoinPath [d, chunkPartName i]) body w1 = (Inr y, w2)"
    and touch: "os_Chtimes d w2 = (Inr z, w')" and resp: "cp_Size resp = int (length body)"
    unfolding AssetChunkUploadPart_def touchChunkUploadDir_def using assms(2)
    by (auto elim!: bindE_Inr_elim split: if_splits)
  let ?t = "d @ slash # fmt_0d 6 i @ ''.part.tmp''" and ?p = "d @ slash # chunkPartName i"
  have join: "JoinPath [d, fmt_0d 6 i @ ''.part.tmp''] = ?t" "JoinPath [d, chunkPartName i] = ?p"
    using join_normal[OF d] part_names(1,2)[OF i] by auto
  have ne: "?t \<noteq> ?p" using part_name_other(2)[OF i, of i] by auto
  have f1: "file_at w1 = file_at w" using mk by (intro ext) (auto simp: os_MkdirAll_def elim!: io_Inr split: if_splits)
  have f2: "file_at w2 ?p = Some body" "\<forall>q. q \<noteq> ?t \<and> q \<noteq> ?p \<longrightarrow> file_at w2 q = file_at w q"
    using triple_Inr[OF store_part_triple[OF ne] f1 st[unfolded join]] by auto
  have f3: "file_at w' = file_at w2" using touch by (intro ext) (auto simp: os_Chtimes_def elim!: io_Inr split: if_splits)
  have dir: "is_dir w' d"
  proof -
    have "is_dir w1 d" by (rule MkdirAll_makes[OF d mk])
    moreover have "preserves (\<lambda>w. is_dir w d) (store_part a b body)" for a b
      unfolding store_part_def or_remove_def
      by (intro preserves_bindE is_dir_calls preserves_attempt preserves_case_sum preserves_ret preserves_throw)
    ultimately have "is_dir w2 d" using preservesD st by (metis snd_conv)
    then show ?thesis using preservesD[OF is_dir_calls(5)] touch by (metis snd_conv)
  qed
  have other: "file_at w' (d @ slash # chunkPartName j) = file_at w (d @ slash # chunkPartName j)" if "0 \<le> j" "j \<noteq> i" for j
  proof -
    have "d @ slash # chunkPartName j \<noteq> ?t" "d @ slash # chunkPartName j \<noteq> ?p"
      using part_name_other(2)[OF that(1), of i] part_name_inj[OF that(1) i] that(2) by blast+
    then show ?thesis using f2(2) f3 by simp
  qed
  have out: "file_at w' q = file_at w q" if "\<not> inside d q" for q
    using f2(2) f3 that inside_join by metis
  show ?thesis using f2(1) f3 resp other out listing_healthy[OF d dir assms(4)] by auto
qed


subsection \<open>Merging\<close>

text \<open>The bytes of \<open>n\<close> parts from number \<open>i\<close> on, among the files \<open>f\<close>.\<close>

definition parts_of :: "string \<Rightarrow> (string \<Rightarrow> string option) \<Rightarrow> int \<Rightarrow> nat \<Rightarrow> string list \<Rightarrow> bool" where
  "parts_of d f i n ps \<longleftrightarrow> length ps = n \<and> (\<forall>j < n. f (d @ slash # chunkPartName (i + int j)) = Some (ps ! j))"

lemma parts_of_Cons: "f (d @ slash # chunkPartName i) = Some p \<Longrightarrow> parts_of d f (i + 1) n ps \<Longrightarrow> parts_of d f i (Suc n) (p # ps)"
  unfolding parts_of_def by (auto simp: nth_Cons algebra_simps split: nat.split)

text \<open>During a merge only the merged file changes, and the asset table does not.\<close>

definition merging :: "asset list \<Rightarrow> (string \<Rightarrow> string option) \<Rightarrow> string \<Rightarrow> string option \<Rightarrow> world \<Rightarrow> bool" where
  "merging as f p c w \<longleftrightarrow> w_assets w = as \<and> file_at w = f(p := c)"

lemma merging_plain: "plain (merging as f p c)" "plain (\<lambda>w. w_assets w = as)"
  by (rule plainI; simp add: merging_def)+

lemma assets_kept [pres_rules]:
  "preserves (\<lambda>w. w_assets w = as) (os_Create p)" "preserves (\<lambda>w. w_assets w = as) (os_Remove p)"
  "preserves (\<lambda>w. w_assets w = as) (os_Read p)" "preserves (\<lambda>w. w_assets w = as) (io (ret x))"
proof -
  have u: "w_assets (touch_dir d w) = w_assets w" "w_assets (put_file q c w) = w_assets w" "w_assets (drop_file q w) = w_assets w" for d q c w
    by (simp_all add: touch_dir_def put_file_def drop_file_def)
  show "preserves (\<lambda>w. w_assets w = as) (os_Create p)" "preserves (\<lambda>w. w_assets w = as) (os_Remove p)"
    "preserves (\<lambda>w. w_assets w = as) (os_Read p)" "preserves (\<lambda>w. w_assets w = as) (io (ret x))"
    unfolding os_Create_def os_Remove_def os_Read_def
    by (rule io_preserves[OF merging_plain(2)]; auto intro!: preservesI simp: u split: option.split)+
qed

lemma removed_triple:
  "triple (\<lambda>w. w_assets w = as) (bindE (attempt (os_Remove p)) (\<lambda>_. throw e)) Q (\<lambda>w. w_assets w = as)"
  by (rule triple_bindE[OF preserves_triple[OF preserves_attempt[OF assets_kept(2)]] triple_throw])

lemma or_remove_merging:
  assumes "triple (merging as f p c) m Q (\<lambda>w. w_assets w = as)"
  shows "triple (merging as f p c) (or_remove p m) Q (\<lambda>w. w_assets w = as)"
  unfolding or_remove_def
proof (rule triple_bindE)
  show "triple (merging as f p c) (attempt m) (\<lambda>r w. case r of Inl _ \<Rightarrow> w_assets w = as | Inr x \<Rightarrow> Q x w) (\<lambda>w. w_assets w = as)"
    by (rule triple_attempt) (use assms in simp)
  show "triple (\<lambda>w. case r of Inl _ \<Rightarrow> w_assets w = as | Inr x \<Rightarrow> Q x w)
      (case r of Inr x \<Rightarrow> ret x | Inl e \<Rightarrow> bindE (attempt (os_Remove p)) (\<lambda>_. throw e)) Q (\<lambda>w. w_assets w = as)" for r
    by (cases r) (simp_all add: removed_triple triple_ret)
qed

lemma merge_triple:
  assumes "good_dir d" and "0 \<le> i"
  defines "p \<equiv> d @ slash # ''merged''"
  shows "triple (merging as f p (Some acc)) (merge_parts d p i n)
    (\<lambda>bytes w. merging as f p (Some (acc @ bytes)) w \<and> (\<exists>ps. parts_of d f i n ps \<and> bytes = concat ps)) (\<lambda>w. w_assets w = as)"
  using assms(2)
proof (induction n arbitrary: i acc)
  case 0
  show ?case unfolding merge_parts.simps by (rule triple_ret) (auto simp: parts_of_def intro: exI[of _ "[]"])
next
  case (Suc n)
  let ?q = "d @ slash # chunkPartName i"
  have join: "JoinPath [d, chunkPartName i] = ?q" by (rule join_normal[OF assms(1) part_names(1)[OF Suc.prems]])
  have ne: "?q \<noteq> p" using part_name_other(1)[OF Suc.prems] by (auto simp: p_def)
  have opn: "triple (merging as f p (Some acc)) (attempt (os_Open ?q)) (\<lambda>_. merging as f p (Some acc)) (\<lambda>w. w_assets w = as)"
  proof -
    have "preserves (merging as f p (Some acc)) (os_Open ?q)"
      unfolding os_Open_def by (rule io_preserves[OF merging_plain(1)]) (auto intro!: preservesI)
    from preserves_triple[OF preserves_attempt[OF this]] show ?thesis by (rule triple_mono) (simp_all add: merging_def)
  qed
  have copy: "triple (merging as f p (Some acc)) (or_remove p (os_Copy ?q p))
      (\<lambda>b w. merging as f p (Some (acc @ b)) w \<and> f ?q = Some b) (\<lambda>w. w_assets w = as)"
  proof (rule or_remove_merging)
    have u: "w_assets (put_file q c w) = w_assets w" for q c w by (simp add: put_file_def)
    show "triple (merging as f p (Some acc)) (os_Copy ?q p)
      (\<lambda>b w. merging as f p (Some (acc @ b)) w \<and> f ?q = Some b) (\<lambda>w. w_assets w = as)"
      unfolding os_Copy_def
      by (rule io_triple[OF merging_plain(1)]) (use ne in \<open>auto simp: triple_def merging_def fun_eq_iff u split: option.splits if_splits\<close>)
  qed
  have close: "triple (merging as f p (Some (acc @ b))) (or_remove p (io (ret ())))
      (\<lambda>_. merging as f p (Some (acc @ b))) (\<lambda>w. w_assets w = as)" for b
    by (rule or_remove_merging, rule io_triple[OF merging_plain(1)]) (auto simp: triple_def merging_def)
  have rest: "triple (\<lambda>w. merging as f p (Some (acc @ b)) w \<and> f ?q = Some b)
      (bindE (or_remove p (io (ret ()))) (\<lambda>_. bindE (merge_parts d p (i + 1) n) (\<lambda>rest. ret (b @ rest))))
      (\<lambda>bytes w. merging as f p (Some (acc @ bytes)) w \<and> (\<exists>ps. parts_of d f i (Suc n) ps \<and> bytes = concat ps)) (\<lambda>w. w_assets w = as)" for b
  proof (cases "f ?q = Some b")
    case True
    have "0 \<le> i + 1" using Suc.prems by simp
    have fin: "merging as f p (Some (acc @ b @ rest)) w \<and> (\<exists>ps. parts_of d f i (Suc n) ps \<and> b @ rest = concat ps)"
      if h: "merging as f p (Some ((acc @ b) @ rest)) w \<and> (\<exists>ps. parts_of d f (i + 1) n ps \<and> rest = concat ps)" for rest w
    proof -
      from h obtain ps where "parts_of d f (i + 1) n ps" "rest = concat ps" by blast
      then have "parts_of d f i (Suc n) (b # ps) \<and> b @ rest = concat (b # ps)" using parts_of_Cons[of f d i b n ps, OF True] by simp
      then show ?thesis using h by auto
    qed
    have "triple (merging as f p (Some (acc @ b)))
        (bindE (or_remove p (io (ret ()))) (\<lambda>_. bindE (merge_parts d p (i + 1) n) (\<lambda>rest. ret (b @ rest))))
        (\<lambda>bytes w. merging as f p (Some (acc @ bytes)) w \<and> (\<exists>ps. parts_of d f i (Suc n) ps \<and> bytes = concat ps)) (\<lambda>w. w_assets w = as)"
      by (rule triple_bindE[OF close], rule triple_bindE[OF Suc.IH[OF \<open>0 \<le> i + 1\<close>]], rule triple_ret, rule fin)
    then show ?thesis using True by simp
  qed (simp add: triple_def)
  show ?case unfolding merge_parts.simps join
  proof (rule triple_bindE[OF opn], rule triple_case_sum)
    fix r :: "err + unit" and e
    show "triple (merging as f p (Some acc)) (bindE (attempt (os_Remove p)) (\<lambda>_. throw (Status ErrValidation ''missing chunk %d'' [fmt_d i])))
      (\<lambda>bytes w. merging as f p (Some (acc @ bytes)) w \<and> (\<exists>ps. parts_of d f i (Suc n) ps \<and> bytes = concat ps)) (\<lambda>w. w_assets w = as)"
      by (rule triple_mono[OF removed_triple]) (simp_all add: merging_def)
  next
    fix r :: "err + unit" and x
    show "triple (merging as f p (Some acc))
      (bindE (or_remove p (os_Copy ?q p)) (\<lambda>written. bindE (or_remove p (io (ret ()))) (\<lambda>_.
         bindE (merge_parts d p (i + 1) n) (\<lambda>rest. ret (written @ rest)))))
      (\<lambda>bytes w. merging as f p (Some (acc @ bytes)) w \<and> (\<exists>ps. parts_of d f i (Suc n) ps \<and> bytes = concat ps)) (\<lambda>w. w_assets w = as)"
      by (rule triple_bindE[OF copy rest])
  qed
qed


text \<open>What is known of the asset of an upload: size, checksum, and the file of its object.\<close>

definition chunk_stored :: "env \<Rightarrow> string \<Rightarrow> string \<Rightarrow> upload_response \<Rightarrow> world \<Rightarrow> bool" where
  "chunk_stored E d bytes resp w \<longleftrightarrow> (let a = rc_Asset (ur_Asset resp) in
     as_Size a = int (length bytes) \<and> as_Checksum a = e_sha256 E bytes \<and>
     (\<exists>b \<in> set (w_backends w). \<exists>p. obj_ID b = as_StorageBackendID a \<and> localObjectPath E b (as_ObjectKey a) = Inr p \<and>
        (inside d p \<or> file_at w p = Some bytes)))"

definition declared_parts :: "env \<Rightarrow> string \<Rightarrow> (string \<Rightarrow> string option) \<Rightarrow> chunk_request \<Rightarrow> string list \<Rightarrow> bool" where
  "declared_parts E d f req ps \<longleftrightarrow> parts_of d f 0 (nat (cu_TotalChunks req)) ps \<and>
     int (length (concat ps)) = cu_Size req \<and> e_sha256 E (concat ps) = map ascii_lower (cu_Checksum req)"

lemma chunk_stored_cong:
  "chunk_stored E d bytes resp w \<Longrightarrow> w_backends x = w_backends w \<Longrightarrow> (\<And>q. \<not> inside d q \<Longrightarrow> file_at x q = file_at w q) \<Longrightarrow>
   chunk_stored E d bytes resp x"
  unfolding chunk_stored_def Let_def by metis

lemma upload_end_stored: "upload_end k E bytes name src f resp w \<Longrightarrow> chunk_stored E d bytes resp w"
proof -
  assume "upload_end k E bytes name src f resp w"
  then obtain b key path aid dims t where up: "up_thumb \<lparr>uc_keys = k, uc_env = E, uc_files = f, uc_backend = b, uc_key = key,
        uc_path = path, uc_bytes = bytes\<rparr> (asset_row E b aid key name bytes (e_detect E (take 512 bytes)) dims src) (rc_Asset (ur_Asset resp)) t w"
    unfolding upload_end_def up_done_def by blast
  define a where "a = rc_Asset (ur_Asset resp)"
  define row where "row = asset_row E b aid key name bytes (e_detect E (take 512 bytes)) dims src"
  have "object_meta.more a = object_meta.more row" using up by (simp add: up_thumb_def up_asset_def row_def a_def)
  then have "as_Size a = as_Size row \<and> as_Checksum a = as_Checksum row \<and> as_StorageBackendID a = as_StorageBackendID row \<and> as_ObjectKey a = as_ObjectKey row"
    by (cases a; cases row) simp
  moreover have "as_Size row = int (length bytes)" "as_Checksum row = e_sha256 E bytes" "as_StorageBackendID row = obj_ID b" "as_ObjectKey row = key"
    by (simp_all add: row_def asset_row_def Let_def new_asset_def object_meta.defs asset.defs new_meta_def)
  ultimately show ?thesis using up unfolding chunk_stored_def a_def[symmetric] Let_def by (auto simp: up_defs)
qed

lemma finish_triple:
  "triple (merging as f p (Some bytes)) (bindE (os_Read p) (\<lambda>src. bindE (createAssetFromReader E src fn tags st) (\<lambda>resp.
     bindE (attempt (os_RemoveAll d)) (\<lambda>_. ret resp)))) (chunk_stored E d bytes) (\<lambda>_. True)"
proof -
  have read: "triple (merging as f p (Some bytes)) (os_Read p) (\<lambda>src x. src = bytes \<and> merging as f p (Some bytes) x) (\<lambda>_. True)"
    unfolding os_Read_def by (rule io_triple[OF merging_plain(1)]) (auto simp: triple_def merging_def split: option.splits)
  have up: "triple (merging as f p (Some bytes)) (createAssetFromReader E bytes fn tags st) (chunk_stored E d bytes) (\<lambda>_. True)"
    by (rule triple_mono[OF upload_triple[of False "f(p := Some bytes)" E bytes fn tags st]])
      (auto simp: merging_def asset_keys_def intro: upload_end_stored)
  have rm: "triple (chunk_stored E d bytes resp) (attempt (os_RemoveAll d)) (\<lambda>_. chunk_stored E d bytes resp) (\<lambda>_. True)" for resp
  proof -
    have pl: "plain (chunk_stored E d bytes resp)" by (rule plainI) (simp add: chunk_stored_def)
    have u: "w_backends (touch_dir q x) = w_backends x" for q x by (simp add: touch_dir_def)
    have "preserves (chunk_stored E d bytes resp) (os_RemoveAll d)"
      unfolding os_RemoveAll_def
      by (rule io_preserves[OF pl], rule preservesI, erule chunk_stored_cong) (simp_all add: u)
    from preserves_triple[OF preserves_attempt[OF this]] show ?thesis by (rule triple_mono) simp_all
  qed
  have "triple (\<lambda>x. src = bytes \<and> merging as f p (Some bytes) x)
      (bindE (createAssetFromReader E src fn tags st) (\<lambda>resp. bindE (attempt (os_RemoveAll d)) (\<lambda>_. ret resp)))
      (chunk_stored E d bytes) (\<lambda>_. True)" for src
  proof (cases "src = bytes")
    case True
    have "triple (merging as f p (Some bytes)) (bindE (createAssetFromReader E bytes fn tags st) (\<lambda>resp. bindE (attempt (os_RemoveAll d)) (\<lambda>_. ret resp)))
      (chunk_stored E d bytes) (\<lambda>_. True)"
      by (rule triple_bindE[OF up triple_bindE[OF rm triple_ret]])
    then show ?thesis using True by simp
  qed (simp add: triple_def)
  then show ?thesis by (rule triple_bindE[OF read])
qed

text \<open>The completion: an error leaves the assets as they were, or the parts were the declared ones.\<close>

lemma complete_triple:
  assumes "rooted_cwd E" and "chunkUploadDir E (cc_Dir c) (cu_Checksum req) = Inr d"
  shows "triple (\<lambda>w. w_assets w = as \<and> file_at w = f) (AssetChunkUploadComplete E c req)
    (\<lambda>resp w. \<exists>ps. declared_parts E d f req ps \<and> chunk_stored E d (concat ps) resp w)
    (\<lambda>w. w_assets w = as \<or> (\<exists>ps. declared_parts E d f req ps))"
proof -
  have d: "good_dir d" by (rule chunkUploadDir_good[OF assms])
  have "checksum_ok (cu_Checksum req)"
    using assms(2) by (auto simp: chunkUploadDir_def simp flip: validateChecksum_ok split: sum.splits)
  then have low: "ToLower (e_lower E) (cu_Checksum req) = map ascii_lower (cu_Checksum req)" by (rule checksum_lower(1))
  let ?n = "nat (cu_TotalChunks req)" and ?m = "d @ slash # ''merged''"
  let ?I = "\<lambda>w. w_assets w = as \<and> file_at w = f"
  let ?Q = "\<lambda>resp w. \<exists>ps. declared_parts E d f req ps \<and> chunk_stored E d (concat ps) resp w"
  let ?R = "\<lambda>w. w_assets w = as \<or> (\<exists>ps. declared_parts E d f req ps)"
  have create: "triple ?I (os_Create ?m) (\<lambda>_. merging as f ?m (Some [])) ?R"
  proof -
    have u: "w_assets (touch_dir q x) = w_assets x" "w_assets (put_file q k x) = w_assets x" for q k x
      by (simp_all add: touch_dir_def put_file_def)
    have "plain ?I" by (rule plainI) simp
    then show ?thesis unfolding os_Create_def
      by (rule io_triple) (auto simp: triple_def merging_def fun_eq_iff u split: if_splits)
  qed
  have merge: "triple (merging as f ?m (Some [])) (merge_parts d ?m 0 ?n)
     (\<lambda>bytes x. merging as f ?m (Some bytes) x \<and> (\<exists>ps. parts_of d f 0 ?n ps \<and> bytes = concat ps)) ?R"
    by (rule triple_mono[OF merge_triple[OF d, of 0 as f "[]" ?n]]) auto
  have close: "triple (merging as f ?m (Some bytes)) (or_remove ?m (io (ret ()))) (\<lambda>_. merging as f ?m (Some bytes)) ?R" for bytes
    by (rule triple_mono[OF or_remove_merging[OF io_triple[OF merging_plain(1)]]]) (auto simp: triple_def merging_def)
  have finish: "triple (merging as f ?m (Some (concat ps)))
     (if int (length (concat ps)) \<noteq> cu_Size req \<or> e_sha256 E (concat ps) \<noteq> ToLower (e_lower E) (cu_Checksum req)
     then bindE (attempt (os_Remove ?m)) (\<lambda>_.
          throw (Status ErrValidation ''merged file checksum or size mismatch'' []))
     else bindE (os_Read ?m) (\<lambda>src.
          bindE (createAssetFromReader E src (cu_Filename req) (cu_TagNames req) (cu_SourceType req)) (\<lambda>resp.
          bindE (attempt (os_RemoveAll d)) (\<lambda>_. ret resp)))) ?Q ?R"
    if ps: "parts_of d f 0 ?n ps" for ps
  proof (rule triple_if)
    show "triple (merging as f ?m (Some (concat ps))) (bindE (attempt (os_Remove ?m)) (\<lambda>_.
          throw (Status ErrValidation ''merged file checksum or size mismatch'' []))) ?Q ?R"
      by (rule triple_mono[OF removed_triple]) (auto simp: merging_def)
    assume "\<not> (int (length (concat ps)) \<noteq> cu_Size req \<or> e_sha256 E (concat ps) \<noteq> ToLower (e_lower E) (cu_Checksum req))"
    then have "declared_parts E d f req ps" using ps by (simp add: declared_parts_def low)
    then show "triple (merging as f ?m (Some (concat ps))) (bindE (os_Read ?m) (\<lambda>src.
          bindE (createAssetFromReader E src (cu_Filename req) (cu_TagNames req) (cu_SourceType req)) (\<lambda>resp.
          bindE (attempt (os_RemoveAll d)) (\<lambda>_. ret resp)))) ?Q ?R"
      by (intro triple_mono[OF finish_triple]) blast+
  qed
  have rest: "triple (\<lambda>x. merging as f ?m (Some bytes) x \<and> (\<exists>ps. parts_of d f 0 ?n ps \<and> bytes = concat ps))
     (bindE (or_remove ?m (io (ret ()))) (\<lambda>_.
     if int (length bytes) \<noteq> cu_Size req \<or> e_sha256 E bytes \<noteq> ToLower (e_lower E) (cu_Checksum req)
     then bindE (attempt (os_Remove ?m)) (\<lambda>_.
          throw (Status ErrValidation ''merged file checksum or size mismatch'' []))
     else bindE (os_Read ?m) (\<lambda>src.
          bindE (createAssetFromReader E src (cu_Filename req) (cu_TagNames req) (cu_SourceType req)) (\<lambda>resp.
          bindE (attempt (os_RemoveAll d)) (\<lambda>_. ret resp))))) ?Q ?R" for bytes
  proof (cases "\<exists>ps. parts_of d f 0 ?n ps \<and> bytes = concat ps")
    case True
    then obtain ps where ps: "parts_of d f 0 ?n ps" "bytes = concat ps" by blast
    show ?thesis unfolding ps(2) by (rule triple_mono[OF triple_bindE[OF close finish[OF ps(1)]]]) blast+
  qed (rule triple_vacuous, blast)
  show ?thesis
    unfolding AssetChunkUploadComplete_def Let_def assms(2) bindE_lift_sum_Inr join_normal[OF d part_names(3)]
    by (rule triple_bindE[where P = "\<lambda>_. ?I"], rule triple_lift_sum)
      (blast, blast, rule triple_bindE[OF create], rule triple_bindE[OF merge rest])
qed

text \<open>
  C38. An asset comes out of a chunked upload only from complete and unaltered parts: when the completion
  succeeds, or has changed the asset table at all, every declared part had a file, and their contents, one after
  the other, have the declared size and the declared SHA-256. On success size and checksum of the asset are
  these, and the file of its object holds these bytes (unless it lies in the directory of the upload, which is removed).
\<close>

theorem chunk_complete_integrity:
  assumes "rooted_cwd E" and "chunkUploadDir E (cc_Dir c) (cu_Checksum req) = Inr d"
    and run: "AssetChunkUploadComplete E c req w = (r, w')"
    and some: "(\<exists>resp. r = Inr resp) \<or> w_assets w' \<noteq> w_assets w"
  shows "\<exists>ps. parts_of d (file_at w) 0 (nat (cu_TotalChunks req)) ps \<and>
    int (length (concat ps)) = cu_Size req \<and> e_sha256 E (concat ps) = map ascii_lower (cu_Checksum req) \<and>
    (case r of Inl _ \<Rightarrow> True | Inr resp \<Rightarrow> chunk_stored E d (concat ps) resp w')"
proof (cases r)
  case (Inl e)
  then show ?thesis
    using triple_Inl[OF complete_triple[OF assms(1,2)], of w "w_assets w" "file_at w" e w'] run some by (auto simp: declared_parts_def)
next
  case (Inr resp)
  then show ?thesis
    using triple_Inr[OF complete_triple[OF assms(1,2)], of w "w_assets w" "file_at w" resp w'] run by (auto simp: declared_parts_def)
qed


subsection \<open>Cancelling and cleaning up\<close>

lemma RemoveAll_cases:
  obtains (fault) fs where "os_RemoveAll d w = (Inl IOFailure, w\<lparr>w_faults := fs\<rparr>)"
  | (gone) w' where "os_RemoveAll d w = (Inr (), w')" "\<And>q. file_at w' q = (if inside d q then None else file_at w q)"
proof -
  let ?del = "\<lambda>w. (if is_dir w d \<or> file_at w d \<noteq> None then touch_dir (Dir d) else id)
       (w\<lparr>w_files := filter (\<lambda>(q, _). \<not> inside d q) (w_files w),
          w_dirs := filter (\<lambda>(q, _). \<not> inside d q) (w_dirs w)\<rparr>)"
  have del: "file_at (?del x) q = (if inside d q then None else file_at x q)" for x q by simp
  show ?thesis
  proof (cases rule: io_cases[of "\<lambda>w. (Inr (), ?del w)" w])
    case (fault fs)
    then show ?thesis using that(1)[of fs] by (simp add: os_RemoveAll_def)
  next
    case (run fs)
    have "os_RemoveAll d w = (Inr (), ?del (w\<lparr>w_faults := fs\<rparr>))" unfolding os_RemoveAll_def by (rule run)
    then show ?thesis by (rule that(2)) (use del[of "w\<lparr>w_faults := fs\<rparr>"] in \<open>simp only: file_at_faults\<close>)
  qed
qed

text \<open>
  Cancelling an upload removes its directory and nothing else: no file outside it changes, whatever fails, and
  after a success no file is left in it (in a world where a directory that holds files exists).
\<close>

theorem chunk_cancel_exact:
  assumes "chunkUploadDir E (cc_Dir c) checksum = Inr d" and run: "AssetChunkUploadCancel E c checksum w = (r, w')"
    and tree: "(\<exists>q. inside d q \<and> file_at w q \<noteq> None) \<Longrightarrow> is_dir w d \<or> file_at w d \<noteq> None"
  shows "(\<not> inside d q \<longrightarrow> file_at w' q = file_at w q) \<and>
    (case r of Inl _ \<Rightarrow> file_at w' q = file_at w q | Inr _ \<Rightarrow> inside d q \<longrightarrow> file_at w' q = None)"
proof -
  have ck: "validateChecksum checksum = Inr ()" using assms(1) by (auto simp: chunkUploadDir_def split: sum.splits)
  from run have run: "bindE (attempt (os_Stat d)) (\<lambda>r. case r of
       Inr _ \<Rightarrow> bindE (os_RemoveAll d) (\<lambda>_. ret \<lparr>cx_Checksum = checksum, cx_Deleted = True\<rparr>)
     | Inl e \<Rightarrow> if e \<noteq> NotExist then throw e else ret \<lparr>cx_Checksum = checksum, cx_Deleted = False\<rparr>) w = (r, w')"
    by (simp add: AssetChunkUploadCancel_def ck assms(1))
  show ?thesis
  proof (cases rule: io_cases[of "\<lambda>w. case file_at w d of
       Some c \<Rightarrow> (Inr (int (length c)), w)
     | None \<Rightarrow> if is_dir w d then (Inr 0, w) else (Inl NotExist, w)" w])
    case (fault fs)
    then have "(r, w') = (Inl IOFailure, w\<lparr>w_faults := fs\<rparr>)" using run by (simp add: os_Stat_def attempt_def bindE_apply)
    then show ?thesis by simp
  next
    case stat: (run fs)
    let ?w = "w\<lparr>w_faults := fs\<rparr>"
    show ?thesis
    proof (cases "is_dir w d \<or> file_at w d \<noteq> None")
      case True
      then have del: "bindE (os_RemoveAll d) (\<lambda>_. ret \<lparr>cx_Checksum = checksum, cx_Deleted = True\<rparr>) ?w = (r, w')"
        using run stat by (auto simp: os_Stat_def attempt_def bindE_apply split: option.splits)
      show ?thesis
        by (cases rule: RemoveAll_cases[of d ?w]) (use del in \<open>auto simp: bindE_apply\<close>)
    next
      case False
      then have "(r, w') = (Inr \<lparr>cx_Checksum = checksum, cx_Deleted = False\<rparr>, ?w)"
        using run stat by (simp add: os_Stat_def attempt_def bindE_apply)
      moreover have "file_at w q = None" if "inside d q" using tree False that by blast
      ultimately show ?thesis by simp
    qed
  qed
qed

text \<open>A directory by its parent and name.\<close>

lemma good_dir_join:
  assumes "good_dir d" "IsAbs p" "Dir d = Clean p"
  shows "Abs cwd (JoinPath [p, Base d]) = Some d"
proof -
  obtain ds where "canonical True ds" "ds \<noteq> []" "d = path_of True ds" using assms(1) by (auto simp: good_dir_def)
  then obtain xs n where ds: "canonical True (xs @ [n])" "d = path_of True (xs @ [n])" by (cases ds rule: rev_cases) auto
  then have xs: "canonical True xs" and n: "normal n" by (simp_all add: canonical_def)
  define e where "e = (if xs = [] then [] else path_of True xs)"
  have d: "d = e @ slash # n" using ds(2) by (simp add: e_def path_of_def Join_snoc)
  have "rev (dropWhile (\<lambda>c. c \<noteq> slash) (rev d)) = e @ [slash]"
    unfolding d by (subst slash_free_last) (use n in \<open>simp_all add: normal_def\<close>)
  moreover have "Clean (e @ [slash]) = path_of True xs"
  proof (cases "xs = []")
    case True
    have "Clean ''/'' = ''/''" by code_simp
    then show ?thesis using True by (simp add: e_def path_of_def)
  next
    case False
    then have "good_dir e" using xs by (auto simp: e_def good_dir_def)
    then show ?thesis using False Clean_trailing by (simp add: e_def)
  qed
  ultimately have "Clean p = path_of True xs" using assms(3) by (simp add: Dir_def)
  then have cp: "ccomps p = xs"
    using path_of_inj[of True "ccomps p" xs] xs canonical_ccomps[of p] assms(2) by (simp add: Clean_ccomps)
  have p: "p \<noteq> []" using assms(2) by (auto simp: IsAbs_def HasPrefix_def)
  have "ccomps (p @ slash # n) = clean_stack True (rev (ccomps p)) (Split slash n)" by (rule ccomps_join[OF assms(2) p])
  then have "ccomps (p @ slash # n) = xs @ [n]" using n by (simp add: cp Split_id clean_stack_normal normalD(1)) (simp add: normal_def Split_id clean_stack_normal)
  then have "JoinPath [p, n] = d" using p assms(2) ds(2) by (simp add: JoinPath_two Clean_ccomps IsAbs_append)
  moreover have "Base d = n" unfolding d by (rule Base_join[OF n])
  moreover have "IsAbs d" "Clean d = d" using ds by (simp_all add: IsAbs_path_of Clean_path_of)
  ultimately show ?thesis by (simp add: Abs_def)
qed

definition stale :: "env \<Rightarrow> chunk_config \<Rightarrow> time \<Rightarrow> world \<Rightarrow> string \<Rightarrow> bool" where
  "stale E c cutoff w d \<longleftrightarrow> (\<exists>t. (d, t) \<in> set (w_dirs w) \<and> Dir d = resolved E (cc_Dir c) \<and> t < cutoff)"

text \<open>A file that differs from the start is gone, and was in a stale directory.\<close>

definition only_stale :: "env \<Rightarrow> chunk_config \<Rightarrow> time \<Rightarrow> world \<Rightarrow> world \<Rightarrow> bool" where
  "only_stale E c cutoff w x \<longleftrightarrow>
     (\<forall>q. file_at x q \<noteq> file_at w q \<longrightarrow> file_at x q = None \<and> (\<exists>d. stale E c cutoff w d \<and> inside d q))"

lemma cleanup_entry_stale:
  assumes "IsAbs (cc_Dir c)" and "\<forall>(d, t) \<in> set (w_dirs w). good_dir d"
    and e: "\<And>t. mt = Some t \<Longrightarrow> \<exists>d. (d, t) \<in> set (w_dirs w) \<and> Dir d = resolved E (cc_Dir c) \<and> name = Base d"
  shows "preserves (only_stale E c cutoff w) (cleanup_entry E c cutoff (name, mt))"
proof (cases mt)
  case (Some t)
  have pl: "plain (only_stale E c cutoff w)" by (rule plainI) (simp add: only_stale_def)
  obtain d where dt: "(d, t) \<in> set (w_dirs w)" "Dir d = resolved E (cc_Dir c)" "name = Base d" using e Some by blast
  have "resolved E (cc_Dir c) = Clean (cc_Dir c)" using assms(1) by (simp add: resolved_def Abs_def)
  then have "resolved E (JoinPath [cc_Dir c, name]) = d"
    using good_dir_join[OF _ assms(1), of d "e_cwd E"] dt assms(2) by (auto simp: resolved_def)
  moreover have "preserves (only_stale E c cutoff w) (os_RemoveAll d)" if "t < cutoff"
  proof (rule preservesI)
    fix x assume J: "only_stale E c cutoff w x"
    have st: "stale E c cutoff w d" using dt that by (auto simp: stale_def)
    show "only_stale E c cutoff w (snd (os_RemoveAll d x))"
      by (cases rule: RemoveAll_cases[of d x]) (use J st in \<open>auto simp: only_stale_def\<close>)
  qed
  ultimately show ?thesis
    unfolding cleanup_entry_def
    by (auto simp: Some intro!: preserves_bindE preserves_attempt preserves_case_sum io_preserves[OF pl] split: sum.split)
qed (simp add: cleanup_entry_def)

text \<open>The entries of the upload directory, when it can be read.\<close>

lemma ReadDir_cases:
  obtains (failed) e fs where "os_ReadDir p w = (Inl e, w\<lparr>w_faults := fs\<rparr>)"
  | (listed) es fs where "os_ReadDir p w = (Inr es, w\<lparr>w_faults := fs\<rparr>)"
      "\<And>name t. (name, Some t) \<in> set es \<Longrightarrow> \<exists>d. (d, t) \<in> set (w_dirs w) \<and> Dir d = p \<and> name = Base d"
proof -
  let ?entries = "\<lambda>x :: world. sort_key fst
       (map (\<lambda>(q, t). (Base q, Some t)) (filter (\<lambda>(q, t). q \<noteq> ''/'' \<and> Dir q = p) (w_dirs x)) @
        map (\<lambda>(q, c). (Base q, None :: time option)) (filter (\<lambda>(q, c). Dir q = p) (w_files x)))"
  show ?thesis
  proof (cases rule: io_cases[of "\<lambda>x. if \<not> is_dir x p then (Inl NotExist, x) else (Inr (?entries x), x)" w])
    case (fault fs)
    then show ?thesis using failed by (simp add: os_ReadDir_def)
  next
    case (run fs)
    then have "os_ReadDir p w = (if is_dir w p then Inr (?entries w) else Inl NotExist, w\<lparr>w_faults := fs\<rparr>)"
      unfolding os_ReadDir_def by (cases "is_dir w p") simp_all
    moreover have "\<exists>d. (d, t) \<in> set (w_dirs w) \<and> Dir d = p \<and> name = Base d" if "(name, Some t) \<in> set (?entries w)" for name t
      using that by auto
    ultimately show ?thesis using failed listed by (cases "is_dir w p") auto
  qed
qed


text \<open>Instances: three bytes in two parts, under the directory of a checksum.\<close>

definition abc_sum :: string where
  "abc_sum = replicate 61 CHR ''0'' @ ''abc''"

definition chunk_cfg :: chunk_config where
  "chunk_cfg = \<lparr>cc_Dir = ''/tmp/parts'', cc_Hours = 24\<rparr>"

definition abc_request :: chunk_request where
  "abc_request = \<lparr>cu_Filename = ''abc.txt'', cu_Size = 3, cu_Checksum = abc_sum, cu_ChunkSize = 2, cu_TotalChunks = 2,
     cu_TagNames = [], cu_SourceType = []\<rparr>"

definition abc_dir :: string where
  "abc_dir = ''/tmp/parts/'' @ abc_sum"

definition abc_world :: world where
  "abc_world = upload_world\<lparr>w_files := [(abc_dir @ ''/000000.part'', ''ab''), (abc_dir @ ''/000001.part'', ''c'')],
     w_dirs := [(''/tmp'', 0), (''/tmp/parts'', 0), (abc_dir, 5)]\<rparr>"

lemma abc_env: "chunkUploadDir sample_env (cc_Dir chunk_cfg) abc_sum = Inr abc_dir"
  by code_simp

lemma abc_spec: "validateChunkUploadSpec abc_sum 2 2 3 = Inr () \<and> validateChunkUploadSpec abc_sum 2 (2 ^ 62) (2 ^ 63 - 1) \<noteq> Inr ()"
  by code_simp


lemma sample_part:
  "case AssetChunkUploadPart sample_env chunk_cfg abc_sum 1 ''xyz'' abc_world of
     (Inr resp, w) \<Rightarrow> w_faults w = [] \<and> w_tx w = None | _ \<Rightarrow> False"
  by code_simp

lemma chunk_part_listed_witness:
  "\<exists>resp w' js. AssetChunkUploadPart sample_env chunk_cfg abc_sum 1 ''xyz'' abc_world = (Inr resp, w') \<and>
     file_at w' (abc_dir @ slash # chunkPartName 1) = Some ''xyz'' \<and> uploadedChunkIndexes abc_dir w' = (Inr js, w') \<and> 1 \<in> set js"
proof -
  obtain resp w' where run: "AssetChunkUploadPart sample_env chunk_cfg abc_sum 1 ''xyz'' abc_world = (Inr resp, w')" and h: "healthy w'"
    using sample_part by (auto simp: healthy_def split: prod.splits sum.splits)
  from chunk_part_listed[OF sample_rooted abc_env run h] run show ?thesis by fastforce
qed

lemma sample_complete:
  "case AssetChunkUploadComplete sample_env chunk_cfg abc_request abc_world of (Inr resp, w) \<Rightarrow> length (w_assets w) = 1 | _ \<Rightarrow> False"
  by code_simp

lemma chunk_complete_integrity_witness:
  "\<exists>resp w' ps. AssetChunkUploadComplete sample_env chunk_cfg abc_request abc_world = (Inr resp, w') \<and>
     length (w_assets w') = 1 \<and> parts_of abc_dir (file_at abc_world) 0 2 ps \<and> chunk_stored sample_env abc_dir (concat ps) resp w'"
proof -
  obtain resp w' where run: "AssetChunkUploadComplete sample_env chunk_cfg abc_request abc_world = (Inr resp, w')"
    and one: "length (w_assets w') = 1"
    using sample_complete by (auto split: prod.splits sum.splits)
  have "chunkUploadDir sample_env (cc_Dir chunk_cfg) (cu_Checksum abc_request) = Inr abc_dir" using abc_env by (simp add: abc_request_def)
  from chunk_complete_integrity[OF sample_rooted this run] run one show ?thesis by (auto simp: abc_request_def)
qed

lemma sample_chunk_cancel:
  "case AssetChunkUploadCancel sample_env chunk_cfg abc_sum abc_world of (Inr resp, w) \<Rightarrow> cx_Deleted resp | _ \<Rightarrow> False"
  by code_simp

lemma chunk_cancel_exact_witness:
  "\<exists>resp w'. AssetChunkUploadCancel sample_env chunk_cfg abc_sum abc_world = (Inr resp, w') \<and> cx_Deleted resp \<and>
     file_at abc_world (abc_dir @ ''/000001.part'') \<noteq> None \<and> file_at w' (abc_dir @ ''/000001.part'') = None"
proof -
  obtain resp w' where run: "AssetChunkUploadCancel sample_env chunk_cfg abc_sum abc_world = (Inr resp, w')" and x: "cx_Deleted resp"
    using sample_chunk_cancel by (auto split: prod.splits sum.splits)
  have dir: "is_dir abc_world abc_dir" by (simp add: is_dir_def abc_world_def)
  have f: "file_at abc_world (abc_dir @ ''/000001.part'') \<noteq> None" by (simp add: file_at_def abc_world_def)
  have "inside abc_dir (abc_dir @ ''/000001.part'')" by (simp add: inside_def HasPrefix_iff)
  then show ?thesis using chunk_cancel_exact[OF abc_env run, of "abc_dir @ ''/000001.part''"] dir run x f by auto
qed

lemma sample_cleanup:
  "case cleanupChunkUploadDirs sample_env chunk_cfg 10 abc_world of (r, w) \<Rightarrow> file_at w (abc_dir @ ''/000001.part'') = None"
  by code_simp


end
