(* ===== verification/Worker.thy ===== *)
theory Worker
  imports Assets ChunkUpload
begin

text \<open>
  \<open>worker/processor.go\<close>: the poll of the task queue, the probe of an asset, and thumbnails. Decoding,
  encoding and ffmpeg are parameters; the size of a thumbnail and the points that are sampled are not.
\<close>

subsection \<open>Polling\<close>

record run_options =
  ro_Queue :: string
  ro_WorkerID :: string
  ro_Limit :: int
  ro_Lease :: time
  ro_PollInterval :: time

definition run_defaults :: "run_options \<Rightarrow> run_options" where
  "run_defaults opts = opts\<lparr>
     ro_PollInterval := (if ro_PollInterval opts \<le> 0 then 3 * 1000000000 else ro_PollInterval opts),
     ro_Lease := (if ro_Lease opts \<le> 0 then 300 * 1000000000 else ro_Lease opts),
     ro_Limit := (if ro_Limit opts \<le> 0 then 1 else ro_Limit opts)\<rparr>"

subsection \<open>Probing\<close>

definition probeFile :: "env \<Rightarrow> string \<Rightarrow> (string \<times> string) m" where
  "probeFile E path =
     bindE (os_Open path) (\<lambda>_.
     bindE (os_Read path) (\<lambda>first.
     bindE (io (ret ())) (\<lambda>_.
     bindE (os_Read path) (\<lambda>bytes.
     ret (e_detect E (take 512 first), e_sha256 E bytes)))))"

definition worker_imageDimensions :: "env \<Rightarrow> string \<Rightarrow> (int \<times> int) m" where
  "worker_imageDimensions E path =
     bindE (attempt (os_Read path)) (\<lambda>r. ret (case r of Inl _ \<Rightarrow> (0, 0)
        | Inr bytes \<Rightarrow> (case e_dimensions E bytes of None \<Rightarrow> (0, 0) | Some d \<Rightarrow> d)))"

text \<open>The fields of an asset that the probe sets, and the output it reports.\<close>

definition probed_asset :: "env \<Rightarrow> time \<Rightarrow> int \<Rightarrow> string \<Rightarrow> string \<Rightarrow> int \<times> int \<Rightarrow> asset \<Rightarrow> asset" where
  "probed_asset E now fsize mime checksum dims a =
     (let mf = worker_mediaTypeFromFile E mime (as_ObjectKey a);
          a1 = a\<lparr>as_Size := fsize, as_Checksum := checksum, as_MimeType := mime, as_MediaType := fst mf, as_Format := snd mf\<rparr>;
          a2 = (if fst mf = ''image'' then a1\<lparr>as_Width := fst dims, as_Height := snd dims\<rparr> else a1);
          meta = (case as_Metadata a of None \<Rightarrow> Map.empty | Some f \<Rightarrow> f)
      in a2\<lparr>as_Metadata := Some (meta(''filename'' \<mapsto> AStr (Base (as_ObjectKey a)), ''probed_at'' \<mapsto> AStr (e_rfc3339 E now)))\<rparr>)"

definition probe_output :: "asset \<Rightarrow> gomap" where
  "probe_output a = [''asset_id'' \<mapsto> AStr (obj_ID a), ''media_type'' \<mapsto> AStr (as_MediaType a), ''mime_type'' \<mapsto> AStr (as_MimeType a),
     ''format'' \<mapsto> AStr (as_Format a), ''width'' \<mapsto> ANum (of_int (as_Width a)), ''height'' \<mapsto> ANum (of_int (as_Height a)),
     ''size'' \<mapsto> ANum (of_int (as_Size a))]"

definition processAssetProbe :: "env \<Rightarrow> gomap option \<Rightarrow> gomap m" where
  "processAssetProbe E input =
     (let assetID = as_string (nilmap_at input ''asset_id'') in
      if assetID = [] then throw (Errorf ''asset_id is required'' [])
      else bindE (platformAssetStore_Get assetID) (\<lambda>a.
      bindE (storageBackendStore_Get (as_StorageBackendID a)) (\<lambda>b.
      bindE (lift_sum (worker_localObjectPath E b (as_ObjectKey a))) (\<lambda>path.
      bindE (os_Stat path) (\<lambda>fsize.
      bindE (probeFile E path) (\<lambda>(mime, checksum).
      bindE (if fst (worker_mediaTypeFromFile E mime (as_ObjectKey a)) = ''image''
             then worker_imageDimensions E path else ret (0, 0)) (\<lambda>dims.
      bindE (gets w_now) (\<lambda>now.
      let a' = probed_asset E now fsize mime checksum dims a in
      bindE (platformAssetStore_Update a') (\<lambda>_. ret (probe_output a'))))))))))"

subsection \<open>Thumbnails\<close>

definition thumb_size :: "int \<Rightarrow> int \<Rightarrow> int \<Rightarrow> int \<times> int" where
  "thumb_size maxSide srcW srcH =
     (if 0 < maxSide \<and> (maxSide < srcW \<or> maxSide < srcH)
      then (let wh = (if srcH \<le> srcW then (maxSide, go_div (wrap64 (maxSide * srcH)) srcW)
                      else (go_div (wrap64 (maxSide * srcW)) srcH, maxSide))
            in (if fst wh = 0 then 1 else fst wh, if snd wh = 0 then 1 else snd wh))
      else (srcW, srcH))"

text \<open>The point of the source that a point of the thumbnail samples, along one axis.\<close>

definition sample_at :: "int \<Rightarrow> int \<Rightarrow> int \<Rightarrow> int \<Rightarrow> int" where
  "sample_at start src dst x = start + go_div (wrap64 (x * src)) dst"

definition thumb_rows :: "picture \<Rightarrow> int \<times> int \<Rightarrow> nat list list" where
  "thumb_rows img dst = map (\<lambda>y. map (\<lambda>x. px_At img (sample_at (px_MinX img) (px_Dx img) (fst dst) (int x))
       (sample_at (px_MinY img) (px_Dy img) (snd dst) (int y))) [0..<nat (fst dst)]) [0..<nat (snd dst)]"

definition writeImageThumbnail :: "env \<Rightarrow> string \<Rightarrow> string \<Rightarrow> int \<Rightarrow> (int \<times> int) m" where
  "writeImageThumbnail E srcPath dstPath maxSide =
     bindE (os_Open srcPath) (\<lambda>_.
     bindE (os_Read srcPath) (\<lambda>bytes.
     case e_decode E bytes of None \<Rightarrow> throw (Errorf ''image: unknown format'' [])
     | Some img \<Rightarrow>
       if px_Dx img \<le> 0 \<or> px_Dy img \<le> 0 then throw (Errorf ''invalid image dimensions'' [])
       else let dst = thumb_size maxSide (px_Dx img) (px_Dy img) in
         bindE (os_Create dstPath) (\<lambda>_.
         bindE (os_Append dstPath (e_png E (thumb_rows img dst))) (\<lambda>_. ret dst))))"

text \<open>ffmpeg runs on the file at the source path and writes the target; None is \<open>exec.ErrNotFound\<close>.\<close>

definition run_ffmpeg :: "env \<Rightarrow> string \<Rightarrow> string \<Rightarrow> unit option m" where
  "run_ffmpeg E srcPath dstPath = (\<lambda>w. case e_ffmpeg E (file_at w srcPath) of
       None \<Rightarrow> (Inr None, w)
     | Some (Inl out) \<Rightarrow> (Inl (Errorf ''ffmpeg thumbnail failed: %s'' [TrimSpace out]), w)
     | Some (Inr bytes) \<Rightarrow> (Inr (Some ()), put_file dstPath bytes w))"

definition writeVideoThumbnail :: "env \<Rightarrow> string \<Rightarrow> string \<Rightarrow> (int \<times> int) option m" where
  "writeVideoThumbnail E srcPath dstPath =
     bindE (run_ffmpeg E srcPath dstPath) (\<lambda>r. case r of None \<Rightarrow> ret None
     | Some _ \<Rightarrow> bindE (worker_imageDimensions E dstPath) (\<lambda>d.
         if fst d = 0 \<or> snd d = 0 then throw (Errorf ''video thumbnail has invalid dimensions'' []) else ret (Some d)))"

definition thumb_status_output :: "thumbnail \<Rightarrow> gomap" where
  "thumb_status_output t = [''thumbnail_status'' \<mapsto> AStr (th_Status t)]"

text \<open>What follows the writing of the file, by its outcome: no ffmpeg, an error, or the size of the thumbnail.\<close>

definition finish_thumbnail :: "string \<Rightarrow> string \<Rightarrow> thumbnail \<Rightarrow> err + (int \<times> int) option \<Rightarrow> gomap m" where
  "finish_thumbnail thumbKey dstPath t r = (case r of
     Inr None \<Rightarrow> bindE (attempt (assetThumbnailStore_Update (t\<lparr>th_Status := ''unsupported''\<rparr>))) (\<lambda>_.
       ret [''thumbnail_status'' \<mapsto> AStr ''unsupported'', ''reason'' \<mapsto> AStr ''ffmpeg not found''])
   | Inl e \<Rightarrow> bindE (attempt (assetThumbnailStore_Update (t\<lparr>th_Status := ''failed''\<rparr>))) (\<lambda>_. throw e)
   | Inr (Some d) \<Rightarrow>
       bindE (attempt (os_Stat dstPath)) (\<lambda>stat.
       bindE (assetThumbnailStore_Update (t\<lparr>th_ObjectKey := thumbKey, th_MimeType := ''image/png'', th_Width := fst d,
          th_Height := snd d, th_Status := ''ready'', th_Size := (case stat of Inl _ \<Rightarrow> th_Size t | Inr n \<Rightarrow> n)\<rparr>)) (\<lambda>t'.
       ret [''thumbnail_id'' \<mapsto> AStr (obj_ID t'), ''thumbnail_status'' \<mapsto> AStr (th_Status t')])))"

definition write_thumbnail :: "env \<Rightarrow> asset \<Rightarrow> string \<Rightarrow> string \<Rightarrow> (int \<times> int) option m" where
  "write_thumbnail E a srcPath dstPath =
     (if as_MediaType a = ''video'' then writeVideoThumbnail E srcPath dstPath
      else bindE (writeImageThumbnail E srcPath dstPath 320) (\<lambda>d. ret (Some d)))"

definition processAssetThumbnail :: "env \<Rightarrow> gomap option \<Rightarrow> gomap m" where
  "processAssetThumbnail E input =
     (let assetID = as_string (nilmap_at input ''asset_id'') in
      if assetID = [] then throw (Errorf ''asset_id is required'' [])
      else bindE (platformAssetStore_Get assetID) (\<lambda>a.
      bindE (assetThumbnailStore_GetByAsset assetID) (\<lambda>t.
      if as_MediaType a \<noteq> ''image'' \<and> as_MediaType a \<noteq> ''video''
      then bindE (attempt (assetThumbnailStore_Update (t\<lparr>th_Status := ''unsupported''\<rparr>))) (\<lambda>_.
           ret (thumb_status_output (t\<lparr>th_Status := ''unsupported''\<rparr>)))
      else bindE (assetThumbnailStore_Update (t\<lparr>th_Status := ''processing''\<rparr>)) (\<lambda>t1.
        bindE (storageBackendStore_Get (as_StorageBackendID a)) (\<lambda>b.
        bindE (lift_sum (worker_localObjectPath E b (as_ObjectKey a))) (\<lambda>srcPath.
        let thumbKey = JoinPath [''thumbnails'', obj_ID a, ''thumb.png''] in
        bindE (lift_sum (worker_localObjectPath E b thumbKey)) (\<lambda>dstPath.
        bindE (os_MkdirAll (Dir dstPath)) (\<lambda>_.
        bindE (attempt (write_thumbnail E a srcPath dstPath)) (finish_thumbnail thumbKey dstPath t1))))))))) "

subsection \<open>Tasks\<close>

text \<open>The output that a task gets when its processing succeeds.\<close>

definition process :: "env \<Rightarrow> task \<Rightarrow> gomap m" where
  "process E t =
     (if tk_Type t = TaskTypeAssetThumbnail then processAssetThumbnail E (tk_Input t)
      else if tk_Type t = TaskTypeAssetProbe then processAssetProbe E (tk_Input t)
      else if tk_Type t = TaskTypeQueryParse
      then ret [''message'' \<mapsto> AStr ''query parse fallback completed'', ''input'' \<mapsto> any_of_map (tk_Input t)]
      else if tk_Type t = TaskTypeLLMInvoke \<or> tk_Type t = TaskTypeAssetTagging
      then ret [''message'' \<mapsto> AStr ''task contract accepted; provider execution is adapter-driven'']
      else ret [''message'' \<mapsto> AStr ''task type accepted'', ''type'' \<mapsto> AStr (tk_Type t)])"

definition run_task :: "env \<Rightarrow> task \<Rightarrow> unit m" where
  "run_task E t =
     bindE (attempt (process E t)) (\<lambda>r.
     bindE (attempt (taskStore_Update (case r of
        Inl e \<Rightarrow> fail_task E e t | Inr out \<Rightarrow> succeed_task (t\<lparr>tk_Output := Some out\<rparr>)))) (\<lambda>_. ret ()))"

definition runOnce :: "env \<Rightarrow> run_options \<Rightarrow> unit m" where
  "runOnce E opts =
     bindE (taskStore_Claim (ro_Queue opts) (ro_WorkerID opts) (ro_Limit opts) (ro_Lease opts)) (\<lambda>tasks.
     for_each tasks (run_task E))"

text \<open>The polls up to the end of the context: errors are logged, and the next tick polls again.\<close>

fun polls :: "env \<Rightarrow> run_options \<Rightarrow> nat \<Rightarrow> world \<Rightarrow> world" where
  "polls E opts 0 w = w"
| "polls E opts (Suc n) w = polls E opts n (snd (runOnce E opts w))"

definition Run :: "env \<Rightarrow> run_options \<Rightarrow> nat \<Rightarrow> world \<Rightarrow> world" where
  "Run E opts n = polls E (run_defaults opts) n"

definition copyFile :: "string \<Rightarrow> string \<Rightarrow> unit m" where
  "copyFile srcPath dstPath =
     bindE (os_Open srcPath) (\<lambda>_.
     bindE (os_Create dstPath) (\<lambda>_.
     bindE (os_Copy srcPath dstPath) (\<lambda>_. ret ())))"

end
