(* ===== verification/WorkerLaws.thy ===== *)
theory WorkerLaws
  imports Worker ChunkLaws AssetLinks
begin

text \<open>
  What the worker promises: thumbnails of bounded size sampled inside their source, thumbnails that are
  served once they are ready, probes that record what is stored, and polls that are runs of the
  step relation of the task queue.
\<close>

subsection \<open>Thumbnail sizes\<close>

lemma wrap64_product: "0 \<le> x \<Longrightarrow> x < 2 ^ 31 * 2 ^ 31 \<Longrightarrow> wrap64 x = x"
  by (rule wrap64_id) (simp add: int64_range_def)

lemma scaled_size:
  assumes "0 < (m :: int)" "m < 2 ^ 31" "0 < a" "a \<le> b" "b < 2 ^ 31" "m < b"
  shows "go_div (wrap64 (m * a)) b = m * a div b" "0 \<le> m * a div b" "m * a div b \<le> m" "m * a div b \<le> a"
proof -
  have "m * a < 2 ^ 31 * 2 ^ 31" using assms by (intro mult_strict_mono) simp_all
  moreover have "0 \<le> m * a" using assms by simp
  ultimately have "wrap64 (m * a) = m * a" by (intro wrap64_product)
  then show "go_div (wrap64 (m * a)) b = m * a div b" using assms by (simp add: go_div_pos)
  show "0 \<le> m * a div b" using assms by (simp add: pos_imp_zdiv_nonneg_iff)
  have "m * a div b \<le> m * b div b" using assms by (intro zdiv_mono1) simp_all
  then show "m * a div b \<le> m" using assms by simp
  have "m * a div b \<le> b * a div b" using assms by (intro zdiv_mono1) simp_all
  then show "m * a div b \<le> a" using assms by simp
qed

lemma thumb_size_bounds:
  assumes "0 < m" "m < 2 ^ 31" "0 < w" "w < 2 ^ 31" "0 < h" "h < 2 ^ 31" and "thumb_size m w h = (dw, dh)"
  shows "1 \<le> dw \<and> dw \<le> m \<and> dw \<le> w" "1 \<le> dh \<and> dh \<le> m \<and> dh \<le> h"
proof -
  have "(1 \<le> dw \<and> dw \<le> m \<and> dw \<le> w) \<and> 1 \<le> dh \<and> dh \<le> m \<and> dh \<le> h"
  proof (cases "m < w \<or> m < h")
    case big: True
    show ?thesis
    proof (cases "h \<le> w")
      case True
      then have "m < w" using big by linarith
      then show ?thesis
        using scaled_size[of m h w] True assms by (auto simp: thumb_size_def Let_def split: if_splits)
    next
      case False
      then have "m < h" using big by linarith
      then show ?thesis
        using scaled_size[of m w h] False assms by (auto simp: thumb_size_def Let_def split: if_splits)
    qed
  qed (use assms in \<open>auto simp: thumb_size_def\<close>)
  then show "1 \<le> dw \<and> dw \<le> m \<and> dw \<le> w" "1 \<le> dh \<and> dh \<le> m \<and> dh \<le> h" by auto
qed

lemma sample_inside:
  assumes "0 < (d :: int)" "d \<le> n" "n < 2 ^ 31" "0 \<le> x" "x < d"
  shows "start \<le> sample_at start n d x \<and> sample_at start n d x < start + n"
proof -
  have "x * n < 2 ^ 31 * 2 ^ 31" using assms by (intro mult_strict_mono) simp_all
  moreover have "0 \<le> x * n" using assms by simp
  ultimately have w: "wrap64 (x * n) = x * n" by (intro wrap64_product)
  have "x * n < n * d" using assms by (simp add: mult.commute[of x n])
  moreover have "x * n div d * d \<le> x * n" using assms(1) by (simp add: minus_mod_eq_div_mult[symmetric])
  moreover have "n * d \<le> x * n div d * d" if "n \<le> x * n div d" using that assms(1) by (intro mult_right_mono) simp_all
  ultimately have "x * n div d < n" by linarith
  moreover have "0 \<le> x * n div d" using assms by (simp add: pos_imp_zdiv_nonneg_iff)
  ultimately show ?thesis using assms w by (simp add: sample_at_def go_div_pos)
qed

text \<open>
  A thumbnail fits: for a side limit and an image with sides below \<open>2 ^ 31\<close> both sides of the thumbnail are at
  least one, at most the limit and at most those of the image; an image that fits is kept as it is; and every
  point of the thumbnail samples a point inside the bounds of the image, without overflow.
\<close>

theorem thumbnail_fits:
  assumes "0 < m" "m < 2 ^ 31" "0 < px_Dx img" "px_Dx img < 2 ^ 31" "0 < px_Dy img" "px_Dy img < 2 ^ 31"
    and "thumb_size m (px_Dx img) (px_Dy img) = (dw, dh)"
  shows "1 \<le> dw \<and> dw \<le> min m (px_Dx img) \<and> 1 \<le> dh \<and> dh \<le> min m (px_Dy img) \<and>
    (px_Dx img \<le> m \<and> px_Dy img \<le> m \<longrightarrow> dw = px_Dx img \<and> dh = px_Dy img) \<and>
    (\<forall>x. 0 \<le> x \<and> x < dw \<longrightarrow> px_MinX img \<le> sample_at (px_MinX img) (px_Dx img) dw x \<and>
        sample_at (px_MinX img) (px_Dx img) dw x < px_MinX img + px_Dx img) \<and>
    (\<forall>y. 0 \<le> y \<and> y < dh \<longrightarrow> px_MinY img \<le> sample_at (px_MinY img) (px_Dy img) dh y \<and>
        sample_at (px_MinY img) (px_Dy img) dh y < px_MinY img + px_Dy img) \<and>
    length (thumb_rows img (dw, dh)) = nat dh \<and> (\<forall>row \<in> set (thumb_rows img (dw, dh)). length row = nat dw)"
proof -
  note b = thumb_size_bounds[OF assms]
  have "dw = px_Dx img \<and> dh = px_Dy img" if "px_Dx img \<le> m \<and> px_Dy img \<le> m"
    using that assms(7) by (simp add: thumb_size_def)
  moreover have "length (thumb_rows img (dw, dh)) = nat dh \<and> (\<forall>row \<in> set (thumb_rows img (dw, dh)). length row = nat dw)"
    by (auto simp: thumb_rows_def)
  ultimately show ?thesis
    using b sample_inside[of dw "px_Dx img"] sample_inside[of dh "px_Dy img"] assms by auto
qed

lemma thumbnail_fits_witness:
  "thumb_size 320 4000 3 = (320, 1) \<and> sample_at 0 4000 320 319 < 4000"
proof -
  have "thumb_size 320 4000 3 = (320, 1)" by code_simp
  then show ?thesis
    using thumbnail_fits[of 320 "\<lparr>px_MinX = 0, px_MinY = 0, px_Dx = 4000, px_Dy = 3, px_At = \<lambda>_ _. 0\<rparr>" 320 1] by simp
qed

subsection \<open>Probing\<close>

text \<open>
  A probe records what is stored: for an asset whose object has the content \<open>c\<close> it sets size, SHA-256, detected MIME
  type, media type and format to those of the content, keeps every other column (the sides of an image
  apart), writes no other row, and reports the new values. Size, checksum and MIME type are the ones
  that an upload of \<open>c\<close> has stored, so the probe after an upload changes none of them.
\<close>

theorem probe_records_content:
  fixes a :: asset
  assumes "healthy w" and "keys_distinct (w_assets w)" "keys_distinct (w_backends w)"
    and "a \<in> set (w_assets w)" "b \<in> set (w_backends w)" "as_StorageBackendID a = obj_ID b"
    and path: "worker_localObjectPath E b (as_ObjectKey a) = Inr p" and "file_at w p = Some c" "\<not> is_dir w p"
    and "as_string (nilmap_at input ''asset_id'') = obj_ID a" "obj_ID a \<noteq> []"
  shows "\<exists>out a' dims. processAssetProbe E input w = (Inr out, w\<lparr>w_assets := save_row a' (w_assets w)\<rparr>) \<and>
    a' = BeforeUpdate (w_now w) (probed_asset E (w_now w) (int (length c)) (e_detect E (take 512 c)) (e_sha256 E c) dims a) \<and>
    as_Size a' = int (length c) \<and> as_Checksum a' = e_sha256 E c \<and> as_MimeType a' = e_detect E (take 512 c) \<and>
    as_MediaType a' = fst (worker_mediaTypeFromFile E (e_detect E (take 512 c)) (as_ObjectKey a)) \<and>
    (as_StorageBackendID a', as_ObjectKey a', as_DeletedAt a', as_SourceType a', as_Duration a', obj_ID a', obj_Name a') =
      (as_StorageBackendID a, as_ObjectKey a, as_DeletedAt a, as_SourceType a, as_Duration a, obj_ID a, obj_Name a) \<and>
    out ''size'' = Some (ANum (of_nat (length c)))"
proof -
  let ?mime = "e_detect E (take 512 c)" and ?sum = "e_sha256 E c"
  have "\<exists>dims. (if fst (worker_mediaTypeFromFile E ?mime (as_ObjectKey a)) = ''image''
             then worker_imageDimensions E p else ret (0, 0)) w = (Inr dims, w)"
    using assms by (simp add: worker_imageDimensions_def os_Read_def healthy_def attempt_def bindE_apply)
  then obtain dims where dims: "(if fst (worker_mediaTypeFromFile E ?mime (as_ObjectKey a)) = ''image''
             then worker_imageDimensions E p else ret (0, 0)) w = (Inr dims, w)" by (elim exE)
  define r where "r = probed_asset E (w_now w) (int (length c)) ?mime ?sum dims a"
  have get: "platformAssetStore_Get (obj_ID a) w = (Inr a, w)" "storageBackendStore_Get (as_StorageBackendID a) w = (Inr b, w)"
    using assms by (simp_all add: platformAssetStore_Get_def storageBackendStore_Get_def db_first_def db_first_by_def first_unique stmt_healthy)
  have stored: "os_Stat p w = (Inr (int (length c)), w)" "probeFile E p w = (Inr (?mime, ?sum), w)"
    using assms by (simp_all add: os_Stat_def probeFile_def os_Open_def os_Read_def healthy_def bindE_apply)
  have save: "platformAssetStore_Update r w = (Inr (BeforeUpdate (w_now w) r), w\<lparr>w_assets := save_row (BeforeUpdate (w_now w) r) (w_assets w)\<rparr>)"
    using assets_t.save_healthy[OF assms(1)] by (simp add: platformAssetStore_Update_def)
  have run: "processAssetProbe E input w = (Inr (probe_output r), w\<lparr>w_assets := save_row (BeforeUpdate (w_now w) r) (w_assets w)\<rparr>)"
    using get stored save dims assms(10,11) path
    by (simp add: processAssetProbe_def bindE_apply Let_def r_def)
  show ?thesis
    by (rule exI[of _ "probe_output r"], rule exI[of _ "BeforeUpdate (w_now w) r"], rule exI[of _ dims])
      (simp add: run r_def probed_asset_def Let_def probe_output_def BeforeUpdate_def)
qed

lemma probe_records_content_witness:
  "\<exists>out w'. processAssetProbe sample_env (Some [''asset_id'' \<mapsto> AStr ''a1'']) zip_world = (Inr out, w') \<and>
     out ''size'' = Some (ANum 4)"
proof -
  let ?a = "new_asset\<lparr>obj_ID := ''a1'', obj_Name := ''cat.png'', as_StorageBackendID := ''b1'', as_ObjectKey := ''k/cat''\<rparr>"
  let ?b = "sample_backend\<lparr>obj_ID := ''b1''\<rparr>"
  have p: "worker_localObjectPath sample_env ?b ''k/cat'' = Inr ''/data/k/cat''" by code_simp
  have "healthy zip_world" "keys_distinct (w_assets zip_world)" "keys_distinct (w_backends zip_world)"
    "?a \<in> set (w_assets zip_world)" "?b \<in> set (w_backends zip_world)" "file_at zip_world ''/data/k/cat'' = Some ''meow''"
    "\<not> is_dir zip_world ''/data/k/cat''"
    by (simp_all add: healthy_def zip_world_def upload_world_def empty_world_def keys_distinct_def file_at_def is_dir_def)
  from probe_records_content[OF this(1-5) _ _ this(6,7), of sample_env "Some [''asset_id'' \<mapsto> AStr ''a1'']"] p
  show ?thesis by (auto simp: nilmap_at_def map_at_def)
qed


subsection \<open>Thumbnails that are ready are served\<close>

context table_lens
begin

text \<open>The first row by identifier, with what makes it the first.\<close>

lemma first_least_triple:
  assumes I: "plain I" and Q: "\<And>x. plain (Q x)"
    and found: "\<And>w x. I w \<Longrightarrow> x \<in> set (rows t w) \<Longrightarrow> P x \<Longrightarrow> (\<forall>y \<in> set (rows t w). P y \<longrightarrow> obj_ID x \<le> obj_ID y) \<Longrightarrow> Q x w"
  shows "triple I (db_first t P) Q (\<lambda>_. True)"
proof (rule tripleI)
  fix w x w' assume w: "I w" and run: "db_first t P w = (Inr x, w')"
  show "Q x w'"
    by (cases rule: first_cases[of obj_ID P w]) (use run plain_upd(1)[OF Q found[OF w]] in \<open>auto simp: db_first_def\<close>)
qed simp

end

text \<open>
  The thumbnail row that the worker holds: the first of its asset, in a table with distinct keys whose rows for
  the asset name the backend of the asset.
\<close>

record thumb_ctx =
  tx_Asset :: asset
  tx_Assets :: "asset list"
  tx_Backends :: "storage_backend list"

definition thumbs_ok :: "thumb_ctx \<Rightarrow> world \<Rightarrow> bool" where
  "thumbs_ok c w \<longleftrightarrow> w_assets w = tx_Assets c \<and> w_backends w = tx_Backends c \<and> keys_distinct (w_thumbnails w) \<and>
     (\<forall>u \<in> set (w_thumbnails w). th_AssetID u = obj_ID (tx_Asset c) \<longrightarrow> th_StorageBackendID u = as_StorageBackendID (tx_Asset c))"

definition holds_thumb :: "thumb_ctx \<Rightarrow> thumbnail \<Rightarrow> world \<Rightarrow> bool" where
  "holds_thumb c t w \<longleftrightarrow> thumbs_ok c w \<and> t \<in> set (w_thumbnails w) \<and> th_AssetID t = obj_ID (tx_Asset c) \<and>
     (\<forall>u \<in> set (w_thumbnails w). th_AssetID u = obj_ID (tx_Asset c) \<longrightarrow> obj_ID t \<le> obj_ID u)"

lemma thumb_plain: "plain (thumbs_ok c)" "plain (holds_thumb c t)" "plain (\<lambda>w. holds_thumb c t w \<and> P (file_at w p))"
  "plain (\<lambda>w. thumbs_ok c w \<and> b)" "plain (\<lambda>w. holds_thumb c t w \<and> b)"
  by (rule plainI; simp add: thumbs_ok_def holds_thumb_def)+

lemma thumbs_files [simp]:
  "holds_thumb c t (touch_dir d w) = holds_thumb c t w" "holds_thumb c t (put_file q k w) = holds_thumb c t w"
  "holds_thumb c t (make_dir d w) = holds_thumb c t w"
  by (simp_all add: thumbs_ok_def holds_thumb_def touch_dir_def put_file_def make_dir_def)

lemma thumbs_fold [simp]: "holds_thumb c t (fold make_dir ds w) = holds_thumb c t w"
  by (induction ds arbitrary: w) simp_all

text \<open>Saving the row with other columns keeps all of this.\<close>

lemma holds_thumb_save:
  assumes "holds_thumb c t w" "obj_ID r = obj_ID t" "th_AssetID r = th_AssetID t" "th_StorageBackendID r = th_StorageBackendID t"
  shows "holds_thumb c r (w_thumbnails_update (save_row r) w)"
proof -
  have mem: "u = r \<or> u \<in> set (w_thumbnails w)" if "u \<in> set (save_row r (w_thumbnails w))" for u
    using save_row_set that by blast
  have "keys_distinct (save_row r (w_thumbnails w))"
    using assms(1) save_row_keys by (auto simp: holds_thumb_def thumbs_ok_def)
  moreover have "r \<in> set (save_row r (w_thumbnails w))" by (rule save_row_mem)
  ultimately show ?thesis
    using assms mem unfolding holds_thumb_def thumbs_ok_def by fastforce
qed

lemma holds_thumb_update:
  assumes "obj_ID r = obj_ID t" "th_AssetID r = th_AssetID t" "th_StorageBackendID r = th_StorageBackendID t"
  shows "triple (\<lambda>w. holds_thumb c t w \<and> P (file_at w p)) (assetThumbnailStore_Update r)
    (\<lambda>r' w. holds_thumb c r' w \<and> object_meta.more r' = object_meta.more r \<and> P (file_at w p)) (\<lambda>_. True)"
  unfolding assetThumbnailStore_Update_def
proof (rule thumbnails_t.save_triple[OF thumb_plain(3)])
  show "plain (\<lambda>w. holds_thumb c r' w \<and> object_meta.more r' = object_meta.more r \<and> P (file_at w p))" for r'
    by (rule plainI) (simp add: thumbs_ok_def holds_thumb_def)
  fix w assume w: "holds_thumb c t w \<and> P (file_at w p)"
  let ?r = "BeforeUpdate (w_now w) r"
  have "th_AssetID ?r = th_AssetID r" "th_StorageBackendID ?r = th_StorageBackendID r" by (simp_all add: BeforeUpdate_def)
  then have "holds_thumb c ?r (w_thumbnails_update (save_row ?r) w)"
    using holds_thumb_save[of c t w ?r] w assms by simp
  then show "holds_thumb c ?r (snd thumbnails_tbl (save_row ?r) w) \<and> object_meta.more ?r = object_meta.more r \<and>
      P (file_at (snd thumbnails_tbl (save_row ?r) w) p)"
    using w by simp
qed simp


lemma holds_thumb_calls:
  "preserves (holds_thumb c t) (os_Open p)" "preserves (holds_thumb c t) (os_Read p)" "preserves (holds_thumb c t) (os_Create p)"
  "preserves (holds_thumb c t) (os_MkdirAll p)"
  unfolding os_Open_def os_Read_def os_Create_def os_MkdirAll_def
  by (rule io_preserves[OF thumb_plain(2)]; auto intro!: preservesI split: option.split)+

lemma kept: "preserves I m \<Longrightarrow> triple I m (\<lambda>_. I) I"
  by (rule preserves_triple)

lemma image_triple:
  "triple (holds_thumb c t) (writeImageThumbnail E src dst m) (\<lambda>_ w. holds_thumb c t w \<and> file_at w dst \<noteq> None) (holds_thumb c t)"
proof -
  have app: "triple (holds_thumb c t) (os_Append dst bytes) (\<lambda>_ w. holds_thumb c t w \<and> file_at w dst \<noteq> None) (holds_thumb c t)" for bytes
    unfolding os_Append_def by (rule io_triple[OF thumb_plain(2)]) (auto simp: triple_def)
  have "triple (holds_thumb c t) (case e_decode E bytes of None \<Rightarrow> throw (Errorf ''image: unknown format'' [])
     | Some img \<Rightarrow>
       if px_Dx img \<le> 0 \<or> px_Dy img \<le> 0 then throw (Errorf ''invalid image dimensions'' [])
       else let d = thumb_size m (px_Dx img) (px_Dy img) in
         bindE (os_Create dst) (\<lambda>_.
         bindE (os_Append dst (e_png E (thumb_rows img d))) (\<lambda>_. ret d)))
     (\<lambda>_ w. holds_thumb c t w \<and> file_at w dst \<noteq> None) (holds_thumb c t)" for bytes
    unfolding Let_def
    by (intro triple_case_option triple_if triple_throw triple_bindE[OF kept[OF holds_thumb_calls(3)]] triple_bindE[OF app] triple_ret)
  then show ?thesis unfolding writeImageThumbnail_def
    by (intro triple_bindE[OF kept[OF holds_thumb_calls(1)]] triple_bindE[OF kept[OF holds_thumb_calls(2)]])
qed

lemma video_triple:
  "triple (holds_thumb c t) (writeVideoThumbnail E src dst)
    (\<lambda>r w. holds_thumb c t w \<and> (r \<noteq> None \<longrightarrow> file_at w dst \<noteq> None)) (holds_thumb c t)"
proof -
  have run: "triple (holds_thumb c t) (run_ffmpeg E src dst) (\<lambda>r w. holds_thumb c t w \<and> (r \<noteq> None \<longrightarrow> file_at w dst \<noteq> None)) (holds_thumb c t)"
    unfolding triple_def run_ffmpeg_def by (auto split: option.splits sum.splits)
  have dims: "triple (\<lambda>w. holds_thumb c t w \<and> file_at w dst \<noteq> None) (worker_imageDimensions E dst)
      (\<lambda>_ w. holds_thumb c t w \<and> file_at w dst \<noteq> None) (holds_thumb c t)"
    unfolding worker_imageDimensions_def os_Read_def
    by (intro triple_bindE[OF kept[OF preserves_attempt[OF io_preserves[OF thumb_plain(3)]], THEN triple_mono]] triple_ret)
      (auto intro!: preservesI split: option.split)
  have "triple (\<lambda>w. holds_thumb c t w \<and> (r \<noteq> None \<longrightarrow> file_at w dst \<noteq> None)) (case r of None \<Rightarrow> ret None
     | Some _ \<Rightarrow> bindE (worker_imageDimensions E dst) (\<lambda>d.
         if fst d = 0 \<or> snd d = 0 then throw (Errorf ''video thumbnail has invalid dimensions'' []) else ret (Some d)))
    (\<lambda>r w. holds_thumb c t w \<and> (r \<noteq> None \<longrightarrow> file_at w dst \<noteq> None)) (holds_thumb c t)" for r :: "unit option"
  proof (cases r)
    case None
    then show ?thesis by (simp add: triple_ret)
  next
    case (Some u)
    have "triple (\<lambda>w. holds_thumb c t w \<and> file_at w dst \<noteq> None) (bindE (worker_imageDimensions E dst) (\<lambda>d.
         if fst d = 0 \<or> snd d = 0 then throw (Errorf ''video thumbnail has invalid dimensions'' []) else ret (Some d)))
      (\<lambda>r w. holds_thumb c t w \<and> (r \<noteq> None \<longrightarrow> file_at w dst \<noteq> None)) (holds_thumb c t)"
      by (intro triple_bindE[OF dims] triple_if triple_throw triple_ret) auto
    then show ?thesis using Some by simp
  qed
  then show ?thesis unfolding writeVideoThumbnail_def by (rule triple_bindE[OF run])
qed

definition thumb_served :: "thumb_ctx \<Rightarrow> string \<Rightarrow> string \<Rightarrow> world \<Rightarrow> bool" where
  "thumb_served c key p w \<longleftrightarrow> file_at w p \<noteq> None \<and>
     (\<exists>t. holds_thumb c t w \<and> th_Status t = ''ready'' \<and> th_ObjectKey t = key \<and> th_MimeType t = ''image/png'')"

lemma finish_thumbnail_triple:
  "triple (\<lambda>w. holds_thumb c t w \<and> (\<forall>d. r = Inr (Some d) \<longrightarrow> file_at w p \<noteq> None)) (finish_thumbnail key p t r)
    (\<lambda>out w. out ''thumbnail_status'' = Some (AStr ''ready'') \<longrightarrow> thumb_served c key p w) (\<lambda>_. True)"
proof (cases "\<exists>d. r = Inr (Some d)")
  case True
  then obtain d where r: "r = Inr (Some d)" by blast
  let ?H = "\<lambda>w. holds_thumb c t w \<and> file_at w p \<noteq> None"
  let ?t = "\<lambda>st. t\<lparr>th_ObjectKey := key, th_MimeType := ''image/png'', th_Width := fst d, th_Height := snd d, th_Status := ''ready'',
      th_Size := (case st of Inl (_ :: err) \<Rightarrow> th_Size t | Inr n \<Rightarrow> n)\<rparr>"
  have stat: "triple ?H (attempt (os_Stat p)) (\<lambda>_. ?H) (\<lambda>_. True)"
  proof -
    have "preserves ?H (os_Stat p)" unfolding os_Stat_def
      by (rule io_preserves[OF thumb_plain(3)]) (auto intro!: preservesI split: option.split)
    from preserves_triple[OF preserves_attempt[OF this]] show ?thesis by (rule triple_mono) simp_all
  qed
  have upd: "triple ?H (assetThumbnailStore_Update (?t st))
      (\<lambda>t' w. holds_thumb c t' w \<and> object_meta.more t' = object_meta.more (?t st) \<and> file_at w p \<noteq> None) (\<lambda>_. True)" for st
    by (rule holds_thumb_update) simp_all
  have served: "thumb_served c key p w"
    if "holds_thumb c t' w \<and> object_meta.more t' = object_meta.more (?t st) \<and> file_at w p \<noteq> None" for t' :: thumbnail and st w
  proof -
    have "th_Status t' = ''ready'' \<and> th_ObjectKey t' = key \<and> th_MimeType t' = ''image/png''"
      using that by (cases t'; cases t) simp
    then show ?thesis using that unfolding thumb_served_def by blast
  qed
  have "triple ?H (bindE (attempt (os_Stat p)) (\<lambda>stat. bindE (assetThumbnailStore_Update (?t stat)) (\<lambda>t'.
       ret [''thumbnail_id'' \<mapsto> AStr (obj_ID t'), ''thumbnail_status'' \<mapsto> AStr (th_Status t')])))
    (\<lambda>out w. out ''thumbnail_status'' = Some (AStr ''ready'') \<longrightarrow> thumb_served c key p w) (\<lambda>_. True)"
    by (rule triple_bindE[OF stat], rule triple_bindE[OF upd], rule triple_ret) (use served in blast)
  then show ?thesis by (simp add: r finish_thumbnail_def)
next
  case False
  then show ?thesis
  proof (cases r)
    case (Inl e)
    then show ?thesis
      by (auto simp: finish_thumbnail_def triple_def bindE_apply attempt_def split: prod.splits)
  next
    case (Inr o')
    then have "o' = None" using False by (cases o') auto
    then show ?thesis using Inr by (auto simp: finish_thumbnail_def triple_def bindE_apply attempt_def split: prod.splits)
  qed
qed


lemma write_thumbnail_triple:
  "triple (holds_thumb c t) (attempt (write_thumbnail E a src dst))
    (\<lambda>r w. holds_thumb c t w \<and> (\<forall>d. r = Inr (Some d) \<longrightarrow> file_at w dst \<noteq> None)) (\<lambda>_. True)"
proof (rule triple_attempt)
  have img: "triple (holds_thumb c t) (bindE (writeImageThumbnail E src dst 320) (\<lambda>d. ret (Some d)))
      (\<lambda>x w. holds_thumb c t w \<and> (\<forall>d. x = Some d \<longrightarrow> file_at w dst \<noteq> None)) (holds_thumb c t)"
    by (rule triple_bindE[OF image_triple triple_ret]) blast
  have vid: "triple (holds_thumb c t) (writeVideoThumbnail E src dst)
      (\<lambda>x w. holds_thumb c t w \<and> (\<forall>d. x = Some d \<longrightarrow> file_at w dst \<noteq> None)) (holds_thumb c t)"
    by (rule triple_mono[OF video_triple]) blast+
  show "triple (holds_thumb c t) (write_thumbnail E a src dst)
      (\<lambda>x w. holds_thumb c t w \<and> (\<forall>d. Inr x = Inr (Some d) \<longrightarrow> file_at w dst \<noteq> None))
      (\<lambda>w. \<forall>e. holds_thumb c t w \<and> (\<forall>d. Inl e = Inr (Some d) \<longrightarrow> file_at w dst \<noteq> None))"
    using img vid unfolding write_thumbnail_def by (cases "as_MediaType a = ''video''") simp_all
qed

text \<open>With distinct keys the first row by identifier is the least one.\<close>

lemma first_least_unique:
  assumes "keys_distinct rs" "r \<in> set rs" "P r" and least: "\<And>u. u \<in> set rs \<Longrightarrow> P u \<Longrightarrow> obj_ID r \<le> obj_ID u"
  shows "min_by obj_ID (filter P rs) = Some r"
proof -
  obtain y where y: "min_by obj_ID (filter P rs) = Some y"
    using assms(2,3) by (cases "min_by obj_ID (filter P rs)") (auto simp: filter_empty_conv)
  then have "y \<in> set rs" "P y" using min_by_mem by fastforce+
  moreover have "obj_ID y \<le> obj_ID r" by (rule min_by_le[OF y]) (use assms in simp)
  ultimately have "obj_ID y = obj_ID r" using least by (simp add: order_antisym)
  then show ?thesis using keys_distinct_unique[OF assms(1) \<open>y \<in> set rs\<close> assms(2)] y by simp
qed

lemma key_nonempty: "JoinPath [''thumbnails'', aid, f] \<noteq> []"
  by (simp add: JoinPath_def)

text \<open>A whole thumbnail task: what the table and the files hold when it reports \<open>ready\<close>.\<close>

definition thumb_done :: "env \<Rightarrow> thumb_ctx \<Rightarrow> gomap \<Rightarrow> world \<Rightarrow> bool" where
  "thumb_done E c out w \<longleftrightarrow> (out ''thumbnail_status'' = Some (AStr ''ready'') \<longrightarrow>
     (\<exists>b \<in> set (tx_Backends c). \<exists>p. obj_ID b = as_StorageBackendID (tx_Asset c) \<and>
        localObjectPath E b (JoinPath [''thumbnails'', obj_ID (tx_Asset c), ''thumb.png'']) = Inr p \<and>
        thumb_served c (JoinPath [''thumbnails'', obj_ID (tx_Asset c), ''thumb.png'']) p w))"

lemma thumb_tail:
  assumes "b \<in> set (tx_Backends c)" "obj_ID b = as_StorageBackendID (tx_Asset c)"
    and "localObjectPath E b (JoinPath [''thumbnails'', obj_ID (tx_Asset c), ''thumb.png'']) = Inr p"
  shows "triple (holds_thumb c t) (bindE (os_MkdirAll (Dir p)) (\<lambda>_. bindE (attempt (write_thumbnail E x src p))
      (finish_thumbnail (JoinPath [''thumbnails'', obj_ID (tx_Asset c), ''thumb.png'']) p t))) (thumb_done E c) (\<lambda>_. True)"
proof -
  have mk: "triple (holds_thumb c t) (os_MkdirAll (Dir p)) (\<lambda>_. holds_thumb c t) (\<lambda>_. True)"
    by (rule triple_mono[OF kept[OF holds_thumb_calls(4)]]) simp_all
  show ?thesis
    by (rule triple_bindE[OF mk], rule triple_bindE[OF write_thumbnail_triple], rule triple_mono[OF finish_thumbnail_triple])
      (use assms in \<open>auto simp: thumb_done_def\<close>)
qed

lemma thumb_paths:
  "triple (\<lambda>w. holds_thumb c t w \<and> b \<in> set (tx_Backends c) \<and> obj_ID b = as_StorageBackendID (tx_Asset c))
    (bindE (lift_sum (worker_localObjectPath E b k)) (\<lambda>src.
     bindE (lift_sum (worker_localObjectPath E b (JoinPath [''thumbnails'', obj_ID (tx_Asset c), ''thumb.png'']))) (\<lambda>p.
     bindE (os_MkdirAll (Dir p)) (\<lambda>_. bindE (attempt (write_thumbnail E x src p))
       (finish_thumbnail (JoinPath [''thumbnails'', obj_ID (tx_Asset c), ''thumb.png'']) p t))))) (thumb_done E c) (\<lambda>_. True)"
proof (cases "b \<in> set (tx_Backends c) \<and> obj_ID b = as_StorageBackendID (tx_Asset c)")
  case True
  have second: "triple (holds_thumb c t) (bindE (lift_sum (worker_localObjectPath E b (JoinPath [''thumbnails'', obj_ID (tx_Asset c), ''thumb.png'']))) (\<lambda>p.
      bindE (os_MkdirAll (Dir p)) (\<lambda>_. bindE (attempt (write_thumbnail E x src p))
       (finish_thumbnail (JoinPath [''thumbnails'', obj_ID (tx_Asset c), ''thumb.png'']) p t)))) (thumb_done E c) (\<lambda>_. True)" for src
  proof (cases "localObjectPath E b (JoinPath [''thumbnails'', obj_ID (tx_Asset c), ''thumb.png''])")
    case (Inr p)
    then show ?thesis using thumb_tail[OF _ _ Inr] True by (simp add: worker_path_aux)
  qed (simp add: worker_path_aux triple_throw)
  have "triple (holds_thumb c t) (bindE (lift_sum (worker_localObjectPath E b k)) (\<lambda>src.
     bindE (lift_sum (worker_localObjectPath E b (JoinPath [''thumbnails'', obj_ID (tx_Asset c), ''thumb.png'']))) (\<lambda>p.
     bindE (os_MkdirAll (Dir p)) (\<lambda>_. bindE (attempt (write_thumbnail E x src p))
       (finish_thumbnail (JoinPath [''thumbnails'', obj_ID (tx_Asset c), ''thumb.png'']) p t))))) (thumb_done E c) (\<lambda>_. True)"
    using second by (cases "worker_localObjectPath E b k") (simp_all add: triple_throw)
  then show ?thesis using True by simp
qed (rule triple_vacuous, blast)

lemma thumbnail_triple:
  assumes "keys_distinct (tx_Assets c)" and a: "tx_Asset c \<in> set (tx_Assets c)"
    and input: "as_string (nilmap_at input ''asset_id'') = obj_ID (tx_Asset c)"
  shows "triple (thumbs_ok c) (processAssetThumbnail E input) (thumb_done E c) (\<lambda>_. True)"
proof -
  let ?aid = "obj_ID (tx_Asset c)" and ?bid = "as_StorageBackendID (tx_Asset c)"
  have getA: "triple (thumbs_ok c) (platformAssetStore_Get ?aid) (\<lambda>x w. thumbs_ok c w \<and> x = tx_Asset c) (\<lambda>_. True)"
    unfolding platformAssetStore_Get_def
    by (rule assets_t.first_least_triple[OF thumb_plain(1) thumb_plain(4)])
      (use keys_distinct_unique[OF assms(1) _ a] in \<open>simp add: thumbs_ok_def\<close>)
  have getT: "triple (thumbs_ok c) (assetThumbnailStore_GetByAsset ?aid) (holds_thumb c) (\<lambda>_. True)"
    unfolding assetThumbnailStore_GetByAsset_def
    by (rule thumbnails_t.first_least_triple[OF thumb_plain(1,2)]) (simp add: holds_thumb_def)
  have upd: "triple (holds_thumb c t) (assetThumbnailStore_Update (t\<lparr>th_Status := st\<rparr>)) (holds_thumb c) (\<lambda>_. True)" for t st
    by (rule triple_mono[OF holds_thumb_update[of "t\<lparr>th_Status := st\<rparr>" t c "\<lambda>_. True" "[]"]]) simp_all
  have getB: "triple (holds_thumb c t) (storageBackendStore_Get ?bid) (\<lambda>b w. holds_thumb c t w \<and> b \<in> set (tx_Backends c) \<and> obj_ID b = ?bid) (\<lambda>_. True)" for t
    unfolding storageBackendStore_Get_def
    by (rule backends_t.first_least_triple[OF thumb_plain(2,5)]) (simp add: holds_thumb_def thumbs_ok_def)
  have other: "triple I (bindE (attempt m) (\<lambda>_. ret (thumb_status_output (t\<lparr>th_Status := ''unsupported''\<rparr>)))) (thumb_done E c) (\<lambda>_. True)" for I m t
    by (auto simp: triple_def bindE_apply attempt_def thumb_done_def thumb_status_output_def split: prod.splits)
  note image = triple_bindE[OF upd triple_bindE[OF getB thumb_paths]]
  note body = triple_bindE[OF getT triple_if[OF other image]]
  show ?thesis
    unfolding processAssetThumbnail_def Let_def input
  proof (rule triple_if, rule triple_throw, simp, rule triple_bindE[OF getA])
    fix x :: asset
    show "triple (\<lambda>w. thumbs_ok c w \<and> x = tx_Asset c) (bindE (assetThumbnailStore_GetByAsset ?aid) (\<lambda>t.
      if as_MediaType x \<noteq> ''image'' \<and> as_MediaType x \<noteq> ''video''
      then bindE (attempt (assetThumbnailStore_Update (t\<lparr>th_Status := ''unsupported''\<rparr>))) (\<lambda>_.
           ret (thumb_status_output (t\<lparr>th_Status := ''unsupported''\<rparr>)))
      else bindE (assetThumbnailStore_Update (t\<lparr>th_Status := ''processing''\<rparr>)) (\<lambda>t1.
        bindE (storageBackendStore_Get (as_StorageBackendID x)) (\<lambda>b.
        bindE (lift_sum (worker_localObjectPath E b (as_ObjectKey x))) (\<lambda>src.
        bindE (lift_sum (worker_localObjectPath E b (JoinPath [''thumbnails'', obj_ID x, ''thumb.png'']))) (\<lambda>p.
        bindE (os_MkdirAll (Dir p)) (\<lambda>_.
        bindE (attempt (write_thumbnail E x src p)) (finish_thumbnail (JoinPath [''thumbnails'', obj_ID x, ''thumb.png'']) p t1)))))))) (thumb_done E c) (\<lambda>_. True)"
    proof (cases "x = tx_Asset c")
      case True
      show ?thesis unfolding True
        by (rule triple_mono[OF triple_bindE[OF getT triple_if[OF other triple_bindE[OF upd triple_bindE[OF getB thumb_paths]]]]]) simp_all
    qed (rule triple_vacuous, simp)
  qed
qed



definition thumb_env :: env where
  "thumb_env = sample_env\<lparr>e_decode := \<lambda>_. Some \<lparr>px_MinX = 0, px_MinY = 0, px_Dx = 2, px_Dy = 2, px_At = \<lambda>_ _. 7\<rparr>\<rparr>"

definition thumb_world :: world where
  "thumb_world = upload_world\<lparr>
     w_assets := [new_asset\<lparr>obj_ID := ''a1'', as_MediaType := ''image'', as_StorageBackendID := ''b1'', as_ObjectKey := ''k/cat''\<rparr>],
     w_thumbnails := [new_thumbnail\<lparr>obj_ID := ''t1'', th_AssetID := ''a1'', th_StorageBackendID := ''b1'', th_Status := ''pending''\<rparr>],
     w_files := [(''/data/k/cat'', ''meow'')]\<rparr>"

lemma sample_thumbnail:
  "case processAssetThumbnail thumb_env (Some [''asset_id'' \<mapsto> AStr ''a1'']) thumb_world of
     (Inr out, w) \<Rightarrow> (case out ''thumbnail_status'' of Some (AStr st) \<Rightarrow> st = ''ready'' | _ \<Rightarrow> False) \<and>
       length (w_faults w) = 0 \<and> Option.is_none (w_tx w) | _ \<Rightarrow> False"
  by code_simp


subsection \<open>Polls are runs of the task queue\<close>

text \<open>The steps of the queue, and the work on other tables and files in between.\<close>

inductive worker_step :: "env \<Rightarrow> queue_state \<Rightarrow> queue_state \<Rightarrow> bool" for E :: env where
  queue: "queue_step E s t \<Longrightarrow> worker_step E s t"
| work: "w_tasks w = w_tasks (qs_world s) \<Longrightarrow> w_now w = w_now (qs_world s) \<Longrightarrow> worker_step E s (s\<lparr>qs_world := w\<rparr>)"

interpretation worker: invariant_machine queue_init "worker_step E" queue_inv for E
proof unfold_locales
  show "queue_inv s" if "queue_init s" for s by (rule queue.init_inv[OF that])
  show "queue_inv t" if "queue_inv s" "worker_step E s t" for s t
    using that(2)
  proof cases
    case queue
    then show ?thesis using queue.step_inv[OF that(1)] by blast
  next
    case (work w)
    then show ?thesis using that(1) by (simp add: queue_inv_def tasks_inv_def)
  qed
qed

text \<open>Processing a task leaves the task table alone.\<close>

definition tasks_same :: "task list \<Rightarrow> time \<Rightarrow> world \<Rightarrow> bool" where
  "tasks_same ts now w \<longleftrightarrow> w_tasks w = ts \<and> w_now w = now"

lemma tasks_same_plain: "plain (tasks_same ts now)"
  by (rule plainI) (simp add: tasks_same_def)

lemma tasks_same_files [simp]:
  "tasks_same ts now (touch_dir d w) = tasks_same ts now w" "tasks_same ts now (put_file q c w) = tasks_same ts now w"
  "tasks_same ts now (make_dir d w) = tasks_same ts now w"
  by (simp_all add: tasks_same_def touch_dir_def put_file_def make_dir_def)

lemma tasks_same_fold [simp]: "tasks_same ts now (fold make_dir ds w) = tasks_same ts now w"
  by (induction ds arbitrary: w) simp_all

lemma tasks_same_calls:
  "preserves (tasks_same ts now) (os_Open p)" "preserves (tasks_same ts now) (os_Read p)" "preserves (tasks_same ts now) (os_Stat p)"
  "preserves (tasks_same ts now) (os_Create p)" "preserves (tasks_same ts now) (os_Append p c)"
  "preserves (tasks_same ts now) (os_MkdirAll p)" "preserves (tasks_same ts now) (io (ret x))"
  unfolding os_Open_def os_Read_def os_Stat_def os_Create_def os_Append_def os_MkdirAll_def
  by (rule io_preserves[OF tasks_same_plain]; auto intro!: preservesI split: option.split)+

lemma tasks_same_rows:
  "preserves (tasks_same ts now) (platformAssetStore_Get aid)" "preserves (tasks_same ts now) (storageBackendStore_Get bid)"
  "preserves (tasks_same ts now) (assetThumbnailStore_GetByAsset aid)" "preserves (tasks_same ts now) (platformAssetStore_Update a)"
  "preserves (tasks_same ts now) (assetThumbnailStore_Update t)"
  unfolding platformAssetStore_Get_def storageBackendStore_Get_def assetThumbnailStore_GetByAsset_def platformAssetStore_Update_def
    assetThumbnailStore_Update_def db_first_def
  by (rule assets_t.first_preserves backends_t.first_preserves thumbnails_t.first_preserves assets_t.save_preserves thumbnails_t.save_preserves;
    simp add: tasks_same_plain tasks_same_def)+

lemma ffmpeg_same: "preserves (tasks_same ts now) (run_ffmpeg E p q)"
  by (auto simp: run_ffmpeg_def intro!: preservesI split: option.split sum.split)

lemmas tasks_same_rules = tasks_same_calls tasks_same_rows ffmpeg_same preserves_bindE preserves_attempt preserves_if
  preserves_case_sum preserves_case_option preserves_ret preserves_throw preserves_gets preserves_lift_sum

lemma process_same: "preserves (tasks_same ts now) (process E t)"
proof -
  have dims: "preserves (tasks_same ts now) (worker_imageDimensions E p)" for p
    unfolding worker_imageDimensions_def by (intro tasks_same_rules)
  have probed: "preserves (tasks_same ts now) (probeFile E p)" for p unfolding probeFile_def by (intro tasks_same_rules)
  have probe: "preserves (tasks_same ts now) (processAssetProbe E input)" for input
    unfolding processAssetProbe_def Let_def by (intro tasks_same_rules preserves_case_prod probed dims)
  have written: "preserves (tasks_same ts now) (write_thumbnail E a p q)" for a p q
    unfolding write_thumbnail_def writeVideoThumbnail_def writeImageThumbnail_def Let_def by (intro tasks_same_rules dims)
  have fin: "preserves (tasks_same ts now) (finish_thumbnail k p t r)" for k p t r
    unfolding finish_thumbnail_def by (intro tasks_same_rules)
  have thumb: "preserves (tasks_same ts now) (processAssetThumbnail E input)" for input
    unfolding processAssetThumbnail_def Let_def by (intro tasks_same_rules written fin)
  show ?thesis unfolding process_def by (intro tasks_same_rules probe thumb)
qed


text \<open>A task from the hands of a worker back to the table: work, then the update.\<close>

lemma run_task_steps:
  "(worker_step E)\<^sup>*\<^sup>* \<lparr>qs_world = w, qs_hand = h @ (wk, t) # rest\<rparr>
     \<lparr>qs_world = snd (run_task E t w), qs_hand = remove1 (wk, t) (h @ (wk, t) # rest)\<rparr>"
proof -
  let ?h = "h @ (wk, t) # rest"
  obtain r w1 where p: "process E t w = (r, w1)" by (cases "process E t w")
  have "tasks_same (w_tasks w) (w_now w) w" by (simp add: tasks_same_def)
  from preservesD[OF process_same this, of E t] p have same: "w_tasks w1 = w_tasks w" "w_now w1 = w_now w"
    by (simp_all add: tasks_same_def)
  have one: "worker_step E \<lparr>qs_world = w, qs_hand = ?h\<rparr> \<lparr>qs_world = w1, qs_hand = ?h\<rparr>"
    using worker_step.work[of w1 "\<lparr>qs_world = w, qs_hand = ?h\<rparr>" E] same by simp
  let ?u = "taskStore_Update (case r of Inl e \<Rightarrow> fail_task E e t | Inr out \<Rightarrow> succeed_task (t\<lparr>tk_Output := Some out\<rparr>))"
  have run: "snd (run_task E t w) = snd (?u w1)"
    using p by (simp add: run_task_def bindE_apply attempt_def split: prod.split)
  have "queue_step E \<lparr>qs_world = w1, qs_hand = ?h\<rparr> \<lparr>qs_world = snd (?u w1), qs_hand = remove1 (wk, t) ?h\<rparr>"
  proof (cases r)
    case (Inl e)
    then show ?thesis
      using queue_step.done_err[of wk t "\<lparr>qs_world = w1, qs_hand = ?h\<rparr>" E e "tk_Output t"] by simp
  next
    case (Inr out)
    then show ?thesis
      using queue_step.done_ok[of wk t "\<lparr>qs_world = w1, qs_hand = ?h\<rparr>" E "Some out"] by simp
  qed
  then have "worker_step E \<lparr>qs_world = w1, qs_hand = ?h\<rparr> \<lparr>qs_world = snd (?u w1), qs_hand = remove1 (wk, t) ?h\<rparr>"
    by (rule worker_step.queue)
  then show ?thesis unfolding run using one by (meson converse_rtranclp_into_rtranclp rtranclp.rtrancl_refl)
qed

lemma run_task_ok: "fst (run_task E t w) = Inr ()"
  by (simp add: run_task_def bindE_apply attempt_def split: prod.split)

lemma run_tasks_steps:
  "\<exists>h'. (worker_step E)\<^sup>*\<^sup>* \<lparr>qs_world = w, qs_hand = h @ map (Pair wk) ts\<rparr> \<lparr>qs_world = snd (for_each ts (run_task E) w), qs_hand = h'\<rparr> \<and>
     mset h' = mset h"
proof (induction ts arbitrary: w h)
  case Nil
  show ?case by (intro exI[of _ h]) simp
next
  case (Cons t ts)
  let ?g = "remove1 (wk, t) (h @ (wk, t) # map (Pair wk) ts)"
  obtain g where g: "?g = g @ map (Pair wk) ts" "mset g = mset h"
  proof (cases "(wk, t) \<in> set h")
    case True
    have "mset (remove1 (wk, t) h @ [(wk, t)]) = mset h" using True by simp
    then show ?thesis using that[of "remove1 (wk, t) h @ [(wk, t)]"] True by (simp add: remove1_append)
  next
    case False
    then show ?thesis using that[of h] by (simp add: remove1_append)
  qed
  let ?w = "snd (run_task E t w)"
  have "run_task E t w = (Inr (), ?w)" using run_task_ok[of E t w] by (metis prod.collapse)
  then have next_world: "snd (for_each (t # ts) (run_task E) w) = snd (for_each ts (run_task E) ?w)"
    by (simp add: bindE_apply run_task_ok)
  from Cons.IH[of ?w g] obtain h' where h': "(worker_step E)\<^sup>*\<^sup>* \<lparr>qs_world = ?w, qs_hand = g @ map (Pair wk) ts\<rparr>
      \<lparr>qs_world = snd (for_each ts (run_task E) ?w), qs_hand = h'\<rparr>" "mset h' = mset g" by blast
  have "(worker_step E)\<^sup>*\<^sup>* \<lparr>qs_world = w, qs_hand = h @ map (Pair wk) (t # ts)\<rparr> \<lparr>qs_world = ?w, qs_hand = ?g\<rparr>"
    using run_task_steps[of E w h wk t "map (Pair wk) ts"] by simp
  then show ?case unfolding next_world g(1) using h' g(2) by (intro exI[of _ h']) auto
qed

lemma runOnce_steps:
  "\<exists>h'. (worker_step E)\<^sup>*\<^sup>* \<lparr>qs_world = w, qs_hand = h\<rparr> \<lparr>qs_world = snd (runOnce E opts w), qs_hand = h'\<rparr> \<and> mset h' = mset h"
proof -
  let ?claim = "taskStore_Claim (ro_Queue opts) (ro_WorkerID opts) (ro_Limit opts) (ro_Lease opts)"
  obtain r w1 where c: "?claim w = (r, w1)" by (cases "?claim w")
  show ?thesis
  proof (cases r)
    case (Inl e)
    then have "queue_step E \<lparr>qs_world = w, qs_hand = h\<rparr> \<lparr>qs_world = w1, qs_hand = h\<rparr>"
      using queue_step.claim_err[of "ro_Queue opts" "ro_WorkerID opts" "ro_Limit opts" "ro_Lease opts" "\<lparr>qs_world = w, qs_hand = h\<rparr>" e w1 E] c
      by (simp add: TaskClaim_def)
    then have "worker_step E \<lparr>qs_world = w, qs_hand = h\<rparr> \<lparr>qs_world = w1, qs_hand = h\<rparr>" by (rule worker_step.queue)
    moreover have "snd (runOnce E opts w) = w1" using c Inl by (simp add: runOnce_def bindE_apply)
    ultimately show ?thesis by (intro exI[of _ h]) auto
  next
    case (Inr ts)
    then have "queue_step E \<lparr>qs_world = w, qs_hand = h\<rparr> \<lparr>qs_world = w1, qs_hand = h @ map (Pair (ro_WorkerID opts)) ts\<rparr>"
      using queue_step.claim_ok[of "ro_Queue opts" "ro_WorkerID opts" "ro_Limit opts" "ro_Lease opts" "\<lparr>qs_world = w, qs_hand = h\<rparr>" ts w1 E] c
      by (simp add: TaskClaim_def)
    then have "worker_step E \<lparr>qs_world = w, qs_hand = h\<rparr> \<lparr>qs_world = w1, qs_hand = h @ map (Pair (ro_WorkerID opts)) ts\<rparr>"
      by (rule worker_step.queue)
    moreover have "snd (runOnce E opts w) = snd (for_each ts (run_task E) w1)" using c Inr by (simp add: runOnce_def bindE_apply)
    moreover note run_tasks_steps[of E w1 h "ro_WorkerID opts" ts]
    ultimately show ?thesis by (metis converse_rtranclp_into_rtranclp)
  qed
qed

lemma polls_steps:
  "\<exists>h'. (worker_step E)\<^sup>*\<^sup>* \<lparr>qs_world = w, qs_hand = h\<rparr> \<lparr>qs_world = polls E opts n w, qs_hand = h'\<rparr> \<and> mset h' = mset h"
proof (induction n arbitrary: w h)
  case 0
  show ?case by (intro exI[of _ h]) simp
next
  case (Suc n)
  from runOnce_steps[of E w h opts] obtain h1 where "(worker_step E)\<^sup>*\<^sup>* \<lparr>qs_world = w, qs_hand = h\<rparr> \<lparr>qs_world = snd (runOnce E opts w), qs_hand = h1\<rparr>"
    "mset h1 = mset h" by blast
  moreover from Suc.IH[of "snd (runOnce E opts w)" h1] obtain h2 where
    "(worker_step E)\<^sup>*\<^sup>* \<lparr>qs_world = snd (runOnce E opts w), qs_hand = h1\<rparr> \<lparr>qs_world = polls E opts (Suc n) w, qs_hand = h2\<rparr>"
    "mset h2 = mset h1" by auto
  ultimately show ?case by (intro exI[of _ h2]) auto
qed


end
