(* ===== verification/Canvas.thy ===== *)
theory Canvas
  imports Assets
begin

text \<open>
  Projects and canvases: \<open>service/v1/canvas/project.go\<close> over the stores \<open>project.go\<close> and \<open>canvas.go\<close>. The graph of a
  canvas lives in its \<open>Extend\<close> map; the fields \<open>Nodes\<close>, \<open>Connections\<close>, \<open>Viewport\<close>, \<open>Logs\<close> and
  \<open>Settings\<close> are no columns and are filled by \<open>hydrateCanvas\<close> for an answer only.
\<close>

subsection \<open>Constants and requests\<close>

definition DefaultProjectID :: string where
  "DefaultProjectID = ''default''"

definition CanvasKindClassic :: string where
  "CanvasKindClassic = ''classic''"

definition CanvasKindSmart :: string where
  "CanvasKindSmart = ''smart''"

definition TaskTypeCanvasWorkflowPackageExport :: string where
  "TaskTypeCanvasWorkflowPackageExport = ''canvas.workflow.package.export''"

definition TaskTypeCanvasWorkflowPackageImport :: string where
  "TaskTypeCanvasWorkflowPackageImport = ''canvas.workflow.package.import''"

text \<open>The Chinese default names, as their UTF-8 bytes.\<close>

definition default_project_name :: string where
  "default_project_name = map char_of [233::nat, 187, 152, 232, 174, 164, 233, 161, 185, 231, 155, 174]"

definition smart_canvas_title :: string where
  "smart_canvas_title = map char_of [230::nat, 153, 186, 232, 131, 189, 231, 148, 187, 229, 184, 131]"

definition untitled_canvas_title :: string where
  "untitled_canvas_title = map char_of [230::nat, 156, 170, 229, 145, 189, 229, 144, 141, 231, 148, 187, 229, 184, 131]"

definition imported_canvas_title :: string where
  "imported_canvas_title = map char_of [229::nat, 175, 188, 229, 133, 165, 231, 148, 187, 229, 184, 131]"

record project_update_request =
  pu_ID :: string
  pu_Name :: "string option"
  pu_SortOrder :: "int option"

record canvas_create_request =
  cr_Title :: string
  cr_Icon :: string
  cr_Kind :: string
  cr_Project :: string
  cr_BoardX :: rat
  cr_BoardY :: rat

record canvas_meta_response =
  mr_ID :: string
  mr_UpdatedAt :: int
  mr_Title :: string
  mr_Icon :: string
  mr_Kind :: string

record canvas_meta_request =
  mu_ID :: string
  mu_Title :: "string option"
  mu_Icon :: "string option"
  mu_Owner :: "string option"
  mu_Color :: "string option"
  mu_Pinned :: "bool option"
  mu_Project :: "string option"
  mu_BoardX :: "rat option"
  mu_BoardY :: "rat option"

record canvas_export_payload =
  xp_Title :: string
  xp_Icon :: string
  xp_Kind :: string
  xp_Nodes :: any
  xp_Connections :: any
  xp_Viewport :: any
  xp_Logs :: any
  xp_Settings :: any

text \<open>A save has the fields of an export and the document it is for.\<close>

record canvas_save_request = canvas_export_payload +
  sv_ID :: string
  sv_BaseUpdatedAt :: int

record workflow_export_request =
  wx_Nodes :: any
  wx_Connections :: any
  wx_Metadata :: "gomap option"

record workflow_payload =
  wf_CanvasID :: string
  wf_Nodes :: any
  wf_Connections :: any
  wf_Metadata :: "gomap option"

record workflow_package =
  wp_Workflow :: workflow_payload
  wp_Assets :: "asset list"
  wp_Metadata :: "gomap option"

record package_export_request = workflow_export_request +
  px_AssetIDs :: "string list option"
  px_Filename :: string

text \<open>\<open>ProjectRecord\<close> and \<open>CanvasRecord\<close>: a row and a number.\<close>

type_synonym project_record = "project \<times> int"

type_synonym canvas_record = "canvas \<times> int"

definition new_project :: project where
  "new_project = object_meta.extend new_meta (project.fields 0)"

definition new_canvas :: canvas where
  "new_canvas = object_meta.extend new_meta (canvas.fields [] [] [] [] [] False [] 0 0 0 ANil ANil ANil ANil ANil)"

subsection \<open>The project store\<close>

definition project_List :: "project list m" where
  "project_List = bindE (db_find projects_tbl (\<lambda>_. True)) (\<lambda>ps. ret (sort_key (\<lambda>p. (pj_SortOrder p, obj_CreatedAt p)) ps))"

definition project_Get :: "string \<Rightarrow> project m" where
  "project_Get pid = db_first projects_tbl (\<lambda>p. obj_ID p = pid)"

definition project_Add :: "env \<Rightarrow> project \<Rightarrow> project m" where
  "project_Add E data = db_create E id projects_tbl data"

definition project_Update :: "env \<Rightarrow> project \<Rightarrow> project m" where
  "project_Update E data =
     bindE (db_update E projects_tbl (\<lambda>p. obj_ID p = obj_ID data)
        (\<lambda>p. p\<lparr>obj_Name := obj_Name data, pj_SortOrder := pj_SortOrder data\<rparr>)) (\<lambda>affected.
     if affected = 0 then throw (Errorf ''project not found with id %v'' [obj_ID data]) else ret data)"

definition project_Delete :: "string \<Rightarrow> unit m" where
  "project_Delete pid =
     bindE (db_delete projects_tbl (\<lambda>p. obj_ID p = pid)) (\<lambda>affected.
     if affected = 0 then throw (Errorf ''project not found with id %v'' [pid]) else ret ())"

subsection \<open>The canvas store\<close>

text \<open>What a read gives: the fields that are no columns are nil.\<close>

definition loaded :: "canvas \<Rightarrow> canvas" where
  "loaded c = c\<lparr>cv_Nodes := ANil, cv_Connections := ANil, cv_Viewport := ANil, cv_Logs := ANil, cv_Settings := ANil\<rparr>"

text \<open>\<open>pinned DESC, updated_at DESC\<close>\<close>

definition board_order :: "canvas \<Rightarrow> bool \<times> time" where
  "board_order c = (\<not> cv_Pinned c, - obj_UpdatedAt c)"

definition canvas_List :: "bool \<Rightarrow> canvas list m" where
  "canvas_List includeDeleted =
     bindE (db_find canvases_tbl (\<lambda>c. if includeDeleted then 0 < cv_DeletedAt c else cv_DeletedAt c = 0)) (\<lambda>cs.
     ret (map loaded (sort_key board_order cs)))"

definition canvas_ListByProject :: "string \<Rightarrow> canvas list m" where
  "canvas_ListByProject pid =
     bindE (db_find canvases_tbl (\<lambda>c. cv_ProjectID c = pid \<and> cv_DeletedAt c = 0)) (\<lambda>cs.
     ret (map loaded (sort_key board_order cs)))"

definition canvas_Get :: "string \<Rightarrow> canvas m" where
  "canvas_Get cid = bindE (db_first canvases_tbl (\<lambda>c. obj_ID c = cid \<and> cv_DeletedAt c = 0)) (\<lambda>c. ret (loaded c))"

definition canvas_GetAny :: "string \<Rightarrow> canvas m" where
  "canvas_GetAny cid = bindE (db_first canvases_tbl (\<lambda>c. obj_ID c = cid)) (\<lambda>c. ret (loaded c))"

text \<open>The column default that gorm fills in where the field has its zero value.\<close>

definition canvas_defaults :: "canvas \<Rightarrow> canvas" where
  "canvas_defaults c = (if cv_Kind c = [] then c\<lparr>cv_Kind := CanvasKindClassic\<rparr> else c)"

definition canvas_Add :: "env \<Rightarrow> canvas \<Rightarrow> canvas m" where
  "canvas_Add E data = db_create E canvas_defaults canvases_tbl data"

definition canvas_columns :: "canvas \<Rightarrow> canvas \<Rightarrow> canvas" where
  "canvas_columns data c = c\<lparr>cv_Title := cv_Title data, cv_Icon := cv_Icon data, cv_Kind := cv_Kind data, cv_Owner := cv_Owner data,
     cv_Color := cv_Color data, cv_Pinned := cv_Pinned data, cv_ProjectID := cv_ProjectID data, cv_BoardX := cv_BoardX data,
     cv_BoardY := cv_BoardY data, obj_Extend := obj_Extend data\<rparr>"

definition canvas_Update :: "env \<Rightarrow> canvas \<Rightarrow> canvas m" where
  "canvas_Update E data =
     bindE (db_update E canvases_tbl (\<lambda>c. obj_ID c = obj_ID data) (canvas_columns data)) (\<lambda>affected.
     if affected = 0 then throw (Errorf ''canvas not found with id %v'' [obj_ID data]) else ret data)"

definition canvas_SoftDelete :: "env \<Rightarrow> string \<Rightarrow> unit m" where
  "canvas_SoftDelete E cid =
     bindE (gets w_now) (\<lambda>now.
     bindE (db_update E canvases_tbl (\<lambda>c. obj_ID c = cid \<and> cv_DeletedAt c = 0) (\<lambda>c. c\<lparr>cv_DeletedAt := UnixMilli now\<rparr>)) (\<lambda>affected.
     if affected = 0 then throw (Errorf ''canvas not found with id %v'' [cid]) else ret ()))"

definition canvas_Restore :: "env \<Rightarrow> string \<Rightarrow> unit m" where
  "canvas_Restore E cid =
     bindE (db_update E canvases_tbl (\<lambda>c. obj_ID c = cid \<and> 0 < cv_DeletedAt c) (\<lambda>c. c\<lparr>cv_DeletedAt := 0\<rparr>)) (\<lambda>affected.
     if affected = 0 then throw (Errorf ''canvas not found in trash with id %v'' [cid]) else ret ())"

definition canvas_Purge :: "string \<Rightarrow> unit m" where
  "canvas_Purge cid =
     bindE (db_delete canvases_tbl (\<lambda>c. obj_ID c = cid)) (\<lambda>affected.
     if affected = 0 then throw (Errorf ''canvas not found with id %v'' [cid]) else ret ())"

definition canvas_CountByProject :: "string \<Rightarrow> int m" where
  "canvas_CountByProject pid = db_count canvases_tbl (\<lambda>c. cv_ProjectID c = pid \<and> cv_DeletedAt c = 0)"

definition canvas_ReassignProject :: "env \<Rightarrow> string \<Rightarrow> string \<Rightarrow> int m" where
  "canvas_ReassignProject E oldID newID =
     db_update E canvases_tbl (\<lambda>c. cv_ProjectID c = oldID) (\<lambda>c. c\<lparr>cv_ProjectID := newID\<rparr>)"

definition canvas_CleanupExpiredTrash :: "env \<Rightarrow> int \<Rightarrow> unit m" where
  "canvas_CleanupExpiredTrash E retentionDays =
     bindE (gets w_now) (\<lambda>now.
     let cutoff = UnixMilli (e_add_days E now (- retentionDays)) in
     bindE (db_delete canvases_tbl (\<lambda>c. 0 < cv_DeletedAt c \<and> cv_DeletedAt c < cutoff)) (\<lambda>_. ret ()))"

subsection \<open>Helpers of the service\<close>

definition ensureDefaultProject :: "env \<Rightarrow> unit m" where
  "ensureDefaultProject E =
     bindE (attempt (project_Get DefaultProjectID)) (\<lambda>r. case r of
       Inr _ \<Rightarrow> ret ()
     | Inl _ \<Rightarrow> bindE (project_Add E (new_project\<lparr>obj_ID := DefaultProjectID, obj_Name := default_project_name, pj_SortOrder := 0\<rparr>)) (\<lambda>_. ret ()))"

definition toCanvasRecord :: "canvas \<Rightarrow> canvas_record" where
  "toCanvasRecord c = (c, case nilmap_at (obj_Extend c) ''nodes'' of AArr arr \<Rightarrow> int (length arr) | _ \<Rightarrow> 0)"

definition hydrateCanvas :: "canvas \<Rightarrow> canvas" where
  "hydrateCanvas c = c\<lparr>cv_Nodes := nilmap_at (obj_Extend c) ''nodes'', cv_Connections := nilmap_at (obj_Extend c) ''connections'',
     cv_Viewport := nilmap_at (obj_Extend c) ''viewport'', cv_Logs := nilmap_at (obj_Extend c) ''logs'',
     cv_Settings := nilmap_at (obj_Extend c) ''settings''\<rparr>"

definition canvasPayload :: "canvas \<Rightarrow> canvas_export_payload" where
  "canvasPayload c = \<lparr>xp_Title = cv_Title c, xp_Icon = cv_Icon c, xp_Kind = cv_Kind c,
     xp_Nodes = nilmap_at (obj_Extend c) ''nodes'', xp_Connections = nilmap_at (obj_Extend c) ''connections'',
     xp_Viewport = nilmap_at (obj_Extend c) ''viewport'', xp_Logs = nilmap_at (obj_Extend c) ''logs'',
     xp_Settings = nilmap_at (obj_Extend c) ''settings''\<rparr>"

fun mergeGraphValue :: "any \<Rightarrow> any \<Rightarrow> any" where
  "mergeGraphValue current ANil = current"
| "mergeGraphValue (AArr current) (AArr incoming) = AArr (current @ incoming)"
| "mergeGraphValue (AObj current) (AObj incoming) = AObj (current ++ incoming)"
| "mergeGraphValue current incoming = incoming"

text \<open>Assignments to the entries of a map, in order; an assignment to a nil map panics.\<close>

definition set_entries :: "gomap option \<Rightarrow> (string \<times> any) list \<Rightarrow> gomap m" where
  "set_entries m kvs = (case m of None \<Rightarrow> throw (Panic ''assignment to entry in nil map'') | Some f \<Rightarrow> ret (f ++ map_of (rev kvs)))"

subsection \<open>Projects\<close>

definition ProjectList :: "env \<Rightarrow> project_record list m" where
  "ProjectList E =
     bindE (ensureDefaultProject E) (\<lambda>_.
     bindE project_List (\<lambda>projects.
     map_each projects (\<lambda>p. bindE (attempt (canvas_CountByProject (obj_ID p))) (\<lambda>r.
       ret (p, case r of Inl _ \<Rightarrow> 0 | Inr n \<Rightarrow> n)))))"

definition ProjectCreate :: "env \<Rightarrow> string \<Rightarrow> project_record m" where
  "ProjectCreate E name =
     bindE (ensureDefaultProject E) (\<lambda>_.
     bindE project_List (\<lambda>projects.
     let maxOrder = foldl (\<lambda>mx p. if mx < pj_SortOrder p then pj_SortOrder p else mx) 0 projects in
     bindE (project_Add E (new_project\<lparr>obj_Name := name, pj_SortOrder := wrap64 (maxOrder + 1)\<rparr>)) (\<lambda>created.
     ret (created, 0))))"

definition ProjectUpdate :: "env \<Rightarrow> project_update_request \<Rightarrow> project_record m" where
  "ProjectUpdate E req =
     (let p = new_project\<lparr>obj_ID := pu_ID req, obj_Name := (case pu_Name req of None \<Rightarrow> [] | Some n \<Rightarrow> n),
          pj_SortOrder := (case pu_SortOrder req of None \<Rightarrow> 0 | Some n \<Rightarrow> n)\<rparr> in
      bindE (project_Update E p) (\<lambda>updated.
      bindE (attempt (canvas_CountByProject (obj_ID p))) (\<lambda>r.
      ret (updated, case r of Inl _ \<Rightarrow> 0 | Inr n \<Rightarrow> n))))"

definition ProjectDelete :: "env \<Rightarrow> string \<Rightarrow> int m" where
  "ProjectDelete E pid =
     (if pid = DefaultProjectID then throw (Errorf ''default project cannot be deleted'' [])
      else bindE (project_Get pid) (\<lambda>_.
      bindE (canvas_ReassignProject E pid DefaultProjectID) (\<lambda>moved.
      bindE (project_Delete pid) (\<lambda>_. ret moved))))"

subsection \<open>Canvases\<close>

definition CanvasList :: "env \<Rightarrow> canvas_record list m" where
  "CanvasList E =
     bindE (attempt (canvas_CleanupExpiredTrash E 30)) (\<lambda>_.
     bindE (canvas_List False) (\<lambda>cs. ret (map toCanvasRecord cs)))"

definition CanvasTrashList :: "(canvas_record list \<times> int) m" where
  "CanvasTrashList = bindE (canvas_List True) (\<lambda>cs. ret (map toCanvasRecord cs, 30))"

definition created_canvas :: "canvas_create_request \<Rightarrow> canvas" where
  "created_canvas req =
     (let kind = (if cr_Kind req = CanvasKindSmart then CanvasKindSmart else CanvasKindClassic) in
      new_canvas\<lparr>
        cv_Title := (if cr_Title req = [] then if kind = CanvasKindSmart then smart_canvas_title else untitled_canvas_title else cr_Title req),
        cv_Icon := (if cr_Icon req = [] then if kind = CanvasKindSmart then ''sparkles'' else ''layers'' else cr_Icon req),
        cv_Kind := kind,
        cv_ProjectID := (if cr_Project req = [] then DefaultProjectID else cr_Project req),
        cv_BoardX := cr_BoardX req, cv_BoardY := cr_BoardY req,
        obj_Extend := Some [''nodes'' \<mapsto> AArr [], ''connections'' \<mapsto> AArr [],
          ''viewport'' \<mapsto> AObj [''x'' \<mapsto> ANum 0, ''y'' \<mapsto> ANum 0, ''scale'' \<mapsto> ANum 1],
          ''logs'' \<mapsto> AArr [], ''settings'' \<mapsto> AObj Map.empty]\<rparr>)"

definition CanvasCreate :: "env \<Rightarrow> canvas_create_request \<Rightarrow> canvas_record m" where
  "CanvasCreate E req =
     bindE (ensureDefaultProject E) (\<lambda>_.
     bindE (canvas_Add E (created_canvas req)) (\<lambda>created. ret (toCanvasRecord created)))"

definition CanvasGet :: "string \<Rightarrow> canvas m" where
  "CanvasGet cid = bindE (canvas_Get cid) (\<lambda>c. ret (hydrateCanvas c))"

definition CanvasGetMeta :: "string \<Rightarrow> canvas_meta_response m" where
  "CanvasGetMeta cid = bindE (canvas_Get cid) (\<lambda>c.
     ret \<lparr>mr_ID = obj_ID c, mr_UpdatedAt = UnixMilli (obj_UpdatedAt c), mr_Title = cv_Title c, mr_Icon = cv_Icon c, mr_Kind = cv_Kind c\<rparr>)"

definition CanvasUpdateMeta :: "env \<Rightarrow> canvas_meta_request \<Rightarrow> canvas_record m" where
  "CanvasUpdateMeta E req =
     bindE (canvas_Get (mu_ID req)) (\<lambda>c.
     bindE (canvas_Update E (c\<lparr>cv_Title := FallbackIfNil (mu_Title req) (cv_Title c), cv_Icon := FallbackIfNil (mu_Icon req) (cv_Icon c),
        cv_Owner := FallbackIfNil (mu_Owner req) (cv_Owner c), cv_Color := FallbackIfNil (mu_Color req) (cv_Color c),
        cv_Pinned := FallbackIfNil (mu_Pinned req) (cv_Pinned c), cv_ProjectID := FallbackIfNil (mu_Project req) (cv_ProjectID c),
        cv_BoardX := FallbackIfNil (mu_BoardX req) (cv_BoardX c), cv_BoardY := FallbackIfNil (mu_BoardY req) (cv_BoardY c)\<rparr>)) (\<lambda>updated.
     ret (toCanvasRecord updated)))"

definition save_conflict :: "int \<Rightarrow> canvas \<Rightarrow> bool" where
  "save_conflict base c \<longleftrightarrow> 0 < base \<and> 0 < UnixMilli (obj_UpdatedAt c) \<and> base < UnixMilli (obj_UpdatedAt c)"

definition CanvasSave :: "env \<Rightarrow> canvas_save_request \<Rightarrow> canvas m" where
  "CanvasSave E req =
     bindE (canvas_Get (sv_ID req)) (\<lambda>c.
     if save_conflict (sv_BaseUpdatedAt req) c
     then throw (Errorf ''canvas has been updated by another session, conflict detected'' [])
     else bindE (set_entries (obj_Extend c) [(''nodes'', xp_Nodes req), (''connections'', xp_Connections req),
            (''viewport'', xp_Viewport req), (''logs'', xp_Logs req), (''settings'', xp_Settings req)]) (\<lambda>ext.
     bindE (canvas_Update E (c\<lparr>cv_Title := xp_Title req, cv_Icon := xp_Icon req,
        cv_Kind := (if xp_Kind req \<noteq> [] then xp_Kind req else cv_Kind c), obj_Extend := Some ext\<rparr>)) (\<lambda>updated.
     ret (hydrateCanvas updated))))"

definition CanvasExport :: "string \<Rightarrow> (string \<times> canvas_export_payload) m" where
  "CanvasExport cid = bindE (canvas_Get cid) (\<lambda>c. ret (obj_ID c, canvasPayload c))"

definition imported_canvas :: "string \<Rightarrow> canvas_export_payload \<Rightarrow> canvas" where
  "imported_canvas project x = new_canvas\<lparr>
     cv_Title := (if xp_Title x = [] then imported_canvas_title else xp_Title x), cv_Icon := xp_Icon x,
     cv_Kind := (if xp_Kind x = [] then CanvasKindClassic else xp_Kind x),
     cv_ProjectID := (if project = [] then DefaultProjectID else project),
     obj_Extend := Some [''nodes'' \<mapsto> xp_Nodes x, ''connections'' \<mapsto> xp_Connections x, ''viewport'' \<mapsto> xp_Viewport x,
       ''logs'' \<mapsto> xp_Logs x, ''settings'' \<mapsto> xp_Settings x]\<rparr>"

definition CanvasImport :: "env \<Rightarrow> string \<Rightarrow> canvas_export_payload \<Rightarrow> canvas_record m" where
  "CanvasImport E project x =
     bindE (ensureDefaultProject E) (\<lambda>_.
     bindE (canvas_Add E (imported_canvas project x)) (\<lambda>created. ret (toCanvasRecord created)))"

subsection \<open>Workflows\<close>

definition or_else :: "any \<Rightarrow> any \<Rightarrow> any" where
  "or_else v dflt = (case v of ANil \<Rightarrow> dflt | _ \<Rightarrow> v)"

definition CanvasWorkflowExport :: "string \<Rightarrow> 'r workflow_export_request_scheme \<Rightarrow> workflow_payload m" where
  "CanvasWorkflowExport cid req =
     bindE (canvas_Get cid) (\<lambda>c.
     ret \<lparr>wf_CanvasID = obj_ID c,
       wf_Nodes = or_else (wx_Nodes req) (nilmap_at (obj_Extend c) ''nodes''),
       wf_Connections = or_else (wx_Connections req) (nilmap_at (obj_Extend c) ''connections''),
       wf_Metadata = wx_Metadata req\<rparr>)"

definition CanvasWorkflowImport :: "env \<Rightarrow> string \<Rightarrow> workflow_payload \<Rightarrow> canvas m" where
  "CanvasWorkflowImport E cid flow =
     bindE (canvas_Get cid) (\<lambda>c.
     bindE (set_entries (obj_Extend c)
        [(''nodes'', mergeGraphValue (nilmap_at (obj_Extend c) ''nodes'') (wf_Nodes flow)),
         (''connections'', mergeGraphValue (nilmap_at (obj_Extend c) ''connections'') (wf_Connections flow))]) (\<lambda>ext.
     bindE (canvas_Update E (c\<lparr>obj_Extend := Some ext\<rparr>)) (\<lambda>updated.
     ret (hydrateCanvas updated))))"

definition CanvasWorkflowPackageExport :: "env \<Rightarrow> string \<Rightarrow> package_export_request \<Rightarrow> (workflow_package \<times> task) m" where
  "CanvasWorkflowPackageExport E cid req =
     bindE (CanvasWorkflowExport cid req) (\<lambda>workflow.
     bindE (map_each (case px_AssetIDs req of None \<Rightarrow> [] | Some ids \<Rightarrow> ids) platformAssetStore_Get) (\<lambda>assets.
     bindE (taskStore_Add E (new_task\<lparr>tk_Type := TaskTypeCanvasWorkflowPackageExport, tk_Status := TaskStatusPending, tk_Queue := ''default'',
        tk_Input := Some [''canvas_id'' \<mapsto> AStr cid,
          ''asset_ids'' \<mapsto> (case px_AssetIDs req of None \<Rightarrow> ANil | Some ids \<Rightarrow> AArr (map AStr ids)), ''filename'' \<mapsto> AStr (px_Filename req)],
        tk_MaxAttempts := 1, obj_Name := ''canvas-workflow-package-export''\<rparr>)) (\<lambda>createdTask.
     ret (\<lparr>wp_Workflow = workflow, wp_Assets = assets, wp_Metadata = wx_Metadata req\<rparr>, createdTask))))"

definition CanvasWorkflowPackageImport :: "env \<Rightarrow> string \<Rightarrow> workflow_package \<Rightarrow> (canvas \<times> task) m" where
  "CanvasWorkflowPackageImport E cid pkg =
     bindE (CanvasWorkflowImport E cid (wp_Workflow pkg)) (\<lambda>imported.
     bindE (taskStore_Add E (new_task\<lparr>tk_Type := TaskTypeCanvasWorkflowPackageImport, tk_Status := TaskStatusPending, tk_Queue := ''default'',
        tk_Input := Some [''canvas_id'' \<mapsto> AStr cid, ''metadata'' \<mapsto> any_of_map (wp_Metadata pkg)],
        tk_MaxAttempts := 1, obj_Name := ''canvas-workflow-package-import''\<rparr>)) (\<lambda>createdTask.
     ret (imported, createdTask)))"

subsection \<open>The trash\<close>

definition CanvasTouch :: "env \<Rightarrow> string \<Rightarrow> (canvas_record \<times> int) m" where
  "CanvasTouch E cid =
     bindE (canvas_Get cid) (\<lambda>c.
     bindE (canvas_Update E c) (\<lambda>updated. ret (toCanvasRecord updated, UnixMilli (obj_UpdatedAt updated))))"

definition CanvasSoftDelete :: "env \<Rightarrow> string \<Rightarrow> unit m" where
  "CanvasSoftDelete E cid = canvas_SoftDelete E cid"

definition CanvasRestore :: "env \<Rightarrow> string \<Rightarrow> canvas m" where
  "CanvasRestore E cid = bindE (canvas_Restore E cid) (\<lambda>_. canvas_Get cid)"

definition CanvasPurge :: "string \<Rightarrow> unit m" where
  "CanvasPurge cid = canvas_Purge cid"

end
