(* ===== verification/CanvasLaws.thy ===== *)
theory CanvasLaws
  imports Canvas AssetLaws
begin

text \<open>
  What projects and canvases promise: a canvas in the trash keeps its content until it is restored,
  purged or expires; a save is what the next read gives, and a save on a stale base is refused; an exported
  canvas can be imported again; deleting a project moves its canvases.
\<close>

subsection \<open>Requests\<close>

text \<open>Every request of \<open>CanvasSrv\<close>, and the time that passes between two of them.\<close>

datatype canvas_op =
    OpProjectList
  | OpProjectCreate string
  | OpProjectUpdate project_update_request
  | OpProjectDelete string
  | OpCanvasList
  | OpCanvasTrashList
  | OpCanvasCreate canvas_create_request
  | OpCanvasGet string
  | OpCanvasGetMeta string
  | OpCanvasUpdateMeta canvas_meta_request
  | OpCanvasSave canvas_save_request
  | OpCanvasExport string
  | OpCanvasImport string canvas_export_payload
  | OpWorkflowExport string workflow_export_request
  | OpWorkflowImport string workflow_payload
  | OpPackageExport string package_export_request
  | OpPackageImport string workflow_package
  | OpCanvasTouch string
  | OpCanvasSoftDelete string
  | OpCanvasRestore string
  | OpCanvasPurge string
  | OpWait nat

fun canvas_exec :: "env \<Rightarrow> canvas_op \<Rightarrow> world \<Rightarrow> world" where
  "canvas_exec E OpProjectList w = snd (ProjectList E w)"
| "canvas_exec E (OpProjectCreate n) w = snd (ProjectCreate E n w)"
| "canvas_exec E (OpProjectUpdate r) w = snd (ProjectUpdate E r w)"
| "canvas_exec E (OpProjectDelete p) w = snd (ProjectDelete E p w)"
| "canvas_exec E OpCanvasList w = snd (CanvasList E w)"
| "canvas_exec E OpCanvasTrashList w = snd (CanvasTrashList w)"
| "canvas_exec E (OpCanvasCreate r) w = snd (CanvasCreate E r w)"
| "canvas_exec E (OpCanvasGet c) w = snd (CanvasGet c w)"
| "canvas_exec E (OpCanvasGetMeta c) w = snd (CanvasGetMeta c w)"
| "canvas_exec E (OpCanvasUpdateMeta r) w = snd (CanvasUpdateMeta E r w)"
| "canvas_exec E (OpCanvasSave r) w = snd (CanvasSave E r w)"
| "canvas_exec E (OpCanvasExport c) w = snd (CanvasExport c w)"
| "canvas_exec E (OpCanvasImport p x) w = snd (CanvasImport E p x w)"
| "canvas_exec E (OpWorkflowExport c r) w = snd (CanvasWorkflowExport c r w)"
| "canvas_exec E (OpWorkflowImport c f) w = snd (CanvasWorkflowImport E c f w)"
| "canvas_exec E (OpPackageExport c r) w = snd (CanvasWorkflowPackageExport E c r w)"
| "canvas_exec E (OpPackageImport c p) w = snd (CanvasWorkflowPackageImport E c p w)"
| "canvas_exec E (OpCanvasTouch c) w = snd (CanvasTouch E c w)"
| "canvas_exec E (OpCanvasSoftDelete c) w = snd (CanvasSoftDelete E c w)"
| "canvas_exec E (OpCanvasRestore c) w = snd (CanvasRestore E c w)"
| "canvas_exec E (OpCanvasPurge c) w = snd (CanvasPurge c w)"
| "canvas_exec E (OpWait d) w = w\<lparr>w_now := w_now w + int d\<rparr>"

subsection \<open>The trash\<close>

text \<open>What a user sees of a canvas, apart from its place in a project and the times.\<close>

definition canvas_content :: "canvas \<Rightarrow> (string \<times> string \<times> string \<times> string \<times> string) \<times> bool \<times> (rat \<times> rat) \<times> gomap option" where
  "canvas_content c = ((cv_Title c, cv_Icon c, cv_Kind c, cv_Owner c, cv_Color c), cv_Pinned c, (cv_BoardX c, cv_BoardY c), obj_Extend c)"

definition in_trash :: "time \<Rightarrow> canvas \<Rightarrow> world \<Rightarrow> bool" where
  "in_trash until c w \<longleftrightarrow> w_now w \<le> until \<and> keys_distinct (w_canvases w) \<and>
     (\<exists>x \<in> set (w_canvases w). obj_ID x = obj_ID c \<and> cv_DeletedAt x = cv_DeletedAt c \<and> canvas_content x = canvas_content c)"

lemma in_trash_plain: "plain (in_trash T c)"
  by (rule plainI) (simp add: in_trash_def)

lemma in_trash_cong: "w_now v = w_now w \<Longrightarrow> w_canvases v = w_canvases w \<Longrightarrow> in_trash T c v = in_trash T c w"
  by (simp add: in_trash_def)

text \<open>Statements on the table of canvases that leave the row alone.\<close>

lemma in_trash_map:
  assumes w: "in_trash T c w" and id: "\<And>x. obj_ID (f x) = obj_ID x"
    and same: "\<And>x. x \<in> set (w_canvases w) \<Longrightarrow> obj_ID x = obj_ID c \<Longrightarrow> cv_DeletedAt x = cv_DeletedAt c \<Longrightarrow>
      cv_DeletedAt (f x) = cv_DeletedAt x \<and> canvas_content (f x) = canvas_content x"
  shows "in_trash T c (w_canvases_update (map f) w)"
proof -
  from w obtain x where x: "x \<in> set (w_canvases w)" "obj_ID x = obj_ID c" "cv_DeletedAt x = cv_DeletedAt c" "canvas_content x = canvas_content c"
    by (auto simp: in_trash_def)
  have "keys_distinct (map f (w_canvases w))" using w id by (simp add: in_trash_def keys_distinct_map)
  moreover have "f x \<in> set (map f (w_canvases w))" using x(1) by simp
  ultimately show ?thesis using w same[OF x(1-3)] x id by (auto simp: in_trash_def)
qed

lemma touch_canvas [simp]: "cv_DeletedAt (touch E now c) = cv_DeletedAt c" "canvas_content (touch E now c) = canvas_content c"
  by (simp_all add: touch_def canvas_content_def)

lemma update_trash:
  assumes "\<And>x. obj_ID (f x) = obj_ID x"
    and "\<And>x. P x \<Longrightarrow> obj_ID x = obj_ID c \<Longrightarrow> cv_DeletedAt x = cv_DeletedAt c \<Longrightarrow> cv_DeletedAt (f x) = cv_DeletedAt x \<and> canvas_content (f x) = canvas_content x"
  shows "preserves (in_trash T c) (db_update E canvases_tbl P f)"
  by (rule canvases_t.update_preserves[OF in_trash_plain]) (use assms in \<open>auto intro!: in_trash_map\<close>)

lemma delete_trash:
  assumes "\<And>w x. in_trash T c w \<Longrightarrow> x \<in> set (w_canvases w) \<Longrightarrow> obj_ID x = obj_ID c \<Longrightarrow> cv_DeletedAt x = cv_DeletedAt c \<Longrightarrow> \<not> P x"
  shows "preserves (in_trash T c) (db_delete canvases_tbl P)"
proof (rule canvases_t.delete_preserves[OF in_trash_plain])
  fix w assume w: "in_trash T c w"
  then show "in_trash T c (snd canvases_tbl (filter (\<lambda>r. \<not> P r)) w)"
    using assms[OF w] by (auto simp: in_trash_def keys_distinct_filter)
qed

lemma create_trash: "preserves (in_trash T c) (canvas_Add E data)"
  unfolding canvas_Add_def
proof (rule canvases_t.create_preserves[OF in_trash_plain])
  fix w assume "in_trash T c w"
    and "obj_ID (canvas_defaults (BeforeCreate (e_uuid E (w_uuids w)) (w_now w) data)) \<notin> set (map obj_ID (rows canvases_tbl w))"
  then show "in_trash T c (snd canvases_tbl (\<lambda>rs. rs @ [canvas_defaults (BeforeCreate (e_uuid E (w_uuids w)) (w_now w) data)])
      (w\<lparr>w_uuids := if obj_ID data = [] then Suc (w_uuids w) else w_uuids w\<rparr>))"
    by (auto simp: in_trash_def keys_distinct_def)
qed

lemma first_trash: "preserves (in_trash T c) (db_first canvases_tbl P)"
  unfolding db_first_def by (rule canvases_t.first_preserves[OF in_trash_plain])

lemma get_trash: "preserves (in_trash T c) (canvas_Get cid)"
  unfolding canvas_Get_def by (intro preserves_bindE first_trash preserves_ret)

text \<open>Statements on other tables.\<close>

lemma others_trash:
  "preserves (in_trash T c) (project_Get p)" "preserves (in_trash T c) project_List" "preserves (in_trash T c) (project_Add E q)"
  "preserves (in_trash T c) (project_Update E q)" "preserves (in_trash T c) (project_Delete p)" "preserves (in_trash T c) (canvas_List b)"
  "preserves (in_trash T c) (canvas_CountByProject p)" "preserves (in_trash T c) (taskStore_Add E t)" "preserves (in_trash T c) (platformAssetStore_Get a)"
  unfolding project_Get_def project_List_def project_Add_def project_Update_def project_Delete_def canvas_List_def canvas_CountByProject_def
    taskStore_Add_def platformAssetStore_Get_def db_first_def
  by (intro preserves_bindE preserves_ret preserves_throw preserves_if projects_t.first_preserves projects_t.find_preserves projects_t.create_preserves
      projects_t.update_preserves projects_t.delete_preserves canvases_t.find_preserves canvases_t.count_preserves tasks_t.create_preserves
      assets_t.first_preserves in_trash_plain; simp add: in_trash_def)+

text \<open>A request that reads a canvas reads an active one, which is not the one in the trash.\<close>

lemma edit_trash:
  assumes c: "0 < cv_DeletedAt c" and k: "\<And>x. obj_ID x \<noteq> obj_ID c \<Longrightarrow> preserves (in_trash T c) (k x)"
  shows "preserves (in_trash T c) (bindE (canvas_Get cid) k)"
proof (rule preserves_bindE_yields[OF get_trash _ k])
  show "yields (in_trash T c) (canvas_Get cid) (\<lambda>x. obj_ID x \<noteq> obj_ID c)"
    unfolding canvas_Get_def db_first_def
  proof (rule yields_bindE[OF first_trash[unfolded db_first_def]])
    show "yields (in_trash T c) (db_first_by obj_ID canvases_tbl (\<lambda>r. obj_ID r = cid \<and> cv_DeletedAt r = 0)) (\<lambda>x. obj_ID x \<noteq> obj_ID c)"
    proof (rule canvases_t.first_yields)
      fix w x assume "in_trash T c w" and x: "x \<in> set (fst canvases_tbl w)" "obj_ID x = cid \<and> cv_DeletedAt x = 0"
      then obtain y where "y \<in> set (w_canvases w)" "obj_ID y = obj_ID c" "cv_DeletedAt y = cv_DeletedAt c" "keys_distinct (w_canvases w)"
        by (auto simp: in_trash_def)
      then show "obj_ID x \<noteq> obj_ID c" using keys_distinct_unique[of "w_canvases w" x y] x c by auto
    qed
  qed (simp add: yields_ret loaded_def)
qed

lemma put_trash: "obj_ID data \<noteq> obj_ID c \<Longrightarrow> preserves (in_trash T c) (canvas_Update E data)"
  unfolding canvas_Update_def
  by (intro preserves_bindE preserves_if preserves_throw preserves_ret update_trash) (auto simp: canvas_columns_def)

lemma entries_trash: "preserves (in_trash T c) (set_entries m kvs)"
  unfolding set_entries_def by (intro preserves_case_option preserves_throw preserves_ret)

lemma default_trash: "preserves (in_trash T c) (ensureDefaultProject E)"
  unfolding ensureDefaultProject_def by (intro preserves_bindE preserves_attempt others_trash preserves_case_sum preserves_ret)

lemmas trash_rules = preserves_bindE preserves_attempt preserves_if preserves_ret preserves_throw preserves_map_each preserves_gets
  get_trash others_trash default_trash create_trash entries_trash

lemma reads_trash:
  "preserves (in_trash T c) (ProjectList E)" "preserves (in_trash T c) (ProjectCreate E n)" "preserves (in_trash T c) (ProjectUpdate E pr)"
  "preserves (in_trash T c) CanvasTrashList" "preserves (in_trash T c) (CanvasCreate E cr)" "preserves (in_trash T c) (CanvasGet cid)"
  "preserves (in_trash T c) (CanvasGetMeta cid)" "preserves (in_trash T c) (CanvasExport cid)" "preserves (in_trash T c) (CanvasImport E p x)"
  "preserves (in_trash T c) (CanvasWorkflowExport cid (wx :: 'a workflow_export_request_scheme))"
  "preserves (in_trash T c) (CanvasWorkflowPackageExport E cid px)"
  unfolding ProjectList_def ProjectCreate_def ProjectUpdate_def CanvasTrashList_def CanvasCreate_def CanvasGet_def CanvasGetMeta_def
    CanvasExport_def CanvasImport_def CanvasWorkflowExport_def CanvasWorkflowPackageExport_def Let_def
  by (intro trash_rules)+

lemma edits_trash:
  assumes c: "0 < cv_DeletedAt c"
  shows "preserves (in_trash T c) (CanvasUpdateMeta E mu)" "preserves (in_trash T c) (CanvasSave E sv)" "preserves (in_trash T c) (CanvasTouch E cid)"
    "preserves (in_trash T c) (CanvasWorkflowImport E cid flow)" "preserves (in_trash T c) (CanvasWorkflowPackageImport E cid pkg)"
  unfolding CanvasUpdateMeta_def CanvasSave_def CanvasTouch_def CanvasWorkflowImport_def CanvasWorkflowPackageImport_def
  by (intro edit_trash[OF c] preserves_if preserves_throw preserves_ret preserves_bindE[OF entries_trash] preserves_bindE[OF put_trash]
      preserves_bindE[OF edit_trash[OF c]] preserves_bindE[OF others_trash(8)]; simp)+

lemma deletes_trash:
  assumes c: "0 < cv_DeletedAt c"
  shows "preserves (in_trash T c) (ProjectDelete E p)" "preserves (in_trash T c) (CanvasSoftDelete E cid)"
    "cid \<noteq> obj_ID c \<Longrightarrow> preserves (in_trash T c) (CanvasRestore E cid)" "cid \<noteq> obj_ID c \<Longrightarrow> preserves (in_trash T c) (CanvasPurge cid)"
  unfolding ProjectDelete_def canvas_ReassignProject_def CanvasSoftDelete_def canvas_SoftDelete_def CanvasRestore_def canvas_Restore_def
    CanvasPurge_def canvas_Purge_def
  by (intro trash_rules update_trash delete_trash; use c in \<open>auto simp: canvas_content_def\<close>)+

lemma list_trash:
  assumes "\<And>t. t \<le> T \<Longrightarrow> UnixMilli (e_add_days E t (-30)) \<le> cv_DeletedAt c"
  shows "preserves (in_trash T c) (CanvasList E)"
proof -
  have "preserves (in_trash T c) (canvas_CleanupExpiredTrash E 30)"
  proof (rule preservesI)
    fix w assume w: "in_trash T c w"
    let ?P = "\<lambda>r. 0 < cv_DeletedAt r \<and> cv_DeletedAt r < UnixMilli (e_add_days E (w_now w) (- 30))"
    have "preserves (in_trash T c) (bindE (db_delete canvases_tbl ?P) (\<lambda>_. ret ()))"
      using assms[of "w_now w"] w by (intro trash_rules delete_trash) (auto simp: in_trash_def)
    from preservesD[OF this w] show "in_trash T c (snd (canvas_CleanupExpiredTrash E 30 w))"
      by (simp add: canvas_CleanupExpiredTrash_def Let_def)
  qed
  then show ?thesis unfolding CanvasList_def by (intro trash_rules)
qed

definition waited :: "canvas_op \<Rightarrow> int" where
  "waited op = (case op of OpWait d \<Rightarrow> int d | _ \<Rightarrow> 0)"

lemma exec_trash:
  assumes "0 < cv_DeletedAt c" "\<And>t. t \<le> T \<Longrightarrow> UnixMilli (e_add_days E t (-30)) \<le> cv_DeletedAt c"
    and "in_trash (T - waited op) c w" "op \<noteq> OpCanvasRestore (obj_ID c)" "op \<noteq> OpCanvasPurge (obj_ID c)"
  shows "in_trash T c (canvas_exec E op w)"
proof (cases "\<exists>d. op = OpWait d")
  case True
  then show ?thesis using assms(3) by (auto simp: in_trash_def waited_def)
next
  case False
  note rules = reads_trash[THEN preservesD] edits_trash[OF assms(1), THEN preservesD] deletes_trash[OF assms(1), THEN preservesD]
    list_trash[OF assms(2), THEN preservesD]
  show ?thesis using assms(3-) False by (cases op) (auto simp: waited_def intro: rules)
qed

lemma run_trash:
  assumes c: "0 < cv_DeletedAt c"
  shows "(\<And>t. t \<le> T \<Longrightarrow> UnixMilli (e_add_days E t (-30)) \<le> cv_DeletedAt c) \<Longrightarrow> in_trash (T - sum_list (map waited ops)) c w \<Longrightarrow>
    OpCanvasRestore (obj_ID c) \<notin> set ops \<Longrightarrow> OpCanvasPurge (obj_ID c) \<notin> set ops \<Longrightarrow>
    in_trash T c (fold (canvas_exec E) ops w)"
proof (induction ops arbitrary: w)
  case (Cons op ops)
  have later: "0 \<le> sum_list (map waited ops)" by (rule sum_list_nonneg) (auto simp: waited_def split: canvas_op.splits)
  have "in_trash (T - sum_list (map waited ops)) c (canvas_exec E op w)"
    by (rule exec_trash[OF c]) (use Cons.prems later in \<open>auto simp: algebra_simps\<close>)
  then show ?case using Cons by simp
qed simp

lemma loaded_simps [simp]: "obj_ID (loaded y) = obj_ID y" "cv_DeletedAt (loaded y) = cv_DeletedAt y" "canvas_content (loaded y) = canvas_content y"
  "obj_Extend (loaded y) = obj_Extend y" "obj_UpdatedAt (loaded y) = obj_UpdatedAt y"
  by (simp_all add: loaded_def canvas_content_def)

text \<open>A read without faults of an active canvas.\<close>

lemma get_active:
  assumes "healthy w" "keys_distinct (w_canvases w)" "c \<in> set (w_canvases w)" "cv_DeletedAt c = 0"
  shows "canvas_Get (obj_ID c) w = (Inr (loaded c), w)"
proof -
  have "filter (\<lambda>r. obj_ID r = obj_ID c \<and> cv_DeletedAt r = 0) (w_canvases w) = filter (\<lambda>r. obj_ID r = obj_ID c) (w_canvases w)"
    using keys_distinct_unique[OF assms(2) _ assms(3)] assms(4) by (intro filter_cong) auto
  then have "min_by obj_ID (filter (\<lambda>r. obj_ID r = obj_ID c \<and> cv_DeletedAt r = 0) (w_canvases w)) = Some c"
    using first_unique[OF assms(2,3)] by simp
  then show ?thesis using assms(1) by (simp add: canvas_Get_def db_first_def db_first_by_def bindE_apply stmt_healthy)
qed

text \<open>A restore without faults of a canvas in the trash.\<close>

lemma restore_trash:
  assumes c: "0 < cv_DeletedAt c" and w: "in_trash T c w" and ok: "healthy w"
  shows "\<exists>r w'. CanvasRestore E (obj_ID c) w = (Inr r, w') \<and> obj_ID r = obj_ID c \<and> cv_DeletedAt r = 0 \<and> canvas_content r = canvas_content c"
proof -
  let ?P = "\<lambda>x. obj_ID x = obj_ID c \<and> 0 < cv_DeletedAt x"
  let ?f = "\<lambda>x. if ?P x then touch E (w_now w) (x\<lparr>cv_DeletedAt := 0\<rparr>) else x"
  let ?w = "w_canvases_update (map ?f) w"
  from w obtain x where x: "x \<in> set (w_canvases w)" "obj_ID x = obj_ID c" "cv_DeletedAt x = cv_DeletedAt c" "canvas_content x = canvas_content c"
    and k: "keys_distinct (w_canvases w)" by (auto simp: in_trash_def)
  have restore: "canvas_Restore E (obj_ID c) w = (Inr (), ?w)"
    using ok x c by (auto simp: canvas_Restore_def db_update_def bindE_apply stmt_healthy filter_empty_conv)
  have fx: "?f x \<in> set (map ?f (w_canvases w))" "obj_ID (?f x) = obj_ID c" "cv_DeletedAt (?f x) = 0" "canvas_content (?f x) = canvas_content c"
    using x c by (auto simp: canvas_content_def touch_def)
  have k': "keys_distinct (map ?f (w_canvases w))" using k by (intro keys_distinct_map) simp_all
  have get: "canvas_Get (obj_ID c) ?w = (Inr (loaded (?f x)), ?w)"
    using get_active[of ?w "?f x"] ok k' fx by (simp add: healthy_def)
  show ?thesis
    by (rule exI[of _ "loaded (?f x)"], rule exI[of _ ?w]) (use restore get fx in \<open>simp add: CanvasRestore_def bindE_apply\<close>)
qed

text \<open>
  C13. A canvas in the trash is safe: whatever requests follow, with whatever faults of the database, and however
  long it takes, as long as nobody restores or purges this canvas and the cutoff of the cleanup does
  not pass its deletion, it is still in the trash, and a restore without faults brings it back with
  title, icon, kind, owner, colour, pin, place and graph as they were when it was deleted. In particular a save, a
  workflow import or the deletion of its project cannot change them.
\<close>

theorem trash_keeps_content:
  assumes "keys_distinct (w_canvases w)" "c \<in> set (w_canvases w)" "0 < cv_DeletedAt c"
    and "OpCanvasRestore (obj_ID c) \<notin> set ops" "OpCanvasPurge (obj_ID c) \<notin> set ops"
    and "\<forall>t \<le> w_now w + sum_list (map waited ops). UnixMilli (e_add_days E t (-30)) \<le> cv_DeletedAt c"
    and "w' = fold (canvas_exec E) ops w"
  shows "(\<exists>x \<in> set (w_canvases w'). obj_ID x = obj_ID c \<and> cv_DeletedAt x = cv_DeletedAt c \<and> canvas_content x = canvas_content c) \<and>
    (healthy w' \<longrightarrow> (\<exists>r w''. CanvasRestore E (obj_ID c) w' = (Inr r, w'') \<and> obj_ID r = obj_ID c \<and> cv_DeletedAt r = 0 \<and>
      canvas_content r = canvas_content c))"
proof -
  let ?T = "w_now w + sum_list (map waited ops)"
  have "in_trash (?T - sum_list (map waited ops)) c w" using assms(1,2) by (auto simp: in_trash_def)
  then have t: "in_trash ?T c w'" unfolding assms(7) using assms(6) by (intro run_trash[OF assms(3)] assms(4,5)) simp_all
  then have "\<exists>x \<in> set (w_canvases w'). obj_ID x = obj_ID c \<and> cv_DeletedAt x = cv_DeletedAt c \<and> canvas_content x = canvas_content c"
    by (simp add: in_trash_def)
  then show ?thesis using restore_trash[OF assms(3) t] by blast
qed

definition trash_world :: world where
  "trash_world = empty_world\<lparr>w_now := 40 * 86400000000000,
     w_canvases := [new_canvas\<lparr>obj_ID := ''c1'', cv_Title := ''plan'', cv_DeletedAt := 35 * 86400000, obj_Extend := Some Map.empty\<rparr>]\<rparr>"

lemma trash_keeps_content_witness:
  "\<exists>r w''. CanvasRestore sample_env ''c1'' (fold (canvas_exec sample_env) [OpCanvasTouch ''c1'', OpWait 5, OpCanvasList, OpProjectDelete ''p''] trash_world) = (Inr r, w'') \<and>
     cv_Title r = ''plan''"
proof -
  let ?c = "new_canvas\<lparr>obj_ID := ''c1'', cv_Title := ''plan'', cv_DeletedAt := 35 * 86400000, obj_Extend := Some Map.empty\<rparr>"
  let ?ops = "[OpCanvasTouch ''c1'', OpWait 5, OpCanvasList, OpProjectDelete ''p'']"
  have h: "healthy (fold (canvas_exec sample_env) ?ops trash_world)" by code_simp
  have "keys_distinct (w_canvases trash_world)" "?c \<in> set (w_canvases trash_world)" "0 < cv_DeletedAt ?c"
    by (simp_all add: trash_world_def keys_distinct_def)
  moreover have "OpCanvasRestore (obj_ID ?c) \<notin> set ?ops" "OpCanvasPurge (obj_ID ?c) \<notin> set ?ops" by simp_all
  moreover have "\<forall>t \<le> w_now trash_world + sum_list (map waited ?ops). UnixMilli (e_add_days sample_env t (-30)) \<le> cv_DeletedAt ?c"
    by (auto simp: trash_world_def waited_def sample_env_def UnixMilli_def)
  ultimately show ?thesis
    using trash_keeps_content[of trash_world ?c ?ops sample_env "fold (canvas_exec sample_env) ?ops trash_world"] h
    by (auto simp: canvas_content_def simp del: canvas_exec.simps fold_simps)
qed

subsection \<open>Saving\<close>

text \<open>The payload that a save stores for a canvas, and the columns that it leaves alone.\<close>

definition saved_payload :: "canvas_save_request \<Rightarrow> canvas \<Rightarrow> canvas_export_payload" where
  "saved_payload req c = \<lparr>xp_Title = xp_Title req, xp_Icon = xp_Icon req, xp_Kind = (if xp_Kind req \<noteq> [] then xp_Kind req else cv_Kind c),
     xp_Nodes = xp_Nodes req, xp_Connections = xp_Connections req, xp_Viewport = xp_Viewport req, xp_Logs = xp_Logs req, xp_Settings = xp_Settings req\<rparr>"

definition save_row_of :: "env \<Rightarrow> time \<Rightarrow> canvas_save_request \<Rightarrow> gomap \<Rightarrow> canvas \<Rightarrow> canvas" where
  "save_row_of E now req f c = touch E now (c\<lparr>cv_Title := xp_Title req, cv_Icon := xp_Icon req,
     cv_Kind := (if xp_Kind req \<noteq> [] then xp_Kind req else cv_Kind c),
     obj_Extend := Some (f(''nodes'' \<mapsto> xp_Nodes req, ''connections'' \<mapsto> xp_Connections req, ''viewport'' \<mapsto> xp_Viewport req,
       ''logs'' \<mapsto> xp_Logs req, ''settings'' \<mapsto> xp_Settings req))\<rparr>)"

text \<open>An update without faults writes the columns of one row.\<close>

lemma put_active:
  assumes "healthy w" "keys_distinct (w_canvases w)" "c \<in> set (w_canvases w)" "obj_ID data = obj_ID c"
  shows "canvas_Update E data w = (Inr data, w_canvases_update (save_row (touch E (w_now w) (canvas_columns data c))) w)"
proof -
  let ?row = "touch E (w_now w) (canvas_columns data c)"
  let ?f = "\<lambda>x. if obj_ID x = obj_ID data then touch E (w_now w) (canvas_columns data x) else x"
  have "?f x = (if obj_ID x = obj_ID c then ?row else x)" if x: "x \<in> set (w_canvases w)" for x
  proof (cases "obj_ID x = obj_ID c")
    case True
    then have "x = c" using keys_distinct_unique[OF assms(2) x assms(3)] by simp
    then show ?thesis using assms(4) by simp
  qed (simp add: assms(4))
  then have "map ?f (w_canvases w) = map (\<lambda>x. if obj_ID x = obj_ID c then ?row else x) (w_canvases w)" by (intro map_cong) simp_all
  also have "\<dots> = save_row ?row (w_canvases w)"
    using assms(3) by (simp add: save_row_def canvas_columns_def)
  finally have "w_canvases_update (map ?f) w = w_canvases_update (save_row ?row) w" by simp
  then show ?thesis
    using assms(1,3,4) by (auto simp: canvas_Update_def db_update_def bindE_apply stmt_healthy filter_empty_conv)
qed

lemma save_ok:
  assumes "healthy w" "keys_distinct (w_canvases w)" "c \<in> set (w_canvases w)" "cv_DeletedAt c = 0"
    and f: "obj_Extend c = Some f" and id: "sv_ID req = obj_ID c" and ok: "\<not> save_conflict (sv_BaseUpdatedAt req) c"
  shows "\<exists>r. CanvasSave E req w = (Inr r, w_canvases_update (save_row (save_row_of E (w_now w) req f c)) w)"
proof -
  let ?ext = "f(''nodes'' \<mapsto> xp_Nodes req, ''connections'' \<mapsto> xp_Connections req, ''viewport'' \<mapsto> xp_Viewport req,
       ''logs'' \<mapsto> xp_Logs req, ''settings'' \<mapsto> xp_Settings req)"
  let ?data = "(loaded c)\<lparr>cv_Title := xp_Title req, cv_Icon := xp_Icon req,
     cv_Kind := (if xp_Kind req \<noteq> [] then xp_Kind req else cv_Kind c), obj_Extend := Some ?ext\<rparr>"
  have get: "canvas_Get (sv_ID req) w = (Inr (loaded c), w)" unfolding id by (rule get_active[OF assms(1-4)])
  have ext: "set_entries (Some f) [(''nodes'', xp_Nodes req), (''connections'', xp_Connections req),
            (''viewport'', xp_Viewport req), (''logs'', xp_Logs req), (''settings'', xp_Settings req)] = ret ?ext"
    by (auto simp: set_entries_def fun_eq_iff map_add_def)
  have "touch E (w_now w) (canvas_columns ?data c) = save_row_of E (w_now w) req f c"
    by (simp add: save_row_of_def canvas_columns_def loaded_def)
  then have upd: "canvas_Update E ?data w = (Inr ?data, w_canvases_update (save_row (save_row_of E (w_now w) req f c)) w)"
    using put_active[OF assms(1-3), of ?data E] by simp
  have "save_conflict b (loaded c) = save_conflict b c" "cv_Kind (loaded c) = cv_Kind c" for b by (simp_all add: save_conflict_def loaded_def)
  then have "CanvasSave E req w = (Inr (hydrateCanvas ?data), w_canvases_update (save_row (save_row_of E (w_now w) req f c)) w)"
    using get ext upd ok f by (cases "xp_Kind req = []") (simp_all add: CanvasSave_def bindE_apply)
  then show ?thesis by blast
qed

lemma export_active:
  assumes "healthy w" "keys_distinct (w_canvases w)" "c \<in> set (w_canvases w)" "cv_DeletedAt c = 0"
  shows "CanvasExport (obj_ID c) w = (Inr (obj_ID c, canvasPayload c), w)"
  by (simp add: CanvasExport_def bindE_apply get_active[OF assms] canvasPayload_def loaded_def)

lemma save_row_payload: "canvasPayload (save_row_of E now req f c) = saved_payload req c"
  by (simp add: canvasPayload_def save_row_of_def touch_def saved_payload_def nilmap_at_def map_at_def)

lemma conflict_refused:
  assumes "healthy w" "keys_distinct (w_canvases w)" "c \<in> set (w_canvases w)" "cv_DeletedAt c = 0" "sv_ID req = obj_ID c"
    and "save_conflict (sv_BaseUpdatedAt req) c"
  shows "CanvasSave E req w = (Inl (Errorf ''canvas has been updated by another session, conflict detected'' []), w)"
  using assms(6) by (simp add: CanvasSave_def bindE_apply assms(5) get_active[OF assms(1-4)] save_conflict_def)


definition edit_env :: env where
  "edit_env = sample_env\<lparr>e_touch := True\<rparr>"

definition edit_world :: world where
  "edit_world = empty_world\<lparr>w_canvases := [new_canvas\<lparr>obj_ID := ''c1'', cv_Title := ''plan'', obj_UpdatedAt := 5000000, obj_Extend := Some Map.empty\<rparr>]\<rparr>"

definition edit_request :: canvas_save_request where
  "edit_request = \<lparr>xp_Title = ''new'', xp_Icon = ''layers'', xp_Kind = ''classic'', xp_Nodes = AArr [AStr ''n''], xp_Connections = AArr [],
     xp_Viewport = ANil, xp_Logs = ANil, xp_Settings = ANil, sv_ID = ''c1'', sv_BaseUpdatedAt = 5\<rparr>"


subsection \<open>Export and import\<close>

lemma canvases_same_plain: "plain (\<lambda>w. w_canvases w = cs)"
  by (rule plainI) simp

lemma default_keeps_canvases: "preserves (\<lambda>w. w_canvases w = cs) (ensureDefaultProject E)"
  unfolding ensureDefaultProject_def project_Get_def project_Add_def db_first_def
  by (intro preserves_bindE preserves_attempt preserves_case_sum preserves_ret projects_t.first_preserves projects_t.create_preserves canvases_same_plain)
    simp_all

text \<open>
  C14. An import is a new canvas with the imported document: its identifier is fresh, no existing canvas changes, and
  exporting it gives the imported title, icon, kind and graph back, with the defaults for an empty title or kind. So a
  canvas that was exported with title and kind comes back the same, in this or in another database.
\<close>

theorem import_export_roundtrip:
  assumes "keys_distinct (w_canvases w)" and run: "CanvasImport E project x w = (Inr (c, n), w')" and ok: "healthy w'"
  shows "w_canvases w' = w_canvases w @ [c] \<and> obj_ID c \<notin> set (map obj_ID (w_canvases w)) \<and> cv_DeletedAt c = 0 \<and>
    cv_ProjectID c = (if project = [] then DefaultProjectID else project) \<and>
    CanvasExport (obj_ID c) w' = (Inr (obj_ID c, x\<lparr>xp_Title := (if xp_Title x = [] then imported_canvas_title else xp_Title x),
       xp_Kind := (if xp_Kind x = [] then CanvasKindClassic else xp_Kind x)\<rparr>), w')"
proof -
  from run[unfolded CanvasImport_def] obtain u w1 where one: "ensureDefaultProject E w = (Inr u, w1)"
    and two: "bindE (canvas_Add E (imported_canvas project x)) (\<lambda>created. ret (toCanvasRecord created)) w1 = (Inr (c, n), w')"
    by (rule bindE_Inr_elim)
  have same: "w_canvases w1 = w_canvases w" using preservesD[OF default_keeps_canvases[of "w_canvases w" E], of w] one by simp
  from two obtain c1 where add: "canvas_Add E (imported_canvas project x) w1 = (Inr c1, w')" and "toCanvasRecord c1 = (c, n)"
    by (rule bindE_Inr_elim) simp
  then have c1: "c1 = c" by (simp add: toCanvasRecord_def)
  from add[unfolded canvas_Add_def c1] obtain fs where
    c: "c = canvas_defaults (BeforeCreate (e_uuid E (w_uuids w1)) (w_now w1) (imported_canvas project x))"
    and fresh: "obj_ID c \<notin> set (map obj_ID (w_canvases w1))"
    and w': "w' = (w_canvases_update (\<lambda>rs. rs @ [c]) (w1\<lparr>w_uuids := (if obj_ID (imported_canvas project x) = [] then Suc (w_uuids w1) else w_uuids w1)\<rparr>))\<lparr>w_faults := fs\<rparr>"
    by (rule canvases_t.create_result) simp
  have rows: "w_canvases w' = w_canvases w @ [c]" using w' same by simp
  have fields: "cv_DeletedAt c = 0" "cv_ProjectID c = (if project = [] then DefaultProjectID else project)"
    "canvasPayload c = x\<lparr>xp_Title := (if xp_Title x = [] then imported_canvas_title else xp_Title x), xp_Kind := (if xp_Kind x = [] then CanvasKindClassic else xp_Kind x)\<rparr>"
    unfolding c by (simp_all add: canvas_defaults_def BeforeCreate_def imported_canvas_def new_canvas_def canvas.defs object_meta.defs new_meta_def
      canvasPayload_def CanvasKindClassic_def nilmap_at_def map_at_def)
  have "keys_distinct (w_canvases w')" using assms(1) fresh same by (simp add: rows keys_distinct_def)
  then have "CanvasExport (obj_ID c) w' = (Inr (obj_ID c, canvasPayload c), w')"
    by (intro export_active ok fields(1)) (simp_all add: rows)
  then show ?thesis using rows fresh same fields by simp
qed

lemma sample_import:
  "case CanvasImport sample_env [] (canvasPayload (new_canvas\<lparr>cv_Title := ''plan'', cv_Kind := ''smart''\<rparr>)) edit_world of
     (Inr (c, n), w) \<Rightarrow> length (w_faults w) = 0 \<and> Option.is_none (w_tx w) | _ \<Rightarrow> False"
  by code_simp

lemma import_export_roundtrip_witness:
  "\<exists>cid x w'. CanvasExport cid w' = (Inr (cid, x), w') \<and> xp_Title x = ''plan'' \<and> xp_Kind x = ''smart''"
proof -
  obtain c n w' where run: "CanvasImport sample_env [] (canvasPayload (new_canvas\<lparr>cv_Title := ''plan'', cv_Kind := ''smart''\<rparr>)) edit_world = (Inr (c, n), w')"
    and ok: "healthy w'" using sample_import by (auto simp: healthy_def Option.is_none_def split: prod.splits sum.splits)
  have "keys_distinct (w_canvases edit_world)" by (simp add: edit_world_def keys_distinct_def)
  from import_export_roundtrip[OF this run ok]
  have "CanvasExport (obj_ID c) w' = (Inr (obj_ID c, canvasPayload (new_canvas\<lparr>cv_Title := ''plan'', cv_Kind := ''smart''\<rparr>)), w')"
    by (simp add: canvasPayload_def)
  then show ?thesis by (intro exI conjI) (assumption, simp_all add: canvasPayload_def)
qed

subsection \<open>Deleting a project\<close>

definition moved_to_default :: "env \<Rightarrow> time \<Rightarrow> string \<Rightarrow> canvas \<Rightarrow> canvas" where
  "moved_to_default E now pid c = (if cv_ProjectID c = pid then touch E now (c\<lparr>cv_ProjectID := DefaultProjectID\<rparr>) else c)"

definition tables_are :: "project list \<Rightarrow> canvas list \<Rightarrow> time \<Rightarrow> world \<Rightarrow> bool" where
  "tables_are ps cs now w \<longleftrightarrow> w_projects w = ps \<and> w_canvases w = cs \<and> w_now w = now"

lemma tables_plain: "plain (tables_are ps cs now)" "plain (\<lambda>w. tables_are ps cs now w \<and> b)"
  by (rule plainI; simp add: tables_are_def)+

lemma filter_none: "length (filter P xs) = 0 \<Longrightarrow> filter (\<lambda>x. \<not> P x) xs = xs"
  by (induction xs) (auto split: if_splits)

lemma project_Delete_triple:
  "triple (tables_are ps cs now) (project_Delete pid) (\<lambda>_. tables_are (filter (\<lambda>p. obj_ID p \<noteq> pid) ps) cs now) (tables_are ps cs now)"
  unfolding project_Delete_def
proof (rule triple_bindE)
  let ?n = "int (length (filter (\<lambda>p. obj_ID p = pid) ps))"
  show "triple (tables_are ps cs now) (db_delete projects_tbl (\<lambda>p. obj_ID p = pid))
      (\<lambda>n w. tables_are (filter (\<lambda>p. obj_ID p \<noteq> pid) ps) cs now w \<and> n = ?n) (tables_are ps cs now)"
    by (rule projects_t.delete_count_triple[OF tables_plain]) (simp_all add: tables_are_def)
  fix n
  show "triple (\<lambda>w. tables_are (filter (\<lambda>p. obj_ID p \<noteq> pid) ps) cs now w \<and> n = ?n)
      (if n = 0 then throw (Errorf ''project not found with id %v'' [pid]) else ret ())
      (\<lambda>_. tables_are (filter (\<lambda>p. obj_ID p \<noteq> pid) ps) cs now) (tables_are ps cs now)"
    by (auto simp: triple_def dest: filter_none[of "\<lambda>p. obj_ID p = pid" ps, simplified])
qed

lemma ProjectDelete_triple:
  assumes "pid \<noteq> DefaultProjectID"
  shows "triple (tables_are ps cs now) (ProjectDelete E pid)
    (\<lambda>n w. tables_are (filter (\<lambda>p. obj_ID p \<noteq> pid) ps) (map (moved_to_default E now pid) cs) now w \<and> n = int (length (filter (\<lambda>c. cv_ProjectID c = pid) cs)))
    (\<lambda>w. tables_are ps cs now w \<or> tables_are ps (map (moved_to_default E now pid) cs) now w)"
    (is "triple _ _ ?Q ?R")
proof -
  let ?n = "int (length (filter (\<lambda>c. cv_ProjectID c = pid) cs))" and ?cs = "map (moved_to_default E now pid) cs"
  have get: "triple (tables_are ps cs now) (project_Get pid) (\<lambda>_. tables_are ps cs now) ?R"
    unfolding project_Get_def db_first_def by (rule projects_t.first_triple[OF tables_plain(1) _ tables_plain(1)]) simp_all
  have move: "triple (tables_are ps cs now) (canvas_ReassignProject E pid DefaultProjectID) (\<lambda>n w. tables_are ps ?cs now w \<and> n = ?n) ?R"
    unfolding canvas_ReassignProject_def
    by (rule canvases_t.update_triple[OF tables_plain]) (simp_all add: tables_are_def moved_to_default_def[abs_def])
  have del: "triple (\<lambda>w. tables_are ps ?cs now w \<and> n = ?n) (bindE (project_Delete pid) (\<lambda>_. ret n)) ?Q ?R" for n
  proof (cases "n = ?n")
    case True
    have one: "triple (tables_are ps ?cs now) (project_Delete pid) (\<lambda>_. tables_are (filter (\<lambda>p. obj_ID p \<noteq> pid) ps) ?cs now) ?R"
      by (rule triple_mono[OF project_Delete_triple]) blast+
    have "triple (tables_are ps ?cs now) (bindE (project_Delete pid) (\<lambda>_. ret n)) ?Q ?R"
      by (rule triple_bindE[OF one], rule triple_ret) (simp add: True)
    then show ?thesis using True by simp
  qed (rule triple_vacuous, simp)
  show ?thesis unfolding ProjectDelete_def using assms
    by (simp, intro triple_bindE[OF get] triple_bindE[OF move] del)
qed

lemma moved_fields:
  "obj_ID (moved_to_default E now pid c) = obj_ID c" "cv_DeletedAt (moved_to_default E now pid c) = cv_DeletedAt c"
  "canvas_content (moved_to_default E now pid c) = canvas_content c"
  "cv_ProjectID (moved_to_default E now pid c) = (if cv_ProjectID c = pid then DefaultProjectID else cv_ProjectID c)"
  by (simp_all add: moved_to_default_def touch_def canvas_content_def)

text \<open>
  C15. Deleting a project loses no canvas: the default project cannot be deleted; a deletion that succeeds removes just
  that project, moves all its canvases, those in the trash too, to the default project, and answers their number; a deletion that fails, at
  whatever point, keeps every project. Either way every canvas is still there with its identifier, its content and its state of deletion.
\<close>

theorem project_delete_moves:
  assumes "ProjectDelete E pid w = (r, w')"
  shows "map (\<lambda>c. (obj_ID c, cv_DeletedAt c, canvas_content c)) (w_canvases w') = map (\<lambda>c. (obj_ID c, cv_DeletedAt c, canvas_content c)) (w_canvases w) \<and>
    (case r of
       Inl _ \<Rightarrow> w_projects w' = w_projects w
     | Inr n \<Rightarrow> pid \<noteq> DefaultProjectID \<and> w_projects w' = filter (\<lambda>p. obj_ID p \<noteq> pid) (w_projects w) \<and>
         n = int (length (filter (\<lambda>c. cv_ProjectID c = pid) (w_canvases w))) \<and>
         map cv_ProjectID (w_canvases w') = map (\<lambda>c. if cv_ProjectID c = pid then DefaultProjectID else cv_ProjectID c) (w_canvases w))"
proof (cases "pid = DefaultProjectID")
  case True
  then show ?thesis using assms by (auto simp: ProjectDelete_def)
next
  case False
  have start: "tables_are (w_projects w) (w_canvases w) (w_now w) w" by (simp add: tables_are_def)
  show ?thesis
  proof (cases r)
    case (Inl e)
    from triple_Inl[OF ProjectDelete_triple[OF False] start assms[unfolded Inl]] Inl show ?thesis
      by (auto simp: tables_are_def moved_fields)
  next
    case (Inr n)
    from triple_Inr[OF ProjectDelete_triple[OF False] start assms[unfolded Inr]] Inr False show ?thesis
      by (auto simp: tables_are_def moved_fields)
  qed
qed

definition project_world :: world where
  "project_world = edit_world\<lparr>w_projects := [new_project\<lparr>obj_ID := ''p1''\<rparr>, new_project\<lparr>obj_ID := ''p2''\<rparr>],
     w_canvases := [new_canvas\<lparr>obj_ID := ''c1'', cv_ProjectID := ''p1''\<rparr>, new_canvas\<lparr>obj_ID := ''c2'', cv_ProjectID := ''p2''\<rparr>]\<rparr>"

lemma sample_project_delete:
  "case ProjectDelete sample_env ''p1'' project_world of (Inr n, w) \<Rightarrow> n = 1 | _ \<Rightarrow> False"
  by code_simp

lemma project_delete_moves_witness:
  "\<exists>w'. ProjectDelete sample_env ''p1'' project_world = (Inr 1, w') \<and> map cv_ProjectID (w_canvases w') = [DefaultProjectID, ''p2'']"
proof -
  obtain w' where run: "ProjectDelete sample_env ''p1'' project_world = (Inr 1, w')"
    using sample_project_delete by (auto split: prod.splits sum.splits)
  from project_delete_moves[OF run] show ?thesis using run by (auto simp: project_world_def)
qed

text \<open>
  An update of a project that sends only the order erases its name: the service fills the missing field with the empty string and the store
  writes both columns.
\<close>

lemma project_update_erases:
  assumes "healthy w" "p \<in> set (w_projects w)" "pu_ID req = obj_ID p" "pu_Name req = None"
  shows "\<exists>r w'. ProjectUpdate E req w = (Inr r, w') \<and> (\<exists>q \<in> set (w_projects w'). obj_ID q = obj_ID p \<and> obj_Name q = [])"
proof -
  let ?d = "new_project\<lparr>obj_ID := pu_ID req, obj_Name := [], pj_SortOrder := (case pu_SortOrder req of None \<Rightarrow> 0 | Some n \<Rightarrow> n)\<rparr>"
  let ?f = "\<lambda>x. if obj_ID x = obj_ID p then touch E (w_now w) (x\<lparr>obj_Name := [], pj_SortOrder := pj_SortOrder ?d\<rparr>) else x"
  have upd: "project_Update E ?d w = (Inr ?d, w_projects_update (map ?f) w)"
    using assms by (auto simp: project_Update_def db_update_def bindE_apply stmt_healthy filter_empty_conv)
  have "healthy (w_projects_update (map ?f) w)" using assms(1) by (simp add: healthy_def)
  then obtain r where "ProjectUpdate E req w = (Inr r, w_projects_update (map ?f) w)"
    using upd assms(4) by (simp add: ProjectUpdate_def bindE_apply canvas_CountByProject_def db_count_def stmt_healthy attempt_def)
  moreover have "?f p \<in> set (w_projects (w_projects_update (map ?f) w))" using assms(2) by simp
  moreover have "obj_ID (?f p) = obj_ID p" "obj_Name (?f p) = []" by (simp_all add: touch_def)
  ultimately show ?thesis by blast
qed

end
