(* ===== verification/Libraries.thy ===== *)
theory Libraries
  imports Stores
begin

text \<open>
  Asset libraries, their categories and their items: \<open>service/v1/asset/0_service.go\<close> over the stores \<open>asset_library.go\<close>,
  \<open>asset_category.go\<close> and \<open>asset_item.go\<close>.
\<close>

subsection \<open>Constants, requests and new rows\<close>

definition CategoryTypeImage :: string where
  "CategoryTypeImage = ''image''"

definition CategoryTypeWorkflow :: string where
  "CategoryTypeWorkflow = ''workflow''"

definition AssetKindImage :: string where
  "AssetKindImage = ''image''"

text \<open>Chinese texts, as their UTF-8 bytes.\<close>

definition default_category_name :: string where
  "default_category_name = map char_of [233::nat, 187, 152, 232, 174, 164, 229, 136, 134, 231, 187, 132]"

definition workflow_category_name :: string where
  "workflow_category_name = map char_of [229::nat, 183, 165, 228, 189, 156, 230, 181, 129]"

definition item_missing :: string where
  "item_missing = map char_of [232::nat, 181, 132, 228, 186, 167, 228, 184, 141, 229, 173, 152, 229, 156, 168]"

definition only_images :: string where
  "only_images = map char_of [228::nat, 187, 133, 230, 148, 175, 230, 140, 129, 229, 155, 190, 231, 137, 135, 231, 180, 160, 230, 157, 144,
     230, 153, 186, 232, 131, 189, 229, 136, 134, 231, 177, 187]"

record category_list_request = basic_query +
  cl_LibraryID :: string

record item_list_request = basic_query +
  il_LibraryID :: string
  il_CategoryID :: string
  il_Kind :: string

record item_create_request =
  ic_LibraryID :: string
  ic_CategoryID :: string
  ic_URL :: string
  ic_Name :: string

record item_move_request =
  im_IDs :: "string list"
  im_TargetLibraryID :: string
  im_TargetCategoryID :: string

record classify_result =
  cf_ID :: string
  cf_OK :: bool
  cf_Error :: string

definition new_category :: asset_category where
  "new_category = object_meta.extend new_meta (asset_category.fields [] [] [] 0)"

definition new_item :: asset_item where
  "new_item = object_meta.extend new_meta (asset_item.fields [] [] [] [] 0 [] 0)"

subsection \<open>The store of libraries\<close>

definition assetLibrary_List :: "env \<Rightarrow> basic_query \<Rightarrow> (asset_library list \<times> int) m" where
  "assetLibrary_List E req = db_page E [] libraries_tbl (\<lambda>_. ToQuery (e_lower E) req (\<lambda>_. True))"

definition assetLibrary_Get :: "string \<Rightarrow> asset_library m" where
  "assetLibrary_Get lid = db_first libraries_tbl (\<lambda>l. obj_ID l = lid)"

definition assetLibrary_Add :: "env \<Rightarrow> asset_library \<Rightarrow> asset_library m" where
  "assetLibrary_Add E data = transaction
     (bindE (CheckExists libraries_tbl (\<lambda>l. obj_Name l = obj_Name data)) (\<lambda>found.
      if found then throw (Errorf ''exists name with %v'' [obj_Name data])
      else db_create E id libraries_tbl data))"

text \<open>\<open>Updates\<close> of the name, and the error when no row was affected.\<close>

definition rename_row :: "env \<Rightarrow> 'r object_meta_scheme tbl \<Rightarrow> string \<Rightarrow> 'r object_meta_scheme \<Rightarrow> unit m" where
  "rename_row E t msg data =
     bindE (db_update E t (\<lambda>r. obj_ID r = obj_ID data) (\<lambda>r. r\<lparr>obj_Name := obj_Name data\<rparr>)) (\<lambda>affected.
     if affected = 0 then throw (Errorf msg [obj_ID data]) else ret ())"

definition assetLibrary_Update :: "env \<Rightarrow> asset_library \<Rightarrow> asset_library m" where
  "assetLibrary_Update E data = transaction
     (bindE (CheckExists libraries_tbl (\<lambda>l. obj_Name l = obj_Name data)) (\<lambda>found.
      bindE (if found
         then bindE (attempt (db_first libraries_tbl (\<lambda>l. obj_Name l = obj_Name data \<and> obj_ID l \<noteq> obj_ID data))) (\<lambda>r. case r of
                Inr _ \<Rightarrow> throw (Errorf ''exists name with %v'' [obj_Name data]) | Inl _ \<Rightarrow> ret ())
         else ret ()) (\<lambda>_.
      bindE (rename_row E libraries_tbl ''asset library not found with id %v'' data) (\<lambda>_. ret data))))"

text \<open>\<open>Delete\<close> of one row, and the error when no row was affected.\<close>

definition delete_row :: "'r tbl \<Rightarrow> ('r \<Rightarrow> bool) \<Rightarrow> string \<Rightarrow> string \<Rightarrow> unit m" where
  "delete_row t P msg rid =
     bindE (db_delete t P) (\<lambda>affected. if affected = 0 then throw (Errorf msg [rid]) else ret ())"

definition assetLibrary_Delete :: "string \<Rightarrow> unit m" where
  "assetLibrary_Delete lid = transaction
     (bindE (db_delete categories_tbl (\<lambda>c. ac_LibraryID c = lid)) (\<lambda>_.
      bindE (db_delete items_tbl (\<lambda>i. ai_LibraryID i = lid)) (\<lambda>_.
      delete_row libraries_tbl (\<lambda>l. obj_ID l = lid) ''asset library not found with id %v'' lid)))"

subsection \<open>The store of categories\<close>

definition category_columns :: "asset_category columns" where
  "category_columns = [(''library_id'', CText ac_LibraryID), (''type'', CText ac_Type), (''dir'', CText ac_Dir), (''sort_order'', CInt ac_SortOrder)]"

definition assetCategory_List :: "env \<Rightarrow> category_list_request \<Rightarrow> (asset_category list \<times> int) m" where
  "assetCategory_List E req = db_page E category_columns categories_tbl
     (\<lambda>_. ToQuery (e_lower E) (basic_query.truncate req) (\<lambda>c. cl_LibraryID req \<noteq> [] \<longrightarrow> ac_LibraryID c = cl_LibraryID req))"

definition assetCategory_Get :: "string \<Rightarrow> asset_category m" where
  "assetCategory_Get cid = db_first categories_tbl (\<lambda>c. obj_ID c = cid)"

definition category_defaults :: "asset_category \<Rightarrow> asset_category" where
  "category_defaults c = (if ac_Type c = [] then c\<lparr>ac_Type := CategoryTypeImage\<rparr> else c)"

definition assetCategory_Add :: "env \<Rightarrow> asset_category \<Rightarrow> asset_category m" where
  "assetCategory_Add E data = transaction
     (bindE (CheckExists categories_tbl (\<lambda>c. obj_Name c = obj_Name data \<and> ac_LibraryID c = ac_LibraryID data)) (\<lambda>found.
      if found then throw (Errorf (''exists category name '' @ quoted_v @ '' in library '' @ quoted_v) [obj_Name data, ac_LibraryID data])
      else db_create E category_defaults categories_tbl data))"

definition assetCategory_Update :: "env \<Rightarrow> asset_category \<Rightarrow> asset_category m" where
  "assetCategory_Update E data = transaction
     (bindE (rename_row E categories_tbl ''asset category not found with id %v'' data) (\<lambda>_. ret data))"

definition assetCategory_Delete :: "string \<Rightarrow> string \<Rightarrow> unit m" where
  "assetCategory_Delete cid lid = transaction
     (bindE (db_delete items_tbl (\<lambda>i. ai_CategoryID i = cid)) (\<lambda>_.
      delete_row categories_tbl (\<lambda>c. obj_ID c = cid \<and> ac_LibraryID c = lid) ''asset category not found with id %v'' cid))"

definition assetCategory_DeleteByLibraryID :: "string \<Rightarrow> unit m" where
  "assetCategory_DeleteByLibraryID lid = transaction
     (bindE (db_delete items_tbl (\<lambda>i. ai_LibraryID i = lid)) (\<lambda>_.
      bindE (db_delete categories_tbl (\<lambda>c. ac_LibraryID c = lid)) (\<lambda>_. ret ())))"

subsection \<open>The store of items\<close>

definition item_columns :: "asset_item columns" where
  "item_columns = [(''library_id'', CText ai_LibraryID), (''category_id'', CText ai_CategoryID), (''url'', CText ai_URL),
     (''kind'', CText ai_Kind), (''size'', CInt ai_Size), (''format'', CText ai_Format), (''sort_order'', CInt ai_SortOrder)]"

definition assetItem_List :: "env \<Rightarrow> item_list_request \<Rightarrow> (asset_item list \<times> int) m" where
  "assetItem_List E req = db_page E item_columns items_tbl
     (\<lambda>_. ToQuery (e_lower E) (basic_query.truncate req) (\<lambda>i.
        (il_LibraryID req \<noteq> [] \<longrightarrow> ai_LibraryID i = il_LibraryID req) \<and>
        (il_CategoryID req \<noteq> [] \<longrightarrow> ai_CategoryID i = il_CategoryID req) \<and>
        (il_Kind req \<noteq> [] \<longrightarrow> ai_Kind i = il_Kind req)))"

definition assetItem_Get :: "string \<Rightarrow> asset_item m" where
  "assetItem_Get iid = db_first items_tbl (\<lambda>i. obj_ID i = iid)"

definition item_defaults :: "asset_item \<Rightarrow> asset_item" where
  "item_defaults i = (if ai_Kind i = [] then i\<lparr>ai_Kind := AssetKindImage\<rparr> else i)"

definition assetItem_Add :: "env \<Rightarrow> asset_item \<Rightarrow> asset_item m" where
  "assetItem_Add E data = db_create E item_defaults items_tbl data"

definition assetItem_BatchAdd :: "env \<Rightarrow> asset_item list \<Rightarrow> asset_item list m" where
  "assetItem_BatchAdd E items = transaction
     (bindE (map_each (batches 100 (map item_defaults items)) (db_create_all E items_tbl)) (\<lambda>bs. ret (concat bs)))"

definition assetItem_Update :: "env \<Rightarrow> asset_item \<Rightarrow> asset_item m" where
  "assetItem_Update E data = bindE (rename_row E items_tbl ''asset item not found with id %v'' data) (\<lambda>_. ret data)"

definition assetItem_Delete :: "string \<Rightarrow> unit m" where
  "assetItem_Delete iid = delete_row items_tbl (\<lambda>i. obj_ID i = iid) ''asset item not found with id %v'' iid"

definition assetItem_BatchDelete :: "string list \<Rightarrow> string \<Rightarrow> int m" where
  "assetItem_BatchDelete ids lid = db_delete items_tbl (\<lambda>i. (lid \<noteq> [] \<longrightarrow> ai_LibraryID i = lid) \<and> obj_ID i \<in> set ids)"

definition assetItem_BatchMove :: "env \<Rightarrow> string list \<Rightarrow> string \<Rightarrow> string \<Rightarrow> int m" where
  "assetItem_BatchMove E ids lid cid =
     db_update E items_tbl (\<lambda>i. obj_ID i \<in> set ids) (\<lambda>i. i\<lparr>ai_LibraryID := lid, ai_CategoryID := cid\<rparr>)"

definition assetItem_FindByIDs :: "string list \<Rightarrow> string \<Rightarrow> asset_item list m" where
  "assetItem_FindByIDs ids lid = db_find items_tbl (\<lambda>i. (lid \<noteq> [] \<longrightarrow> ai_LibraryID i = lid) \<and> obj_ID i \<in> set ids)"

subsection \<open>The service\<close>

definition AssetLibraryList :: "env \<Rightarrow> basic_query \<Rightarrow> (asset_library list \<times> int) m" where
  "AssetLibraryList E req = assetLibrary_List E req"

definition AssetLibraryCreate :: "env \<Rightarrow> string \<Rightarrow> asset_library m" where
  "AssetLibraryCreate E name =
     bindE (assetLibrary_Add E (new_meta\<lparr>obj_Name := name\<rparr>)) (\<lambda>created.
     bindE (assetCategory_Add E (new_category\<lparr>obj_Name := default_category_name, ac_LibraryID := obj_ID created, ac_Type := CategoryTypeImage\<rparr>)) (\<lambda>_.
     bindE (assetCategory_Add E (new_category\<lparr>obj_Name := workflow_category_name, ac_LibraryID := obj_ID created, ac_Type := CategoryTypeWorkflow\<rparr>)) (\<lambda>_.
     ret created)))"

definition AssetLibraryUpdate :: "env \<Rightarrow> string \<Rightarrow> string \<Rightarrow> asset_library m" where
  "AssetLibraryUpdate E lid name = assetLibrary_Update E (new_meta\<lparr>obj_ID := lid, obj_Name := name\<rparr>)"

definition AssetLibraryDelete :: "env \<Rightarrow> string \<Rightarrow> unit m" where
  "AssetLibraryDelete E lid =
     bindE (assetLibrary_List E new_query) (\<lambda>(libs, _).
     if length libs \<le> 1 then throw (Errorf ''at least one asset library must be kept'' [])
     else assetLibrary_Delete lid)"

definition AssetCategoryList :: "env \<Rightarrow> category_list_request \<Rightarrow> (asset_category list \<times> int) m" where
  "AssetCategoryList E req = assetCategory_List E req"

definition AssetCategoryCreate :: "env \<Rightarrow> string \<Rightarrow> string \<Rightarrow> string \<Rightarrow> asset_category m" where
  "AssetCategoryCreate E lid name ty =
     assetCategory_Add E (new_category\<lparr>obj_Name := name, ac_LibraryID := lid, ac_Type := (if ty = [] then CategoryTypeImage else ty)\<rparr>)"

definition AssetCategoryUpdate :: "env \<Rightarrow> string \<Rightarrow> string \<Rightarrow> asset_category m" where
  "AssetCategoryUpdate E cid name = assetCategory_Update E (new_category\<lparr>obj_ID := cid, obj_Name := name\<rparr>)"

definition AssetCategoryDelete :: "string \<Rightarrow> string \<Rightarrow> unit m" where
  "AssetCategoryDelete cid lid = assetCategory_Delete cid lid"

definition AssetItemList :: "env \<Rightarrow> item_list_request \<Rightarrow> (asset_item list \<times> int) m" where
  "AssetItemList E req = assetItem_List E req"

definition media_category :: "string \<Rightarrow> unit m" where
  "media_category cid =
     bindE (assetCategory_Get cid) (\<lambda>cat.
     if ac_Type cat \<noteq> CategoryTypeImage
     then throw (Errorf (''category type '' @ quoted_v @ '' does not support adding media'') [ac_Type cat]) else ret ())"

definition item_of :: "string \<Rightarrow> string \<Rightarrow> string \<Rightarrow> string \<Rightarrow> asset_item" where
  "item_of lid cid name url = new_item\<lparr>obj_Name := name, ai_LibraryID := lid, ai_CategoryID := cid, ai_URL := url, ai_Kind := AssetKindImage\<rparr>"

definition AssetItemCreate :: "env \<Rightarrow> item_create_request \<Rightarrow> asset_item m" where
  "AssetItemCreate E req =
     bindE (media_category (ic_CategoryID req)) (\<lambda>_.
     assetItem_Add E (item_of (ic_LibraryID req) (ic_CategoryID req) (ic_Name req) (ic_URL req)))"

definition AssetItemBatchCreate :: "env \<Rightarrow> string \<Rightarrow> string \<Rightarrow> item_create_request list \<Rightarrow> asset_item list m" where
  "AssetItemBatchCreate E lid cid entries =
     bindE (media_category cid) (\<lambda>_.
     assetItem_BatchAdd E (map (\<lambda>e. item_of lid cid (ic_Name e) (ic_URL e)) entries))"

definition AssetItemUpdate :: "env \<Rightarrow> string \<Rightarrow> string \<Rightarrow> asset_item m" where
  "AssetItemUpdate E iid name = assetItem_Update E (new_item\<lparr>obj_ID := iid, obj_Name := name\<rparr>)"

definition AssetItemDelete :: "string \<Rightarrow> unit m" where
  "AssetItemDelete iid = assetItem_Delete iid"

definition AssetItemBatchDelete :: "string list \<Rightarrow> string \<Rightarrow> int m" where
  "AssetItemBatchDelete ids lid = assetItem_BatchDelete ids lid"

definition AssetItemBatchMove :: "env \<Rightarrow> item_move_request \<Rightarrow> int m" where
  "AssetItemBatchMove E req =
     bindE (assetCategory_Get (im_TargetCategoryID req)) (\<lambda>_.
     assetItem_BatchMove E (im_IDs req) (im_TargetLibraryID req) (im_TargetCategoryID req))"

definition classify_one :: "asset_item list \<Rightarrow> string \<Rightarrow> classify_result" where
  "classify_one items iid = (case find (\<lambda>i. obj_ID i = iid) items of
     None \<Rightarrow> \<lparr>cf_ID = iid, cf_OK = False, cf_Error = item_missing\<rparr>
   | Some i \<Rightarrow> if ai_Kind i \<noteq> AssetKindImage then \<lparr>cf_ID = iid, cf_OK = False, cf_Error = only_images\<rparr>
               else \<lparr>cf_ID = iid, cf_OK = True, cf_Error = []\<rparr>)"

definition AssetItemClassify :: "string list \<Rightarrow> string \<Rightarrow> (int \<times> classify_result list) m" where
  "AssetItemClassify ids lid =
     bindE (assetItem_FindByIDs ids lid) (\<lambda>items.
     let results = map (classify_one items) ids in
     ret (int (length (filter cf_OK results)), results))"

end
