(* ===== verification/LibraryLaws.thy ===== *)
theory LibraryLaws
  imports Libraries
begin

text \<open>
  What asset libraries promise: unique library names and never an empty list of libraries, deletions that take
  everything of a library or nothing, batches that are one all-or-nothing creation.
\<close>

subsection \<open>Deleting a library\<close>

definition libs_are :: "asset_library list \<Rightarrow> asset_category list \<Rightarrow> asset_item list \<Rightarrow> world \<Rightarrow> bool" where
  "libs_are ls cs is w \<longleftrightarrow> w_libraries w = ls \<and> w_categories w = cs \<and> w_items w = is"

lemma libs_are_plain: "plain (libs_are ls cs is)" "plain (\<lambda>w. libs_are ls cs is w \<and> b)"
  by (rule plainI; simp add: libs_are_def)+

text \<open>The deletion of a row, with the error when there was none: over any table.\<close>

context table_lens
begin

lemma delete_row_triple:
  assumes I: "plain I" and Q: "\<And>b. plain (\<lambda>w. Q w \<and> b)"
    and step: "\<And>w. I w \<Longrightarrow> \<exists>x \<in> set (rows t w). P x \<Longrightarrow> Q (upd_rows t (filter (\<lambda>r. \<not> P r)) w)"
  shows "triple I (delete_row t P msg i) (\<lambda>_. Q) (\<lambda>_. True)"
  unfolding delete_row_def
proof (rule triple_bindE)
  have "(length (filter P rs) = 0) = (\<not> (\<exists>x \<in> set rs. P x))" for rs by (auto simp: filter_empty_conv)
  then have some: "\<exists>x \<in> set rs. P x" if "length (filter P rs) \<noteq> 0" for rs using that by blast
  show "triple I (db_delete t P) (\<lambda>n w. n \<noteq> 0 \<longrightarrow> Q w) (\<lambda>_. True)"
  proof (rule delete_count_triple[OF I])
    show "plain (\<lambda>w. n \<noteq> 0 \<longrightarrow> Q w)" for n :: int
      using plain_all[OF Q[of True]] by (auto intro!: plainI)
  qed (auto intro: step some)
  show "triple (\<lambda>w. n \<noteq> 0 \<longrightarrow> Q w) (if n = 0 then throw (Errorf msg [i]) else ret ()) (\<lambda>_. Q) (\<lambda>_. True)" for n :: int
    by (auto simp: triple_def)
qed

end

lemma assetLibrary_Delete_triple:
  "triple (libs_are ls cs is) (assetLibrary_Delete lid)
     (\<lambda>_ w. libs_are (filter (\<lambda>l. obj_ID l \<noteq> lid) ls) (filter (\<lambda>c. ac_LibraryID c \<noteq> lid) cs) (filter (\<lambda>i. ai_LibraryID i \<noteq> lid) is) w \<and> lid \<in> obj_ID ` set ls)
     (libs_are ls cs is)"
  unfolding assetLibrary_Delete_def
proof (rule transaction_triple[OF libs_are_plain], rule triple_bindE, rule_tac [2] triple_bindE)
  let ?cs = "filter (\<lambda>c. ac_LibraryID c \<noteq> lid) cs" and ?is = "filter (\<lambda>i. ai_LibraryID i \<noteq> lid) is"
  show "triple (libs_are ls cs is) (db_delete categories_tbl (\<lambda>c. ac_LibraryID c = lid)) (\<lambda>_. libs_are ls ?cs is) (\<lambda>_. True)"
    by (rule categories_t.delete_count_triple[OF libs_are_plain(1) libs_are_plain(1)]) (simp_all add: libs_are_def)
  show "triple (libs_are ls ?cs is) (db_delete items_tbl (\<lambda>i. ai_LibraryID i = lid)) (\<lambda>_. libs_are ls ?cs ?is) (\<lambda>_. True)"
    by (rule items_t.delete_count_triple[OF libs_are_plain(1) libs_are_plain(1)]) (simp_all add: libs_are_def)
  show "triple (libs_are ls ?cs ?is) (delete_row libraries_tbl (\<lambda>l. obj_ID l = lid) ''asset library not found with id %v'' lid)
      (\<lambda>_ w. libs_are (filter (\<lambda>l. obj_ID l \<noteq> lid) ls) ?cs ?is w \<and> lid \<in> obj_ID ` set ls) (\<lambda>_. True)"
    by (rule libraries_t.delete_row_triple[OF libs_are_plain(1)]) (auto simp: libs_are_def intro!: plainI)
qed

lemma assetLibrary_List_triple:
  "triple (libs_are ls cs is) (assetLibrary_List E new_query) (\<lambda>r w. libs_are ls cs is w \<and> length (fst r) = length ls) (libs_are ls cs is)"
proof (rule tripleI)
  fix w r w' assume w: "libs_are ls cs is w" and run: "assetLibrary_List E new_query w = (Inr r, w')"
  obtain hits n where r: "r = (hits, n)" by (cases r)
  from run[unfolded r assetLibrary_List_def] obtain fs where w': "w' = w\<lparr>w_faults := fs\<rparr>"
    and hits: "hits = desc_sort (column_value (CInt obj_CreatedAt)) (filter (\<lambda>_. True) (w_libraries w))"
    by (rule libraries_t.page_result) (auto simp: run_plain_query[of "[]", simplified])
  have "length hits = length (w_libraries w)"
    using mset_eq_length[OF mset_desc_sort] hits by (metis filter_True)
  then show "libs_are ls cs is w' \<and> length (fst r) = length ls" using w w' r by (simp add: libs_are_def)
next
  fix w e w' assume w: "libs_are ls cs is w" and run: "assetLibrary_List E new_query w = (Inl e, w')"
  have "preserves (libs_are ls cs is) (assetLibrary_List E new_query)"
    unfolding assetLibrary_List_def by (rule libraries_t.page_preserves[OF libs_are_plain(1)])
  from preservesD[OF this w] run show "libs_are ls cs is w'" by simp
qed

lemma AssetLibraryDelete_triple:
  "triple (libs_are ls cs is) (AssetLibraryDelete E lid)
     (\<lambda>_ w. libs_are (filter (\<lambda>l. obj_ID l \<noteq> lid) ls) (filter (\<lambda>c. ac_LibraryID c \<noteq> lid) cs) (filter (\<lambda>i. ai_LibraryID i \<noteq> lid) is) w \<and> lid \<in> obj_ID ` set ls \<and> 1 < length ls)
     (libs_are ls cs is)"
  unfolding AssetLibraryDelete_def
proof (rule triple_bindE[OF assetLibrary_List_triple])
  fix r :: "asset_library list \<times> int"
  obtain libs n where r: "r = (libs, n)" by (cases r)
  show "triple (\<lambda>w. libs_are ls cs is w \<and> length (fst r) = length ls)
      (case r of (libs, _) \<Rightarrow> if length libs \<le> 1 then throw (Errorf ''at least one asset library must be kept'' []) else assetLibrary_Delete lid)
      (\<lambda>_ w. libs_are (filter (\<lambda>l. obj_ID l \<noteq> lid) ls) (filter (\<lambda>c. ac_LibraryID c \<noteq> lid) cs) (filter (\<lambda>i. ai_LibraryID i \<noteq> lid) is) w \<and> lid \<in> obj_ID ` set ls \<and> 1 < length ls)
      (libs_are ls cs is)"
  proof (cases "length libs = length ls")
    case True
    show ?thesis
    proof (cases "length ls \<le> 1")
      case False
      have "triple (libs_are ls cs is) (assetLibrary_Delete lid)
        (\<lambda>_ w. libs_are (filter (\<lambda>l. obj_ID l \<noteq> lid) ls) (filter (\<lambda>c. ac_LibraryID c \<noteq> lid) cs) (filter (\<lambda>i. ai_LibraryID i \<noteq> lid) is) w \<and> lid \<in> obj_ID ` set ls \<and> 1 < length ls)
        (libs_are ls cs is)"
        by (rule triple_mono[OF assetLibrary_Delete_triple]) (use False in auto)
      then show ?thesis using True False r by simp
    qed (simp add: True r triple_def)
  qed (rule triple_vacuous, simp add: r)
qed

lemma keys_other_left:
  assumes "keys_distinct rs" "1 < length rs"
  shows "filter (\<lambda>r. obj_ID r \<noteq> i) rs \<noteq> []"
proof -
  obtain a b rest where rs: "rs = a # b # rest"
    using assms(2) by (metis One_nat_def length_0_conv length_Cons less_irrefl neq_Nil_conv not_less_zero)
  then have "obj_ID a \<noteq> obj_ID b" using assms(1) by (simp add: keys_distinct_def)
  then show ?thesis using rs by auto
qed

text \<open>
  C16. Deleting an asset library is all or nothing: when it fails, at whatever statement, no library, category or item is gone; when it
  succeeds exactly the library, its categories and its items are gone, it did exist, and another library is left.
\<close>

theorem library_delete_cascade:
  assumes run: "AssetLibraryDelete E lid w = (r, w')" and keys: "keys_distinct (w_libraries w)"
  shows "case r of
      Inl _ \<Rightarrow> w_libraries w' = w_libraries w \<and> w_categories w' = w_categories w \<and> w_items w' = w_items w
    | Inr _ \<Rightarrow> lid \<in> obj_ID ` set (w_libraries w) \<and> w_libraries w' = filter (\<lambda>l. obj_ID l \<noteq> lid) (w_libraries w) \<and> w_libraries w' \<noteq> [] \<and>
        w_categories w' = filter (\<lambda>c. ac_LibraryID c \<noteq> lid) (w_categories w) \<and>
        w_items w' = filter (\<lambda>i. ai_LibraryID i \<noteq> lid) (w_items w)"
proof -
  have start: "libs_are (w_libraries w) (w_categories w) (w_items w) w" by (simp add: libs_are_def)
  show ?thesis
  proof (cases r)
    case (Inl e)
    from triple_Inl[OF AssetLibraryDelete_triple start run[unfolded Inl]] Inl show ?thesis by (simp add: libs_are_def)
  next
    case (Inr x)
    from triple_Inr[OF AssetLibraryDelete_triple start run[unfolded Inr]] Inr show ?thesis
      using keys_other_left[OF keys] by (simp add: libs_are_def)
  qed
qed

definition library_world :: world where
  "library_world = empty_world\<lparr>w_libraries := [new_meta\<lparr>obj_ID := ''l1'', obj_Name := ''A''\<rparr>, new_meta\<lparr>obj_ID := ''l2'', obj_Name := ''B''\<rparr>],
     w_categories := [new_category\<lparr>obj_ID := ''c1'', ac_LibraryID := ''l1'', ac_Type := CategoryTypeImage\<rparr>, new_category\<lparr>obj_ID := ''c2'', ac_LibraryID := ''l2''\<rparr>],
     w_items := [new_item\<lparr>obj_ID := ''i1'', ai_LibraryID := ''l1'', ai_CategoryID := ''c1''\<rparr>]\<rparr>"

lemma sample_library_delete:
  "case AssetLibraryDelete sample_env ''l1'' library_world of (Inr _, w) \<Rightarrow> True | _ \<Rightarrow> False"
  by code_simp

lemma library_delete_cascade_witness:
  "\<exists>w'. AssetLibraryDelete sample_env ''l1'' library_world = (Inr (), w') \<and> map obj_ID (w_libraries w') = [''l2''] \<and> w_items w' = []"
proof -
  obtain w' where run: "AssetLibraryDelete sample_env ''l1'' library_world = (Inr (), w')"
    using sample_library_delete by (auto split: prod.splits sum.splits)
  have "keys_distinct (w_libraries library_world)" by code_simp
  from library_delete_cascade[OF run this] show ?thesis
    using run by (auto simp: library_world_def new_item_def object_meta.defs)
qed

subsection \<open>Unique names, and always a library\<close>

datatype library_op =
    OpLibraryList basic_query
  | OpLibraryCreate string
  | OpLibraryUpdate string string
  | OpLibraryDelete string
  | OpCategoryList category_list_request
  | OpCategoryCreate string string string
  | OpCategoryUpdate string string
  | OpCategoryDelete string string
  | OpItemList item_list_request
  | OpItemCreate item_create_request
  | OpItemBatchCreate string string "item_create_request list"
  | OpItemUpdate string string
  | OpItemDelete string
  | OpItemBatchDelete "string list" string
  | OpItemBatchMove item_move_request
  | OpItemClassify "string list" string

text \<open>Every request of \<open>AssetSrv\<close>.\<close>

fun library_exec :: "env \<Rightarrow> library_op \<Rightarrow> world \<Rightarrow> world" where
  "library_exec E (OpLibraryList q) w = snd (AssetLibraryList E q w)"
| "library_exec E (OpLibraryCreate n) w = snd (AssetLibraryCreate E n w)"
| "library_exec E (OpLibraryUpdate l n) w = snd (AssetLibraryUpdate E l n w)"
| "library_exec E (OpLibraryDelete l) w = snd (AssetLibraryDelete E l w)"
| "library_exec E (OpCategoryList r) w = snd (AssetCategoryList E r w)"
| "library_exec E (OpCategoryCreate l n t) w = snd (AssetCategoryCreate E l n t w)"
| "library_exec E (OpCategoryUpdate c n) w = snd (AssetCategoryUpdate E c n w)"
| "library_exec E (OpCategoryDelete c l) w = snd (AssetCategoryDelete c l w)"
| "library_exec E (OpItemList r) w = snd (AssetItemList E r w)"
| "library_exec E (OpItemCreate r) w = snd (AssetItemCreate E r w)"
| "library_exec E (OpItemBatchCreate l c es) w = snd (AssetItemBatchCreate E l c es w)"
| "library_exec E (OpItemUpdate i n) w = snd (AssetItemUpdate E i n w)"
| "library_exec E (OpItemDelete i) w = snd (AssetItemDelete i w)"
| "library_exec E (OpItemBatchDelete is l) w = snd (AssetItemBatchDelete is l w)"
| "library_exec E (OpItemBatchMove r) w = snd (AssetItemBatchMove E r w)"
| "library_exec E (OpItemClassify is l) w = snd (AssetItemClassify is l w)"

definition library_inv :: "world \<Rightarrow> bool" where
  "library_inv w \<longleftrightarrow> keys_distinct (w_libraries w) \<and> distinct (map obj_Name (w_libraries w)) \<and> w_libraries w \<noteq> []"

lemma library_inv_plain: "plain library_inv"
  by (rule plainI) (simp add: library_inv_def)

lemma Add_library_inv: "preserves library_inv (assetLibrary_Add E p)"
  unfolding assetLibrary_Add_def
  by (rule libraries_t.unique_create_preserves[OF library_inv_plain]) (auto simp: library_inv_def keys_distinct_def)

lemma Delete_library_inv: "preserves library_inv (AssetLibraryDelete E lid)"
proof (rule preservesI)
  fix w assume w: "library_inv w"
  obtain r w' where run: "AssetLibraryDelete E lid w = (r, w')" by (cases "AssetLibraryDelete E lid w")
  have start: "libs_are (w_libraries w) (w_categories w) (w_items w) w" by (simp add: libs_are_def)
  show "library_inv (snd (AssetLibraryDelete E lid w))"
  proof (cases r)
    case (Inl e)
    from triple_Inl[OF AssetLibraryDelete_triple start run[unfolded Inl]] run w show ?thesis
      by (simp add: libs_are_def library_inv_def)
  next
    case (Inr x)
    from triple_Inr[OF AssetLibraryDelete_triple start run[unfolded Inr]] run w keys_other_left[of "w_libraries w" lid]
    show ?thesis by (simp add: libs_are_def library_inv_def keys_distinct_filter distinct_map_filter)
  qed
qed

text \<open>What the checks of a renaming establish: no other library has the name, unless the transaction is already dead.\<close>

definition free_name :: "string \<Rightarrow> string \<Rightarrow> world \<Rightarrow> bool" where
  "free_name lid name w \<longleftrightarrow> w_tx w \<noteq> None \<and>
     (w_tx w \<noteq> Some False \<longrightarrow> library_inv w \<and> (\<forall>l \<in> set (w_libraries w). obj_Name l = name \<longrightarrow> obj_ID l = lid))"

lemma rename_library_inv:
  "triple (free_name (obj_ID data) (obj_Name data)) (rename_row E libraries_tbl msg data) (\<lambda>_. library_inv) (\<lambda>_. True)"
  unfolding rename_row_def
proof (rule triple_bindE)
  let ?f = "\<lambda>now l. if obj_ID l = obj_ID data then touch E now (l\<lparr>obj_Name := obj_Name data\<rparr>) else l"
  show "triple (free_name (obj_ID data) (obj_Name data)) (db_update E libraries_tbl (\<lambda>r. obj_ID r = obj_ID data) (\<lambda>r. r\<lparr>obj_Name := obj_Name data\<rparr>))
      (\<lambda>_. library_inv) (\<lambda>_. True)"
  proof (rule tripleI)
    fix w n w' assume w: "free_name (obj_ID data) (obj_Name data) w"
      and run: "db_update E libraries_tbl (\<lambda>r. obj_ID r = obj_ID data) (\<lambda>r. r\<lparr>obj_Name := obj_Name data\<rparr>) w = (Inr n, w')"
    from run have w': "w_libraries w' = map (?f (w_now w)) (w_libraries w)" and live: "w_tx w \<noteq> Some False"
      by (rule libraries_t.update_result; simp)+
    have inv: "library_inv w" and other: "\<And>l. l \<in> set (w_libraries w) \<Longrightarrow> obj_Name l = obj_Name data \<Longrightarrow> obj_ID l = obj_ID data"
      using w live by (auto simp: free_name_def)
    have ids: "map obj_ID (w_libraries w') = map obj_ID (w_libraries w)" by (simp add: w')
    have "distinct (map obj_Name (w_libraries w'))"
      unfolding w' map_map distinct_map
    proof (intro conjI inj_onI)
      show "distinct (w_libraries w)" using inv by (simp add: library_inv_def distinct_map)
      fix x y assume x: "x \<in> set (w_libraries w)" and y: "y \<in> set (w_libraries w)"
        and eq: "(obj_Name \<circ> ?f (w_now w)) x = (obj_Name \<circ> ?f (w_now w)) y"
      have names: "x = y" if "obj_Name x = obj_Name y"
        using inv x y that unfolding library_inv_def by (metis distinct_map inj_onD)
      have keys: "x = y" if "obj_ID x = obj_ID y" using inv x y that keys_distinct_unique unfolding library_inv_def by blast
      show "x = y" using eq names keys other[OF x] other[OF y] by (auto simp: touch_def split: if_splits)
    qed
    moreover have "keys_distinct (w_libraries w')" using inv ids by (simp only: library_inv_def keys_distinct_def)
    ultimately show "library_inv w'" using inv ids by (auto simp: library_inv_def)
  qed simp
qed (auto simp: triple_def)

lemma Update_library_inv: "preserves library_inv (assetLibrary_Update E data)"
  unfolding assetLibrary_Update_def
proof (rule triple_preserves, rule transaction_open_triple[OF library_inv_plain library_inv_plain])
  let ?lid = "obj_ID data" and ?name = "obj_Name data"
  let ?J = "\<lambda>found w. w_tx w \<noteq> None \<and> (w_tx w \<noteq> Some False \<longrightarrow> library_inv w \<and> (\<not> found \<longrightarrow> (\<forall>l \<in> set (w_libraries w). obj_Name l \<noteq> ?name)))"
  let ?other = "\<lambda>l. obj_Name l = ?name \<and> obj_ID l \<noteq> ?lid"
  have chk: "triple (\<lambda>w. library_inv w \<and> w_tx w = Some True) (CheckExists libraries_tbl (\<lambda>l. obj_Name l = ?name)) ?J (\<lambda>_. True)"
  proof (rule tripleI)
    fix w found w' assume "library_inv w \<and> w_tx w = Some True" and run: "CheckExists libraries_tbl (\<lambda>l. obj_Name l = ?name) w = (Inr found, w')"
    then show "?J found w'"
      by (cases rule: libraries_t.CheckExists_cases[of "\<lambda>l. obj_Name l = ?name" w]) (use plain_upd(1,4)[OF library_inv_plain, of w] in auto)
  qed simp
  have look: "triple (?J found) (if found
         then bindE (attempt (db_first libraries_tbl ?other)) (\<lambda>r. case r of
                Inr _ \<Rightarrow> throw (Errorf ''exists name with %v'' [obj_Name data]) | Inl _ \<Rightarrow> ret ())
         else ret ()) (\<lambda>_. free_name ?lid ?name) (\<lambda>_. True)" for found
  proof (rule tripleI)
    fix w u w' assume w: "?J found w" and run: "(if found
         then bindE (attempt (db_first libraries_tbl ?other)) (\<lambda>r. case r of
                Inr _ \<Rightarrow> throw (Errorf ''exists name with %v'' [obj_Name data]) | Inl _ \<Rightarrow> ret ())
         else ret ()) w = (Inr u, w')"
    show "free_name ?lid ?name w'"
    proof (cases found)
      case True
      show ?thesis
        by (cases rule: libraries_t.first_cases[of obj_ID ?other w])
          (use run w True plain_upd(1)[OF library_inv_plain, of w] in \<open>auto simp: db_first_def bindE_def attempt_def free_name_def\<close>)
    qed (use run w in \<open>auto simp: free_name_def\<close>)
  qed simp
  show "triple (\<lambda>w. library_inv w \<and> w_tx w = Some True)
     (bindE (CheckExists libraries_tbl (\<lambda>l. obj_Name l = obj_Name data)) (\<lambda>found.
      bindE (if found
         then bindE (attempt (db_first libraries_tbl (\<lambda>l. obj_Name l = obj_Name data \<and> obj_ID l \<noteq> obj_ID data))) (\<lambda>r. case r of
                Inr _ \<Rightarrow> throw (Errorf ''exists name with %v'' [obj_Name data]) | Inl _ \<Rightarrow> ret ())
         else ret ()) (\<lambda>_.
      bindE (rename_row E libraries_tbl ''asset library not found with id %v'' data) (\<lambda>_. ret data)))) (\<lambda>_. library_inv) (\<lambda>_. True)"
    by (intro triple_bindE[OF chk] triple_bindE[OF look] triple_bindE[OF rename_library_inv] triple_ret)
qed

text \<open>Statements on the other tables and reads.\<close>

lemmas library_rules = preserves_bindE preserves_if preserves_ret preserves_throw
  libraries_t.page_preserves[OF library_inv_plain] categories_t.page_preserves[OF library_inv_plain] items_t.page_preserves[OF library_inv_plain]
  categories_t.first_preserves[OF library_inv_plain] items_t.find_preserves[OF library_inv_plain]
  transaction_preserves[OF library_inv_plain] categories_t.update_preserves[OF library_inv_plain] items_t.update_preserves[OF library_inv_plain]
  items_t.delete_preserves[OF library_inv_plain] categories_t.delete_preserves[OF library_inv_plain] items_t.create_preserves[OF library_inv_plain]
  categories_t.unique_create_preserves[OF library_inv_plain]

lemma library_inv_other [simp]:
  "library_inv (w_categories_update f w) = library_inv w" "library_inv (w_items_update g w) = library_inv w"
  "library_inv (w_uuids_update h w) = library_inv w"
  by (simp_all add: library_inv_def)

lemma BatchAdd_library_inv: "preserves library_inv (assetItem_BatchAdd E is)"
proof (rule preservesI)
  fix w assume w: "library_inv w"
  let ?body = "bindE (map_each (batches 100 (map item_defaults is)) (db_create_all E items_tbl)) (\<lambda>bs. ret (concat bs))"
  show "library_inv (snd (assetItem_BatchAdd E is w))"
    unfolding assetItem_BatchAdd_def
  proof (cases rule: transaction_cases[of ?body w])
    case (failed e fs u)
    then show "library_inv (snd (transaction ?body w))" using plain_upd(5)[OF library_inv_plain w] by simp
  next
    case (committed x w1 fs)
    from committed(1) obtain bs where "map_each (batches 100 (map item_defaults is)) (db_create_all E items_tbl) (w\<lparr>w_tx := Some True\<rparr>) = (Inr bs, w1)"
      by (auto elim!: bindE_Inr_elim)
    from items_t.create_each_result[OF this] have "w_libraries w1 = w_libraries w" by auto
    then show "library_inv (snd (transaction ?body w))" using committed(2) w by (simp add: library_inv_def)
  qed
qed

lemma reads_library_inv:
  "preserves library_inv (AssetLibraryList E q)" "preserves library_inv (AssetCategoryList E cq)" "preserves library_inv (AssetItemList E iq)"
  "preserves library_inv (AssetItemClassify ids l)" "preserves library_inv (media_category c)"
  unfolding AssetLibraryList_def AssetCategoryList_def AssetItemList_def AssetItemClassify_def media_category_def
    assetLibrary_List_def assetCategory_List_def assetItem_List_def assetItem_FindByIDs_def assetCategory_Get_def db_first_def Let_def
  by (intro library_rules)+

lemma writes_library_inv:
  "preserves library_inv (AssetLibraryCreate E n)" "preserves library_inv (AssetCategoryCreate E l n t)" "preserves library_inv (AssetCategoryUpdate E c n)"
  "preserves library_inv (AssetCategoryDelete c l)" "preserves library_inv (AssetItemCreate E ir)" "preserves library_inv (AssetItemBatchCreate E l c es)"
  "preserves library_inv (AssetItemUpdate E i n)" "preserves library_inv (AssetItemDelete i)" "preserves library_inv (AssetItemBatchDelete ids l)"
  "preserves library_inv (AssetItemBatchMove E mr)"
  unfolding AssetLibraryCreate_def AssetCategoryCreate_def AssetCategoryUpdate_def AssetCategoryDelete_def AssetItemCreate_def AssetItemBatchCreate_def
    AssetItemUpdate_def AssetItemDelete_def AssetItemBatchDelete_def AssetItemBatchMove_def assetCategory_Add_def assetCategory_Update_def assetCategory_Delete_def
    assetItem_Add_def assetItem_Update_def assetItem_Delete_def assetItem_BatchDelete_def assetItem_BatchMove_def assetCategory_Get_def rename_row_def
    delete_row_def db_first_def
  by (intro library_rules Add_library_inv BatchAdd_library_inv reads_library_inv; simp)+

text \<open>
  C17. Asset libraries keep unique names and identifiers, and there is always one: whatever requests the asset service gets, and whatever
  database statements fail under them, a list of libraries with these properties keeps them.
\<close>

theorem library_names_unique:
  assumes "library_inv w"
  shows "library_inv (fold (library_exec E) ops w)"
  using assms
proof (induction ops arbitrary: w)
  case (Cons op ops)
  have "library_inv (library_exec E op w)"
    by (cases op) (simp_all add: Cons.prems preservesD[OF reads_library_inv(1)] preservesD[OF reads_library_inv(2)] preservesD[OF reads_library_inv(3)]
        preservesD[OF reads_library_inv(4)] preservesD[OF Delete_library_inv] preservesD[OF Update_library_inv] AssetLibraryUpdate_def
        writes_library_inv[THEN preservesD])
  then show ?case using Cons.IH by simp
qed simp

lemma library_names_unique_witness:
  "library_inv library_world \<and>
   library_inv (fold (library_exec sample_env) [OpLibraryCreate ''C'', OpLibraryUpdate ''l1'' ''B'', OpLibraryDelete ''l2'', OpLibraryDelete ''l1''] library_world)"
proof (rule conjI)
  show *: "library_inv library_world" by code_simp
  show "library_inv (fold (library_exec sample_env) [OpLibraryCreate ''C'', OpLibraryUpdate ''l1'' ''B'', OpLibraryDelete ''l2'', OpLibraryDelete ''l1''] library_world)"
    by (rule library_names_unique[OF *])
qed

subsection \<open>Batches\<close>

definition entry_row :: "string \<Rightarrow> string \<Rightarrow> item_create_request \<Rightarrow> asset_item \<Rightarrow> bool" where
  "entry_row lid cid e i \<longleftrightarrow> obj_Name i = ic_Name e \<and> ai_URL i = ic_URL e \<and> ai_LibraryID i = lid \<and> ai_CategoryID i = cid \<and> ai_Kind i = AssetKindImage"

lemma created_entry: "\<exists>u. x = BeforeCreate u now (item_defaults (item_of lid cid (ic_Name e) (ic_URL e))) \<Longrightarrow> entry_row lid cid e x"
  by (auto simp: entry_row_def item_of_def item_defaults_def AssetKindImage_def BeforeCreate_def Let_def new_item_def object_meta.defs asset_item.defs)

text \<open>
  C18. A batch of items is created as a whole or not at all, also when it is written in several statements of a hundred rows: on an error no
  item is added; on success exactly one item for each entry is added, in order, with its name and address, as an image of the category asked
  for, which exists and takes images, and all under new identifiers.
\<close>

theorem batch_create_atomic:
  assumes run: "AssetItemBatchCreate E lid cid es w = (r, w')" and keys: "keys_distinct (w_items w)"
  shows "case r of
      Inl _ \<Rightarrow> w_items w' = w_items w
    | Inr is \<Rightarrow> w_items w' = w_items w @ is \<and> list_all2 (entry_row lid cid) es is \<and> keys_distinct (w_items w') \<and>
        (\<exists>c \<in> set (w_categories w). obj_ID c = cid \<and> ac_Type c = CategoryTypeImage)"
proof -
  let ?I = "\<lambda>v. w_items v = w_items w \<and> w_categories v = w_categories w"
  let ?cat = "\<exists>c \<in> set (w_categories w). obj_ID c = cid \<and> ac_Type c = CategoryTypeImage"
  let ?rows = "map item_defaults (map (\<lambda>e. item_of lid cid (ic_Name e) (ic_URL e)) es)"
  let ?body = "bindE (map_each (batches 100 ?rows) (db_create_all E items_tbl)) (\<lambda>bs. ret (concat bs))"
  have I: "plain ?I" "plain (\<lambda>v. ?I v \<and> b)" for b by (rule plainI; simp)+
  have media: "triple ?I (media_category cid) (\<lambda>_ v. ?I v \<and> ?cat) ?I"
    unfolding media_category_def assetCategory_Get_def db_first_def
  proof (rule triple_bindE)
    show "triple ?I (db_first_by obj_ID categories_tbl (\<lambda>c. obj_ID c = cid)) (\<lambda>c v. ?I v \<and> c \<in> set (w_categories w) \<and> obj_ID c = cid) ?I"
      by (rule categories_t.first_triple[OF I(1) _ I(2)]) auto
  qed (auto simp: triple_def)
  have add: "triple (\<lambda>v. ?I v \<and> ?cat) (transaction ?body)
      (\<lambda>is v. w_items v = w_items w @ is \<and> list_all2 (entry_row lid cid) es is \<and> keys_distinct (w_items v) \<and> ?cat) ?I"
  proof (rule triple_mono[OF transaction_triple[OF I(2)]])
    show "triple (\<lambda>v. ?I v \<and> ?cat) ?body
      (\<lambda>is v. w_items v = w_items w @ is \<and> list_all2 (entry_row lid cid) es is \<and> keys_distinct (w_items v) \<and> ?cat) (\<lambda>_. True)"
    proof (rule tripleI)
      fix v xs v' assume v: "?I v \<and> ?cat" and "?body v = (Inr xs, v')"
      then obtain bs where bs: "map_each (batches 100 ?rows) (db_create_all E items_tbl) v = (Inr bs, v')" "xs = concat bs"
        by (auto elim!: bindE_Inr_elim)
      have cb: "concat (batches 100 ?rows) = ?rows" by (rule concat_batches) simp
      from items_t.create_each_result[OF bs(1)] v bs(2) keys have "w_items v' = w_items w @ xs" "created_as (w_now v) ?rows xs" "keys_distinct (w_items v')"
        unfolding cb by auto
      moreover from this(2) have "list_all2 (entry_row lid cid) es xs"
        by (simp add: list_all2_map1) (erule list_all2_mono, rule created_entry)
      ultimately show "w_items v' = w_items w @ xs \<and> list_all2 (entry_row lid cid) es xs \<and> keys_distinct (w_items v') \<and> ?cat" using v by blast
    qed simp
  qed (auto intro: plainI)
  have whole: "triple ?I (AssetItemBatchCreate E lid cid es)
      (\<lambda>is v. w_items v = w_items w @ is \<and> list_all2 (entry_row lid cid) es is \<and> keys_distinct (w_items v) \<and> ?cat) ?I"
    unfolding AssetItemBatchCreate_def assetItem_BatchAdd_def by (rule triple_bindE[OF media add])
  have start: "?I w" by simp
  show ?thesis
  proof (cases r)
    case (Inl e)
    from triple_Inl[OF whole start run[unfolded Inl]] show ?thesis unfolding Inl sum.case by (rule conjunct1)
  next
    case (Inr xs)
    from triple_Inr[OF whole start run[unfolded Inr]] show ?thesis unfolding Inr sum.case .
  qed
qed

lemma sample_batch:
  "case AssetItemBatchCreate sample_env ''l1'' ''c1'' [\<lparr>ic_LibraryID = [], ic_CategoryID = [], ic_URL = ''u'', ic_Name = ''x''\<rparr>] library_world of
     (Inr xs, _) \<Rightarrow> length xs = 1 | _ \<Rightarrow> False"
  by code_simp

lemma batch_create_atomic_witness:
  "\<exists>xs w'. AssetItemBatchCreate sample_env ''l1'' ''c1'' [\<lparr>ic_LibraryID = [], ic_CategoryID = [], ic_URL = ''u'', ic_Name = ''x''\<rparr>] library_world
      = (Inr xs, w') \<and> w_items w' = w_items library_world @ xs \<and> length xs = 1"
proof -
  obtain xs w' where run: "AssetItemBatchCreate sample_env ''l1'' ''c1'' [\<lparr>ic_LibraryID = [], ic_CategoryID = [], ic_URL = ''u'', ic_Name = ''x''\<rparr>] library_world = (Inr xs, w')"
    and "length xs = 1" using sample_batch by (auto split: prod.splits sum.splits)
  have "keys_distinct (w_items library_world)" by code_simp
  from batch_create_atomic[OF run this] show ?thesis using run \<open>length xs = 1\<close> by auto
qed

end
