(* ===== verification/Prompts.thy ===== *)
theory Prompts
  imports Libraries
begin

text \<open>
  Prompt libraries, their categories and their items: \<open>service/v1/prompt/prompt.go\<close> over the stores \<open>prompt_libraryy.go\<close>,
  \<open>prompt_category.go\<close> and \<open>prompt_item.go\<close>. One library is the active one.
\<close>

subsection \<open>Requests and new rows\<close>

definition SystemPromptLibraryID :: string where
  "SystemPromptLibraryID = ''system''"

record prompt_item_request =
  pq_ID :: string
  pq_LibraryID :: string
  pq_Name :: string
  pq_CategoryID :: string
  pq_Positive :: string
  pq_Negative :: string
  pq_Scene :: string

record prompt_library_full =
  pf_Library :: prompt_library
  pf_Categories :: "prompt_category list"
  pf_Items :: "prompt_item list"

definition new_prompt_library :: prompt_library where
  "new_prompt_library = object_meta.extend new_meta (prompt_library.fields False False False)"

definition new_prompt_category :: prompt_category where
  "new_prompt_category = object_meta.extend new_meta (prompt_category.fields [])"

definition new_prompt_item :: prompt_item where
  "new_prompt_item = object_meta.extend new_meta (prompt_item.fields [] [] [] [] [])"

subsection \<open>The store of libraries\<close>

definition promptLibrary_List :: "prompt_library list m" where
  "promptLibrary_List = bindE (db_find prompt_libraries_tbl (\<lambda>_. True)) (\<lambda>ls. ret (sort_key obj_CreatedAt ls))"

definition promptLibrary_Get :: "string \<Rightarrow> prompt_library m" where
  "promptLibrary_Get lid = db_first prompt_libraries_tbl (\<lambda>l. obj_ID l = lid)"

definition promptLibrary_Add :: "env \<Rightarrow> prompt_library \<Rightarrow> prompt_library m" where
  "promptLibrary_Add E data = transaction (db_create E id prompt_libraries_tbl data)"

definition promptLibrary_Update :: "env \<Rightarrow> prompt_library \<Rightarrow> prompt_library m" where
  "promptLibrary_Update E data = bindE (rename_row E prompt_libraries_tbl ''prompt library not found with id %v'' data) (\<lambda>_. ret data)"

definition promptLibrary_Delete :: "string \<Rightarrow> unit m" where
  "promptLibrary_Delete lid = transaction
     (bindE (db_delete prompt_categories_tbl (\<lambda>c. pc_LibraryID c = lid)) (\<lambda>_.
      bindE (db_delete prompt_items_tbl (\<lambda>i. pi_LibraryID i = lid)) (\<lambda>_.
      delete_row prompt_libraries_tbl (\<lambda>l. obj_ID l = lid) ''prompt library not found with id %v'' lid)))"

definition promptLibrary_SetActive :: "env \<Rightarrow> string \<Rightarrow> unit m" where
  "promptLibrary_SetActive E lid = transaction
     (bindE (db_update E prompt_libraries_tbl lb_Active (\<lambda>l. l\<lparr>lb_Active := False\<rparr>)) (\<lambda>_.
      bindE (db_update E prompt_libraries_tbl (\<lambda>l. obj_ID l = lid) (\<lambda>l. l\<lparr>lb_Active := True\<rparr>)) (\<lambda>affected.
      if affected = 0 then throw (Errorf ''prompt library not found with id %v'' [lid]) else ret ())))"

definition promptLibrary_GetActive :: "prompt_library m" where
  "promptLibrary_GetActive = db_first prompt_libraries_tbl lb_Active"

subsection \<open>The store of items\<close>

definition promptItem_ListByLibrary :: "string \<Rightarrow> prompt_item list m" where
  "promptItem_ListByLibrary lid = bindE (db_find prompt_items_tbl (\<lambda>i. pi_LibraryID i = lid)) (\<lambda>is. ret (desc_sort obj_CreatedAt is))"

definition promptItem_Get :: "string \<Rightarrow> prompt_item m" where
  "promptItem_Get iid = db_first prompt_items_tbl (\<lambda>i. obj_ID i = iid)"

definition promptItem_Add :: "env \<Rightarrow> prompt_item \<Rightarrow> prompt_item m" where
  "promptItem_Add E data = db_create E id prompt_items_tbl data"

definition promptItem_Update :: "env \<Rightarrow> prompt_item \<Rightarrow> prompt_item m" where
  "promptItem_Update E data =
     bindE (db_update E prompt_items_tbl (\<lambda>i. obj_ID i = obj_ID data) (\<lambda>i. i\<lparr>obj_Name := obj_Name data, pi_CategoryID := pi_CategoryID data,
        pi_Positive := pi_Positive data, pi_Negative := pi_Negative data, pi_Scene := pi_Scene data\<rparr>)) (\<lambda>affected.
     if affected = 0 then throw (Errorf ''prompt item not found with id %v'' [obj_ID data]) else ret data)"

definition promptItem_Delete :: "string \<Rightarrow> unit m" where
  "promptItem_Delete iid = delete_row prompt_items_tbl (\<lambda>i. obj_ID i = iid) ''prompt item not found with id %v'' iid"

definition promptItem_BatchDelete :: "string list \<Rightarrow> int m" where
  "promptItem_BatchDelete ids = db_delete prompt_items_tbl (\<lambda>i. obj_ID i \<in> set ids)"

definition promptItem_ReassignCategory :: "env \<Rightarrow> string \<Rightarrow> string \<Rightarrow> unit m" where
  "promptItem_ReassignCategory E oldID newID =
     bindE (db_update E prompt_items_tbl (\<lambda>i. pi_CategoryID i = oldID) (\<lambda>i. i\<lparr>pi_CategoryID := newID\<rparr>)) (\<lambda>_. ret ())"

subsection \<open>The store of categories\<close>

definition promptCategory_ListByLibrary :: "string \<Rightarrow> prompt_category list m" where
  "promptCategory_ListByLibrary lid = bindE (db_find prompt_categories_tbl (\<lambda>c. pc_LibraryID c = lid)) (\<lambda>cs. ret (sort_key obj_CreatedAt cs))"

definition promptCategory_Get :: "string \<Rightarrow> prompt_category m" where
  "promptCategory_Get cid = db_first prompt_categories_tbl (\<lambda>c. obj_ID c = cid)"

definition promptCategory_Add :: "env \<Rightarrow> prompt_category \<Rightarrow> prompt_category m" where
  "promptCategory_Add E data = db_create E id prompt_categories_tbl data"

definition promptCategory_Update :: "env \<Rightarrow> prompt_category \<Rightarrow> prompt_category m" where
  "promptCategory_Update E data = bindE (rename_row E prompt_categories_tbl ''prompt category not found with id %v'' data) (\<lambda>_. ret data)"

definition promptCategory_Delete :: "string \<Rightarrow> string \<Rightarrow> unit m" where
  "promptCategory_Delete cid lid = transaction
     (delete_row prompt_categories_tbl (\<lambda>c. obj_ID c = cid \<and> pc_LibraryID c = lid) ''prompt category not found with id %v'' cid)"

definition promptCategory_DeleteByLibraryID :: "string \<Rightarrow> unit m" where
  "promptCategory_DeleteByLibraryID lid = bindE (db_delete prompt_categories_tbl (\<lambda>c. pc_LibraryID c = lid)) (\<lambda>_. ret ())"

subsection \<open>The service\<close>

definition buildLibraryFull :: "prompt_library \<Rightarrow> prompt_library_full m" where
  "buildLibraryFull lib =
     bindE (promptCategory_ListByLibrary (obj_ID lib)) (\<lambda>categories.
     bindE (promptItem_ListByLibrary (obj_ID lib)) (\<lambda>items.
     ret \<lparr>pf_Library = lib, pf_Categories = categories, pf_Items = items\<rparr>))"

definition PromptLibraryList :: "(string \<times> prompt_library_full list) m" where
  "PromptLibraryList =
     bindE promptLibrary_List (\<lambda>libs.
     bindE (map_each libs buildLibraryFull) (\<lambda>fullLibs.
     let activeID = foldl (\<lambda>cur lib. if lb_Active lib then obj_ID lib else cur) [] libs in
     ret (if activeID = [] \<and> fullLibs \<noteq> [] then obj_ID (pf_Library (hd fullLibs)) else activeID, fullLibs)))"

definition PromptLibraryCreate :: "env \<Rightarrow> string \<Rightarrow> prompt_library_full m" where
  "PromptLibraryCreate E name =
     bindE (promptLibrary_Add E (new_prompt_library\<lparr>obj_Name := name, lb_System := False, lb_Readonly := False\<rparr>)) (\<lambda>created.
     bindE (promptLibrary_SetActive E (obj_ID created)) (\<lambda>_.
     buildLibraryFull (created\<lparr>lb_Active := True\<rparr>)))"

definition PromptLibraryUpdate :: "env \<Rightarrow> string \<Rightarrow> string \<Rightarrow> prompt_library_full m" where
  "PromptLibraryUpdate E lid name =
     bindE (promptLibrary_Update E (new_prompt_library\<lparr>obj_ID := lid, obj_Name := name\<rparr>)) buildLibraryFull"

definition PromptLibraryDelete :: "string \<Rightarrow> unit m" where
  "PromptLibraryDelete lid =
     (if lid = SystemPromptLibraryID then throw (Errorf ''system prompt library cannot be deleted'' [])
      else promptLibrary_Delete lid)"

definition prompt_item_of :: "prompt_item_request \<Rightarrow> prompt_item" where
  "prompt_item_of req = new_prompt_item\<lparr>obj_Name := pq_Name req, pi_CategoryID := pq_CategoryID req,
     pi_Positive := pq_Positive req, pi_Negative := pq_Negative req, pi_Scene := pq_Scene req\<rparr>"

definition PromptItemCreate :: "env \<Rightarrow> prompt_item_request \<Rightarrow> prompt_item m" where
  "PromptItemCreate E req =
     bindE (promptLibrary_Get (pq_LibraryID req)) (\<lambda>_.
     bindE (promptItem_Add E ((prompt_item_of req)\<lparr>pi_LibraryID := pq_LibraryID req\<rparr>)) (\<lambda>created.
     bindE (promptLibrary_SetActive E (pq_LibraryID req)) (\<lambda>_. ret created)))"

definition PromptItemUpdate :: "env \<Rightarrow> prompt_item_request \<Rightarrow> prompt_item m" where
  "PromptItemUpdate E req = promptItem_Update E ((prompt_item_of req)\<lparr>obj_ID := pq_ID req\<rparr>)"

definition PromptItemDelete :: "string \<Rightarrow> unit m" where
  "PromptItemDelete iid = promptItem_Delete iid"

definition PromptItemBatchDelete :: "string list \<Rightarrow> int m" where
  "PromptItemBatchDelete ids = promptItem_BatchDelete ids"

definition PromptCategoryCreate :: "env \<Rightarrow> string \<Rightarrow> string \<Rightarrow> prompt_category m" where
  "PromptCategoryCreate E lid name = promptCategory_Add E (new_prompt_category\<lparr>obj_Name := name, pc_LibraryID := lid\<rparr>)"

definition PromptCategoryUpdate :: "env \<Rightarrow> string \<Rightarrow> string \<Rightarrow> prompt_category m" where
  "PromptCategoryUpdate E cid name = promptCategory_Update E (new_prompt_category\<lparr>obj_ID := cid, obj_Name := name\<rparr>)"

definition fallback_category :: "prompt_category list \<Rightarrow> string \<Rightarrow> string" where
  "fallback_category cats cid = (case find (\<lambda>c. obj_ID c \<noteq> cid) cats of None \<Rightarrow> [] | Some c \<Rightarrow> obj_ID c)"

definition PromptCategoryDelete :: "env \<Rightarrow> string \<Rightarrow> string \<Rightarrow> unit m" where
  "PromptCategoryDelete E cid lid =
     bindE (promptCategory_ListByLibrary lid) (\<lambda>cats.
     bindE (promptItem_ReassignCategory E cid (fallback_category cats cid)) (\<lambda>_.
     promptCategory_Delete cid lid))"

end
