(* ===== verification/PromptLaws.thy ===== *)
theory PromptLaws
  imports Prompts LibraryLaws
begin

text \<open>
  What prompt libraries promise: at most one of them is active, the list of libraries names it, and deleting a
  category loses no prompt.
\<close>

subsection \<open>One active library\<close>

datatype prompt_op =
    OpPromptList
  | OpPromptLibraryCreate string
  | OpPromptLibraryUpdate string string
  | OpPromptLibraryDelete string
  | OpPromptItemCreate prompt_item_request
  | OpPromptItemUpdate prompt_item_request
  | OpPromptItemDelete string
  | OpPromptItemBatchDelete "string list"
  | OpPromptCategoryCreate string string
  | OpPromptCategoryUpdate string string
  | OpPromptCategoryDelete string string

text \<open>Every request of \<open>PromptSrv\<close>.\<close>

fun prompt_exec :: "env \<Rightarrow> prompt_op \<Rightarrow> world \<Rightarrow> world" where
  "prompt_exec E OpPromptList w = snd (PromptLibraryList w)"
| "prompt_exec E (OpPromptLibraryCreate n) w = snd (PromptLibraryCreate E n w)"
| "prompt_exec E (OpPromptLibraryUpdate l n) w = snd (PromptLibraryUpdate E l n w)"
| "prompt_exec E (OpPromptLibraryDelete l) w = snd (PromptLibraryDelete l w)"
| "prompt_exec E (OpPromptItemCreate r) w = snd (PromptItemCreate E r w)"
| "prompt_exec E (OpPromptItemUpdate r) w = snd (PromptItemUpdate E r w)"
| "prompt_exec E (OpPromptItemDelete i) w = snd (PromptItemDelete i w)"
| "prompt_exec E (OpPromptItemBatchDelete ids) w = snd (PromptItemBatchDelete ids w)"
| "prompt_exec E (OpPromptCategoryCreate l n) w = snd (PromptCategoryCreate E l n w)"
| "prompt_exec E (OpPromptCategoryUpdate c n) w = snd (PromptCategoryUpdate E c n w)"
| "prompt_exec E (OpPromptCategoryDelete c l) w = snd (PromptCategoryDelete E c l w)"

definition one_active :: "world \<Rightarrow> bool" where
  "one_active w \<longleftrightarrow> keys_distinct (w_prompt_libraries w) \<and> length (filter lb_Active (w_prompt_libraries w)) \<le> 1"

lemma one_activeI: "w_prompt_libraries w = rs \<Longrightarrow> keys_distinct rs \<Longrightarrow> length (filter lb_Active rs) \<le> 1 \<Longrightarrow> one_active w"
  by (simp add: one_active_def)

definition none_active :: "world \<Rightarrow> bool" where
  "none_active w \<longleftrightarrow> keys_distinct (w_prompt_libraries w) \<and> filter lb_Active (w_prompt_libraries w) = []"

lemma active_plain: "plain one_active" "plain none_active" "plain (\<lambda>w. one_active w \<and> Q (w_prompt_libraries w))"
  by (rule plainI; simp add: one_active_def none_active_def)+

lemma touch_active [simp]: "lb_Active (touch E now (l :: prompt_library)) = lb_Active l"
  by (simp add: touch_def)

lemma filter_map_keep: "(\<And>x. P (f x) = P x) \<Longrightarrow> length (filter P (map f xs)) = length (filter P xs)"
  by (induction xs) auto

lemma keys_filter_one: "keys_distinct rs \<Longrightarrow> length (filter (\<lambda>r. obj_ID r = i) rs) \<le> 1"
proof (induction rs)
  case (Cons r rs)
  have "obj_ID r = i \<Longrightarrow> filter (\<lambda>x. obj_ID x = i) rs = []"
    using Cons.prems by (auto simp: keys_distinct_def filter_empty_conv) (metis image_eqI)
  then show ?case using Cons by (auto simp: keys_distinct_def)
qed simp

lemma SetActive_triple:
  "triple one_active (promptLibrary_SetActive E lid)
     (\<lambda>_ w. one_active w \<and> (\<exists>l \<in> set (w_prompt_libraries w). obj_ID l = lid \<and> lb_Active l)) one_active"
  unfolding promptLibrary_SetActive_def
proof (rule transaction_triple[OF active_plain(1) active_plain(3)], rule triple_bindE)
  let ?off = "\<lambda>l. l\<lparr>lb_Active := False\<rparr>" and ?on = "\<lambda>l. l\<lparr>lb_Active := True\<rparr>"
  let ?Q = "\<lambda>w. one_active w \<and> (\<exists>l \<in> set (w_prompt_libraries w). obj_ID l = lid \<and> lb_Active l)"
  show "triple one_active (db_update E prompt_libraries_tbl lb_Active ?off) (\<lambda>_. none_active) (\<lambda>_. True)"
    by (rule prompt_libraries_t.update_triple[OF active_plain(1,2)])
      (auto simp: one_active_def none_active_def filter_empty_conv intro!: keys_distinct_map)
  have on: "?Q (w_prompt_libraries_update (map (\<lambda>l. if obj_ID l = lid then touch E now (?on l) else l)) w)"
    if w: "none_active w" and l: "l \<in> set (w_prompt_libraries w)" "obj_ID l = lid" for w l now
  proof -
    let ?f = "\<lambda>l. if obj_ID l = lid then touch E now (?on l) else l"
    have off: "\<And>x. x \<in> set (w_prompt_libraries w) \<Longrightarrow> \<not> lb_Active x" using w by (auto simp: none_active_def filter_empty_conv)
    have "filter lb_Active (map ?f (w_prompt_libraries w)) = map ?f (filter (\<lambda>x. obj_ID x = lid) (w_prompt_libraries w))"
      unfolding filter_map by (rule arg_cong[where f = "map ?f"], rule filter_cong) (use off in auto)
    moreover have "keys_distinct (map ?f (w_prompt_libraries w))" using w by (auto simp: none_active_def intro!: keys_distinct_map)
    moreover have "length (filter (\<lambda>x. obj_ID x = lid) (w_prompt_libraries w)) \<le> 1" using w keys_filter_one by (auto simp: none_active_def)
    ultimately have "one_active (w_prompt_libraries_update (map ?f) w)"
      by (intro one_activeI[where rs = "map ?f (w_prompt_libraries w)"]) (simp, assumption, simp only: length_map)
    moreover have "?f l \<in> set (w_prompt_libraries (w_prompt_libraries_update (map ?f) w))" using l(1) by simp
    moreover have "obj_ID (?f l) = lid \<and> lb_Active (?f l)" using l(2) by simp
    ultimately show ?thesis by blast
  qed
  show "triple none_active (bindE (db_update E prompt_libraries_tbl (\<lambda>l. obj_ID l = lid) ?on) (\<lambda>affected.
      if affected = 0 then throw (Errorf ''prompt library not found with id %v'' [lid]) else ret ())) (\<lambda>_. ?Q) (\<lambda>_. True)"
  proof (rule triple_bindE)
    show "triple none_active (db_update E prompt_libraries_tbl (\<lambda>l. obj_ID l = lid) ?on) (\<lambda>n w. n \<noteq> 0 \<longrightarrow> ?Q w) (\<lambda>_. True)"
    proof (rule prompt_libraries_t.update_triple[OF active_plain(2)])
      show "plain (\<lambda>w. n \<noteq> 0 \<longrightarrow> ?Q w)" for n :: int by (rule plainI) (simp add: one_active_def)
    qed (use on in \<open>auto simp: filter_empty_conv\<close>)
    show "triple (\<lambda>w. n \<noteq> 0 \<longrightarrow> ?Q w) (if n = 0 then throw (Errorf ''prompt library not found with id %v'' [lid]) else ret ()) (\<lambda>_. ?Q) (\<lambda>_. True)" for n :: int
      by (auto simp: triple_def)
  qed
qed

text \<open>The other statements: rows are added inactive, renamed, or deleted.\<close>

lemma library_rows_active:
  "preserves one_active (promptLibrary_Add E (new_prompt_library\<lparr>obj_Name := n, lb_System := False, lb_Readonly := False\<rparr>))"
  "preserves one_active (promptLibrary_Update E d)" "preserves one_active (promptLibrary_Delete lid)"
proof -
  show "preserves one_active (promptLibrary_Add E (new_prompt_library\<lparr>obj_Name := n, lb_System := False, lb_Readonly := False\<rparr>))"
    unfolding promptLibrary_Add_def
    by (rule transaction_preserves[OF active_plain(1)], rule prompt_libraries_t.create_preserves[OF active_plain(1)])
      (auto simp: one_active_def keys_distinct_def new_prompt_library_def BeforeCreate_def object_meta.defs prompt_library.defs Let_def)
  have "one_active (w_prompt_libraries_update (map (\<lambda>r. if obj_ID r = i then touch E now (r\<lparr>obj_Name := n\<rparr>) else r)) w)" if "one_active w" for w i n now
  proof -
    let ?f = "\<lambda>r. if obj_ID r = i then touch E now (r\<lparr>obj_Name := n\<rparr>) else r"
    have "length (filter lb_Active (map ?f (w_prompt_libraries w))) = length (filter lb_Active (w_prompt_libraries w))"
      by (rule filter_map_keep) simp
    moreover have "keys_distinct (map ?f (w_prompt_libraries w))" using that by (auto simp: one_active_def intro!: keys_distinct_map)
    ultimately show ?thesis using that unfolding one_active_def[of w]
      by (intro one_activeI[where rs = "map ?f (w_prompt_libraries w)"]) (simp, assumption, simp only: simp_thms)
  qed
  then show "preserves one_active (promptLibrary_Update E d)"
    unfolding promptLibrary_Update_def rename_row_def
    by (intro preserves_bindE prompt_libraries_t.update_preserves[OF active_plain(1)] preserves_if preserves_throw preserves_ret) simp
  have "one_active (w_prompt_libraries_update (filter P) w)" if "one_active w" for w P
  proof -
    have "length (filter lb_Active (filter P rs)) \<le> length (filter lb_Active rs)" for rs
      by (induction rs) auto
    from this[of "w_prompt_libraries w"] that show ?thesis unfolding one_active_def[of w]
      by (intro one_activeI[where rs = "filter P (w_prompt_libraries w)"]) (simp, simp add: keys_distinct_filter, linarith)
  qed
  then show "preserves one_active (promptLibrary_Delete lid)"
    unfolding promptLibrary_Delete_def delete_row_def
    by (intro transaction_preserves[OF active_plain(1)] preserves_bindE prompt_libraries_t.delete_preserves[OF active_plain(1)]
        prompt_categories_t.delete_preserves[OF active_plain(1)] prompt_items_t.delete_preserves[OF active_plain(1)] preserves_if preserves_throw preserves_ret)
      (auto simp: one_active_def)
qed

lemma SetActive_preserves: "preserves one_active (promptLibrary_SetActive E lid)"
  by (rule triple_preserves, rule triple_mono[OF SetActive_triple]) blast+

lemmas prompt_rules = preserves_bindE preserves_if preserves_ret preserves_throw preserves_map_each SetActive_preserves library_rows_active
  transaction_preserves[OF active_plain(1)]
  prompt_libraries_t.find_preserves[OF active_plain(1)] prompt_categories_t.find_preserves[OF active_plain(1)] prompt_items_t.find_preserves[OF active_plain(1)]
  prompt_libraries_t.first_preserves[OF active_plain(1)]
  prompt_items_t.create_preserves[OF active_plain(1)] prompt_items_t.update_preserves[OF active_plain(1)] prompt_items_t.delete_preserves[OF active_plain(1)]
  prompt_categories_t.create_preserves[OF active_plain(1)] prompt_categories_t.update_preserves[OF active_plain(1)] prompt_categories_t.delete_preserves[OF active_plain(1)]

lemma one_active_other [simp]:
  "one_active (w_prompt_items_update f w) = one_active w" "one_active (w_prompt_categories_update g w) = one_active w"
  "one_active (w_uuids_update h w) = one_active w"
  by (simp_all add: one_active_def)

lemma requests_active:
  "preserves one_active PromptLibraryList" "preserves one_active (PromptLibraryCreate E n)" "preserves one_active (PromptLibraryUpdate E l n)"
  "preserves one_active (PromptLibraryDelete l)" "preserves one_active (PromptItemCreate E r)" "preserves one_active (PromptItemUpdate E r)"
  "preserves one_active (PromptItemDelete i)" "preserves one_active (PromptItemBatchDelete ids)" "preserves one_active (PromptCategoryCreate E l n)"
  "preserves one_active (PromptCategoryUpdate E c n)" "preserves one_active (PromptCategoryDelete E c l)"
  unfolding PromptLibraryList_def PromptLibraryCreate_def PromptLibraryUpdate_def PromptLibraryDelete_def PromptItemCreate_def PromptItemUpdate_def
    PromptItemDelete_def PromptItemBatchDelete_def PromptCategoryCreate_def PromptCategoryUpdate_def PromptCategoryDelete_def buildLibraryFull_def
    promptLibrary_List_def promptLibrary_Get_def promptItem_ListByLibrary_def promptItem_Add_def promptItem_Update_def promptItem_Delete_def
    promptItem_BatchDelete_def promptItem_ReassignCategory_def promptCategory_ListByLibrary_def promptCategory_Add_def promptCategory_Update_def
    promptCategory_Delete_def rename_row_def delete_row_def db_first_def Let_def
  by (intro prompt_rules; simp)+

text \<open>
  C19. At most one prompt library is active: whatever requests the prompt service gets, in whatever order, and whatever database statements fail
  under them, the tables never get to hold two active libraries.
\<close>

theorem prompt_one_active:
  assumes "one_active w"
  shows "one_active (fold (prompt_exec E) ops w)"
  using assms
proof (induction ops arbitrary: w)
  case (Cons op ops)
  have "one_active (prompt_exec E op w)"
    by (cases op) (simp_all add: Cons.prems requests_active[THEN preservesD])
  then show ?case using Cons.IH by simp
qed simp

definition prompt_world :: world where
  "prompt_world = empty_world\<lparr>w_prompt_libraries := [new_prompt_library\<lparr>obj_ID := ''l1'', lb_Active := True\<rparr>, new_prompt_library\<lparr>obj_ID := ''l2''\<rparr>],
     w_prompt_categories := [new_prompt_category\<lparr>obj_ID := ''c1'', pc_LibraryID := ''l1''\<rparr>, new_prompt_category\<lparr>obj_ID := ''c2'', pc_LibraryID := ''l1''\<rparr>],
     w_prompt_items := [new_prompt_item\<lparr>obj_ID := ''p1'', pi_LibraryID := ''l1'', pi_CategoryID := ''c1''\<rparr>]\<rparr>"

lemma prompt_one_active_witness:
  "one_active prompt_world \<and> one_active (fold (prompt_exec sample_env) [OpPromptLibraryCreate ''C'', OpPromptLibraryDelete ''l1'', OpPromptList] prompt_world)"
proof (rule conjI)
  show *: "one_active prompt_world" by code_simp
  show "one_active (fold (prompt_exec sample_env) [OpPromptLibraryCreate ''C'', OpPromptLibraryDelete ''l1'', OpPromptList] prompt_world)"
    by (rule prompt_one_active[OF *])
qed

text \<open>A request that adds a prompt, or a library, makes that library the active one.\<close>

lemma created_library_active:
  assumes "one_active w" "PromptLibraryCreate E n w = (Inr full, w')"
  shows "\<exists>l \<in> set (w_prompt_libraries w'). obj_ID l = obj_ID (pf_Library full) \<and> lb_Active l"
proof -
  let ?new = "new_prompt_library\<lparr>obj_Name := n, lb_System := False, lb_Readonly := False\<rparr>"
  from assms(2)[unfolded PromptLibraryCreate_def] obtain c w1 w2 u where add: "promptLibrary_Add E ?new w = (Inr c, w1)"
    and set: "promptLibrary_SetActive E (obj_ID c) w1 = (Inr u, w2)" and build: "buildLibraryFull (c\<lparr>lb_Active := True\<rparr>) w2 = (Inr full, w')"
    by (auto elim!: bindE_Inr_elim)
  have w1: "one_active w1" using preservesD[OF library_rows_active(1) assms(1)] add by (metis snd_conv)
  have keep: "preserves (\<lambda>v. w_prompt_libraries v = ls) (buildLibraryFull d)" for ls d
    unfolding buildLibraryFull_def promptCategory_ListByLibrary_def promptItem_ListByLibrary_def
    by (intro preserves_bindE prompt_categories_t.find_preserves prompt_items_t.find_preserves preserves_ret plainI) simp_all
  have "w_prompt_libraries w' = w_prompt_libraries w2" using preservesD[OF keep refl, of "c\<lparr>lb_Active := True\<rparr>" w2] build by simp
  moreover have "obj_ID (pf_Library full) = obj_ID c" using build unfolding buildLibraryFull_def by (auto elim!: bindE_Inr_elim)
  ultimately show ?thesis using triple_Inr[OF SetActive_triple w1 set] by simp
qed

subsection \<open>Deleting a category\<close>

definition oldest_other :: "prompt_category list \<Rightarrow> string \<Rightarrow> string \<Rightarrow> string \<Rightarrow> bool" where
  "oldest_other cs lid cid f \<longleftrightarrow>
     (if \<forall>c \<in> set cs. pc_LibraryID c = lid \<longrightarrow> obj_ID c = cid then f = []
      else \<exists>c \<in> set cs. f = obj_ID c \<and> pc_LibraryID c = lid \<and> obj_ID c \<noteq> cid \<and>
             (\<forall>d \<in> set cs. pc_LibraryID d = lid \<longrightarrow> obj_ID d \<noteq> cid \<longrightarrow> obj_CreatedAt c \<le> obj_CreatedAt d))"

lemma find_sorted_least:
  assumes "find P (sort_key k xs) = Some x" and y: "y \<in> set xs" "P y"
  shows "x \<in> set xs \<and> P x \<and> k x \<le> k y"
proof -
  have *: "find P zs = Some x \<Longrightarrow> sorted (map k zs) \<Longrightarrow> y \<in> set zs \<Longrightarrow> x \<in> set zs \<and> P x \<and> k x \<le> k y" for zs
    by (induction zs) (use y(2) in \<open>auto split: if_splits\<close>)
  from *[OF assms(1)] y(1) show ?thesis by simp
qed

lemma find_mem: "find P xs = Some x \<Longrightarrow> x \<in> set xs \<and> P x"
  by (induction xs) (auto split: if_splits)

lemma fallback_oldest: "oldest_other cs lid cid (fallback_category (sort_key obj_CreatedAt (filter (\<lambda>c. pc_LibraryID c = lid) cs)) cid)"
proof (cases "find (\<lambda>c. obj_ID c \<noteq> cid) (sort_key obj_CreatedAt (filter (\<lambda>c. pc_LibraryID c = lid) cs))")
  case None
  have "\<forall>c \<in> set cs. pc_LibraryID c = lid \<longrightarrow> obj_ID c = cid" using None[unfolded find_None_iff] by auto
  then show ?thesis using None by (simp add: fallback_category_def oldest_other_def)
next
  case (Some c)
  have c: "c \<in> set cs" "pc_LibraryID c = lid" "obj_ID c \<noteq> cid"
    using find_mem[OF Some] by auto
  moreover have "obj_CreatedAt c \<le> obj_CreatedAt d" if "d \<in> set cs" "pc_LibraryID d = lid" "obj_ID d \<noteq> cid" for d
    using find_sorted_least[OF Some, of d] that by simp
  ultimately show ?thesis using Some by (auto simp: fallback_category_def oldest_other_def)
qed

definition prompts_are :: "prompt_category list \<Rightarrow> prompt_item list \<Rightarrow> time \<Rightarrow> world \<Rightarrow> bool" where
  "prompts_are cs ps now w \<longleftrightarrow> w_prompt_categories w = cs \<and> w_prompt_items w = ps \<and> w_now w = now"

definition reassigned :: "env \<Rightarrow> time \<Rightarrow> string \<Rightarrow> string \<Rightarrow> prompt_item \<Rightarrow> prompt_item" where
  "reassigned E now cid f i = (if pi_CategoryID i = cid then touch E now (i\<lparr>pi_CategoryID := f\<rparr>) else i)"

lemma prompts_plain: "plain (prompts_are cs ps now)" "plain (\<lambda>w. prompts_are cs ps now w \<and> b)"
  by (rule plainI; simp add: prompts_are_def)+

lemma PromptCategoryDelete_triple:
  assumes f: "f = fallback_category (sort_key obj_CreatedAt (filter (\<lambda>c. pc_LibraryID c = lid) cs)) cid"
  shows "triple (prompts_are cs ps now) (PromptCategoryDelete E cid lid)
    (\<lambda>_ w. prompts_are (filter (\<lambda>c. \<not> (obj_ID c = cid \<and> pc_LibraryID c = lid)) cs) (map (reassigned E now cid f) ps) now w \<and>
       (\<exists>c \<in> set cs. obj_ID c = cid \<and> pc_LibraryID c = lid))
    (\<lambda>w. prompts_are cs ps now w \<or> prompts_are cs (map (reassigned E now cid f) ps) now w)"
    (is "triple _ _ ?Q ?R")
proof -
  let ?ps = "map (reassigned E now cid f) ps"
  let ?cats = "sort_key obj_CreatedAt (filter (\<lambda>c. pc_LibraryID c = lid) cs)"
  have list: "triple (prompts_are cs ps now) (promptCategory_ListByLibrary lid) (\<lambda>cats w. prompts_are cs ps now w \<and> cats = ?cats) ?R"
  proof (rule tripleI)
    fix w cats w' assume w: "prompts_are cs ps now w" and run: "promptCategory_ListByLibrary lid w = (Inr cats, w')"
    from run obtain rs where "db_find prompt_categories_tbl (\<lambda>c. pc_LibraryID c = lid) w = (Inr rs, w')" "cats = sort_key obj_CreatedAt rs"
      unfolding promptCategory_ListByLibrary_def by (auto elim!: bindE_Inr_elim)
    then show "prompts_are cs ps now w' \<and> cats = ?cats"
      using w by (elim prompt_categories_t.find_result) (simp add: prompts_are_def)
  next
    fix w e w' assume w: "prompts_are cs ps now w" and run: "promptCategory_ListByLibrary lid w = (Inl e, w')"
    have "preserves (prompts_are cs ps now) (promptCategory_ListByLibrary lid)"
      unfolding promptCategory_ListByLibrary_def by (intro preserves_bindE prompt_categories_t.find_preserves[OF prompts_plain(1)] preserves_ret)
    from preservesD[OF this w] run show "?R w'" by simp
  qed
  have move: "triple (prompts_are cs ps now) (promptItem_ReassignCategory E cid f) (\<lambda>_. prompts_are cs ?ps now) ?R"
    unfolding promptItem_ReassignCategory_def
  proof (rule triple_bindE)
    show "triple (prompts_are cs ps now) (db_update E prompt_items_tbl (\<lambda>i. pi_CategoryID i = cid) (\<lambda>i. i\<lparr>pi_CategoryID := f\<rparr>))
        (\<lambda>_. prompts_are cs ?ps now) ?R"
      by (rule prompt_items_t.update_triple[OF prompts_plain(1) prompts_plain(1)]) (simp_all add: prompts_are_def reassigned_def[abs_def] cong: if_cong)
  qed (simp add: triple_ret)
  have del: "triple (prompts_are cs ?ps now) (promptCategory_Delete cid lid) ?Q ?R"
    unfolding promptCategory_Delete_def
    by (rule triple_mono[OF transaction_triple[OF prompts_plain prompt_categories_t.delete_row_triple[OF prompts_plain(1)]]])
      (auto simp: prompts_are_def intro!: plainI)
  show ?thesis unfolding PromptCategoryDelete_def
  proof (rule triple_bindE[OF list])
    fix cats
    show "triple (\<lambda>w. prompts_are cs ps now w \<and> cats = ?cats) (bindE (promptItem_ReassignCategory E cid (fallback_category cats cid)) (\<lambda>_. promptCategory_Delete cid lid)) ?Q ?R"
    proof (cases "cats = ?cats")
      case True
      then have fc: "fallback_category cats cid = f" by (simp add: f)
      show ?thesis unfolding fc by (rule triple_mono[OF triple_bindE[OF move del]]) auto
    qed (rule triple_vacuous, simp)
  qed
qed

text \<open>
  C20. Deleting a category of prompts loses no prompt, even when it fails half way: every prompt keeps its identifier, its library and its texts.
  On an error the categories are as before; on success exactly the category is gone, it did exist, and its prompts, and no others, are
  now in the oldest other category of the library, or in none when the library has no other.
\<close>

theorem prompt_category_delete:
  assumes run: "PromptCategoryDelete E cid lid w = (r, w')"
  shows "map (\<lambda>i. (obj_ID i, obj_Name i, pi_LibraryID i, pi_Positive i, pi_Negative i, pi_Scene i)) (w_prompt_items w') =
      map (\<lambda>i. (obj_ID i, obj_Name i, pi_LibraryID i, pi_Positive i, pi_Negative i, pi_Scene i)) (w_prompt_items w) \<and>
    (case r of
      Inl _ \<Rightarrow> w_prompt_categories w' = w_prompt_categories w
    | Inr _ \<Rightarrow> w_prompt_categories w' = filter (\<lambda>c. \<not> (obj_ID c = cid \<and> pc_LibraryID c = lid)) (w_prompt_categories w) \<and>
        (\<exists>c \<in> set (w_prompt_categories w). obj_ID c = cid \<and> pc_LibraryID c = lid) \<and>
        (\<exists>f. oldest_other (w_prompt_categories w) lid cid f \<and>
           map pi_CategoryID (w_prompt_items w') = map (\<lambda>i. if pi_CategoryID i = cid then f else pi_CategoryID i) (w_prompt_items w)))"
proof -
  define f where "f = fallback_category (sort_key obj_CreatedAt (filter (\<lambda>c. pc_LibraryID c = lid) (w_prompt_categories w))) cid"
  have start: "prompts_are (w_prompt_categories w) (w_prompt_items w) (w_now w) w" by (simp add: prompts_are_def)
  have f: "oldest_other (w_prompt_categories w) lid cid f" unfolding f_def by (rule fallback_oldest)
  have cat: "pi_CategoryID (reassigned E now cid g i) = (if pi_CategoryID i = cid then g else pi_CategoryID i)" for now g i
    by (simp add: reassigned_def touch_def)
  have same: "(obj_ID (reassigned E now cid g i), obj_Name (reassigned E now cid g i), pi_LibraryID (reassigned E now cid g i),
      pi_Positive (reassigned E now cid g i), pi_Negative (reassigned E now cid g i), pi_Scene (reassigned E now cid g i)) =
      (obj_ID i, obj_Name i, pi_LibraryID i, pi_Positive i, pi_Negative i, pi_Scene i)" for now g i
    by (simp add: reassigned_def touch_def)
  show ?thesis
  proof (cases r)
    case (Inl e)
    from triple_Inl[OF PromptCategoryDelete_triple[OF f_def] start run[unfolded Inl]] show ?thesis
      using same unfolding Inl by (auto simp: prompts_are_def)
  next
    case (Inr x)
    from triple_Inr[OF PromptCategoryDelete_triple[OF f_def] start run[unfolded Inr]] show ?thesis
      using same cat f unfolding Inr by (auto simp: prompts_are_def)
  qed
qed

lemma sample_category_delete:
  "case PromptCategoryDelete sample_env ''c1'' ''l1'' prompt_world of (Inr _, w) \<Rightarrow> map pi_CategoryID (w_prompt_items w) = [''c2''] | _ \<Rightarrow> False"
  by code_simp

lemma prompt_category_delete_witness:
  "\<exists>w'. PromptCategoryDelete sample_env ''c1'' ''l1'' prompt_world = (Inr (), w') \<and> map pi_CategoryID (w_prompt_items w') = [''c2''] \<and>
     map obj_ID (w_prompt_categories w') = [''c2'']"
proof -
  obtain w' where run: "PromptCategoryDelete sample_env ''c1'' ''l1'' prompt_world = (Inr (), w')"
    and moved: "map pi_CategoryID (w_prompt_items w') = [''c2'']"
    using sample_category_delete by (auto split: prod.splits sum.splits)
  from prompt_category_delete[OF run] show ?thesis using run moved
    by (auto simp: prompt_world_def new_prompt_category_def object_meta.defs prompt_category.defs)
qed

end
