(* ===== verification/Identity.thy ===== *)
theory Identity
  imports Stores
begin

text \<open>
  Users, one-time passwords, one-time tokens and settings: the stores \<open>user.go\<close>, \<open>otp.go\<close>, \<open>ott.go\<close> and
  \<open>setting.go\<close>, the hooks of \<open>meta_identity.go\<close> and \<open>meta_token.go\<close>, and the identity service.
\<close>

subsection \<open>Statements on structs\<close>

text \<open>\<open>Find\<close> into one struct: no error when there is no row, and the identifier the struct has is a condition.\<close>

definition db_find_into :: "'r object_meta_scheme tbl \<Rightarrow> 'r object_meta_scheme \<Rightarrow> 'r object_meta_scheme m" where
  "db_find_into t dest = stmt (gets (\<lambda>w.
     case filter (\<lambda>r. obj_ID dest \<noteq> [] \<longrightarrow> obj_ID r = obj_ID dest) (rows t w) of [] \<Rightarrow> dest | r # _ \<Rightarrow> r))"

text \<open>
  \<open>Model(&result).Where("id = ?", i).Updates(&result)\<close>: the hook runs on the struct, only its columns that are not zero are
  written, and the identifier the struct has is a condition as well.
\<close>

definition db_updates :: "'r object_meta_scheme tbl \<Rightarrow> ('r object_meta_scheme \<Rightarrow> 'r object_meta_scheme \<Rightarrow> 'r object_meta_scheme) \<Rightarrow>
    string \<Rightarrow> 'r object_meta_scheme \<Rightarrow> 'r object_meta_scheme m" where
  "db_updates t merge i result = stmt (\<lambda>w.
     let new = BeforeUpdate (w_now w) result
     in (Inr new, upd_rows t (map (\<lambda>r. if obj_ID r = i \<and> (obj_ID result \<noteq> [] \<longrightarrow> obj_ID r = obj_ID result) then merge new r else r)) w))"

definition unless_zero :: "'a \<Rightarrow> 'a \<Rightarrow> 'a \<Rightarrow> 'a" where
  "unless_zero z new old = (if new = z then old else new)"

definition merge_meta :: "'r object_meta_scheme \<Rightarrow> 'r object_meta_scheme \<Rightarrow> 'r object_meta_scheme" where
  "merge_meta new old = old\<lparr>obj_Name := unless_zero [] (obj_Name new) (obj_Name old), obj_Extend := obj_Extend new,
     obj_CreatedAt := unless_zero zero_time (obj_CreatedAt new) (obj_CreatedAt old),
     obj_UpdatedAt := unless_zero zero_time (obj_UpdatedAt new) (obj_UpdatedAt old),
     obj_Description := unless_zero [] (obj_Description new) (obj_Description old),
     obj_ResourceVersion := unless_zero 0 (obj_ResourceVersion new) (obj_ResourceVersion old)\<rparr>"

subsection \<open>Users\<close>

definition new_user :: user where
  "new_user = object_meta.extend new_meta (user.fields [] [] [] [] [] False)"

definition user_columns :: "user columns" where
  "user_columns = [(''password'', CText us_Password), (''mail'', CText us_Mail), (''phone'', CText us_Phone), (''type'', CText us_Type), (''source'', CText us_Source)]"

definition merge_user :: "user \<Rightarrow> user \<Rightarrow> user" where
  "merge_user new old = (merge_meta new old)\<lparr>us_Password := unless_zero [] (us_Password new) (us_Password old),
     us_Mail := unless_zero [] (us_Mail new) (us_Mail old), us_Phone := unless_zero [] (us_Phone new) (us_Phone old),
     us_Type := unless_zero [] (us_Type new) (us_Type old), us_Source := unless_zero [] (us_Source new) (us_Source old),
     us_Default := unless_zero False (us_Default new) (us_Default old)\<rparr>"

definition user_List :: "env \<Rightarrow> basic_query \<Rightarrow> (user list \<times> int) m" where
  "user_List E req = db_page E user_columns users_tbl (\<lambda>_. ToQuery (e_lower E) req (\<lambda>_. True))"

definition user_Get :: "string \<Rightarrow> user m" where
  "user_Get uid = db_find_into users_tbl (new_user\<lparr>obj_ID := uid\<rparr>)"

definition user_GetByName :: "string \<Rightarrow> user m" where
  "user_GetByName name = db_first users_tbl (\<lambda>u. obj_Name u = name)"

definition user_Add :: "env \<Rightarrow> user \<Rightarrow> user m" where
  "user_Add E data = transaction
     (bindE (CheckExists users_tbl (\<lambda>u. obj_Name u = obj_Name data)) (\<lambda>found.
      if found then throw (Errorf ''exists name with %v'' [obj_Name data])
      else db_create E id users_tbl data))"

definition user_Delete :: "string \<Rightarrow> unit m" where
  "user_Delete uid = transaction (bindE (db_delete users_tbl (\<lambda>u. obj_ID u = uid)) (\<lambda>_. ret ()))"

definition user_Update :: "user \<Rightarrow> user m" where
  "user_Update data = transaction
     (bindE (db_find_into users_tbl new_user) (\<lambda>result.
      bindE (if obj_Name result \<noteq> obj_Name data
         then bindE (CheckExists users_tbl (\<lambda>u. obj_Name u = obj_Name data)) (\<lambda>found.
              if found then throw (Errorf ''usser exists name with %v'' [obj_Name data]) else ret ())
         else ret ()) (\<lambda>_.
      db_updates users_tbl merge_user (obj_ID data) result)))"

definition UserList :: "env \<Rightarrow> basic_query \<Rightarrow> (user list \<times> int) m" where
  "UserList E req = user_List E req"

definition UserGet :: "string \<Rightarrow> user m" where
  "UserGet uid = user_Get uid"

definition UserAdd :: "env \<Rightarrow> user \<Rightarrow> user m" where
  "UserAdd E u = user_Add E u"

definition UserUpdate :: "user \<Rightarrow> unit m" where
  "UserUpdate u = bindE (user_Update u) (\<lambda>_. ret ())"

definition UserDelete :: "string \<Rightarrow> unit m" where
  "UserDelete uid = user_Delete uid"

text \<open>The password authenticator.\<close>

definition Authenticate :: "(string \<Rightarrow> string option) \<Rightarrow> string m" where
  "Authenticate creds = (case creds ''username'' of
     Some username \<Rightarrow>
       bindE (attempt (user_GetByName username)) (\<lambda>r. case r of
         Inl _ \<Rightarrow> throw (Errorf ''invalid credentials'' [])
       | Inr user \<Rightarrow> (case creds ''password'' of
            Some password \<Rightarrow> if password = us_Password user then ret (obj_Name user) else throw (Errorf ''invalid credentials'' [])
          | None \<Rightarrow> throw (Errorf ''invalid credentials'' [])))
   | None \<Rightarrow> throw (Errorf ''invalid credentials'' []))"

subsection \<open>One-time passwords\<close>

definition new_otp :: user_otp where
  "new_otp = object_meta.extend new_meta (user_otp.fields [] [])"

definition Set_entry :: "gomap option \<Rightarrow> string \<Rightarrow> any \<Rightarrow> gomap option" where
  "Set_entry m k v = Some ((case m of None \<Rightarrow> Map.empty | Some f \<Rightarrow> f)(k \<mapsto> v))"

text \<open>
  The hook calls itself, with the codes \<open>codes k\<close> that the generator gives the \<open>k\<close>-th time. That it does not return is
  the value \<open>None\<close>; in Go the stack overflows and the process ends.
\<close>

partial_function (option) UserOTP_BeforeCreate :: "(nat \<Rightarrow> string list) \<Rightarrow> nat \<Rightarrow> user_otp \<Rightarrow> user_otp option" where
  "UserOTP_BeforeCreate codes k obj =
     UserOTP_BeforeCreate codes (Suc k) (obj\<lparr>obj_Extend := Set_entry (obj_Extend obj) ''reset_password'' (AArr (map AStr (codes k)))\<rparr>)"

definition otp_create :: "env \<Rightarrow> (nat \<Rightarrow> string list) \<Rightarrow> user_otp \<Rightarrow> user_otp m" where
  "otp_create E codes data = (case UserOTP_BeforeCreate codes 0 data of
     None \<Rightarrow> throw (Panic ''stack overflow'') | Some d \<Rightarrow> db_create E id otps_tbl d)"

definition otp_List :: "user_otp list m" where
  "otp_List = db_find otps_tbl (\<lambda>_. True)"

text \<open>The struct that is read into has the user's identifier as its own, which is one more condition.\<close>

definition otp_GetByUser :: "string \<Rightarrow> user_otp m" where
  "otp_GetByUser uid = db_first otps_tbl (\<lambda>p. uo_UserID p = uid \<and> (uid \<noteq> [] \<longrightarrow> obj_ID p = uid))"

definition otp_Add :: "env \<Rightarrow> (nat \<Rightarrow> string list) \<Rightarrow> user_otp \<Rightarrow> user_otp m" where
  "otp_Add E codes data = transaction
     (bindE (CheckExists otps_tbl (\<lambda>p. uo_UserID p = uo_UserID data)) (\<lambda>found.
      if found then throw (Errorf ''exists user id  with %v'' [uo_UserID data])
      else otp_create E codes data))"

definition otp_Delete :: "string \<Rightarrow> unit m" where
  "otp_Delete pid = transaction (bindE (db_delete otps_tbl (\<lambda>p. obj_ID p = pid)) (\<lambda>_. ret ()))"

text \<open>
  \<open>FirstOrCreate\<close> and \<open>Upsert\<close> look for the name. The first opens a transaction and works outside it: only the commit is
  left to it.
\<close>

definition otp_FirstOrCreate :: "env \<Rightarrow> (nat \<Rightarrow> string list) \<Rightarrow> user_otp \<Rightarrow> user_otp m" where
  "otp_FirstOrCreate E codes data =
     bindE (attempt (db_first otps_tbl (\<lambda>p. obj_Name p = obj_Name data \<and> (obj_ID data \<noteq> [] \<longrightarrow> obj_ID p = obj_ID data)))) (\<lambda>r.
     bindE (case r of Inl e \<Rightarrow> if e = RecordNotFound then otp_create E codes data else throw e | Inr found \<Rightarrow> ret found) (\<lambda>p.
     stmt (ret p)))"

definition merge_otp :: "user_otp \<Rightarrow> user_otp \<Rightarrow> user_otp" where
  "merge_otp new old = (merge_meta new old)\<lparr>uo_Secret := unless_zero [] (uo_Secret new) (uo_Secret old), uo_UserID := unless_zero [] (uo_UserID new) (uo_UserID old)\<rparr>"

definition otp_Upsert :: "env \<Rightarrow> (nat \<Rightarrow> string list) \<Rightarrow> user_otp \<Rightarrow> user_otp m" where
  "otp_Upsert E codes data = transaction
     (bindE (attempt (db_first otps_tbl (\<lambda>p. obj_Name p = obj_Name data))) (\<lambda>r. case r of
        Inl e \<Rightarrow> if e = RecordNotFound then otp_create E codes data else throw e
      | Inr found \<Rightarrow>
          let result = found\<lparr>obj_Extend := obj_Extend data, obj_Description := obj_Description data\<rparr>
          in db_updates otps_tbl merge_otp (obj_ID result) result))"

definition otp_url :: "string \<Rightarrow> string \<Rightarrow> string" where
  "otp_url uid secret = ''otpauth://totp/Your Service:'' @ uid @ ''?secret='' @ secret @ ''&issuer=Your Service''"

definition UserOTPGetOrAdd :: "env \<Rightarrow> (nat \<Rightarrow> string list) \<Rightarrow> string \<Rightarrow> string m" where
  "UserOTPGetOrAdd E codes uid =
     bindE (attempt (otp_GetByUser uid)) (\<lambda>r. case r of
       Inl e \<Rightarrow>
         if e \<noteq> RecordNotFound then throw e
         else (case e_totp E uid of
           None \<Rightarrow> throw StoreFailure
         | Some secret \<Rightarrow> bindE (otp_Add E codes (new_otp\<lparr>uo_UserID := uid, uo_Secret := secret\<rparr>)) (\<lambda>_. ret (otp_url uid secret)))
     | Inr found \<Rightarrow> ret (otp_url uid (uo_Secret found)))"

definition UserOTPGet :: "string \<Rightarrow> user_otp m" where
  "UserOTPGet uid = otp_GetByUser uid"

subsection \<open>One-time tokens\<close>

definition new_token :: one_time_token where
  "new_token = object_meta.extend new_meta (one_time_token.fields [] 0 [] [] zero_time False)"

definition defaultOttTTL :: int where
  "defaultOttTTL = 5 * 60 * 1000000000"

text \<open>\<open>time.Duration(obj.TTLSeconds) * time.Second\<close> in 64 bits.\<close>

definition token_ttl :: "one_time_token \<Rightarrow> int" where
  "token_ttl k = (if 0 < ot_TTLSeconds k then wrap64 (ot_TTLSeconds k * 1000000000) else defaultOttTTL)"

text \<open>The hook, at the time the row is created; the lifetime itself is no column.\<close>

definition OneTimeToken_BeforeCreate :: "env \<Rightarrow> one_time_token \<Rightarrow> one_time_token" where
  "OneTimeToken_BeforeCreate E k =
     k\<lparr>ot_ExpiresAt := obj_CreatedAt k + token_ttl k, ot_PayloadHash := e_sha512 E (ot_Payload k), ot_TTLSeconds := 0\<rparr>"

definition ott_GetByHash :: "string \<Rightarrow> one_time_token m" where
  "ott_GetByHash hash = db_first otts_tbl (\<lambda>k. ot_PayloadHash k = hash)"

definition ott_Add :: "env \<Rightarrow> one_time_token \<Rightarrow> one_time_token m" where
  "ott_Add E data = transaction
     (bindE (db_create E (OneTimeToken_BeforeCreate E) otts_tbl data) (\<lambda>k. ret (k\<lparr>ot_TTLSeconds := ot_TTLSeconds data\<rparr>)))"

definition ott_Delete :: "string \<Rightarrow> unit m" where
  "ott_Delete kid = transaction (bindE (db_delete otts_tbl (\<lambda>k. obj_ID k = kid)) (\<lambda>_. ret ()))"

definition ott_CleanupExpiredTokens :: "unit m" where
  "ott_CleanupExpiredTokens =
     (\<lambda>w. bindE (db_delete otts_tbl (\<lambda>k. ot_ExpiresAt k < w_now w \<or> ot_Used k)) (\<lambda>_. ret ()) w)"

subsection \<open>Settings\<close>

definition setting_List :: "setting list m" where
  "setting_List = db_find settings_tbl (\<lambda>_. True)"

definition setting_Get :: "string \<Rightarrow> setting m" where
  "setting_Get sid = db_find_into settings_tbl (new_meta\<lparr>obj_ID := sid\<rparr>)"

text \<open>\<open>First\<close> into a slice gives one row.\<close>

definition setting_GetMultiByNames :: "string list \<Rightarrow> setting list m" where
  "setting_GetMultiByNames names = bindE (db_first settings_tbl (\<lambda>s. obj_Name s \<in> set names)) (\<lambda>s. ret [s])"

definition setting_GetByName :: "string \<Rightarrow> setting m" where
  "setting_GetByName name = db_first settings_tbl (\<lambda>s. obj_Name s = name)"

definition setting_Add :: "env \<Rightarrow> setting \<Rightarrow> setting m" where
  "setting_Add E data = transaction
     (bindE (CheckExists settings_tbl (\<lambda>s. obj_Name s = obj_Name data)) (\<lambda>found.
      if found then throw (Errorf ''exists name with %v'' [obj_Name data])
      else db_create E id settings_tbl data))"

definition setting_Delete :: "string \<Rightarrow> unit m" where
  "setting_Delete sid = transaction (bindE (db_delete settings_tbl (\<lambda>s. obj_ID s = sid)) (\<lambda>_. ret ()))"

definition setting_FirstOrCreate :: "env \<Rightarrow> setting \<Rightarrow> setting m" where
  "setting_FirstOrCreate E data =
     bindE (attempt (db_first settings_tbl (\<lambda>s. obj_Name s = obj_Name data \<and> (obj_ID data \<noteq> [] \<longrightarrow> obj_ID s = obj_ID data)))) (\<lambda>r.
     bindE (case r of Inl e \<Rightarrow> if e = RecordNotFound then db_create E id settings_tbl data else throw e | Inr found \<Rightarrow> ret found) (\<lambda>s.
     stmt (ret s)))"

definition setting_Upsert :: "env \<Rightarrow> setting \<Rightarrow> setting m" where
  "setting_Upsert E data = transaction
     (bindE (attempt (db_first settings_tbl (\<lambda>s. obj_Name s = obj_Name data))) (\<lambda>r. case r of
        Inl e \<Rightarrow> if e = RecordNotFound then db_create E id settings_tbl data else throw e
      | Inr found \<Rightarrow>
          let result = found\<lparr>obj_Extend := obj_Extend data, obj_Description := obj_Description data\<rparr>
          in db_updates settings_tbl merge_meta (obj_ID result) result))"

end
