(* ===== verification/IdentityLaws.thy ===== *)
theory IdentityLaws
  imports Identity
begin

text \<open>
  What the identity service promises and what it does not: unique user names, an exact password check, an update of users
  that changes none, a one-time password that cannot be enrolled, the lifetime of one-time tokens, and what an upsert of a setting writes.
\<close>

subsection \<open>Statements on structs\<close>

context table_lens
begin

lemma find_into_preserves: "plain I \<Longrightarrow> preserves I (db_find_into t dest)"
  unfolding db_find_into_def by (rule stmt_preserves) simp_all

lemma find_into_result:
  assumes "db_find_into t dest w = (Inr r, w')"
  obtains (absent) fs where "w' = w\<lparr>w_faults := fs\<rparr>" "r = dest" "\<forall>x \<in> set (rows t w). obj_ID dest \<noteq> [] \<and> obj_ID x \<noteq> obj_ID dest"
  | (found) fs where "w' = w\<lparr>w_faults := fs\<rparr>" "r \<in> set (rows t w)" "obj_ID dest \<noteq> [] \<longrightarrow> obj_ID r = obj_ID dest"
proof -
  let ?P = "\<lambda>r. obj_ID dest \<noteq> [] \<longrightarrow> obj_ID r = obj_ID dest"
  from assms[unfolded db_find_into_def] obtain fs where w': "w' = w\<lparr>w_faults := fs\<rparr>"
    and r: "r = (case filter ?P (rows t w) of [] \<Rightarrow> dest | r # _ \<Rightarrow> r)"
    by (rule stmt_Inr) auto
  show ?thesis
  proof (cases "filter ?P (rows t w)")
    case Nil
    then show ?thesis using absent[OF w'] r by (auto simp: filter_empty_conv)
  next
    case (Cons x xs)
    then have "x \<in> set (filter ?P (rows t w))" by simp
    moreover have "r = x" using r Cons by simp
    ultimately show ?thesis using found[OF w'] by simp
  qed
qed

lemma updates_result:
  assumes "db_updates t merge i result w = (Inr r, w')"
  obtains fs where "r = BeforeUpdate (w_now w) result" "w_tx w \<noteq> Some False"
    "w' = (upd_rows t (map (\<lambda>x. if obj_ID x = i \<and> (obj_ID result \<noteq> [] \<longrightarrow> obj_ID x = obj_ID result) then merge r x else x)) w)\<lparr>w_faults := fs\<rparr>"
  using assms unfolding db_updates_def
  by (cases rule: stmt_cases[of "\<lambda>w. let new = BeforeUpdate (w_now w) result
     in (Inr new, upd_rows t (map (\<lambda>r. if obj_ID r = i \<and> (obj_ID result \<noteq> [] \<longrightarrow> obj_ID r = obj_ID result) then merge new r else r)) w)" w])
    (auto simp: Let_def upd_faults)

end

lemma merge_meta_simps [simp]: "obj_ID (merge_meta new old) = obj_ID old" "object_meta.more (merge_meta new old) = object_meta.more old"
  by (simp_all add: merge_meta_def)

subsection \<open>Users\<close>

text \<open>What the table says of a user, apart from the time and number of changes.\<close>

definition profile :: "user \<Rightarrow> (string \<times> string \<times> string) \<times> (string \<times> string \<times> string \<times> string \<times> bool) \<times> gomap option" where
  "profile u = ((obj_ID u, obj_Name u, obj_Description u), (us_Password u, us_Mail u, us_Phone u, us_Type u, us_Default u), obj_Extend u)"

definition user_inv :: "world \<Rightarrow> bool" where
  "user_inv w \<longleftrightarrow> keys_distinct (w_users w) \<and> distinct (map obj_Name (w_users w))"

lemma user_inv_plain: "plain user_inv" "plain (\<lambda>w. map profile (w_users w) = ps)"
  by (rule plainI; simp add: user_inv_def)+

text \<open>The row that the update writes is the row that was read.\<close>

lemma merge_user_same:
  assumes "obj_ID old \<noteq> []"
  shows "profile (merge_user (BeforeUpdate now old) old) = profile old"
  by (simp add: profile_def merge_user_def merge_meta_def unless_zero_def BeforeUpdate_def)

lemma updates_profile:
  assumes result: "result \<in> set us" and keys: "keys_distinct us" and named: "\<forall>u \<in> set us. obj_ID u \<noteq> []"
  shows "map profile (map (\<lambda>x. if obj_ID x = i \<and> (obj_ID result \<noteq> [] \<longrightarrow> obj_ID x = obj_ID result) then merge_user (BeforeUpdate now result) x else x) us) =
    map profile us"
proof -
  have same: "x = result" if "x \<in> set us" "obj_ID x = obj_ID result" for x
    using keys_distinct_unique[OF keys that(1) result that(2)] .
  have "profile (if obj_ID x = i \<and> (obj_ID result \<noteq> [] \<longrightarrow> obj_ID x = obj_ID result) then merge_user (BeforeUpdate now result) x else x) = profile x"
    if x: "x \<in> set us" for x
  proof (cases "obj_ID x = obj_ID result")
    case True
    then have "x = result" using same x by blast
    then show ?thesis using merge_user_same named result by auto
  qed (use named result in auto)
  then show ?thesis by simp
qed

lemma user_Update_profile:
  assumes keys: "keys_distinct us" and named: "\<forall>u \<in> set us. obj_ID u \<noteq> []"
  shows "triple (\<lambda>w. w_users w = us) (user_Update data) (\<lambda>_ w. map profile (w_users w) = map profile us) (\<lambda>w. w_users w = us)"
  unfolding user_Update_def
proof (rule transaction_triple)
  let ?I = "\<lambda>w. w_users w = us" and ?Q = "\<lambda>w. map profile (w_users w) = map profile us"
  show I: "plain ?I" and "plain ?Q" by (rule plainI; simp)+
  let ?J = "\<lambda>result w. ?I w \<and> (us = [] \<or> result \<in> set us)"
  have find: "triple ?I (db_find_into users_tbl new_user) ?J (\<lambda>_. True)"
  proof (rule tripleI)
    fix w r w' assume w: "?I w" and run: "db_find_into users_tbl new_user w = (Inr r, w')"
    from run show "?J r w'"
      by (cases rule: users_t.find_into_result) (use w in \<open>auto simp: new_user_def new_meta_def object_meta.defs user.defs\<close>)
  qed simp
  have J: "plain (?J result)" for result by (rule plainI) simp
  have chk: "triple (?J result) (if obj_Name result \<noteq> obj_Name data
         then bindE (CheckExists users_tbl (\<lambda>u. obj_Name u = obj_Name data)) (\<lambda>found.
              if found then throw (Errorf ''usser exists name with %v'' [obj_Name data]) else ret ())
         else ret ()) (\<lambda>_. ?J result) (\<lambda>_. True)" for result
    by (rule triple_mono[OF preserves_triple], intro preserves_if preserves_bindE preserves_throw preserves_ret)
      (auto simp: CheckExists_def intro!: preserves_bindE preserves_attempt users_t.count_preserves J split: sum.split)
  have upd: "triple (?J result) (db_updates users_tbl merge_user (obj_ID data) result) (\<lambda>_. ?Q) (\<lambda>_. True)" for result
  proof (rule tripleI)
    fix w r w' assume w: "?J result w" and run: "db_updates users_tbl merge_user (obj_ID data) result w = (Inr r, w')"
    let ?f = "\<lambda>x. if obj_ID x = obj_ID data \<and> (obj_ID result \<noteq> [] \<longrightarrow> obj_ID x = obj_ID result) then merge_user (BeforeUpdate (w_now w) result) x else x"
    from run have "w_users w' = map ?f us"
      by (rule users_t.updates_result) (use w in \<open>simp cong: if_cong\<close>)
    then show "?Q w'" using w updates_profile[OF _ keys named, of result "obj_ID data" "w_now w"] by (metis list.map_disc_iff)
  qed simp
  show "triple ?I (bindE (db_find_into users_tbl new_user) (\<lambda>result.
      bindE (if obj_Name result \<noteq> obj_Name data
         then bindE (CheckExists users_tbl (\<lambda>u. obj_Name u = obj_Name data)) (\<lambda>found.
              if found then throw (Errorf ''usser exists name with %v'' [obj_Name data]) else ret ())
         else ret ()) (\<lambda>_.
      db_updates users_tbl merge_user (obj_ID data) result))) (\<lambda>_. ?Q) (\<lambda>_. True)"
    by (intro triple_bindE[OF find] triple_bindE[OF chk] upd)
qed

text \<open>
  C21. An update of a user changes no user. The store reads the first row of the table into the struct it then writes, and never looks at the
  data of the request: whatever the request says and whichever statements fail, every user keeps name, password, mail, phone, type and extension.
\<close>

theorem user_update_ineffective:
  assumes keys: "keys_distinct (w_users w)" and named: "\<forall>u \<in> set (w_users w). obj_ID u \<noteq> []"
  shows "map profile (w_users (snd (UserUpdate data w))) = map profile (w_users w)"
proof -
  have upd: "triple (\<lambda>v. w_users v = w_users w) (user_Update data) (\<lambda>_ v. map profile (w_users v) = map profile (w_users w)) (\<lambda>v. map profile (w_users v) = map profile (w_users w))"
    by (rule triple_mono[OF user_Update_profile[OF keys named]]) auto
  have "triple (\<lambda>v. w_users v = w_users w) (UserUpdate data) (\<lambda>_ v. map profile (w_users v) = map profile (w_users w)) (\<lambda>v. map profile (w_users v) = map profile (w_users w))"
    unfolding UserUpdate_def by (rule triple_bindE[OF upd]) (rule triple_ret)
  then show ?thesis
    by (cases "UserUpdate data w"; cases "fst (UserUpdate data w)") (auto dest: triple_Inr triple_Inl)
qed

definition user_world :: world where
  "user_world = empty_world\<lparr>w_users := [new_user\<lparr>obj_ID := ''u1'', obj_Name := ''ann'', us_Password := ''x''\<rparr>, new_user\<lparr>obj_ID := ''u2'', obj_Name := ''bob'', us_Password := ''y''\<rparr>]\<rparr>"

lemma user_update_ineffective_witness:
  "(case UserUpdate (new_user\<lparr>obj_ID := ''u2'', obj_Name := ''bill'', us_Password := ''z''\<rparr>) user_world of (Inr _, w) \<Rightarrow> True | _ \<Rightarrow> False) \<and>
   map profile (w_users (snd (UserUpdate (new_user\<lparr>obj_ID := ''u2'', obj_Name := ''bill'', us_Password := ''z''\<rparr>) user_world))) = map profile (w_users user_world)"
proof (rule conjI)
  show "case UserUpdate (new_user\<lparr>obj_ID := ''u2'', obj_Name := ''bill'', us_Password := ''z''\<rparr>) user_world of (Inr _, w) \<Rightarrow> True | _ \<Rightarrow> False"
    by code_simp
  have "keys_distinct (w_users user_world)" "\<forall>u \<in> set (w_users user_world). obj_ID u \<noteq> []" by code_simp+
  then show "map profile (w_users (snd (UserUpdate (new_user\<lparr>obj_ID := ''u2'', obj_Name := ''bill'', us_Password := ''z''\<rparr>) user_world))) = map profile (w_users user_world)"
    by (rule user_update_ineffective)
qed

text \<open>Names stay unique.\<close>

lemma user_requests_inv:
  "preserves user_inv (UserAdd E u)" "preserves user_inv (UserDelete i)" "preserves user_inv (UserGet i)" "preserves user_inv (UserList E q)"
proof -
  show "preserves user_inv (UserAdd E u)" unfolding UserAdd_def user_Add_def
    by (rule users_t.unique_create_preserves[OF user_inv_plain(1)]) (auto simp: user_inv_def keys_distinct_def)
  show "preserves user_inv (UserDelete i)" unfolding UserDelete_def user_Delete_def
    by (intro transaction_preserves[OF user_inv_plain(1)] preserves_bindE users_t.delete_preserves[OF user_inv_plain(1)] preserves_ret)
      (simp add: user_inv_def keys_distinct_filter distinct_map_filter)
  show "preserves user_inv (UserGet i)" unfolding UserGet_def user_Get_def by (rule users_t.find_into_preserves[OF user_inv_plain(1)])
  show "preserves user_inv (UserList E q)" unfolding UserList_def user_List_def by (rule users_t.page_preserves[OF user_inv_plain(1)])
qed

text \<open>
  The password check is exact: it answers a name only if the credentials name a user of the table and give the password that is stored for
  this user, and, with unique names and a database that answers, it accepts every such pair; otherwise the answer is the one error, the same for an
  unknown user and a wrong password, and nothing is written.
\<close>

theorem authenticate_exact:
  assumes "user_inv w"
  shows "(case Authenticate creds w of
      (Inr n, w') \<Rightarrow> \<exists>u \<in> set (w_users w). creds ''username'' = Some n \<and> obj_Name u = n \<and> creds ''password'' = Some (us_Password u)
    | (Inl e, w') \<Rightarrow> e = Errorf ''invalid credentials'' []) \<and>
    w_users (snd (Authenticate creds w)) = w_users w \<and>
    (healthy w \<longrightarrow> (\<forall>u \<in> set (w_users w). creds ''username'' = Some (obj_Name u) \<longrightarrow> creds ''password'' = Some (us_Password u) \<longrightarrow>
       fst (Authenticate creds w) = Inr (obj_Name u)))"
proof (cases "creds ''username''")
  case None
  then show ?thesis by (simp add: Authenticate_def)
next
  case (Some name)
  have same: "x = u" if "x \<in> set (w_users w)" "u \<in> set (w_users w)" "obj_Name x = obj_Name u" for x u
    using assms that unfolding user_inv_def by (metis distinct_map inj_onD)
  have run: "Authenticate creds w = (case attempt (db_first_by obj_ID users_tbl (\<lambda>u. obj_Name u = name)) w of
      (Inr (Inr u), v) \<Rightarrow> (if creds ''password'' = Some (us_Password u) then Inr (obj_Name u) else Inl (Errorf ''invalid credentials'' []), v)
    | (_, v) \<Rightarrow> (Inl (Errorf ''invalid credentials'' []), v))"
    using Some by (auto simp: Authenticate_def user_GetByName_def db_first_def bindE_def attempt_def split: prod.splits sum.splits option.splits)
  show ?thesis
  proof (cases rule: users_t.first_cases[of obj_ID "\<lambda>u. obj_Name u = name" w])
    case (fault fs)
    have "\<not> healthy w"
    proof
      assume "healthy w"
      then show False using fault by (simp add: db_first_by_def stmt_healthy split: option.splits)
    qed
    then show ?thesis using fault run by (simp add: attempt_def)
  next
    case (absent fs)
    then show ?thesis using run Some by (auto simp: attempt_def)
  next
    case (found fs u)
    have u: "u \<in> set (w_users w)" using found(2) by simp
    have name: "obj_Name u = name" using found(3) .
    have go: "Authenticate creds w = (if creds ''password'' = Some (us_Password u) then Inr name else Inl (Errorf ''invalid credentials'' []), w\<lparr>w_faults := fs\<rparr>)"
      unfolding run by (simp add: attempt_def found(1) name)
    have only: "x = u" if "x \<in> set (w_users w)" "Some name = Some (obj_Name x)" for x using same[OF that(1) u] that(2) name by simp
    show ?thesis
    proof (cases "creds ''password'' = Some (us_Password u)")
      case True
      then have ok: "Authenticate creds w = (Inr name, w\<lparr>w_faults := fs\<rparr>)" using go by simp
      have "\<exists>u \<in> set (w_users w). Some name = Some name \<and> obj_Name u = name \<and> creds ''password'' = Some (us_Password u)" using u name True by blast
      moreover have "\<forall>x \<in> set (w_users w). Some name = Some (obj_Name x) \<longrightarrow> creds ''password'' = Some (us_Password x) \<longrightarrow> Inr name = (Inr (obj_Name x) :: err + string)" by simp
      ultimately show ?thesis unfolding ok Some by simp
    next
      case False
      then have no: "Authenticate creds w = (Inl (Errorf ''invalid credentials'' []), w\<lparr>w_faults := fs\<rparr>)" using go by simp
      have "creds ''password'' \<noteq> Some (us_Password x)" if "x \<in> set (w_users w)" "Some name = Some (obj_Name x)" for x
        using only[OF that] False by blast
      then show ?thesis unfolding no Some by simp
    qed
  qed
qed

lemma authenticate_exact_witness:
  "user_inv user_world \<and> fst (Authenticate [''username'' \<mapsto> ''ann'', ''password'' \<mapsto> ''x''] user_world) = Inr ''ann''"
proof (rule conjI)
  show *: "user_inv user_world" by code_simp
  have "healthy user_world" by (simp add: user_world_def healthy_def empty_world_def)
  then show "fst (Authenticate [''username'' \<mapsto> ''ann'', ''password'' \<mapsto> ''x''] user_world) = Inr ''ann''"
    using authenticate_exact[OF *, of "[''username'' \<mapsto> ''ann'', ''password'' \<mapsto> ''x'']"] by (simp add: user_world_def)
qed

subsection \<open>One-time passwords\<close>

lemma hook_diverges: "UserOTP_BeforeCreate codes k obj = None"
proof -
  have False if "UserOTP_BeforeCreate codes k obj = Some d" for d
    by (rule UserOTP_BeforeCreate.raw_induct[where P = "\<lambda>_ _ _ _. False", OF _ that]) blast
  then show ?thesis by (cases "UserOTP_BeforeCreate codes k obj") auto
qed

lemma otp_create_fails: "otp_create E codes data = throw (Panic ''stack overflow'')"
  by (simp add: otp_create_def hook_diverges)

lemma otps_same_plain: "plain (\<lambda>w. w_otps w = ps)"
  by (rule plainI) simp

lemma otp_Add_never: "triple (\<lambda>w. w_otps w = ps) (otp_Add E codes data) (\<lambda>_ _. False) (\<lambda>w. w_otps w = ps)"
  unfolding otp_Add_def otp_create_fails
proof (rule transaction_triple[OF otps_same_plain])
  show "triple (\<lambda>w. w_otps w = ps) (bindE (CheckExists otps_tbl (\<lambda>p. uo_UserID p = uo_UserID data))
      (\<lambda>found. if found then throw (Errorf ''exists user id  with %v'' [uo_UserID data]) else throw (Panic ''stack overflow''))) (\<lambda>_ _. False) (\<lambda>_. True)"
    by (rule triple_bindE[where P = "\<lambda>_ _. True"]) (auto simp: triple_def)
qed (simp add: plain_def)

text \<open>
  C22. No one-time password can ever be enrolled. The hook that prepares a new row calls itself and does not return, for any row and any random
  codes; so the request for the address of a user's password adds no row, whatever statements fail, and when it answers, it is the address of
  a row that was there before.
\<close>

theorem otp_enrolment_never:
  "UserOTP_BeforeCreate codes k obj = None \<and>
   w_otps (snd (UserOTPGetOrAdd E codes uid w)) = w_otps w \<and>
   (case fst (UserOTPGetOrAdd E codes uid w) of
      Inl _ \<Rightarrow> True
    | Inr url \<Rightarrow> \<exists>p \<in> set (w_otps w). uo_UserID p = uid \<and> url = otp_url uid (uo_Secret p))"
proof (intro conjI hook_diverges)
  let ?I = "\<lambda>v. w_otps v = w_otps w"
  let ?Q = "\<lambda>url v. ?I v \<and> (\<exists>p \<in> set (w_otps w). uo_UserID p = uid \<and> url = otp_url uid (uo_Secret p))"
  have read: "triple ?I (attempt (otp_GetByUser uid)) (\<lambda>r v. ?I v \<and> (\<forall>p. r = Inr p \<longrightarrow> p \<in> set (w_otps w) \<and> uo_UserID p = uid)) ?I"
    unfolding otp_GetByUser_def db_first_def
    by (rule triple_mono[OF otps_t.first_attempt_triple[OF otps_same_plain]]) auto
  have add: "triple ?I (bindE (otp_Add E codes d) (\<lambda>_. ret x)) ?Q ?I" for d and x :: string
    by (rule triple_bindE[OF otp_Add_never]) (simp add: triple_def)
  have "triple ?I (UserOTPGetOrAdd E codes uid) ?Q ?I"
    unfolding UserOTPGetOrAdd_def
  proof (rule triple_bindE[OF read], rule triple_case_sum)
    fix r :: "err + user_otp" and e assume "r = Inl e"
    show "triple (\<lambda>v. ?I v \<and> (\<forall>p. r = Inr p \<longrightarrow> p \<in> set (w_otps w) \<and> uo_UserID p = uid))
       (if e \<noteq> RecordNotFound then throw e
         else (case e_totp E uid of
           None \<Rightarrow> throw StoreFailure
         | Some secret \<Rightarrow> bindE (otp_Add E codes (new_otp\<lparr>uo_UserID := uid, uo_Secret := secret\<rparr>)) (\<lambda>_. ret (otp_url uid secret)))) ?Q ?I"
      by (rule triple_mono[where I = ?I and Q = ?Q and R = ?I], intro triple_if triple_case_option add triple_throw) auto
  next
    fix r :: "err + user_otp" and p assume "r = Inr p"
    then show "triple (\<lambda>v. ?I v \<and> (\<forall>p. r = Inr p \<longrightarrow> p \<in> set (w_otps w) \<and> uo_UserID p = uid)) (ret (otp_url uid (uo_Secret p))) ?Q ?I"
      by (auto intro!: triple_ret)
  qed
  moreover obtain r w' where run: "UserOTPGetOrAdd E codes uid w = (r, w')" by (cases "UserOTPGetOrAdd E codes uid w")
  ultimately have "?I w' \<and> (case r of Inl _ \<Rightarrow> True | Inr url \<Rightarrow> \<exists>p \<in> set (w_otps w). uo_UserID p = uid \<and> url = otp_url uid (uo_Secret p))"
    by (cases r) (auto dest: triple_Inr triple_Inl)
  then show "w_otps (snd (UserOTPGetOrAdd E codes uid w)) = w_otps w"
    "case fst (UserOTPGetOrAdd E codes uid w) of Inl _ \<Rightarrow> True | Inr url \<Rightarrow> \<exists>p \<in> set (w_otps w). uo_UserID p = uid \<and> url = otp_url uid (uo_Secret p)"
    using run by simp_all
qed

subsection \<open>One-time tokens\<close>

lemma token_ttl_exact:
  "token_ttl k = (if ot_TTLSeconds k \<le> 0 then 300000000000 else wrap64 (ot_TTLSeconds k * 1000000000))"
  by (simp add: token_ttl_def defaultOttTTL_def)

lemma token_ttl_fits: "0 < ot_TTLSeconds k \<Longrightarrow> ot_TTLSeconds k \<le> 9223372036 \<Longrightarrow> token_ttl k = ot_TTLSeconds k * 1000000000"
  unfolding token_ttl_exact by (simp add: wrap64_id int64_range_def)

lemma ott_Add_result:
  assumes add: "ott_Add E data w = (Inr k, w1)"
  obtains k0 where "w_otts w1 = w_otts w @ [k0]" "obj_ID k0 = obj_ID k" "ot_Payload k0 = ot_Payload data"
    "ot_PayloadHash k0 = e_sha512 E (ot_Payload data)" "ot_ExpiresAt k0 = w_now w + token_ttl data" "ot_Used k0 = ot_Used data"
    "obj_Name k0 = obj_Name data" "ot_Type k0 = ot_Type data"
proof -
  let ?body = "bindE (db_create E (OneTimeToken_BeforeCreate E) otts_tbl data) (\<lambda>k. ret (k\<lparr>ot_TTLSeconds := ot_TTLSeconds data\<rparr>))"
  show ?thesis
  proof (cases rule: transaction_cases[of ?body w])
    case (failed e fs u)
    then show ?thesis using add by (simp add: ott_Add_def)
  next
    case (committed x v fs)
    from committed(1) obtain k0 where c: "db_create E (OneTimeToken_BeforeCreate E) otts_tbl data (w\<lparr>w_tx := Some True\<rparr>) = (Inr k0, v)"
      and x: "x = k0\<lparr>ot_TTLSeconds := ot_TTLSeconds data\<rparr>" by (auto elim!: bindE_Inr_elim)
    from c obtain u where k0: "k0 = OneTimeToken_BeforeCreate E (BeforeCreate u (w_now w) data)" and v: "w_otts v = w_otts w @ [k0]"
      by (rule otts_t.create_result) auto
    have "k = x" "w_otts w1 = w_otts v" using committed(2) add by (auto simp: ott_Add_def)
    then show ?thesis using v x
      by (intro that[of k0]) (simp_all add: k0 OneTimeToken_BeforeCreate_def BeforeCreate_def token_ttl_def)
  qed
qed

text \<open>
  C23. A one-time token lives exactly as long as asked for, five minutes by default: when a token with a new payload is added and, a time \<open>d\<close> later,
  the expired tokens are cleaned up, then a search by the hash of the payload finds this token just if \<open>d\<close> is at most the lifetime. Up to 9223372036 seconds
  the lifetime is what the request says; one second more overflows the 64 bits and the token is expired when it is made.
\<close>

theorem token_lifetime:
  assumes add: "ott_Add E data w = (Inr k, w1)" and new: "\<forall>t \<in> set (w_otts w). ot_PayloadHash t \<noteq> e_sha512 E (ot_Payload data)"
    and unused: "\<not> ot_Used data"
    and clean: "ott_CleanupExpiredTokens (w1\<lparr>w_now := w_now w + d\<rparr>) = (Inr (), w2)"
  shows "(case fst (ott_GetByHash (e_sha512 E (ot_Payload data)) w2) of
      Inr t \<Rightarrow> d \<le> token_ttl data \<and> obj_ID t = obj_ID k \<and> ot_Payload t = ot_Payload data
    | Inl e \<Rightarrow> e = RecordNotFound \<longrightarrow> token_ttl data < d) \<and>
    (ot_TTLSeconds data \<le> 0 \<longrightarrow> token_ttl data = 5 * 60 * 10 ^ 9) \<and>
    (0 < ot_TTLSeconds data \<longrightarrow> ot_TTLSeconds data \<le> 9223372036 \<longrightarrow> token_ttl data = ot_TTLSeconds data * 10 ^ 9) \<and>
    (ot_TTLSeconds data = 9223372037 \<longrightarrow> token_ttl data < 0)"
proof (intro conjI impI)
  let ?hash = "e_sha512 E (ot_Payload data)"
  from add obtain k0 where rows: "w_otts w1 = w_otts w @ [k0]" and id: "obj_ID k0 = obj_ID k" and pay: "ot_Payload k0 = ot_Payload data"
    and hash: "ot_PayloadHash k0 = ?hash" and exp: "ot_ExpiresAt k0 = w_now w + token_ttl data" and used: "\<not> ot_Used k0"
    by (rule ott_Add_result) (simp add: unused)
  have left: "w_otts w2 = filter (\<lambda>t. \<not> (ot_ExpiresAt t < w_now w + d \<or> ot_Used t)) (w_otts w @ [k0])"
  proof -
    from clean obtain n where "db_delete otts_tbl (\<lambda>t. ot_ExpiresAt t < w_now w + d \<or> ot_Used t) (w1\<lparr>w_now := w_now w + d\<rparr>) = (Inr n, w2)"
      by (auto simp: ott_CleanupExpiredTokens_def elim!: bindE_Inr_elim)
    then show ?thesis by (rule otts_t.delete_result) (simp add: rows)
  qed
  have k0: "k0 \<in> set (w_otts w2) \<longleftrightarrow> d \<le> token_ttl data" using new hash used exp by (auto simp: left)
  have only: "t = k0" if "t \<in> set (w_otts w2)" "ot_PayloadHash t = ?hash" for t using that new by (auto simp: left split: if_splits)
  show "case fst (ott_GetByHash ?hash w2) of
      Inr t \<Rightarrow> d \<le> token_ttl data \<and> obj_ID t = obj_ID k \<and> ot_Payload t = ot_Payload data | Inl e \<Rightarrow> e = RecordNotFound \<longrightarrow> token_ttl data < d"
  proof (cases rule: otts_t.first_cases[of obj_ID "\<lambda>t. ot_PayloadHash t = ?hash" w2])
    case (absent fs)
    then have "k0 \<notin> set (w_otts w2)" using hash by auto
    then show ?thesis using absent k0 by (simp add: ott_GetByHash_def db_first_def)
  next
    case (found fs t)
    then have "t = k0" using only by simp
    then show ?thesis using found k0 id pay by (simp add: ott_GetByHash_def db_first_def)
  qed (simp add: ott_GetByHash_def db_first_def)
  show "token_ttl data = 5 * 60 * 10 ^ 9" if "ot_TTLSeconds data \<le> 0" using that by (simp add: token_ttl_exact)
  show "token_ttl data = ot_TTLSeconds data * 10 ^ 9" if "0 < ot_TTLSeconds data" "ot_TTLSeconds data \<le> 9223372036"
    using token_ttl_fits[OF that] by simp
  show "token_ttl data < 0" if "ot_TTLSeconds data = 9223372037" using that by (simp add: token_ttl_exact wrap64_def)
qed

definition token_request :: one_time_token where
  "token_request = new_token\<lparr>ot_Type := ''saml'', ot_TTLSeconds := 60, ot_Payload := ''p''\<rparr>"

lemma sample_token:
  "case ott_Add sample_env token_request empty_world of
     (Inr k, w) \<Rightarrow> (case ott_CleanupExpiredTokens (w\<lparr>w_now := w_now empty_world + 1000\<rparr>) of (Inr _, _) \<Rightarrow> True | _ \<Rightarrow> False)
   | _ \<Rightarrow> False"
  by code_simp

lemma token_lifetime_witness:
  "\<exists>k w1 w2. ott_Add sample_env token_request empty_world = (Inr k, w1) \<and>
     ott_CleanupExpiredTokens (w1\<lparr>w_now := w_now empty_world + 1000\<rparr>) = (Inr (), w2) \<and>
     (case fst (ott_GetByHash (e_sha512 sample_env (ot_Payload token_request)) w2) of Inr t \<Rightarrow> obj_ID t = obj_ID k | Inl e \<Rightarrow> e \<noteq> RecordNotFound)"
proof -
  obtain k w1 w2 where add: "ott_Add sample_env token_request empty_world = (Inr k, w1)"
    and clean: "ott_CleanupExpiredTokens (w1\<lparr>w_now := w_now empty_world + 1000\<rparr>) = (Inr (), w2)"
    using sample_token by (auto split: prod.splits sum.splits)
  have new: "\<forall>t \<in> set (w_otts empty_world). ot_PayloadHash t \<noteq> e_sha512 sample_env (ot_Payload token_request)"
    by (simp add: empty_world_def)
  have req: "\<not> ot_Used token_request" "ot_TTLSeconds token_request = 60"
    by (simp_all add: token_request_def new_token_def object_meta.defs one_time_token.defs)
  from token_lifetime[OF add new req(1) clean] req(2) show ?thesis using add clean
    by (auto split: sum.splits)
qed

subsection \<open>Settings\<close>

definition settings_inv :: "setting list \<Rightarrow> bool" where
  "settings_inv ss \<longleftrightarrow> keys_distinct ss \<and> distinct (map obj_Name ss)"

text \<open>What an upsert makes of a setting with the name.\<close>

definition upserted :: "time \<Rightarrow> setting \<Rightarrow> setting \<Rightarrow> setting" where
  "upserted now data old = merge_meta (BeforeUpdate now (old\<lparr>obj_Extend := obj_Extend data, obj_Description := obj_Description data\<rparr>)) old"

lemma upserted_simps [simp]:
  "obj_ID (upserted now data old) = obj_ID old" "obj_Name (upserted now data old) = obj_Name old" "obj_Extend (upserted now data old) = obj_Extend data"
  "obj_Description (upserted now data old) = (if obj_Description data = [] then obj_Description old else obj_Description data)"
  by (simp_all add: upserted_def merge_meta_def BeforeUpdate_def unless_zero_def)

lemma setting_Upsert_triple:
  assumes inv: "settings_inv ss"
  shows "triple (\<lambda>w. w_settings w = ss) (setting_Upsert E data)
    (\<lambda>s w. obj_Name s = obj_Name data \<and> obj_Extend s = obj_Extend data \<and> obj_Description s = obj_Description data \<and>
      ((\<forall>x \<in> set ss. obj_Name x \<noteq> obj_Name data) \<and> obj_ID s \<notin> obj_ID ` set ss \<and> w_settings w = ss @ [s] \<or>
       (\<exists>now. (\<exists>x \<in> set ss. obj_Name x = obj_Name data) \<and> w_settings w = map (\<lambda>x. if obj_Name x = obj_Name data then upserted now data x else x) ss)))
    (\<lambda>w. w_settings w = ss)"
    (is "triple ?I _ ?Q ?I")
  unfolding setting_Upsert_def
proof (rule transaction_triple)
  show I: "plain ?I" and "\<And>s. plain (?Q s)" by (rule plainI; simp)+
  let ?P = "\<lambda>s. obj_Name s = obj_Name data"
  let ?J = "\<lambda>r w. ?I w \<and> (case r of Inr x \<Rightarrow> x \<in> set ss \<and> ?P x | Inl e \<Rightarrow> e = RecordNotFound \<longrightarrow> (\<forall>x \<in> set ss. \<not> ?P x))"
  have read: "triple ?I (attempt (db_first settings_tbl ?P)) ?J (\<lambda>_. True)"
    unfolding db_first_def by (rule triple_mono[OF settings_t.first_attempt_triple[OF I]]) (auto split: sum.splits)
  have create: "triple (?J (Inl RecordNotFound)) (db_create E id settings_tbl data) ?Q (\<lambda>_. True)"
  proof (rule tripleI)
    fix w s w' assume w: "?J (Inl RecordNotFound) w" and run: "db_create E id settings_tbl data w = (Inr s, w')"
    from run show "?Q s w'"
      by (rule settings_t.create_result) (use w in \<open>auto simp: BeforeCreate_def Let_def\<close>)
  qed simp
  have update: "triple (?J (Inr x)) (db_updates settings_tbl merge_meta (obj_ID x) (x\<lparr>obj_Extend := obj_Extend data, obj_Description := obj_Description data\<rparr>)) ?Q (\<lambda>_. True)" for x
  proof (rule tripleI)
    let ?new = "x\<lparr>obj_Extend := obj_Extend data, obj_Description := obj_Description data\<rparr>"
    fix w s w' assume w: "?J (Inr x) w" and run: "db_updates settings_tbl merge_meta (obj_ID x) ?new w = (Inr s, w')"
    have x: "x \<in> set ss" "?P x" using w by auto
    have one: "(obj_ID y = obj_ID x) = ?P y" "?P y \<Longrightarrow> y = x" if "y \<in> set ss" for y
      using inv x that unfolding settings_inv_def keys_distinct_def by (metis distinct_map inj_onD)+
    from run have s: "s = BeforeUpdate (w_now w) ?new"
      and w': "w_settings w' = map (\<lambda>y. if obj_ID y = obj_ID x \<and> (obj_ID x \<noteq> [] \<longrightarrow> obj_ID y = obj_ID x) then merge_meta s y else y) ss"
      by (rule settings_t.updates_result; use w in simp)+
    have "w_settings w' = map (\<lambda>y. if ?P y then upserted (w_now w) data y else y) ss"
      unfolding w' s by (rule map_cong[OF refl]) (use one in \<open>auto simp: upserted_def\<close>)
    moreover have "\<exists>x \<in> set ss. ?P x" using x by blast
    moreover have "obj_Extend s = obj_Extend data \<and> obj_Description s = obj_Description data" by (simp add: s BeforeUpdate_def)
    ultimately show "?Q s w'" using x s by auto
  qed simp
  show "triple ?I (bindE (attempt (db_first settings_tbl ?P)) (\<lambda>r. case r of
        Inl e \<Rightarrow> if e = RecordNotFound then db_create E id settings_tbl data else throw e
      | Inr found \<Rightarrow> let result = found\<lparr>obj_Extend := obj_Extend data, obj_Description := obj_Description data\<rparr>
          in db_updates settings_tbl merge_meta (obj_ID result) result)) ?Q (\<lambda>_. True)"
  proof (rule triple_bindE[OF read], rule triple_case_sum)
    fix r :: "err + setting" and e assume "r = Inl e"
    then show "triple (?J r) (if e = RecordNotFound then db_create E id settings_tbl data else throw e) ?Q (\<lambda>_. True)"
      using create by (auto intro!: triple_throw)
  next
    fix r :: "err + setting" and x assume "r = Inr x"
    then show "triple (?J r) (let result = x\<lparr>obj_Extend := obj_Extend data, obj_Description := obj_Description data\<rparr>
          in db_updates settings_tbl merge_meta (obj_ID result) result) ?Q (\<lambda>_. True)"
      using update by (simp add: Let_def)
  qed
qed

lemma settings_inv_upserted:
  "settings_inv ss \<Longrightarrow> settings_inv (map (\<lambda>x. if P x then upserted now data x else x) ss)"
  "filter (\<lambda>x. obj_Name x \<noteq> obj_Name data) (map (\<lambda>x. if obj_Name x = obj_Name data then upserted now data x else x) ss) =
     filter (\<lambda>x. obj_Name x \<noteq> obj_Name data) ss"
proof -
  have ids: "map obj_ID (map (\<lambda>x. if P x then upserted now data x else x) ss) = map obj_ID ss"
    and names: "map obj_Name (map (\<lambda>x. if P x then upserted now data x else x) ss) = map obj_Name ss"
    by (induction ss) auto
  then show "settings_inv ss \<Longrightarrow> settings_inv (map (\<lambda>x. if P x then upserted now data x else x) ss)"
    unfolding settings_inv_def keys_distinct_def by (simp only:)
qed (induction ss; simp)

text \<open>
  An upsert of a setting creates it when no setting has the name and writes the one that has it otherwise: names and identifiers stay unique, no
  other setting changes, and on an error none does. On success the row has the extension of the request and the answer shows its extension and
  description; but an empty description does not reach the row, which keeps the old one.
\<close>

theorem setting_upsert_exact:
  assumes inv: "settings_inv (w_settings w)" and run: "setting_Upsert E data w = (r, w')"
  shows "settings_inv (w_settings w') \<and>
    filter (\<lambda>x. obj_Name x \<noteq> obj_Name data) (w_settings w') = filter (\<lambda>x. obj_Name x \<noteq> obj_Name data) (w_settings w) \<and>
    (case r of
      Inl _ \<Rightarrow> w_settings w' = w_settings w
    | Inr s \<Rightarrow> obj_Extend s = obj_Extend data \<and> obj_Description s = obj_Description data \<and>
       (\<exists>x \<in> set (w_settings w'). obj_Name x = obj_Name data \<and> obj_Extend x = obj_Extend data \<and>
          (obj_Description data \<noteq> [] \<longrightarrow> obj_Description x = obj_Description data) \<and>
          (obj_Description data = [] \<longrightarrow> (\<forall>y \<in> set (w_settings w). obj_Name y = obj_Name data \<longrightarrow> obj_Description x = obj_Description y))))"
proof (cases r)
  case (Inl e)
  have "w_settings w' = w_settings w" by (rule triple_Inl[OF setting_Upsert_triple[OF inv] refl run[unfolded Inl]])
  then show ?thesis using inv Inl by simp
next
  case (Inr s)
  note post = triple_Inr[OF setting_Upsert_triple[OF inv] refl run[unfolded Inr]]
  from post consider (made) "\<forall>x \<in> set (w_settings w). obj_Name x \<noteq> obj_Name data" "obj_ID s \<notin> obj_ID ` set (w_settings w)" "w_settings w' = w_settings w @ [s]"
    | (changed) now where "\<exists>x \<in> set (w_settings w). obj_Name x = obj_Name data"
        "w_settings w' = map (\<lambda>x. if obj_Name x = obj_Name data then upserted now data x else x) (w_settings w)"
    by blast
  then show ?thesis
  proof cases
    case made
    then show ?thesis using inv post Inr by (auto simp: settings_inv_def keys_distinct_def)
  next
    case (changed now)
    then obtain y where y: "y \<in> set (w_settings w)" "obj_Name y = obj_Name data" by blast
    have only: "z = y" if "z \<in> set (w_settings w)" "obj_Name z = obj_Name data" for z
      using inv y that unfolding settings_inv_def by (metis distinct_map inj_onD)
    have "upserted now data y \<in> set (w_settings w')" unfolding changed(2) using y by force
    then have "\<exists>x \<in> set (w_settings w'). obj_Name x = obj_Name data \<and> obj_Extend x = obj_Extend data \<and>
          (obj_Description data \<noteq> [] \<longrightarrow> obj_Description x = obj_Description data) \<and>
          (obj_Description data = [] \<longrightarrow> (\<forall>y \<in> set (w_settings w). obj_Name y = obj_Name data \<longrightarrow> obj_Description x = obj_Description y))"
      by (rule bexI[rotated]) (use y(2) only in auto)
    then show ?thesis using post settings_inv_upserted inv Inr unfolding changed(2) by simp
  qed
qed

definition setting_world :: world where
  "setting_world = empty_world\<lparr>w_settings := [new_meta\<lparr>obj_ID := ''s1'', obj_Name := ''saml_idp'', obj_Description := ''old''\<rparr>]\<rparr>"

lemma sample_setting_upsert:
  "case setting_Upsert sample_env (new_meta\<lparr>obj_Name := ''saml_idp'', obj_Extend := Some [''key'' \<mapsto> AStr ''k'']\<rparr>) setting_world of
     (Inr s, w) \<Rightarrow> True | _ \<Rightarrow> False"
  by code_simp

lemma setting_upsert_exact_witness:
  "\<exists>s w'. setting_Upsert sample_env (new_meta\<lparr>obj_Name := ''saml_idp'', obj_Extend := Some [''key'' \<mapsto> AStr ''k'']\<rparr>) setting_world = (Inr s, w') \<and>
     obj_Description s = [] \<and> (\<exists>x \<in> set (w_settings w'). obj_Description x = ''old'' \<and> obj_Extend x = Some [''key'' \<mapsto> AStr ''k''])"
proof -
  obtain s w' where run: "setting_Upsert sample_env (new_meta\<lparr>obj_Name := ''saml_idp'', obj_Extend := Some [''key'' \<mapsto> AStr ''k'']\<rparr>) setting_world = (Inr s, w')"
    using sample_setting_upsert by (auto split: prod.splits sum.splits)
  have "settings_inv (w_settings setting_world)" by code_simp
  from setting_upsert_exact[OF this run] show ?thesis using run by (auto simp: setting_world_def new_meta_def)
qed

end
