(* ===== verification/GoUrl.thy ===== *)
theory GoUrl
  imports GoStrings "HOL-Library.List_Lexorder" "HOL-Library.Char_ord"
begin

text \<open>
  What the sources use of \<open>net/url\<close> and \<open>encoding/base64\<close>: escaping of query values and path segments, \<open>Values.Encode\<close>, and the
  standard base64 encoding. A reader of query strings says what the encoding means.
\<close>

subsection \<open>Escaping\<close>

definition hex_digit :: "nat \<Rightarrow> char" where
  "hex_digit n = ''0123456789ABCDEF'' ! n"

definition unhex :: "char \<Rightarrow> nat" where
  "unhex c = (let n = byte c in if n < 58 then n - 48 else n - 55)"

definition unreserved :: "char \<Rightarrow> bool" where
  "unreserved c \<longleftrightarrow> (let n = byte c in 48 \<le> n \<and> n \<le> 57 \<or> 65 \<le> n \<and> n \<le> 90 \<or> 97 \<le> n \<and> n \<le> 122) \<or> c \<in> set ''-_.~''"

definition percent :: "char \<Rightarrow> string" where
  "percent c = [CHR ''%'', hex_digit (byte c div 16), hex_digit (byte c mod 16)]"

definition QueryEscape :: "string \<Rightarrow> string" where
  "QueryEscape s = concat (map (\<lambda>c. if c = CHR '' '' then ''+'' else if unreserved c then [c] else percent c) s)"

definition PathEscape :: "string \<Rightarrow> string" where
  "PathEscape s = concat (map (\<lambda>c. if unreserved c \<or> c \<in> set ''$&+=:@'' then [c] else percent c) s)"

text \<open>\<open>url.Values\<close> with one value for each key, and \<open>Values.Encode\<close>, which sorts by key.\<close>

definition Set_value :: "string \<Rightarrow> string \<Rightarrow> (string \<times> string) list \<Rightarrow> (string \<times> string) list" where
  "Set_value k v vs = filter (\<lambda>kv. fst kv \<noteq> k) vs @ [(k, v)]"

definition Encode_pairs :: "(string \<times> string) list \<Rightarrow> string" where
  "Encode_pairs vs = Join (map (\<lambda>(k, v). QueryEscape k @ ''='' @ QueryEscape v) vs) ''&''"

definition Encode :: "(string \<times> string) list \<Rightarrow> string" where
  "Encode vs = Encode_pairs (sort_key fst vs)"

subsection \<open>Reading a query string\<close>

fun unescape :: "string \<Rightarrow> string" where
  "unescape [] = []"
| "unescape (c # s) =
     (if c = CHR ''+'' then CHR '' '' # unescape s
      else if c = CHR ''%'' then (case s of a # b # s' \<Rightarrow> char_of (unhex a * 16 + unhex b) # unescape s' | _ \<Rightarrow> [])
      else c # unescape s)"

definition parse_pair :: "string \<Rightarrow> string \<times> string" where
  "parse_pair p = (unescape (takeWhile (\<lambda>c. c \<noteq> CHR ''='') p), unescape (drop 1 (dropWhile (\<lambda>c. c \<noteq> CHR ''='') p)))"

definition parse_query :: "string \<Rightarrow> (string \<times> string) list" where
  "parse_query s = (if s = [] then [] else map parse_pair (Split (CHR ''&'') s))"

lemma unhex_hex: "n < 16 \<Longrightarrow> unhex (hex_digit n) = n"
proof -
  have "\<forall>n \<in> set [0..<16]. unhex (hex_digit n) = n" by code_simp
  then show "n < 16 \<Longrightarrow> unhex (hex_digit n) = n" by simp
qed

lemma hex_plain: "n < 16 \<Longrightarrow> hex_digit n \<notin> set ''&=%+ ''"
proof -
  have "\<forall>n \<in> set [0..<16]. hex_digit n \<notin> set ''&=%+ ''" by code_simp
  then show "n < 16 \<Longrightarrow> hex_digit n \<notin> set ''&=%+ ''" by (metis atLeastLessThan_iff le0 set_upt)
qed

lemma byte_range: "byte c < 256" "char_of (byte c) = c"
  unfolding byte_def by simp_all

lemma byte_digits: "byte c div 16 < 16" "byte c mod 16 < 16"
proof -
  have "byte c < 16 * 16" using byte_range(1)[of c] by simp
  then show "byte c div 16 < 16" by (rule less_mult_imp_div_less)
qed simp

lemma unreserved_plain: "unreserved c \<Longrightarrow> c \<notin> set ''&=%+ ''"
  by (auto simp: unreserved_def Let_def byte_def)

lemma unescape_percent: "unescape (percent c @ s) = c # unescape s"
proof -
  note d = byte_digits[of c]
  have "char_of (unhex (hex_digit (byte c div 16)) * 16 + unhex (hex_digit (byte c mod 16))) = c"
    unfolding unhex_hex[OF d(1)] unhex_hex[OF d(2)] using byte_range(2)[of c] by (simp add: div_mult_mod_eq mult.commute)
  then show ?thesis by (simp add: percent_def)
qed

lemma unescape_QueryEscape: "unescape (QueryEscape s) = s"
proof (induction s)
  case (Cons c s)
  let ?e = "if c = CHR '' '' then ''+'' else if unreserved c then [c] else percent c"
  have "QueryEscape (c # s) = ?e @ QueryEscape s" by (simp add: QueryEscape_def)
  moreover have "unescape (?e @ QueryEscape s) = c # unescape (QueryEscape s)"
    using unreserved_plain[of c] by (simp add: unescape_percent)
  ultimately show ?case using Cons by simp
qed (simp add: QueryEscape_def)

lemma QueryEscape_plain: "CHR ''&'' \<notin> set (QueryEscape s)" "CHR ''='' \<notin> set (QueryEscape s)"
proof -
  have p: "CHR ''&'' \<notin> set (percent c)" "CHR ''='' \<notin> set (percent c)" for c
    using byte_digits[of c, THEN hex_plain] by (auto simp: percent_def)
  show "CHR ''&'' \<notin> set (QueryEscape s)" "CHR ''='' \<notin> set (QueryEscape s)"
    using p unreserved_plain by (auto simp: QueryEscape_def split: if_splits)
qed

lemma parse_pair_escaped: "parse_pair (QueryEscape k @ ''='' @ QueryEscape v) = (k, v)"
proof -
  let ?P = "\<lambda>c. c \<noteq> CHR ''=''"
  have "\<forall>c \<in> set (QueryEscape k). ?P c" using QueryEscape_plain(2) by auto
  then have "takeWhile ?P (QueryEscape k @ ''='' @ QueryEscape v) = QueryEscape k"
    "dropWhile ?P (QueryEscape k @ ''='' @ QueryEscape v) = ''='' @ QueryEscape v" by simp_all
  then show ?thesis by (simp add: parse_pair_def unescape_QueryEscape)
qed

text \<open>A query string that was encoded reads as the pairs it was made from, whatever bytes they contain.\<close>

lemma parse_encoded: "parse_query (Encode_pairs vs) = vs"
proof (cases "vs = []")
  case True
  then show ?thesis by (simp add: Encode_pairs_def parse_query_def)
next
  case False
  let ?ps = "map (\<lambda>(k, v). QueryEscape k @ ''='' @ QueryEscape v) vs"
  have no: "\<forall>p \<in> set ?ps. CHR ''&'' \<notin> set p" using QueryEscape_plain by auto
  have "Join ?ps ''&'' \<noteq> []"
  proof (cases vs)
    case (Cons kv vs')
    then show ?thesis by (cases vs') (auto split: prod.splits)
  qed (use False in simp)
  moreover have "Split (CHR ''&'') (Join ?ps ''&'') = ?ps" using no False by (intro Split_Join) auto
  moreover have "map parse_pair ?ps = vs" using parse_pair_escaped by (induction vs) auto
  ultimately show ?thesis by (simp only: Encode_pairs_def parse_query_def if_False)
qed

subsection \<open>Base64\<close>

definition base64_digit :: "nat \<Rightarrow> char" where
  "base64_digit n = ''ABCDEFGHIJKLMNOPQRSTUVWXYZabcdefghijklmnopqrstuvwxyz0123456789+/'' ! n"

fun base64 :: "string \<Rightarrow> string" where
  "base64 (a # b # c # s) =
     [base64_digit (byte a div 4), base64_digit (byte a mod 4 * 16 + byte b div 16), base64_digit (byte b mod 16 * 4 + byte c div 64),
      base64_digit (byte c mod 64)] @ base64 s"
| "base64 [a, b] = [base64_digit (byte a div 4), base64_digit (byte a mod 4 * 16 + byte b div 16), base64_digit (byte b mod 16 * 4), CHR ''='']"
| "base64 [a] = [base64_digit (byte a div 4), base64_digit (byte a mod 4 * 16), CHR ''='', CHR ''='']"
| "base64 [] = []"

end
