(* ===== verification/Sso.thy ===== *)
theory Sso
  imports Identity GoUrl
begin

text \<open>
  Single sign-on apart from SAML assertions: identity providers and service providers (\<open>meta_sso.go\<close>), their stores
  \<open>sso_idp.go\<close> and \<open>sso_sp.go\<close>, the services over them, the OAuth2 requests in both roles, and the certificates of the two
  SAML roles in the settings.
\<close>

subsection \<open>Library values\<close>

text \<open>What the code reads and writes of the metadata types of \<open>crewjam/saml\<close>.\<close>

record endpoint =
  ie_Binding :: string
  ie_Location :: string
  ie_Index :: int
  ie_IsDefault :: "bool option"

record requested_attribute =
  ra_FriendlyName :: string
  ra_Name :: string
  ra_NameFormat :: string

record attribute_service =
  cs_IsDefault :: "bool option"
  cs_Requested :: "requested_attribute list"

record key_descriptor =
  kd_Use :: string
  kd_Certificates :: "string list"
  kd_Methods :: "string list"

record sp_descriptor =
  sd_Keys :: "key_descriptor list"
  sd_NameIDFormats :: "string list"
  sd_Services :: "endpoint list"
  sd_AttributeServices :: "attribute_service list"

record idp_descriptor =
  id_WantSigned :: "bool option"
  id_Keys :: "key_descriptor list"
  id_NameIDFormats :: "string list"
  id_SingleSignOn :: "(string \<times> string) list"

record entity =
  en_EntityID :: string
  en_ValidUntil :: time
  en_IDP :: "idp_descriptor list"
  en_SP :: "sp_descriptor list"

text \<open>A certificate with its bytes, the kind of key that belongs to it, and whether the parser fills in the leaf of the pair.\<close>

record certificate =
  ce_Raw :: string
  ce_RSA :: bool
  ce_Leaf :: bool

record token_response =
  tr_AccessToken :: string
  tr_TokenType :: string
  tr_ExpiresIn :: int
  tr_RefreshToken :: string
  tr_Scope :: string

text \<open>
  The functions of other libraries. \<open>json.Unmarshal\<close> of an extension into a pointer to a struct is an error (\<open>None\<close>), the nil pointer
  (of a JSON null) or a struct; \<open>json.ToString\<close> gives text. \<open>so_any_prefix x ps\<close> is \<open>sets.NewString(x).HasAnyPrefix(ps...)\<close>,
  \<open>so_prefixed\<close> is \<open>stringutil.HasAnyPrefix\<close>, \<open>so_zero_count\<close> is \<open>sliceutil.ZeroCount\<close>. \<open>so_cert\<close> parses a certificate and a key,
  \<open>so_jwt\<close> signs a tracked request. \<open>so_get\<close> and \<open>so_post\<close> are HTTP requests without redirects, \<open>so_exchange\<close> a POST with query parameters that
  decodes a token. URLs are their texts: \<open>so_url\<close> parses, \<open>so_resolve\<close> resolves a path against one.
\<close>

record sso =
  so_saml_idp :: "gomap option \<Rightarrow> string option option"
  so_oauth2_idp :: "gomap option \<Rightarrow> oauth2_idp option option"
  so_saml_sp :: "gomap option \<Rightarrow> saml_sp option option"
  so_oauth2_sp :: "gomap option \<Rightarrow> oauth2_sp option option"
  so_saml_idp_text :: "string \<Rightarrow> string"
  so_oauth2_idp_text :: "oauth2_idp \<Rightarrow> string"
  so_any_prefix :: "string \<Rightarrow> string list \<Rightarrow> bool"
  so_prefixed :: "string \<Rightarrow> string list \<Rightarrow> bool"
  so_zero_count :: "string list \<Rightarrow> int"
  so_metadata :: "string \<Rightarrow> entity option"
  so_cert :: "string \<Rightarrow> string \<Rightarrow> string + certificate"
  so_jwt :: "string \<Rightarrow> string option"
  so_get :: "string \<Rightarrow> string option"
  so_post :: "string \<Rightarrow> string \<Rightarrow> (int \<times> string) option"
  so_exchange :: "string \<Rightarrow> (string \<times> string) list \<Rightarrow> token_response option"
  so_url :: "string \<Rightarrow> string option"
  so_resolve :: "string \<Rightarrow> string \<Rightarrow> string"

subsection \<open>Identity providers\<close>

definition SSOProtocolSAML :: string where
  "SSOProtocolSAML = ''saml''"

definition SSOProtocolOAUTH2 :: string where
  "SSOProtocolOAUTH2 = ''oauth2''"

text \<open>What the two protocols' structs are as JSON values: their fields under the names of the tags.\<close>

definition saml_idp_any :: "string \<Rightarrow> any" where
  "saml_idp_any md = AObj [''metadata'' \<mapsto> AStr md]"

definition oauth2_idp_any :: "oauth2_idp \<Rightarrow> any" where
  "oauth2_idp_any o2 = AObj [''authorize_uri'' \<mapsto> AStr (oi_AuthorizeURI o2), ''token_uri'' \<mapsto> AStr (oi_TokenURI o2),
     ''user_info_uri'' \<mapsto> AStr (oi_UserInfoURI o2), ''user_name_field'' \<mapsto> AStr (oi_UserNameField o2),
     ''client_id'' \<mapsto> AStr (oi_ClientID o2), ''client_secret'' \<mapsto> AStr (oi_ClientSecret o2), ''scopes'' \<mapsto> AArr (map AStr (oi_Scopes o2))]"

definition saml_sp_any :: "saml_sp \<Rightarrow> any" where
  "saml_sp_any s = AObj [''key'' \<mapsto> AStr (ss_Key s), ''metadata'' \<mapsto> AStr (ss_Metadata s)]"

definition oauth2_sp_any :: "oauth2_sp \<Rightarrow> any" where
  "oauth2_sp_any o2 = AObj [''redirect_uris'' \<mapsto> AArr (map AStr (os_RedirectURIs o2)), ''string'' \<mapsto> AStr (os_Type o2),
     ''client_id'' \<mapsto> AStr (os_ClientID o2), ''client_secret'' \<mapsto> AStr (os_ClientSecret o2)]"

definition set_entry_some :: "string \<Rightarrow> any option \<Rightarrow> gomap option \<Rightarrow> gomap option" where
  "set_entry_some k v m = (case v of None \<Rightarrow> m | Some x \<Rightarrow> Set_entry m k x)"

definition SAMLIdP_Validate :: "sso \<Rightarrow> string option \<Rightarrow> err + unit" where
  "SAMLIdP_Validate S s = (case s of
     None \<Rightarrow> Inl (Errorf ''saml is empty when protocol is saml'' [])
   | Some md \<Rightarrow>
       if md = [] then Inl (Errorf ''idp metadata is empty'' [])
       else if so_metadata S md = None then Inl StoreFailure else Inr ())"

definition Oauth2Idp_Validate :: "sso \<Rightarrow> oauth2_idp option \<Rightarrow> err + unit" where
  "Oauth2Idp_Validate S s = (case s of
     None \<Rightarrow> Inl (Errorf ''Oauth2Idp is empty when protocol is oauth2'' [])
   | Some o2 \<Rightarrow>
       if so_zero_count S [oi_AuthorizeURI o2, oi_TokenURI o2, oi_UserInfoURI o2, oi_UserNameField o2, oi_ClientID o2, oi_ClientSecret o2] \<noteq> 0
       then Inl (Errorf ''Oauth2Idp param exists empty data'' []) else Inr ())"

definition IdentityProvider_Validate :: "sso \<Rightarrow> identity_provider \<Rightarrow> err + unit" where
  "IdentityProvider_Validate S s =
     (case (if ip_Protocol s = SSOProtocolSAML then SAMLIdP_Validate S (ip_SAML s)
            else if ip_Protocol s = SSOProtocolOAUTH2 then Oauth2Idp_Validate S (ip_Oauth2 s) else Inr ()) of
        Inl e \<Rightarrow> Inl e
      | Inr _ \<Rightarrow> Inl (Errorf ''invalid sso protocol'' []))"

text \<open>
  The hooks around the create and update hooks of the metadata. The structs of the protocols are no columns. After a read the
  extension stays empty: this \<open>AfterFind\<close> hides the one of \<open>ObjectMeta\<close>, and decodes the whole extension into the struct of the protocol.
\<close>

definition stored_idp :: "identity_provider \<Rightarrow> identity_provider" where
  "stored_idp s = s\<lparr>ip_SAML := None, ip_Oauth2 := None\<rparr>"

definition IdentityProvider_BeforeCreate :: "sso \<Rightarrow> identity_provider \<Rightarrow> identity_provider" where
  "IdentityProvider_BeforeCreate S s =
     (let m0 = Some (case obj_Extend s of None \<Rightarrow> Map.empty | Some m \<Rightarrow> m);
          m1 = set_entry_some ''saml'' (map_option (\<lambda>md. AStr (so_saml_idp_text S md)) (ip_SAML s)) m0;
          m2 = set_entry_some ''oauth2'' (map_option (\<lambda>o2. AStr (so_oauth2_idp_text S o2)) (ip_Oauth2 s)) m1
      in s\<lparr>obj_Extend := m2\<rparr>)"

definition IdentityProvider_BeforeUpdate :: "identity_provider \<Rightarrow> identity_provider" where
  "IdentityProvider_BeforeUpdate s = s\<lparr>obj_Extend :=
     set_entry_some ''oauth2'' (map_option oauth2_idp_any (ip_Oauth2 s)) (set_entry_some ''saml'' (map_option saml_idp_any (ip_SAML s)) (obj_Extend s))\<rparr>"

definition IdentityProvider_AfterFind :: "sso \<Rightarrow> identity_provider \<Rightarrow> identity_provider option" where
  "IdentityProvider_AfterFind S r =
     (let s = r\<lparr>obj_Extend := None, ip_SAML := None, ip_Oauth2 := None\<rparr>
      in if ip_Protocol r = SSOProtocolSAML then map_option (\<lambda>x. s\<lparr>ip_SAML := x\<rparr>) (so_saml_idp S (obj_Extend r))
         else if ip_Protocol r = SSOProtocolOAUTH2 then map_option (\<lambda>x. s\<lparr>ip_Oauth2 := x\<rparr>) (so_oauth2_idp S (obj_Extend r))
         else Some s)"

subsection \<open>Statements with an AfterFind of their own\<close>

definition after_find :: "('r \<Rightarrow> 'q option) \<Rightarrow> 'r \<Rightarrow> 'q m" where
  "after_find hook r = (case hook r of None \<Rightarrow> throw StoreFailure | Some x \<Rightarrow> ret x)"

definition find_with :: "('r object_meta_scheme \<Rightarrow> 'r object_meta_scheme option) \<Rightarrow> 'r object_meta_scheme tbl \<Rightarrow> 'r object_meta_scheme \<Rightarrow> 'r object_meta_scheme m" where
  "find_with hook t dest = stmt (\<lambda>w.
     case filter (\<lambda>r. obj_ID dest \<noteq> [] \<longrightarrow> obj_ID r = obj_ID dest) (rows t w) of [] \<Rightarrow> (Inr dest, w) | r # _ \<Rightarrow> after_find hook r w)"

definition first_with :: "('r object_meta_scheme \<Rightarrow> 'q option) \<Rightarrow> 'r object_meta_scheme tbl \<Rightarrow> ('r object_meta_scheme \<Rightarrow> bool) \<Rightarrow> 'q m" where
  "first_with hook t P = bindE (db_first t P) (after_find hook)"

definition page_with :: "('r object_meta_scheme \<Rightarrow> 'r object_meta_scheme option) \<Rightarrow> env \<Rightarrow> 'r object_meta_scheme columns \<Rightarrow> 'r object_meta_scheme tbl \<Rightarrow>
    'r object_meta_scheme query \<Rightarrow> ('r object_meta_scheme list \<times> int) m" where
  "page_with hook E cols t q =
     bindE (stmt (\<lambda>w. case run_query (meta_columns @ cols) obj_CreatedAt q (rows t w) of
              None \<Rightarrow> (Inl StoreFailure, w) | Some (items, hits) \<Rightarrow> bindE (after_find (\<lambda>is. those (map hook is)) items) (\<lambda>rs. ret (rs, hits)) w))
       (\<lambda>(items, hits). stmt (ret (items, e_count E (length hits) (q_page q))))"

subsection \<open>The store of identity providers\<close>

definition new_idp :: identity_provider where
  "new_idp = object_meta.extend new_meta (identity_provider.fields False [] [] None None)"

definition idp_columns :: "identity_provider columns" where
  "idp_columns = [(''enable'', CBool ip_Enable), (''protocol'', CText ip_Protocol), (''endpoint'', CText ip_Endpoint)]"

definition merge_idp :: "identity_provider \<Rightarrow> identity_provider \<Rightarrow> identity_provider" where
  "merge_idp new old = (merge_meta new old)\<lparr>ip_Enable := unless_zero False (ip_Enable new) (ip_Enable old),
     ip_Protocol := unless_zero [] (ip_Protocol new) (ip_Protocol old), ip_Endpoint := unless_zero [] (ip_Endpoint new) (ip_Endpoint old)\<rparr>"

definition ssoIdp_List :: "sso \<Rightarrow> env \<Rightarrow> basic_query \<Rightarrow> string \<Rightarrow> (identity_provider list \<times> int) m" where
  "ssoIdp_List S E req protocol = page_with (IdentityProvider_AfterFind S) E idp_columns idps_tbl
     (ToQuery (e_lower E) req (\<lambda>p. protocol \<noteq> [] \<longrightarrow> ip_Protocol p = protocol))"

definition ssoIdp_Get :: "sso \<Rightarrow> string \<Rightarrow> identity_provider m" where
  "ssoIdp_Get S pid = find_with (IdentityProvider_AfterFind S) idps_tbl (new_idp\<lparr>obj_ID := pid\<rparr>)"

text \<open>\<open>GetByName\<close> names the table of the service providers; the columns of an identity provider are read from its row.\<close>

definition sp_row_as_idp :: "service_provider \<Rightarrow> identity_provider" where
  "sp_row_as_idp r = object_meta.extend (object_meta.truncate r) (identity_provider.fields (sp_Enable r) (sp_Protocol r) (sp_Endpoint r) None None)"

definition ssoIdp_GetByName :: "sso \<Rightarrow> string \<Rightarrow> identity_provider m" where
  "ssoIdp_GetByName S name = first_with (\<lambda>r. IdentityProvider_AfterFind S (sp_row_as_idp r)) sps_tbl (\<lambda>r. obj_Name r = name)"

text \<open>\<open>Create\<close> runs the hooks, and \<open>AfterCreate\<close> saves the row once more.\<close>

definition ssoIdp_create :: "sso \<Rightarrow> env \<Rightarrow> identity_provider \<Rightarrow> identity_provider m" where
  "ssoIdp_create S E data =
     bindE (db_create E stored_idp idps_tbl (IdentityProvider_BeforeCreate S data)) (\<lambda>r.
     let s = r\<lparr>ip_SAML := ip_SAML data, ip_Oauth2 := ip_Oauth2 data\<rparr>
     in bindE (db_save idps_tbl (stored_idp (IdentityProvider_BeforeUpdate s))) (\<lambda>r'.
        ret (r'\<lparr>ip_SAML := ip_SAML data, ip_Oauth2 := ip_Oauth2 data\<rparr>)))"

definition ssoIdp_Add :: "sso \<Rightarrow> env \<Rightarrow> identity_provider \<Rightarrow> identity_provider m" where
  "ssoIdp_Add S E data = transaction
     (bindE (CheckExists idps_tbl (\<lambda>p. obj_Name p = obj_Name data \<and> ip_Endpoint p = ip_Endpoint data \<and> ip_Protocol p = ip_Protocol data)) (\<lambda>found.
      if found then throw (Errorf (''exists with name '%v' protocol '%v' endpoint '%v'' @ [CHR 0x27]) [obj_Name data, ip_Protocol data, ip_Endpoint data])
      else ssoIdp_create S E data))"

definition ssoIdp_Delete :: "string \<Rightarrow> unit m" where
  "ssoIdp_Delete pid = transaction (bindE (db_delete idps_tbl (\<lambda>p. obj_ID p = pid)) (\<lambda>_. ret ()))"

definition ssoIdp_Update :: "sso \<Rightarrow> identity_provider \<Rightarrow> identity_provider m" where
  "ssoIdp_Update S data = transaction
     (bindE (first_with (IdentityProvider_AfterFind S) idps_tbl (\<lambda>p. obj_ID p = obj_ID data)) (\<lambda>found.
      let result = found\<lparr>obj_Extend := obj_Extend data, obj_Description := obj_Description data, ip_Endpoint := ip_Endpoint data, ip_SAML := ip_SAML data\<rparr>
      in db_updates idps_tbl merge_idp (obj_ID result) (IdentityProvider_BeforeUpdate result)))"

subsection \<open>Service providers\<close>

definition SAMLSp_Validate :: "sso \<Rightarrow> saml_sp option \<Rightarrow> err + saml_sp" where
  "SAMLSp_Validate S s = (case s of
     None \<Rightarrow> Inl (Errorf ''saml is empty when protocol is saml'' [])
   | Some sp \<Rightarrow>
       if ss_Metadata sp = [] then Inl (Errorf ''sp metadata is empty'' [])
       else (case so_metadata S (ss_Metadata sp) of None \<Rightarrow> Inl StoreFailure | Some ed \<Rightarrow> Inr (sp\<lparr>ss_Key := en_EntityID ed\<rparr>)))"

definition Oauth2Sp_Validate :: "sso \<Rightarrow> oauth2_sp option \<Rightarrow> err + unit" where
  "Oauth2Sp_Validate S s = (case s of
     None \<Rightarrow> Inl (Errorf ''Oauth2Sp is empty when protocol is oauth2'' [])
   | Some o2 \<Rightarrow>
       if so_zero_count S [os_ClientID o2, os_ClientSecret o2] \<noteq> 0 then Inl (Errorf ''ouath2Sp param exists empty data'' [])
       else if os_Type o2 \<notin> {''confidential'', ''public''} then Inl (Errorf ''ouath2Sp wrong type: %v'' [os_Type o2]) else Inr ())"

definition ServiceProvider_Validate :: "sso \<Rightarrow> service_provider \<Rightarrow> err + unit" where
  "ServiceProvider_Validate S s =
     (if \<not> so_prefixed S (sp_Endpoint s) [''http://'', ''https://''] then Inl (Errorf ''invalid endpoint, must contain scheme'' [])
      else (case (if sp_Protocol s = SSOProtocolSAML \<or> sp_Protocol s = SSOProtocolOAUTH2
                  then map_sum id (\<lambda>_. ()) (SAMLSp_Validate S (sp_SAML s)) else Inr ()) of
          Inl e \<Rightarrow> Inl e
        | Inr _ \<Rightarrow> Inl (Errorf ''invalid sso protocol:%v'' [sp_Protocol s])))"

definition stored_sp :: "service_provider \<Rightarrow> service_provider" where
  "stored_sp s = s\<lparr>sp_SAML := None, sp_Oauth2 := None\<rparr>"

text \<open>The create hook puts the SAML struct under the name of OAuth2 too; a nil pointer there is a JSON null.\<close>

definition ServiceProvider_BeforeCreate :: "service_provider \<Rightarrow> service_provider" where
  "ServiceProvider_BeforeCreate s =
     (let saml = map_option saml_sp_any (sp_SAML s);
          m1 = set_entry_some ''saml'' saml (obj_Extend s);
          m2 = (if sp_Oauth2 s \<noteq> None then Set_entry m1 ''oauth2'' (case saml of None \<Rightarrow> ANil | Some x \<Rightarrow> x) else m1)
      in s\<lparr>obj_Extend := m2\<rparr>)"

definition ServiceProvider_BeforeUpdate :: "service_provider \<Rightarrow> service_provider" where
  "ServiceProvider_BeforeUpdate s = s\<lparr>obj_Extend :=
     set_entry_some ''oauth2'' (map_option oauth2_sp_any (sp_Oauth2 s)) (set_entry_some ''saml'' (map_option saml_sp_any (sp_SAML s)) (obj_Extend s))\<rparr>"

definition ServiceProvider_AfterFind :: "sso \<Rightarrow> service_provider \<Rightarrow> service_provider option" where
  "ServiceProvider_AfterFind S r =
     (let s = r\<lparr>obj_Extend := None, sp_SAML := None, sp_Oauth2 := None\<rparr>
      in if sp_Protocol r = SSOProtocolSAML then map_option (\<lambda>x. s\<lparr>sp_SAML := x\<rparr>) (so_saml_sp S (obj_Extend r))
         else if sp_Protocol r = SSOProtocolOAUTH2 then map_option (\<lambda>x. s\<lparr>sp_Oauth2 := x\<rparr>) (so_oauth2_sp S (obj_Extend r))
         else Some s)"

subsection \<open>The store of service providers\<close>

definition new_sp :: service_provider where
  "new_sp = object_meta.extend new_meta (service_provider.fields False [] [] [] None None)"

definition sp_columns :: "service_provider columns" where
  "sp_columns = [(''enable'', CBool sp_Enable), (''protocol'', CText sp_Protocol), (''endpoint'', CText sp_Endpoint), (''type'', CText sp_Type)]"

definition merge_sp :: "service_provider \<Rightarrow> service_provider \<Rightarrow> service_provider" where
  "merge_sp new old = (merge_meta new old)\<lparr>sp_Enable := unless_zero False (sp_Enable new) (sp_Enable old),
     sp_Protocol := unless_zero [] (sp_Protocol new) (sp_Protocol old), sp_Endpoint := unless_zero [] (sp_Endpoint new) (sp_Endpoint old),
     sp_Type := unless_zero [] (sp_Type new) (sp_Type old)\<rparr>"

definition serviceProvider_List :: "sso \<Rightarrow> env \<Rightarrow> basic_query \<Rightarrow> string \<Rightarrow> (service_provider list \<times> int) m" where
  "serviceProvider_List S E req protocol = page_with (ServiceProvider_AfterFind S) E sp_columns sps_tbl
     (ToQuery (e_lower E) req (\<lambda>p. protocol \<noteq> [] \<longrightarrow> sp_Protocol p = protocol))"

definition serviceProvider_Get :: "sso \<Rightarrow> string \<Rightarrow> service_provider m" where
  "serviceProvider_Get S pid = find_with (ServiceProvider_AfterFind S) sps_tbl (new_sp\<lparr>obj_ID := pid\<rparr>)"

fun sp_with_key :: "string \<Rightarrow> service_provider list \<Rightarrow> err + service_provider" where
  "sp_with_key k [] = Inl (Errorf ''no service provider with key:%v'' [k])"
| "sp_with_key k (p # ps) =
     (if (case sp_SAML p of Some s \<Rightarrow> ss_Key s = k | None \<Rightarrow> False) then Inr p
      else if (case sp_Oauth2 p of Some o2 \<Rightarrow> os_ClientID o2 = k | None \<Rightarrow> False) then Inr p
      else sp_with_key k ps)"

definition serviceProvider_GetByKey :: "sso \<Rightarrow> env \<Rightarrow> string \<Rightarrow> string \<Rightarrow> service_provider m" where
  "serviceProvider_GetByKey S E protocol k =
     bindE (serviceProvider_List S E new_query protocol) (\<lambda>(metas, _). lift_sum (sp_with_key k metas))"

definition serviceProvider_GetByName :: "sso \<Rightarrow> string \<Rightarrow> service_provider m" where
  "serviceProvider_GetByName S name = first_with (ServiceProvider_AfterFind S) sps_tbl (\<lambda>r. obj_Name r = name)"

definition serviceProvider_create :: "env \<Rightarrow> service_provider \<Rightarrow> service_provider m" where
  "serviceProvider_create E data =
     bindE (db_create E stored_sp sps_tbl (ServiceProvider_BeforeCreate data)) (\<lambda>r.
     let s = r\<lparr>sp_SAML := sp_SAML data, sp_Oauth2 := sp_Oauth2 data\<rparr>
     in bindE (db_save sps_tbl (stored_sp (ServiceProvider_BeforeUpdate s))) (\<lambda>r'.
        ret (r'\<lparr>sp_SAML := sp_SAML data, sp_Oauth2 := sp_Oauth2 data\<rparr>)))"

definition serviceProvider_Add :: "env \<Rightarrow> service_provider \<Rightarrow> service_provider m" where
  "serviceProvider_Add E data = transaction
     (bindE (CheckExists sps_tbl (\<lambda>p. obj_Name p = obj_Name data \<and> sp_Endpoint p = sp_Endpoint data \<and> sp_Protocol p = sp_Protocol data)) (\<lambda>found.
      if found then throw (Errorf (''exists with name '%v' protocol '%v' endpoint '%v'' @ [CHR 0x27]) [obj_Name data, sp_Protocol data, sp_Endpoint data])
      else serviceProvider_create E data))"

definition serviceProvider_Delete :: "string \<Rightarrow> unit m" where
  "serviceProvider_Delete pid = transaction (bindE (db_delete sps_tbl (\<lambda>p. obj_ID p = pid)) (\<lambda>_. ret ()))"

definition serviceProvider_Update :: "sso \<Rightarrow> service_provider \<Rightarrow> service_provider m" where
  "serviceProvider_Update S data = transaction
     (bindE (first_with (ServiceProvider_AfterFind S) sps_tbl (\<lambda>p. obj_ID p = obj_ID data)) (\<lambda>found.
      let result = found\<lparr>obj_Extend := obj_Extend data, obj_Description := obj_Description data, sp_Endpoint := sp_Endpoint data, sp_SAML := sp_SAML data\<rparr>
      in db_updates sps_tbl merge_sp (obj_ID result) (ServiceProvider_BeforeUpdate result)))"

subsection \<open>The services over the stores\<close>

definition IdentityProviderList :: "sso \<Rightarrow> env \<Rightarrow> basic_query \<Rightarrow> string \<Rightarrow> (identity_provider list \<times> int) m" where
  "IdentityProviderList S E req protocol = ssoIdp_List S E req protocol"

definition IdentityProviderGet :: "sso \<Rightarrow> identity_provider \<Rightarrow> identity_provider m" where
  "IdentityProviderGet S req = ssoIdp_Get S (obj_ID req)"

definition IdentityProviderAdd :: "sso \<Rightarrow> env \<Rightarrow> identity_provider \<Rightarrow> identity_provider m" where
  "IdentityProviderAdd S E req = ssoIdp_Add S E req"

definition IdentityProviderUpdate :: "sso \<Rightarrow> identity_provider \<Rightarrow> unit m" where
  "IdentityProviderUpdate S req = bindE (ssoIdp_Update S req) (\<lambda>_. ret ())"

definition IdentityProviderDelete :: "identity_provider \<Rightarrow> unit m" where
  "IdentityProviderDelete req = ssoIdp_Delete (obj_ID req)"

definition ServiceProviderList :: "sso \<Rightarrow> env \<Rightarrow> basic_query \<Rightarrow> string \<Rightarrow> (service_provider list \<times> int) m" where
  "ServiceProviderList S E req protocol = serviceProvider_List S E req protocol"

definition ServiceProviderGet :: "sso \<Rightarrow> service_provider \<Rightarrow> service_provider m" where
  "ServiceProviderGet S req = serviceProvider_Get S (obj_ID req)"

definition ServiceProviderAdd :: "env \<Rightarrow> service_provider \<Rightarrow> service_provider m" where
  "ServiceProviderAdd E req = serviceProvider_Add E req"

definition ServiceProviderUpdate :: "sso \<Rightarrow> service_provider \<Rightarrow> unit m" where
  "ServiceProviderUpdate S req = bindE (serviceProvider_Update S req) (\<lambda>_. ret ())"

definition ServiceProviderDelete :: "service_provider \<Rightarrow> unit m" where
  "ServiceProviderDelete req = serviceProvider_Delete (obj_ID req)"

fun sp_with_saml_key :: "string \<Rightarrow> service_provider list \<Rightarrow> err + service_provider" where
  "sp_with_saml_key k [] = Inl (Errorf (''not service provider with key '%s'' @ [CHR 0x27]) [k])"
| "sp_with_saml_key k (p # ps) = (case sp_SAML p of
     None \<Rightarrow> Inl (Panic ''nil pointer'')
   | Some s \<Rightarrow> if ss_Key s = k then Inr p else sp_with_saml_key k ps)"

definition ServiceProviderGetByKey :: "sso \<Rightarrow> env \<Rightarrow> string \<Rightarrow> service_provider m" where
  "ServiceProviderGetByKey S E k =
     bindE (serviceProvider_List S E new_query SSOProtocolSAML) (\<lambda>(metas, _). lift_sum (sp_with_saml_key k metas))"

subsection \<open>The page of a service provider that starts a sign-on\<close>

record redirect_response =
  rd_Method :: string
  rd_URL :: string
  rd_Host :: string
  rd_URI :: string
  rd_Header :: "(string \<Rightarrow> string option) option"
  rd_Param :: "gomap option"

definition new_redirect :: redirect_response where
  "new_redirect = \<lparr>rd_Method = [], rd_URL = [], rd_Host = [], rd_URI = [], rd_Header = None, rd_Param = None\<rparr>"

text \<open>The first match of the regular expression for the token.\<close>

definition csrf_open :: string where
  "csrf_open = ''<meta name='' @ [CHR 0x22] @ ''csrf-token'' @ [CHR 0x22] @ '' content='' @ [CHR 0x22]"

fun csrf_token :: "string \<Rightarrow> string option" where
  "csrf_token [] = None"
| "csrf_token (c # s) =
     (let rest = drop (length csrf_open) (c # s)
      in if HasPrefix (c # s) csrf_open \<and> CHR 0x22 \<in> set rest then Some (takeWhile (\<lambda>d. d \<noteq> CHR 0x22) rest) else csrf_token s)"

definition gitlab_form :: "string \<Rightarrow> string" where
  "gitlab_form token = Encode (Set_value ''authenticity_token'' token (Set_value ''_method'' ''post'' []))"

definition getGitlabCookieAndToken :: "sso \<Rightarrow> string \<Rightarrow> err + string" where
  "getGitlabCookieAndToken S ep = (case so_get S (ep @ ''/users/sign_in'') of
     None \<Rightarrow> Inl IOFailure
   | Some body \<Rightarrow> (case csrf_token body of
        None \<Rightarrow> Inl (Errorf ''CSRF token not found'' [])
      | Some token \<Rightarrow> (case so_post S (ep @ ''/users/auth/saml'') (gitlab_form token) of
           None \<Rightarrow> Inl IOFailure
         | Some (status, answer) \<Rightarrow>
             let rb = TrimSuffix (TrimPrefix answer ''Redirecting to '') ''...''
             in if status \<noteq> 302 then Inl (Errorf ''status code no 302, is %v,err:%v'' [fmt_d status, rb]) else Inr rb)))"

definition redirect_of :: "sso \<Rightarrow> service_provider \<Rightarrow> err + redirect_response" where
  "redirect_of S meta =
     (let ep = sp_Endpoint meta
      in if sp_Type meta = ''gitlab'' then
           (case getGitlabCookieAndToken S ep of
              Inl e \<Rightarrow> Inl e
            | Inr u \<Rightarrow> Inr (new_redirect\<lparr>rd_Param := Some Map.empty, rd_Header := Some Map.empty, rd_Method := ''GET'', rd_Host := ep, rd_URL := u\<rparr>))
         else if sp_Type meta = ''jira'' then
           Inr (new_redirect\<lparr>rd_Method := ''GET'', rd_URL := ep @ ''/plugins/servlet/samlsso?idp=1'', rd_Host := ep, rd_URI := ''/plugins/servlet/samlsso?idp=1''\<rparr>)
         else if sp_Type meta = ''confluence'' then
           (let uri = ''/plugins/servlet/samlsso?'' @ PathEscape ''redirectTo=/''
            in Inr (new_redirect\<lparr>rd_Method := ''GET'', rd_Host := ep, rd_URI := uri, rd_URL := ep @ uri\<rparr>))
         else Inr (new_redirect\<lparr>rd_Method := ''GET'', rd_URL := ep, rd_Host := ep\<rparr>))"

definition ServiceProviderGetRedirectURL :: "sso \<Rightarrow> service_provider \<Rightarrow> redirect_response m" where
  "ServiceProviderGetRedirectURL S req = bindE (serviceProvider_Get S (obj_ID req)) (\<lambda>meta. lift_sum (redirect_of S meta))"

subsection \<open>OAuth2\<close>

definition oauth2_query :: "oauth2_idp \<Rightarrow> string \<Rightarrow> string \<Rightarrow> string \<Rightarrow> string \<Rightarrow> (string \<times> string) list" where
  "oauth2_query s state redirect challenge challengeMethod =
     (let v0 = [(''response_type'', ''code''), (''client_id'', oi_ClientID s)];
          v1 = Set_value ''redirect_uri'' redirect v0;
          v2 = (if oi_Scopes s \<noteq> [] then Set_value ''scope'' (Join (oi_Scopes s) '' '') v1 else v1);
          v3 = (if state \<noteq> [] then Set_value ''state'' state v2 else v2);
          v4 = (if challenge \<noteq> [] then Set_value ''code_challenge'' challenge v3 else v3)
      in if challengeMethod \<noteq> [] then Set_value ''code_challenge_method'' challenge v4 else v4)"

definition AuthCodeRedirectURL :: "oauth2_idp \<Rightarrow> string \<Rightarrow> string \<Rightarrow> string \<Rightarrow> string \<Rightarrow> string \<Rightarrow> string" where
  "AuthCodeRedirectURL s ep state redirect challenge challengeMethod =
     (let authURL = ep @ ''/'' @ oi_AuthorizeURI s
      in authURL @ (if Contains authURL ''?'' then ''&'' else ''?'') @ Encode (oauth2_query s state redirect challenge challengeMethod))"

record initiator_request =
  in_IdentityProviderName :: string
  in_RedirectURLEncode :: string
  in_RedirectURL :: string

text \<open>A sign-on as a client of an OAuth2 provider; \<open>rnd\<close> is the random string that is drawn.\<close>

definition ServiceProviderSsoOauth2Initiator :: "sso \<Rightarrow> env \<Rightarrow> string \<Rightarrow> initiator_request \<Rightarrow> string m" where
  "ServiceProviderSsoOauth2Initiator S E rnd req =
     bindE (ssoIdp_GetByName S (in_IdentityProviderName req)) (\<lambda>idp.
     if \<not> ip_Enable idp then throw (Errorf ''identity provider %v disable'' [obj_Name idp])
     else if ip_Protocol idp \<noteq> SSOProtocolOAUTH2 then throw (Errorf ''identity provider not %v protocol'' [SSOProtocolOAUTH2])
     else (case so_jwt S rnd of
       None \<Rightarrow> throw StoreFailure
     | Some state \<Rightarrow>
         if length rnd < 32 then throw (Panic ''slice bounds out of range'')
         else bindE (ott_Add E (new_token\<lparr>ot_Type := ''oauth2'', obj_Name := in_IdentityProviderName req @ ''-'' @ take 32 rnd, ot_Payload := state\<rparr>)) (\<lambda>_.
           case ip_Oauth2 idp of
             None \<Rightarrow> throw (Panic ''nil pointer'')
           | Some s \<Rightarrow> ret (AuthCodeRedirectURL s (ip_Endpoint idp) state (in_RedirectURL req) [] []))))"

definition oauth2ExchangeCodeForToken :: "sso \<Rightarrow> identity_provider \<Rightarrow> string \<Rightarrow> string \<Rightarrow> string \<Rightarrow> err + token_response" where
  "oauth2ExchangeCodeForToken S idp redirect oauthCode verifier = (case ip_Oauth2 idp of
     None \<Rightarrow> Inl (Panic ''nil pointer'')
   | Some s \<Rightarrow> (case so_exchange S (ip_Endpoint idp @ ''/'' @ oi_TokenURI s)
       [(''grant_type'', ''authorization_code''), (''code'', oauthCode), (''redirect_uri'', redirect),
        (''client_id'', oi_ClientID s), (''client_secret'', oi_ClientSecret s), (''code_verifier'', verifier)] of
       None \<Rightarrow> Inl IOFailure | Some token \<Rightarrow> Inr token))"

text \<open>A request to this server as the provider. The answer of an accepted request is empty.\<close>

record authorize_request =
  au_ClientID :: string
  au_ResponseType :: string
  au_RedirectURI :: string
  au_Scope :: string
  au_State :: string
  au_CodeChallenge :: string
  au_CodeChallengeMethod :: string

definition Oauth2ProtocolSSOAuth :: "sso \<Rightarrow> env \<Rightarrow> authorize_request \<Rightarrow> unit m" where
  "Oauth2ProtocolSSOAuth S E req =
     bindE (serviceProvider_GetByKey S E SSOProtocolOAUTH2 (au_ClientID req)) (\<lambda>sp. case sp_Oauth2 sp of
       None \<Rightarrow> throw (Panic ''nil pointer'')
     | Some o2 \<Rightarrow>
         if os_RedirectURIs o2 \<noteq> [] \<and> \<not> so_any_prefix S (au_RedirectURI req) (os_RedirectURIs o2)
         then throw (Errorf ''invalid redirect uri:%v'' [au_RedirectURI req])
         else if os_Type o2 = ''public'' \<and> au_CodeChallenge req = [] then throw (Errorf ''invalid request,PKCE required'' [])
         else ret ())"

subsection \<open>The certificates of the SAML roles\<close>

record metadata_request =
  mr_Endpoint :: string
  mr_AuthnNameIDFormat :: string
  mr_RedirectSSOFrontendURL :: string
  mr_KeyEncode :: string
  mr_CertEncode :: string

definition metadata_Validate :: "sso \<Rightarrow> metadata_request \<Rightarrow> err + unit" where
  "metadata_Validate S req =
     (if so_prefixed S (mr_Endpoint req) [''http://'', ''https://''] then Inr () else Inl (Errorf ''invalid endpoint, must contain scheme'' []))"

definition IdentityProviderSAMLMetadataUpsert :: "sso \<Rightarrow> env \<Rightarrow> metadata_request \<Rightarrow> setting m" where
  "IdentityProviderSAMLMetadataUpsert S E req =
     (let keyEncode = base64 (mr_KeyEncode req); certEncode = base64 (mr_CertEncode req)
      in case so_cert S certEncode keyEncode of
           Inl e \<Rightarrow> throw (Errorf ''invalid certificate:%v'' [e])
         | Inr _ \<Rightarrow> setting_Upsert E (new_meta\<lparr>obj_Name := ''saml_idp'', obj_Extend := Some
             [''key'' \<mapsto> AStr keyEncode, ''cert'' \<mapsto> AStr certEncode, ''endpoint'' \<mapsto> AStr (mr_Endpoint req),
              ''authn_name_id_format'' \<mapsto> AStr (mr_AuthnNameIDFormat req), ''redirect_sso_frontend_url'' \<mapsto> AStr (mr_RedirectSSOFrontendURL req)]\<rparr>))"

definition ServiceProviderSAMLMetadataUpsert :: "sso \<Rightarrow> env \<Rightarrow> metadata_request \<Rightarrow> setting m" where
  "ServiceProviderSAMLMetadataUpsert S E req =
     (let keyEncode = base64 (mr_KeyEncode req); certEncode = base64 (mr_CertEncode req)
      in case so_cert S certEncode keyEncode of
           Inl e \<Rightarrow> throw (Errorf ''invalid certificate:%v'' [e])
         | Inr _ \<Rightarrow> setting_Upsert E (new_meta\<lparr>obj_Name := ''saml_sp'', obj_Extend := Some
             [''key'' \<mapsto> AStr keyEncode, ''cert'' \<mapsto> AStr certEncode, ''endpoint'' \<mapsto> AStr (mr_Endpoint req),
              ''authn_name_id_format'' \<mapsto> AStr (mr_AuthnNameIDFormat req)]\<rparr>))"

text \<open>The typed readers of a setting's extension give the empty string where the entry is missing or no string.\<close>

definition setting_text :: "string \<Rightarrow> setting \<Rightarrow> string" where
  "setting_text k s = as_string (nilmap_at (obj_Extend s) k)"

subsection \<open>A sample of the library functions\<close>

text \<open>
  An instance for concrete runs: decoders that read the fields they know and ignore the others, prefixes of strings, a signature in clear, and
  a GitLab that redirects.
\<close>

definition any_strings :: "any \<Rightarrow> string list" where
  "any_strings v = (case v of AArr xs \<Rightarrow> map as_string xs | _ \<Rightarrow> [])"

definition sample_sso :: sso where
  "sample_sso = \<lparr>so_saml_idp = (\<lambda>x. Some (map_option (\<lambda>m. as_string (map_at m ''metadata'')) x)),
     so_oauth2_idp = (\<lambda>x. Some (map_option (\<lambda>m. \<lparr>oi_AuthorizeURI = as_string (map_at m ''authorize_uri''), oi_TokenURI = as_string (map_at m ''token_uri''),
        oi_UserInfoURI = as_string (map_at m ''user_info_uri''), oi_UserNameField = as_string (map_at m ''user_name_field''),
        oi_ClientID = as_string (map_at m ''client_id''), oi_ClientSecret = as_string (map_at m ''client_secret''), oi_Scopes = any_strings (map_at m ''scopes'')\<rparr>) x)),
     so_saml_sp = (\<lambda>x. Some (map_option (\<lambda>m. \<lparr>ss_Key = as_string (map_at m ''key''), ss_Metadata = as_string (map_at m ''metadata'')\<rparr>) x)),
     so_oauth2_sp = (\<lambda>x. Some (map_option (\<lambda>m. \<lparr>os_RedirectURIs = any_strings (map_at m ''redirect_uris''), os_Type = as_string (map_at m ''string''),
        os_ClientID = as_string (map_at m ''client_id''), os_ClientSecret = as_string (map_at m ''client_secret'')\<rparr>) x)),
     so_saml_idp_text = id, so_oauth2_idp_text = oi_ClientID,
     so_any_prefix = (\<lambda>x ps. list_ex (HasPrefix x) ps), so_prefixed = (\<lambda>x ps. list_ex (HasPrefix x) ps),
     so_zero_count = (\<lambda>xs. int (length (filter (\<lambda>x. x = []) xs))),
     so_metadata = (\<lambda>x. if x = [] then None else Some \<lparr>en_EntityID = x, en_ValidUntil = 0, en_IDP = [],
        en_SP = [\<lparr>sd_Keys = [], sd_NameIDFormats = [], sd_Services = [\<lparr>ie_Binding = ''urn:oasis:names:tc:SAML:2.0:bindings:HTTP-POST'', ie_Location = x @ ''/acs'', ie_Index = 1, ie_IsDefault = None\<rparr>],
           sd_AttributeServices = []\<rparr>]\<rparr>),
     so_cert = (\<lambda>c k. Inr \<lparr>ce_Raw = c, ce_RSA = True, ce_Leaf = True\<rparr>), so_jwt = Some,
     so_get = (\<lambda>_. Some (csrf_open @ ''a&b=c'' @ [CHR 0x22] @ ''>'')), so_post = (\<lambda>u _. Some (302, ''Redirecting to '' @ u @ ''...'')),
     so_exchange = (\<lambda>_ _. None), so_url = Some, so_resolve = (@)\<rparr>"

end
