(* ===== verification/SsoLaws.thy ===== *)
theory SsoLaws
  imports IdentityLaws Sso
begin

text \<open>
  What single sign-on does with its tables: the name of an identity provider is looked up among the service providers, registered service providers
  are never found by their keys, a request that is accepted obeys the policy of its client, and redirect URLs carry exactly their parameters.
\<close>

subsection \<open>Statements with an AfterFind of their own\<close>

lemma stmt_store_failure: "stmt body w = (Inl e, w') \<Longrightarrow> (\<And>u u'. body u = (Inl e, u') \<Longrightarrow> e = StoreFailure) \<Longrightarrow> e = StoreFailure"
  by (cases rule: stmt_cases[of body w]) auto

context table_lens
begin

lemma after_find_preserves [pres_rules]: "preserves I (after_find hook r)"
  by (simp add: after_find_def split: option.split)

lemma first_with_preserves: "plain I \<Longrightarrow> preserves I (first_with hook t P)"
  unfolding first_with_def db_first_def by (intro preserves_bindE first_preserves after_find_preserves)

lemma page_with_preserves: "plain I \<Longrightarrow> preserves I (page_with hook E cols t q)"
  unfolding page_with_def
  by (rule preserves_bindE) (auto intro!: stmt_preserves preserves_ret, auto intro!: preservesI simp: after_find_def bindE_def split: option.split prod.split)

lemma updates_preserves:
  "plain I \<Longrightarrow> (\<And>f w. I w \<Longrightarrow> I (upd_rows t f w)) \<Longrightarrow> preserves I (db_updates t merge i r)"
  unfolding db_updates_def by (rule stmt_preserves) (auto intro!: preservesI simp: Let_def)

lemma first_with_result:
  assumes "first_with hook t P w = (Inr x, w')"
  obtains r fs where "r \<in> set (rows t w)" "P r" "hook r = Some x" "w' = w\<lparr>w_faults := fs\<rparr>"
proof -
  from assms[unfolded first_with_def db_first_def] obtain r w1
    where one: "db_first_by obj_ID t P w = (Inr r, w1)" and two: "after_find hook r w1 = (Inr x, w')" by (rule bindE_Inr_elim)
  have "hook r = Some x" "w' = w1" using two by (simp_all add: after_find_def split: option.splits)
  with one show ?thesis by (cases rule: first_cases[of obj_ID P w]) (auto intro: that)
qed

lemma page_with_result:
  assumes "page_with hook E cols t q w = (Inr (rs, n), w')"
  shows "set rs \<subseteq> {x. \<exists>r \<in> set (rows t w). q_filter q r \<and> hook r = Some x}"
proof -
  let ?body = "\<lambda>w. case run_query (meta_columns @ cols) obj_CreatedAt q (rows t w) of
      None \<Rightarrow> (Inl StoreFailure, w) | Some (items, hits) \<Rightarrow> bindE (after_find (\<lambda>is. those (map hook is)) items) (\<lambda>rs. ret (rs, hits)) w"
  from assms[unfolded page_with_def] obtain p w1 where one: "stmt ?body w = (Inr p, w1)"
    and two: "(case p of (items, hits) \<Rightarrow> stmt (ret (items, e_count E (length hits) (q_page q)))) w1 = (Inr (rs, n), w')" by (rule bindE_Inr_elim)
  from two have rs: "rs = fst p" by (cases p) (auto elim: stmt_Inr)
  from one obtain fs where "?body (w\<lparr>w_faults := fs\<rparr>) = (Inr p, w1)" by (rule stmt_Inr)
  then obtain items hits where q: "run_query (meta_columns @ cols) obj_CreatedAt q (rows t w) = Some (items, hits)"
    and h: "those (map hook items) = Some rs"
    using rs by (cases "run_query (meta_columns @ cols) obj_CreatedAt q (rows t w)")
      (auto simp: after_find_def bindE_def split: option.splits)
  have "those ys = Some xs \<Longrightarrow> ys = map Some xs" for ys and xs :: "'r object_meta_scheme list"
    by (induction ys arbitrary: xs) (auto split: option.splits)
  from this[OF h] have "map hook items = map Some rs" .
  then have "x \<in> set rs \<Longrightarrow> \<exists>r \<in> set items. hook r = Some x" for x by (metis image_eqI image_iff list.set_map)
  then show ?thesis using run_query_sound(1)[OF q] by blast
qed

lemma page_with_error:
  assumes "page_with hook E cols t q w = (Inl e, w')"
  shows "e = StoreFailure"
proof -
  from assms[unfolded page_with_def] show ?thesis
  proof (cases rule: bindE_Inl_elim)
    case first
    then show ?thesis by (rule stmt_store_failure) (auto simp: after_find_def bindE_def split: option.splits prod.splits)
  next
    case (second x s1)
    then show ?thesis by (cases x) (auto elim: stmt_store_failure)
  qed
qed

text \<open>A condition that every row meets, through the statements.\<close>

lemma each_create:
  "(\<And>i now. Q (dflt (BeforeCreate i now r))) \<Longrightarrow> preserves (\<lambda>w. \<forall>x \<in> set (rows t w). Q x) (db_create E dflt t r)"
  by (rule create_preserves[OF get_plain]) auto

lemma each_save: "(\<And>now. Q (BeforeUpdate now r)) \<Longrightarrow> preserves (\<lambda>w. \<forall>x \<in> set (rows t w). Q x) (db_save t r)"
  by (rule save_preserves[OF get_plain]) (auto simp: save_row_def)

lemma each_delete: "preserves (\<lambda>w. \<forall>x \<in> set (rows t w). Q x) (db_delete t P)"
  by (rule delete_preserves[OF get_plain]) auto

lemma each_updates:
  "(\<And>now old. Q old \<Longrightarrow> Q (merge (BeforeUpdate now r) old)) \<Longrightarrow> preserves (\<lambda>w. \<forall>x \<in> set (rows t w). Q x) (db_updates t merge i r)"
  unfolding db_updates_def by (rule stmt_preserves[OF get_plain]) (auto intro!: preservesI simp: Let_def)

lemma CheckExists_preserves: "plain I \<Longrightarrow> preserves I (CheckExists t P)"
  unfolding CheckExists_def by (intro preserves_bindE preserves_attempt count_preserves preserves_ret)

end

subsection \<open>Keys of service providers\<close>

text \<open>An extension whose entries are those that the hooks write.\<close>

definition hook_entries :: "gomap option \<Rightarrow> bool" where
  "hook_entries x \<longleftrightarrow> (case x of None \<Rightarrow> True | Some m \<Rightarrow> dom m \<subseteq> {''saml'', ''oauth2''})"

lemma hook_entries_set:
  "hook_entries m \<Longrightarrow> k \<in> {''saml'', ''oauth2''} \<Longrightarrow> hook_entries (Set_entry m k v)"
  "hook_entries m \<Longrightarrow> k \<in> {''saml'', ''oauth2''} \<Longrightarrow> hook_entries (set_entry_some k x m)"
  by (cases m; cases x; auto simp: hook_entries_def Set_entry_def set_entry_some_def)+

lemma hook_entries_hooks:
  "hook_entries (obj_Extend s) \<Longrightarrow> hook_entries (obj_Extend (ServiceProvider_BeforeCreate s))"
  "hook_entries (obj_Extend s) \<Longrightarrow> hook_entries (obj_Extend (ServiceProvider_BeforeUpdate s))"
  by (auto simp: ServiceProvider_BeforeCreate_def ServiceProvider_BeforeUpdate_def Let_def intro!: hook_entries_set)

lemma stored_sp_Extend [simp]: "obj_Extend (stored_sp s) = obj_Extend s" "obj_Extend (BeforeCreate i now s) = obj_Extend s"
    "obj_Extend (BeforeUpdate now s) = obj_Extend s"
  by (simp_all add: stored_sp_def BeforeCreate_def BeforeUpdate_def)

definition sp_rows_plain :: "world \<Rightarrow> bool" where
  "sp_rows_plain w \<longleftrightarrow> (\<forall>p \<in> set (w_sps w). hook_entries (obj_Extend p))"

lemma sp_rows_plain_plain: "plain sp_rows_plain"
  by (rule plainI) (simp add: sp_rows_plain_def)

datatype sp_request = SpAdd service_provider | SpUpdate service_provider | SpDelete service_provider

fun sp_step :: "sso \<Rightarrow> env \<Rightarrow> sp_request \<Rightarrow> world \<Rightarrow> world" where
  "sp_step S E (SpAdd p) w = snd (ServiceProviderAdd E p w)"
| "sp_step S E (SpUpdate p) w = snd (ServiceProviderUpdate S p w)"
| "sp_step S E (SpDelete p) w = snd (ServiceProviderDelete p w)"

fun sp_data :: "sp_request \<Rightarrow> service_provider" where
  "sp_data (SpAdd p) = p"
| "sp_data (SpUpdate p) = p"
| "sp_data (SpDelete p) = p"

definition sp_run :: "sso \<Rightarrow> env \<Rightarrow> sp_request list \<Rightarrow> world \<Rightarrow> world" where
  "sp_run S E reqs w = fold (sp_step S E) reqs w"

lemmas sp_each = sps_t.each_create[where Q = "\<lambda>p. hook_entries (obj_Extend p)", simplified, folded sp_rows_plain_def]
  sps_t.each_save[where Q = "\<lambda>p. hook_entries (obj_Extend p)", simplified, folded sp_rows_plain_def]
  sps_t.each_delete[where Q = "\<lambda>p. hook_entries (obj_Extend p)", simplified, folded sp_rows_plain_def]
  sps_t.each_updates[where Q = "\<lambda>p. hook_entries (obj_Extend p)", simplified, folded sp_rows_plain_def]

lemma serviceProvider_create_plain:
  assumes d: "hook_entries (obj_Extend data)"
  shows "preserves sp_rows_plain (serviceProvider_create E data)"
  unfolding serviceProvider_create_def Let_def
proof (rule preserves_bindE_yields)
  show "preserves sp_rows_plain (db_create E stored_sp sps_tbl (ServiceProvider_BeforeCreate data))"
    by (rule sp_each(1)) (simp add: hook_entries_hooks d)
  show "yields sp_rows_plain (db_create E stored_sp sps_tbl (ServiceProvider_BeforeCreate data)) (\<lambda>r. hook_entries (obj_Extend r))"
    by (rule yieldsI, erule sps_t.create_result) (simp add: hook_entries_hooks d)
  show "preserves sp_rows_plain (bindE (db_save sps_tbl (stored_sp (ServiceProvider_BeforeUpdate (r\<lparr>sp_SAML := sp_SAML data, sp_Oauth2 := sp_Oauth2 data\<rparr>))))
      (\<lambda>r'. ret (r'\<lparr>sp_SAML := sp_SAML data, sp_Oauth2 := sp_Oauth2 data\<rparr>)))" if "hook_entries (obj_Extend r)" for r
    by (intro preserves_bindE preserves_ret sp_each(2)) (simp add: hook_entries_hooks that)
qed

lemma sp_step_plain:
  assumes d: "hook_entries (obj_Extend (sp_data r))"
  shows "preserves sp_rows_plain (\<lambda>w. (Inr (), sp_step S E r w))"
proof (rule preservesI)
  fix w assume w: "sp_rows_plain w"
  note P = sp_rows_plain_plain
  show "sp_rows_plain (snd (Inr (), sp_step S E r w))"
  proof (cases r)
    case (SpAdd p)
    have "preserves sp_rows_plain (ServiceProviderAdd E p)"
      unfolding ServiceProviderAdd_def serviceProvider_Add_def using d SpAdd
      by (intro transaction_preserves[OF P] preserves_bindE preserves_if preserves_throw sps_t.CheckExists_preserves[OF P] serviceProvider_create_plain) simp_all
    from preservesD[OF this w] show ?thesis using SpAdd by simp
  next
    case (SpUpdate p)
    have m: "obj_Extend (merge_sp new old) = obj_Extend new" for new old by (simp add: merge_sp_def merge_meta_def)
    have "preserves sp_rows_plain (ServiceProviderUpdate S p)"
      unfolding ServiceProviderUpdate_def serviceProvider_Update_def Let_def using d SpUpdate
      by (intro transaction_preserves[OF P] preserves_bindE preserves_ret sps_t.first_with_preserves[OF P] sp_each(4)) (simp add: m hook_entries_hooks)
    from preservesD[OF this w] show ?thesis using SpUpdate by simp
  next
    case (SpDelete p)
    have "preserves sp_rows_plain (ServiceProviderDelete p)"
      unfolding ServiceProviderDelete_def serviceProvider_Delete_def
      by (intro transaction_preserves[OF P] preserves_bindE preserves_ret sp_each(3))
    from preservesD[OF this w] show ?thesis using SpDelete by simp
  qed
qed

lemma sp_run_plain: "\<forall>r \<in> set reqs. hook_entries (obj_Extend (sp_data r)) \<Longrightarrow> sp_rows_plain w \<Longrightarrow> sp_rows_plain (sp_run S E reqs w)"
proof (induction reqs arbitrary: w)
  case (Cons r reqs)
  have "sp_rows_plain (sp_step S E r w)" using preservesD[OF sp_step_plain Cons.prems(2), of r S E] Cons.prems(1) by simp
  from Cons.IH[OF _ this] Cons.prems(1) show ?case by (simp add: sp_run_def)
qed (simp add: sp_run_def)

text \<open>What a list of service providers holds is what \<open>AfterFind\<close> makes of rows; a key that is found is one of theirs.\<close>

lemma sp_with_key_sound:
  "sp_with_key k ps = Inr p \<Longrightarrow> p \<in> set ps \<and> ((\<exists>s. sp_SAML p = Some s \<and> ss_Key s = k) \<or> (\<exists>o2. sp_Oauth2 p = Some o2 \<and> os_ClientID o2 = k))"
  by (induction ps) (auto split: if_splits option.splits)

lemma GetByKey_result:
  assumes "serviceProvider_GetByKey S E protocol k w = (Inr p, w')"
  obtains r where "r \<in> set (w_sps w)" "protocol \<noteq> [] \<longrightarrow> sp_Protocol r = protocol" "ServiceProvider_AfterFind S r = Some p"
    "(\<exists>s. sp_SAML p = Some s \<and> ss_Key s = k) \<or> (\<exists>o2. sp_Oauth2 p = Some o2 \<and> os_ClientID o2 = k)"
proof -
  from assms[unfolded serviceProvider_GetByKey_def] obtain ps n w1 where lst: "serviceProvider_List S E new_query protocol w = (Inr (ps, n), w1)"
    and key: "sp_with_key k ps = Inr p" by (auto elim!: bindE_Inr_elim)
  from sps_t.page_with_result[OF lst[unfolded serviceProvider_List_def]] sp_with_key_sound[OF key]
  show ?thesis using that by (auto simp: ToQuery_def Let_def)
qed

lemma sp_with_key_error: "sp_with_key k ps = Inl e \<Longrightarrow> e = Errorf ''no service provider with key:%v'' [k]"
  by (induction ps) (auto split: if_splits)

lemma GetByKey_error: "serviceProvider_GetByKey S E protocol k w = (Inl e, w') \<Longrightarrow> e \<noteq> Panic m"
  unfolding serviceProvider_GetByKey_def serviceProvider_List_def
  by (auto elim!: bindE_Inl_elim dest: sps_t.page_with_error sp_with_key_error)

lemma AfterFind_keys:
  assumes "ServiceProvider_AfterFind S r = Some p"
  obtains (saml) "sp_Protocol r = ''saml''" "so_saml_sp S (obj_Extend r) = Some (sp_SAML p)" "sp_Oauth2 p = None"
  | (oauth2) "sp_Protocol r = ''oauth2''" "so_oauth2_sp S (obj_Extend r) = Some (sp_Oauth2 p)" "sp_SAML p = None"
  | (other) "sp_SAML p = None" "sp_Oauth2 p = None"
  using assms by (auto simp: ServiceProvider_AfterFind_def Let_def SSOProtocolSAML_def SSOProtocolOAUTH2_def split: if_splits)

text \<open>
  C25. A service provider that is registered is never found by its key. The hooks write the SAML and OAuth2 data of a provider under the names \<open>saml\<close> and
  \<open>oauth2\<close> of the extension, the read hook decodes the extension itself, where a JSON decoder finds no field and leaves the struct empty (or nil). So, whatever
  service providers are added, updated and deleted by requests that bring no extension entries of other names, and whatever statements fail, every lookup
  of a key that is not empty fails; no OAuth2 client with an identifier can sign on.
\<close>

theorem sp_key_never_found:
  assumes saml: "\<And>x. hook_entries x \<Longrightarrow> so_saml_sp S x \<in> {None, Some None, Some (Some \<lparr>ss_Key = [], ss_Metadata = []\<rparr>)}"
    and oauth2: "\<And>x. hook_entries x \<Longrightarrow> so_oauth2_sp S x \<in> {None, Some None, Some (Some \<lparr>os_RedirectURIs = [], os_Type = [], os_ClientID = [], os_ClientSecret = []\<rparr>)}"
    and empty: "w_sps w = []" and reqs: "\<forall>r \<in> set reqs. hook_entries (obj_Extend (sp_data r))" and k: "k \<noteq> []"
  shows "(\<nexists>p. fst (serviceProvider_GetByKey S E protocol k (sp_run S E reqs w)) = Inr p) \<and>
    (au_ClientID req = k \<longrightarrow> (\<nexists>u. fst (Oauth2ProtocolSSOAuth S E req (sp_run S E reqs w)) = Inr u))"
proof -
  have plain: "sp_rows_plain (sp_run S E reqs w)" by (rule sp_run_plain[OF reqs]) (simp add: sp_rows_plain_def empty)
  have never: "serviceProvider_GetByKey S E pr k (sp_run S E reqs w) \<noteq> (Inr p, w')" for pr p w'
  proof
    assume "serviceProvider_GetByKey S E pr k (sp_run S E reqs w) = (Inr p, w')"
    then obtain r where r: "r \<in> set (w_sps (sp_run S E reqs w))" "ServiceProvider_AfterFind S r = Some p"
      and key: "(\<exists>s. sp_SAML p = Some s \<and> ss_Key s = k) \<or> (\<exists>o2. sp_Oauth2 p = Some o2 \<and> os_ClientID o2 = k)"
      by (rule GetByKey_result) auto
    have "hook_entries (obj_Extend r)" using plain r(1) by (simp add: sp_rows_plain_def)
    note decoded = saml[OF this] oauth2[OF this]
    from r(2) show False by (cases rule: AfterFind_keys) (use decoded key k in auto)
  qed
  have "fst (serviceProvider_GetByKey S E protocol k (sp_run S E reqs w)) \<noteq> Inr p" for p
    using never[of protocol p] by (cases "serviceProvider_GetByKey S E protocol k (sp_run S E reqs w)") auto
  moreover have "fst (Oauth2ProtocolSSOAuth S E req (sp_run S E reqs w)) \<noteq> Inr u" if "au_ClientID req = k" for u
    using never that unfolding Oauth2ProtocolSSOAuth_def
    by (cases "serviceProvider_GetByKey S E SSOProtocolOAUTH2 k (sp_run S E reqs w)"; cases "fst (serviceProvider_GetByKey S E SSOProtocolOAUTH2 k (sp_run S E reqs w))")
      (auto simp: bindE_def)
  ultimately show ?thesis by blast
qed

definition sample_sp :: service_provider where
  "sample_sp = new_sp\<lparr>obj_Name := ''gitlab'', sp_Enable := True, sp_Protocol := ''saml'', sp_Endpoint := ''https://git'', sp_Type := ''gitlab'',
     sp_SAML := Some \<lparr>ss_Key = ''https://git'', ss_Metadata = ''<xml/>''\<rparr>\<rparr>"

lemma sp_key_never_found_witness:
  "(case ServiceProviderAdd sample_env sample_sp empty_world of (Inr p, w) \<Rightarrow> map_option ss_Key (sp_SAML p) = Some ''https://git'' | _ \<Rightarrow> False) \<and>
   (\<nexists>p. fst (serviceProvider_GetByKey sample_sso sample_env ''saml'' ''https://git'' (sp_run sample_sso sample_env [SpAdd sample_sp] empty_world)) = Inr p)"
proof
  show "case ServiceProviderAdd sample_env sample_sp empty_world of (Inr p, w) \<Rightarrow> map_option ss_Key (sp_SAML p) = Some ''https://git'' | _ \<Rightarrow> False"
    by code_simp
  have key: "m k = None" if "hook_entries (Some m)" "k \<notin> {''saml'', ''oauth2''}" for m k
    using that by (auto simp: hook_entries_def)
  have "so_saml_sp sample_sso x \<in> {None, Some None, Some (Some \<lparr>ss_Key = [], ss_Metadata = []\<rparr>)}" if "hook_entries x" for x
    using that by (cases x) (auto simp: sample_sso_def map_at_def key)
  moreover have "so_oauth2_sp sample_sso x \<in> {None, Some None, Some (Some \<lparr>os_RedirectURIs = [], os_Type = [], os_ClientID = [], os_ClientSecret = []\<rparr>)}" if "hook_entries x" for x
    using that by (cases x) (auto simp: sample_sso_def map_at_def any_strings_def key)
  moreover have "w_sps empty_world = []" "\<forall>r \<in> set [SpAdd sample_sp]. hook_entries (obj_Extend (sp_data r))"
    by (simp_all add: empty_world_def sample_sp_def new_sp_def new_meta_def object_meta.defs hook_entries_def)
  ultimately show "\<nexists>p. fst (serviceProvider_GetByKey sample_sso sample_env ''saml'' ''https://git'' (sp_run sample_sso sample_env [SpAdd sample_sp] empty_world)) = Inr p"
    using sp_key_never_found[of sample_sso empty_world "[SpAdd sample_sp]" "''https://git''"] by blast
qed

subsection \<open>OAuth2 requests\<close>

text \<open>
  A sign-on request that the OAuth2 provider accepts obeys the policy of its client: there is a service provider of the OAuth2 protocol whose stored data has the client
  identifier of the request, the redirect URI has a prefix that is registered (or none is registered), and a public client gave a code challenge. The
  request never runs into a nil pointer.
\<close>

theorem oauth2_authorize_policy:
  assumes run: "Oauth2ProtocolSSOAuth S E req w = (r, w')"
  shows "(\<forall>u. r = Inr u \<longrightarrow> (\<exists>p \<in> set (w_sps w). \<exists>o2. sp_Protocol p = ''oauth2'' \<and> so_oauth2_sp S (obj_Extend p) = Some (Some o2) \<and>
      os_ClientID o2 = au_ClientID req \<and> (os_RedirectURIs o2 = [] \<or> so_any_prefix S (au_RedirectURI req) (os_RedirectURIs o2)) \<and>
      (os_Type o2 = ''public'' \<longrightarrow> au_CodeChallenge req \<noteq> []))) \<and>
    r \<noteq> Inl (Panic ''nil pointer'')"
proof -
  let ?k = "au_ClientID req"
  obtain x w1 where get: "serviceProvider_GetByKey S E SSOProtocolOAUTH2 ?k w = (x, w1)" by (cases "serviceProvider_GetByKey S E SSOProtocolOAUTH2 ?k w")
  show ?thesis
  proof (cases x)
    case (Inl e)
    have "e \<noteq> Panic ''nil pointer''" using get Inl GetByKey_error by blast
    then show ?thesis using run get Inl by (auto simp: Oauth2ProtocolSSOAuth_def bindE_def)
  next
    case (Inr p)
    from get[unfolded Inr] obtain q where q: "q \<in> set (w_sps w)" "sp_Protocol q = ''oauth2''" "ServiceProvider_AfterFind S q = Some p"
      and key: "(\<exists>s. sp_SAML p = Some s \<and> ss_Key s = ?k) \<or> (\<exists>o2. sp_Oauth2 p = Some o2 \<and> os_ClientID o2 = ?k)"
      by (rule GetByKey_result) (auto simp: SSOProtocolOAUTH2_def)
    from q(2,3) have dec: "so_oauth2_sp S (obj_Extend q) = Some (sp_Oauth2 p)" "sp_SAML p = None"
      by (auto simp: ServiceProvider_AfterFind_def Let_def SSOProtocolSAML_def SSOProtocolOAUTH2_def split: if_splits)
    with key obtain o2 where o2: "sp_Oauth2 p = Some o2" "os_ClientID o2 = ?k" by auto
    with dec have "so_oauth2_sp S (obj_Extend q) = Some (Some o2)" by simp
    with q(1,2) o2 run get Inr show ?thesis
      by (auto simp: Oauth2ProtocolSSOAuth_def bindE_def split: if_splits)
  qed
qed

definition oauth2_world :: world where
  "oauth2_world = empty_world\<lparr>w_sps := [new_sp\<lparr>obj_ID := ''s1'', obj_Name := ''app'', sp_Enable := True, sp_Protocol := ''oauth2'', sp_Endpoint := ''https://app'',
     obj_Extend := Some [''client_id'' \<mapsto> AStr ''c1'', ''string'' \<mapsto> AStr ''public'', ''redirect_uris'' \<mapsto> AArr [AStr ''https://app/'']]\<rparr>]\<rparr>"

definition sample_authorize :: authorize_request where
  "sample_authorize = \<lparr>au_ClientID = ''c1'', au_ResponseType = ''code'', au_RedirectURI = ''https://app/cb'', au_Scope = ''openid'', au_State = ''s'',
     au_CodeChallenge = ''x'', au_CodeChallengeMethod = ''S256''\<rparr>"

lemma oauth2_authorize_policy_witness:
  "\<exists>p \<in> set (w_sps oauth2_world). \<exists>o2. so_oauth2_sp sample_sso (obj_Extend p) = Some (Some o2) \<and> os_ClientID o2 = ''c1'' \<and>
     (os_RedirectURIs o2 = [] \<or> so_any_prefix sample_sso ''https://app/cb'' (os_RedirectURIs o2))"
proof -
  have ok: "case Oauth2ProtocolSSOAuth sample_sso sample_env sample_authorize oauth2_world of (Inr _, _) \<Rightarrow> True | _ \<Rightarrow> False" by code_simp
  then obtain w' where run: "Oauth2ProtocolSSOAuth sample_sso sample_env sample_authorize oauth2_world = (Inr (), w')"
    by (auto split: prod.splits sum.splits)
  have "au_ClientID sample_authorize = ''c1''" "au_RedirectURI sample_authorize = ''https://app/cb''" by (simp_all add: sample_authorize_def)
  then show ?thesis using oauth2_authorize_policy[OF run] by fastforce
qed

lemma map_of_Set_value: "map_of (Set_value k v vs) = (map_of vs)(k \<mapsto> v)"
proof
  fix x
  have "map_of (filter (\<lambda>kv. fst kv \<noteq> k) vs) x = (if x = k then None else map_of vs x)" by (induction vs) auto
  then show "map_of (Set_value k v vs) x = ((map_of vs)(k \<mapsto> v)) x" by (auto simp: Set_value_def map_add_def split: option.split)
qed

lemma distinct_Set_value: "distinct (map fst vs) \<Longrightarrow> distinct (map fst (Set_value k v vs))"
  by (auto simp: Set_value_def distinct_map_filter)

text \<open>An encoded form reads as its entries.\<close>

lemma parse_Encode:
  assumes "distinct (map fst vs)"
  shows "map_of (parse_query (Encode vs)) = map_of vs" "distinct (map fst (parse_query (Encode vs)))"
proof -
  have sorted: "distinct (map fst (sort_key fst vs))" using assms by (simp add: distinct_map)
  have "map_of (sort_key fst vs) = map_of vs" by (subst map_of_inject_set[OF sorted assms]) simp
  with sorted show "map_of (parse_query (Encode vs)) = map_of vs" "distinct (map fst (parse_query (Encode vs)))"
    by (simp_all add: Encode_def parse_encoded)
qed

text \<open>
  C30. The URL to which a sign-on is redirected carries exactly its parameters, whatever bytes they hold: after the address of the provider comes a query string that reads back as
  the response type, the client identifier, the redirect address, the scopes if there are any, the state and the challenge if they are not empty, each
  once, and nothing else. (Under the name of the challenge method it has the challenge again.)
\<close>

theorem redirect_url_exact:
  "\<exists>q. AuthCodeRedirectURL s ep state redirect challenge challengeMethod =
      ep @ ''/'' @ oi_AuthorizeURI s @ (if Contains (ep @ ''/'' @ oi_AuthorizeURI s) ''?'' then ''&'' else ''?'') @ q \<and>
    distinct (map fst (parse_query q)) \<and>
    map_of (parse_query q) = (\<lambda>k.
      if k = ''response_type'' then Some ''code''
      else if k = ''client_id'' then Some (oi_ClientID s)
      else if k = ''redirect_uri'' then Some redirect
      else if k = ''scope'' \<and> oi_Scopes s \<noteq> [] then Some (Join (oi_Scopes s) '' '')
      else if k = ''state'' \<and> state \<noteq> [] then Some state
      else if k = ''code_challenge'' \<and> challenge \<noteq> [] then Some challenge
      else if k = ''code_challenge_method'' \<and> challengeMethod \<noteq> [] then Some challenge
      else None)"
proof -
  let ?vs = "oauth2_query s state redirect challenge challengeMethod"
  have d: "distinct (map fst ?vs)" by (simp add: oauth2_query_def Let_def distinct_Set_value)
  have "map_of ?vs = (\<lambda>k.
      if k = ''response_type'' then Some ''code''
      else if k = ''client_id'' then Some (oi_ClientID s)
      else if k = ''redirect_uri'' then Some redirect
      else if k = ''scope'' \<and> oi_Scopes s \<noteq> [] then Some (Join (oi_Scopes s) '' '')
      else if k = ''state'' \<and> state \<noteq> [] then Some state
      else if k = ''code_challenge'' \<and> challenge \<noteq> [] then Some challenge
      else if k = ''code_challenge_method'' \<and> challengeMethod \<noteq> [] then Some challenge
      else None)"
    by (rule ext) (simp add: oauth2_query_def Let_def map_of_Set_value)
  with parse_Encode[OF d] show ?thesis by (intro exI[of _ "Encode ?vs"]) (simp add: AuthCodeRedirectURL_def Let_def)
qed

subsection \<open>Where an identity provider is looked up\<close>

text \<open>An operation is blind for the table of identity providers when it neither reads nor writes it.\<close>

definition idp_blind :: "'a m \<Rightarrow> bool" where
  "idp_blind op \<longleftrightarrow> (\<forall>w ps. op (w\<lparr>w_idps := ps\<rparr>) = (fst (op w), (snd (op w))\<lparr>w_idps := ps\<rparr>))"

lemma idp_blindI: "(\<And>w ps. op (w\<lparr>w_idps := ps\<rparr>) = (fst (op w), (snd (op w))\<lparr>w_idps := ps\<rparr>)) \<Longrightarrow> idp_blind op"
  by (simp add: idp_blind_def)

lemma idp_blindD: "idp_blind op \<Longrightarrow> op (w\<lparr>w_idps := ps\<rparr>) = (fst (op w), (snd (op w))\<lparr>w_idps := ps\<rparr>)"
  by (simp add: idp_blind_def)

named_theorems blind_rules "operations that do not touch the table of identity providers"

lemma blind_basic [blind_rules]: "idp_blind (ret x)" "idp_blind (throw e)" "idp_blind (lift_sum r)"
  by (simp_all add: idp_blind_def)

lemma blind_bindE [blind_rules]: "idp_blind op \<Longrightarrow> (\<And>x. idp_blind (f x)) \<Longrightarrow> idp_blind (bindE op f)"
  by (rule idp_blindI) (simp add: bindE_apply idp_blindD split: sum.split)

lemma blind_stmt: "idp_blind body \<Longrightarrow> idp_blind (stmt body)"
proof (rule idp_blindI)
  fix w :: world and ps assume body: "idp_blind body"
  have comm: "w\<lparr>w_idps := ps, w_faults := fs\<rparr> = w\<lparr>w_faults := fs, w_idps := ps\<rparr>" for fs by simp
  show "stmt body (w\<lparr>w_idps := ps\<rparr>) = (fst (stmt body w), (snd (stmt body w))\<lparr>w_idps := ps\<rparr>)"
    using idp_blindD[OF body] by (cases "w_faults w") (auto simp: stmt_def comm simp del: world.update_convs)
qed

lemma blind_transaction [blind_rules]: "idp_blind body \<Longrightarrow> idp_blind (transaction body)"
proof (rule idp_blindI)
  fix w :: world and ps assume body: "idp_blind body"
  let ?full = "bindE body (\<lambda>x. stmt (\<lambda>w'. (Inr x, w'\<lparr>w_tx := None\<rparr>)))"
  have comm: "w\<lparr>w_idps := ps, w_tx := Some True\<rparr> = w\<lparr>w_tx := Some True, w_idps := ps\<rparr>" by simp
  have "idp_blind ?full" by (intro blind_bindE body blind_stmt idp_blindI) simp
  from idp_blindD[OF this, of ps "w\<lparr>w_tx := Some True\<rparr>"]
  have "?full (w\<lparr>w_idps := ps, w_tx := Some True\<rparr>) = (fst (?full (w\<lparr>w_tx := Some True\<rparr>)), (snd (?full (w\<lparr>w_tx := Some True\<rparr>)))\<lparr>w_idps := ps\<rparr>)"
    unfolding comm .
  then show "transaction body (w\<lparr>w_idps := ps\<rparr>) = (fst (transaction body w), (snd (transaction body w))\<lparr>w_idps := ps\<rparr>)"
    by (cases "?full (w\<lparr>w_tx := Some True\<rparr>)"; cases "fst (?full (w\<lparr>w_tx := Some True\<rparr>))")
      (simp_all add: transaction_def rollback_def undo_tables_def)
qed

lemma blind_reads [blind_rules]: "idp_blind (db_first_by k sps_tbl P)" "idp_blind (db_first_by k2 settings_tbl Q)"
  unfolding db_first_by_def by (intro blind_stmt idp_blindI, simp split: option.split)+

lemma blind_ott [blind_rules]: "idp_blind (db_create E dflt otts_tbl r)"
  unfolding db_create_def by (intro blind_stmt idp_blindI) (simp add: Let_def)

lemma blind_after_find [blind_rules]: "idp_blind (after_find hook r)"
  by (simp add: after_find_def blind_basic split: option.split)

lemma blind_splits [blind_rules]:
  "(b \<Longrightarrow> idp_blind op1) \<Longrightarrow> (\<not> b \<Longrightarrow> idp_blind op2) \<Longrightarrow> idp_blind (if b then op1 else op2)"
  "(x = None \<Longrightarrow> idp_blind op1) \<Longrightarrow> (\<And>y. x = Some y \<Longrightarrow> idp_blind (f y)) \<Longrightarrow> idp_blind (case x of None \<Rightarrow> op1 | Some y \<Rightarrow> f y)"
  by (simp, cases x, simp_all)

lemma blind_lookups [blind_rules]: "idp_blind (ssoIdp_GetByName S name)" "idp_blind (setting_GetByName name)" "idp_blind (ott_Add E k)"
  unfolding ssoIdp_GetByName_def first_with_def db_first_def setting_GetByName_def ott_Add_def by (intro blind_rules)+

lemma idp_GetByName_result:
  assumes "ssoIdp_GetByName S name w = (Inr idp, w')"
  obtains p fs where "p \<in> set (w_sps w)" "obj_Name p = name" "ip_Enable idp = sp_Enable p" "ip_Protocol idp = sp_Protocol p" "w' = w\<lparr>w_faults := fs\<rparr>"
proof -
  from assms[unfolded ssoIdp_GetByName_def] obtain p fs where p: "p \<in> set (w_sps w)" "obj_Name p = name"
    "IdentityProvider_AfterFind S (sp_row_as_idp p) = Some idp" "w' = w\<lparr>w_faults := fs\<rparr>"
    by (rule sps_t.first_with_result) auto
  have "ip_Enable idp = sp_Enable p" "ip_Protocol idp = sp_Protocol p"
    using p(3) by (auto simp: IdentityProvider_AfterFind_def Let_def sp_row_as_idp_def object_meta.defs identity_provider.defs split: if_splits)
  then show ?thesis by (rule that[OF p(1,2) _ _ p(4)])
qed

end
