(* ===== verification/Saml.thy ===== *)
theory Saml
  imports Sso
begin

text \<open>
  SAML sign-on in both roles: \<open>sso_auth_idp_saml.go\<close>, where this server answers the requests of service providers, \<open>sso_auth_sp_saml.go\<close>, where
  it is the service provider, and the metadata of both roles (\<open>sso_meta.go\<close>).
\<close>

subsection \<open>Library values\<close>

record authn_request =
  aq_ID :: string
  aq_Destination :: string
  aq_IssueInstant :: time
  aq_Version :: string
  aq_Issuer :: "string option"
  aq_ACSIndex :: string
  aq_ACSURL :: string

definition zero_request :: authn_request where
  "zero_request = \<lparr>aq_ID = [], aq_Destination = [], aq_IssueInstant = zero_time, aq_Version = [], aq_Issuer = None, aq_ACSIndex = [], aq_ACSURL = []\<rparr>"

text \<open>An attribute with its values, each with its type.\<close>

record attribute =
  ab_FriendlyName :: string
  ab_Name :: string
  ab_NameFormat :: string
  ab_Values :: "(string \<times> string) list"

record session =
  se_CreateTime :: time
  se_Index :: string
  se_NameID :: string
  se_NameIDFormat :: string
  se_SubjectID :: string
  se_Groups :: "string list"
  se_UserName :: string
  se_UserEmail :: string
  se_UserCommonName :: string
  se_UserSurname :: string
  se_UserGivenName :: string
  se_UserScopedAffiliation :: string
  se_CustomAttributes :: "attribute list"

record assertion =
  an_ID :: string
  an_IssueInstant :: time
  an_Version :: string
  an_Issuer :: string
  an_NameIDFormat :: string
  an_NameQualifier :: string
  an_SPNameQualifier :: string
  an_NameID :: string
  an_Address :: string
  an_InResponseTo :: string
  an_ConfirmedUntil :: time
  an_Recipient :: string
  an_NotBefore :: time
  an_NotOnOrAfter :: time
  an_Audience :: string
  an_AuthnInstant :: time
  an_SessionIndex :: string
  an_Attributes :: "attribute list"
  an_Signature :: "string option"

record response =
  rs_Destination :: string
  rs_ID :: string
  rs_InResponseTo :: string
  rs_IssueInstant :: time
  rs_Issuer :: string
  rs_Signature :: "string option"
  rs_Assertion :: string

text \<open>The settings of \<open>saml.ServiceProvider\<close> that the code fills in.\<close>

record sp_role =
  sr_EntityID :: string
  sr_Certificate :: certificate
  sr_MetadataURL :: string
  sr_AcsURL :: string
  sr_SloURL :: string
  sr_IDPMetadata :: entity
  sr_ForceAuthn :: "bool option"
  sr_SignatureMethod :: string
  sr_AllowIDPInitiated :: bool
  sr_DefaultRedirectURI :: string
  sr_LogoutBindings :: "string list"

text \<open>
  More functions of other libraries. \<open>sl_check\<close> validates XML (an error has a text), \<open>sl_request\<close> reads a request, \<open>sl_xml\<close> writes metadata. Elements are
  their texts: \<open>sl_assertion\<close> is the method \<open>Element\<close> of an assertion or of a nil pointer (no result is a panic), \<open>sl_response\<close> that of a response with its assertion,
  \<open>sl_sign\<close> signs, \<open>sl_signature\<close> is the last child, \<open>sl_encrypt\<close> encrypts for a certificate, \<open>sl_document\<close> writes a document. \<open>sl_context\<close> tells whether a
  signing context can be made with the signature method. \<open>sl_decode64\<close> decodes base64, \<open>sl_x509\<close> parses a certificate and \<open>sl_key_pair\<close> a pair with its leaf. The rest are methods of \<open>saml.ServiceProvider\<close>: the
  location for a binding in the provider's metadata, the redirect URL and the form of an authentication request, the subject of the assertion in a
  response (of an HTTP request or a nil pointer, with the request identifiers that are possible), and a logout request; and the JSON text of an initiator request, alone or with the name of a user.
\<close>

record saml = sso +
  sl_MaxIssueDelay :: int
  sl_MaxClockSkew :: int
  sl_check :: "string \<Rightarrow> string option"
  sl_request :: "string \<Rightarrow> string + authn_request"
  sl_time :: "time \<Rightarrow> string"
  sl_xml :: "entity \<Rightarrow> string option"
  sl_assertion :: "assertion option \<Rightarrow> string option"
  sl_response :: "response \<Rightarrow> string"
  sl_context :: "certificate \<Rightarrow> string \<Rightarrow> bool"
  sl_sign :: "certificate \<Rightarrow> string \<Rightarrow> string option"
  sl_signature :: "string \<Rightarrow> string"
  sl_encrypt :: "certificate \<Rightarrow> string \<Rightarrow> string option"
  sl_document :: "string \<Rightarrow> string option"
  sl_decode64 :: "string \<Rightarrow> string option"
  sl_x509 :: "string \<Rightarrow> certificate option"
  sl_key_pair :: "string \<Rightarrow> string \<Rightarrow> certificate option"
  sl_sso_location :: "sp_role \<Rightarrow> string \<Rightarrow> string"
  sl_redirect :: "sp_role \<Rightarrow> string \<Rightarrow> string \<Rightarrow> string option"
  sl_post :: "sp_role \<Rightarrow> string \<Rightarrow> string \<Rightarrow> string option"
  sl_subject :: "sp_role \<Rightarrow> string option \<Rightarrow> string list \<Rightarrow> string option"
  sl_slo_location :: "sp_role \<Rightarrow> string \<Rightarrow> string"
  sl_logout :: "sp_role \<Rightarrow> string \<Rightarrow> string \<Rightarrow> string option"
  sl_json_initiator :: "initiator_request \<Rightarrow> string"
  sl_json_info :: "string \<Rightarrow> initiator_request \<Rightarrow> string"

definition HTTPPostBinding :: string where
  "HTTPPostBinding = ''urn:oasis:names:tc:SAML:2.0:bindings:HTTP-POST''"

definition HTTPRedirectBinding :: string where
  "HTTPRedirectBinding = ''urn:oasis:names:tc:SAML:2.0:bindings:HTTP-Redirect''"

definition RSASHA1SignatureMethod :: string where
  "RSASHA1SignatureMethod = ''http://www.w3.org/2000/09/xmldsig#rsa-sha1''"

subsection \<open>The metadata of the identity provider\<close>

record saml_idp =
  si_Certificate :: "certificate option"
  si_RootURL :: string
  si_MetadataURL :: string
  si_SSOURL :: string
  si_SignatureMethod :: string

definition SsoIdpURLAnswer :: string where
  "SsoIdpURLAnswer = ''/v1/auth/sso/idp/saml/answer''"

definition SsoIdpURLMetadata :: string where
  "SsoIdpURLMetadata = ''/v1/auth/sso/idp/saml/metadata''"

definition SsoSpURLSamlACS :: string where
  "SsoSpURLSamlACS = ''/v1/auth/sso/sp/saml/acs''"

definition SsoSpURLSamlSLO :: string where
  "SsoSpURLSamlSLO = ''/v1/auth/sso/sp/saml/slo''"

definition SsoSpURLSamlMetadata :: string where
  "SsoSpURLSamlMetadata = ''/v1/auth/sso/sp/saml/metadata''"

definition DefaultCertificateExpireDuration :: int where
  "DefaultCertificateExpireDuration = 10 * 365 * 24 * 3600 * 1000000000"

definition encryption_methods :: "string list" where
  "encryption_methods = map (\<lambda>m. ''http://www.w3.org/2001/04/xmlenc#'' @ m) [''aes128-cbc'', ''aes192-cbc'', ''aes256-cbc'', ''rsa-oaep-mgf1p'']"

definition samlEntityDescriptorGenerate :: "'x sso_scheme \<Rightarrow> time \<Rightarrow> setting \<Rightarrow> err + saml_idp \<times> entity" where
  "samlEntityDescriptorGenerate L now meta = (case so_cert L (setting_text ''cert'' meta) (setting_text ''key'' meta) of
     Inl _ \<Rightarrow> Inl StoreFailure
   | Inr leaf \<Rightarrow> (case so_url L (setting_text ''endpoint'' meta) of
        None \<Rightarrow> Inl StoreFailure
      | Some rootURL \<Rightarrow>
          let ssoURL = so_resolve L rootURL SsoIdpURLAnswer;
              certStr = base64 (ce_Raw leaf);
              ed = \<lparr>en_EntityID = rootURL, en_ValidUntil = now + DefaultCertificateExpireDuration,
                en_IDP = [\<lparr>id_WantSigned = None,
                  id_Keys = [\<lparr>kd_Use = ''signing'', kd_Certificates = [certStr], kd_Methods = []\<rparr>,
                             \<lparr>kd_Use = ''encryption'', kd_Certificates = [certStr], kd_Methods = encryption_methods\<rparr>],
                  id_NameIDFormats = [''urn:oasis:names:tc:SAML:2.0:nameid-format:transient''],
                  id_SingleSignOn = [(HTTPRedirectBinding, ssoURL), (HTTPPostBinding, ssoURL)]\<rparr>],
                en_SP = []\<rparr>
          in Inr (\<lparr>si_Certificate = (if ce_Leaf leaf then Some leaf else None), si_RootURL = rootURL,
               si_MetadataURL = so_resolve L rootURL SsoIdpURLMetadata, si_SSOURL = ssoURL, si_SignatureMethod = []\<rparr>, ed)))"

definition xmlIdpSamlGenerate :: "saml \<Rightarrow> time \<Rightarrow> setting \<Rightarrow> err + string" where
  "xmlIdpSamlGenerate L now meta = (case samlEntityDescriptorGenerate L now meta of
     Inl e \<Rightarrow> Inl e
   | Inr (_, ed) \<Rightarrow> (case sl_xml L ed of None \<Rightarrow> Inl StoreFailure | Some x \<Rightarrow> Inr x))"

subsection \<open>A request of a service provider\<close>

record idp_request =
  rq_IDP :: saml_idp
  rq_RemoteAddr :: string
  rq_HTTP :: "string option"
  rq_RelayState :: string
  rq_Buffer :: string
  rq_Request :: authn_request
  rq_SP :: "entity option"
  rq_SPSSO :: "sp_descriptor option"
  rq_ACS :: "endpoint option"
  rq_Assertion :: "assertion option"
  rq_AssertionEl :: "string option"
  rq_ResponseEl :: "string option"
  rq_Now :: time

text \<open>What the HTTP layer hands over: the relay state, the address of the peer, the decoded request and the address in the HTTP request, if it is set.\<close>

record answer_request =
  ar_Relay :: string
  ar_Remote :: string
  ar_Decoded :: string
  ar_HTTP :: "string option"

definition NewIdpAuthnRequest :: "time \<Rightarrow> answer_request \<Rightarrow> saml_idp \<Rightarrow> idp_request" where
  "NewIdpAuthnRequest now r idp = \<lparr>rq_IDP = idp, rq_RemoteAddr = ar_Remote r, rq_HTTP = ar_HTTP r, rq_RelayState = ar_Relay r, rq_Buffer = ar_Decoded r,
     rq_Request = zero_request, rq_SP = None, rq_SPSSO = None, rq_ACS = None, rq_Assertion = None, rq_AssertionEl = None, rq_ResponseEl = None, rq_Now = now\<rparr>"

text \<open>The first service in document order, with its descriptor.\<close>

fun first_service :: "(endpoint \<Rightarrow> bool) \<Rightarrow> sp_descriptor list \<Rightarrow> (sp_descriptor \<times> endpoint) option" where
  "first_service P [] = None"
| "first_service P (d # ds) = (case find P (sd_Services d) of Some e \<Rightarrow> Some (d, e) | None \<Rightarrow> first_service P ds)"

definition usable_binding :: "endpoint \<Rightarrow> bool" where
  "usable_binding e \<longleftrightarrow> ie_Binding e = HTTPPostBinding \<or> ie_Binding e = HTTPRedirectBinding"

definition with_service :: "idp_request \<Rightarrow> sp_descriptor \<times> endpoint \<Rightarrow> idp_request" where
  "with_service req s = req\<lparr>rq_SPSSO := Some (fst s), rq_ACS := Some (snd s)\<rparr>"

text \<open>
  The methods with a value receiver work on a copy of the request: the result is this copy, and the caller keeps its own.
\<close>

definition getACSEndpoint :: "idp_request \<Rightarrow> err + idp_request" where
  "getACSEndpoint req = (case rq_SP req of
     None \<Rightarrow> Inl (Panic ''nil pointer'')
   | Some md \<Rightarrow>
       let ds = en_SP md; idx = aq_ACSIndex (rq_Request req); loc = aq_ACSURL (rq_Request req)
       in case (if idx \<noteq> [] then first_service (\<lambda>e. fmt_d (ie_Index e) = idx) ds else None) of
            Some s \<Rightarrow> Inr (with_service req s)
          | None \<Rightarrow> (case (if loc \<noteq> [] then first_service (\<lambda>e. ie_Location e = loc) ds else None) of
              Some s \<Rightarrow> Inr (with_service req s)
            | None \<Rightarrow>
                if loc = [] \<and> idx = [] then
                  (case first_service (\<lambda>e. ie_IsDefault e = Some True \<and> usable_binding e) ds of
                     Some s \<Rightarrow> Inr (with_service req s)
                   | None \<Rightarrow> (case first_service usable_binding ds of
                        Some s \<Rightarrow> Inr (with_service req s)
                      | None \<Rightarrow> Inl NotExist))
                else Inl NotExist))"

definition IdpAuthnRequest_Validate :: "saml \<Rightarrow> env \<Rightarrow> entity \<Rightarrow> string \<Rightarrow> idp_request \<Rightarrow> unit m" where
  "IdpAuthnRequest_Validate L E ed ssoURL req = (case sl_check L (rq_Buffer req) of
     Some e \<Rightarrow> throw (Errorf ''validate err:%v'' [e])
   | None \<Rightarrow> (case sl_request L (rq_Buffer req) of
       Inl e \<Rightarrow> throw (Errorf ''xml unmarshal err:%v'' [e])
     | Inr r \<Rightarrow> (case en_IDP ed of
         [d] \<Rightarrow>
           let expires = aq_IssueInstant r + sl_MaxIssueDelay L
           in if id_WantSigned d = Some True then throw (Errorf ''authn request signature checking is not currently supported'' [])
              else if aq_Destination r \<noteq> [] \<and> aq_Destination r \<noteq> ssoURL
              then throw (Errorf ''expected destination to be %q, not %q'' [ssoURL, aq_Destination r])
              else if expires < rq_Now req then throw (Errorf ''request expired at %s'' [sl_time L expires])
              else if aq_Version r \<noteq> ''2.0'' then throw (Errorf ''expected SAML request version 2.0 got %v'' [aq_Version r])
              else (case aq_Issuer r of
                None \<Rightarrow> throw (Panic ''nil pointer'')
              | Some pid \<Rightarrow>
                  bindE (attempt (serviceProvider_GetByKey (sso.truncate L) E SSOProtocolSAML pid)) (\<lambda>found. case found of
                    Inl e \<Rightarrow> if e = NotExist then throw (Errorf ''cannot handle request from unknown service provider %s'' [pid])
                             else throw (Errorf ''cannot find service provider %s: %v'' [pid, e_error E e])
                  | Inr sp \<Rightarrow> (case sp_SAML sp of
                      None \<Rightarrow> throw (Panic ''nil pointer'')
                    | Some s \<Rightarrow> (case so_metadata L (ss_Metadata s) of
                        None \<Rightarrow> throw (Errorf ''parse sp metadata error:%v'' [])
                      | Some md \<Rightarrow> (case getACSEndpoint (req\<lparr>rq_Request := r, rq_SP := Some md\<rparr>) of
                          Inl e \<Rightarrow> (case e of Panic m \<Rightarrow> throw e | _ \<Rightarrow> throw (Errorf ''cannot find assertion consumer service: %v'' [e_error E e]))
                        | Inr _ \<Rightarrow> ret ())))))
       | _ \<Rightarrow> throw (Errorf ''expected exactly one IDP SSO descriptor in IDP metadata'' []))))"

subsection \<open>The assertion\<close>

definition alphanumeric :: "char \<Rightarrow> bool" where
  "alphanumeric c \<longleftrightarrow> (let n = byte c in 48 \<le> n \<and> n \<le> 57 \<or> 65 \<le> n \<and> n \<le> 90 \<or> 97 \<le> n \<and> n \<le> 122)"

definition xs_strings :: "string list \<Rightarrow> (string \<times> string) list" where
  "xs_strings vs = map (\<lambda>v. (''xs:string'', v)) vs"

definition chosen_service :: "attribute_service list \<Rightarrow> attribute_service" where
  "chosen_service acs = (case find (\<lambda>a. cs_IsDefault a = Some True) acs of
     Some a \<Rightarrow> a
   | None \<Rightarrow> (case acs of a # _ \<Rightarrow> a | [] \<Rightarrow> \<lparr>cs_IsDefault = None, cs_Requested = []\<rparr>))"

definition requested_value :: "session \<Rightarrow> string \<Rightarrow> string option" where
  "requested_value se name =
     (if name \<in> {''email'', ''emailaddress''} then Some (se_UserEmail se)
      else if name \<in> {''name'', ''fullname'', ''cn'', ''commonname''} then Some (se_UserCommonName se)
      else if name \<in> {''givenname'', ''firstname''} then Some (se_UserGivenName se)
      else if name \<in> {''surname'', ''lastname'', ''familyname''} then Some (se_UserSurname se)
      else if name \<in> {''uid'', ''user'', ''userid''} then Some (se_UserName se)
      else None)"

definition requested_attributes :: "session \<Rightarrow> requested_attribute list \<Rightarrow> attribute list" where
  "requested_attributes se ras = List.map_filter (\<lambda>ra.
     if ra_NameFormat ra \<in> {''urn:oasis:names:tc:SAML:2.0:attrname-format:basic'', ''urn:oasis:names:tc:SAML:2.0:attrname-format:unspecified''}
     then map_option (\<lambda>v. \<lparr>ab_FriendlyName = ra_FriendlyName ra, ab_Name = ra_Name ra, ab_NameFormat = ra_NameFormat ra, ab_Values = xs_strings [v]\<rparr>)
       (requested_value se (filter alphanumeric (ra_Name ra)))
     else None) ras"

definition uri_format :: string where
  "uri_format = ''urn:oasis:names:tc:SAML:2.0:attrname-format:uri''"

definition profile_attribute :: "string \<Rightarrow> string \<Rightarrow> string \<Rightarrow> attribute list" where
  "profile_attribute friendly oid v =
     (if v \<noteq> [] then [\<lparr>ab_FriendlyName = friendly, ab_Name = oid, ab_NameFormat = uri_format, ab_Values = xs_strings [v]\<rparr>] else [])"

definition session_attributes :: "session \<Rightarrow> attribute list" where
  "session_attributes se =
     profile_attribute ''uid'' ''urn:oid:0.9.2342.19200300.100.1.1'' (se_UserName se) @
     profile_attribute ''eduPersonPrincipalName'' ''urn:oid:1.3.6.1.4.1.5923.1.1.1.6'' (se_UserEmail se) @
     profile_attribute ''sn'' ''urn:oid:2.5.4.4'' (se_UserSurname se) @
     profile_attribute ''givenName'' ''urn:oid:2.5.4.42'' (se_UserGivenName se) @
     profile_attribute ''cn'' ''urn:oid:2.5.4.3'' (se_UserCommonName se) @
     profile_attribute ''uid'' ''urn:oid:1.3.6.1.4.1.5923.1.1.1.9'' (se_UserScopedAffiliation se) @
     se_CustomAttributes se @
     (if se_Groups se \<noteq> [] then [\<lparr>ab_FriendlyName = ''eduPersonAffiliation'', ab_Name = ''urn:oid:1.3.6.1.4.1.5923.1.1.1.1'', ab_NameFormat = uri_format,
        ab_Values = xs_strings (se_Groups se)\<rparr>] else []) @
     profile_attribute [] ''urn:oasis:names:tc:SAML:attribute:subject-id'' (se_SubjectID se)"

text \<open>The validity: from a clock skew ago, or from the instant of the request if that is later.\<close>

definition validity :: "saml \<Rightarrow> time \<Rightarrow> time \<Rightarrow> time \<times> time" where
  "validity L now issued =
     (if now - sl_MaxClockSkew L < issued then (issued, issued + sl_MaxIssueDelay L)
      else (now - sl_MaxClockSkew L, now + sl_MaxIssueDelay L))"

text \<open>\<open>rnd\<close> is the hexadecimal text of the random bytes, \<open>t\<close> the clock.\<close>

definition MakeAssertion :: "saml \<Rightarrow> string \<Rightarrow> time \<Rightarrow> entity \<Rightarrow> session \<Rightarrow> idp_request \<Rightarrow> err + idp_request" where
  "MakeAssertion L rnd t ed se req = (case (rq_SPSSO req, rq_SP req, rq_HTTP req, rq_ACS req) of
     (Some d, Some md, Some addr, Some e) \<Rightarrow>
       let attributes = requested_attributes se (cs_Requested (chosen_service (sd_AttributeServices d))) @ session_attributes se;
           valid = validity L (rq_Now req) (aq_IssueInstant (rq_Request req))
       in Inr (req\<lparr>rq_Assertion := Some \<lparr>an_ID = ''id-'' @ rnd, an_IssueInstant = t, an_Version = ''2.0'', an_Issuer = en_EntityID ed,
            an_NameIDFormat = (if se_NameIDFormat se \<noteq> [] then se_NameIDFormat se else ''urn:oasis:names:tc:SAML:2.0:nameid-format:transient''),
            an_NameQualifier = en_EntityID ed, an_SPNameQualifier = en_EntityID md, an_NameID = se_NameID se,
            an_Address = addr, an_InResponseTo = aq_ID (rq_Request req), an_ConfirmedUntil = rq_Now req + sl_MaxIssueDelay L, an_Recipient = ie_Location e,
            an_NotBefore = fst valid, an_NotOnOrAfter = snd valid, an_Audience = en_EntityID md, an_AuthnInstant = se_CreateTime se,
            an_SessionIndex = se_Index se, an_Attributes = attributes, an_Signature = None\<rparr>\<rparr>)
   | _ \<Rightarrow> Inl (Panic ''nil pointer''))"

subsection \<open>Signing and encrypting\<close>

definition signingContext :: "saml \<Rightarrow> idp_request \<Rightarrow> err + certificate" where
  "signingContext L req = (case si_Certificate (rq_IDP req) of
     None \<Rightarrow> Inl (Panic ''nil pointer'')
   | Some c \<Rightarrow>
       let meth = (if si_SignatureMethod (rq_IDP req) = [] then RSASHA1SignatureMethod else si_SignatureMethod (rq_IDP req))
       in if sl_context L c meth then Inr c else Inl StoreFailure)"

definition encryption_cert :: "key_descriptor list \<Rightarrow> err + string" where
  "encryption_cert ks = (case find (\<lambda>k. kd_Use k = ''encryption'') ks of
     None \<Rightarrow> Inr []
   | Some k \<Rightarrow> (case kd_Certificates k of [] \<Rightarrow> Inl (Panic ''index out of range'') | c # _ \<Rightarrow> Inr c))"

definition unlabeled_cert :: "key_descriptor list \<Rightarrow> string" where
  "unlabeled_cert ks = (case find (\<lambda>k. kd_Use k = [] \<and> kd_Certificates k \<noteq> [] \<and> hd (kd_Certificates k) \<noteq> []) ks of
     None \<Rightarrow> [] | Some k \<Rightarrow> hd (kd_Certificates k))"

definition getSPEncryptionCert :: "saml \<Rightarrow> idp_request \<Rightarrow> err + certificate" where
  "getSPEncryptionCert L req = (case rq_SPSSO req of
     None \<Rightarrow> Inl (Panic ''nil pointer'')
   | Some d \<Rightarrow> (case encryption_cert (sd_Keys d) of
       Inl e \<Rightarrow> Inl e
     | Inr labeled \<Rightarrow>
         let certStr = (if labeled = [] then unlabeled_cert (sd_Keys d) else labeled)
         in if certStr = [] then Inl NotExist
            else (case sl_decode64 L (filter (\<lambda>c. byte c \<notin> {9, 10, 12, 13, 32}) certStr) of
              None \<Rightarrow> Inl (Errorf ''cannot decode certificate base64: %v'' [])
            | Some raw \<Rightarrow> (case sl_x509 L raw of None \<Rightarrow> Inl (Errorf ''cannot parse certificate: %v'' []) | Some c \<Rightarrow> Inr c))))"

definition MakeAssertionEl :: "saml \<Rightarrow> idp_request \<Rightarrow> err + idp_request" where
  "MakeAssertionEl L req = (case signingContext L req of
     Inl e \<Rightarrow> Inl e
   | Inr c \<Rightarrow> (case sl_assertion L (rq_Assertion req) of
       None \<Rightarrow> Inl (Panic ''nil pointer'')
     | Some el \<Rightarrow> (case sl_sign L c el of
         None \<Rightarrow> Inl StoreFailure
       | Some signed \<Rightarrow> (case rq_Assertion req of
           None \<Rightarrow> Inl (Panic ''nil pointer'')
         | Some a \<Rightarrow>
             let a' = a\<lparr>an_Signature := Some (sl_signature L signed)\<rparr>
             in case sl_assertion L (Some a') of
               None \<Rightarrow> Inl (Panic ''nil pointer'')
             | Some signedEl \<Rightarrow> (case getSPEncryptionCert L req of
                 Inl e \<Rightarrow> if e = NotExist then Inr (req\<lparr>rq_Assertion := Some a', rq_AssertionEl := Some signedEl\<rparr>) else Inl e
               | Inr cert \<Rightarrow> (case sl_document L signedEl of
                   None \<Rightarrow> Inl StoreFailure
                 | Some buf \<Rightarrow> (case sl_encrypt L cert buf of
                     None \<Rightarrow> Inl StoreFailure
                   | Some x \<Rightarrow> Inr (req\<lparr>rq_Assertion := Some a', rq_AssertionEl := Some x\<rparr>))))))))"

definition MakeResponse :: "saml \<Rightarrow> string \<Rightarrow> idp_request \<Rightarrow> err + idp_request" where
  "MakeResponse L rnd req0 = (case (case rq_AssertionEl req0 of None \<Rightarrow> MakeAssertionEl L req0 | Some _ \<Rightarrow> Inr req0) of
     Inl e \<Rightarrow> Inl e
   | Inr req \<Rightarrow> (case (rq_ACS req, rq_AssertionEl req) of
       (Some acs, Some el) \<Rightarrow>
         let resp = \<lparr>rs_Destination = ie_Location acs, rs_ID = ''id-'' @ rnd, rs_InResponseTo = aq_ID (rq_Request req), rs_IssueInstant = rq_Now req,
               rs_Issuer = si_RootURL (rq_IDP req), rs_Signature = None, rs_Assertion = el\<rparr>
         in (case signingContext L req of
           Inl e \<Rightarrow> Inl e
         | Inr c \<Rightarrow> (case sl_sign L c (sl_response L resp) of
             None \<Rightarrow> Inl StoreFailure
           | Some signed \<Rightarrow> Inr (req\<lparr>rq_ResponseEl := Some (sl_response L (resp\<lparr>rs_Signature := Some (sl_signature L signed)\<rparr>))\<rparr>)))
     | _ \<Rightarrow> Inl (Panic ''nil pointer'')))"

subsection \<open>The answer\<close>

record response_form =
  fo_URL :: string
  fo_SAMLResponse :: string
  fo_RelayState :: string

definition PostBinding :: "saml \<Rightarrow> string \<Rightarrow> idp_request \<Rightarrow> err + response_form" where
  "PostBinding L rnd req0 = (case (case rq_ResponseEl req0 of None \<Rightarrow> MakeResponse L rnd req0 | Some _ \<Rightarrow> Inr req0) of
     Inl e \<Rightarrow> Inl e
   | Inr req \<Rightarrow> (case rq_ResponseEl req of
       None \<Rightarrow> Inl (Panic ''nil pointer'')
     | Some el \<Rightarrow> (case sl_document L el of
         None \<Rightarrow> Inl StoreFailure
       | Some buf \<Rightarrow> (case rq_ACS req of
           None \<Rightarrow> Inl (Panic ''nil pointer'')
         | Some acs \<Rightarrow>
             if ie_Binding acs \<noteq> HTTPPostBinding
             then (case rq_SP req of None \<Rightarrow> Inl (Panic ''nil pointer'') | Some md \<Rightarrow> Inl (Errorf ''%s: unsupported binding %s'' [en_EntityID md, ie_Binding acs]))
             else Inr \<lparr>fo_URL = ie_Location acs, fo_SAMLResponse = base64 buf, fo_RelayState = rq_RelayState req\<rparr>))))"

text \<open>The template is one of \<open>text/template\<close>: the values go into the page as they are.\<close>

definition quoted :: "string \<Rightarrow> string" where
  "quoted s = [CHR 0x22] @ s @ [CHR 0x22]"

definition saml_post_form :: "response_form \<Rightarrow> string" where
  "saml_post_form f = ''<html>'' @
     ''<form method='' @ quoted ''post'' @ '' action='' @ quoted (fo_URL f) @ '' id='' @ quoted ''SAMLResponseForm'' @ ''>'' @
     ''<input type='' @ quoted ''hidden'' @ '' name='' @ quoted ''SAMLResponse'' @ '' value='' @ quoted (fo_SAMLResponse f) @ '' />'' @
     ''<input type='' @ quoted ''hidden'' @ '' name='' @ quoted ''RelayState'' @ '' value='' @ quoted (fo_RelayState f) @ '' />'' @
     ''<input id='' @ quoted ''SAMLSubmitButton'' @ '' type='' @ quoted ''submit'' @ '' value='' @ quoted ''Continue'' @ '' />'' @ ''</form>'' @
     ''<script>document.getElementById('' @ [CHR 0x27] @ ''SAMLSubmitButton'' @ [CHR 0x27] @ '').style.visibility='' @ [CHR 0x27] @ ''hidden'' @ [CHR 0x27] @ '';</script>'' @
     ''<script>document.getElementById('' @ [CHR 0x27] @ ''SAMLResponseForm'' @ [CHR 0x27] @ '').submit();</script>'' @ ''</html>''"

definition WriteResponse :: "saml \<Rightarrow> string \<Rightarrow> idp_request \<Rightarrow> err + string" where
  "WriteResponse L rnd req = map_sum id saml_post_form (PostBinding L rnd req)"

definition SAMLProtocolSSOAuth :: "saml \<Rightarrow> env \<Rightarrow> string \<Rightarrow> answer_request \<Rightarrow> string m" where
  "SAMLProtocolSSOAuth L E rnd req =
     bindE (setting_GetByName ''saml_idp'') (\<lambda>meta. case so_url L (setting_text ''endpoint'' meta) of
       None \<Rightarrow> throw StoreFailure
     | Some rootURL \<Rightarrow>
         bindE (\<lambda>w. (samlEntityDescriptorGenerate L (w_now w) meta, w)) (\<lambda>(idp, ed).
         bindE (gets (\<lambda>w. NewIdpAuthnRequest (w_now w) req idp)) (\<lambda>r.
         bindE (IdpAuthnRequest_Validate L E ed (so_resolve L rootURL SsoIdpURLAnswer) r) (\<lambda>_.
         lift_sum (WriteResponse L rnd r)))))"

subsection \<open>The metadata of the service provider\<close>

definition xmlSpSamlGenerate :: "saml \<Rightarrow> time \<Rightarrow> setting \<Rightarrow> err + string" where
  "xmlSpSamlGenerate L now s = (case (sl_decode64 L (setting_text ''cert'' s), sl_decode64 L (setting_text ''key'' s)) of
     (Some cert, Some key) \<Rightarrow> (case sl_key_pair L cert key of
       None \<Rightarrow> Inl StoreFailure
     | Some leaf \<Rightarrow> (case so_url L (setting_text ''endpoint'' s) of
         None \<Rightarrow> Inl StoreFailure
       | Some rootURL \<Rightarrow>
           let certStr = base64 (ce_Raw leaf);
               ed = \<lparr>en_EntityID = rootURL, en_ValidUntil = now + DefaultCertificateExpireDuration, en_IDP = [],
                 en_SP = [\<lparr>sd_Keys = [\<lparr>kd_Use = ''encryption'', kd_Certificates = [certStr], kd_Methods = encryption_methods\<rparr>,
                                      \<lparr>kd_Use = ''signing'', kd_Certificates = [certStr], kd_Methods = []\<rparr>],
                   sd_NameIDFormats = [setting_text ''authn_name_id_format'' s],
                   sd_Services = [\<lparr>ie_Binding = HTTPPostBinding, ie_Location = so_resolve L rootURL SsoSpURLSamlACS, ie_Index = 1, ie_IsDefault = None\<rparr>],
                   sd_AttributeServices = []\<rparr>]\<rparr>
           in (case sl_xml L ed of None \<Rightarrow> Inl StoreFailure | Some x \<Rightarrow> Inr x)))
   | _ \<Rightarrow> Inl StoreFailure)"

record metadata_response =
  me_Setting :: setting
  me_DecodeKey :: string
  me_DecodeCert :: string
  me_XML :: string

text \<open>\<open>MustBase64Decode\<close> panics where the text is no base64.\<close>

definition metadata_answer :: "saml \<Rightarrow> setting \<Rightarrow> string \<Rightarrow> err + metadata_response" where
  "metadata_answer L s xml = (case (sl_decode64 L (setting_text ''key'' s), sl_decode64 L (setting_text ''cert'' s)) of
     (Some key, Some cert) \<Rightarrow> Inr \<lparr>me_Setting = s, me_DecodeKey = key, me_DecodeCert = cert, me_XML = xml\<rparr>
   | _ \<Rightarrow> Inl (Panic ''illegal base64 data''))"

definition IdentityProviderSAMLMetadataGet :: "saml \<Rightarrow> metadata_response m" where
  "IdentityProviderSAMLMetadataGet L =
     bindE (setting_GetByName ''saml_idp'') (\<lambda>s.
     bindE (\<lambda>w. (xmlIdpSamlGenerate L (w_now w) s, w)) (\<lambda>xml. lift_sum (metadata_answer L s xml)))"

definition ServiceProviderSAMLMetadataGet :: "saml \<Rightarrow> metadata_response m" where
  "ServiceProviderSAMLMetadataGet L =
     bindE (setting_GetByName ''saml_sp'') (\<lambda>s.
     bindE (\<lambda>w. (xmlSpSamlGenerate L (w_now w) s, w)) (\<lambda>xml. lift_sum (metadata_answer L s xml)))"

subsection \<open>The service provider\<close>

text \<open>The options that \<open>NewServiceProvider\<close> sets, with the zero values of the others.\<close>

record sp_options =
  op_EntityID :: string
  op_URL :: string
  op_Certificate :: certificate
  op_IDPMetadata :: entity
  op_ForceAuthn :: bool
  op_SignRequest :: bool
  op_AllowIDPInitiated :: bool
  op_DefaultRedirectURI :: string
  op_LogoutBindings :: "string list"

definition ServiceProvider :: "saml \<Rightarrow> sp_options \<Rightarrow> sp_role" where
  "ServiceProvider L opts = \<lparr>sr_EntityID = op_EntityID opts, sr_Certificate = op_Certificate opts,
     sr_MetadataURL = so_resolve L (op_URL opts) SsoSpURLSamlMetadata, sr_AcsURL = so_resolve L (op_URL opts) SsoSpURLSamlACS,
     sr_SloURL = so_resolve L (op_URL opts) SsoSpURLSamlSLO, sr_IDPMetadata = op_IDPMetadata opts,
     sr_ForceAuthn = (if op_ForceAuthn opts then Some True else None),
     sr_SignatureMethod = (if op_SignRequest opts then RSASHA1SignatureMethod else []), sr_AllowIDPInitiated = op_AllowIDPInitiated opts,
     sr_DefaultRedirectURI = (if op_DefaultRedirectURI opts = [] then ''/'' else op_DefaultRedirectURI opts),
     sr_LogoutBindings = (if op_LogoutBindings opts = [] then [HTTPPostBinding] else op_LogoutBindings opts)\<rparr>"

definition NewServiceProvider :: "saml \<Rightarrow> setting \<Rightarrow> identity_provider \<Rightarrow> err + sp_role" where
  "NewServiceProvider L spMeta idp = (case so_url L (setting_text ''endpoint'' spMeta) of
     None \<Rightarrow> Inl StoreFailure
   | Some rootURL \<Rightarrow> (case so_cert L (setting_text ''cert'' spMeta) (setting_text ''key'' spMeta) of
       Inl _ \<Rightarrow> Inl StoreFailure
     | Inr leaf \<Rightarrow> (case ip_SAML idp of
         None \<Rightarrow> Inl (Panic ''nil pointer'')
       | Some md \<Rightarrow> (case so_metadata L md of
           None \<Rightarrow> Inl StoreFailure
         | Some idP \<Rightarrow>
             if \<not> ce_RSA leaf then Inl (Panic ''interface conversion'')
             else Inr (ServiceProvider L \<lparr>op_EntityID = setting_text ''endpoint'' spMeta, op_URL = rootURL, op_Certificate = leaf, op_IDPMetadata = idP,
                op_ForceAuthn = False, op_SignRequest = True, op_AllowIDPInitiated = False, op_DefaultRedirectURI = [], op_LogoutBindings = []\<rparr>)))))"

text \<open>The start of a sign-on: the binding, and the URL or the page for the browser.\<close>

definition ServiceProviderSsoSamlInitiator :: "saml \<Rightarrow> initiator_request \<Rightarrow> (string \<times> string) m" where
  "ServiceProviderSsoSamlInitiator L req =
     bindE (ssoIdp_GetByName (sso.truncate L) (in_IdentityProviderName req)) (\<lambda>idp.
     if \<not> ip_Enable idp then throw (Errorf ''identity provider %v disable'' [obj_Name idp])
     else if ip_Protocol idp \<noteq> SSOProtocolSAML then throw (Errorf ''identity provider not %v protocol'' [SSOProtocolSAML])
     else bindE (setting_GetByName ''saml_sp'') (\<lambda>meta.
          bindE (lift_sum (NewServiceProvider L meta idp)) (\<lambda>sp.
          let redirectLocation = sl_sso_location L sp HTTPRedirectBinding;
              relayState = base64 (sl_json_initiator L req)
          in if redirectLocation \<noteq> []
             then (case sl_redirect L sp redirectLocation relayState of None \<Rightarrow> throw StoreFailure | Some u \<Rightarrow> ret (HTTPRedirectBinding, u))
             else (case sl_post L sp (sl_sso_location L sp HTTPPostBinding) relayState of
                 None \<Rightarrow> throw StoreFailure
               | Some form \<Rightarrow> ret (HTTPPostBinding, ''<!DOCTYPE html><html><body>'' @ form @ ''</body></html>'')))))"

text \<open>
  The assertion consumer service: the response of the provider (in the request \<open>http\<close>), a signed record of the user and the request, kept as the payload of a
  one-time token and put into the redirect.
\<close>

definition ServiceProviderSsoSamlAcs :: "saml \<Rightarrow> env \<Rightarrow> string \<Rightarrow> string option \<Rightarrow> initiator_request \<Rightarrow> string m" where
  "ServiceProviderSsoSamlAcs L E rnd http req =
     bindE (ssoIdp_GetByName (sso.truncate L) (in_IdentityProviderName req)) (\<lambda>idp.
     if \<not> ip_Enable idp then throw (Errorf ''identity provider %v disable'' [obj_Name idp])
     else bindE (setting_GetByName ''saml_sp'') (\<lambda>meta.
          bindE (lift_sum (NewServiceProvider L meta idp)) (\<lambda>sp.
          case sl_subject L (sp\<lparr>sr_AllowIDPInitiated := True\<rparr>) http [[]] of
            None \<Rightarrow> throw StoreFailure
          | Some name \<Rightarrow> (case so_jwt L (rnd @ sl_json_info L name req) of
              None \<Rightarrow> throw StoreFailure
            | Some signedData \<Rightarrow>
                bindE (ott_Add E (new_token\<lparr>ot_Type := ''saml'', obj_Name := name, ot_Payload := signedData\<rparr>)) (\<lambda>_.
                ret (in_RedirectURL req @ ''?sign='' @ signedData))))))"

text \<open>The logout of the user of the request, if there is one.\<close>

definition ServiceProviderSsoSamlSlo :: "saml \<Rightarrow> user option \<Rightarrow> string m" where
  "ServiceProviderSsoSamlSlo L current = (case current of
     None \<Rightarrow> throw StoreFailure
   | Some u \<Rightarrow>
       if us_Type u \<noteq> ''sso'' then throw (Errorf ''current not sso user'' [])
       else bindE (ssoIdp_GetByName (sso.truncate L) (us_Source u)) (\<lambda>idp.
            if \<not> ip_Enable idp then throw (Errorf ''identity provider %v disable'' [obj_Name idp])
            else bindE (setting_GetByName ''saml_sp'') (\<lambda>meta.
                 bindE (lift_sum (NewServiceProvider L meta idp)) (\<lambda>sp.
                 let sloUrl = sl_slo_location L sp HTTPRedirectBinding
                 in if sloUrl = [] then throw (Errorf ''idp %v not support slo'' [obj_Name meta])
                    else (case sl_logout L sp sloUrl (obj_Name u) of None \<Rightarrow> throw StoreFailure | Some x \<Rightarrow> ret x)))))"

text \<open>The library functions of concrete runs: elements and signatures in clear, every subject is \<open>ann\<close>.\<close>

definition sample_saml :: saml where
  "sample_saml = sso.extend sample_sso (saml.fields 90000000000 180000000000 (\<lambda>_. None)
     (\<lambda>x. Inr (zero_request\<lparr>aq_ID := ''r1'', aq_Version := ''2.0'', aq_Issuer := Some x\<rparr>)) (\<lambda>_. []) (\<lambda>e. Some (en_EntityID e))
     (\<lambda>a. map_option an_ID a) rs_ID (\<lambda>_ _. True) (\<lambda>_ x. Some x) (\<lambda>x. x) (\<lambda>_ x. Some x) Some Some (\<lambda>_. None) (\<lambda>_ _. None)
     (\<lambda>sp b. if b = HTTPRedirectBinding then sr_EntityID sp @ ''/sso'' else []) (\<lambda>_ l r. Some (l @ ''?RelayState='' @ r)) (\<lambda>_ l r. Some (l @ r))
     (\<lambda>_ _ _. Some ''ann'') (\<lambda>_ _. []) (\<lambda>_ _ _. None) in_IdentityProviderName (\<lambda>n _. n))"

end
