(* ===== verification/Api.thy ===== *)
theory Api
  imports Saml
begin

text \<open>
  The HTTP layer of single sign-on: how a request is decoded, validated and run (\<open>pkg/core\<close>), and the controllers of settings and
  authentication (\<open>controller/v1/setting\<close>, \<open>controller/v1/authentication\<close>). What gin binds to the request struct is an argument: an error or the struct.
\<close>

subsection \<open>Decoding and running\<close>

text \<open>The methods a request type may have are arguments; a type without one has the identity.\<close>

definition DecodeParameter :: "('r \<Rightarrow> 'r) \<Rightarrow> ('r \<Rightarrow> err + unit) \<Rightarrow> ('r \<Rightarrow> err + 'r) \<Rightarrow> err + 'r \<Rightarrow> err + 'r" where
  "DecodeParameter defaults validate postBind bound = (case bound of
     Inl _ \<Rightarrow> Inl (Status ErrValidation [] [])
   | Inr r \<Rightarrow> (case validate (defaults r) of
       Inl _ \<Rightarrow> Inl (Status ErrValidation [] [])
     | Inr _ \<Rightarrow> (case postBind (defaults r) of Inl _ \<Rightarrow> Inl (Status ErrBind [] []) | Inr r' \<Rightarrow> Inr r')))"

definition plain_request :: "err + 'r \<Rightarrow> err + 'r" where
  "plain_request bound = DecodeParameter (\<lambda>r. r) (\<lambda>_. Inr ()) Inr bound"

definition checked_request :: "('r \<Rightarrow> err + unit) \<Rightarrow> err + 'r \<Rightarrow> err + 'r" where
  "checked_request validate bound = DecodeParameter (\<lambda>r. r) validate Inr bound"

definition core_Run :: "err + 'r \<Rightarrow> ('r \<Rightarrow> 'a m) \<Rightarrow> 'a m" where
  "core_Run decoded action = bindE (lift_sum decoded) action"

subsection \<open>The controller of settings\<close>

text \<open>The requests about one provider embed the provider, and have its \<open>Validate\<close> as their own.\<close>

definition setting_IdentityProviderSAMLMetadataUpsert :: "saml \<Rightarrow> env \<Rightarrow> err + metadata_request \<Rightarrow> setting m" where
  "setting_IdentityProviderSAMLMetadataUpsert L E r =
     core_Run (checked_request (metadata_Validate (sso.truncate L)) r) (IdentityProviderSAMLMetadataUpsert (sso.truncate L) E)"

definition setting_IdentityProviderSAMLMetadataDownload :: "saml \<Rightarrow> string m" where
  "setting_IdentityProviderSAMLMetadataDownload L = bindE (IdentityProviderSAMLMetadataGet L) (\<lambda>r. ret (me_XML r))"

definition setting_ServiceProviderSAMLMetadataUpsert :: "saml \<Rightarrow> env \<Rightarrow> err + metadata_request \<Rightarrow> setting m" where
  "setting_ServiceProviderSAMLMetadataUpsert L E r =
     core_Run (checked_request (metadata_Validate (sso.truncate L)) r) (ServiceProviderSAMLMetadataUpsert (sso.truncate L) E)"

definition setting_ServiceProviderSAMLMetadataDownload :: "saml \<Rightarrow> string m" where
  "setting_ServiceProviderSAMLMetadataDownload L = bindE (ServiceProviderSAMLMetadataGet L) (\<lambda>r. ret (me_XML r))"

definition setting_IdentityProviderList :: "saml \<Rightarrow> env \<Rightarrow> err + basic_query \<times> string \<Rightarrow> (identity_provider list \<times> int) m" where
  "setting_IdentityProviderList L E r = core_Run (plain_request r) (\<lambda>(q, protocol). IdentityProviderList (sso.truncate L) E q protocol)"

definition idp_request_of :: "saml \<Rightarrow> err + identity_provider \<Rightarrow> err + identity_provider" where
  "idp_request_of L r = checked_request (IdentityProvider_Validate (sso.truncate L)) r"

definition setting_IdentityProviderGet :: "saml \<Rightarrow> err + identity_provider \<Rightarrow> identity_provider m" where
  "setting_IdentityProviderGet L r = core_Run (idp_request_of L r) (IdentityProviderGet (sso.truncate L))"

definition setting_IdentityProviderAdd :: "saml \<Rightarrow> env \<Rightarrow> err + identity_provider \<Rightarrow> identity_provider m" where
  "setting_IdentityProviderAdd L E r = core_Run (idp_request_of L r) (IdentityProviderAdd (sso.truncate L) E)"

definition setting_IdentityProviderUpdate :: "saml \<Rightarrow> err + identity_provider \<Rightarrow> unit m" where
  "setting_IdentityProviderUpdate L r = core_Run (idp_request_of L r) (IdentityProviderUpdate (sso.truncate L))"

definition setting_IdentityProviderDelete :: "saml \<Rightarrow> err + identity_provider \<Rightarrow> unit m" where
  "setting_IdentityProviderDelete L r = core_Run (idp_request_of L r) IdentityProviderDelete"

definition setting_ServiceProviderList :: "saml \<Rightarrow> env \<Rightarrow> err + basic_query \<times> string \<Rightarrow> (service_provider list \<times> int) m" where
  "setting_ServiceProviderList L E r = core_Run (plain_request r) (\<lambda>(q, protocol). ServiceProviderList (sso.truncate L) E q protocol)"

definition sp_request_of :: "saml \<Rightarrow> err + service_provider \<Rightarrow> err + service_provider" where
  "sp_request_of L r = checked_request (ServiceProvider_Validate (sso.truncate L)) r"

definition setting_ServiceProviderGet :: "saml \<Rightarrow> err + service_provider \<Rightarrow> service_provider m" where
  "setting_ServiceProviderGet L r = core_Run (sp_request_of L r) (ServiceProviderGet (sso.truncate L))"

definition setting_ServiceProviderAdd :: "saml \<Rightarrow> env \<Rightarrow> err + service_provider \<Rightarrow> service_provider m" where
  "setting_ServiceProviderAdd L E r = core_Run (sp_request_of L r) (ServiceProviderAdd E)"

definition setting_ServiceProviderUpdate :: "saml \<Rightarrow> err + service_provider \<Rightarrow> unit m" where
  "setting_ServiceProviderUpdate L r = core_Run (sp_request_of L r) (ServiceProviderUpdate (sso.truncate L))"

definition setting_ServiceProviderDelete :: "saml \<Rightarrow> err + service_provider \<Rightarrow> unit m" where
  "setting_ServiceProviderDelete L r = core_Run (sp_request_of L r) ServiceProviderDelete"

definition setting_ServiceProviderRedirectURL :: "saml \<Rightarrow> err + service_provider \<Rightarrow> redirect_response m" where
  "setting_ServiceProviderRedirectURL L r = core_Run (sp_request_of L r) (ServiceProviderGetRedirectURL (sso.truncate L))"

text \<open>The routes under \<open>/setting/sso\<close>, each with what gin binds.\<close>

datatype setting_call =
    IdpMetadataUpsert "err + metadata_request"
  | IdpMetadataGet
  | IdpMetadataDownload
  | SpMetadataUpsert "err + metadata_request"
  | SpMetadataGet
  | SpMetadataDownload
  | IdpAdd "err + identity_provider"
  | IdpDelete "err + identity_provider"
  | IdpUpdate "err + identity_provider"
  | IdpGet "err + identity_provider"
  | IdpList "err + basic_query \<times> string"
  | SpAddCall "err + service_provider"
  | SpDeleteCall "err + service_provider"
  | SpUpdateCall "err + service_provider"
  | SpGetCall "err + service_provider"
  | SpRedirectURL "err + service_provider"
  | SpListCall "err + basic_query \<times> string"

definition done_with :: "'a m \<Rightarrow> unit m" where
  "done_with op = bindE op (\<lambda>_. ret ())"

fun setting_route :: "saml \<Rightarrow> env \<Rightarrow> setting_call \<Rightarrow> unit m" where
  "setting_route L E (IdpMetadataUpsert r) = done_with (setting_IdentityProviderSAMLMetadataUpsert L E r)"
| "setting_route L E IdpMetadataGet = done_with (IdentityProviderSAMLMetadataGet L)"
| "setting_route L E IdpMetadataDownload = done_with (setting_IdentityProviderSAMLMetadataDownload L)"
| "setting_route L E (SpMetadataUpsert r) = done_with (setting_ServiceProviderSAMLMetadataUpsert L E r)"
| "setting_route L E SpMetadataGet = done_with (ServiceProviderSAMLMetadataGet L)"
| "setting_route L E SpMetadataDownload = done_with (setting_ServiceProviderSAMLMetadataDownload L)"
| "setting_route L E (IdpAdd r) = done_with (setting_IdentityProviderAdd L E r)"
| "setting_route L E (IdpDelete r) = done_with (setting_IdentityProviderDelete L r)"
| "setting_route L E (IdpUpdate r) = done_with (setting_IdentityProviderUpdate L r)"
| "setting_route L E (IdpGet r) = done_with (setting_IdentityProviderGet L r)"
| "setting_route L E (IdpList r) = done_with (setting_IdentityProviderList L E r)"
| "setting_route L E (SpAddCall r) = done_with (setting_ServiceProviderAdd L E r)"
| "setting_route L E (SpDeleteCall r) = done_with (setting_ServiceProviderDelete L r)"
| "setting_route L E (SpUpdateCall r) = done_with (setting_ServiceProviderUpdate L r)"
| "setting_route L E (SpGetCall r) = done_with (setting_ServiceProviderGet L r)"
| "setting_route L E (SpRedirectURL r) = done_with (setting_ServiceProviderRedirectURL L r)"
| "setting_route L E (SpListCall r) = done_with (setting_ServiceProviderList L E r)"

subsection \<open>The controller of authentication\<close>

text \<open>What a browser gets: a JSON answer with an address, a page, or a redirect.\<close>

datatype browser_answer = Json string | Page string | Redirect string

definition SpSSOInitiatorRequest_PostBind :: "saml \<Rightarrow> initiator_request \<Rightarrow> err + initiator_request" where
  "SpSSOInitiatorRequest_PostBind L r = (case sl_decode64 L (in_RedirectURLEncode r) of
     None \<Rightarrow> Inl StoreFailure | Some u \<Rightarrow> Inr (r\<lparr>in_RedirectURL := u\<rparr>))"

definition initiator_request_of :: "saml \<Rightarrow> err + initiator_request \<Rightarrow> err + initiator_request" where
  "initiator_request_of L r = DecodeParameter (\<lambda>r. r) (\<lambda>_. Inr ()) (SpSSOInitiatorRequest_PostBind L) r"

definition SpSsoSamlInitiator :: "saml \<Rightarrow> err + initiator_request \<Rightarrow> browser_answer m" where
  "SpSsoSamlInitiator L r = core_Run (initiator_request_of L r) (\<lambda>req.
     bindE (ServiceProviderSsoSamlInitiator L req) (\<lambda>(binding, data).
     ret (if binding = HTTPRedirectBinding then Json data else Page data)))"

definition SpSsoOauth2Initiator :: "saml \<Rightarrow> env \<Rightarrow> string \<Rightarrow> err + initiator_request \<Rightarrow> browser_answer m" where
  "SpSsoOauth2Initiator L E rnd r = core_Run (initiator_request_of L r) (\<lambda>req.
     bindE (ServiceProviderSsoOauth2Initiator (sso.truncate L) E rnd req) (\<lambda>data. ret (Json data)))"

text \<open>
  The relay state is the value that gin's context holds under the name \<open>RelayState\<close>, and \<open>readJSON\<close> decodes it. The request that goes to the service
  has no HTTP request in it.
\<close>

definition SpSsoSamlAcs :: "saml \<Rightarrow> env \<Rightarrow> string \<Rightarrow> (string \<Rightarrow> initiator_request option) \<Rightarrow> string \<Rightarrow> browser_answer m" where
  "SpSsoSamlAcs L E rnd readJSON relayStateRaw = (case sl_decode64 L relayStateRaw of
     None \<Rightarrow> throw StoreFailure
   | Some relayState \<Rightarrow> (case readJSON relayState of
       None \<Rightarrow> throw StoreFailure
     | Some r \<Rightarrow> (case sl_decode64 L (in_RedirectURLEncode r) of
         None \<Rightarrow> throw StoreFailure
       | Some u \<Rightarrow> bindE (ServiceProviderSsoSamlAcs L E rnd None (r\<lparr>in_RedirectURL := u\<rparr>)) (\<lambda>x. ret (Redirect x)))))"

definition SpSsoSamlSLO :: "saml \<Rightarrow> user option \<Rightarrow> browser_answer m" where
  "SpSsoSamlSLO L current = bindE (ServiceProviderSsoSamlSlo L current) (\<lambda>u. ret (Redirect u))"

text \<open>
  A sign-on at this server: without a valid token (\<open>user\<close> is what the token says, if it is valid) or its user the browser goes to the login page of the front
  end, with the query of the request. The session that is made goes into the request; the service does not read it.
\<close>

definition IdpServeSAMLProtocolSSO :: "saml \<Rightarrow> env \<Rightarrow> string \<Rightarrow> string option \<Rightarrow> string \<Rightarrow> err + answer_request \<Rightarrow> browser_answer m" where
  "IdpServeSAMLProtocolSSO L E rnd user rawQuery r = core_Run (plain_request r) (\<lambda>req.
     bindE (IdentityProviderSAMLMetadataGet L) (\<lambda>meta.
     let login = Redirect (setting_text ''redirect_sso_frontend_url'' (me_Setting meta) @ ''?'' @ rawQuery)
     in case user of
          None \<Rightarrow> ret login
        | Some uid \<Rightarrow> bindE (attempt (UserGet uid)) (\<lambda>u. case u of
            Inl _ \<Rightarrow> ret login
          | Inr _ \<Rightarrow> bindE (SAMLProtocolSSOAuth L E rnd req) (\<lambda>page. ret (Page page)))))"

end
