(* ===== verification/SamlLaws.thy ===== *)
theory SamlLaws
  imports SsoLaws Api
begin

text \<open>
  What SAML sign-on promises: the endpoint an answer may go to, the validity and the audience of an assertion and what it discloses; that this
  server as an identity provider never answers; and what a sign-on as a service provider reads and writes.
\<close>

subsection \<open>The assertion consumer service\<close>

definition services :: "sp_descriptor list \<Rightarrow> (sp_descriptor \<times> endpoint) list" where
  "services ds = concat (map (\<lambda>d. map (Pair d) (sd_Services d)) ds)"

lemma find_filter: "find P xs = (case filter P xs of [] \<Rightarrow> None | x # _ \<Rightarrow> Some x)"
  by (induction xs) auto

lemma first_service_filter: "first_service P ds = (case filter (\<lambda>s. P (snd s)) (services ds) of [] \<Rightarrow> None | s # _ \<Rightarrow> Some s)"
proof (induction ds)
  case (Cons d ds)
  have "filter (\<lambda>s. P (snd s)) (map (Pair d) es) = map (Pair d) (filter P es)" for es by (induction es) auto
  then show ?case using Cons by (cases "filter P (sd_Services d)") (simp_all add: services_def find_filter)
qed (simp add: services_def)

text \<open>
  C28. The endpoint an answer is sent to is the first candidate of the service provider's metadata in this order: the services with the index that the request asks
  for, those with the location it asks for, and, if it asks for neither, the default services and then all services with the POST or the redirect binding, each in
  document order. Where there is no candidate, the request is refused; an endpoint that is not in the metadata is never chosen.
\<close>

theorem acs_endpoint_exact:
  "getACSEndpoint (req\<lparr>rq_SP := Some md\<rparr>) =
    (let all = services (en_SP md); idx = aq_ACSIndex (rq_Request req); loc = aq_ACSURL (rq_Request req)
     in case filter (\<lambda>s. idx \<noteq> [] \<and> fmt_d (ie_Index (snd s)) = idx) all @ filter (\<lambda>s. loc \<noteq> [] \<and> ie_Location (snd s) = loc) all @
          filter (\<lambda>s. idx = [] \<and> loc = [] \<and> ie_IsDefault (snd s) = Some True \<and> usable_binding (snd s)) all @
          filter (\<lambda>s. idx = [] \<and> loc = [] \<and> usable_binding (snd s)) all of
        [] \<Rightarrow> Inl NotExist
      | (d, e) # _ \<Rightarrow> Inr (req\<lparr>rq_SP := Some md, rq_SPSSO := Some d, rq_ACS := Some e\<rparr>))"
  by (cases "aq_ACSIndex (rq_Request req) = []"; cases "aq_ACSURL (rq_Request req) = []")
    (auto simp: getACSEndpoint_def Let_def first_service_filter with_service_def split: list.splits)

subsection \<open>The assertion\<close>

definition session_values :: "session \<Rightarrow> string set" where
  "session_values se = {se_UserName se, se_UserEmail se, se_UserSurname se, se_UserGivenName se, se_UserCommonName se, se_UserScopedAffiliation se, se_SubjectID se} \<union> set (se_Groups se)"

lemma requested_value_session: "requested_value se n = Some v \<Longrightarrow> v \<in> session_values se"
  by (auto simp: requested_value_def session_values_def split: if_splits)

lemma requested_attributes_session:
  assumes "a \<in> set (requested_attributes se ras)" "v \<in> snd ` set (ab_Values a)"
  shows "v \<in> session_values se"
  using assms requested_value_session
  by (fastforce simp: requested_attributes_def List.map_filter_def xs_strings_def split: if_splits)

lemma session_attributes_session:
  assumes "a \<in> set (session_attributes se)" "a \<notin> set (se_CustomAttributes se)" "v \<in> snd ` set (ab_Values a)"
  shows "v \<in> session_values se"
  using assms by (auto simp: session_values_def session_attributes_def profile_attribute_def xs_strings_def split: if_splits)

text \<open>
  An assertion is bound to its request and to the present: it names the service provider of the request as its only audience and the chosen endpoint as its recipient, and it answers
  the request by its identifier. For a request that has not expired and is not from the future it is valid now, not before the
  request was issued or the clock skew ago, and for at most the issue delay and the clock skew. Every value it discloses is one of
  the session's, or in an attribute that the session adds itself.
\<close>

theorem assertion_bounded:
  assumes run: "MakeAssertion L rnd t ed se req = Inr req'"
    and delays: "0 \<le> sl_MaxIssueDelay L" "0 \<le> sl_MaxClockSkew L"
    and fresh: "aq_IssueInstant (rq_Request req) \<le> rq_Now req" "rq_Now req \<le> aq_IssueInstant (rq_Request req) + sl_MaxIssueDelay L"
  shows "\<exists>a md e. rq_Assertion req' = Some a \<and> rq_SP req = Some md \<and> rq_ACS req = Some e \<and>
    an_Audience a = en_EntityID md \<and> an_Recipient a = ie_Location e \<and> an_InResponseTo a = aq_ID (rq_Request req) \<and> an_NameID a = se_NameID se \<and>
    an_NotBefore a \<le> rq_Now req \<and> rq_Now req \<le> an_NotOnOrAfter a \<and>
    rq_Now req - sl_MaxClockSkew L \<le> an_NotBefore a \<and> aq_IssueInstant (rq_Request req) \<le> an_NotBefore a \<and>
    an_NotOnOrAfter a - an_NotBefore a \<le> sl_MaxIssueDelay L + sl_MaxClockSkew L \<and>
    (\<forall>b \<in> set (an_Attributes a) - set (se_CustomAttributes se). snd ` set (ab_Values b) \<subseteq> session_values se)"
proof -
  from run obtain d md addr e where some: "rq_SPSSO req = Some d" "rq_SP req = Some md" "rq_HTTP req = Some addr" "rq_ACS req = Some e"
    by (auto simp: MakeAssertion_def split: option.splits)
  obtain a where a: "rq_Assertion req' = Some a" "an_Audience a = en_EntityID md" "an_Recipient a = ie_Location e" "an_InResponseTo a = aq_ID (rq_Request req)"
      "an_NameID a = se_NameID se" "(an_NotBefore a, an_NotOnOrAfter a) = validity L (rq_Now req) (aq_IssueInstant (rq_Request req))"
      "an_Attributes a = requested_attributes se (cs_Requested (chosen_service (sd_AttributeServices d))) @ session_attributes se"
    using run some by (auto simp: MakeAssertion_def Let_def)
  have "snd ` set (ab_Values b) \<subseteq> session_values se"
    if "b \<in> set (an_Attributes a) - set (se_CustomAttributes se)" for b
    using that requested_attributes_session[of b se] session_attributes_session[of b se] unfolding a(7) by auto
  moreover have "an_NotBefore a \<le> rq_Now req \<and> rq_Now req \<le> an_NotOnOrAfter a \<and> rq_Now req - sl_MaxClockSkew L \<le> an_NotBefore a \<and>
      aq_IssueInstant (rq_Request req) \<le> an_NotBefore a \<and> an_NotOnOrAfter a - an_NotBefore a \<le> sl_MaxIssueDelay L + sl_MaxClockSkew L"
    using a(6) delays fresh by (auto simp: validity_def split: if_splits)
  ultimately show ?thesis using a(1-5) some by blast
qed

definition sample_session :: session where
  "sample_session = \<lparr>se_CreateTime = 0, se_Index = ''i'', se_NameID = ''ann'', se_NameIDFormat = [], se_SubjectID = [], se_Groups = [''editors''],
     se_UserName = ''ann'', se_UserEmail = ''ann@mam'', se_UserCommonName = [], se_UserSurname = [], se_UserGivenName = [], se_UserScopedAffiliation = [],
     se_CustomAttributes = []\<rparr>"

definition sample_endpoint :: endpoint where
  "sample_endpoint = \<lparr>ie_Binding = HTTPPostBinding, ie_Location = ''https://git/acs'', ie_Index = 1, ie_IsDefault = None\<rparr>"

definition sample_idp_request :: idp_request where
  "sample_idp_request = NewIdpAuthnRequest 5 \<lparr>ar_Relay = [], ar_Remote = [], ar_Decoded = [], ar_HTTP = Some ''10.0.0.1''\<rparr>
     \<lparr>si_Certificate = None, si_RootURL = [], si_MetadataURL = [], si_SSOURL = [], si_SignatureMethod = []\<rparr>
     \<lparr>rq_Request := zero_request\<lparr>aq_ID := ''r1'', aq_IssueInstant := 4\<rparr>,
      rq_SP := Some \<lparr>en_EntityID = ''https://git'', en_ValidUntil = 0, en_IDP = [], en_SP = []\<rparr>,
      rq_SPSSO := Some \<lparr>sd_Keys = [], sd_NameIDFormats = [], sd_Services = [sample_endpoint], sd_AttributeServices = []\<rparr>, rq_ACS := Some sample_endpoint\<rparr>"

lemma assertion_bounded_witness:
  "\<exists>req' a. MakeAssertion sample_saml ''00'' 5 \<lparr>en_EntityID = ''https://mam'', en_ValidUntil = 0, en_IDP = [], en_SP = []\<rparr> sample_session sample_idp_request = Inr req' \<and>
     rq_Assertion req' = Some a \<and> an_NotBefore a \<le> 5 \<and> 5 \<le> an_NotOnOrAfter a \<and> an_Recipient a = ''https://git/acs''"
proof -
  let ?ed = "\<lparr>en_EntityID = ''https://mam'', en_ValidUntil = 0, en_IDP = [], en_SP = []\<rparr>"
  obtain req' where run: "MakeAssertion sample_saml ''00'' 5 ?ed sample_session sample_idp_request = Inr req'"
    by (simp add: MakeAssertion_def sample_idp_request_def NewIdpAuthnRequest_def Let_def)
  have "sl_MaxIssueDelay sample_saml = 90000000000" "sl_MaxClockSkew sample_saml = 180000000000" by (simp_all add: sample_saml_def sso.defs saml.defs)
  moreover have "rq_Now sample_idp_request = 5" "aq_IssueInstant (rq_Request sample_idp_request) = 4" "rq_ACS sample_idp_request = Some sample_endpoint"
    "ie_Location sample_endpoint = ''https://git/acs''"
    by (simp_all add: sample_idp_request_def NewIdpAuthnRequest_def sample_endpoint_def)
  ultimately show ?thesis using assertion_bounded[OF run] run by auto
qed

subsection \<open>The answer\<close>

lemma no_assertion: "rq_Assertion req = None \<Longrightarrow> \<exists>e. MakeAssertionEl L req = Inl e"
  by (auto simp: MakeAssertionEl_def split: sum.splits option.splits)

lemma WriteResponse_fresh: "\<exists>e. WriteResponse L rnd (NewIdpAuthnRequest now r idp) = Inl e"
proof -
  have "rq_Assertion (NewIdpAuthnRequest now r idp) = None" "rq_AssertionEl (NewIdpAuthnRequest now r idp) = None" "rq_ResponseEl (NewIdpAuthnRequest now r idp) = None"
    by (simp_all add: NewIdpAuthnRequest_def)
  with no_assertion[of "NewIdpAuthnRequest now r idp" L] show ?thesis by (auto simp: WriteResponse_def PostBinding_def MakeResponse_def)
qed

lemma SAMLProtocolSSOAuth_fails:
  "\<nexists>page. fst (SAMLProtocolSSOAuth L E rnd req w) = Inr page"
proof
  assume "\<exists>page. fst (SAMLProtocolSSOAuth L E rnd req w) = Inr page"
  then obtain page w' where "SAMLProtocolSSOAuth L E rnd req w = (Inr page, w')" by (metis prod.collapse)
  then obtain now idp where "WriteResponse L rnd (NewIdpAuthnRequest now req idp) = Inr page"
    unfolding SAMLProtocolSSOAuth_def by (auto elim!: bindE_Inr_elim split: option.splits)
  then show False using WriteResponse_fresh[of L rnd now req idp] by simp
qed

text \<open>
  C27. This server never answers a SAML request as an identity provider. Validation works on a copy of the request, so the service provider and the endpoint
  that it finds are lost, and nothing makes an assertion: the answer then signs a nil assertion. Whatever the settings, the service providers, the request and
  the libraries are, the operation ends in an error or in a panic, and the
  route of the API redirects to the login page or fails, but never gives the page for the service provider.
\<close>

theorem saml_idp_never_answers:
  "(\<nexists>page. fst (SAMLProtocolSSOAuth L E rnd req w) = Inr page) \<and>
   (\<nexists>page. fst (IdpServeSAMLProtocolSSO L E rnd user rawQuery r w) = Inr (Page page))"
proof
  show "\<nexists>page. fst (SAMLProtocolSSOAuth L E rnd req w) = Inr page" by (rule SAMLProtocolSSOAuth_fails)
  have no: "SAMLProtocolSSOAuth L E rnd q v \<noteq> (Inr page, v')" for q v page v' using SAMLProtocolSSOAuth_fails[of L E rnd q v] by auto
  show "\<nexists>page. fst (IdpServeSAMLProtocolSSO L E rnd user rawQuery r w) = Inr (Page page)"
  proof
    assume "\<exists>page. fst (IdpServeSAMLProtocolSSO L E rnd user rawQuery r w) = Inr (Page page)"
    then obtain page w' where "IdpServeSAMLProtocolSSO L E rnd user rawQuery r w = (Inr (Page page), w')" by (metis prod.collapse)
    then show False
      unfolding IdpServeSAMLProtocolSSO_def core_Run_def Let_def
      by (elim bindE_Inr_elim) (auto elim!: bindE_Inr_elim split: option.splits sum.splits simp: no)
  qed
qed

subsection \<open>Sign-on as a service provider\<close>

lemma blind_sign_on:
  "idp_blind (ServiceProviderSsoOauth2Initiator S E rnd req)" "idp_blind (ServiceProviderSsoSamlInitiator L req)" "idp_blind (ServiceProviderSsoSamlAcs L E rnd http req)"
  unfolding ServiceProviderSsoOauth2Initiator_def ServiceProviderSsoSamlInitiator_def ServiceProviderSsoSamlAcs_def Let_def
  by (intro blind_rules)+

lemma sign_on_needs_sp:
  "fst (ServiceProviderSsoOauth2Initiator S E rnd req w) = Inr u \<Longrightarrow>
     \<exists>p \<in> set (w_sps w). obj_Name p = in_IdentityProviderName req \<and> sp_Enable p \<and> sp_Protocol p = ''oauth2''"
  "fst (ServiceProviderSsoSamlInitiator L req w) = Inr u2 \<Longrightarrow>
     \<exists>p \<in> set (w_sps w). obj_Name p = in_IdentityProviderName req \<and> sp_Enable p \<and> sp_Protocol p = ''saml''"
  "fst (ServiceProviderSsoSamlAcs L E rnd http req w) = Inr u \<Longrightarrow>
     \<exists>p \<in> set (w_sps w). obj_Name p = in_IdentityProviderName req \<and> sp_Enable p"
proof -
  assume "fst (ServiceProviderSsoOauth2Initiator S E rnd req w) = Inr u"
  then obtain w' where "ServiceProviderSsoOauth2Initiator S E rnd req w = (Inr u, w')" by (metis prod.collapse)
  then obtain idp w1 where "ssoIdp_GetByName S (in_IdentityProviderName req) w = (Inr idp, w1)" "ip_Enable idp" "ip_Protocol idp = ''oauth2''"
    unfolding ServiceProviderSsoOauth2Initiator_def by (auto elim!: bindE_Inr_elim simp: SSOProtocolOAUTH2_def split: if_splits)
  then show "\<exists>p \<in> set (w_sps w). obj_Name p = in_IdentityProviderName req \<and> sp_Enable p \<and> sp_Protocol p = ''oauth2''"
    by (auto elim!: idp_GetByName_result)
next
  assume "fst (ServiceProviderSsoSamlInitiator L req w) = Inr u2"
  then obtain w' where "ServiceProviderSsoSamlInitiator L req w = (Inr u2, w')" by (metis prod.collapse)
  then obtain idp w1 where "ssoIdp_GetByName (sso.truncate L) (in_IdentityProviderName req) w = (Inr idp, w1)" "ip_Enable idp" "ip_Protocol idp = ''saml''"
    unfolding ServiceProviderSsoSamlInitiator_def by (auto elim!: bindE_Inr_elim simp: SSOProtocolSAML_def split: if_splits)
  then show "\<exists>p \<in> set (w_sps w). obj_Name p = in_IdentityProviderName req \<and> sp_Enable p \<and> sp_Protocol p = ''saml''"
    by (auto elim!: idp_GetByName_result)
next
  assume "fst (ServiceProviderSsoSamlAcs L E rnd http req w) = Inr u"
  then obtain w' where "ServiceProviderSsoSamlAcs L E rnd http req w = (Inr u, w')" by (metis prod.collapse)
  then obtain idp w1 where "ssoIdp_GetByName (sso.truncate L) (in_IdentityProviderName req) w = (Inr idp, w1)" "ip_Enable idp"
    unfolding ServiceProviderSsoSamlAcs_def by (auto elim!: bindE_Inr_elim split: if_splits)
  then show "\<exists>p \<in> set (w_sps w). obj_Name p = in_IdentityProviderName req \<and> sp_Enable p"
    by (auto elim!: idp_GetByName_result)
qed

text \<open>
  C26. The identity providers that are registered play no part in a sign-on. \<open>GetByName\<close> of their store reads the table of the service providers: the start of a sign-on by OAuth2 or SAML and the
  assertion consumer service give the same answer whatever the table of identity providers holds, and they succeed only for a name that an enabled service
  provider has (of the right protocol for the start; the consumer service does not ask for it).
\<close>

theorem sign_on_ignores_providers:
  "fst (ServiceProviderSsoOauth2Initiator S E rnd req (w\<lparr>w_idps := ps\<rparr>)) = fst (ServiceProviderSsoOauth2Initiator S E rnd req w) \<and>
   fst (ServiceProviderSsoSamlInitiator L req (w\<lparr>w_idps := ps\<rparr>)) = fst (ServiceProviderSsoSamlInitiator L req w) \<and>
   fst (ServiceProviderSsoSamlAcs L E rnd http req (w\<lparr>w_idps := ps\<rparr>)) = fst (ServiceProviderSsoSamlAcs L E rnd http req w) \<and>
   (\<forall>u. fst (ServiceProviderSsoOauth2Initiator S E rnd req w) = Inr u \<longrightarrow>
      (\<exists>p \<in> set (w_sps w). obj_Name p = in_IdentityProviderName req \<and> sp_Enable p \<and> sp_Protocol p = ''oauth2'')) \<and>
   (\<forall>u. fst (ServiceProviderSsoSamlInitiator L req w) = Inr u \<longrightarrow>
      (\<exists>p \<in> set (w_sps w). obj_Name p = in_IdentityProviderName req \<and> sp_Enable p \<and> sp_Protocol p = ''saml'')) \<and>
   (\<forall>u. fst (ServiceProviderSsoSamlAcs L E rnd http req w) = Inr u \<longrightarrow>
      (\<exists>p \<in> set (w_sps w). obj_Name p = in_IdentityProviderName req \<and> sp_Enable p))"
proof (intro conjI allI impI)
  show "fst (ServiceProviderSsoOauth2Initiator S E rnd req (w\<lparr>w_idps := ps\<rparr>)) = fst (ServiceProviderSsoOauth2Initiator S E rnd req w)"
    using idp_blindD[OF blind_sign_on(1)] by simp
  show "fst (ServiceProviderSsoSamlInitiator L req (w\<lparr>w_idps := ps\<rparr>)) = fst (ServiceProviderSsoSamlInitiator L req w)"
    using idp_blindD[OF blind_sign_on(2)] by simp
  show "fst (ServiceProviderSsoSamlAcs L E rnd http req (w\<lparr>w_idps := ps\<rparr>)) = fst (ServiceProviderSsoSamlAcs L E rnd http req w)"
    using idp_blindD[OF blind_sign_on(3)] by simp
qed (use sign_on_needs_sp in blast)+

definition saml_world :: world where
  "saml_world = empty_world\<lparr>
     w_sps := [new_sp\<lparr>obj_ID := ''s1'', obj_Name := ''idp'', sp_Enable := True, sp_Protocol := ''saml'', obj_Extend := Some [''metadata'' \<mapsto> AStr ''<idp/>'']\<rparr>],
     w_settings := [new_meta\<lparr>obj_ID := ''m1'', obj_Name := ''saml_sp'', obj_Extend := Some [''endpoint'' \<mapsto> AStr ''https://mam'', ''cert'' \<mapsto> AStr ''c'', ''key'' \<mapsto> AStr ''k'']\<rparr>]\<rparr>"

definition sample_initiator :: initiator_request where
  "sample_initiator = \<lparr>in_IdentityProviderName = ''idp'', in_RedirectURLEncode = [], in_RedirectURL = ''/home''\<rparr>"

lemma sign_on_ignores_providers_witness:
  "\<exists>p \<in> set (w_sps saml_world). obj_Name p = ''idp'' \<and> sp_Enable p \<and> sp_Protocol p = ''saml''"
proof -
  have "case ServiceProviderSsoSamlInitiator sample_saml sample_initiator saml_world of (Inr _, _) \<Rightarrow> True | _ \<Rightarrow> False" by code_simp
  then obtain u where run: "fst (ServiceProviderSsoSamlInitiator sample_saml sample_initiator saml_world) = Inr u" by (auto split: prod.splits sum.splits)
  have "in_IdentityProviderName sample_initiator = ''idp''" by (simp add: sample_initiator_def)
  with run sign_on_ignores_providers[where L = sample_saml and req = sample_initiator and w = saml_world] show ?thesis by metis
qed

text \<open>
  C29. A SAML sign-on that the assertion consumer service accepts leaves one token: the redirect carries the signed record of the request, and the only new one-time token has this record as its
  payload, the subject of the provider's assertion as its name, is unused, can be found by the hash of the record and expires after five minutes.
\<close>

theorem saml_acs_token:
  assumes run: "ServiceProviderSsoSamlAcs L E rnd http req w = (Inr url, w')"
  shows "\<exists>k sp name payload. url = in_RedirectURL req @ ''?sign='' @ payload \<and> sl_subject L sp http [[]] = Some name \<and> sr_AllowIDPInitiated sp \<and>
    so_jwt L (rnd @ sl_json_info L name req) = Some payload \<and>
    w_otts w' = w_otts w @ [k] \<and> obj_Name k = name \<and> ot_Type k = ''saml'' \<and> ot_Payload k = payload \<and> \<not> ot_Used k \<and>
    ot_PayloadHash k = e_sha512 E payload \<and> ot_ExpiresAt k = w_now w + 5 * 60 * 10 ^ 9"
proof -
  from run obtain idp w1 meta w2 sp name payload k where one: "ssoIdp_GetByName (sso.truncate L) (in_IdentityProviderName req) w = (Inr idp, w1)"
    and two: "setting_GetByName ''saml_sp'' w1 = (Inr meta, w2)"
    and subj: "sl_subject L (sp\<lparr>sr_AllowIDPInitiated := True\<rparr>) http [[]] = Some name"
    and jwt: "so_jwt L (rnd @ sl_json_info L name req) = Some payload" and url: "url = in_RedirectURL req @ ''?sign='' @ payload"
    and add: "ott_Add E (new_token\<lparr>ot_Type := ''saml'', obj_Name := name, ot_Payload := payload\<rparr>) w2 = (Inr k, w')"
    unfolding ServiceProviderSsoSamlAcs_def by (auto elim!: bindE_Inr_elim split: if_splits option.splits)
  from one obtain fs where w1: "w1 = w\<lparr>w_faults := fs\<rparr>" by (rule idp_GetByName_result)
  obtain fs' where w2: "w2 = w1\<lparr>w_faults := fs'\<rparr>"
    by (cases rule: settings_t.first_cases[of obj_ID "\<lambda>s. obj_Name s = ''saml_sp''" w1]) (use two in \<open>auto simp: setting_GetByName_def db_first_def\<close>)
  have ttl: "token_ttl (new_token\<lparr>ot_Type := ''saml'', obj_Name := name, ot_Payload := payload\<rparr>) = 5 * 60 * 10 ^ 9"
    by (simp add: token_ttl_exact new_token_def object_meta.defs one_time_token.defs)
  from add show ?thesis
  proof (rule ott_Add_result)
    fix k0 assume "w_otts w' = w_otts w2 @ [k0]" and k0: "ot_Payload k0 = ot_Payload (new_token\<lparr>ot_Type := ''saml'', obj_Name := name, ot_Payload := payload\<rparr>)"
      "ot_PayloadHash k0 = e_sha512 E (ot_Payload (new_token\<lparr>ot_Type := ''saml'', obj_Name := name, ot_Payload := payload\<rparr>))"
      "ot_ExpiresAt k0 = w_now w2 + token_ttl (new_token\<lparr>ot_Type := ''saml'', obj_Name := name, ot_Payload := payload\<rparr>)"
      "ot_Used k0 = ot_Used (new_token\<lparr>ot_Type := ''saml'', obj_Name := name, ot_Payload := payload\<rparr>)"
      "obj_Name k0 = obj_Name (new_token\<lparr>ot_Type := ''saml'', obj_Name := name, ot_Payload := payload\<rparr>)"
      "ot_Type k0 = ot_Type (new_token\<lparr>ot_Type := ''saml'', obj_Name := name, ot_Payload := payload\<rparr>)"
    then have "w_otts w' = w_otts w @ [k0]" by (simp add: w1 w2)
    moreover have "\<not> ot_Used k0" using k0(4) by (simp add: new_token_def object_meta.defs one_time_token.defs)
    moreover have "ot_ExpiresAt k0 = w_now w + 5 * 60 * 10 ^ 9" using k0(3) unfolding ttl by (simp add: w1 w2)
    ultimately show ?thesis using k0 url jwt subj
      by (intro exI[of _ k0] exI[of _ "sp\<lparr>sr_AllowIDPInitiated := True\<rparr>"] exI[of _ name] exI[of _ payload]) simp
  qed
qed

lemma saml_acs_token_witness:
  "\<exists>url w' k. ServiceProviderSsoSamlAcs sample_saml sample_env ''r'' (Some ''response'') sample_initiator saml_world = (Inr url, w') \<and>
     w_otts w' = w_otts saml_world @ [k] \<and> obj_Name k = ''ann'' \<and> \<not> ot_Used k \<and> ot_ExpiresAt k = w_now saml_world + 5 * 60 * 10 ^ 9"
proof -
  have "case ServiceProviderSsoSamlAcs sample_saml sample_env ''r'' (Some ''response'') sample_initiator saml_world of (Inr _, _) \<Rightarrow> True | _ \<Rightarrow> False" by code_simp
  then obtain url w' where run: "ServiceProviderSsoSamlAcs sample_saml sample_env ''r'' (Some ''response'') sample_initiator saml_world = (Inr url, w')"
    by (auto split: prod.splits sum.splits)
  have "sl_subject sample_saml sp x ids = Some ''ann''" for sp x ids by (simp add: sample_saml_def sso.defs saml.defs)
  with saml_acs_token[OF run] show ?thesis using run by (metis option.inject)
qed

subsection \<open>Providers over HTTP\<close>

lemma provider_requests_refused:
  "\<exists>e. idp_request_of L ri = Inl e" "\<exists>e. sp_request_of L rs = Inl e"
  by (auto simp: idp_request_of_def sp_request_of_def checked_request_def DecodeParameter_def IdentityProvider_Validate_def ServiceProvider_Validate_def
      split: sum.splits)

fun about_one_provider :: "setting_call \<Rightarrow> bool" where
  "about_one_provider (IdpAdd r) = True"
| "about_one_provider (IdpDelete r) = True"
| "about_one_provider (IdpUpdate r) = True"
| "about_one_provider (IdpGet r) = True"
| "about_one_provider (SpAddCall r) = True"
| "about_one_provider (SpDeleteCall r) = True"
| "about_one_provider (SpUpdateCall r) = True"
| "about_one_provider (SpGetCall r) = True"
| "about_one_provider (SpRedirectURL r) = True"
| "about_one_provider _ = False"

lemma refused_runs:
  "\<exists>e. done_with (core_Run (idp_request_of L ri) a) = throw e" "\<exists>e. done_with (core_Run (sp_request_of L rs) b) = throw e"
  using provider_requests_refused(1)[of L ri] provider_requests_refused(2)[of L rs] by (auto simp: done_with_def core_Run_def)

lemma refused_call: "about_one_provider c \<Longrightarrow> \<exists>e. setting_route L E c = throw e"
  by (cases c)
    (simp_all add: refused_runs setting_IdentityProviderGet_def setting_IdentityProviderAdd_def setting_IdentityProviderUpdate_def
      setting_IdentityProviderDelete_def setting_ServiceProviderGet_def setting_ServiceProviderAdd_def setting_ServiceProviderUpdate_def
      setting_ServiceProviderDelete_def setting_ServiceProviderRedirectURL_def)

definition same_providers :: "identity_provider list \<Rightarrow> service_provider list \<Rightarrow> world \<Rightarrow> bool" where
  "same_providers is ss w \<longleftrightarrow> w_idps w = is \<and> w_sps w = ss"

lemma same_providers_plain: "plain (same_providers is ss)"
  by (rule plainI) (simp add: same_providers_def)

lemma setting_ops_frame:
  "preserves (same_providers is ss) (setting_GetByName n)" "preserves (same_providers is ss) (setting_Upsert E d)"
proof -
  note P = same_providers_plain
  show "preserves (same_providers is ss) (setting_GetByName n)"
    unfolding setting_GetByName_def db_first_def by (rule settings_t.first_preserves[OF P])
  have "preserves (same_providers is ss) (db_create E id settings_tbl d)"
    by (rule settings_t.create_preserves[OF P]) (simp add: same_providers_def)
  moreover have "preserves (same_providers is ss) (db_updates settings_tbl merge_meta i r)" for i r
    by (rule settings_t.updates_preserves[OF P]) (simp add: same_providers_def)
  ultimately show "preserves (same_providers is ss) (setting_Upsert E d)"
    unfolding setting_Upsert_def db_first_def Let_def
    by (intro transaction_preserves[OF P] preserves_bindE preserves_attempt settings_t.first_preserves[OF P] preserves_case_sum preserves_if preserves_throw)
qed

lemma setting_route_frame: "preserves (same_providers is ss) (setting_route L E c)"
proof (cases "about_one_provider c")
  case True
  then show ?thesis using refused_call[of c L E] by auto
next
  case False
  note P = same_providers_plain
  note frames = setting_ops_frame idps_t.page_with_preserves[OF P] sps_t.page_with_preserves[OF P]
  have pure: "preserves I (\<lambda>w. (f w, w))" for I and f :: "world \<Rightarrow> err + 'b" by (simp add: preserves_def)
  show ?thesis
    using False
    by (cases c) (auto simp: done_with_def core_Run_def setting_IdentityProviderSAMLMetadataUpsert_def setting_ServiceProviderSAMLMetadataUpsert_def
        IdentityProviderSAMLMetadataUpsert_def ServiceProviderSAMLMetadataUpsert_def Let_def
        setting_IdentityProviderSAMLMetadataDownload_def setting_ServiceProviderSAMLMetadataDownload_def IdentityProviderSAMLMetadataGet_def ServiceProviderSAMLMetadataGet_def
        setting_IdentityProviderList_def setting_ServiceProviderList_def IdentityProviderList_def ServiceProviderList_def ssoIdp_List_def serviceProvider_List_def
        intro!: preserves_bindE preserves_lift_sum preserves_ret preserves_case_sum preserves_throw pure frames split: prod.splits sum.splits)
qed

definition setting_run :: "saml \<Rightarrow> env \<Rightarrow> setting_call list \<Rightarrow> world \<Rightarrow> world" where
  "setting_run L E calls w = fold (\<lambda>c v. snd (setting_route L E c v)) calls w"

lemma setting_run_frame: "same_providers is ss w \<Longrightarrow> same_providers is ss (setting_run L E calls w)"
  unfolding setting_run_def by (induction calls arbitrary: w) (auto intro: preservesD[OF setting_route_frame])

text \<open>
  C24. Providers can not be managed over HTTP, and so nobody can sign on with one. \<open>Validate\<close> of both kinds of provider refuses everything, also what passed its checks, and the requests about one provider have it as their own: each
  of these requests is answered with an error and changes nothing. Starting without service providers there is never one, whatever requests the settings
  API gets and whatever statements fail, the identity providers stay as they are, and every start of a sign-on by SAML or OAuth2, every assertion and every request of an
  OAuth2 client is refused.
\<close>

theorem provider_admin_closed:
  assumes none: "w_sps w = []" and W: "W = setting_run L E calls w"
  shows "(\<forall>c \<in> set calls. about_one_provider c \<longrightarrow> (\<forall>v. \<exists>e. setting_route L E c v = (Inl e, v))) \<and> w_sps W = [] \<and> w_idps W = w_idps w \<and>
    (\<nexists>a. fst (SpSsoSamlInitiator L r W) = Inr a) \<and> (\<nexists>a. fst (SpSsoOauth2Initiator L E rnd r W) = Inr a) \<and>
    (\<nexists>a. fst (SpSsoSamlAcs L E rnd readJSON relay W) = Inr a) \<and> (\<nexists>u. fst (Oauth2ProtocolSSOAuth (sso.truncate L) E req W) = Inr u)"
proof (intro conjI ballI impI allI)
  fix c v assume "about_one_provider c"
  from refused_call[OF this, of L E] show "\<exists>e. setting_route L E c v = (Inl e, v)" by (metis throw_apply)
next
  have "same_providers (w_idps w) [] W" unfolding W by (rule setting_run_frame) (simp add: same_providers_def none)
  then show sps: "w_sps W = []" and "w_idps W = w_idps w" by (simp_all add: same_providers_def)
  have fst_Inr: "\<exists>w'. op v = (Inr x, w')" if "fst (op v) = Inr x" for op :: "'b m" and v x using that by (metis prod.collapse)
  show "\<nexists>a. fst (SpSsoSamlInitiator L r W) = Inr a"
    using sign_on_needs_sp(2)[of L _ W] sps
    by (auto simp: SpSsoSamlInitiator_def core_Run_def bindE_apply split: sum.splits)
  show "\<nexists>a. fst (SpSsoOauth2Initiator L E rnd r W) = Inr a"
    using sign_on_needs_sp(1)[of "sso.truncate L" E rnd _ W] sps
    by (auto simp: SpSsoOauth2Initiator_def core_Run_def bindE_apply split: sum.splits)
  show "\<nexists>a. fst (SpSsoSamlAcs L E rnd readJSON relay W) = Inr a"
    using sign_on_needs_sp(3)[of L E rnd None _ W] sps
    by (auto simp: SpSsoSamlAcs_def bindE_apply split: sum.splits option.splits)
  show "\<nexists>u. fst (Oauth2ProtocolSSOAuth (sso.truncate L) E req W) = Inr u"
  proof
    assume "\<exists>u. fst (Oauth2ProtocolSSOAuth (sso.truncate L) E req W) = Inr u"
    then obtain p w' where "serviceProvider_GetByKey (sso.truncate L) E SSOProtocolOAUTH2 (au_ClientID req) W = (Inr p, w')"
      unfolding Oauth2ProtocolSSOAuth_def
      by (cases "serviceProvider_GetByKey (sso.truncate L) E SSOProtocolOAUTH2 (au_ClientID req) W") (auto simp: bindE_def split: sum.splits)
    then show False by (rule GetByKey_result) (simp add: sps)
  qed
qed

lemma provider_admin_closed_witness:
  "w_sps (setting_run sample_saml sample_env [SpAddCall (Inr sample_sp), SpMetadataUpsert (Inr \<lparr>mr_Endpoint = ''https://mam'', mr_AuthnNameIDFormat = [], mr_RedirectSSOFrontendURL = [], mr_KeyEncode = ''k'', mr_CertEncode = ''c''\<rparr>)] empty_world) = [] \<and>
   length (w_settings (setting_run sample_saml sample_env [SpAddCall (Inr sample_sp), SpMetadataUpsert (Inr \<lparr>mr_Endpoint = ''https://mam'', mr_AuthnNameIDFormat = [], mr_RedirectSSOFrontendURL = [], mr_KeyEncode = ''k'', mr_CertEncode = ''c''\<rparr>)] empty_world)) = 1"
proof
  have none: "w_sps empty_world = []" by (simp add: empty_world_def)
  show "w_sps (setting_run sample_saml sample_env [SpAddCall (Inr sample_sp), SpMetadataUpsert (Inr \<lparr>mr_Endpoint = ''https://mam'', mr_AuthnNameIDFormat = [], mr_RedirectSSOFrontendURL = [], mr_KeyEncode = ''k'', mr_CertEncode = ''c''\<rparr>)] empty_world) = []"
    using provider_admin_closed[OF none refl] by blast
qed code_simp

end
