(* ===== verification/Shadows.thy ===== *)
theory Shadows
  imports World
begin

text \<open>
  The columns of \<open>backend/apis/iapiserver/meta_platform.go\<close> and \<open>apis/imachinery/meta.go\<close> that hold JSON text, and the hooks that fill them from
  the map and slice fields before a row is written and restore the fields after it is read. The theories of the services work on rows that have the
  fields and no text columns; here the structs have both, and the hooks are shown to implement that view.
\<close>

subsection \<open>Encoding\<close>

text \<open>
  What the hooks use of JSON packages: \<open>Marshal\<close> of a map (the standard library's) and of a slice of strings, each with an error, \<open>Unmarshal\<close> into a
  variable that has a value already, with the variable afterwards (the hooks drop the error); and for \<open>Extend\<close> the text of
  \<open>StringAny.String\<close> and a decoding that can fail, both from gotoolbox.
\<close>

record json =
  js_map :: "gomap option \<Rightarrow> string option"
  js_list :: "string list \<Rightarrow> string option"
  js_read_map :: "string \<Rightarrow> gomap option \<Rightarrow> gomap option"
  js_read_list :: "string \<Rightarrow> string list \<Rightarrow> string list"
  js_extend :: "gomap option \<Rightarrow> string"
  js_read_extend :: "string \<Rightarrow> gomap option \<Rightarrow> gomap option option"

text \<open>A value that JSON keeps: it has a text, and decoding this text into an empty variable gives it back.\<close>

definition keeps_map :: "json \<Rightarrow> gomap option \<Rightarrow> bool" where
  "keeps_map J v \<longleftrightarrow> (case js_map J v of None \<Rightarrow> False | Some t \<Rightarrow> js_read_map J t None = v)"

definition keeps_list :: "json \<Rightarrow> string list \<Rightarrow> bool" where
  "keeps_list J v \<longleftrightarrow> (case js_list J v of None \<Rightarrow> False | Some t \<Rightarrow> js_read_list J t [] = v)"

definition keeps_extend :: "json \<Rightarrow> gomap option \<Rightarrow> bool" where
  "keeps_extend J v \<longleftrightarrow> js_read_extend J (js_extend J v) None = Some v"

text \<open>\<open>Marshal\<close> as the hooks call it: the error ends the hook.\<close>

definition Marshal_map :: "json \<Rightarrow> gomap option \<Rightarrow> err + string" where
  "Marshal_map J v = (case js_map J v of None \<Rightarrow> Inl StoreFailure | Some t \<Rightarrow> Inr t)"

definition Marshal_list :: "json \<Rightarrow> string list \<Rightarrow> err + string" where
  "Marshal_list J v = (case js_list J v of None \<Rightarrow> Inl StoreFailure | Some t \<Rightarrow> Inr t)"

definition and_then :: "err + 'a \<Rightarrow> ('a \<Rightarrow> err + 'b) \<Rightarrow> err + 'b" where
  "and_then r f = (case r of Inl e \<Rightarrow> Inl e | Inr x \<Rightarrow> f x)"

lemma and_then_simps [simp]: "and_then (Inl e) f = Inl e" "and_then (Inr x) f = f x"
  by (simp_all add: and_then_def)

lemma and_then_Inr: "and_then r f = Inr y \<longleftrightarrow> (\<exists>x. r = Inr x \<and> f x = Inr y)"
  by (cases r) simp_all

lemma Marshal_keeps:
  "keeps_map J v \<Longrightarrow> \<exists>t. Marshal_map J v = Inr t \<and> js_read_map J t None = v"
  "keeps_list J u \<Longrightarrow> \<exists>t. Marshal_list J u = Inr t \<and> js_read_list J t [] = u"
  by (auto simp: keeps_map_def keeps_list_def Marshal_map_def Marshal_list_def split: option.splits)

subsection \<open>ObjectMeta\<close>

text \<open>The hooks of the embedded metadata, whose text column is written by the function \<open>put\<close> and read by \<open>get\<close>.\<close>

definition Meta_BeforeCreate ::
  "json \<Rightarrow> (string \<Rightarrow> 'r object_meta_scheme \<Rightarrow> 'r object_meta_scheme) \<Rightarrow> string \<Rightarrow> time \<Rightarrow> 'r object_meta_scheme \<Rightarrow> 'r object_meta_scheme" where
  "Meta_BeforeCreate J put fresh now obj = BeforeCreate fresh now (put (js_extend J (obj_Extend obj)) obj)"

definition Meta_BeforeUpdate ::
  "json \<Rightarrow> (string \<Rightarrow> 'r object_meta_scheme \<Rightarrow> 'r object_meta_scheme) \<Rightarrow> time \<Rightarrow> 'r object_meta_scheme \<Rightarrow> 'r object_meta_scheme" where
  "Meta_BeforeUpdate J put now obj = BeforeUpdate now (put (js_extend J (obj_Extend obj)) obj)"

definition Meta_AfterFind :: "json \<Rightarrow> ('r object_meta_scheme \<Rightarrow> string) \<Rightarrow> 'r object_meta_scheme \<Rightarrow> err + 'r object_meta_scheme" where
  "Meta_AfterFind J get obj = (case js_read_extend J (get obj) (obj_Extend obj) of
     None \<Rightarrow> Inl StoreFailure | Some v \<Rightarrow> Inr (obj\<lparr>obj_Extend := v\<rparr>))"

text \<open>A copy has no nil map: \<open>Clone\<close> of the map, or an empty one. \<open>shadow\<close> is the text column of the source.\<close>

definition DeepCopyInto :: "(string \<Rightarrow> 's object_meta_scheme \<Rightarrow> 's object_meta_scheme) \<Rightarrow> string \<Rightarrow> 'r object_meta_scheme \<Rightarrow> 's object_meta_scheme \<Rightarrow> 's object_meta_scheme" where
  "DeepCopyInto put shadow obj target = (put shadow target)\<lparr>obj_ID := obj_ID obj, obj_Name := obj_Name obj, obj_CreatedAt := obj_CreatedAt obj,
     obj_UpdatedAt := obj_UpdatedAt obj, obj_Description := obj_Description obj, obj_ResourceVersion := obj_ResourceVersion obj,
     obj_Extend := Some (case obj_Extend obj of None \<Rightarrow> Map.empty | Some m \<Rightarrow> m)\<rparr>"

definition SetExtendValue :: "string \<Rightarrow> any \<Rightarrow> 'r object_meta_scheme \<Rightarrow> 'r object_meta_scheme" where
  "SetExtendValue key val obj = (if key = [] then obj
     else obj\<lparr>obj_Extend := Some ((case obj_Extend obj of None \<Rightarrow> Map.empty | Some m \<Rightarrow> m)(key \<mapsto> val))\<rparr>)"

subsection \<open>A struct with text columns\<close>

text \<open>
  What the hooks of a struct have in common. \<open>put\<close> and \<open>get\<close> are the text column of the metadata; \<open>marshal\<close> is \<open>marshalShadows\<close>; \<open>load\<close> is the
  part of \<open>AfterFind\<close> after the metadata's; \<open>blank\<close> empties the fields that are no columns; \<open>view\<close> forgets the text columns, and is
  what the services see. The table keeps the columns, and gorm reads them into a fresh struct.
\<close>

definition columns :: "('s object_meta_scheme \<Rightarrow> 's object_meta_scheme) \<Rightarrow> 's object_meta_scheme \<Rightarrow> 's object_meta_scheme" where
  "columns blank s = blank (s\<lparr>obj_Extend := None\<rparr>)"

definition find_hook :: "('s object_meta_scheme \<Rightarrow> string) \<Rightarrow> (json \<Rightarrow> 's object_meta_scheme \<Rightarrow> 's object_meta_scheme) \<Rightarrow> json \<Rightarrow>
    's object_meta_scheme \<Rightarrow> err + 's object_meta_scheme" where
  "find_hook get load J s = and_then (Meta_AfterFind J get s) (\<lambda>s. Inr (load J s))"

locale shadowed =
  fixes put :: "string \<Rightarrow> 's object_meta_scheme \<Rightarrow> 's object_meta_scheme"
    and get :: "'s object_meta_scheme \<Rightarrow> string"
    and marshal :: "json \<Rightarrow> 's object_meta_scheme \<Rightarrow> err + 's object_meta_scheme"
    and load :: "json \<Rightarrow> 's object_meta_scheme \<Rightarrow> 's object_meta_scheme"
    and blank :: "'s object_meta_scheme \<Rightarrow> 's object_meta_scheme"
    and view :: "'s object_meta_scheme \<Rightarrow> 'r object_meta_scheme"
    and keeps :: "json \<Rightarrow> 'r object_meta_scheme \<Rightarrow> bool"
  assumes marshal_load: "keeps J (view s) \<Longrightarrow> \<exists>s'. marshal J s = Inr s' \<and> load J ((columns blank s')\<lparr>obj_Extend := obj_Extend s\<rparr>) = s'"
    and marshal_view: "marshal J s = Inr s' \<Longrightarrow> view s' = view s \<and> get s' = get s"
    and get_columns: "get (columns blank s) = get s" "obj_Extend (columns blank s) = None"
    and create_view: "view (BeforeCreate fresh now (put t s)) = BeforeCreate fresh now (view s)"
    and update_view: "view (BeforeUpdate now (put t s)) = BeforeUpdate now (view s)"
    and get_hooks: "get (BeforeCreate fresh now (put t s)) = t" "get (BeforeUpdate now (put t s)) = t"
    and extend_hooks: "obj_Extend (BeforeCreate fresh now (put t s)) = obj_Extend (view s)" "obj_Extend (BeforeUpdate now (put t s)) = obj_Extend (view s)"
      "obj_Extend (view s) = obj_Extend s"
    and keeps_hooks: "keeps J (BeforeCreate fresh now r) = keeps J r" "keeps J (BeforeUpdate now r) = keeps J r"
begin

text \<open>What a hooked struct leaves in the table, a read gives back.\<close>

lemma read_back:
  assumes ext: "keeps_extend J (obj_Extend s)" and keeps: "keeps J (view s)" and shadow: "get s = js_extend J (obj_Extend s)"
  obtains s' where "marshal J s = Inr s'" "view s' = view s" "find_hook get load J (columns blank s') = Inr s'"
proof -
  obtain s' where s': "marshal J s = Inr s'" "load J ((columns blank s')\<lparr>obj_Extend := obj_Extend s\<rparr>) = s'"
    using marshal_load[OF keeps] by blast
  have "get s' = js_extend J (obj_Extend s)" "view s' = view s" using marshal_view[OF s'(1)] shadow by auto
  then have "find_hook get load J (columns blank s') = Inr s'"
    using ext s'(2) by (simp add: find_hook_def Meta_AfterFind_def get_columns keeps_extend_def)
  then show ?thesis using that s'(1) \<open>view s' = view s\<close> by blast
qed

lemma created_read:
  assumes "keeps_extend J (obj_Extend (view s))" and "keeps J (view s)"
  shows "\<exists>s'. marshal J (Meta_BeforeCreate J put fresh now s) = Inr s' \<and> find_hook get load J (columns blank s') = Inr s' \<and>
    view s' = BeforeCreate fresh now (view s)"
proof -
  let ?s = "Meta_BeforeCreate J put fresh now s"
  have view: "view ?s = BeforeCreate fresh now (view s)" and ext: "obj_Extend ?s = obj_Extend s" and shadow: "get ?s = js_extend J (obj_Extend s)"
    by (simp_all only: Meta_BeforeCreate_def create_view extend_hooks get_hooks)
  obtain s' where "marshal J ?s = Inr s'" "view s' = view ?s" "find_hook get load J (columns blank s') = Inr s'"
    by (rule read_back[of J ?s]) (use assms in \<open>simp_all only: view ext shadow keeps_hooks extend_hooks\<close>)
  then show ?thesis using view by auto
qed

lemma updated_read:
  assumes "keeps_extend J (obj_Extend (view s))" and "keeps J (view s)"
  shows "\<exists>s'. marshal J (Meta_BeforeUpdate J put now s) = Inr s' \<and> find_hook get load J (columns blank s') = Inr s' \<and>
    view s' = BeforeUpdate now (view s)"
proof -
  let ?s = "Meta_BeforeUpdate J put now s"
  have view: "view ?s = BeforeUpdate now (view s)" and ext: "obj_Extend ?s = obj_Extend s" and shadow: "get ?s = js_extend J (obj_Extend s)"
    by (simp_all only: Meta_BeforeUpdate_def update_view extend_hooks get_hooks)
  obtain s' where "marshal J ?s = Inr s'" "view s' = view ?s" "find_hook get load J (columns blank s') = Inr s'"
    by (rule read_back[of J ?s]) (use assms in \<open>simp_all only: view ext shadow keeps_hooks extend_hooks\<close>)
  then show ?thesis using view by auto
qed

end

subsection \<open>The structs\<close>

text \<open>Providers: the configuration.\<close>

record provider_struct = provider +
  pv_ExtendShadow :: string
  pv_ConfigShadow :: string

definition Provider_marshalShadows :: "json \<Rightarrow> provider_struct \<Rightarrow> err + provider_struct" where
  "Provider_marshalShadows J s =
     and_then (Marshal_map J (pv_Config s)) (\<lambda>c0.
     Inr (s\<lparr>pv_ConfigShadow := c0\<rparr>))"

definition Provider_BeforeCreate :: "json \<Rightarrow> string \<Rightarrow> time \<Rightarrow> provider_struct \<Rightarrow> err + provider_struct" where
  "Provider_BeforeCreate J fresh now s = Provider_marshalShadows J (Meta_BeforeCreate J (\<lambda>t. pv_ExtendShadow_update (\<lambda>_. t)) fresh now s)"

definition Provider_BeforeUpdate :: "json \<Rightarrow> time \<Rightarrow> provider_struct \<Rightarrow> err + provider_struct" where
  "Provider_BeforeUpdate J now s = Provider_marshalShadows J (Meta_BeforeUpdate J (\<lambda>t. pv_ExtendShadow_update (\<lambda>_. t)) now s)"

definition Provider_unmarshal :: "json \<Rightarrow> provider_struct \<Rightarrow> provider_struct" where
  "Provider_unmarshal J s = s\<lparr>pv_Config := js_read_map J (pv_ConfigShadow s) (pv_Config s)\<rparr>"

definition Provider_AfterFind :: "json \<Rightarrow> provider_struct \<Rightarrow> err + provider_struct" where
  "Provider_AfterFind J s = and_then (Meta_AfterFind J pv_ExtendShadow s) (\<lambda>s. Inr (Provider_unmarshal J s))"

definition Provider_blank :: "provider_struct \<Rightarrow> provider_struct" where
  "Provider_blank s = s\<lparr>pv_Config := None\<rparr>"

definition Provider_keeps :: "json \<Rightarrow> provider \<Rightarrow> bool" where
  "Provider_keeps J r \<longleftrightarrow> keeps_map J (pv_Config r)"

interpretation provider_s: shadowed "\<lambda>t. pv_ExtendShadow_update (\<lambda>_. t)" pv_ExtendShadow Provider_marshalShadows Provider_unmarshal Provider_blank provider.truncate Provider_keeps
proof unfold_locales
  fix J and s :: provider_struct
  assume "Provider_keeps J (provider.truncate s)"
  then show "\<exists>s'. Provider_marshalShadows J s = Inr s' \<and> Provider_unmarshal J ((columns Provider_blank s')\<lparr>obj_Extend := obj_Extend s\<rparr>) = s'"
    by (auto simp: Provider_marshalShadows_def Provider_unmarshal_def Provider_blank_def Provider_keeps_def columns_def provider.truncate_def
        dest!: Marshal_keeps)
qed (auto simp: Provider_marshalShadows_def Provider_blank_def Provider_keeps_def columns_def provider.truncate_def BeforeCreate_def BeforeUpdate_def and_then_Inr)

text \<open>Models: capabilities, model types, default parameters and pricing. Nothing is written when one of the four fails.\<close>

record provider_model_struct = provider_model +
  pm_ExtendShadow :: string
  pm_CapabilitiesShadow :: string
  pm_ModelTypesShadow :: string
  pm_DefaultParamsShadow :: string
  pm_PricingShadow :: string

definition ProviderModel_marshalShadows :: "json \<Rightarrow> provider_model_struct \<Rightarrow> err + provider_model_struct" where
  "ProviderModel_marshalShadows J s =
     and_then (Marshal_list J (pm_Capabilities s)) (\<lambda>c0.
     and_then (Marshal_list J (pm_ModelTypes s)) (\<lambda>m1.
     and_then (Marshal_map J (pm_DefaultParams s)) (\<lambda>d2.
     and_then (Marshal_map J (pm_Pricing s)) (\<lambda>p3.
     Inr (s\<lparr>pm_CapabilitiesShadow := c0, pm_ModelTypesShadow := m1, pm_DefaultParamsShadow := d2, pm_PricingShadow := p3\<rparr>)))))"

definition ProviderModel_BeforeCreate :: "json \<Rightarrow> string \<Rightarrow> time \<Rightarrow> provider_model_struct \<Rightarrow> err + provider_model_struct" where
  "ProviderModel_BeforeCreate J fresh now s = ProviderModel_marshalShadows J (Meta_BeforeCreate J (\<lambda>t. pm_ExtendShadow_update (\<lambda>_. t)) fresh now s)"

definition ProviderModel_BeforeUpdate :: "json \<Rightarrow> time \<Rightarrow> provider_model_struct \<Rightarrow> err + provider_model_struct" where
  "ProviderModel_BeforeUpdate J now s = ProviderModel_marshalShadows J (Meta_BeforeUpdate J (\<lambda>t. pm_ExtendShadow_update (\<lambda>_. t)) now s)"

definition ProviderModel_unmarshal :: "json \<Rightarrow> provider_model_struct \<Rightarrow> provider_model_struct" where
  "ProviderModel_unmarshal J s = s\<lparr>pm_Capabilities := js_read_list J (pm_CapabilitiesShadow s) (pm_Capabilities s), pm_ModelTypes := js_read_list J (pm_ModelTypesShadow s) (pm_ModelTypes s), pm_DefaultParams := js_read_map J (pm_DefaultParamsShadow s) (pm_DefaultParams s), pm_Pricing := js_read_map J (pm_PricingShadow s) (pm_Pricing s)\<rparr>"

definition ProviderModel_AfterFind :: "json \<Rightarrow> provider_model_struct \<Rightarrow> err + provider_model_struct" where
  "ProviderModel_AfterFind J s = and_then (Meta_AfterFind J pm_ExtendShadow s) (\<lambda>s. Inr (ProviderModel_unmarshal J s))"

definition ProviderModel_blank :: "provider_model_struct \<Rightarrow> provider_model_struct" where
  "ProviderModel_blank s = s\<lparr>pm_Capabilities := [], pm_ModelTypes := [], pm_DefaultParams := None, pm_Pricing := None\<rparr>"

definition ProviderModel_keeps :: "json \<Rightarrow> provider_model \<Rightarrow> bool" where
  "ProviderModel_keeps J r \<longleftrightarrow> keeps_list J (pm_Capabilities r) \<and> keeps_list J (pm_ModelTypes r) \<and> keeps_map J (pm_DefaultParams r) \<and> keeps_map J (pm_Pricing r)"

interpretation provider_model_s: shadowed "\<lambda>t. pm_ExtendShadow_update (\<lambda>_. t)" pm_ExtendShadow ProviderModel_marshalShadows ProviderModel_unmarshal ProviderModel_blank provider_model.truncate ProviderModel_keeps
proof unfold_locales
  fix J and s :: provider_model_struct
  assume "ProviderModel_keeps J (provider_model.truncate s)"
  then show "\<exists>s'. ProviderModel_marshalShadows J s = Inr s' \<and> ProviderModel_unmarshal J ((columns ProviderModel_blank s')\<lparr>obj_Extend := obj_Extend s\<rparr>) = s'"
    by (auto simp: ProviderModel_marshalShadows_def ProviderModel_unmarshal_def ProviderModel_blank_def ProviderModel_keeps_def columns_def provider_model.truncate_def
        dest!: Marshal_keeps)
qed (auto simp: ProviderModel_marshalShadows_def ProviderModel_blank_def ProviderModel_keeps_def columns_def provider_model.truncate_def BeforeCreate_def BeforeUpdate_def and_then_Inr)

text \<open>Storage backends: the configuration.\<close>

record storage_backend_struct = storage_backend +
  sb_ExtendShadow :: string
  sb_ConfigShadow :: string

definition StorageBackend_marshalShadows :: "json \<Rightarrow> storage_backend_struct \<Rightarrow> err + storage_backend_struct" where
  "StorageBackend_marshalShadows J s =
     and_then (Marshal_map J (sb_Config s)) (\<lambda>c0.
     Inr (s\<lparr>sb_ConfigShadow := c0\<rparr>))"

definition StorageBackend_BeforeCreate :: "json \<Rightarrow> string \<Rightarrow> time \<Rightarrow> storage_backend_struct \<Rightarrow> err + storage_backend_struct" where
  "StorageBackend_BeforeCreate J fresh now s = StorageBackend_marshalShadows J (Meta_BeforeCreate J (\<lambda>t. sb_ExtendShadow_update (\<lambda>_. t)) fresh now s)"

definition StorageBackend_BeforeUpdate :: "json \<Rightarrow> time \<Rightarrow> storage_backend_struct \<Rightarrow> err + storage_backend_struct" where
  "StorageBackend_BeforeUpdate J now s = StorageBackend_marshalShadows J (Meta_BeforeUpdate J (\<lambda>t. sb_ExtendShadow_update (\<lambda>_. t)) now s)"

definition StorageBackend_unmarshal :: "json \<Rightarrow> storage_backend_struct \<Rightarrow> storage_backend_struct" where
  "StorageBackend_unmarshal J s = s\<lparr>sb_Config := js_read_map J (sb_ConfigShadow s) (sb_Config s)\<rparr>"

definition StorageBackend_AfterFind :: "json \<Rightarrow> storage_backend_struct \<Rightarrow> err + storage_backend_struct" where
  "StorageBackend_AfterFind J s = and_then (Meta_AfterFind J sb_ExtendShadow s) (\<lambda>s. Inr (StorageBackend_unmarshal J s))"

definition StorageBackend_blank :: "storage_backend_struct \<Rightarrow> storage_backend_struct" where
  "StorageBackend_blank s = s\<lparr>sb_Config := None\<rparr>"

definition StorageBackend_keeps :: "json \<Rightarrow> storage_backend \<Rightarrow> bool" where
  "StorageBackend_keeps J r \<longleftrightarrow> keeps_map J (sb_Config r)"

interpretation storage_backend_s: shadowed "\<lambda>t. sb_ExtendShadow_update (\<lambda>_. t)" sb_ExtendShadow StorageBackend_marshalShadows StorageBackend_unmarshal StorageBackend_blank storage_backend.truncate StorageBackend_keeps
proof unfold_locales
  fix J and s :: storage_backend_struct
  assume "StorageBackend_keeps J (storage_backend.truncate s)"
  then show "\<exists>s'. StorageBackend_marshalShadows J s = Inr s' \<and> StorageBackend_unmarshal J ((columns StorageBackend_blank s')\<lparr>obj_Extend := obj_Extend s\<rparr>) = s'"
    by (auto simp: StorageBackend_marshalShadows_def StorageBackend_unmarshal_def StorageBackend_blank_def StorageBackend_keeps_def columns_def storage_backend.truncate_def
        dest!: Marshal_keeps)
qed (auto simp: StorageBackend_marshalShadows_def StorageBackend_blank_def StorageBackend_keeps_def columns_def storage_backend.truncate_def BeforeCreate_def BeforeUpdate_def and_then_Inr)

text \<open>Assets: the metadata.\<close>

record asset_struct = asset +
  as_ExtendShadow :: string
  as_MetadataShadow :: string

definition Asset_marshalShadows :: "json \<Rightarrow> asset_struct \<Rightarrow> err + asset_struct" where
  "Asset_marshalShadows J s =
     and_then (Marshal_map J (as_Metadata s)) (\<lambda>m0.
     Inr (s\<lparr>as_MetadataShadow := m0\<rparr>))"

definition Asset_BeforeCreate :: "json \<Rightarrow> string \<Rightarrow> time \<Rightarrow> asset_struct \<Rightarrow> err + asset_struct" where
  "Asset_BeforeCreate J fresh now s = Asset_marshalShadows J (Meta_BeforeCreate J (\<lambda>t. as_ExtendShadow_update (\<lambda>_. t)) fresh now s)"

definition Asset_BeforeUpdate :: "json \<Rightarrow> time \<Rightarrow> asset_struct \<Rightarrow> err + asset_struct" where
  "Asset_BeforeUpdate J now s = Asset_marshalShadows J (Meta_BeforeUpdate J (\<lambda>t. as_ExtendShadow_update (\<lambda>_. t)) now s)"

definition Asset_unmarshal :: "json \<Rightarrow> asset_struct \<Rightarrow> asset_struct" where
  "Asset_unmarshal J s = s\<lparr>as_Metadata := js_read_map J (as_MetadataShadow s) (as_Metadata s)\<rparr>"

definition Asset_AfterFind :: "json \<Rightarrow> asset_struct \<Rightarrow> err + asset_struct" where
  "Asset_AfterFind J s = and_then (Meta_AfterFind J as_ExtendShadow s) (\<lambda>s. Inr (Asset_unmarshal J s))"

definition Asset_blank :: "asset_struct \<Rightarrow> asset_struct" where
  "Asset_blank s = s\<lparr>as_Metadata := None\<rparr>"

definition Asset_keeps :: "json \<Rightarrow> asset \<Rightarrow> bool" where
  "Asset_keeps J r \<longleftrightarrow> keeps_map J (as_Metadata r)"

interpretation asset_s: shadowed "\<lambda>t. as_ExtendShadow_update (\<lambda>_. t)" as_ExtendShadow Asset_marshalShadows Asset_unmarshal Asset_blank asset.truncate Asset_keeps
proof unfold_locales
  fix J and s :: asset_struct
  assume "Asset_keeps J (asset.truncate s)"
  then show "\<exists>s'. Asset_marshalShadows J s = Inr s' \<and> Asset_unmarshal J ((columns Asset_blank s')\<lparr>obj_Extend := obj_Extend s\<rparr>) = s'"
    by (auto simp: Asset_marshalShadows_def Asset_unmarshal_def Asset_blank_def Asset_keeps_def columns_def asset.truncate_def
        dest!: Marshal_keeps)
qed (auto simp: Asset_marshalShadows_def Asset_blank_def Asset_keeps_def columns_def asset.truncate_def BeforeCreate_def BeforeUpdate_def and_then_Inr)

text \<open>Groups: the rule of a dynamic group.\<close>

record asset_group_struct = asset_group +
  ag_ExtendShadow :: string
  ag_DynamicRuleShadow :: string

definition AssetGroup_marshalShadows :: "json \<Rightarrow> asset_group_struct \<Rightarrow> err + asset_group_struct" where
  "AssetGroup_marshalShadows J s =
     and_then (Marshal_map J (ag_DynamicRule s)) (\<lambda>d0.
     Inr (s\<lparr>ag_DynamicRuleShadow := d0\<rparr>))"

definition AssetGroup_BeforeCreate :: "json \<Rightarrow> string \<Rightarrow> time \<Rightarrow> asset_group_struct \<Rightarrow> err + asset_group_struct" where
  "AssetGroup_BeforeCreate J fresh now s = AssetGroup_marshalShadows J (Meta_BeforeCreate J (\<lambda>t. ag_ExtendShadow_update (\<lambda>_. t)) fresh now s)"

definition AssetGroup_BeforeUpdate :: "json \<Rightarrow> time \<Rightarrow> asset_group_struct \<Rightarrow> err + asset_group_struct" where
  "AssetGroup_BeforeUpdate J now s = AssetGroup_marshalShadows J (Meta_BeforeUpdate J (\<lambda>t. ag_ExtendShadow_update (\<lambda>_. t)) now s)"

definition AssetGroup_unmarshal :: "json \<Rightarrow> asset_group_struct \<Rightarrow> asset_group_struct" where
  "AssetGroup_unmarshal J s = s\<lparr>ag_DynamicRule := js_read_map J (ag_DynamicRuleShadow s) (ag_DynamicRule s)\<rparr>"

definition AssetGroup_AfterFind :: "json \<Rightarrow> asset_group_struct \<Rightarrow> err + asset_group_struct" where
  "AssetGroup_AfterFind J s = and_then (Meta_AfterFind J ag_ExtendShadow s) (\<lambda>s. Inr (AssetGroup_unmarshal J s))"

definition AssetGroup_blank :: "asset_group_struct \<Rightarrow> asset_group_struct" where
  "AssetGroup_blank s = s\<lparr>ag_DynamicRule := None\<rparr>"

definition AssetGroup_keeps :: "json \<Rightarrow> asset_group \<Rightarrow> bool" where
  "AssetGroup_keeps J r \<longleftrightarrow> keeps_map J (ag_DynamicRule r)"

interpretation asset_group_s: shadowed "\<lambda>t. ag_ExtendShadow_update (\<lambda>_. t)" ag_ExtendShadow AssetGroup_marshalShadows AssetGroup_unmarshal AssetGroup_blank asset_group.truncate AssetGroup_keeps
proof unfold_locales
  fix J and s :: asset_group_struct
  assume "AssetGroup_keeps J (asset_group.truncate s)"
  then show "\<exists>s'. AssetGroup_marshalShadows J s = Inr s' \<and> AssetGroup_unmarshal J ((columns AssetGroup_blank s')\<lparr>obj_Extend := obj_Extend s\<rparr>) = s'"
    by (auto simp: AssetGroup_marshalShadows_def AssetGroup_unmarshal_def AssetGroup_blank_def AssetGroup_keeps_def columns_def asset_group.truncate_def
        dest!: Marshal_keeps)
qed (auto simp: AssetGroup_marshalShadows_def AssetGroup_blank_def AssetGroup_keeps_def columns_def asset_group.truncate_def BeforeCreate_def BeforeUpdate_def and_then_Inr)

text \<open>Relations: the parameters.\<close>

record asset_relation_struct = asset_relation +
  ar_ExtendShadow :: string
  ar_ParamsShadow :: string

definition AssetRelation_marshalShadows :: "json \<Rightarrow> asset_relation_struct \<Rightarrow> err + asset_relation_struct" where
  "AssetRelation_marshalShadows J s =
     and_then (Marshal_map J (ar_Params s)) (\<lambda>p0.
     Inr (s\<lparr>ar_ParamsShadow := p0\<rparr>))"

definition AssetRelation_BeforeCreate :: "json \<Rightarrow> string \<Rightarrow> time \<Rightarrow> asset_relation_struct \<Rightarrow> err + asset_relation_struct" where
  "AssetRelation_BeforeCreate J fresh now s = AssetRelation_marshalShadows J (Meta_BeforeCreate J (\<lambda>t. ar_ExtendShadow_update (\<lambda>_. t)) fresh now s)"

definition AssetRelation_BeforeUpdate :: "json \<Rightarrow> time \<Rightarrow> asset_relation_struct \<Rightarrow> err + asset_relation_struct" where
  "AssetRelation_BeforeUpdate J now s = AssetRelation_marshalShadows J (Meta_BeforeUpdate J (\<lambda>t. ar_ExtendShadow_update (\<lambda>_. t)) now s)"

definition AssetRelation_unmarshal :: "json \<Rightarrow> asset_relation_struct \<Rightarrow> asset_relation_struct" where
  "AssetRelation_unmarshal J s = s\<lparr>ar_Params := js_read_map J (ar_ParamsShadow s) (ar_Params s)\<rparr>"

definition AssetRelation_AfterFind :: "json \<Rightarrow> asset_relation_struct \<Rightarrow> err + asset_relation_struct" where
  "AssetRelation_AfterFind J s = and_then (Meta_AfterFind J ar_ExtendShadow s) (\<lambda>s. Inr (AssetRelation_unmarshal J s))"

definition AssetRelation_blank :: "asset_relation_struct \<Rightarrow> asset_relation_struct" where
  "AssetRelation_blank s = s\<lparr>ar_Params := None\<rparr>"

definition AssetRelation_keeps :: "json \<Rightarrow> asset_relation \<Rightarrow> bool" where
  "AssetRelation_keeps J r \<longleftrightarrow> keeps_map J (ar_Params r)"

interpretation asset_relation_s: shadowed "\<lambda>t. ar_ExtendShadow_update (\<lambda>_. t)" ar_ExtendShadow AssetRelation_marshalShadows AssetRelation_unmarshal AssetRelation_blank asset_relation.truncate AssetRelation_keeps
proof unfold_locales
  fix J and s :: asset_relation_struct
  assume "AssetRelation_keeps J (asset_relation.truncate s)"
  then show "\<exists>s'. AssetRelation_marshalShadows J s = Inr s' \<and> AssetRelation_unmarshal J ((columns AssetRelation_blank s')\<lparr>obj_Extend := obj_Extend s\<rparr>) = s'"
    by (auto simp: AssetRelation_marshalShadows_def AssetRelation_unmarshal_def AssetRelation_blank_def AssetRelation_keeps_def columns_def asset_relation.truncate_def
        dest!: Marshal_keeps)
qed (auto simp: AssetRelation_marshalShadows_def AssetRelation_blank_def AssetRelation_keeps_def columns_def asset_relation.truncate_def BeforeCreate_def BeforeUpdate_def and_then_Inr)

text \<open>Tasks: input and output.\<close>

record task_struct = task +
  tk_ExtendShadow :: string
  tk_InputShadow :: string
  tk_OutputShadow :: string

definition Task_marshalShadows :: "json \<Rightarrow> task_struct \<Rightarrow> err + task_struct" where
  "Task_marshalShadows J s =
     and_then (Marshal_map J (tk_Input s)) (\<lambda>i0.
     and_then (Marshal_map J (tk_Output s)) (\<lambda>o1.
     Inr (s\<lparr>tk_InputShadow := i0, tk_OutputShadow := o1\<rparr>)))"

definition Task_BeforeCreate :: "json \<Rightarrow> string \<Rightarrow> time \<Rightarrow> task_struct \<Rightarrow> err + task_struct" where
  "Task_BeforeCreate J fresh now s = Task_marshalShadows J (Meta_BeforeCreate J (\<lambda>t. tk_ExtendShadow_update (\<lambda>_. t)) fresh now s)"

definition Task_BeforeUpdate :: "json \<Rightarrow> time \<Rightarrow> task_struct \<Rightarrow> err + task_struct" where
  "Task_BeforeUpdate J now s = Task_marshalShadows J (Meta_BeforeUpdate J (\<lambda>t. tk_ExtendShadow_update (\<lambda>_. t)) now s)"

definition Task_unmarshal :: "json \<Rightarrow> task_struct \<Rightarrow> task_struct" where
  "Task_unmarshal J s = s\<lparr>tk_Input := js_read_map J (tk_InputShadow s) (tk_Input s), tk_Output := js_read_map J (tk_OutputShadow s) (tk_Output s)\<rparr>"

definition Task_AfterFind :: "json \<Rightarrow> task_struct \<Rightarrow> err + task_struct" where
  "Task_AfterFind J s = and_then (Meta_AfterFind J tk_ExtendShadow s) (\<lambda>s. Inr (Task_unmarshal J s))"

definition Task_blank :: "task_struct \<Rightarrow> task_struct" where
  "Task_blank s = s\<lparr>tk_Input := None, tk_Output := None\<rparr>"

definition Task_keeps :: "json \<Rightarrow> task \<Rightarrow> bool" where
  "Task_keeps J r \<longleftrightarrow> keeps_map J (tk_Input r) \<and> keeps_map J (tk_Output r)"

interpretation task_s: shadowed "\<lambda>t. tk_ExtendShadow_update (\<lambda>_. t)" tk_ExtendShadow Task_marshalShadows Task_unmarshal Task_blank task.truncate Task_keeps
proof unfold_locales
  fix J and s :: task_struct
  assume "Task_keeps J (task.truncate s)"
  then show "\<exists>s'. Task_marshalShadows J s = Inr s' \<and> Task_unmarshal J ((columns Task_blank s')\<lparr>obj_Extend := obj_Extend s\<rparr>) = s'"
    by (auto simp: Task_marshalShadows_def Task_unmarshal_def Task_blank_def Task_keeps_def columns_def task.truncate_def
        dest!: Marshal_keeps)
qed (auto simp: Task_marshalShadows_def Task_blank_def Task_keeps_def columns_def task.truncate_def BeforeCreate_def BeforeUpdate_def and_then_Inr)

subsection \<open>What the hooks promise\<close>

text \<open>A hook wrote the struct, the table kept its columns, and the row that is read is the struct, which services see as \<open>r\<close>.\<close>

definition reads_as :: "err + 's object_meta_scheme \<Rightarrow> ('s object_meta_scheme \<Rightarrow> 's object_meta_scheme) \<Rightarrow>
    ('s object_meta_scheme \<Rightarrow> err + 's object_meta_scheme) \<Rightarrow> ('s object_meta_scheme \<Rightarrow> 'r) \<Rightarrow> 'r \<Rightarrow> bool" where
  "reads_as written blank load view r = (case written of Inl _ \<Rightarrow> False | Inr s \<Rightarrow> load (columns blank s) = Inr s \<and> view s = r)"

lemma reads_asI: "\<exists>s'. m = Inr s' \<and> f (columns b s') = Inr s' \<and> v s' = r \<Longrightarrow> reads_as m b f v r"
  by (auto simp: reads_as_def)

lemmas hook_defs = Provider_BeforeCreate_def Provider_BeforeUpdate_def Provider_AfterFind_def
  ProviderModel_BeforeCreate_def ProviderModel_BeforeUpdate_def ProviderModel_AfterFind_def
  StorageBackend_BeforeCreate_def StorageBackend_BeforeUpdate_def StorageBackend_AfterFind_def
  Asset_BeforeCreate_def Asset_BeforeUpdate_def Asset_AfterFind_def
  AssetGroup_BeforeCreate_def AssetGroup_BeforeUpdate_def AssetGroup_AfterFind_def
  AssetRelation_BeforeCreate_def AssetRelation_BeforeUpdate_def AssetRelation_AfterFind_def
  Task_BeforeCreate_def Task_BeforeUpdate_def Task_AfterFind_def

lemma AfterFind_hooks:
  "Provider_AfterFind J = find_hook pv_ExtendShadow Provider_unmarshal J"
  "ProviderModel_AfterFind J = find_hook pm_ExtendShadow ProviderModel_unmarshal J"
  "StorageBackend_AfterFind J = find_hook sb_ExtendShadow StorageBackend_unmarshal J"
  "Asset_AfterFind J = find_hook as_ExtendShadow Asset_unmarshal J"
  "AssetGroup_AfterFind J = find_hook ag_ExtendShadow AssetGroup_unmarshal J"
  "AssetRelation_AfterFind J = find_hook ar_ExtendShadow AssetRelation_unmarshal J"
  "Task_AfterFind J = find_hook tk_ExtendShadow Task_unmarshal J"
  by (simp_all add: fun_eq_iff hook_defs find_hook_def)

text \<open>
  C33. The text columns implement the rows that the services work on: for every struct that has such columns and holds values that JSON keeps, the hook of a
  creation or an update succeeds, a later read of the columns restores every field, and seen without the columns the result is the row with the
  identifier, times and version that the hooks of the metadata give it.
\<close>

theorem shadow_columns_refine:
  assumes "keeps_extend J (obj_Extend p) \<and> Provider_keeps J (provider.truncate p)"
    and "keeps_extend J (obj_Extend m) \<and> ProviderModel_keeps J (provider_model.truncate m)"
    and "keeps_extend J (obj_Extend b) \<and> StorageBackend_keeps J (storage_backend.truncate b)"
    and "keeps_extend J (obj_Extend a) \<and> Asset_keeps J (asset.truncate a)"
    and "keeps_extend J (obj_Extend g) \<and> AssetGroup_keeps J (asset_group.truncate g)"
    and "keeps_extend J (obj_Extend r) \<and> AssetRelation_keeps J (asset_relation.truncate r)"
    and "keeps_extend J (obj_Extend t) \<and> Task_keeps J (task.truncate t)"
  shows
    "reads_as (Provider_BeforeCreate J u now p) Provider_blank (Provider_AfterFind J) provider.truncate (BeforeCreate u now (provider.truncate p)) \<and>
     reads_as (Provider_BeforeUpdate J now p) Provider_blank (Provider_AfterFind J) provider.truncate (BeforeUpdate now (provider.truncate p)) \<and>
     reads_as (ProviderModel_BeforeCreate J u now m) ProviderModel_blank (ProviderModel_AfterFind J) provider_model.truncate (BeforeCreate u now (provider_model.truncate m)) \<and>
     reads_as (ProviderModel_BeforeUpdate J now m) ProviderModel_blank (ProviderModel_AfterFind J) provider_model.truncate (BeforeUpdate now (provider_model.truncate m)) \<and>
     reads_as (StorageBackend_BeforeCreate J u now b) StorageBackend_blank (StorageBackend_AfterFind J) storage_backend.truncate (BeforeCreate u now (storage_backend.truncate b)) \<and>
     reads_as (StorageBackend_BeforeUpdate J now b) StorageBackend_blank (StorageBackend_AfterFind J) storage_backend.truncate (BeforeUpdate now (storage_backend.truncate b)) \<and>
     reads_as (Asset_BeforeCreate J u now a) Asset_blank (Asset_AfterFind J) asset.truncate (BeforeCreate u now (asset.truncate a)) \<and>
     reads_as (Asset_BeforeUpdate J now a) Asset_blank (Asset_AfterFind J) asset.truncate (BeforeUpdate now (asset.truncate a)) \<and>
     reads_as (AssetGroup_BeforeCreate J u now g) AssetGroup_blank (AssetGroup_AfterFind J) asset_group.truncate (BeforeCreate u now (asset_group.truncate g)) \<and>
     reads_as (AssetGroup_BeforeUpdate J now g) AssetGroup_blank (AssetGroup_AfterFind J) asset_group.truncate (BeforeUpdate now (asset_group.truncate g)) \<and>
     reads_as (AssetRelation_BeforeCreate J u now r) AssetRelation_blank (AssetRelation_AfterFind J) asset_relation.truncate (BeforeCreate u now (asset_relation.truncate r)) \<and>
     reads_as (AssetRelation_BeforeUpdate J now r) AssetRelation_blank (AssetRelation_AfterFind J) asset_relation.truncate (BeforeUpdate now (asset_relation.truncate r)) \<and>
     reads_as (Task_BeforeCreate J u now t) Task_blank (Task_AfterFind J) task.truncate (BeforeCreate u now (task.truncate t)) \<and>
     reads_as (Task_BeforeUpdate J now t) Task_blank (Task_AfterFind J) task.truncate (BeforeUpdate now (task.truncate t))"
  unfolding hook_defs(1,2,4,5,7,8,10,11,13,14,16,17,19,20) AfterFind_hooks
  using assms
  by (intro conjI reads_asI provider_s.created_read provider_s.updated_read provider_model_s.created_read provider_model_s.updated_read
      storage_backend_s.created_read storage_backend_s.updated_read asset_s.created_read asset_s.updated_read asset_group_s.created_read
      asset_group_s.updated_read asset_relation_s.created_read asset_relation_s.updated_read task_s.created_read task_s.updated_read)
    (simp_all add: provider_s.extend_hooks(3) provider_model_s.extend_hooks(3) storage_backend_s.extend_hooks(3) asset_s.extend_hooks(3)
      asset_group_s.extend_hooks(3) asset_relation_s.extend_hooks(3) task_s.extend_hooks(3))

text \<open>A small instance of the encoding: null, and objects with a text under the key \<open>k\<close>; lists of at most one string.\<close>

definition sample_json :: json where
  "sample_json = \<lparr>
     js_map = (\<lambda>v. case v of None \<Rightarrow> Some ''null'' | Some m \<Rightarrow> (case m ''k'' of Some (AStr s) \<Rightarrow> Some (CHR 0x7B # s) | _ \<Rightarrow> None)),
     js_list = (\<lambda>l. case l of [] \<Rightarrow> Some ''[]'' | [s] \<Rightarrow> Some (CHR 0x5B # s) | _ \<Rightarrow> None),
     js_read_map = (\<lambda>t old. case t of [] \<Rightarrow> old | c # s \<Rightarrow> (if c = CHR 0x7B then Some [''k'' \<mapsto> AStr s] else None)),
     js_read_list = (\<lambda>t old. case t of [] \<Rightarrow> old | c # s \<Rightarrow> (if s = '']'' then [] else [s])),
     js_extend = (\<lambda>v. case v of None \<Rightarrow> ''null'' | Some m \<Rightarrow> (case m ''k'' of Some (AStr s) \<Rightarrow> CHR 0x7B # s | _ \<Rightarrow> [])),
     js_read_extend = (\<lambda>t old. case t of [] \<Rightarrow> None | c # s \<Rightarrow> Some (if c = CHR 0x7B then Some [''k'' \<mapsto> AStr s] else None))\<rparr>"

lemma sample_keeps:
  "keeps_map sample_json None" "keeps_map sample_json (Some [''k'' \<mapsto> AStr s])" "keeps_list sample_json [''llm.chat'']" "keeps_list sample_json []"
  "keeps_extend sample_json None"
  by (simp_all add: sample_json_def keeps_map_def keeps_list_def keeps_extend_def)

text \<open>A new struct with a value in one of its fields.\<close>

definition sample_map :: "gomap option" where
  "sample_map = Some [''k'' \<mapsto> AStr ''a1'']"

definition sample_provider_struct :: provider_struct where
  "sample_provider_struct = object_meta.extend new_meta (provider_ext ''openai-compatible'' True [] [] [] [] sample_map (provider_struct_ext [] [] ()))"

definition sample_model_struct :: provider_model_struct where
  "sample_model_struct = object_meta.extend new_meta
     (provider_model_ext ''p1'' ''m'' [] [] [''llm.chat''] [] True sample_map None (provider_model_struct_ext [] [] [] [] [] ()))"

definition sample_backend_struct :: storage_backend_struct where
  "sample_backend_struct = object_meta.extend new_meta (storage_backend_ext ''local'' ''/data'' sample_map True False 0 (storage_backend_struct_ext [] [] ()))"

definition sample_asset_struct :: asset_struct where
  "sample_asset_struct = object_meta.extend new_meta
     (asset_ext ''image'' ''image/png'' ''b'' ''k'' 1 [] 1 1 0 [] [] [] 0 sample_map (asset_struct_ext [] [] ()))"

definition sample_group_struct :: asset_group_struct where
  "sample_group_struct = object_meta.extend new_meta (asset_group_ext ''dynamic'' sample_map (asset_group_struct_ext [] [] ()))"

definition sample_relation_struct :: asset_relation_struct where
  "sample_relation_struct = object_meta.extend new_meta (asset_relation_ext ''a'' ''b'' [] ''derived'' sample_map (asset_relation_struct_ext [] [] ()))"

definition sample_task_struct :: task_struct where
  "sample_task_struct = object_meta.extend new_meta
     (task_ext ''asset.probe'' ''pending'' 0 ''default'' sample_map None 0 [] 0 3 [] 0 [] (task_struct_ext [] [] [] ()))"

lemmas sample_struct_defs = sample_provider_struct_def sample_model_struct_def sample_backend_struct_def sample_asset_struct_def
  sample_group_struct_def sample_relation_struct_def sample_task_struct_def object_meta.extend_def new_meta_def sample_map_def

lemma sample_structs_keep:
  "keeps_extend sample_json (obj_Extend sample_provider_struct) \<and> Provider_keeps sample_json (provider.truncate sample_provider_struct)"
  "keeps_extend sample_json (obj_Extend sample_model_struct) \<and> ProviderModel_keeps sample_json (provider_model.truncate sample_model_struct)"
  "keeps_extend sample_json (obj_Extend sample_backend_struct) \<and> StorageBackend_keeps sample_json (storage_backend.truncate sample_backend_struct)"
  "keeps_extend sample_json (obj_Extend sample_asset_struct) \<and> Asset_keeps sample_json (asset.truncate sample_asset_struct)"
  "keeps_extend sample_json (obj_Extend sample_group_struct) \<and> AssetGroup_keeps sample_json (asset_group.truncate sample_group_struct)"
  "keeps_extend sample_json (obj_Extend sample_relation_struct) \<and> AssetRelation_keeps sample_json (asset_relation.truncate sample_relation_struct)"
  "keeps_extend sample_json (obj_Extend sample_task_struct) \<and> Task_keeps sample_json (task.truncate sample_task_struct)"
  by (simp_all add: sample_struct_defs sample_keeps Provider_keeps_def ProviderModel_keeps_def StorageBackend_keeps_def Asset_keeps_def
      AssetGroup_keeps_def AssetRelation_keeps_def Task_keeps_def provider.truncate_def provider_model.truncate_def storage_backend.truncate_def
      asset.truncate_def asset_group.truncate_def asset_relation.truncate_def task.truncate_def)

lemma shadow_columns_refine_witness:
  "reads_as (Task_BeforeCreate sample_json ''u'' 5 sample_task_struct) Task_blank (Task_AfterFind sample_json) task.truncate
     (BeforeCreate ''u'' 5 (task.truncate sample_task_struct))"
  using shadow_columns_refine[OF sample_structs_keep, where u = "''u''" and now = 5] by blast

text \<open>A value that JSON refuses ends the hook, so nothing is written; an extension that can not be decoded makes the row unreadable.\<close>

lemma task_hook_errors:
  "js_map J (tk_Input t) = None \<or> js_map J (tk_Output t) = None \<Longrightarrow>
     Task_BeforeCreate J u now t = Inl StoreFailure \<and> Task_BeforeUpdate J now t = Inl StoreFailure"
  "js_read_extend J (tk_ExtendShadow t) (obj_Extend t) = None \<Longrightarrow> Task_AfterFind J t = Inl StoreFailure"
  by (auto simp: Task_BeforeCreate_def Task_BeforeUpdate_def Task_AfterFind_def Task_marshalShadows_def Meta_BeforeCreate_def Meta_BeforeUpdate_def
      Meta_AfterFind_def Marshal_map_def BeforeCreate_def BeforeUpdate_def split: option.split)

text \<open>Values set in the extension are there after a copy, which keeps everything else and makes the map writable.\<close>

lemma DeepCopyInto_extend:
  "obj_Extend (DeepCopyInto put sh (SetExtendValue key val obj) target) =
     (if key = [] then Some (case obj_Extend obj of None \<Rightarrow> Map.empty | Some m \<Rightarrow> m)
      else Some ((case obj_Extend obj of None \<Rightarrow> Map.empty | Some m \<Rightarrow> m)(key \<mapsto> val)))"
  by (simp add: DeepCopyInto_def SetExtendValue_def)

end
