(* ===== verification/Controllers.thy ===== *)
theory Controllers
  imports Api Canvas Prompts ChunkUpload Providers
begin

text \<open>
  The controllers \<open>controller/v1/platform\<close>, \<open>canvas\<close>, \<open>asset\<close>, \<open>prompt\<close> and the one-time passwords of \<open>authentication\<close>: one definition per handler of
  gin, from what gin binds to the call of the service and the answer. How gin binds a body or a query string to a struct is a parameter.
\<close>

subsection \<open>Requests\<close>

text \<open>The request structs whose fields the services get one by one.\<close>

record provider_test_request =
  pt_ID :: string
  pt_BaseURL :: string
  pt_AuthType :: string
  pt_CredentialRef :: string

record group_create_request =
  gc_Name :: string
  gc_Type :: string
  gc_Description :: string
  gc_DynamicRule :: "gomap option"
  gc_AssetIDs :: "string list"

record download_request =
  dq_AssetIDs :: "string list"
  dq_Items :: "(string \<times> string) list"
  dq_Filename :: string

record register_output_request =
  ro_CanvasID :: string
  ro_NodeID :: string
  ro_AssetID :: string
  ro_Metadata :: "gomap option"

record node_run_request =
  nr_Node :: "gomap option"
  nr_Settings :: "gomap option"

record canvas_import_request =
  ir_Project :: string
  ir_Canvas :: canvas_export_payload

record category_create_request =
  cc_LibraryID :: string
  cc_Name :: string
  cc_Type :: string

record item_batch_request =
  ib_LibraryID :: string
  ib_CategoryID :: string
  ib_Items :: "item_create_request list"

record item_ids_request =
  ii_IDs :: "string list"
  ii_LibraryID :: string

text \<open>Requests that embed \<open>ObjectMeta\<close> and have a \<open>Name\<close> of their own beside the embedded one.\<close>

record rename_request = object_meta +
  rn_Name :: string

record member_rename_request = object_meta +
  mr_LibraryID :: string
  mr_Name :: string

record member_delete_request = object_meta +
  md_LibraryID :: string

record prompt_update_request = object_meta +
  pp_LibraryID :: string
  pp_Name :: string
  pp_CategoryID :: string
  pp_Positive :: string
  pp_Negative :: string
  pp_Scene :: string

record otp_validate_request =
  ov_UserID :: string
  ov_OTP :: string

text \<open>The structs as the controllers make them, before gin binds the rest.\<close>

definition new_provider_create :: provider_create_request where
  "new_provider_create = \<lparr>pc_Name = [], pc_Type = [], pc_Enabled = None, pc_BaseURL = [], pc_AuthType = [], pc_CredentialRef = [],
     pc_PresetKey = [], pc_Config = None\<rparr>"

definition new_provider_update :: "string \<Rightarrow> provider_update_request" where
  "new_provider_update pid = \<lparr>pu_ID = pid, pu_Name = None, pu_Type = None, pu_Enabled = None, pu_BaseURL = None, pu_AuthType = None,
     pu_CredentialRef = None\<rparr>"

definition new_model_create :: "string \<Rightarrow> model_create_request" where
  "new_model_create pid = \<lparr>mc_ProviderID = pid, mc_Name = [], mc_Model = [], mc_EndpointType = [], mc_GroupName = [], mc_Capabilities = [],
     mc_ModelTypes = [], mc_Enabled = None, mc_DefaultParams = None, mc_Pricing = None\<rparr>"

definition new_model_update :: "string \<Rightarrow> model_update_request" where
  "new_model_update mid = \<lparr>mu_ID = mid, mu_Name = None, mu_Model = None, mu_EndpointType = None, mu_GroupName = None, mu_Capabilities = None,
     mu_ModelTypes = None, mu_Enabled = None, mu_DefaultParams = None, mu_Pricing = None\<rparr>"

definition new_backend_list :: backend_list_request where
  "new_backend_list = basic_query.extend new_query (backend_list_request.fields [] None)"

definition new_backend_create :: backend_create_request where
  "new_backend_create = \<lparr>bc_Name = [], bc_Type = [], bc_Root = [], bc_Config = None, bc_Enabled = None, bc_Readonly = None, bc_Quota = 0\<rparr>"

definition new_backend_update :: "string \<Rightarrow> backend_update_request" where
  "new_backend_update bid = \<lparr>bu_ID = bid, bu_Name = None, bu_Type = None, bu_Root = None, bu_Config = None, bu_Enabled = None,
     bu_Readonly = None, bu_Quota = None\<rparr>"

definition new_chunk_request :: "string \<Rightarrow> chunk_request" where
  "new_chunk_request checksum = \<lparr>cu_Filename = [], cu_Size = 0, cu_Checksum = checksum, cu_ChunkSize = 0, cu_TotalChunks = 0, cu_TagNames = [],
     cu_SourceType = []\<rparr>"

definition new_asset_update :: "string \<Rightarrow> asset_update_request" where
  "new_asset_update aid = \<lparr>au_ID = aid, au_Name = None, au_SourceType = None, au_SourceRef = None, au_Metadata = None, au_TagNames = None,
     au_TagSource = [], au_Description = None\<rparr>"

definition new_task_list :: task_list_request where
  "new_task_list = basic_query.extend new_query (task_list_request.fields [] [] [])"

definition new_task_create :: task_create_request where
  "new_task_create = \<lparr>tr_Name = [], tr_Type = [], tr_Priority = 0, tr_Queue = [], tr_Input = None, tr_MaxAttempts = 0, tr_IdempotencyKey = []\<rparr>"

definition new_canvas_create :: canvas_create_request where
  "new_canvas_create = \<lparr>cr_Title = [], cr_Icon = [], cr_Kind = [], cr_Project = [], cr_BoardX = 0, cr_BoardY = 0\<rparr>"

definition new_canvas_meta :: "string \<Rightarrow> canvas_meta_request" where
  "new_canvas_meta cid = canvas_meta_request.make cid None None None None None None None None"

definition new_payload :: canvas_export_payload where
  "new_payload = \<lparr>xp_Title = [], xp_Icon = [], xp_Kind = [], xp_Nodes = ANil, xp_Connections = ANil, xp_Viewport = ANil, xp_Logs = ANil,
     xp_Settings = ANil\<rparr>"

definition new_canvas_save :: "string \<Rightarrow> canvas_save_request" where
  "new_canvas_save cid = canvas_export_payload.extend new_payload (canvas_save_request.fields cid 0)"

definition new_workflow_export :: workflow_export_request where
  "new_workflow_export = \<lparr>wx_Nodes = ANil, wx_Connections = ANil, wx_Metadata = None\<rparr>"

definition new_workflow :: workflow_payload where
  "new_workflow = \<lparr>wf_CanvasID = [], wf_Nodes = ANil, wf_Connections = ANil, wf_Metadata = None\<rparr>"

definition new_package :: workflow_package where
  "new_package = \<lparr>wp_Workflow = new_workflow, wp_Assets = [], wp_Metadata = None\<rparr>"

definition new_package_export :: package_export_request where
  "new_package_export = workflow_export_request.extend new_workflow_export (package_export_request.fields None [])"

definition new_project_update :: "string \<Rightarrow> project_update_request" where
  "new_project_update pid = project_update_request.make pid None None"

definition new_rename :: "string \<Rightarrow> rename_request" where
  "new_rename i = object_meta.extend (new_meta\<lparr>obj_ID := i\<rparr>) (rename_request.fields [])"

definition new_delete :: "string \<Rightarrow> object_meta" where
  "new_delete i = new_meta\<lparr>obj_ID := i\<rparr>"

definition new_member_rename :: "string \<Rightarrow> member_rename_request" where
  "new_member_rename i = object_meta.extend (new_meta\<lparr>obj_ID := i\<rparr>) (member_rename_request.fields [] [])"

definition new_member_delete :: "string \<Rightarrow> member_delete_request" where
  "new_member_delete i = object_meta.extend (new_meta\<lparr>obj_ID := i\<rparr>) (member_delete_request.fields [])"

definition new_prompt_update :: "string \<Rightarrow> prompt_update_request" where
  "new_prompt_update i = object_meta.extend (new_meta\<lparr>obj_ID := i\<rparr>) (prompt_update_request.fields [] [] [] [] [] [])"

definition new_prompt_create :: prompt_item_request where
  "new_prompt_create = \<lparr>pq_ID = [], pq_LibraryID = [], pq_Name = [], pq_CategoryID = [], pq_Positive = [], pq_Negative = [], pq_Scene = []\<rparr>"

text \<open>
  How gin binds the payload of a request (its body or query string) to a struct that may have values already: one field per request type. \<open>gb_file\<close> and
  \<open>gb_form\<close> read a multipart form; \<open>gb_qrcode\<close> is the image of a URL, \<open>gb_totp\<close> the two checks of a one-time password, of which the second can fail.
\<close>

type_synonym 'r reader = "string \<Rightarrow> 'r \<Rightarrow> err + 'r"

record gin =
  gb_provider_list :: "provider_list_request reader"
  gb_provider_create :: "provider_create_request reader"
  gb_provider_update :: "provider_update_request reader"
  gb_provider_test :: "provider_test_request reader"
  gb_model_list :: "model_list_request reader"
  gb_model_create :: "model_create_request reader"
  gb_model_update :: "model_update_request reader"
  gb_model_sync :: "string reader"
  gb_llm_upsert :: "llm_config_spec list reader"
  gb_backend_list :: "backend_list_request reader"
  gb_backend_create :: "backend_create_request reader"
  gb_backend_update :: "backend_update_request reader"
  gb_file :: "string \<Rightarrow> err + string \<times> string"
  gb_form :: "string \<Rightarrow> string \<Rightarrow> string"
  gb_chunk_init :: "chunk_request reader"
  gb_chunk_complete :: "chunk_complete_request reader"
  gb_asset_list :: "asset_list_request reader"
  gb_asset_search :: "asset_list_request reader"
  gb_asset_parse :: "string reader"
  gb_asset_update :: "asset_update_request reader"
  gb_group_create :: "group_create_request reader"
  gb_task_list :: "task_list_request reader"
  gb_task_create :: "task_create_request reader"
  gb_download :: "download_request reader"
  gb_register_output :: "register_output_request reader"
  gb_node_run :: "node_run_request reader"
  gb_canvas_create :: "canvas_create_request reader"
  gb_canvas_meta :: "canvas_meta_request reader"
  gb_canvas_save :: "canvas_save_request reader"
  gb_canvas_import :: "canvas_import_request reader"
  gb_workflow_export :: "workflow_export_request reader"
  gb_workflow_import :: "workflow_payload reader"
  gb_package_export :: "package_export_request reader"
  gb_package_import :: "workflow_package reader"
  gb_name :: "string reader"
  gb_project_update :: "project_update_request reader"
  gb_query :: "basic_query reader"
  gb_rename :: "rename_request reader"
  gb_category_list :: "category_list_request reader"
  gb_category_create :: "category_create_request reader"
  gb_member_rename :: "member_rename_request reader"
  gb_item_list :: "item_list_request reader"
  gb_item_create :: "item_create_request reader"
  gb_item_batch :: "item_batch_request reader"
  gb_item_ids :: "item_ids_request reader"
  gb_item_move :: "item_move_request reader"
  gb_prompt_create :: "prompt_item_request reader"
  gb_prompt_update :: "prompt_update_request reader"
  gb_user_id :: "string reader"
  gb_otp_validate :: "otp_validate_request reader"
  gb_qrcode :: "string \<Rightarrow> err + string"
  gb_totp :: "string \<Rightarrow> string \<Rightarrow> bool \<times> (string + bool)"

text \<open>A handler without a request struct only runs the service.\<close>

definition run_plain :: "'a m \<Rightarrow> 'a m" where
  "run_plain action = core_Run (Inr ()) (\<lambda>_. action)"

definition run_bound :: "'r reader \<Rightarrow> string \<Rightarrow> 'r \<Rightarrow> ('r \<Rightarrow> 'a m) \<Rightarrow> 'a m" where
  "run_bound rd payload r action = core_Run (plain_request (rd payload r)) action"

text \<open>A request with method DELETE is not bound: the struct goes to the service as the controller made it.\<close>

definition run_unbound :: "'r \<Rightarrow> ('r \<Rightarrow> 'a m) \<Rightarrow> 'a m" where
  "run_unbound r action = core_Run (Inr r) action"

subsection \<open>The platform controller\<close>

definition splitTags :: "string \<Rightarrow> string list" where
  "splitTags raw = (if raw = [] then [] else filter (\<lambda>p. p \<noteq> []) (map TrimSpace (fields_at list_seps [] raw)))"

text \<open>Users, providers and models.\<close>

definition platform_Me :: "me_response m" where
  "platform_Me = run_plain Me"

definition platform_ListProviders :: "gin \<Rightarrow> env \<Rightarrow> string \<Rightarrow> (provider list \<times> int) m" where
  "platform_ListProviders G E q = run_bound (gb_provider_list G) q new_provider_list (ProviderList E)"

definition platform_CreateProvider :: "gin \<Rightarrow> env \<Rightarrow> string \<Rightarrow> provider m" where
  "platform_CreateProvider G E body = run_bound (gb_provider_create G) body new_provider_create (ProviderCreate E)"

definition platform_ListProviderPresets :: "provider_preset list m" where
  "platform_ListProviderPresets = run_plain ProviderPresetList"

definition platform_InstallProviderPreset :: "env \<Rightarrow> string \<Rightarrow> provider m" where
  "platform_InstallProviderPreset E key = run_plain (ProviderPresetInstall E key)"

definition ProviderUpdateRequest_Validate :: "provider_update_request \<Rightarrow> err + unit" where
  "ProviderUpdateRequest_Validate r = Inr ()"

definition platform_UpdateProvider :: "gin \<Rightarrow> string \<Rightarrow> string \<Rightarrow> provider m" where
  "platform_UpdateProvider G pid body = 
     core_Run (checked_request ProviderUpdateRequest_Validate (gb_provider_update G body (new_provider_update pid))) ProviderUpdate"

definition platform_DeleteProvider :: "string \<Rightarrow> provider m" where
  "platform_DeleteProvider pid = run_plain (ProviderDelete pid)"

definition platform_TestProvider :: "gin \<Rightarrow> env \<Rightarrow> string \<Rightarrow> string \<Rightarrow> (bool \<times> string \<times> int) m" where
  "platform_TestProvider G E pid body = 
     run_bound (gb_provider_test G) body \<lparr>pt_ID = pid, pt_BaseURL = [], pt_AuthType = [], pt_CredentialRef = []\<rparr>
       (\<lambda>r. ProviderTest E (pt_ID r) (pt_BaseURL r) (pt_AuthType r) (pt_CredentialRef r))"

definition platform_ListProviderModels :: "gin \<Rightarrow> env \<Rightarrow> string \<Rightarrow> string \<Rightarrow> (provider_model list \<times> int) m" where
  "platform_ListProviderModels G E pid q = run_bound (gb_model_list G) q (model_list_of pid) (ProviderModelList E)"

definition platform_CreateProviderModel :: "gin \<Rightarrow> env \<Rightarrow> string \<Rightarrow> string \<Rightarrow> provider_model m" where
  "platform_CreateProviderModel G E pid body = run_bound (gb_model_create G) body (new_model_create pid) (ProviderModelCreate E)"

text \<open>The provider of the path is in the struct, and the service does not read it.\<close>

definition platform_UpdateProviderModel :: "gin \<Rightarrow> env \<Rightarrow> string \<Rightarrow> string \<Rightarrow> string \<Rightarrow> provider_model m" where
  "platform_UpdateProviderModel G E pid mid body = run_bound (gb_model_update G) body (new_model_update mid) (ProviderModelUpdate E)"

definition platform_DeleteProviderModel :: "string \<Rightarrow> string \<Rightarrow> provider_model m" where
  "platform_DeleteProviderModel pid mid = run_plain (ProviderModelDelete pid mid)"

definition platform_SyncProviderModels :: "gin \<Rightarrow> env \<Rightarrow> string \<Rightarrow> string \<Rightarrow> (provider_model list \<times> int \<times> int \<times> int) m" where
  "platform_SyncProviderModels G E pid body = run_bound (gb_model_sync G) body pid (ProviderModelSync E)"

definition platform_GetSystemLLMConfig :: "llm_config list m" where
  "platform_GetSystemLLMConfig = run_plain SystemLLMConfigList"

definition platform_PutSystemLLMConfig :: "gin \<Rightarrow> env \<Rightarrow> string \<Rightarrow> llm_config list m" where
  "platform_PutSystemLLMConfig G E body = run_bound (gb_llm_upsert G) body [] (SystemLLMConfigUpsert E)"

text \<open>Storage backends and assets.\<close>

definition platform_ListStorageBackends :: "gin \<Rightarrow> env \<Rightarrow> string \<Rightarrow> (storage_backend list \<times> int) m" where
  "platform_ListStorageBackends G E q = run_bound (gb_backend_list G) q new_backend_list (StorageBackendList E)"

definition platform_CreateStorageBackend :: "gin \<Rightarrow> env \<Rightarrow> string \<Rightarrow> storage_backend m" where
  "platform_CreateStorageBackend G E body = run_bound (gb_backend_create G) body new_backend_create (StorageBackendCreate E)"

definition platform_UpdateStorageBackend :: "gin \<Rightarrow> env \<Rightarrow> string \<Rightarrow> string \<Rightarrow> storage_backend m" where
  "platform_UpdateStorageBackend G E bid body = run_bound (gb_backend_update G) body (new_backend_update bid) (StorageBackendUpdate E)"

definition platform_UploadAsset :: "gin \<Rightarrow> env \<Rightarrow> string \<Rightarrow> upload_response m" where
  "platform_UploadAsset G E form = 
     bindE (lift_sum (gb_file G form)) (\<lambda>(filename, bytes).
     AssetUpload E filename bytes (splitTags (gb_form G form ''tags'')) (gb_form G form ''source_type''))"

definition platform_InitAssetChunkUpload :: "gin \<Rightarrow> env \<Rightarrow> chunk_config \<Rightarrow> string \<Rightarrow> chunk_init_response m" where
  "platform_InitAssetChunkUpload G E c body = run_bound (gb_chunk_init G) body (new_chunk_request []) (AssetChunkUploadInit E c)"

definition platform_UploadAssetChunk :: "env \<Rightarrow> chunk_config \<Rightarrow> string \<Rightarrow> string \<Rightarrow> string \<Rightarrow> chunk_part_response m" where
  "platform_UploadAssetChunk E c checksum index body = (case Atoi index of
     None \<Rightarrow> throw (Status ErrValidation ''invalid chunk index'' [])
   | Some i \<Rightarrow> AssetChunkUploadPart E c checksum i body)"

definition platform_CompleteAssetChunkUpload :: "gin \<Rightarrow> env \<Rightarrow> chunk_config \<Rightarrow> string \<Rightarrow> string \<Rightarrow> upload_response m" where
  "platform_CompleteAssetChunkUpload G E c checksum body = 
     run_bound (gb_chunk_complete G) body (new_chunk_request checksum) (AssetChunkUploadComplete E c)"

definition platform_CancelAssetChunkUpload :: "env \<Rightarrow> chunk_config \<Rightarrow> string \<Rightarrow> chunk_cancel_response m" where
  "platform_CancelAssetChunkUpload E c checksum = AssetChunkUploadCancel E c checksum"

definition bound_list :: "env \<Rightarrow> err + asset_list_request \<Rightarrow> err + asset_list_request" where
  "bound_list E r = DecodeParameter (\<lambda>r. r) (\<lambda>_. Inr ()) (\<lambda>r. Inr (asset_PostBind (e_lower E) r)) r"

definition platform_ListAssets :: "gin \<Rightarrow> env \<Rightarrow> string \<Rightarrow> (asset_record list \<times> int) m" where
  "platform_ListAssets G E q = core_Run (bound_list E (gb_asset_list G q new_asset_query)) (AssetList E)"

definition platform_SearchAssets :: "gin \<Rightarrow> env \<Rightarrow> string \<Rightarrow> (asset_record list \<times> int) m" where
  "platform_SearchAssets G E body = core_Run (bound_list E (gb_asset_search G body new_asset_query)) (AssetSearch E)"

definition platform_ParseAssetSearch :: "gin \<Rightarrow> env \<Rightarrow> string \<Rightarrow> (asset_list_request \<times> string) m" where
  "platform_ParseAssetSearch G E body = run_bound (gb_asset_parse G) body [] (AssetSearchParse E)"

definition platform_GetAsset :: "string \<Rightarrow> asset_record m" where
  "platform_GetAsset aid = run_plain (AssetGet aid)"

definition platform_UpdateAsset :: "gin \<Rightarrow> env \<Rightarrow> string \<Rightarrow> string \<Rightarrow> asset_record m" where
  "platform_UpdateAsset G E aid body = run_bound (gb_asset_update G) body (new_asset_update aid) (AssetUpdate E)"

definition platform_DeleteAsset :: "env \<Rightarrow> string \<Rightarrow> asset_record m" where
  "platform_DeleteAsset E aid = run_plain (AssetDelete E aid)"

text \<open>A file as an answer: the content type, if it is set, and the path that gin sends.\<close>

definition platform_GetAssetContent :: "env \<Rightarrow> string \<Rightarrow> (string option \<times> string) m" where
  "platform_GetAssetContent E aid = 
     bindE (AssetContentPath E aid) (\<lambda>(path, mimeType). ret (if mimeType \<noteq> [] then Some mimeType else None, path))"

definition platform_GetAssetThumbnail :: "env \<Rightarrow> string \<Rightarrow> (string option \<times> string) m" where
  "platform_GetAssetThumbnail E aid = 
     bindE (AssetThumbnailPath E aid) (\<lambda>(path, mimeType). ret (if mimeType \<noteq> [] then Some mimeType else None, path))"

definition platform_CreateAssetGroup :: "gin \<Rightarrow> env \<Rightarrow> string \<Rightarrow> (asset_group \<times> group_member list) m" where
  "platform_CreateAssetGroup G E body = 
     run_bound (gb_group_create G) body \<lparr>gc_Name = [], gc_Type = [], gc_Description = [], gc_DynamicRule = None, gc_AssetIDs = []\<rparr>
       (\<lambda>r. AssetGroupCreate E (gc_Name r) (gc_Type r) (gc_Description r) (gc_DynamicRule r) (gc_AssetIDs r))"

text \<open>Tasks and runs of canvases; \<open>RunCanvas\<close> itself is in the theory of the queue.\<close>

definition platform_ListTasks :: "gin \<Rightarrow> env \<Rightarrow> string \<Rightarrow> (task list \<times> int) m" where
  "platform_ListTasks G E q = run_bound (gb_task_list G) q new_task_list (TaskList E)"

definition platform_CreateTask :: "gin \<Rightarrow> env \<Rightarrow> string \<Rightarrow> task m" where
  "platform_CreateTask G E body = run_bound (gb_task_create G) body new_task_create (TaskCreate E)"

definition platform_GetTask :: "string \<Rightarrow> task m" where
  "platform_GetTask tid = run_plain (TaskGet tid)"

definition platform_CancelTask :: "string \<Rightarrow> task m" where
  "platform_CancelTask tid = run_plain (TaskCancel tid)"

definition platform_TaskEvents :: "string \<Rightarrow> task list m" where
  "platform_TaskEvents tid = bindE (TaskGet tid) (\<lambda>t. ret [t])"

text \<open>The archive as a download: its name in the header, what was written to it, and the error that may have ended it.\<close>

definition download_name :: "env \<Rightarrow> string \<Rightarrow> string" where
  "download_name E name = 
     (let filename = TrimSpace name;
          filename = (if filename = [] then ''canvas-assets.zip'' else filename);
          filename = (if HasSuffix (ToLower (e_lower E) filename) ''.zip'' then filename else filename @ ''.zip'')
      in ReplaceAll filename CHR 0x22 ''_'')"

definition platform_DownloadCanvasAssets :: "gin \<Rightarrow> env \<Rightarrow> string \<Rightarrow> (string \<times> err option \<times> zip_entry list) m" where
  "platform_DownloadCanvasAssets G E body = 
     bindE (lift_sum (gb_download G body \<lparr>dq_AssetIDs = [], dq_Items = [], dq_Filename = []\<rparr>)) (\<lambda>r.
     bindE (CanvasAssetDownloadZip E (dq_AssetIDs r) (dq_Items r)) (\<lambda>(e, entries).
     ret (''attachment; filename='' @ [CHR 0x22] @ download_name E (dq_Filename r) @ [CHR 0x22], e, entries)))"

definition platform_RegisterCanvasOutput :: "gin \<Rightarrow> env \<Rightarrow> string \<Rightarrow> (asset_record \<times> task) m" where
  "platform_RegisterCanvasOutput G E body = 
     run_bound (gb_register_output G) body \<lparr>ro_CanvasID = [], ro_NodeID = [], ro_AssetID = [], ro_Metadata = None\<rparr>
       (\<lambda>r. CanvasAssetRegisterOutput E (ro_CanvasID r) (ro_NodeID r) (ro_AssetID r) (ro_Metadata r))"

definition platform_RunCanvasNode :: "gin \<Rightarrow> env \<Rightarrow> string \<Rightarrow> string \<Rightarrow> string \<Rightarrow> task m" where
  "platform_RunCanvasNode G E cid nid body = 
     run_bound (gb_node_run G) body \<lparr>nr_Node = None, nr_Settings = None\<rparr> (\<lambda>r. CanvasNodeRun E cid nid (nr_Node r) (nr_Settings r))"

definition platform_GetCanvasRun :: "string \<Rightarrow> task m" where
  "platform_GetCanvasRun tid = run_plain (TaskGet tid)"

definition platform_CancelCanvasRun :: "string \<Rightarrow> task m" where
  "platform_CancelCanvasRun tid = run_plain (TaskCancel tid)"

subsection \<open>The canvas controller\<close>

text \<open>Answers that are not a struct of the service are maps: \<open>{"ok": true}\<close> and the like.\<close>

definition ok_answer :: "gomap" where
  "ok_answer = [''ok'' \<mapsto> ABool True]"

definition count_answer :: "string \<Rightarrow> int \<Rightarrow> gomap" where
  "count_answer key n = [key \<mapsto> ANum (of_int n)]"

definition canvas_ListCanvases :: "env \<Rightarrow> canvas_record list m" where
  "canvas_ListCanvases E = run_plain (CanvasList E)"

definition canvas_ListTrash :: "(canvas_record list \<times> int) m" where
  "canvas_ListTrash = run_plain CanvasTrashList"

definition canvas_CreateCanvas :: "gin \<Rightarrow> env \<Rightarrow> string \<Rightarrow> canvas_record m" where
  "canvas_CreateCanvas G E body = run_bound (gb_canvas_create G) body new_canvas_create (CanvasCreate E)"

definition canvas_GetCanvas :: "string \<Rightarrow> canvas m" where
  "canvas_GetCanvas cid = run_plain (CanvasGet cid)"

definition canvas_GetCanvasMeta :: "string \<Rightarrow> canvas_meta_response m" where
  "canvas_GetCanvasMeta cid = run_plain (CanvasGetMeta cid)"

definition canvas_UpdateCanvasMeta :: "gin \<Rightarrow> env \<Rightarrow> string \<Rightarrow> string \<Rightarrow> canvas_record m" where
  "canvas_UpdateCanvasMeta G E cid body = run_bound (gb_canvas_meta G) body (new_canvas_meta cid) (CanvasUpdateMeta E)"

definition canvas_SaveCanvas :: "gin \<Rightarrow> env \<Rightarrow> string \<Rightarrow> string \<Rightarrow> canvas m" where
  "canvas_SaveCanvas G E cid body = run_bound (gb_canvas_save G) body (new_canvas_save cid) (CanvasSave E)"

definition canvas_ExportCanvas :: "string \<Rightarrow> (string \<times> canvas_export_payload) m" where
  "canvas_ExportCanvas cid = run_plain (CanvasExport cid)"

definition canvas_ImportCanvas :: "gin \<Rightarrow> env \<Rightarrow> string \<Rightarrow> canvas_record m" where
  "canvas_ImportCanvas G E body = 
     run_bound (gb_canvas_import G) body \<lparr>ir_Project = [], ir_Canvas = new_payload\<rparr> (\<lambda>r. CanvasImport E (ir_Project r) (ir_Canvas r))"

definition canvas_ExportWorkflow :: "gin \<Rightarrow> string \<Rightarrow> string \<Rightarrow> workflow_payload m" where
  "canvas_ExportWorkflow G cid body = run_bound (gb_workflow_export G) body new_workflow_export (CanvasWorkflowExport cid)"

definition canvas_ImportWorkflow :: "gin \<Rightarrow> env \<Rightarrow> string \<Rightarrow> string \<Rightarrow> canvas m" where
  "canvas_ImportWorkflow G E cid body = run_bound (gb_workflow_import G) body new_workflow (CanvasWorkflowImport E cid)"

definition canvas_ExportWorkflowPackage :: "gin \<Rightarrow> env \<Rightarrow> string \<Rightarrow> string \<Rightarrow> (workflow_package \<times> task) m" where
  "canvas_ExportWorkflowPackage G E cid body = run_bound (gb_package_export G) body new_package_export (CanvasWorkflowPackageExport E cid)"

definition canvas_ImportWorkflowPackage :: "gin \<Rightarrow> env \<Rightarrow> string \<Rightarrow> string \<Rightarrow> (canvas \<times> task) m" where
  "canvas_ImportWorkflowPackage G E cid body = run_bound (gb_package_import G) body new_package (CanvasWorkflowPackageImport E cid)"

definition canvas_TouchCanvas :: "env \<Rightarrow> string \<Rightarrow> (canvas_record \<times> int) m" where
  "canvas_TouchCanvas E cid = run_plain (CanvasTouch E cid)"

definition canvas_DeleteCanvas :: "env \<Rightarrow> string \<Rightarrow> gomap m" where
  "canvas_DeleteCanvas E cid = run_plain (bindE (CanvasSoftDelete E cid) (\<lambda>_. ret ok_answer))"

definition canvas_RestoreCanvas :: "env \<Rightarrow> string \<Rightarrow> canvas m" where
  "canvas_RestoreCanvas E cid = run_plain (CanvasRestore E cid)"

definition canvas_PurgeCanvas :: "string \<Rightarrow> gomap m" where
  "canvas_PurgeCanvas cid = run_plain (bindE (CanvasPurge cid) (\<lambda>_. ret ok_answer))"

definition canvas_ListProjects :: "env \<Rightarrow> project_record list m" where
  "canvas_ListProjects E = run_plain (ProjectList E)"

definition canvas_CreateProject :: "gin \<Rightarrow> env \<Rightarrow> string \<Rightarrow> project_record m" where
  "canvas_CreateProject G E body = run_bound (gb_name G) body [] (ProjectCreate E)"

definition canvas_UpdateProject :: "gin \<Rightarrow> env \<Rightarrow> string \<Rightarrow> string \<Rightarrow> project_record m" where
  "canvas_UpdateProject G E pid body = run_bound (gb_project_update G) body (new_project_update pid) (ProjectUpdate E)"

definition canvas_DeleteProject :: "env \<Rightarrow> string \<Rightarrow> gomap m" where
  "canvas_DeleteProject E pid =
     run_unbound pid (\<lambda>r. bindE (ProjectDelete E r) (\<lambda>moved. ret (ok_answer(''moved'' \<mapsto> ANum (of_int moved)))))"

subsection \<open>The asset library controller\<close>

definition asset_ListLibraries :: "gin \<Rightarrow> env \<Rightarrow> string \<Rightarrow> (asset_library list \<times> int) m" where
  "asset_ListLibraries G E q = run_bound (gb_query G) q new_query (AssetLibraryList E)"

definition asset_CreateLibrary :: "gin \<Rightarrow> env \<Rightarrow> string \<Rightarrow> asset_library m" where
  "asset_CreateLibrary G E body = run_bound (gb_name G) body [] (AssetLibraryCreate E)"

definition asset_UpdateLibrary :: "gin \<Rightarrow> env \<Rightarrow> string \<Rightarrow> string \<Rightarrow> asset_library m" where
  "asset_UpdateLibrary G E lid body = run_bound (gb_rename G) body (new_rename lid) (\<lambda>r. AssetLibraryUpdate E (obj_ID r) (rn_Name r))"

definition asset_DeleteLibrary :: "env \<Rightarrow> string \<Rightarrow> gomap m" where
  "asset_DeleteLibrary E lid = run_unbound (new_delete lid) (\<lambda>r. bindE (AssetLibraryDelete E (obj_ID r)) (\<lambda>_. ret ok_answer))"

definition asset_ListCategories :: "gin \<Rightarrow> env \<Rightarrow> string \<Rightarrow> (asset_category list \<times> int) m" where
  "asset_ListCategories G E q = run_bound (gb_category_list G) q (basic_query.extend new_query (category_list_request.fields [])) (AssetCategoryList E)"

definition asset_CreateCategory :: "gin \<Rightarrow> env \<Rightarrow> string \<Rightarrow> asset_category m" where
  "asset_CreateCategory G E body = 
     run_bound (gb_category_create G) body \<lparr>cc_LibraryID = [], cc_Name = [], cc_Type = []\<rparr>
       (\<lambda>r. AssetCategoryCreate E (cc_LibraryID r) (cc_Name r) (cc_Type r))"

definition asset_UpdateCategory :: "gin \<Rightarrow> env \<Rightarrow> string \<Rightarrow> string \<Rightarrow> asset_category m" where
  "asset_UpdateCategory G E cid body = run_bound (gb_member_rename G) body (new_member_rename cid) (\<lambda>r. AssetCategoryUpdate E (obj_ID r) (mr_Name r))"

definition asset_DeleteCategory :: "string \<Rightarrow> gomap m" where
  "asset_DeleteCategory cid = 
     run_unbound (new_member_delete cid) (\<lambda>r. bindE (AssetCategoryDelete (obj_ID r) (md_LibraryID r)) (\<lambda>_. ret ok_answer))"

definition asset_ListItems :: "gin \<Rightarrow> env \<Rightarrow> string \<Rightarrow> (asset_item list \<times> int) m" where
  "asset_ListItems G E q = run_bound (gb_item_list G) q (basic_query.extend new_query (item_list_request.fields [] [] [])) (AssetItemList E)"

definition asset_CreateItem :: "gin \<Rightarrow> env \<Rightarrow> string \<Rightarrow> asset_item m" where
  "asset_CreateItem G E body = 
     run_bound (gb_item_create G) body \<lparr>ic_LibraryID = [], ic_CategoryID = [], ic_URL = [], ic_Name = []\<rparr> (AssetItemCreate E)"

definition asset_BatchCreateItems :: "gin \<Rightarrow> env \<Rightarrow> string \<Rightarrow> asset_item list m" where
  "asset_BatchCreateItems G E body = 
     run_bound (gb_item_batch G) body \<lparr>ib_LibraryID = [], ib_CategoryID = [], ib_Items = []\<rparr>
       (\<lambda>r. AssetItemBatchCreate E (ib_LibraryID r) (ib_CategoryID r) (ib_Items r))"

definition asset_UpdateItem :: "gin \<Rightarrow> env \<Rightarrow> string \<Rightarrow> string \<Rightarrow> asset_item m" where
  "asset_UpdateItem G E iid body = run_bound (gb_member_rename G) body (new_member_rename iid) (\<lambda>r. AssetItemUpdate E (obj_ID r) (mr_Name r))"

definition asset_DeleteItem :: "string \<Rightarrow> gomap m" where
  "asset_DeleteItem iid = run_unbound (new_member_delete iid) (\<lambda>r. bindE (AssetItemDelete (obj_ID r)) (\<lambda>_. ret ok_answer))"

definition asset_BatchDeleteItems :: "gin \<Rightarrow> string \<Rightarrow> gomap m" where
  "asset_BatchDeleteItems G body = 
     run_bound (gb_item_ids G) body \<lparr>ii_IDs = [], ii_LibraryID = []\<rparr>
       (\<lambda>r. bindE (AssetItemBatchDelete (ii_IDs r) (ii_LibraryID r)) (\<lambda>removed. ret (count_answer ''removed'' removed)))"

definition asset_BatchMoveItems :: "gin \<Rightarrow> env \<Rightarrow> string \<Rightarrow> gomap m" where
  "asset_BatchMoveItems G E body = 
     run_bound (gb_item_move G) body \<lparr>im_IDs = [], im_TargetLibraryID = [], im_TargetCategoryID = []\<rparr>
       (\<lambda>r. bindE (AssetItemBatchMove E r) (\<lambda>moved. ret (count_answer ''moved'' moved)))"

definition asset_ClassifyItems :: "gin \<Rightarrow> string \<Rightarrow> (int \<times> classify_result list) m" where
  "asset_ClassifyItems G body = 
     run_bound (gb_item_ids G) body \<lparr>ii_IDs = [], ii_LibraryID = []\<rparr> (\<lambda>r. AssetItemClassify (ii_IDs r) (ii_LibraryID r))"

subsection \<open>The prompt library controller\<close>

definition prompt_ListLibraries :: "(string \<times> prompt_library_full list) m" where
  "prompt_ListLibraries = run_plain PromptLibraryList"

definition prompt_CreateLibrary :: "gin \<Rightarrow> env \<Rightarrow> string \<Rightarrow> prompt_library_full m" where
  "prompt_CreateLibrary G E body = run_bound (gb_name G) body [] (PromptLibraryCreate E)"

definition prompt_UpdateLibrary :: "gin \<Rightarrow> env \<Rightarrow> string \<Rightarrow> string \<Rightarrow> prompt_library_full m" where
  "prompt_UpdateLibrary G E lid body = run_bound (gb_rename G) body (new_rename lid) (\<lambda>r. PromptLibraryUpdate E (obj_ID r) (rn_Name r))"

definition prompt_DeleteLibrary :: "string \<Rightarrow> gomap m" where
  "prompt_DeleteLibrary lid = run_unbound (new_delete lid) (\<lambda>r. bindE (PromptLibraryDelete (obj_ID r)) (\<lambda>_. ret ok_answer))"

definition prompt_CreateItem :: "gin \<Rightarrow> env \<Rightarrow> string \<Rightarrow> prompt_item m" where
  "prompt_CreateItem G E body = run_bound (gb_prompt_create G) body new_prompt_create (PromptItemCreate E)"

definition prompt_UpdateItem :: "gin \<Rightarrow> env \<Rightarrow> string \<Rightarrow> string \<Rightarrow> prompt_item m" where
  "prompt_UpdateItem G E iid body = 
     run_bound (gb_prompt_update G) body (new_prompt_update iid) (\<lambda>r. PromptItemUpdate E
       \<lparr>pq_ID = obj_ID r, pq_LibraryID = pp_LibraryID r, pq_Name = pp_Name r, pq_CategoryID = pp_CategoryID r, pq_Positive = pp_Positive r,
        pq_Negative = pp_Negative r, pq_Scene = pp_Scene r\<rparr>)"

definition prompt_DeleteItem :: "string \<Rightarrow> gomap m" where
  "prompt_DeleteItem iid = run_unbound (new_delete iid) (\<lambda>r. bindE (PromptItemDelete (obj_ID r)) (\<lambda>_. ret ok_answer))"

definition prompt_BatchDeleteItems :: "gin \<Rightarrow> string \<Rightarrow> gomap m" where
  "prompt_BatchDeleteItems G body = 
     run_bound (gb_item_ids G) body \<lparr>ii_IDs = [], ii_LibraryID = []\<rparr>
       (\<lambda>r. bindE (PromptItemBatchDelete (ii_IDs r)) (\<lambda>removed. ret (count_answer ''removed'' removed)))"

definition prompt_CreateCategory :: "gin \<Rightarrow> env \<Rightarrow> string \<Rightarrow> prompt_category m" where
  "prompt_CreateCategory G E body = 
     run_bound (gb_category_create G) body \<lparr>cc_LibraryID = [], cc_Name = [], cc_Type = []\<rparr>
       (\<lambda>r. PromptCategoryCreate E (cc_LibraryID r) (cc_Name r))"

definition prompt_UpdateCategory :: "gin \<Rightarrow> env \<Rightarrow> string \<Rightarrow> string \<Rightarrow> prompt_category m" where
  "prompt_UpdateCategory G E cid body = run_bound (gb_rename G) body (new_rename cid) (\<lambda>r. PromptCategoryUpdate E (obj_ID r) (rn_Name r))"

definition prompt_DeleteCategory :: "env \<Rightarrow> string \<Rightarrow> gomap m" where
  "prompt_DeleteCategory E cid = 
     run_unbound (new_member_delete cid) (\<lambda>r. bindE (PromptCategoryDelete E (obj_ID r) (md_LibraryID r)) (\<lambda>_. ret ok_answer))"

subsection \<open>One-time passwords\<close>

text \<open>The two answers of a check, in UTF-8.\<close>

definition otp_verified :: "string" where
  "otp_verified = utf8 [233,170,140,232,175,129,230,136,144,229,138,159]"

definition otp_refused :: "string" where
  "otp_refused = utf8 [233,170,140,232,175,129,229,164,177,232,180,165]"

definition auth_OTPGenerateOrGet :: "gin \<Rightarrow> env \<Rightarrow> (nat \<Rightarrow> string list) \<Rightarrow> string \<Rightarrow> string m" where
  "auth_OTPGenerateOrGet G E codes q = 
     run_bound (gb_user_id G) q [] (\<lambda>uid. bindE (UserOTPGetOrAdd E codes uid) (\<lambda>url. lift_sum (gb_qrcode G url)))"

text \<open>The first check; then, if it fails, the one in a window around now, whose error is answered as a bad request.\<close>

definition auth_OTPValidate :: "gin \<Rightarrow> string \<Rightarrow> (string + string) m" where
  "auth_OTPValidate G body = 
     run_bound (gb_otp_validate G) body \<lparr>ov_UserID = [], ov_OTP = []\<rparr> (\<lambda>r.
       bindE (UserOTPGet (ov_UserID r)) (\<lambda>u.
       let (valid, again) = gb_totp G (ov_OTP r) (uo_Secret u)
       in ret (if valid then Inr otp_verified
               else (case again of Inl msg \<Rightarrow> Inl msg | Inr b \<Rightarrow> Inr (if b then otp_verified else otp_refused)))))"

end
