(* ===== verification/Routes.thy ===== *)
theory Routes
  imports Controllers
begin

text \<open>
  The table of routes of \<open>internal/apiserver/route.go\<close> and what a request does: the six controllers put
  together. The endpoints that the server framework adds outside \<open>/api/v1\<close> are not in the table.
\<close>

subsection \<open>Handlers\<close>

text \<open>One constructor per handler and controller, with the path parameters that it reads.\<close>

datatype platform_handler =
    P_Me
  | P_ListProviderPresets
  | P_InstallProviderPreset string
  | P_ListProviders
  | P_CreateProvider
  | P_UpdateProvider string
  | P_DeleteProvider string
  | P_TestProvider string
  | P_ListProviderModels string
  | P_CreateProviderModel string
  | P_SyncProviderModels string
  | P_UpdateProviderModel string string
  | P_DeleteProviderModel string string
  | P_GetSystemLLMConfig
  | P_PutSystemLLMConfig
  | P_ListStorageBackends
  | P_CreateStorageBackend
  | P_UpdateStorageBackend string
  | P_ListAssets
  | P_UploadAsset
  | P_InitAssetChunkUpload
  | P_UploadAssetChunk string string
  | P_CompleteAssetChunkUpload string
  | P_CancelAssetChunkUpload string
  | P_SearchAssets
  | P_ParseAssetSearch
  | P_GetAsset string
  | P_UpdateAsset string
  | P_DeleteAsset string
  | P_GetAssetContent string
  | P_GetAssetThumbnail string
  | P_CreateAssetGroup
  | P_DownloadCanvasAssets
  | P_RegisterCanvasOutput
  | P_ListTasks
  | P_CreateTask
  | P_GetTask string
  | P_CancelTask string
  | P_TaskEvents string
  | P_RunCanvas string
  | P_RunCanvasNode string string
  | P_GetCanvasRun string
  | P_CancelCanvasRun string

datatype auth_handler =
    U_OTPGenerateOrGet
  | U_OTPValidate
  | U_SpSsoSamlInitiator
  | U_SpSsoSamlAcs
  | U_SpSsoSamlSLO
  | U_IdpServeSAMLProtocolSSO

datatype setting_handler =
    S_IdentityProviderSAMLMetadataUpsert
  | S_IdentityProviderSAMLMetadataGet
  | S_IdentityProviderSAMLMetadataDownload
  | S_ServiceProviderSAMLMetadataUpsert
  | S_ServiceProviderSAMLMetadataGet
  | S_ServiceProviderSAMLMetadataDownload
  | S_IdentityProviderAdd
  | S_IdentityProviderDelete
  | S_IdentityProviderUpdate
  | S_IdentityProviderGet
  | S_IdentityProviderList
  | S_ServiceProviderAdd
  | S_ServiceProviderDelete
  | S_ServiceProviderUpdate
  | S_ServiceProviderGet
  | S_ServiceProviderRedirectURL
  | S_ServiceProviderList

datatype asset_handler =
    A_ListLibraries
  | A_CreateLibrary
  | A_UpdateLibrary string
  | A_DeleteLibrary string
  | A_ListCategories
  | A_CreateCategory
  | A_UpdateCategory string
  | A_DeleteCategory string
  | A_ListItems
  | A_CreateItem
  | A_BatchCreateItems
  | A_UpdateItem string
  | A_DeleteItem string
  | A_BatchDeleteItems
  | A_BatchMoveItems
  | A_ClassifyItems

datatype prompt_handler =
    Q_ListLibraries
  | Q_CreateLibrary
  | Q_UpdateLibrary string
  | Q_DeleteLibrary string
  | Q_CreateItem
  | Q_UpdateItem string
  | Q_DeleteItem string
  | Q_BatchDeleteItems
  | Q_CreateCategory
  | Q_UpdateCategory string
  | Q_DeleteCategory string

datatype canvas_handler =
    C_ListCanvases
  | C_ListTrash
  | C_CreateCanvas
  | C_ImportCanvas
  | C_GetCanvas string
  | C_ExportCanvas string
  | C_UpdateCanvasMeta string
  | C_GetCanvasMeta string
  | C_SaveCanvas string
  | C_ExportWorkflow string
  | C_ImportWorkflow string
  | C_ExportWorkflowPackage string
  | C_ImportWorkflowPackage string
  | C_TouchCanvas string
  | C_DeleteCanvas string
  | C_RestoreCanvas string
  | C_PurgeCanvas string
  | C_ListProjects
  | C_CreateProject
  | C_UpdateProject string
  | C_DeleteProject string

datatype handler =
    Platform platform_handler
  | Auth auth_handler
  | Setting setting_handler
  | Asset asset_handler
  | Prompt prompt_handler
  | Canvas canvas_handler

text \<open>A route: the method, the segments after \<open>/api/v1\<close> (a literal or a parameter), and the handler of the values of the parameters.\<close>

datatype seg = Lit string | Par

type_synonym route = "string \<times> seg list \<times> (string list \<Rightarrow> handler)"

type_synonym router = "route list \<Rightarrow> string \<Rightarrow> string \<Rightarrow> handler option"

text \<open>
  What the handlers of sign-on take from gin: the bound requests, the value of the context named \<open>RelayState\<close> and its decoding, the user of the
  token and of the session, and the raw query string; backup codes and random bytes; and the route that gin finds for a method and a path.
\<close>

record http = gin +
  gb_metadata :: "string \<Rightarrow> err + metadata_request"
  gb_idp :: "string \<Rightarrow> err + identity_provider"
  gb_sp :: "string \<Rightarrow> err + service_provider"
  gb_sso_list :: "string \<Rightarrow> err + basic_query \<times> string"
  gb_initiator :: "string \<Rightarrow> err + initiator_request"
  gb_answer :: "string \<Rightarrow> err + answer_request"
  gb_relay_state :: "string \<Rightarrow> string"
  gb_relay_json :: "string \<Rightarrow> initiator_request option"
  gb_current_user :: "string \<Rightarrow> user option"
  gb_token_user :: "string \<Rightarrow> string option"
  gb_query_string :: "string \<Rightarrow> string"
  gb_random :: "string \<Rightarrow> string"
  gb_codes :: "nat \<Rightarrow> string list"
  gb_router :: router

text \<open>What each handler does with the payload.\<close>

fun platform_run :: "gin \<Rightarrow> env \<Rightarrow> chunk_config \<Rightarrow> string \<Rightarrow> platform_handler \<Rightarrow> unit m" where
  "platform_run G E c payload P_Me = done_with platform_Me"
| "platform_run G E c payload P_ListProviderPresets = done_with platform_ListProviderPresets"
| "platform_run G E c payload (P_InstallProviderPreset key) = done_with (platform_InstallProviderPreset E key)"
| "platform_run G E c payload P_ListProviders = done_with (platform_ListProviders G E payload)"
| "platform_run G E c payload P_CreateProvider = done_with (platform_CreateProvider G E payload)"
| "platform_run G E c payload (P_UpdateProvider pid) = done_with (platform_UpdateProvider G pid payload)"
| "platform_run G E c payload (P_DeleteProvider pid) = done_with (platform_DeleteProvider pid)"
| "platform_run G E c payload (P_TestProvider pid) = done_with (platform_TestProvider G E pid payload)"
| "platform_run G E c payload (P_ListProviderModels pid) = done_with (platform_ListProviderModels G E pid payload)"
| "platform_run G E c payload (P_CreateProviderModel pid) = done_with (platform_CreateProviderModel G E pid payload)"
| "platform_run G E c payload (P_SyncProviderModels pid) = done_with (platform_SyncProviderModels G E pid payload)"
| "platform_run G E c payload (P_UpdateProviderModel pid mid) = done_with (platform_UpdateProviderModel G E pid mid payload)"
| "platform_run G E c payload (P_DeleteProviderModel pid mid) = done_with (platform_DeleteProviderModel pid mid)"
| "platform_run G E c payload P_GetSystemLLMConfig = done_with platform_GetSystemLLMConfig"
| "platform_run G E c payload P_PutSystemLLMConfig = done_with (platform_PutSystemLLMConfig G E payload)"
| "platform_run G E c payload P_ListStorageBackends = done_with (platform_ListStorageBackends G E payload)"
| "platform_run G E c payload P_CreateStorageBackend = done_with (platform_CreateStorageBackend G E payload)"
| "platform_run G E c payload (P_UpdateStorageBackend bid) = done_with (platform_UpdateStorageBackend G E bid payload)"
| "platform_run G E c payload P_ListAssets = done_with (platform_ListAssets G E payload)"
| "platform_run G E c payload P_UploadAsset = done_with (platform_UploadAsset G E payload)"
| "platform_run G E c payload P_InitAssetChunkUpload = done_with (platform_InitAssetChunkUpload G E c payload)"
| "platform_run G E c payload (P_UploadAssetChunk checksum index) = done_with (platform_UploadAssetChunk E c checksum index payload)"
| "platform_run G E c payload (P_CompleteAssetChunkUpload checksum) = done_with (platform_CompleteAssetChunkUpload G E c checksum payload)"
| "platform_run G E c payload (P_CancelAssetChunkUpload checksum) = done_with (platform_CancelAssetChunkUpload E c checksum)"
| "platform_run G E c payload P_SearchAssets = done_with (platform_SearchAssets G E payload)"
| "platform_run G E c payload P_ParseAssetSearch = done_with (platform_ParseAssetSearch G E payload)"
| "platform_run G E c payload (P_GetAsset aid) = done_with (platform_GetAsset aid)"
| "platform_run G E c payload (P_UpdateAsset aid) = done_with (platform_UpdateAsset G E aid payload)"
| "platform_run G E c payload (P_DeleteAsset aid) = done_with (platform_DeleteAsset E aid)"
| "platform_run G E c payload (P_GetAssetContent aid) = done_with (platform_GetAssetContent E aid)"
| "platform_run G E c payload (P_GetAssetThumbnail aid) = done_with (platform_GetAssetThumbnail E aid)"
| "platform_run G E c payload P_CreateAssetGroup = done_with (platform_CreateAssetGroup G E payload)"
| "platform_run G E c payload P_DownloadCanvasAssets = done_with (platform_DownloadCanvasAssets G E payload)"
| "platform_run G E c payload P_RegisterCanvasOutput = done_with (platform_RegisterCanvasOutput G E payload)"
| "platform_run G E c payload P_ListTasks = done_with (platform_ListTasks G E payload)"
| "platform_run G E c payload P_CreateTask = done_with (platform_CreateTask G E payload)"
| "platform_run G E c payload (P_GetTask tid) = done_with (platform_GetTask tid)"
| "platform_run G E c payload (P_CancelTask tid) = done_with (platform_CancelTask tid)"
| "platform_run G E c payload (P_TaskEvents tid) = done_with (platform_TaskEvents tid)"
| "platform_run G E c payload (P_RunCanvas cid) = done_with (RunCanvas E cid)"
| "platform_run G E c payload (P_RunCanvasNode cid nid) = done_with (platform_RunCanvasNode G E cid nid payload)"
| "platform_run G E c payload (P_GetCanvasRun tid) = done_with (platform_GetCanvasRun tid)"
| "platform_run G E c payload (P_CancelCanvasRun tid) = done_with (platform_CancelCanvasRun tid)"

fun asset_run :: "gin \<Rightarrow> env \<Rightarrow> string \<Rightarrow> asset_handler \<Rightarrow> unit m" where
  "asset_run G E payload A_ListLibraries = done_with (asset_ListLibraries G E payload)"
| "asset_run G E payload A_CreateLibrary = done_with (asset_CreateLibrary G E payload)"
| "asset_run G E payload (A_UpdateLibrary lid) = done_with (asset_UpdateLibrary G E lid payload)"
| "asset_run G E payload (A_DeleteLibrary lid) = done_with (asset_DeleteLibrary E lid)"
| "asset_run G E payload A_ListCategories = done_with (asset_ListCategories G E payload)"
| "asset_run G E payload A_CreateCategory = done_with (asset_CreateCategory G E payload)"
| "asset_run G E payload (A_UpdateCategory cid) = done_with (asset_UpdateCategory G E cid payload)"
| "asset_run G E payload (A_DeleteCategory cid) = done_with (asset_DeleteCategory cid)"
| "asset_run G E payload A_ListItems = done_with (asset_ListItems G E payload)"
| "asset_run G E payload A_CreateItem = done_with (asset_CreateItem G E payload)"
| "asset_run G E payload A_BatchCreateItems = done_with (asset_BatchCreateItems G E payload)"
| "asset_run G E payload (A_UpdateItem iid) = done_with (asset_UpdateItem G E iid payload)"
| "asset_run G E payload (A_DeleteItem iid) = done_with (asset_DeleteItem iid)"
| "asset_run G E payload A_BatchDeleteItems = done_with (asset_BatchDeleteItems G payload)"
| "asset_run G E payload A_BatchMoveItems = done_with (asset_BatchMoveItems G E payload)"
| "asset_run G E payload A_ClassifyItems = done_with (asset_ClassifyItems G payload)"

fun prompt_run :: "gin \<Rightarrow> env \<Rightarrow> string \<Rightarrow> prompt_handler \<Rightarrow> unit m" where
  "prompt_run G E payload Q_ListLibraries = done_with prompt_ListLibraries"
| "prompt_run G E payload Q_CreateLibrary = done_with (prompt_CreateLibrary G E payload)"
| "prompt_run G E payload (Q_UpdateLibrary lid) = done_with (prompt_UpdateLibrary G E lid payload)"
| "prompt_run G E payload (Q_DeleteLibrary lid) = done_with (prompt_DeleteLibrary lid)"
| "prompt_run G E payload Q_CreateItem = done_with (prompt_CreateItem G E payload)"
| "prompt_run G E payload (Q_UpdateItem iid) = done_with (prompt_UpdateItem G E iid payload)"
| "prompt_run G E payload (Q_DeleteItem iid) = done_with (prompt_DeleteItem iid)"
| "prompt_run G E payload Q_BatchDeleteItems = done_with (prompt_BatchDeleteItems G payload)"
| "prompt_run G E payload Q_CreateCategory = done_with (prompt_CreateCategory G E payload)"
| "prompt_run G E payload (Q_UpdateCategory cid) = done_with (prompt_UpdateCategory G E cid payload)"
| "prompt_run G E payload (Q_DeleteCategory cid) = done_with (prompt_DeleteCategory E cid)"

fun canvas_run :: "gin \<Rightarrow> env \<Rightarrow> string \<Rightarrow> canvas_handler \<Rightarrow> unit m" where
  "canvas_run G E payload C_ListCanvases = done_with (canvas_ListCanvases E)"
| "canvas_run G E payload C_ListTrash = done_with canvas_ListTrash"
| "canvas_run G E payload C_CreateCanvas = done_with (canvas_CreateCanvas G E payload)"
| "canvas_run G E payload C_ImportCanvas = done_with (canvas_ImportCanvas G E payload)"
| "canvas_run G E payload (C_GetCanvas cid) = done_with (canvas_GetCanvas cid)"
| "canvas_run G E payload (C_ExportCanvas cid) = done_with (canvas_ExportCanvas cid)"
| "canvas_run G E payload (C_UpdateCanvasMeta cid) = done_with (canvas_UpdateCanvasMeta G E cid payload)"
| "canvas_run G E payload (C_GetCanvasMeta cid) = done_with (canvas_GetCanvasMeta cid)"
| "canvas_run G E payload (C_SaveCanvas cid) = done_with (canvas_SaveCanvas G E cid payload)"
| "canvas_run G E payload (C_ExportWorkflow cid) = done_with (canvas_ExportWorkflow G cid payload)"
| "canvas_run G E payload (C_ImportWorkflow cid) = done_with (canvas_ImportWorkflow G E cid payload)"
| "canvas_run G E payload (C_ExportWorkflowPackage cid) = done_with (canvas_ExportWorkflowPackage G E cid payload)"
| "canvas_run G E payload (C_ImportWorkflowPackage cid) = done_with (canvas_ImportWorkflowPackage G E cid payload)"
| "canvas_run G E payload (C_TouchCanvas cid) = done_with (canvas_TouchCanvas E cid)"
| "canvas_run G E payload (C_DeleteCanvas cid) = done_with (canvas_DeleteCanvas E cid)"
| "canvas_run G E payload (C_RestoreCanvas cid) = done_with (canvas_RestoreCanvas E cid)"
| "canvas_run G E payload (C_PurgeCanvas cid) = done_with (canvas_PurgeCanvas cid)"
| "canvas_run G E payload C_ListProjects = done_with (canvas_ListProjects E)"
| "canvas_run G E payload C_CreateProject = done_with (canvas_CreateProject G E payload)"
| "canvas_run G E payload (C_UpdateProject pid) = done_with (canvas_UpdateProject G E pid payload)"
| "canvas_run G E payload (C_DeleteProject pid) = done_with (canvas_DeleteProject E pid)"

fun setting_call_of :: "http \<Rightarrow> string \<Rightarrow> setting_handler \<Rightarrow> setting_call" where
  "setting_call_of G payload S_IdentityProviderSAMLMetadataUpsert = IdpMetadataUpsert (gb_metadata G payload)"
| "setting_call_of G payload S_IdentityProviderSAMLMetadataGet = IdpMetadataGet"
| "setting_call_of G payload S_IdentityProviderSAMLMetadataDownload = IdpMetadataDownload"
| "setting_call_of G payload S_ServiceProviderSAMLMetadataUpsert = SpMetadataUpsert (gb_metadata G payload)"
| "setting_call_of G payload S_ServiceProviderSAMLMetadataGet = SpMetadataGet"
| "setting_call_of G payload S_ServiceProviderSAMLMetadataDownload = SpMetadataDownload"
| "setting_call_of G payload S_IdentityProviderAdd = IdpAdd (gb_idp G payload)"
| "setting_call_of G payload S_IdentityProviderDelete = IdpDelete (gb_idp G payload)"
| "setting_call_of G payload S_IdentityProviderUpdate = IdpUpdate (gb_idp G payload)"
| "setting_call_of G payload S_IdentityProviderGet = IdpGet (gb_idp G payload)"
| "setting_call_of G payload S_IdentityProviderList = IdpList (gb_sso_list G payload)"
| "setting_call_of G payload S_ServiceProviderAdd = SpAddCall (gb_sp G payload)"
| "setting_call_of G payload S_ServiceProviderDelete = SpDeleteCall (gb_sp G payload)"
| "setting_call_of G payload S_ServiceProviderUpdate = SpUpdateCall (gb_sp G payload)"
| "setting_call_of G payload S_ServiceProviderGet = SpGetCall (gb_sp G payload)"
| "setting_call_of G payload S_ServiceProviderRedirectURL = SpRedirectURL (gb_sp G payload)"
| "setting_call_of G payload S_ServiceProviderList = SpListCall (gb_sso_list G payload)"

fun auth_run :: "http \<Rightarrow> saml \<Rightarrow> env \<Rightarrow> string \<Rightarrow> auth_handler \<Rightarrow> unit m" where
  "auth_run G L E payload U_OTPGenerateOrGet = done_with (auth_OTPGenerateOrGet (gin.truncate G) E (gb_codes G) payload)"
| "auth_run G L E payload U_OTPValidate = done_with (auth_OTPValidate (gin.truncate G) payload)"
| "auth_run G L E payload U_SpSsoSamlInitiator = done_with (SpSsoSamlInitiator L (gb_initiator G payload))"
| "auth_run G L E payload U_SpSsoSamlAcs = done_with (SpSsoSamlAcs L E (gb_random G payload) (gb_relay_json G) (gb_relay_state G payload))"
| "auth_run G L E payload U_SpSsoSamlSLO = done_with (SpSsoSamlSLO L (gb_current_user G payload))"
| "auth_run G L E payload U_IdpServeSAMLProtocolSSO = done_with (IdpServeSAMLProtocolSSO L E (gb_random G payload) (gb_token_user G payload) (gb_query_string G payload) (gb_answer G payload))"

fun handle :: "http \<Rightarrow> saml \<Rightarrow> env \<Rightarrow> chunk_config \<Rightarrow> string \<Rightarrow> handler \<Rightarrow> unit m" where
  "handle G L E c payload (Platform h) = platform_run (gin.truncate G) E c payload h"
| "handle G L E c payload (Auth h) = auth_run G L E payload h"
| "handle G L E c payload (Setting h) = setting_route L E (setting_call_of G payload h)"
| "handle G L E c payload (Asset h) = asset_run (gin.truncate G) E payload h"
| "handle G L E c payload (Prompt h) = prompt_run (gin.truncate G) E payload h"
| "handle G L E c payload (Canvas h) = canvas_run (gin.truncate G) E payload h"

subsection \<open>The routes\<close>

definition installPlatformApis :: "route list" where
  "installPlatformApis =
    [(''GET'', [Lit ''me''], \<lambda>_. Platform P_Me),
     (''GET'', [Lit ''provider-presets''], \<lambda>_. Platform P_ListProviderPresets),
     (''POST'', [Lit ''provider-presets'', Par, Lit ''install''], \<lambda>ps. Platform (P_InstallProviderPreset (ps ! 0))),
     (''GET'', [Lit ''providers''], \<lambda>_. Platform P_ListProviders),
     (''POST'', [Lit ''providers''], \<lambda>_. Platform P_CreateProvider),
     (''PATCH'', [Lit ''providers'', Par], \<lambda>ps. Platform (P_UpdateProvider (ps ! 0))),
     (''DELETE'', [Lit ''providers'', Par], \<lambda>ps. Platform (P_DeleteProvider (ps ! 0))),
     (''POST'', [Lit ''providers'', Par, Lit ''test''], \<lambda>ps. Platform (P_TestProvider (ps ! 0))),
     (''GET'', [Lit ''providers'', Par, Lit ''models''], \<lambda>ps. Platform (P_ListProviderModels (ps ! 0))),
     (''POST'', [Lit ''providers'', Par, Lit ''models''], \<lambda>ps. Platform (P_CreateProviderModel (ps ! 0))),
     (''POST'', [Lit ''providers'', Par, Lit ''models'', Lit ''sync''], \<lambda>ps. Platform (P_SyncProviderModels (ps ! 0))),
     (''PATCH'', [Lit ''providers'', Par, Lit ''models'', Par], \<lambda>ps. Platform (P_UpdateProviderModel (ps ! 0) (ps ! 1))),
     (''DELETE'', [Lit ''providers'', Par, Lit ''models'', Par], \<lambda>ps. Platform (P_DeleteProviderModel (ps ! 0) (ps ! 1))),
     (''GET'', [Lit ''system-llm-config''], \<lambda>_. Platform P_GetSystemLLMConfig),
     (''PUT'', [Lit ''system-llm-config''], \<lambda>_. Platform P_PutSystemLLMConfig),
     (''GET'', [Lit ''storage-backends''], \<lambda>_. Platform P_ListStorageBackends),
     (''POST'', [Lit ''storage-backends''], \<lambda>_. Platform P_CreateStorageBackend),
     (''PATCH'', [Lit ''storage-backends'', Par], \<lambda>ps. Platform (P_UpdateStorageBackend (ps ! 0))),
     (''GET'', [Lit ''assets''], \<lambda>_. Platform P_ListAssets),
     (''POST'', [Lit ''assets'', Lit ''upload''], \<lambda>_. Platform P_UploadAsset),
     (''POST'', [Lit ''assets'', Lit ''uploads'', Lit ''chunks'', Lit ''init''], \<lambda>_. Platform P_InitAssetChunkUpload),
     (''PUT'', [Lit ''assets'', Lit ''uploads'', Lit ''chunks'', Par, Par], \<lambda>ps. Platform (P_UploadAssetChunk (ps ! 0) (ps ! 1))),
     (''POST'', [Lit ''assets'', Lit ''uploads'', Lit ''chunks'', Par, Lit ''complete''], \<lambda>ps. Platform (P_CompleteAssetChunkUpload (ps ! 0))),
     (''DELETE'', [Lit ''assets'', Lit ''uploads'', Lit ''chunks'', Par], \<lambda>ps. Platform (P_CancelAssetChunkUpload (ps ! 0))),
     (''POST'', [Lit ''assets'', Lit ''search''], \<lambda>_. Platform P_SearchAssets),
     (''POST'', [Lit ''assets'', Lit ''search'', Lit ''parse''], \<lambda>_. Platform P_ParseAssetSearch),
     (''GET'', [Lit ''assets'', Par], \<lambda>ps. Platform (P_GetAsset (ps ! 0))),
     (''PATCH'', [Lit ''assets'', Par], \<lambda>ps. Platform (P_UpdateAsset (ps ! 0))),
     (''DELETE'', [Lit ''assets'', Par], \<lambda>ps. Platform (P_DeleteAsset (ps ! 0))),
     (''GET'', [Lit ''assets'', Par, Lit ''content''], \<lambda>ps. Platform (P_GetAssetContent (ps ! 0))),
     (''GET'', [Lit ''assets'', Par, Lit ''thumbnail''], \<lambda>ps. Platform (P_GetAssetThumbnail (ps ! 0))),
     (''POST'', [Lit ''asset-groups''], \<lambda>_. Platform P_CreateAssetGroup),
     (''POST'', [Lit ''canvas-assets'', Lit ''download''], \<lambda>_. Platform P_DownloadCanvasAssets),
     (''POST'', [Lit ''canvas-assets'', Lit ''check''], \<lambda>_. Platform P_SearchAssets),
     (''POST'', [Lit ''canvas-assets'', Lit ''register-output''], \<lambda>_. Platform P_RegisterCanvasOutput),
     (''GET'', [Lit ''tasks''], \<lambda>_. Platform P_ListTasks),
     (''POST'', [Lit ''tasks''], \<lambda>_. Platform P_CreateTask),
     (''GET'', [Lit ''tasks'', Par], \<lambda>ps. Platform (P_GetTask (ps ! 0))),
     (''POST'', [Lit ''tasks'', Par, Lit ''cancel''], \<lambda>ps. Platform (P_CancelTask (ps ! 0))),
     (''GET'', [Lit ''tasks'', Par, Lit ''events''], \<lambda>ps. Platform (P_TaskEvents (ps ! 0))),
     (''POST'', [Lit ''canvases'', Par, Lit ''run''], \<lambda>ps. Platform (P_RunCanvas (ps ! 0))),
     (''POST'', [Lit ''canvases'', Par, Lit ''nodes'', Par, Lit ''run''], \<lambda>ps. Platform (P_RunCanvasNode (ps ! 0) (ps ! 1))),
     (''GET'', [Lit ''canvases'', Par, Lit ''runs'', Par], \<lambda>ps. Platform (P_GetCanvasRun (ps ! 1))),
     (''POST'', [Lit ''canvases'', Par, Lit ''runs'', Par, Lit ''cancel''], \<lambda>ps. Platform (P_CancelCanvasRun (ps ! 1)))]"

definition installAuthApis :: "route list" where
  "installAuthApis =
    [(''GET'', [Lit ''auth'', Lit ''otp'', Lit ''qrcode''], \<lambda>_. Auth U_OTPGenerateOrGet),
     (''POST'', [Lit ''auth'', Lit ''otp'', Lit ''validate''], \<lambda>_. Auth U_OTPValidate),
     (''GET'', [Lit ''auth'', Lit ''sso'', Lit ''sp'', Lit ''saml'', Lit ''metadata''], \<lambda>_. Auth U_SpSsoSamlInitiator),
     (''POST'', [Lit ''auth'', Lit ''sso'', Lit ''sp'', Lit ''saml'', Lit ''initiator''], \<lambda>_. Auth U_SpSsoSamlInitiator),
     (''POST'', [Lit ''auth'', Lit ''sso'', Lit ''sp'', Lit ''saml'', Lit ''acs''], \<lambda>_. Auth U_SpSsoSamlAcs),
     (''POST'', [Lit ''auth'', Lit ''sso'', Lit ''sp'', Lit ''saml'', Lit ''slo''], \<lambda>_. Auth U_SpSsoSamlSLO),
     (''POST'', [Lit ''auth'', Lit ''sso'', Lit ''idp'', Lit ''saml'', Lit ''answer''], \<lambda>_. Auth U_IdpServeSAMLProtocolSSO)]"

definition InstallSettingApis :: "route list" where
  "InstallSettingApis =
    [(''POST'', [Lit ''setting'', Lit ''sso'', Lit ''saml'', Lit ''idp'', Lit ''metadata'', Lit ''upsert''], \<lambda>_. Setting S_IdentityProviderSAMLMetadataUpsert),
     (''GET'', [Lit ''setting'', Lit ''sso'', Lit ''saml'', Lit ''idp'', Lit ''metadata'', Lit ''get''], \<lambda>_. Setting S_IdentityProviderSAMLMetadataGet),
     (''GET'', [Lit ''setting'', Lit ''sso'', Lit ''saml'', Lit ''idp'', Lit ''metadata'', Lit ''download''], \<lambda>_. Setting S_IdentityProviderSAMLMetadataDownload),
     (''POST'', [Lit ''setting'', Lit ''sso'', Lit ''saml'', Lit ''sp'', Lit ''metadata'', Lit ''upsert''], \<lambda>_. Setting S_ServiceProviderSAMLMetadataUpsert),
     (''GET'', [Lit ''setting'', Lit ''sso'', Lit ''saml'', Lit ''sp'', Lit ''metadata'', Lit ''get''], \<lambda>_. Setting S_ServiceProviderSAMLMetadataGet),
     (''GET'', [Lit ''setting'', Lit ''sso'', Lit ''saml'', Lit ''sp'', Lit ''metadata'', Lit ''download''], \<lambda>_. Setting S_ServiceProviderSAMLMetadataDownload),
     (''POST'', [Lit ''setting'', Lit ''sso'', Lit ''app'', Lit ''idp'', Lit ''add''], \<lambda>_. Setting S_IdentityProviderAdd),
     (''POST'', [Lit ''setting'', Lit ''sso'', Lit ''app'', Lit ''idp'', Lit ''delete''], \<lambda>_. Setting S_IdentityProviderDelete),
     (''POST'', [Lit ''setting'', Lit ''sso'', Lit ''app'', Lit ''idp'', Lit ''update''], \<lambda>_. Setting S_IdentityProviderUpdate),
     (''GET'', [Lit ''setting'', Lit ''sso'', Lit ''app'', Lit ''idp'', Lit ''get''], \<lambda>_. Setting S_IdentityProviderGet),
     (''GET'', [Lit ''setting'', Lit ''sso'', Lit ''app'', Lit ''idp'', Lit ''list''], \<lambda>_. Setting S_IdentityProviderList),
     (''POST'', [Lit ''setting'', Lit ''sso'', Lit ''app'', Lit ''sp'', Lit ''add''], \<lambda>_. Setting S_ServiceProviderAdd),
     (''POST'', [Lit ''setting'', Lit ''sso'', Lit ''app'', Lit ''sp'', Lit ''delete''], \<lambda>_. Setting S_ServiceProviderDelete),
     (''POST'', [Lit ''setting'', Lit ''sso'', Lit ''app'', Lit ''sp'', Lit ''update''], \<lambda>_. Setting S_ServiceProviderUpdate),
     (''GET'', [Lit ''setting'', Lit ''sso'', Lit ''app'', Lit ''sp'', Lit ''get''], \<lambda>_. Setting S_ServiceProviderGet),
     (''GET'', [Lit ''setting'', Lit ''sso'', Lit ''app'', Lit ''sp'', Lit ''redirect_url''], \<lambda>_. Setting S_ServiceProviderRedirectURL),
     (''GET'', [Lit ''setting'', Lit ''sso'', Lit ''app'', Lit ''sp'', Lit ''list''], \<lambda>_. Setting S_ServiceProviderList)]"

definition installAssetApis :: "route list" where
  "installAssetApis =
    [(''GET'', [Lit ''asset-library'', Lit ''libraries''], \<lambda>_. Asset A_ListLibraries),
     (''POST'', [Lit ''asset-library'', Lit ''libraries''], \<lambda>_. Asset A_CreateLibrary),
     (''PATCH'', [Lit ''asset-library'', Lit ''libraries'', Par], \<lambda>ps. Asset (A_UpdateLibrary (ps ! 0))),
     (''DELETE'', [Lit ''asset-library'', Lit ''libraries'', Par], \<lambda>ps. Asset (A_DeleteLibrary (ps ! 0))),
     (''GET'', [Lit ''asset-library'', Lit ''categories''], \<lambda>_. Asset A_ListCategories),
     (''POST'', [Lit ''asset-library'', Lit ''categories''], \<lambda>_. Asset A_CreateCategory),
     (''PATCH'', [Lit ''asset-library'', Lit ''categories'', Par], \<lambda>ps. Asset (A_UpdateCategory (ps ! 0))),
     (''DELETE'', [Lit ''asset-library'', Lit ''categories'', Par], \<lambda>ps. Asset (A_DeleteCategory (ps ! 0))),
     (''GET'', [Lit ''asset-library'', Lit ''items''], \<lambda>_. Asset A_ListItems),
     (''POST'', [Lit ''asset-library'', Lit ''items''], \<lambda>_. Asset A_CreateItem),
     (''POST'', [Lit ''asset-library'', Lit ''items'', Lit ''batch''], \<lambda>_. Asset A_BatchCreateItems),
     (''PATCH'', [Lit ''asset-library'', Lit ''items'', Par], \<lambda>ps. Asset (A_UpdateItem (ps ! 0))),
     (''DELETE'', [Lit ''asset-library'', Lit ''items'', Par], \<lambda>ps. Asset (A_DeleteItem (ps ! 0))),
     (''POST'', [Lit ''asset-library'', Lit ''items'', Lit ''delete''], \<lambda>_. Asset A_BatchDeleteItems),
     (''POST'', [Lit ''asset-library'', Lit ''items'', Lit ''move''], \<lambda>_. Asset A_BatchMoveItems),
     (''POST'', [Lit ''asset-library'', Lit ''items'', Lit ''classify''], \<lambda>_. Asset A_ClassifyItems)]"

definition installPromptApis :: "route list" where
  "installPromptApis =
    [(''GET'', [Lit ''prompt-libraries''], \<lambda>_. Prompt Q_ListLibraries),
     (''POST'', [Lit ''prompt-libraries''], \<lambda>_. Prompt Q_CreateLibrary),
     (''PATCH'', [Lit ''prompt-libraries'', Par], \<lambda>ps. Prompt (Q_UpdateLibrary (ps ! 0))),
     (''DELETE'', [Lit ''prompt-libraries'', Par], \<lambda>ps. Prompt (Q_DeleteLibrary (ps ! 0))),
     (''POST'', [Lit ''prompt-libraries'', Lit ''items''], \<lambda>_. Prompt Q_CreateItem),
     (''PATCH'', [Lit ''prompt-libraries'', Lit ''items'', Par], \<lambda>ps. Prompt (Q_UpdateItem (ps ! 0))),
     (''DELETE'', [Lit ''prompt-libraries'', Lit ''items'', Par], \<lambda>ps. Prompt (Q_DeleteItem (ps ! 0))),
     (''POST'', [Lit ''prompt-libraries'', Lit ''items'', Lit ''delete''], \<lambda>_. Prompt Q_BatchDeleteItems),
     (''POST'', [Lit ''prompt-libraries'', Lit ''categories''], \<lambda>_. Prompt Q_CreateCategory),
     (''PATCH'', [Lit ''prompt-libraries'', Lit ''categories'', Par], \<lambda>ps. Prompt (Q_UpdateCategory (ps ! 0))),
     (''DELETE'', [Lit ''prompt-libraries'', Lit ''categories'', Par], \<lambda>ps. Prompt (Q_DeleteCategory (ps ! 0)))]"

definition installCanvasApis :: "route list" where
  "installCanvasApis =
    [(''GET'', [Lit ''canvases''], \<lambda>_. Canvas C_ListCanvases),
     (''GET'', [Lit ''canvases'', Lit ''trash''], \<lambda>_. Canvas C_ListTrash),
     (''POST'', [Lit ''canvases''], \<lambda>_. Canvas C_CreateCanvas),
     (''POST'', [Lit ''canvases'', Lit ''import''], \<lambda>_. Canvas C_ImportCanvas),
     (''GET'', [Lit ''canvases'', Par], \<lambda>ps. Canvas (C_GetCanvas (ps ! 0))),
     (''GET'', [Lit ''canvases'', Par, Lit ''export''], \<lambda>ps. Canvas (C_ExportCanvas (ps ! 0))),
     (''PATCH'', [Lit ''canvases'', Par], \<lambda>ps. Canvas (C_UpdateCanvasMeta (ps ! 0))),
     (''GET'', [Lit ''canvases'', Par, Lit ''meta''], \<lambda>ps. Canvas (C_GetCanvasMeta (ps ! 0))),
     (''POST'', [Lit ''canvases'', Par, Lit ''meta''], \<lambda>ps. Canvas (C_UpdateCanvasMeta (ps ! 0))),
     (''PUT'', [Lit ''canvases'', Par], \<lambda>ps. Canvas (C_SaveCanvas (ps ! 0))),
     (''POST'', [Lit ''canvases'', Par, Lit ''workflows'', Lit ''export''], \<lambda>ps. Canvas (C_ExportWorkflow (ps ! 0))),
     (''POST'', [Lit ''canvases'', Par, Lit ''workflows'', Lit ''import''], \<lambda>ps. Canvas (C_ImportWorkflow (ps ! 0))),
     (''POST'', [Lit ''canvases'', Par, Lit ''workflows'', Lit ''export-package''], \<lambda>ps. Canvas (C_ExportWorkflowPackage (ps ! 0))),
     (''POST'', [Lit ''canvases'', Par, Lit ''workflows'', Lit ''import-package''], \<lambda>ps. Canvas (C_ImportWorkflowPackage (ps ! 0))),
     (''POST'', [Lit ''canvases'', Par, Lit ''touch''], \<lambda>ps. Canvas (C_TouchCanvas (ps ! 0))),
     (''DELETE'', [Lit ''canvases'', Par], \<lambda>ps. Canvas (C_DeleteCanvas (ps ! 0))),
     (''POST'', [Lit ''canvases'', Par, Lit ''restore''], \<lambda>ps. Canvas (C_RestoreCanvas (ps ! 0))),
     (''DELETE'', [Lit ''canvases'', Par, Lit ''purge''], \<lambda>ps. Canvas (C_PurgeCanvas (ps ! 0))),
     (''GET'', [Lit ''projects''], \<lambda>_. Canvas C_ListProjects),
     (''POST'', [Lit ''projects''], \<lambda>_. Canvas C_CreateProject),
     (''POST'', [Lit ''projects'', Par], \<lambda>ps. Canvas (C_UpdateProject (ps ! 0))),
     (''DELETE'', [Lit ''projects'', Par], \<lambda>ps. Canvas (C_DeleteProject (ps ! 0)))]"

definition InstallApis :: "route list" where
  "InstallApis = installPlatformApis @ installAuthApis @ InstallSettingApis @ installAssetApis @ installPromptApis @ installCanvasApis"

subsection \<open>Serving a request\<close>

definition dispatch :: "http \<Rightarrow> string \<Rightarrow> string \<Rightarrow> handler option" where
  "dispatch G verb path = gb_router G InstallApis verb path"

text \<open>A request with a method, a path and a payload. The answer of \<open>NoRoute\<close> is the error that the path is not found.\<close>

definition serve :: "http \<Rightarrow> saml \<Rightarrow> env \<Rightarrow> chunk_config \<Rightarrow> string \<Rightarrow> string \<Rightarrow> string \<Rightarrow> unit m" where
  "serve G L E c verb path payload = (case dispatch G verb path of
     None \<Rightarrow> throw (Status ErrPageNotFound ''Page not found.'' [])
   | Some h \<Rightarrow> handle G L E c payload h)"

subsection \<open>Concrete runs\<close>

text \<open>
  The router of concrete runs: the routes of a method in a tree of segments, where a literal goes before a parameter, a branch without a route is left
  again, and a parameter is a segment that is not empty.
\<close>

definition literals :: "string \<Rightarrow> (seg list \<times> 'h) list \<Rightarrow> (seg list \<times> 'h) list" where
  "literals s rs = List.map_filter (\<lambda>(p, h). case p of Lit l # p' \<Rightarrow> if l = s then Some (p', h) else None | _ \<Rightarrow> None) rs"

definition params :: "(seg list \<times> 'h) list \<Rightarrow> (seg list \<times> 'h) list" where
  "params rs = List.map_filter (\<lambda>(p, h). case p of Par # p' \<Rightarrow> Some (p', h) | _ \<Rightarrow> None) rs"

fun find_route :: "(seg list \<times> (string list \<Rightarrow> 'h)) list \<Rightarrow> string list \<Rightarrow> string list \<Rightarrow> 'h option" where
  "find_route rs [] ps = (case filter (\<lambda>(p, h). p = []) rs of [] \<Rightarrow> None | (p, h) # _ \<Rightarrow> Some (h (rev ps)))"
| "find_route rs (s # ss) ps = (case find_route (literals s rs) ss ps of
     Some h \<Rightarrow> Some h
   | None \<Rightarrow> if s = [] then None else find_route (params rs) ss (s # ps))"

definition of_method :: "string \<Rightarrow> route list \<Rightarrow> (seg list \<times> (string list \<Rightarrow> handler)) list" where
  "of_method verb rs = map snd (filter (\<lambda>r. fst r = verb) rs)"

definition tree_router :: router where
  "tree_router rs verb path = (case Split CHR ''/'' path of
     [] # api # v1 # ss \<Rightarrow> if api = ''api'' \<and> v1 = ''v1'' then find_route (of_method verb rs) ss [] else None
   | _ \<Rightarrow> None)"

text \<open>
  The readers of concrete runs: a body without fields leaves the struct as it is, a new library has the payload as its name, and a struct that
  embeds \<open>ObjectMeta\<close> is refused without an embedded name.
\<close>

definition accepted :: "'r reader" where
  "accepted s r = Inr r"

definition named :: "'x object_meta_scheme reader" where
  "named s r = (if obj_Name r = [] then Inl StoreFailure else Inr r)"

definition sample_http :: http where
  "sample_http = http.make accepted accepted accepted accepted accepted accepted accepted accepted accepted accepted accepted accepted
     (\<lambda>s. Inr (''a.bin'', s)) (\<lambda>_ _. []) accepted accepted accepted accepted accepted accepted accepted accepted
     (\<lambda>s r. Inr (r\<lparr>tr_MaxAttempts := 3\<rparr>)) accepted accepted accepted accepted accepted accepted accepted accepted accepted
     accepted accepted (\<lambda>s _. Inr s) accepted accepted named accepted accepted named accepted accepted accepted accepted accepted accepted
     named accepted accepted Inr (\<lambda>_ _. (False, Inr False)) (\<lambda>_. Inl StoreFailure) (\<lambda>_. Inl StoreFailure)
     (\<lambda>_. Inl StoreFailure) (\<lambda>_. Inl StoreFailure) (\<lambda>_. Inl StoreFailure) (\<lambda>_. Inl StoreFailure) (\<lambda>s. s)
     (\<lambda>_. None) (\<lambda>_. None) (\<lambda>_. None) (\<lambda>s. s) (\<lambda>s. s) (\<lambda>n. replicate n []) tree_router"

end
