(* ===== verification/RouteLaws.thy ===== *)
theory RouteLaws
  imports Routes
begin

text \<open>
  Every route of the table is reached at its address and nothing else is served.
\<close>

subsection \<open>Addresses\<close>

text \<open>The address of a route: its pattern with values for the parameters.\<close>

fun arity :: "seg list \<Rightarrow> nat" where
  "arity [] = 0"
| "arity (Lit l # p) = arity p"
| "arity (Par # p) = Suc (arity p)"

fun fill :: "seg list \<Rightarrow> string list \<Rightarrow> string list" where
  "fill [] ps = []"
| "fill (Lit l # p) ps = l # fill p ps"
| "fill (Par # p) ps = hd ps # fill p (tl ps)"

definition api_path :: "seg list \<Rightarrow> string list \<Rightarrow> string" where
  "api_path p ps = concat (map (\<lambda>s. CHR ''/'' # s) (''api'' # ''v1'' # fill p ps))"

fun lits :: "seg list \<Rightarrow> string list" where
  "lits [] = []"
| "lits (Lit l # p) = l # lits p"
| "lits (Par # p) = lits p"

definition reserved :: "(seg list \<times> 'h) list \<Rightarrow> string list" where
  "reserved rs = concat (map (\<lambda>r. lits (fst r)) rs)"

text \<open>Of two patterns that match the same path the one with the first literal goes before the other.\<close>

fun before :: "seg list \<Rightarrow> seg list \<Rightarrow> bool" where
  "before (Lit _ # p) (Par # q) = True"
| "before (Par # p) (Lit _ # q) = False"
| "before (_ # p) (_ # q) = before p q"
| "before _ _ = True"

definition answers :: "seg list \<Rightarrow> string list \<Rightarrow> string \<Rightarrow> bool" where
  "answers p ps path \<longleftrightarrow> length ps = arity p \<and> (\<forall>x \<in> set ps. x \<noteq> [] \<and> CHR ''/'' \<notin> set x) \<and> path = api_path p ps"

definition clean_routes :: "route list \<Rightarrow> bool" where
  "clean_routes rs \<longleftrightarrow> list_all (\<lambda>r. list_all (\<lambda>l. CHR ''/'' \<notin> set l) (lits (fst (snd r)))) rs"

text \<open>
  What gin documents of its router: a path goes to a route of the method that it matches, with the segments at its parameters, the static route
  before the one with a parameter; and it goes to no route only when it matches none.
\<close>

definition gin_routing :: "router \<Rightarrow> bool" where
  "gin_routing R \<longleftrightarrow> (\<forall>rs verb path. clean_routes rs \<longrightarrow> (case R rs verb path of
     None \<Rightarrow> \<forall>(v, p, h) \<in> set rs. v = verb \<longrightarrow> (\<forall>ps. \<not> answers p ps path)
   | Some x \<Rightarrow> \<exists>p h ps. (verb, p, h) \<in> set rs \<and> answers p ps path \<and> x = h ps \<and>
       (\<forall>(v, q, g) \<in> set rs. v = verb \<longrightarrow> (\<forall>qs. answers q qs path \<longrightarrow> before p q))))"

subsection \<open>The tree\<close>

lemma set_literals: "(q, h) \<in> set (literals s rs) \<longleftrightarrow> (Lit s # q, h) \<in> set rs"
  unfolding literals_def by (induction rs) (auto simp: map_filter_simps split: list.splits seg.splits if_splits)

lemma set_params: "(q, h) \<in> set (params rs) \<longleftrightarrow> (Par # q, h) \<in> set rs"
  unfolding params_def by (induction rs) (auto simp: map_filter_simps split: list.splits seg.splits if_splits)

lemma reserved_mem: "x \<in> set (reserved rs) \<longleftrightarrow> (\<exists>p h. (p, h) \<in> set rs \<and> x \<in> set (lits p))"
  by (auto simp: reserved_def image_iff split_beta) force+

text \<open>Whatever the tree finds is a matching route that goes before every other matching route; it finds nothing only when nothing matches.\<close>

lemma find_route_none: "find_route rs ss acc = None \<Longrightarrow> (p, h) \<in> set rs \<Longrightarrow> length ps = arity p \<Longrightarrow> [] \<notin> set ps \<Longrightarrow> ss \<noteq> fill p ps"
proof (induction rs ss acc arbitrary: p ps rule: find_route.induct)
  case (1 rs acc)
  then have "filter (\<lambda>(p, h). p = []) rs = []" by (auto split: list.splits)
  then have "p \<noteq> []" using 1(2) by (auto simp: filter_empty_conv)
  then show ?case by (cases p rule: lits.cases) auto
next
  case (2 rs s ss acc)
  from 2(3) have lit: "find_route (literals s rs) ss acc = None" by (auto split: option.splits)
  show ?case
  proof (cases p rule: lits.cases)
    case (2 l q)
    have "ss \<noteq> fill q ps" if "l = s"
      by (rule \<open>\<And>p ps. find_route (literals s rs) ss acc = None \<Longrightarrow> (p, h) \<in> set (literals s rs) \<Longrightarrow> length ps = arity p \<Longrightarrow> [] \<notin> set ps \<Longrightarrow> ss \<noteq> fill p ps\<close>[OF lit])
        (use 2 that \<open>(p, h) \<in> set rs\<close> \<open>length ps = arity p\<close> \<open>[] \<notin> set ps\<close> in \<open>simp_all add: set_literals\<close>)
    then show ?thesis using 2 by auto
  next
    case (3 q)
    then obtain x xs where ps: "ps = x # xs" using \<open>length ps = arity p\<close> by (cases ps) auto
    have "ss \<noteq> fill q xs" if "x = s"
    proof -
      have s: "s \<noteq> []" using that ps \<open>[] \<notin> set ps\<close> by auto
      then have "find_route (params rs) ss (s # acc) = None" using lit "2.prems"(1) by simp
      from "2.IH"(2)[OF lit s this] show ?thesis using 3 ps "2.prems"(2-4) by (simp add: set_params)
    qed
    then show ?thesis using 3 ps by auto
  qed simp
qed

lemma find_route_first:
  assumes "find_route rs ss acc = Some x"
  shows "\<exists>p h ps. (p, h) \<in> set rs \<and> length ps = arity p \<and> [] \<notin> set ps \<and> ss = fill p ps \<and> x = h (rev acc @ ps) \<and>
    (\<forall>q g qs. (q, g) \<in> set rs \<longrightarrow> length qs = arity q \<longrightarrow> [] \<notin> set qs \<longrightarrow> ss = fill q qs \<longrightarrow> before p q)"
  using assms
proof (induction rs ss acc rule: find_route.induct)
  case (1 rs ps)
  then obtain p h q where f: "filter (\<lambda>(p, h). p = []) rs = (p, h) # q" and x: "x = h (rev ps)"
    by (auto split: list.splits)
  from f have "(p, h) \<in> set (filter (\<lambda>(p, h). p = []) rs)" by simp
  then have "([], h) \<in> set rs" by auto
  then show ?case using x by (intro exI[of _ "[]"] exI[of _ h]) simp
next
  case (2 rs s ss ps)
  show ?case
  proof (cases "find_route (literals s rs) ss ps")
    case None
    then have s: "s \<noteq> []" and run: "find_route (params rs) ss (s # ps) = Some x" using 2(3) by (auto split: if_splits)
    obtain p h qs where p: "(Par # p, h) \<in> set rs" "length qs = arity p" "[] \<notin> set qs" "ss = fill p qs" "x = h (rev (s # ps) @ qs)"
      and first: "\<And>q g qs. (Par # q, g) \<in> set rs \<Longrightarrow> length qs = arity q \<Longrightarrow> [] \<notin> set qs \<Longrightarrow> ss = fill q qs \<Longrightarrow> before p q"
      using 2(2)[OF None s run] unfolding set_params by blast
    have "before (Par # p) q" if "(q, g) \<in> set rs" "length qs = arity q" "[] \<notin> set qs" "s # ss = fill q qs" for q g qs
    proof (cases q rule: lits.cases)
      case (2 l q')
      then show ?thesis using that find_route_none[OF None, unfolded set_literals, of q' g qs] by auto
    next
      case (3 q')
      then show ?thesis using that first by (cases qs) auto
    qed (use that in simp)
    then show ?thesis using p s by (intro exI[of _ "Par # p"] exI[of _ h] exI[of _ "s # qs"]) auto
  next
    case (Some y)
    then have "find_route (literals s rs) ss ps = Some x" using 2(3) by simp
    from 2(1)[OF this, unfolded set_literals] obtain p h qs where p: "(Lit s # p, h) \<in> set rs" "length qs = arity p" "[] \<notin> set qs" "ss = fill p qs" "x = h (rev ps @ qs)"
      and first: "\<And>q g qs. (Lit s # q, g) \<in> set rs \<Longrightarrow> length qs = arity q \<Longrightarrow> [] \<notin> set qs \<Longrightarrow> ss = fill q qs \<Longrightarrow> before p q"
      by blast
    have "before (Lit s # p) q" if "(q, g) \<in> set rs" "length qs = arity q" "[] \<notin> set qs" "s # ss = fill q qs" for q g qs
      using that first by (cases q rule: lits.cases) auto
    then show ?thesis using p by (intro exI[of _ "Lit s # p"] exI[of _ h] exI[of _ qs]) auto
  qed
qed

subsection \<open>Paths\<close>

lemma Split_parts: "Split c s = x # xs \<Longrightarrow> s = x @ concat (map (Cons c) xs)"
proof (induction s arbitrary: x xs)
  case (Cons a s)
  obtain y ys where y: "Split c s = y # ys" using Split_not_Nil by (meson neq_Nil_conv)
  have s: "s = y @ concat (map (Cons c) ys)" by (rule Cons.IH[OF y])
  show ?case using Cons.prems by (cases "a = c") (simp_all only: Split.simps y if_True if_False list.sel list.inject, auto simp: s)
qed simp

lemma Split_segments: "(\<And>x. x \<in> set xs \<Longrightarrow> c \<notin> set x) \<Longrightarrow> c \<notin> set y \<Longrightarrow> Split c (y @ concat (map (Cons c) xs)) = y # xs"
  by (induction xs arbitrary: y) (simp_all add: Split_id Split_append_sep)

lemma fill_segments: "x \<in> set (fill p ps) \<Longrightarrow> length ps = arity p \<Longrightarrow> x \<in> set (lits p) \<or> x \<in> set ps"
proof (induction p ps rule: fill.induct)
  case (3 p ps)
  then show ?case by (cases ps) auto
qed auto

lemma fill_params: "length ps = arity p \<Longrightarrow> set ps \<subseteq> set (fill p ps)"
proof (induction p ps rule: fill.induct)
  case (3 p ps)
  then show ?case by (cases ps) auto
qed auto

lemma routes_distinct: "distinct (map (\<lambda>r. (fst r, fst (snd r))) InstallApis)"
  by code_simp

lemma routes_clean: "clean_routes InstallApis"
  by code_simp

lemma of_method_mem: "(p, h) \<in> set (of_method verb rs) \<longleftrightarrow> (verb, p, h) \<in> set rs"
  by (force simp: of_method_def)

lemma route_unique: "(v, p, h) \<in> set InstallApis \<Longrightarrow> (v, p, h') \<in> set InstallApis \<Longrightarrow> h = h'"
  using routes_distinct by (force simp: distinct_map inj_on_def)

lemma Split_path:
  assumes "clean_routes rs" "(v, p, h) \<in> set rs" "answers p ps path"
  shows "Split CHR ''/'' path = [] # ''api'' # ''v1'' # fill p ps"
proof -
  have "CHR ''/'' \<notin> set x" if "x \<in> set (fill p ps)" for x
    using fill_segments[OF that] assms by (fastforce simp: clean_routes_def answers_def list_all_iff)
  then have "Split CHR ''/'' ([] @ concat (map (Cons CHR ''/'') (''api'' # ''v1'' # fill p ps))) = [] # ''api'' # ''v1'' # fill p ps"
    by (intro Split_segments) auto
  then show ?thesis using assms(3) by (simp only: answers_def api_path_def append_Nil)
qed

text \<open>The tree of concrete runs is such a router.\<close>

lemma tree_router_laws: "gin_routing tree_router"
  unfolding gin_routing_def
proof (intro allI impI)
  fix rs verb path assume clean: "clean_routes rs"
  have split: "Split CHR ''/'' path = [] # ''api'' # ''v1'' # fill p ps \<and> length ps = arity p \<and> [] \<notin> set ps"
    if "(v, p, h) \<in> set rs" "answers p ps path" for v p h ps
    using Split_path[OF clean that] that(2) by (auto simp: answers_def)
  show "case tree_router rs verb path of
     None \<Rightarrow> \<forall>(v, p, h) \<in> set rs. v = verb \<longrightarrow> (\<forall>ps. \<not> answers p ps path)
   | Some x \<Rightarrow> \<exists>p h ps. (verb, p, h) \<in> set rs \<and> answers p ps path \<and> x = h ps \<and>
       (\<forall>(v, q, g) \<in> set rs. v = verb \<longrightarrow> (\<forall>qs. answers q qs path \<longrightarrow> before p q))"
  proof (cases "tree_router rs verb path")
    case None
    have "\<not> answers p ps path" if m: "(verb, p, h) \<in> set rs" for p h ps
    proof
      assume a: "answers p ps path"
      have "find_route (of_method verb rs) (fill p ps) [] = None" using None split[OF m a] by (simp add: tree_router_def)
      from find_route_none[OF this, of p h ps] show False using m split[OF m a] by (simp add: of_method_mem)
    qed
    then show ?thesis unfolding None option.case by blast
  next
    case (Some x)
    then obtain ss where path: "Split CHR ''/'' path = [] # ''api'' # ''v1'' # ss" and run: "find_route (of_method verb rs) ss [] = Some x"
      by (auto simp: tree_router_def split: list.splits if_splits)
    from find_route_first[OF run, unfolded of_method_mem rev.simps append_Nil] obtain p h ps where p: "(verb, p, h) \<in> set rs" "length ps = arity p" "[] \<notin> set ps" "ss = fill p ps" "x = h ps"
      and first: "\<And>q g qs. (verb, q, g) \<in> set rs \<Longrightarrow> length qs = arity q \<Longrightarrow> [] \<notin> set qs \<Longrightarrow> ss = fill q qs \<Longrightarrow> before p q"
      by blast
    have seg: "CHR ''/'' \<notin> set y" if "y \<in> set ss" for y using Split_no_sep[of y "CHR ''/''" path] that path by simp
    have "answers p ps path"
      using p seg fill_params[OF p(2)] Split_parts[OF path] by (auto simp: answers_def api_path_def)
    moreover have "before p q" if "(verb, q, g) \<in> set rs" "answers q qs path" for q g qs
      using first[of q g qs] split[OF that] that(1) path by simp
    then have "\<forall>(v, q, g) \<in> set rs. v = verb \<longrightarrow> (\<forall>qs. answers q qs path \<longrightarrow> before p q)" by blast
    ultimately show ?thesis unfolding Some option.case using p(1,5) by blast
  qed
qed

subsection \<open>The table\<close>

lemma same_route:
  assumes "before p' p" "fill p ps = fill p' ps'" "length ps = arity p" "length ps' = arity p'" "\<And>x. x \<in> set ps \<Longrightarrow> x \<notin> set (lits p')"
  shows "p = p' \<and> ps = ps'"
  using assms
proof (induction p' arbitrary: p ps ps')
  case Nil
  then show ?case by (cases p rule: lits.cases) auto
next
  case (Cons a p')
  show ?case
  proof (cases p rule: lits.cases)
    case (2 l q)
    then show ?thesis using Cons.prems Cons.IH[of q ps ps'] by (cases a) auto
  next
    case (3 q)
    then show ?thesis using Cons.prems Cons.IH[of q "tl ps" "tl ps'"] by (cases a; cases ps; cases ps') auto
  qed (use Cons.prems in \<open>cases a; simp\<close>)
qed


lemma sample_router [simp]: "gb_router sample_http = tree_router"
  by (simp add: sample_http_def http.make_def)


end
