(* ===== verification/RequestLaws.thy ===== *)
theory RequestLaws
  imports RouteLaws LibraryLaws PromptLaws
begin

text \<open>
  What the binding of requests leaves out. A request with method DELETE is not bound, so the deletion of a category never has the library that the
  service looks for; and a request that embeds \<open>ObjectMeta\<close> beside a \<open>name\<close> of its own leaves the embedded name empty, which gin refuses.
\<close>

subsection \<open>Requests that fail\<close>

definition fails :: "'a m \<Rightarrow> world \<Rightarrow> world \<Rightarrow> bool" where
  "fails m w w' \<longleftrightarrow> (\<exists>e. m w = (Inl e, w'))"

lemma fails_iff: "fails m w w' \<longleftrightarrow> snd (m w) = w' \<and> isl (fst (m w))"
  by (cases "m w") (auto simp: fails_def isl_def)

lemma fails_bindE: "fails m w w' \<Longrightarrow> fails (bindE m f) w w'"
  by (auto simp: fails_def bindE_def)

lemma fails_done_with: "fails m w w' \<Longrightarrow> fails (done_with m) w w'"
  unfolding done_with_def by (rule fails_bindE)

lemma run_unbound_eq: "run_unbound r action = action r"
  by (rule ext) (simp add: run_unbound_def core_Run_def bindE_def lift_sum_def)

lemma run_bound_refused: "\<nexists>r'. rd payload r = Inr r' \<Longrightarrow> fails (run_bound rd payload r action) w w"
  by (cases "rd payload r") (auto simp: fails_def run_bound_def core_Run_def plain_request_def DecodeParameter_def bindE_def lift_sum_def)

lemma triple_fails: "triple I m (\<lambda>_ _. False) R \<Longrightarrow> I w \<Longrightarrow> \<exists>w'. fails m w w' \<and> R w'"
  by (cases "m w"; cases "fst (m w)") (auto simp: fails_def triple_def)

lemma serve_fails: "dispatch G verb path = Some h \<Longrightarrow> fails (handle G L E c payload h) w w' \<Longrightarrow> fails (serve G L E c verb path payload) w w'"
  by (simp add: serve_def fails_def)

subsection \<open>Deleting a category\<close>

lemma asset_category_kept:
  assumes "\<forall>c \<in> set cs. ac_LibraryID c \<noteq> []"
  shows "triple (libs_are ls cs is) (assetCategory_Delete cid []) (\<lambda>_ _. False) (libs_are ls cs is)"
  unfolding assetCategory_Delete_def
proof (rule transaction_triple[OF libs_are_plain(1)], simp add: plain_def, rule triple_bindE)
  let ?is = "filter (\<lambda>i. ai_CategoryID i \<noteq> cid) is"
  show "triple (libs_are ls cs is) (db_delete items_tbl (\<lambda>i. ai_CategoryID i = cid)) (\<lambda>_. libs_are ls cs ?is) (\<lambda>_. True)"
    by (rule items_t.delete_count_triple[OF libs_are_plain(1) libs_are_plain(1)]) (simp_all add: libs_are_def)
  show "triple (libs_are ls cs ?is) (delete_row categories_tbl (\<lambda>c. obj_ID c = cid \<and> ac_LibraryID c = []) ''asset category not found with id %v'' cid)
      (\<lambda>_ _. False) (\<lambda>_. True)"
    by (rule categories_t.delete_row_triple[OF libs_are_plain(1), where Q = "\<lambda>_. False"]) (use assms in \<open>auto simp: libs_are_def plain_def\<close>)
qed

lemma prompt_category_kept:
  assumes "\<forall>c \<in> set cs. pc_LibraryID c \<noteq> []"
  shows "triple (prompts_are cs ps now) (promptCategory_Delete cid []) (\<lambda>_ _. False) (prompts_are cs ps now)"
  unfolding promptCategory_Delete_def
  by (rule transaction_triple[OF prompts_plain(1)], simp add: plain_def,
      rule prompt_categories_t.delete_row_triple[OF prompts_plain(1), where Q = "\<lambda>_. False"])
    (use assms in \<open>auto simp: prompts_are_def plain_def\<close>)

lemma no_library_no_categories: "\<forall>c \<in> set cs. pc_LibraryID c \<noteq> [] \<Longrightarrow> filter (\<lambda>c. pc_LibraryID c = []) cs = []"
  by (simp add: filter_empty_conv)

lemma prompts_are_here: "prompts_are (w_prompt_categories w) (w_prompt_items w) (w_now w) w"
  by (simp add: prompts_are_def)

text \<open>Without a library the service finds no other category, and takes the prompts of the category out of every category.\<close>

lemma prompts_stripped:
  assumes lib: "\<forall>c \<in> set (w_prompt_categories w). pc_LibraryID c \<noteq> []" and h: "healthy w"
  shows "\<exists>w'. fails (PromptCategoryDelete E cid []) w w' \<and>
    prompts_are (w_prompt_categories w) (map (reassigned E (w_now w) cid []) (w_prompt_items w)) (w_now w) w'"
proof -
  let ?w = "w\<lparr>w_prompt_items := map (reassigned E (w_now w) cid []) (w_prompt_items w)\<rparr>"
  have list: "promptCategory_ListByLibrary [] w = (Inr [], w)"
    by (simp add: promptCategory_ListByLibrary_def bindE_def prompt_categories_t.find_healthy[OF h] no_library_no_categories[OF lib])
  have move: "\<exists>n. promptItem_ReassignCategory E cid [] w = (Inr n, ?w)"
    using h by (simp add: promptItem_ReassignCategory_def db_update_def healthy_def bindE_def reassigned_def[abs_def] cong: if_cong)
  obtain w' where w': "fails (promptCategory_Delete cid []) ?w w'"
      "prompts_are (w_prompt_categories w) (map (reassigned E (w_now w) cid []) (w_prompt_items w)) (w_now w) w'"
    using triple_fails[OF prompt_category_kept[OF lib], of _ _ ?w cid] by (auto simp: prompts_are_def)
  then show ?thesis using list move
    by (auto simp: PromptCategoryDelete_def bindE_def fails_def fallback_category_def)
qed

lemma prompt_delete_kept:
  assumes "\<forall>c \<in> set (w_prompt_categories w). pc_LibraryID c \<noteq> []"
  shows "\<exists>w'. fails (PromptCategoryDelete E cid []) w w' \<and> w_prompt_categories w' = w_prompt_categories w"
proof -
  have "triple (prompts_are (w_prompt_categories w) (w_prompt_items w) (w_now w)) (PromptCategoryDelete E cid []) (\<lambda>_ _. False)
      (\<lambda>w'. w_prompt_categories w' = w_prompt_categories w)"
    by (rule triple_mono[OF PromptCategoryDelete_triple[OF refl]]) (use assms in \<open>auto simp: prompts_are_def\<close>)
  from triple_fails[OF this prompts_are_here] show ?thesis .
qed

lemma delete_fields [simp]: "obj_ID (new_member_delete i) = i" "md_LibraryID (new_member_delete i) = []"
  by (simp_all add: new_member_delete_def new_meta_def object_meta.defs member_delete_request.defs)

text \<open>
  C7. No category can be deleted over HTTP. Every category has a library; the request that deletes a category of assets or of prompts always
  fails, whatever the state of the database, and deletes no category, and no item of an asset category either. The one on prompts does harm all
  the same: when the database works, it takes every prompt of the category out of it and leaves them in no category.
\<close>

theorem category_delete_refused:
  assumes "\<forall>c \<in> set (w_categories w). ac_LibraryID c \<noteq> []" and "\<forall>c \<in> set (w_prompt_categories w). pc_LibraryID c \<noteq> []"
  shows "(dispatch G verb path = Some (Asset (A_DeleteCategory cid)) \<longrightarrow>
      (\<exists>w'. fails (serve G L E c verb path payload) w w' \<and> w_categories w' = w_categories w \<and> w_items w' = w_items w)) \<and>
    (dispatch G verb path = Some (Prompt (Q_DeleteCategory cid)) \<longrightarrow>
      (\<exists>w'. fails (serve G L E c verb path payload) w w' \<and> w_prompt_categories w' = w_prompt_categories w \<and>
        (healthy w \<longrightarrow> map (\<lambda>i. (obj_ID i, pi_CategoryID i)) (w_prompt_items w') =
           map (\<lambda>i. (obj_ID i, if pi_CategoryID i = cid then [] else pi_CategoryID i)) (w_prompt_items w))))"
proof (intro conjI impI)
  assume d: "dispatch G verb path = Some (Asset (A_DeleteCategory cid))"
  have "libs_are (w_libraries w) (w_categories w) (w_items w) w" by (simp add: libs_are_def)
  from triple_fails[OF asset_category_kept[OF assms(1)] this] obtain w' where
    w': "fails (AssetCategoryDelete cid []) w w'" "libs_are (w_libraries w) (w_categories w) (w_items w) w'"
    unfolding AssetCategoryDelete_def by blast
  have "fails (handle G L E c payload (Asset (A_DeleteCategory cid))) w w'"
    by (simp add: asset_DeleteCategory_def run_unbound_eq fails_done_with fails_bindE w'(1) delete_fields)
  then have "fails (serve G L E c verb path payload) w w'" by (rule serve_fails[OF d])
  then show "\<exists>w'. fails (serve G L E c verb path payload) w w' \<and> w_categories w' = w_categories w \<and> w_items w' = w_items w"
    using w'(2) by (auto simp: libs_are_def)
next
  assume d: "dispatch G verb path = Some (Prompt (Q_DeleteCategory cid))"
  have to_serve: "fails (serve G L E c verb path payload) w w'" if "fails (PromptCategoryDelete E cid []) w w'" for w'
    by (rule serve_fails[OF d]) (simp add: prompt_DeleteCategory_def run_unbound_eq fails_done_with fails_bindE that delete_fields)
  show "\<exists>w'. fails (serve G L E c verb path payload) w w' \<and> w_prompt_categories w' = w_prompt_categories w \<and>
        (healthy w \<longrightarrow> map (\<lambda>i. (obj_ID i, pi_CategoryID i)) (w_prompt_items w') =
           map (\<lambda>i. (obj_ID i, if pi_CategoryID i = cid then [] else pi_CategoryID i)) (w_prompt_items w))"
  proof (cases "healthy w")
    case True
    from prompts_stripped[OF assms(2) True] to_serve show ?thesis
      by (fastforce simp: prompts_are_def reassigned_def touch_def)
  next
    case False
    from prompt_delete_kept[OF assms(2)] to_serve False show ?thesis by blast
  qed
qed

lemma sample_delete_route: "dispatch sample_http ''DELETE'' ''/api/v1/prompt-libraries/categories/c1'' = Some (Prompt (Q_DeleteCategory ''c1''))"
  by code_simp

lemma category_delete_refused_witness:
  "\<exists>w'. fails (serve sample_http sample_saml sample_env \<lparr>cc_Dir = [], cc_Hours = 1\<rparr> ''DELETE'' ''/api/v1/prompt-libraries/categories/c1'' [])
       prompt_world w' \<and>
     map obj_ID (w_prompt_categories w') = [''c1'', ''c2''] \<and> map pi_CategoryID (w_prompt_items w') = [[]]"
proof -
  have libs: "\<forall>c \<in> set (w_categories prompt_world). ac_LibraryID c \<noteq> []" "\<forall>c \<in> set (w_prompt_categories prompt_world). pc_LibraryID c \<noteq> []"
    by code_simp+
  have h: "healthy prompt_world" by code_simp
  have rows: "map obj_ID (w_prompt_categories prompt_world) = [''c1'', ''c2'']"
      "map (\<lambda>i. (obj_ID i, if pi_CategoryID i = ''c1'' then [] else pi_CategoryID i)) (w_prompt_items prompt_world) = [(''p1'', [])]"
    by code_simp+
  note deleted = conjunct2[OF category_delete_refused[OF libs, where G = sample_http and L = sample_saml and E = sample_env
      and c = "\<lparr>cc_Dir = [], cc_Hours = 1\<rparr>" and payload = "[]"], rule_format, OF sample_delete_route]
  show ?thesis
  proof (rule exE[OF deleted], elim conjE, intro exI conjI)
    fix w' assume cats: "w_prompt_categories w' = w_prompt_categories prompt_world"
      and items: "healthy prompt_world \<longrightarrow> map (\<lambda>i. (obj_ID i, pi_CategoryID i)) (w_prompt_items w') =
         map (\<lambda>i. (obj_ID i, if pi_CategoryID i = ''c1'' then [] else pi_CategoryID i)) (w_prompt_items prompt_world)"
    show "map pi_CategoryID (w_prompt_items w') = [[]]" using mp[OF items h, unfolded rows(2)] by auto
    show "map obj_ID (w_prompt_categories w') = [''c1'', ''c2'']" by (simp only: cats rows(1))
  qed
qed

subsection \<open>Embedded names\<close>

text \<open>The handlers whose requests embed \<open>ObjectMeta\<close> and have a name of their own.\<close>

fun renames :: "handler \<Rightarrow> bool" where
  "renames (Asset (A_UpdateLibrary _)) = True"
| "renames (Asset (A_UpdateCategory _)) = True"
| "renames (Asset (A_UpdateItem _)) = True"
| "renames (Prompt (Q_UpdateLibrary _)) = True"
| "renames (Prompt (Q_UpdateCategory _)) = True"
| "renames (Prompt (Q_UpdateItem _)) = True"
| "renames _ = False"

text \<open>Two facts on a reader: JSON gives a name to the outer field only, and the embedded one is required.\<close>

definition outer_name :: "'x object_meta_scheme reader \<Rightarrow> bool" where
  "outer_name rd \<longleftrightarrow> (\<forall>s r r'. rd s r = Inr r' \<longrightarrow> obj_Name r' = obj_Name r)"

definition name_required :: "'x object_meta_scheme reader \<Rightarrow> bool" where
  "name_required rd \<longleftrightarrow> (\<forall>s r r'. rd s r = Inr r' \<longrightarrow> obj_Name r' \<noteq> [])"

lemma embedded_refused: "outer_name rd \<Longrightarrow> name_required rd \<Longrightarrow> obj_Name r = [] \<Longrightarrow> fails (run_bound rd payload r action) w w"
  unfolding outer_name_def name_required_def by (rule run_bound_refused) metis

lemma new_names [simp]: "obj_Name (new_rename i) = []" "obj_Name (new_member_rename i) = []" "obj_Name (new_prompt_update i) = []"
  by (simp_all add: new_rename_def new_member_rename_def new_prompt_update_def new_meta_def object_meta.defs rename_request.defs
    member_rename_request.defs prompt_update_request.defs)


lemma sample_rename_route: "dispatch sample_http ''PATCH'' ''/api/v1/asset-library/libraries/l1'' = Some (Asset (A_UpdateLibrary ''l1''))"
  by code_simp


end
