(* ===== verification/Frames.thy ===== *)
theory Frames
  imports ProviderLaws LibraryLaws PromptLaws Controllers
begin

text \<open>
  Which state a service touches. An invariant that ignores the tables a group of operations writes is kept by all of them, under every
  schedule of faults; each group is a locale whose assumptions are the tables (and files) it may write.
\<close>

named_theorems frame "rules by which an operation keeps an invariant that ignores what it writes"

subsection \<open>Statements\<close>

definition ignores :: "(world \<Rightarrow> bool) \<Rightarrow> 'r tbl \<Rightarrow> bool" where
  "ignores I t \<longleftrightarrow> plain I \<and> (\<forall>f w. I w \<longrightarrow> I (upd_rows t f w))"

lemma ignoresI: "plain I \<Longrightarrow> (\<And>f w. I w \<Longrightarrow> I (upd_rows t f w)) \<Longrightarrow> ignores I t"
  by (simp add: ignores_def)

lemma ignoresD: "ignores I t \<Longrightarrow> I w \<Longrightarrow> I (upd_rows t f w)"
  by (simp add: ignores_def)

lemma ignores_plain: "ignores I t \<Longrightarrow> plain I"
  by (simp add: ignores_def)

lemma preserves_case_list [frame]:
  "(xs = [] \<Longrightarrow> preserves I m) \<Longrightarrow> (\<And>y ys. xs = y # ys \<Longrightarrow> preserves I (f y ys)) \<Longrightarrow>
   preserves I (case xs of [] \<Rightarrow> m | y # ys \<Rightarrow> f y ys)"
  by (cases xs) simp_all

declare preserves_ret [frame] preserves_throw [frame] preserves_gets [frame] preserves_check [frame] preserves_lift_sum [frame]
  preserves_bindE [frame] preserves_attempt [frame] preserves_if [frame] preserves_case_option [frame] preserves_case_sum [frame]
  preserves_case_prod [frame] preserves_for_each [frame] preserves_map_each [frame] preserves_fold_each [frame]
  stmt_preserves [frame] transaction_preserves [frame] io_preserves [frame]

lemma frame_reads [frame]:
  "plain I \<Longrightarrow> preserves I (db_find t P)" "plain I \<Longrightarrow> preserves I (db_first_by k t P)" "plain I \<Longrightarrow> preserves I (db_first t P)"
  "plain I \<Longrightarrow> preserves I (db_count t P)" "plain I \<Longrightarrow> preserves I (db_page E cols t q)" "plain I \<Longrightarrow> preserves I (db_find_into t r)"
  "plain I \<Longrightarrow> preserves I (CheckExists t P)" "plain I \<Longrightarrow> preserves I (GetByName t n)"
  unfolding db_find_def db_first_def db_first_by_def db_count_def db_page_def db_find_into_def CheckExists_def GetByName_def
  by (intro frame; auto intro: preservesI split: option.split prod.split)+

lemma frame_create [frame]: "ignores I t \<Longrightarrow> preserves I (db_create E d t r)"
proof -
  assume I: "ignores I t"
  have "I (snd (let r' = d (BeforeCreate (e_uuid E (w_uuids w)) (w_now w) r);
       w' = (if obj_ID r = [] then w\<lparr>w_uuids := Suc (w_uuids w)\<rparr> else w)
     in if obj_ID r' \<in> set (map obj_ID (rows t w)) then (Inl StoreFailure, w') else (Inr r', upd_rows t (\<lambda>rs. rs @ [r']) w')))" if "I w" for w
    using that plain_upd(3)[OF ignores_plain[OF I] that] ignoresD[OF I] by (auto simp: Let_def)
  then show ?thesis unfolding db_create_def by (intro stmt_preserves[OF ignores_plain[OF I]] preservesI)
qed

lemma frame_writes [frame]:
  "ignores I t \<Longrightarrow> preserves I (db_save t r)" "ignores I t \<Longrightarrow> preserves I (db_delete t P)" "ignores I t \<Longrightarrow> preserves I (db_replace t r)"
  "ignores I t \<Longrightarrow> preserves I (db_update E t P f)" "ignores I t \<Longrightarrow> preserves I (db_updates t merge i r)"
  unfolding db_save_def db_delete_def db_replace_def db_update_def db_updates_def Let_def
  by (rule stmt_preserves, erule ignores_plain, rule preservesI, simp add: ignoresD)+

lemma create_rows_preserves: "ignores I t \<Longrightarrow> preserves I (create_rows E t rs)"
proof (induction rs)
  case (Cons r rs)
  note I = Cons.prems
  show ?case
  proof (rule preservesI)
    fix w assume w: "I w"
    let ?w = "if obj_ID r = [] then w\<lparr>w_uuids := Suc (w_uuids w)\<rparr> else w"
    have "I ?w" using w plain_upd(3)[OF ignores_plain[OF I] w] by simp
    moreover have "preserves I (bindE (create_rows E t rs) (\<lambda>rs'. ret (x # rs')))" for x
      by (intro preserves_bindE Cons.IH I preserves_ret)
    ultimately show "I (snd (create_rows E t (r # rs) w))"
      using ignoresD[OF I] by (simp add: Let_def preservesD del: if_split)
  qed
qed simp

lemma frame_create_all [frame]:
  assumes I: "ignores I t"
  shows "preserves I (db_create_all E t rs)"
  unfolding db_create_all_def
  by (rule stmt_preserves[OF ignores_plain[OF I]], rule preserves_rollback[OF create_rows_preserves[OF I]])
    (rule plain_upd(3)[OF ignores_plain[OF I]])

lemma fresh_uuid_preserves [frame]: "plain I \<Longrightarrow> preserves I (fresh_uuid E)"
  by (rule preservesI) (simp add: fresh_uuid_def plain_upd(3))

subsection \<open>Files\<close>

definition ignores_files :: "(world \<Rightarrow> bool) \<Rightarrow> bool" where
  "ignores_files I \<longleftrightarrow> plain I \<and> (\<forall>w fs ds. I w \<longrightarrow> I (w\<lparr>w_files := fs, w_dirs := ds\<rparr>))"

lemma file_steps:
  assumes I: "ignores_files I" and w: "I w"
  shows "I (touch_dir d w)" "I (put_file p c w)" "I (drop_file p w)" "I (make_dir p w)" "I (w\<lparr>w_files := fs, w_dirs := ds\<rparr>)"
proof -
  have all: "I (v\<lparr>w_files := fs, w_dirs := ds\<rparr>)" if "I v" for v fs ds using I that by (simp add: ignores_files_def)
  have dirs: "I (v\<lparr>w_dirs := ds\<rparr>)" if "I v" for v ds using all[OF that, where fs = "w_files v" and ds = ds] by simp
  have files: "I (v\<lparr>w_files := fs\<rparr>)" if "I v" for v fs using all[OF that, where fs = fs and ds = "w_dirs v"] by simp
  show "I (touch_dir d w)" "I (put_file p c w)" "I (drop_file p w)" "I (w\<lparr>w_files := fs, w_dirs := ds\<rparr>)"
    unfolding touch_dir_def put_file_def drop_file_def using dirs files all w by blast+
  have "I (touch_dir e v)" if "I v" for e v unfolding touch_dir_def by (rule dirs[OF that])
  then show "I (make_dir p w)" unfolding make_dir_def using dirs w by simp
qed

lemma fold_make_dir: "ignores_files I \<Longrightarrow> I w \<Longrightarrow> I (fold make_dir ps w)"
  by (induction ps arbitrary: w) (simp_all add: file_steps(4))

lemma frame_files [frame]:
  assumes I: "ignores_files I"
  shows "preserves I (os_MkdirAll p)" "preserves I (os_Create p)" "preserves I (os_Append p b)" "preserves I (os_Read p)" "preserves I (os_Open p)"
    "preserves I (os_Copy p q)" "preserves I (os_Rename p q)" "preserves I (os_Remove p)" "preserves I (os_RemoveAll p)" "preserves I (os_Stat p)"
    "preserves I (os_Chtimes p)" "preserves I (os_ReadDir p)"
proof -
  have P: "plain I" using I by (simp add: ignores_files_def)
  note defs = os_MkdirAll_def os_Create_def os_Append_def os_Read_def os_Open_def os_Copy_def os_Rename_def os_Remove_def os_RemoveAll_def
    os_Stat_def os_Chtimes_def os_ReadDir_def
  show "preserves I (os_MkdirAll p)" "preserves I (os_Create p)" "preserves I (os_Append p b)" "preserves I (os_Read p)" "preserves I (os_Open p)"
    "preserves I (os_Copy p q)" "preserves I (os_Rename p q)" "preserves I (os_Remove p)" "preserves I (os_RemoveAll p)" "preserves I (os_Stat p)"
    "preserves I (os_Chtimes p)" "preserves I (os_ReadDir p)"
    unfolding defs by (rule io_preserves[OF P], rule preservesI, simp add: file_steps[OF I] fold_make_dir[OF I] split: option.split)+
qed

subsection \<open>Tasks\<close>

text \<open>The contracts below are about one invariant that ignores faults and transactions.\<close>

locale plain_inv =
  fixes I :: "world \<Rightarrow> bool"
  assumes inv_plain: "plain I"

text \<open>What the other services do to the queue: they add well-formed tasks.\<close>

locale enqueues = plain_inv +
  assumes add_task: "task_ok (task_defaults t) \<Longrightarrow> preserves I (taskStore_Add E t)"
begin

lemma enqueue: "preserves I (enqueueTask E ty inp)"
  unfolding enqueueTask_def by (rule add_task, rule task_ok_defaults) (simp_all add: new_task_def new_meta_def int64_range_def object_meta.defs task.defs)

lemma create: "int64_range (tr_MaxAttempts r) \<Longrightarrow> preserves I (TaskCreate E r)"
  unfolding TaskCreate_def
  by (rule add_task, rule task_ok_defaults) (simp_all add: task_of_request_def new_task_def new_meta_def object_meta.defs task.defs)

end

text \<open>The requests of the queue itself.\<close>

locale queue_writes = enqueues +
  assumes cancel_task: "preserves I (TaskCancel tid)"
begin

lemma queue_requests:
  "preserves I (TaskList E q)" "preserves I (TaskGet tid)" "preserves I (RunCanvas E cid)" "preserves I (CanvasNodeRun E cid nid node settings)"
proof -
  show "preserves I (TaskList E q)" "preserves I (TaskGet tid)"
    unfolding TaskList_def taskStore_List_def TaskGet_def taskStore_Get_def by (intro frame inv_plain)+
  show "preserves I (RunCanvas E cid)" "preserves I (CanvasNodeRun E cid nid node settings)"
    unfolding RunCanvas_def CanvasNodeRun_def by (rule create, simp add: int64_range_def)+
qed

end

subsection \<open>Assets\<close>

locale asset_writes = enqueues +
  assumes files: "ignores_files I"
    and tables: "ignores I backends_tbl" "ignores I assets_tbl" "ignores I thumbnails_tbl" "ignores I tags_tbl" "ignores I asset_tags_tbl"
      "ignores I groups_tbl" "ignores I members_tbl"
begin

lemmas asset_frame = frame files tables enqueue inv_plain

lemma asset_reads:
  "preserves I (assetRecords as)" "preserves I (record_of a)" "preserves I (AssetGet aid)" "preserves I (AssetList E q)" "preserves I (AssetSearch E q)"
  "preserves I (existing_object E bid key msg)" "preserves I (AssetContentPath E aid)" "preserves I (AssetThumbnailPath E aid)"
  "preserves I (StorageBackendList E bq)" "preserves I (AssetSearchParse E text)" "preserves I Me"
  unfolding assetRecords_def record_of_def AssetGet_def AssetSearch_def AssetList_def existing_object_def AssetContentPath_def AssetThumbnailPath_def
    assetThumbnailStore_ListByAssetIDs_def tagStore_ListByAssetIDs_def platformAssetStore_List_def platformAssetStore_Get_def storageBackendStore_Get_def
    assetThumbnailStore_GetByAsset_def StorageBackendList_def storageBackendStore_List_def AssetSearchParse_def Me_def featureFlagStore_List_def
    permissionStore_List_def Let_def
  by (intro asset_frame)+

lemma backend_writes:
  "preserves I (StorageBackendCreate E bc)" "preserves I (StorageBackendUpdate E bu)" "preserves I (ensureDefaultLocalBackend E)"
  unfolding StorageBackendCreate_def StorageBackendUpdate_def ensureDefaultLocalBackend_def with_local_root_def storageBackendStore_Get_def
    storageBackendStore_Add_def storageBackendStore_Update_def storageBackendStore_GetDefaultLocal_def
  by (intro asset_frame)+

lemma tag_writes: "preserves I (replaceAssetTags E aid names src)"
  unfolding replaceAssetTags_def tagStore_FirstOrCreate_def assetTagStore_Replace_def by (intro asset_frame)+

lemma stores_asset: "preserves I (register_asset E b a names)" "preserves I (createAssetFromReader E bytes filename names src)"
proof -
  show *: "preserves I (register_asset E b a names)" for b a
    unfolding register_asset_def platformAssetStore_Add_def assetThumbnailStore_Add_def by (intro asset_frame tag_writes asset_reads)+
  show "preserves I (createAssetFromReader E bytes filename names src)"
    unfolding createAssetFromReader_def store_content_def imageDimensions_def Let_def by (intro asset_frame backend_writes *)+
qed

lemma asset_writes:
  "preserves I (AssetUpload E filename bytes names src)" "preserves I (AssetUpdate E au)" "preserves I (AssetDelete E aid)"
  "preserves I (AssetGroupCreate E n ty d rule ids)" "preserves I (CanvasAssetRegisterOutput E cid nid aid metadata)"
  unfolding AssetUpload_def AssetUpdate_def AssetDelete_def AssetGroupCreate_def CanvasAssetRegisterOutput_def platformAssetStore_Get_def
    platformAssetStore_Update_def platformAssetStore_Delete_def assetGroupStore_Add_def assetGroupMemberStore_BatchAdd_def
  by (intro asset_frame stores_asset tag_writes asset_reads)+

lemma zip_writes: "preserves I (CanvasAssetDownloadZip E ids items)"
proof -
  have item: "preserves I (zip_item E i used it)" for i used it
    unfolding zip_item_def addFileToZip_def platformAssetStore_Get_def Let_def by (intro asset_frame asset_reads)+
  have "preserves I (zip_items E i used acc its)" for i used acc its
  proof (induction its arbitrary: i used acc)
    case (Cons it its)
    show ?case unfolding zip_items.simps by (intro asset_frame item Cons.IH)
  qed simp
  then show ?thesis unfolding CanvasAssetDownloadZip_def Let_def by (intro asset_frame)
qed

lemma chunk_writes:
  "preserves I (AssetChunkUploadInit E c r)" "preserves I (AssetChunkUploadPart E c checksum i body)" "preserves I (AssetChunkUploadCancel E c checksum)"
  unfolding AssetChunkUploadInit_def AssetChunkUploadPart_def AssetChunkUploadCancel_def touchChunkUploadDir_def uploadedChunkIndexes_def
    store_part_def or_remove_def
  by (intro asset_frame)+

lemma chunk_completes: "preserves I (AssetChunkUploadComplete E c r)"
proof -
  have "preserves I (merge_parts dir merged i n)" for dir merged i n
  proof (induction n arbitrary: i)
    case (Suc n)
    show ?case unfolding merge_parts.simps or_remove_def by (intro asset_frame Suc.IH)
  qed simp
  then show ?thesis unfolding AssetChunkUploadComplete_def or_remove_def Let_def by (intro asset_frame stores_asset)
qed

end

subsection \<open>Providers and models\<close>

locale provider_writes = plain_inv +
  assumes model_tables: "ignores I models_tbl" "ignores I llm_configs_tbl"
    and add_provider: "preserves I (providerStore_Add E p)"
    and update_provider: "preserves I (providerStore_Update p)"
    and delete_provider: "preserves I (providerStore_Delete pid)"
begin

lemmas provider_frame = frame model_tables add_provider update_provider delete_provider inv_plain

lemma provider_requests:
  "preserves I (ProviderList E q)" "preserves I (ProviderCreate E pc)" "preserves I (ProviderUpdate pu)" "preserves I (ProviderPresetInstall E key)"
  "preserves I (ProviderDelete pid)" "preserves I ProviderPresetList" "preserves I (ProviderTest E pid b a cr)"
  unfolding ProviderList_def ProviderCreate_def ProviderUpdate_def ProviderPresetInstall_def ProviderDelete_def ProviderPresetList_def ProviderTest_def
    providerStore_List_def providerStore_Get_def systemLLMConfigStore_DeleteByProviderID_def providerModelStore_DeleteByProviderID_def
    providerWithOverrides_def Let_def
  by (intro provider_frame)+

lemma model_requests:
  "preserves I (ProviderModelList E mq)" "preserves I (ProviderModelCreate E mc)" "preserves I (ProviderModelUpdate E mu)"
  "preserves I (ProviderModelDelete pid mid)" "preserves I (ProviderModelSync E pid)" "preserves I SystemLLMConfigList"
  "preserves I (SystemLLMConfigUpsert E specs)"
  unfolding ProviderModelList_def ProviderModelCreate_def ProviderModelUpdate_def ProviderModelDelete_def ProviderModelSync_def SystemLLMConfigUpsert_def
    SystemLLMConfigList_def ensureProviderModelUnique_def sync_model_def providerStore_Get_def providerModelStore_List_def providerModelStore_Get_def
    providerModelStore_Add_def providerModelStore_Update_def providerModelStore_Delete_def systemLLMConfigStore_List_def
    systemLLMConfigStore_Upsert_def systemLLMConfigStore_DeleteByProviderModelID_def Let_def
  by (intro provider_frame)+

end

subsection \<open>Canvases\<close>

locale canvas_writes = enqueues +
  assumes canvas_tables: "ignores I projects_tbl" "ignores I canvases_tbl"
begin

lemmas canvas_frame = frame canvas_tables inv_plain

lemmas canvas_store_defs = project_List_def project_Get_def project_Add_def project_Update_def project_Delete_def canvas_List_def canvas_Get_def
  canvas_Add_def canvas_Update_def canvas_SoftDelete_def canvas_Restore_def canvas_Purge_def canvas_CountByProject_def canvas_ReassignProject_def
  canvas_CleanupExpiredTrash_def ensureDefaultProject_def set_entries_def Let_def

lemma project_requests:
  "preserves I (ProjectList E)" "preserves I (ProjectCreate E n)" "preserves I (ProjectUpdate E pu)" "preserves I (ProjectDelete E pid)"
  unfolding ProjectList_def ProjectCreate_def ProjectUpdate_def ProjectDelete_def canvas_store_defs by (intro canvas_frame)+

lemma canvas_requests:
  "preserves I (CanvasList E)" "preserves I CanvasTrashList" "preserves I (CanvasCreate E cr)" "preserves I (CanvasGet cid)"
  "preserves I (CanvasGetMeta cid)" "preserves I (CanvasUpdateMeta E cm)" "preserves I (CanvasSave E sv)" "preserves I (CanvasExport cid)"
  "preserves I (CanvasImport E pid x)" "preserves I (CanvasTouch E cid)" "preserves I (CanvasSoftDelete E cid)" "preserves I (CanvasRestore E cid)"
  "preserves I (CanvasPurge cid)"
  unfolding CanvasList_def CanvasTrashList_def CanvasCreate_def CanvasGet_def CanvasGetMeta_def CanvasUpdateMeta_def CanvasSave_def CanvasExport_def
    CanvasImport_def CanvasTouch_def CanvasSoftDelete_def CanvasRestore_def CanvasPurge_def canvas_store_defs
  by (intro canvas_frame)+

lemma workflow_requests:
  "preserves I (CanvasWorkflowExport cid wx)" "preserves I (CanvasWorkflowImport E cid flow)"
  unfolding CanvasWorkflowExport_def CanvasWorkflowImport_def canvas_store_defs by (intro canvas_frame)+

lemma package_requests: "preserves I (CanvasWorkflowPackageExport E cid px)" "preserves I (CanvasWorkflowPackageImport E cid pkg)"
  unfolding CanvasWorkflowPackageExport_def CanvasWorkflowPackageImport_def platformAssetStore_Get_def
  by (intro canvas_frame workflow_requests add_task task_ok_defaults;
      simp add: new_task_def new_meta_def int64_range_def object_meta.defs task.defs)+

end

subsection \<open>Libraries\<close>

locale library_writes = plain_inv +
  assumes library_tables: "ignores I categories_tbl" "ignores I items_tbl"
    and add_library: "preserves I (assetLibrary_Add E l)"
    and update_library: "preserves I (assetLibrary_Update E l)"
    and delete_library: "preserves I (AssetLibraryDelete E lid)"
begin

lemmas library_frame = frame library_tables add_library update_library delete_library inv_plain

lemma library_requests:
  "preserves I (AssetLibraryList E q)" "preserves I (AssetLibraryCreate E n)" "preserves I (AssetLibraryUpdate E lid n)"
  "preserves I (AssetCategoryList E cl)" "preserves I (AssetCategoryCreate E lid n ty)" "preserves I (AssetCategoryUpdate E cid n)"
  "preserves I (AssetCategoryDelete cid lid)"
  unfolding AssetLibraryList_def AssetLibraryCreate_def AssetLibraryUpdate_def AssetCategoryList_def AssetCategoryCreate_def AssetCategoryUpdate_def
    AssetCategoryDelete_def assetLibrary_List_def assetCategory_List_def assetCategory_Add_def assetCategory_Update_def assetCategory_Delete_def
    rename_row_def delete_row_def
  by (intro library_frame)+

lemma item_requests:
  "preserves I (AssetItemList E il)" "preserves I (AssetItemCreate E ic)" "preserves I (AssetItemBatchCreate E lid cid es)"
  "preserves I (AssetItemUpdate E iid n)" "preserves I (AssetItemDelete iid)" "preserves I (AssetItemBatchDelete ids lid)"
  "preserves I (AssetItemBatchMove E im)" "preserves I (AssetItemClassify ids lid)"
  unfolding AssetItemList_def AssetItemCreate_def AssetItemBatchCreate_def AssetItemUpdate_def AssetItemDelete_def AssetItemBatchDelete_def
    AssetItemBatchMove_def AssetItemClassify_def media_category_def assetCategory_Get_def assetItem_List_def assetItem_Add_def assetItem_BatchAdd_def
    assetItem_Update_def assetItem_Delete_def assetItem_BatchDelete_def assetItem_BatchMove_def assetItem_FindByIDs_def rename_row_def delete_row_def Let_def
  by (intro library_frame)+

end

locale prompt_writes = plain_inv +
  assumes prompt_tables: "ignores I prompt_categories_tbl" "ignores I prompt_items_tbl"
    and add_prompts: "preserves I (promptLibrary_Add E (new_prompt_library\<lparr>obj_Name := n, lb_System := False, lb_Readonly := False\<rparr>))"
    and update_prompts: "preserves I (promptLibrary_Update E l)"
    and delete_prompts: "preserves I (promptLibrary_Delete lid)"
    and activate_prompts: "preserves I (promptLibrary_SetActive E lid)"
begin

lemmas prompt_frame = frame prompt_tables add_prompts update_prompts delete_prompts activate_prompts inv_plain

lemma prompt_requests:
  "preserves I PromptLibraryList" "preserves I (PromptLibraryCreate E n)" "preserves I (PromptLibraryUpdate E lid n)" "preserves I (PromptLibraryDelete lid)"
  "preserves I (PromptItemCreate E pq)" "preserves I (PromptItemUpdate E pq)" "preserves I (PromptItemDelete iid)" "preserves I (PromptItemBatchDelete ids)"
  "preserves I (PromptCategoryCreate E lid n)" "preserves I (PromptCategoryUpdate E cid n)" "preserves I (PromptCategoryDelete E cid lid)"
  unfolding PromptLibraryList_def PromptLibraryCreate_def PromptLibraryUpdate_def PromptLibraryDelete_def PromptItemCreate_def PromptItemUpdate_def
    PromptItemDelete_def PromptItemBatchDelete_def PromptCategoryCreate_def PromptCategoryUpdate_def PromptCategoryDelete_def buildLibraryFull_def
    promptLibrary_List_def promptLibrary_Get_def promptItem_ListByLibrary_def promptItem_Add_def promptItem_Update_def promptItem_Delete_def
    promptItem_BatchDelete_def promptItem_ReassignCategory_def promptCategory_ListByLibrary_def promptCategory_Add_def promptCategory_Update_def
    promptCategory_Delete_def rename_row_def delete_row_def Let_def
  by (intro prompt_frame)+

end

subsection \<open>Sign-on\<close>

lemma frame_pure [frame]: "preserves I (\<lambda>w. (f w, w))"
  by (rule preservesI) simp

lemma preserves_case_err [frame]:
  assumes "preserves I a" "preserves I b" "preserves I c" "preserves I d" "\<And>k x y. preserves I (f k x y)" "\<And>x y. preserves I (g x y)"
    "\<And>x. preserves I (h x)"
  shows "preserves I (case e of RecordNotFound \<Rightarrow> a | StoreFailure \<Rightarrow> b | IOFailure \<Rightarrow> c | NotExist \<Rightarrow> d
    | Status k x y \<Rightarrow> f k x y | Errorf x y \<Rightarrow> g x y | Panic x \<Rightarrow> h x)"
  using assms by (cases e) simp_all

lemma after_find_frame [frame]: "preserves I (after_find hook r)"
  unfolding after_find_def by (intro frame)

lemma frame_finds [frame]:
  assumes P: "plain I"
  shows "preserves I (find_with hook t r)" "preserves I (first_with hook' t P')" "preserves I (page_with hook'' E cols t q)"
proof -
  show "preserves I (find_with hook t r)"
    unfolding find_with_def by (rule stmt_preserves[OF P], rule preservesI) (auto simp: after_find_def split: list.split option.split)
  show "preserves I (first_with hook' t P')" unfolding first_with_def by (intro frame P)
  have "preserves I (\<lambda>w. case run_query (meta_columns @ cols) obj_CreatedAt q (rows t w) of None \<Rightarrow> (Inl StoreFailure, w)
      | Some (items, hits) \<Rightarrow> bindE (after_find (\<lambda>is. those (map hook'' is)) items) (\<lambda>rs. ret (rs, hits)) w)"
    by (rule preservesI) (auto simp: after_find_def bindE_def split: option.split prod.split)
  then show "preserves I (page_with hook'' E cols t q)" unfolding page_with_def by (intro frame P)
qed

locale sign_on_writes = plain_inv +
  assumes sign_on_tables: "ignores I settings_tbl" "ignores I idps_tbl" "ignores I sps_tbl" "ignores I otts_tbl" "ignores I otps_tbl"
begin

lemmas sign_on_frame = frame sign_on_tables inv_plain

lemma setting_rows: "preserves I (setting_GetByName n)" "preserves I (setting_Upsert E d)" "preserves I (ott_Add E k)"
  unfolding setting_GetByName_def setting_Upsert_def ott_Add_def Let_def by (intro sign_on_frame)+

lemma provider_rows:
  "preserves I (IdentityProviderList S E q protocol)" "preserves I (IdentityProviderGet S ip)" "preserves I (IdentityProviderAdd S E ip)"
  "preserves I (IdentityProviderUpdate S ip)" "preserves I (IdentityProviderDelete ip)" "preserves I (ssoIdp_GetByName S n)"
  "preserves I (ServiceProviderList S E q protocol)" "preserves I (ServiceProviderGet S sp)" "preserves I (ServiceProviderAdd E sp)"
  "preserves I (ServiceProviderUpdate S sp)" "preserves I (ServiceProviderDelete sp)" "preserves I (serviceProvider_GetByKey S E protocol k)"
  "preserves I (ServiceProviderGetRedirectURL S sp)"
  unfolding IdentityProviderList_def IdentityProviderGet_def IdentityProviderAdd_def IdentityProviderUpdate_def IdentityProviderDelete_def
    ServiceProviderList_def ServiceProviderGet_def ServiceProviderAdd_def ServiceProviderUpdate_def ServiceProviderDelete_def
    ServiceProviderGetRedirectURL_def ssoIdp_List_def ssoIdp_Get_def ssoIdp_GetByName_def ssoIdp_Add_def ssoIdp_create_def ssoIdp_Update_def
    ssoIdp_Delete_def serviceProvider_List_def serviceProvider_Get_def serviceProvider_GetByKey_def serviceProvider_Add_def serviceProvider_create_def
    serviceProvider_Update_def serviceProvider_Delete_def Let_def
  by (intro sign_on_frame)+

lemma metadata_requests:
  "preserves I (IdentityProviderSAMLMetadataUpsert S E mr)" "preserves I (ServiceProviderSAMLMetadataUpsert S E mr)"
  "preserves I (IdentityProviderSAMLMetadataGet L)" "preserves I (ServiceProviderSAMLMetadataGet L)"
  unfolding IdentityProviderSAMLMetadataUpsert_def ServiceProviderSAMLMetadataUpsert_def IdentityProviderSAMLMetadataGet_def
    ServiceProviderSAMLMetadataGet_def Let_def
  by (intro sign_on_frame setting_rows)+

lemma saml_requests:
  "preserves I (ServiceProviderSsoSamlInitiator L r)" "preserves I (ServiceProviderSsoSamlAcs L E rnd http r)" "preserves I (ServiceProviderSsoSamlSlo L u)"
  "preserves I (SAMLProtocolSSOAuth L E rnd ar)"
  unfolding ServiceProviderSsoSamlInitiator_def ServiceProviderSsoSamlAcs_def ServiceProviderSsoSamlSlo_def SAMLProtocolSSOAuth_def
    IdpAuthnRequest_Validate_def Let_def
  by (intro sign_on_frame setting_rows provider_rows)+

lemma identity_requests: "preserves I (UserGet uid)" "preserves I (UserOTPGet uid)" "preserves I (UserOTPGetOrAdd E codes uid)"
  unfolding UserGet_def user_Get_def UserOTPGet_def UserOTPGetOrAdd_def otp_GetByUser_def otp_Add_def otp_create_def
  by (intro sign_on_frame)+

end

end
