(* ===== verification/ServerLaws.thy ===== *)
theory ServerLaws
  imports Frames Routes WorkerLaws
begin

text \<open>
  What requests over HTTP do to the state of the server: the invariants of the services hold together under every request, whatever the handler;
  and what the binding of requests leaves out.
\<close>

subsection \<open>Handlers\<close>

named_theorems handler_rules "rules by which a handler keeps an invariant"

declare frame [handler_rules]

lemma done_with_preserves [handler_rules]: "preserves I m \<Longrightarrow> preserves I (done_with m)"
  unfolding done_with_def by (intro frame)

lemma core_Run_preserves [handler_rules]: "(\<And>r. preserves I (action r)) \<Longrightarrow> preserves I (core_Run d action)"
  unfolding core_Run_def by (intro frame)

lemma run_plain_preserves [handler_rules]: "preserves I m \<Longrightarrow> preserves I (run_plain m)"
  unfolding run_plain_def by (rule core_Run_preserves)

lemma run_bound_preserves: "(\<And>r. rd payload r0 = Inr r \<Longrightarrow> preserves I (action r)) \<Longrightarrow> preserves I (run_bound rd payload r0 action)"
  unfolding run_bound_def core_Run_def plain_request_def DecodeParameter_def by (cases "rd payload r0") simp_all

lemma run_bound_any [handler_rules]: "(\<And>r. preserves I (action r)) \<Longrightarrow> preserves I (run_bound rd payload r0 action)"
  by (rule run_bound_preserves)

lemma run_unbound_preserves [handler_rules]: "(\<And>r. preserves I (action r)) \<Longrightarrow> preserves I (run_unbound r action)"
  unfolding run_unbound_def by (rule core_Run_preserves)

text \<open>The number of attempts of a task is an \<open>int\<close> of Go.\<close>

definition int_attempts :: "'x gin_scheme \<Rightarrow> bool" where
  "int_attempts G \<longleftrightarrow> (\<forall>s r r'. gb_task_create G s r = Inr r' \<longrightarrow> int64_range (tr_MaxAttempts r'))"

text \<open>The contract of the whole server: what each service may touch, for one invariant.\<close>

locale serves = asset_writes I + provider_writes I + canvas_writes I + library_writes I + prompt_writes I + queue_writes I + sign_on_writes I
  for I :: "world \<Rightarrow> bool"
begin

lemmas request_rules = handler_rules asset_reads backend_writes asset_writes zip_writes chunk_writes chunk_completes provider_requests
  model_requests project_requests canvas_requests workflow_requests package_requests library_requests item_requests prompt_requests
  queue_requests cancel_task provider_rows metadata_requests saml_requests identity_requests

lemma create_task_preserves: "int_attempts G \<Longrightarrow> preserves I (platform_CreateTask G E payload)"
  unfolding platform_CreateTask_def by (intro run_bound_preserves create) (auto simp: int_attempts_def)

lemma platform_preserves: "int_attempts G \<Longrightarrow> preserves I (platform_run G E c payload h)"
  by (cases h; simp only: platform_run.simps; (unfold platform_Me_def platform_ListProviders_def platform_CreateProvider_def platform_ListProviderPresets_def
    platform_InstallProviderPreset_def platform_UpdateProvider_def platform_DeleteProvider_def platform_TestProvider_def platform_ListProviderModels_def
    platform_CreateProviderModel_def platform_UpdateProviderModel_def platform_DeleteProviderModel_def platform_SyncProviderModels_def
    platform_GetSystemLLMConfig_def platform_PutSystemLLMConfig_def platform_ListStorageBackends_def platform_CreateStorageBackend_def
    platform_UpdateStorageBackend_def platform_UploadAsset_def platform_InitAssetChunkUpload_def platform_UploadAssetChunk_def
    platform_CompleteAssetChunkUpload_def platform_CancelAssetChunkUpload_def platform_ListAssets_def platform_SearchAssets_def
    platform_ParseAssetSearch_def platform_GetAsset_def platform_UpdateAsset_def platform_DeleteAsset_def platform_GetAssetContent_def
    platform_GetAssetThumbnail_def platform_CreateAssetGroup_def platform_ListTasks_def platform_GetTask_def platform_CancelTask_def
    platform_TaskEvents_def platform_DownloadCanvasAssets_def platform_RegisterCanvasOutput_def platform_RunCanvasNode_def platform_GetCanvasRun_def
    platform_CancelCanvasRun_def)?;
    intro request_rules create_task_preserves; assumption?)

lemma canvas_preserves: "preserves I (canvas_run G E payload h)"
  by (cases h; simp only: canvas_run.simps; unfold canvas_ListCanvases_def canvas_ListTrash_def canvas_CreateCanvas_def canvas_GetCanvas_def
    canvas_GetCanvasMeta_def canvas_UpdateCanvasMeta_def canvas_SaveCanvas_def canvas_ExportCanvas_def canvas_ImportCanvas_def canvas_ExportWorkflow_def
    canvas_ImportWorkflow_def canvas_ExportWorkflowPackage_def canvas_ImportWorkflowPackage_def canvas_TouchCanvas_def canvas_DeleteCanvas_def
    canvas_RestoreCanvas_def canvas_PurgeCanvas_def canvas_ListProjects_def canvas_CreateProject_def canvas_UpdateProject_def canvas_DeleteProject_def;
    intro request_rules)

lemma asset_preserves: "preserves I (asset_run G E payload h)"
  by (cases h; simp only: asset_run.simps; unfold asset_ListLibraries_def asset_CreateLibrary_def asset_UpdateLibrary_def asset_DeleteLibrary_def
    asset_ListCategories_def asset_CreateCategory_def asset_UpdateCategory_def asset_DeleteCategory_def asset_ListItems_def asset_CreateItem_def
    asset_BatchCreateItems_def asset_UpdateItem_def asset_DeleteItem_def asset_BatchDeleteItems_def asset_BatchMoveItems_def asset_ClassifyItems_def;
    intro request_rules delete_library)

lemma prompt_preserves: "preserves I (prompt_run G E payload h)"
  by (cases h; simp only: prompt_run.simps; unfold prompt_ListLibraries_def prompt_CreateLibrary_def prompt_UpdateLibrary_def prompt_DeleteLibrary_def
    prompt_CreateItem_def prompt_UpdateItem_def prompt_DeleteItem_def prompt_BatchDeleteItems_def prompt_CreateCategory_def prompt_UpdateCategory_def
    prompt_DeleteCategory_def; intro request_rules)

lemma setting_preserves: "preserves I (setting_route L E r)"
  by (cases r; simp only: setting_route.simps; (unfold setting_IdentityProviderSAMLMetadataUpsert_def setting_IdentityProviderSAMLMetadataDownload_def
    setting_ServiceProviderSAMLMetadataUpsert_def setting_ServiceProviderSAMLMetadataDownload_def setting_IdentityProviderList_def
    setting_IdentityProviderGet_def setting_IdentityProviderAdd_def setting_IdentityProviderUpdate_def setting_IdentityProviderDelete_def
    setting_ServiceProviderList_def setting_ServiceProviderGet_def setting_ServiceProviderAdd_def setting_ServiceProviderUpdate_def
    setting_ServiceProviderDelete_def setting_ServiceProviderRedirectURL_def)?; intro request_rules)

lemma auth_preserves: "preserves I (auth_run G L E payload h)"
  by (cases h; simp only: auth_run.simps; unfold auth_OTPGenerateOrGet_def auth_OTPValidate_def SpSsoSamlInitiator_def SpSsoSamlAcs_def
    SpSsoSamlSLO_def IdpServeSAMLProtocolSSO_def Let_def; intro request_rules)

lemma serve_preserves: "int_attempts (gin.truncate G) \<Longrightarrow> preserves I (serve G L E c verb path payload)"
proof -
  assume "int_attempts (gin.truncate G)"
  then have "preserves I (handle G L E c payload h)" for h
    by (cases h) (simp_all add: platform_preserves canvas_preserves asset_preserves prompt_preserves setting_preserves auth_preserves)
  then show ?thesis unfolding serve_def by (intro frame)
qed

end

subsection \<open>The invariants\<close>

text \<open>What a service does to the table of another one, for an invariant that ignores it.\<close>

lemma queue_frame: "ignores I tasks_tbl \<Longrightarrow> preserves I (taskStore_Add E t)" "ignores I tasks_tbl \<Longrightarrow> preserves I (TaskCancel tid)"
  unfolding taskStore_Add_def TaskCancel_def taskStore_Cancel_def taskStore_Get_def taskStore_Update_def
  by (intro frame; (assumption | erule ignores_plain))+

lemma provider_frame:
  "ignores I providers_tbl \<Longrightarrow> preserves I (providerStore_Add E p)" "ignores I providers_tbl \<Longrightarrow> preserves I (providerStore_Update p)"
  "ignores I providers_tbl \<Longrightarrow> preserves I (providerStore_Delete pid)"
  unfolding providerStore_Add_def providerStore_Update_def providerStore_Delete_def by (intro frame; (assumption | erule ignores_plain))+

lemma library_frame:
  assumes "ignores I libraries_tbl" "ignores I categories_tbl" "ignores I items_tbl"
  shows "preserves I (assetLibrary_Add E l)" "preserves I (assetLibrary_Update E l)" "preserves I (AssetLibraryDelete E lid)"
  unfolding assetLibrary_Add_def assetLibrary_Update_def AssetLibraryDelete_def assetLibrary_List_def assetLibrary_Delete_def rename_row_def delete_row_def
  by (intro frame assms ignores_plain[OF assms(1)])+

lemma prompt_frame:
  assumes "ignores I prompt_libraries_tbl" "ignores I prompt_categories_tbl" "ignores I prompt_items_tbl"
  shows "preserves I (promptLibrary_Add E l)" "preserves I (promptLibrary_Update E l)" "preserves I (promptLibrary_Delete lid)"
    "preserves I (promptLibrary_SetActive E lid)"
  unfolding promptLibrary_Add_def promptLibrary_Update_def promptLibrary_Delete_def promptLibrary_SetActive_def rename_row_def delete_row_def
  by (intro frame assms ignores_plain[OF assms(1)])+

lemma provider_inv_ignores:
  "ignores_files provider_inv" "ignores provider_inv models_tbl" "ignores provider_inv llm_configs_tbl" "ignores provider_inv backends_tbl" "ignores provider_inv assets_tbl" "ignores provider_inv thumbnails_tbl" "ignores provider_inv tags_tbl"
    "ignores provider_inv asset_tags_tbl" "ignores provider_inv groups_tbl" "ignores provider_inv members_tbl" "ignores provider_inv tasks_tbl" "ignores provider_inv projects_tbl" "ignores provider_inv canvases_tbl"
    "ignores provider_inv libraries_tbl" "ignores provider_inv categories_tbl" "ignores provider_inv items_tbl" "ignores provider_inv prompt_libraries_tbl" "ignores provider_inv prompt_categories_tbl" "ignores provider_inv prompt_items_tbl"
    "ignores provider_inv otps_tbl" "ignores provider_inv otts_tbl" "ignores provider_inv settings_tbl" "ignores provider_inv idps_tbl" "ignores provider_inv sps_tbl"
  by (simp_all add: ignores_files_def ignores_def provider_inv_plain provider_inv_def)

lemma library_inv_ignores:
  "ignores_files library_inv" "ignores library_inv providers_tbl" "ignores library_inv models_tbl" "ignores library_inv llm_configs_tbl" "ignores library_inv backends_tbl" "ignores library_inv assets_tbl" "ignores library_inv thumbnails_tbl"
    "ignores library_inv tags_tbl" "ignores library_inv asset_tags_tbl" "ignores library_inv groups_tbl" "ignores library_inv members_tbl" "ignores library_inv tasks_tbl" "ignores library_inv projects_tbl"
    "ignores library_inv canvases_tbl" "ignores library_inv categories_tbl" "ignores library_inv items_tbl" "ignores library_inv prompt_libraries_tbl" "ignores library_inv prompt_categories_tbl" "ignores library_inv prompt_items_tbl"
    "ignores library_inv otps_tbl" "ignores library_inv otts_tbl" "ignores library_inv settings_tbl" "ignores library_inv idps_tbl" "ignores library_inv sps_tbl"
  by (simp_all add: ignores_files_def ignores_def library_inv_plain library_inv_def)

lemma one_active_ignores:
  "ignores_files one_active" "ignores one_active providers_tbl" "ignores one_active models_tbl" "ignores one_active llm_configs_tbl" "ignores one_active backends_tbl" "ignores one_active assets_tbl" "ignores one_active thumbnails_tbl"
    "ignores one_active tags_tbl" "ignores one_active asset_tags_tbl" "ignores one_active groups_tbl" "ignores one_active members_tbl" "ignores one_active tasks_tbl" "ignores one_active projects_tbl"
    "ignores one_active canvases_tbl" "ignores one_active libraries_tbl" "ignores one_active categories_tbl" "ignores one_active items_tbl" "ignores one_active prompt_categories_tbl" "ignores one_active prompt_items_tbl"
    "ignores one_active otps_tbl" "ignores one_active otts_tbl" "ignores one_active settings_tbl" "ignores one_active idps_tbl" "ignores one_active sps_tbl"
  by (simp_all add: ignores_files_def ignores_def active_plain(1) one_active_def)

lemma tasks_inv_ignores:
  "ignores_files tasks_inv" "ignores tasks_inv providers_tbl" "ignores tasks_inv models_tbl" "ignores tasks_inv llm_configs_tbl" "ignores tasks_inv backends_tbl" "ignores tasks_inv assets_tbl" "ignores tasks_inv thumbnails_tbl"
    "ignores tasks_inv tags_tbl" "ignores tasks_inv asset_tags_tbl" "ignores tasks_inv groups_tbl" "ignores tasks_inv members_tbl" "ignores tasks_inv projects_tbl" "ignores tasks_inv canvases_tbl"
    "ignores tasks_inv libraries_tbl" "ignores tasks_inv categories_tbl" "ignores tasks_inv items_tbl" "ignores tasks_inv prompt_libraries_tbl" "ignores tasks_inv prompt_categories_tbl" "ignores tasks_inv prompt_items_tbl"
    "ignores tasks_inv otps_tbl" "ignores tasks_inv otts_tbl" "ignores tasks_inv settings_tbl" "ignores tasks_inv idps_tbl" "ignores tasks_inv sps_tbl"
  by (simp_all add: ignores_files_def ignores_def tasks_inv_plain tasks_inv_def)

interpretation served_providers: serves provider_inv
  by unfold_locales (rule provider_inv_plain provider_inv_ignores queue_frame library_frame prompt_frame Add_provider_inv Update_provider_inv
    Delete_provider_inv)+

interpretation served_libraries: serves library_inv
  by unfold_locales (rule library_inv_plain library_inv_ignores queue_frame provider_frame prompt_frame Add_library_inv Update_library_inv
    Delete_library_inv)+

interpretation served_prompts: serves one_active
  by unfold_locales (rule active_plain(1) one_active_ignores queue_frame provider_frame library_frame library_rows_active
    SetActive_preserves)+

interpretation served_tasks: serves tasks_inv
  by unfold_locales (rule tasks_inv_plain tasks_inv_ignores provider_frame library_frame prompt_frame Add_tasks_inv Cancel_tasks_inv[folded TaskCancel_def]
    | assumption)+

subsection \<open>The server and its workers\<close>

text \<open>What a worker does, for an invariant that ignores tasks, assets, thumbnails and files.\<close>

locale worker_writes = asset_writes +
  assumes task_table: "ignores I tasks_tbl"
begin

lemmas worker_frame = asset_frame task_table

lemma ffmpeg_frame: "preserves I (run_ffmpeg E p q)"
  unfolding run_ffmpeg_def by (rule preservesI) (auto simp: file_steps[OF files] split: option.split sum.split)

lemma process_frame: "preserves I (process E t)"
  unfolding process_def processAssetThumbnail_def processAssetProbe_def write_thumbnail_def finish_thumbnail_def writeVideoThumbnail_def
    writeImageThumbnail_def probeFile_def worker_imageDimensions_def platformAssetStore_Get_def platformAssetStore_Update_def
    assetThumbnailStore_GetByAsset_def assetThumbnailStore_Update_def storageBackendStore_Get_def Let_def
  by (intro worker_frame ffmpeg_frame)

lemma runOnce_frame: "preserves I (runOnce E opts)"
  unfolding runOnce_def run_task_def taskStore_Claim_def taskStore_Update_def Let_def by (intro worker_frame process_frame)

lemma Run_frame: "I w \<Longrightarrow> I (Run E opts n w)"
proof -
  have "I w \<Longrightarrow> I (polls E ro n w)" for ro
    by (induction n arbitrary: w) (simp_all add: preservesD[OF runOnce_frame])
  then show "I w \<Longrightarrow> I (Run E opts n w)" by (simp add: Run_def)
qed

end

interpretation worker_providers: worker_writes provider_inv
  by unfold_locales (rule provider_inv_ignores)

interpretation worker_libraries: worker_writes library_inv
  by unfold_locales (rule library_inv_ignores)

interpretation worker_prompts: worker_writes one_active
  by unfold_locales (rule one_active_ignores)

lemma Run_tasks_inv: "tasks_inv w \<Longrightarrow> tasks_inv (Run E opts n w)"
proof -
  assume w: "tasks_inv w"
  obtain h where steps: "(worker_step E)\<^sup>*\<^sup>* \<lparr>qs_world = w, qs_hand = []\<rparr> \<lparr>qs_world = polls E (run_defaults opts) n w, qs_hand = h\<rparr>"
    using polls_steps by blast
  have "queue_inv \<lparr>qs_world = w, qs_hand = []\<rparr>" using w by (simp add: queue_inv_def)
  from worker.run_inv[OF steps this] show ?thesis by (simp add: queue_inv_def Run_def)
qed

text \<open>
  What can happen: a request, a number of polls of a worker, a sweep of stale chunks, the passing of time, and a change of which statements and
  calls will fail.
\<close>

datatype event =
    Request string string string
  | Poll run_options nat
  | Sweep chunk_config time
  | Pass time
  | Outage "bool list"

fun system_step :: "http \<Rightarrow> saml \<Rightarrow> env \<Rightarrow> chunk_config \<Rightarrow> event \<Rightarrow> world \<Rightarrow> world" where
  "system_step G L E c (Request verb path payload) w = snd (serve G L E c verb path payload w)"
| "system_step G L E c (Poll opts n) w = Run E opts n w"
| "system_step G L E c (Sweep cfg ttl) w = snd (cleanupChunkUploadDirs E cfg ttl w)"
| "system_step G L E c (Pass d) w = w\<lparr>w_now := w_now w + d\<rparr>"
| "system_step G L E c (Outage fs) w = w\<lparr>w_faults := fs\<rparr>"

definition server_inv :: "world \<Rightarrow> bool" where
  "server_inv w \<longleftrightarrow> provider_inv w \<and> library_inv w \<and> one_active w \<and> tasks_inv w"

context asset_writes
begin

lemma cleanup_frame: "preserves I (cleanupChunkUploadDirs E cfg ttl)"
  unfolding cleanupChunkUploadDirs_def cleanup_entry_def by (intro asset_frame)

end

lemma system_step_inv:
  assumes G: "int_attempts (gin.truncate G)" and w: "server_inv w"
  shows "server_inv (system_step G L E c e w)"
proof (cases e)
  case (Request verb path payload)
  note kept = served_providers.serve_preserves[OF G] served_libraries.serve_preserves[OF G] served_prompts.serve_preserves[OF G]
    served_tasks.serve_preserves[OF G]
  show ?thesis using w by (simp add: Request server_inv_def kept[THEN preservesD])
next
  case (Poll opts n)
  show ?thesis using w
    by (simp add: Poll server_inv_def worker_providers.Run_frame worker_libraries.Run_frame worker_prompts.Run_frame Run_tasks_inv)
next
  case (Sweep cfg ttl)
  note kept = served_providers.cleanup_frame served_libraries.cleanup_frame served_prompts.cleanup_frame served_tasks.cleanup_frame
  show ?thesis using w by (simp add: Sweep server_inv_def kept[THEN preservesD])
next
  case (Pass d)
  then show ?thesis using w by (simp add: server_inv_def provider_inv_def library_inv_def one_active_def tasks_inv_def)
next
  case (Outage fs)
  then show ?thesis using w by (simp add: server_inv_def provider_inv_def library_inv_def one_active_def tasks_inv_def)
qed

text \<open>
  C5. The invariants of the services hold together, whatever the server is asked. Take any sequence of HTTP requests (of any method, to any
  path, with any payload), polls of workers, sweeps of stale uploads, passing of time, and changes of which statements and calls fail: provider names
  and identifiers stay unique, library names stay unique and a library is left, at most one prompt library is active, and every task is
  well formed. No handler of one controller breaks what another service promises. The one thing asked of gin is that the number of attempts of a
  task is an \<open>int\<close>.
\<close>

theorem server_invariant:
  assumes "int_attempts (gin.truncate G)" and "server_inv w"
  shows "server_inv (fold (system_step G L E c) events w)"
  using assms(2)
proof (induction events arbitrary: w)
  case (Cons e events)
  show ?case using Cons.IH[OF system_step_inv[OF assms(1) Cons.prems]] by simp
qed simp

lemma sample_attempts: "int_attempts (gin.truncate sample_http)"
  by (auto simp: int_attempts_def sample_http_def http.make_def gin.truncate_def int64_range_def)

lemma sample_server_inv: "server_inv library_world"
  unfolding server_inv_def by (intro conjI) code_simp+

lemma server_invariant_witness:
  "server_inv (fold (system_step sample_http sample_saml sample_env \<lparr>cc_Dir = [], cc_Hours = 1\<rparr>)
     [Request ''POST'' ''/api/v1/prompt-libraries'' ''A'', Outage [False, True], Request ''DELETE'' ''/api/v1/asset-library/libraries/l1'' [],
      Pass 5, Poll \<lparr>ro_Queue = [], ro_WorkerID = [], ro_Limit = 0, ro_Lease = 0, ro_PollInterval = 0\<rparr> 3, Request ''GET'' ''/'' []] library_world)"
  by (rule server_invariant[OF sample_attempts sample_server_inv])

end
