(* ===== verification/Spec2Isabelle.thy ===== *)
theory Spec2Isabelle
  imports TaskQueue StoragePath ModelLaws NamingLaws AssetLinks ChunkLaws WorkerLaws CanvasLaws LibraryLaws PromptLaws IdentityLaws SamlLaws Shadows RequestLaws ServerLaws
begin

text \<open>
  A verification library of OmniMAM, a media asset manager written in Go (\<open>src/backend\<close>): an API server whose
  services keep assets, asset and prompt libraries, providers and their models, canvases, users, sign-on providers, settings and a queue of tasks in
  PostgreSQL and in the file system, and a worker that claims tasks and processes them. The library models the routes and controllers, the services, the stores under them and the
  worker, and proves what makes them correct under every schedule of database and disk failures. Where the code does not do what it means to,
  a theorem says what it does.

  \<^bold>\<open>How the code is modelled.\<close> A method of the code is a function from a world to an error or a
  result and a new world (\<open>'a m\<close>, theory Prelude). The world (theory World) has a list of rows for every table, the files and
  directories, the clock, the number of UUIDs drawn, and a schedule of faults that lets any statement or file operation fail.
  A gorm statement is one of \<open>db_find\<close>, \<open>db_first\<close>, \<open>db_create\<close>, \<open>db_save\<close>, \<open>db_update\<close>, \<open>db_delete\<close>, \<open>db_page\<close>;
  \<open>transaction\<close> restores the tables when its body or its commit fails. \<open>Find\<close> without an order takes the rows in the order of the table. An error that
  the code ignores is \<open>attempt\<close>. Go's
  \<open>int\<close> is an integer with \<open>wrap64\<close> where arithmetic can leave the 64 bits; strings are byte
  strings; \<open>map[string]any\<close> is a partial function to the datatype \<open>any\<close> of JSON values.

  \<^bold>\<open>Parameters.\<close> What is not under \<open>src\<close>, or is the machine, is a field of the record \<open>env\<close>: UUIDs, Unicode tables,
  SHA-256, content sniffing, image decoding and PNG encoding, ffmpeg, MIME tables, date formats, what gorm's
  \<open>Count\<close> returns after a limit, whether gorm's \<open>Updates\<close> touches \<open>updated_at\<close>, and the answers of model providers. Theorems hold for every value of
  them; \<open>sample_env\<close> is the instance of the witnesses. Cryptography, XML and tokens of sign-on are the records \<open>sso\<close> and \<open>saml\<close>, the encoders of
  text columns the record \<open>json\<close>; what gin reads from a request and the route that it takes are the records \<open>gin\<close> and \<open>http\<close>. What a theorem needs of them is a named hypothesis.

  \<^bold>\<open>Theories and code\<close> (paths under \<open>src/backend\<close>):
  \<^item> Prelude: combinators of fallible stateful operations, Hoare triples and invariants through them (\<open>preserves\<close>, \<open>yields\<close>, \<open>triple\<close>), the
    locale \<open>invariant_machine\<close> of step relations; \<open>pkg/general\<close>.
  \<^item> GoStrings, GoPath: the functions of \<open>strings\<close>, \<open>strconv\<close>, \<open>fmt\<close>, \<open>path/filepath\<close> that the code calls, with the normal form of
    cleaned paths, round trips of number formats and the split and join of lists.
  \<^item> Codes: the status codes of \<open>internal/pkg/code\<close> and their registration, which is up to date and does not panic.
  \<^item> Machinery: \<open>apis/imachinery/meta.go\<close> and \<open>list.go\<close>: object metadata and its hooks, list queries.
  \<^item> World, Files: \<open>apis/iapiserver/meta_platform.go\<close> and \<open>meta_asset.go\<close> as records, tables, statements, transactions, the locale \<open>table_lens\<close>
    of a table in the world, interpreted for every table; files.
  \<^item> Stores: \<open>internal/apiserver/store/postgresql/platform.go\<close> and \<open>helper.go\<close>.
  \<^item> TaskQueue: tasks in store, service and worker, and the step relation \<open>queue_step\<close> of requests and workers that interleave.
    Reachable states satisfy the queue invariant; claims take the best claimable tasks and exclude each other; ended tasks stay ended.
  \<^item> Providers, ProviderLaws, ModelLaws: providers, models, LLM configurations and presets of \<open>service/v1/platform/service.go\<close>.
  \<^item> StoragePath: \<open>localObjectPath\<close> (service and worker), \<open>chunkUploadDir\<close>; the locale \<open>jail\<close> says that paths stay below the root.
  \<^item> Naming, NamingLaws: object names, zip entry names, media types, list parameters, the parser of natural-language queries.
  \<^item> Assets, AssetLaws, AssetLinks: uploads, lists, deletion, contents, thumbnails, groups, tags, zip downloads.
  \<^item> ChunkUpload, ChunkLaws: chunked uploads, their resumption, merging, cancellation and cleanup.
  \<^item> Worker, WorkerLaws: \<open>worker/processor.go\<close>; the worker refines the task queue, and what it reports as a ready
    thumbnail is what the API server serves.
  \<^item> Canvas, CanvasLaws: \<open>service/v1/canvas/project.go\<close> over \<open>canvas.go\<close> and \<open>project.go\<close>: saves with conflict
    detection, export and import, the trash, projects. Requests are a datatype and a run is a list of them.

  \<^item> Libraries, LibraryLaws: \<open>service/v1/asset/0_service.go\<close> over the stores of libraries, categories and items.
  \<^item> Prompts, PromptLaws: \<open>service/v1/prompt/prompt.go\<close> and its stores; one library is the active one.
  \<^item> Identity, IdentityLaws: users, one-time passwords, one-time tokens and settings.
  \<^item> GoUrl: the functions of \<open>net/url\<close> and \<open>encoding/base64\<close> that the code calls, with a reader of query strings.
  \<^item> Sso, SsoLaws: \<open>meta_sso.go\<close>, the stores and services of identity and service providers, OAuth2 in both roles.
  \<^item> Saml, SamlLaws: \<open>sso_auth_idp_saml.go\<close>, \<open>sso_auth_sp_saml.go\<close> and \<open>sso_meta.go\<close>: SAML in both roles.
  \<^item> Api: \<open>pkg/core\<close>, and the controllers of settings and authentication with their routes.
  \<^item> Controllers: the controllers of \<open>controller/v1\<close> (platform, canvas, asset, prompt, one-time passwords) with their requests.
  \<^item> Routes, RouteLaws: the table of \<open>route.go\<close>, the handler of every route, and \<open>serve\<close>: one request from its method, path and payload. Every
    route is reached at its addresses and no route hides another.
  \<^item> RequestLaws: what the binding leaves out: categories that no request deletes, renames that every request is refused.
  \<^item> Frames, ServerLaws: which tables each service writes, as locales over an invariant; the locale \<open>serves\<close> puts them together for a whole request, and
    its interpretations carry the invariants of the services through any sequence of requests, polls, sweeps and failures.
  \<^item> Shadows: the columns that hold JSON text, with the hooks that write and read them; the locale \<open>shadowed\<close> says that they implement the rows of World.

  \<^bold>\<open>Interleaving.\<close> \<open>queue_step\<close> interleaves the steps of requests and workers on the queue; \<open>system_step\<close> takes whole
  requests, polls and sweeps one after another. Statements of two requests on other tables are not interleaved.

  \<^bold>\<open>Bounds.\<close> Loops over slices are structural recursion; the merge of chunks and the search for sizes in a query recurse on a number
  or a list. The only open-ended loop, the polling of the worker, is a number of polls, and its theorem holds for every number. The hook of one-time
  passwords calls itself and is a \<open>partial_function (option)\<close>. Thumbnail sizes
  are proved for sides below \<open>2 ^ 31\<close>, the largest that Go's image decoders give.

  \<^bold>\<open>Not modelled.\<close> HTTP and gRPC servers, middleware and command line (\<open>pkg/httpsvr\<close>, \<open>pkg/grpcsvr\<close>, \<open>pkg/app\<close>,
  \<open>pkg/options\<close>): input, output and wiring of gin, gRPC and cobra. How gin binds a request to a struct, which is reflection, and the redirects of its router; the middleware for
  tokens, which no route uses; the validators of \<open>pkg/validator\<close>, which only a test registers; the writing of an answer as JSON. The HTTP client of model providers (\<open>provider/openai_compatible.go\<close>), whose answers are parameters. The code
  generators under \<open>src/tools\<close>, which work on Go syntax trees of third-party packages, and the generated code. Background tickers, of which one round is modelled.
\<close>

end
